(* ===== verification/Rpc_Prelude.thy ===== *)
theory Rpc_Prelude
  imports Main "HOL-Library.Word"
begin

text \<open>
  Shared vocabulary of the development: the machine-integer types of the C++ sources, the
  faults that stand for undefined behaviour and exceptions, the sequencing combinator
  \<open>andThen\<close> over fallible steps, and the generic lemmas on byte lists, folds and words that
  the component theories use.  No definition here models a particular function of the sources.
\<close>

section \<open>Machine types and faults\<close>

unbundle bit_operations_syntax

type_synonym u8 = "8 word"
type_synonym u16 = "16 word"
type_synonym u32 = "32 word"
type_synonym u64 = "64 word"
type_synonym bytes = "u8 list"

text \<open>
  A reading pointer into a byte buffer is the list of bytes from the pointer to the end of the
  buffer; \<open>None\<close> is \<open>nullptr\<close>.
\<close>

type_synonym rptr = "bytes option"

datatype fault =
    Overrun          \<comment> \<open>an access past the end of a buffer or of a fixed-size array\<close>
  | Null_deref       \<comment> \<open>a read through \<open>nullptr\<close>\<close>
  | Bad_object       \<comment> \<open>the memory cell read does not hold a value of the type it is read at\<close>
  | Bad_class        \<comment> \<open>\<open>createMessage\<close> throws \<open>std::invalid_argument\<close>\<close>
  | Length_error     \<comment> \<open>\<open>std::string::assign\<close> with a negative length throws\<close>
  | No_progress      \<comment> \<open>a loop whose body does not advance\<close>
  | Out_of_fuel      \<comment> \<open>nesting deeper than the bound given to the model\<close>
  | Misaligned       \<comment> \<open>an aligned load or store at another address\<close>
  | Bad_delete       \<comment> \<open>\<open>delete\<close> of an object that \<open>new\<close> did not allocate\<close>
  | Exit             \<comment> \<open>the program prints an error and calls \<open>exit\<close>\<close>

type_synonym 'a result = "fault + 'a"

definition andThen :: "'a result \<Rightarrow> ('a \<Rightarrow> 'b result) \<Rightarrow> 'b result" where
  "andThen r f = (case r of Inl e \<Rightarrow> Inl e | Inr x \<Rightarrow> f x)"

lemma andThen_Inl [simp]: "andThen (Inl e) f = Inl e"
  by (simp add: andThen_def)

lemma andThen_Inr [simp]: "andThen (Inr x) f = f x"
  by (simp add: andThen_def)

lemma andThen_eq_Inr:
  "andThen r f = Inr y \<longleftrightarrow> (\<exists>x. r = Inr x \<and> f x = Inr y)"
  by (cases r) simp_all

lemma andThen_assoc: "andThen (andThen r f) g = andThen r (\<lambda>x. andThen (f x) g)"
  by (cases r) simp_all

lemma andThen_cong [fundef_cong]:
  "r = r' \<Longrightarrow> (\<And>x. r' = Inr x \<Longrightarrow> f x = g x) \<Longrightarrow> andThen r f = andThen r' g"
  by (cases r') simp_all

text \<open>A loop whose body may fail.\<close>

fun each :: "('a \<Rightarrow> 's \<Rightarrow> 's result) \<Rightarrow> 'a list \<Rightarrow> 's \<Rightarrow> 's result" where
  "each f [] s = Inr s"
| "each f (x # xs) s = andThen (f x s) (each f xs)"

lemma each_append: "each f (xs @ ys) s = andThen (each f xs s) (each f ys)"
  by (induction xs arbitrary: s) (simp_all add: andThen_def split: sum.split)

lemma andThen_each_Nil [simp]: "andThen r (each f []) = r"
  by (cases r) simp_all

lemma each_each: "each (\<lambda>x. each f (g x)) xs s = each f (concat (map g xs)) s"
  by (induction xs arbitrary: s) (simp_all add: each_append andThen_def split: sum.split)

lemma each_total: "(\<And>x s. x \<in> set xs \<Longrightarrow> f x s = Inr (g x s)) \<Longrightarrow> each f xs s = Inr (fold g xs s)"
  by (induction xs arbitrary: s) simp_all

lemma each_Inr:
  assumes "each (\<lambda>x s. andThen (q x) (\<lambda>y. Inr (h x y s))) xs s = Inr s'"
  shows "s' = fold (\<lambda>x. h x (projr (q x))) xs s" "x \<in> set xs \<Longrightarrow> \<exists>y. q x = Inr y"
  using assms by (induction xs arbitrary: s) (auto simp: andThen_eq_Inr)

text \<open>A check that ends the program when it fails.\<close>

definition require :: "bool \<Rightarrow> unit result" where
  "require b = (if b then Inr () else Inl Exit)"

lemma require_simps [simp]: "require True = Inr ()" "require False = Inl Exit"
  "require b = Inr u \<longleftrightarrow> b"
  by (simp_all add: require_def)

section \<open>Automation collections\<close>

named_theorems codec_specs
  \<open>what each writer appends and each reader consumes\<close>

named_theorems size_specs
  \<open>what each size function computes\<close>

section \<open>Lists and folds\<close>

lemma fold_append_concat:
  "(\<And>x b. x \<in> set xs \<Longrightarrow> f x b = b @ g x) \<Longrightarrow> fold f xs b = b @ concat (map g xs)"
  by (induction xs arbitrary: b) simp_all

lemma fold_plus_sum_list:
  "fold (\<lambda>x n. n + f x) xs (n :: 'a :: comm_monoid_add) = n + sum_list (map f xs)"
  by (induction xs arbitrary: n) (simp_all add: add.assoc)

lemma of_nat_length_concat:
  "(of_nat (length (concat (map g xs))) :: 'a :: semiring_1)
     = sum_list (map (\<lambda>x. of_nat (length (g x))) xs)"
  by (induction xs) simp_all

lemma not_less_eq_lt: "\<not> (i :: nat) < n \<Longrightarrow> i \<le> n \<Longrightarrow> i = n"
  by simp

section \<open>Words\<close>

lemma unat_of_nat_small:
  "n < 2 ^ LENGTH('a) \<Longrightarrow> unat (of_nat n :: 'a::len word) = n"
  by (simp add: unat_of_nat take_bit_nat_eq_self)

lemma unat_less: "unat (w :: 'a::len word) < 2 ^ LENGTH('a)"
  by (rule unsigned_less)

lemma ucast_of_nat_down:
  assumes "LENGTH('b) \<le> LENGTH('a)"
  shows "(ucast (of_nat n :: 'a::len word) :: 'b::len word) = of_nat n"
  using assms by transfer simp

lemma ucast_add_down:
  assumes "LENGTH('b) \<le> LENGTH('a)"
  shows "(ucast (x + y :: 'a::len word) :: 'b::len word) = ucast x + ucast y"
proof -
  have "x + y = of_nat (unat x + unat y)" by simp
  then have "(ucast (x + y) :: 'b word) = of_nat (unat x + unat y)"
    using assms by (metis ucast_of_nat_down)
  then show ?thesis by simp
qed

lemma unat_drop_bit_div: "unat (drop_bit n (w :: 'a::len word)) = unat w div 2 ^ n"
  by (metis unat_drop_bit_eq drop_bit_eq_div)

lemma scast_of_small:
  assumes "unat (w :: 'a::len word) < 2 ^ (LENGTH('a) - 1)"
  shows "(scast w :: 'b::len word) = of_nat (unat w)"
proof -
  have "sint w = signed_take_bit (LENGTH('a) - 1) (uint w)"
    by (simp add: sint_uint)
  also have "\<dots> = uint w"
  proof (rule signed_take_bit_int_eq_self)
    show "- (2 ^ (LENGTH('a) - 1)) \<le> uint w"
      by (rule order.trans [of _ 0]) simp_all
    show "uint w < 2 ^ (LENGTH('a) - 1)"
      using assms by (metis of_nat_less_iff of_nat_numeral of_nat_power uint_nat)
  qed
  finally show ?thesis
    by (metis of_int_of_nat_eq uint_nat word_of_int_uint scast_eq)
qed

lemma word_of_nat_unat_ucast: "(ucast (w :: 'a::len word) :: 'b::len word) = of_nat (unat w)"
  by simp

lemma ucast_of_nat_small:
  assumes "x < 2 ^ LENGTH('a)"
  shows "(ucast (of_nat x :: 'a::len word) :: 'b::len word) = of_nat x"
proof -
  have "unat (of_nat x :: 'a word) = x" using assms by (rule unat_of_nat_small)
  then show ?thesis by (metis word_of_nat_unat_ucast)
qed

lemma of_nat_mod_word:
  "(of_nat (n mod 2 ^ LENGTH('a)) :: 'a::len word) = of_nat n"
  by (metis word_of_nat_eq_iff take_bit_eq_mod mod_mod_trivial)

section \<open>Little-endian bytes\<close>

text \<open>Clearing the low bits rounds down.\<close>

lemma and_not_mask: "(x :: 'a::len word) AND NOT (mask k) = x div 2 ^ k * 2 ^ k"
proof -
  have "x AND NOT (mask k) = push_bit k (drop_bit k x)" by (rule bit_word_eqI) (auto simp: bit_simps)
  then show ?thesis by (simp add: push_bit_eq_mult drop_bit_eq_div)
qed

text \<open>\<open>le_bytes k n\<close>: the \<open>k\<close> low bytes of \<open>n\<close>, least significant first, as \<open>memcpy\<close> of an
  integer lays them out on the x86-64 hosts the sources are built for.\<close>

fun le_bytes :: "nat \<Rightarrow> nat \<Rightarrow> bytes" where
  "le_bytes 0 n = []"
| "le_bytes (Suc k) n = of_nat (n mod 256) # le_bytes k (n div 256)"

fun le_nat :: "bytes \<Rightarrow> nat" where
  "le_nat [] = 0"
| "le_nat (b # bs) = unat b + 256 * le_nat bs"

lemma length_le_bytes [simp]: "length (le_bytes k n) = k"
  by (induction k arbitrary: n) simp_all

lemma le_nat_le_bytes: "le_nat (le_bytes k n) = n mod 256 ^ k"
proof (induction k arbitrary: n)
  case 0
  then show ?case by simp
next
  case (Suc k)
  have u: "unat (of_nat (n mod 256) :: u8) = n mod 256"
    by (rule unat_of_nat_small) simp
  have "le_nat (le_bytes (Suc k) n) = n mod 256 + 256 * (n div 256 mod 256 ^ k)"
    using u by (simp add: Suc)
  also have "\<dots> = n mod (256 * 256 ^ k)"
    by (simp add: mod_mult2_eq)
  finally show ?case by simp
qed

end
