(* ===== verification/MemCtl.thy ===== *)
theory MemCtl
  imports Rpc_Prelude
begin

text \<open>
  The allocator of DMA memory, \<open>MemCtl\<close> in \<open>utils/QDMAController.cpp\<close> (lines 246 to 314).  The two
  \<open>std::map\<close>s from chunk address to chunk size are lists in ascending order of address; each call is
  one step here, and \<open>Locks\<close> has the mutex and the steps inside the calls.  The invariant \<open>mem_inv\<close> says that the free and the used
  chunks tile the pool, are 64-byte aligned and that no two free chunks touch.
\<close>

section \<open>Ordered maps\<close>

type_synonym chunks = "(u64 \<times> u64) list"

fun map_put :: "u64 \<Rightarrow> u64 \<Rightarrow> chunks \<Rightarrow> chunks" where
  "map_put k v [] = [(k, v)]"
| "map_put k v ((a, b) # xs) =
     (if k < a then (k, v) # (a, b) # xs
      else if k = a then (k, v) # xs
      else (a, b) # map_put k v xs)"

definition map_erase :: "u64 \<Rightarrow> chunks \<Rightarrow> chunks" where
  "map_erase k xs = filter (\<lambda>p. fst p \<noteq> k) xs"

text \<open>\<open>upper_bound(k)\<close> splits a map into the entries before the iterator and those from it on.\<close>

definition before_upper :: "u64 \<Rightarrow> chunks \<Rightarrow> chunks" where
  "before_upper k xs = takeWhile (\<lambda>p. fst p \<le> k) xs"

definition from_upper :: "u64 \<Rightarrow> chunks \<Rightarrow> chunks" where
  "from_upper k xs = dropWhile (\<lambda>p. fst p \<le> k) xs"

section \<open>The allocator\<close>

record mem_ctl =
  pool_size :: u64
  free_chunk :: chunks
  used_chunk :: chunks

datatype mem_fault =
    Not_in_alloc_log   \<comment> \<open>the error message and \<open>exit(1)\<close>\<close>
  | Prev_of_begin      \<comment> \<open>\<open>std::prev\<close> of the first iterator of a map, undefined behaviour\<close>

definition findFreeChunk :: "chunks \<Rightarrow> u64 \<Rightarrow> u64 \<times> u64" where
  "findFreeChunk freeChunk mSize =
     (case find (\<lambda>it. mSize \<le> snd it) freeChunk of Some it \<Rightarrow> it | None \<Rightarrow> (0, 0))"

definition contains :: "chunks \<Rightarrow> u64 \<Rightarrow> bool" where
  "contains mp addr \<longleftrightarrow> map_of mp addr \<noteq> None"

text \<open>\<open>(size + 64UL - 1) & ~(64UL - 1)\<close>\<close>

definition round64 :: "u64 \<Rightarrow> u64" where
  "round64 n = (n + 64 - 1) AND NOT (64 - 1)"

text \<open>The result is the pointer, 0 for \<open>nullptr\<close>, and the new state.\<close>

definition alloc :: "u64 \<Rightarrow> mem_ctl \<Rightarrow> u64 \<times> mem_ctl" where
  "alloc n st =
     (let n = round64 n;
          (free_addr, free_size) = findFreeChunk (free_chunk st) n
      in if free_addr = 0 then (0, st)
         else if n < free_size then
           (free_addr + free_size - n,
            st\<lparr>free_chunk := map_put free_addr (free_size - n) (free_chunk st),
               used_chunk := map_put (free_addr + free_size - n) n (used_chunk st)\<rparr>)
         else
           (free_addr,
            st\<lparr>free_chunk := map_erase free_addr (free_chunk st),
               used_chunk := map_put free_addr n (used_chunk st)\<rparr>))"

text \<open>Merging with the chunk before, when there is one that ends at \<open>ptr\<close>; the code takes
  \<open>std::prev\<close> of the iterator whenever the map of free chunks is not empty.\<close>

definition merge_prev :: "u64 \<Rightarrow> u64 \<Rightarrow> chunks \<Rightarrow> mem_fault + u64 \<times> u64" where
  "merge_prev ptr free_size fr =
     (if fr = [] then Inr (ptr, free_size)
      else if before_upper ptr fr = [] then Inl Prev_of_begin
      else
        let prevIt = last (before_upper ptr fr) in
        if fst prevIt + snd prevIt = ptr then Inr (fst prevIt, free_size + snd prevIt)
        else Inr (ptr, free_size))"

definition merge_next :: "u64 \<Rightarrow> u64 \<Rightarrow> chunks \<Rightarrow> chunks \<Rightarrow> chunks" where
  "merge_next ptr free_size nextIt fr =
     (case nextIt of
        [] \<Rightarrow> map_put ptr free_size fr
      | (next_addr, next_size) # _ \<Rightarrow>
          if ptr + free_size = next_addr then
            map_put ptr (free_size + next_size) (map_erase next_addr fr)
          else map_put ptr free_size fr)"

definition mem_free :: "u64 \<Rightarrow> mem_ctl \<Rightarrow> mem_fault + mem_ctl" where
  "mem_free ptr st =
     (case map_of (used_chunk st) ptr of
        None \<Rightarrow> Inl Not_in_alloc_log
      | Some free_size \<Rightarrow>
          let used = map_erase ptr (used_chunk st);
              nextIt = from_upper ptr (free_chunk st)
          in case merge_prev ptr free_size (free_chunk st) of
               Inl e \<Rightarrow> Inl e
             | Inr (ptr, free_size) \<Rightarrow>
                 Inr (st\<lparr>used_chunk := used,
                         free_chunk := merge_next ptr free_size nextIt (free_chunk st)\<rparr>))"

section \<open>Maps as sets of chunks\<close>

abbreviation ascending :: "chunks \<Rightarrow> bool" where
  "ascending xs \<equiv> sorted_wrt (<) (map fst xs)"

lemma set_map_put: "ascending xs \<Longrightarrow> set (map_put k v xs) = insert (k, v) {p \<in> set xs. fst p \<noteq> k}"
  by (induction k v xs rule: map_put.induct) auto

lemma ascending_map_put: "ascending xs \<Longrightarrow> ascending (map_put k v xs)"
proof (induction k v xs rule: map_put.induct)
  case (2 k v a b xs)
  then show ?case by (auto simp: set_map_put)
qed simp

lemma set_map_erase: "set (map_erase k xs) = {p \<in> set xs. fst p \<noteq> k}"
  by (auto simp: map_erase_def)

lemma ascending_map_erase: "ascending xs \<Longrightarrow> ascending (map_erase k xs)"
  by (induction xs) (auto simp: map_erase_def)

lemma map_of_iff: "ascending xs \<Longrightarrow> map_of xs k = Some v \<longleftrightarrow> (k, v) \<in> set xs"
proof (induction xs)
  case (Cons p xs)
  then show ?case by (cases p) (auto dest: map_of_SomeD)
qed simp

text \<open>The entry before the iterator has the largest key up to \<open>k\<close>, the one at it the smallest above.\<close>

lemma in_before_upper:
  "ascending xs \<Longrightarrow> set (before_upper k xs) = {q \<in> set xs. fst q \<le> k}"
  by (induction xs) (auto simp: before_upper_def)

lemma ascending_last: "ascending ys \<Longrightarrow> q \<in> set ys \<Longrightarrow> fst q \<le> fst (last ys)"
  by (induction ys) (auto intro: less_imp_le)

lemma ascending_before_upper: "ascending xs \<Longrightarrow> ascending (before_upper k xs)"
  unfolding before_upper_def
  by (metis (no_types, lifting) map_append sorted_wrt_append takeWhile_dropWhile_id)

lemma last_before_upper:
  assumes "ascending xs" and "before_upper k xs \<noteq> []"
  shows "last (before_upper k xs) \<in> set xs" "fst (last (before_upper k xs)) \<le> k"
    "q \<in> set xs \<Longrightarrow> fst q \<le> k \<Longrightarrow> fst q \<le> fst (last (before_upper k xs))"
  using last_in_set [OF assms(2)] in_before_upper [OF assms(1), of k]
    ascending_last [OF ascending_before_upper [OF assms(1)], of q k] by auto

lemma before_upper_Nil: "ascending xs \<Longrightarrow> before_upper k xs = [] \<longleftrightarrow> (\<forall>q \<in> set xs. k < fst q)"
  by (cases xs) (auto simp: before_upper_def not_le intro: less_trans)

lemma from_upper_Nil: "from_upper k xs = [] \<longleftrightarrow> (\<forall>q \<in> set xs. fst q \<le> k)"
  by (auto simp: from_upper_def dropWhile_eq_Nil_conv)

lemma hd_from_upper:
  assumes "ascending xs" and "from_upper k xs = n # ns"
  shows "n \<in> set xs" "k < fst n" "q \<in> set xs \<Longrightarrow> k < fst q \<Longrightarrow> fst n \<le> fst q"
  using assms
  by (induction xs) (auto simp: from_upper_def not_le split: if_splits)

section \<open>Tilings\<close>

definition ivl :: "u64 \<times> u64 \<Rightarrow> nat set" where
  "ivl p = {unat (fst p) ..< unat (fst p) + unat (snd p)}"

text \<open>A set of non-empty chunks that are pairwise disjoint and fill the interval.\<close>

definition tiles :: "(u64 \<times> u64) set \<Rightarrow> nat \<Rightarrow> nat \<Rightarrow> bool" where
  "tiles S lo hi \<longleftrightarrow> (\<forall>p \<in> S. 0 < unat (snd p)) \<and> (\<Union>p \<in> S. ivl p) = {lo ..< hi}
     \<and> (\<forall>p \<in> S. \<forall>q \<in> S. p \<noteq> q \<longrightarrow> ivl p \<inter> ivl q = {})"

lemma tiles_pos: "tiles S lo hi \<Longrightarrow> p \<in> S \<Longrightarrow> 0 < unat (snd p)"
  by (simp add: tiles_def)

lemma tiles_bounds:
  assumes "tiles S lo hi" and "p \<in> S"
  shows "lo \<le> unat (fst p)" "unat (fst p) + unat (snd p) \<le> hi"
proof -
  have pos: "0 < unat (snd p)" using assms by (rule tiles_pos)
  have sub: "ivl p \<subseteq> {lo ..< hi}" using assms by (auto simp: tiles_def)
  have "unat (fst p) \<in> ivl p" "unat (fst p) + unat (snd p) - 1 \<in> ivl p"
    using pos by (auto simp: ivl_def)
  then have "unat (fst p) \<in> {lo ..< hi}" "unat (fst p) + unat (snd p) - 1 \<in> {lo ..< hi}"
    using sub by blast+
  with pos show "lo \<le> unat (fst p)" "unat (fst p) + unat (snd p) \<le> hi"
    unfolding atLeastLessThan_iff by linarith+
qed

lemma tiles_disjoint:
  assumes "tiles S lo hi" and "p \<in> S" and "q \<in> S" and "unat (fst p) \<le> unat (fst q)" and "p \<noteq> q"
  shows "unat (fst p) + unat (snd p) \<le> unat (fst q)"
proof (rule ccontr)
  assume "\<not> ?thesis"
  then have "unat (fst q) \<in> ivl p \<inter> ivl q"
    using assms(4) tiles_pos [OF assms(1,3)] by (simp add: ivl_def)
  moreover have "ivl p \<inter> ivl q = {}"
    using assms(1-3,5) unfolding tiles_def by blast
  ultimately show False by blast
qed

lemma tiles_same_start:
  "tiles S lo hi \<Longrightarrow> p \<in> S \<Longrightarrow> q \<in> S \<Longrightarrow> fst p = fst q \<Longrightarrow> p = q"
  using tiles_disjoint [of S lo hi p q] tiles_pos [of S lo hi p] by fastforce

text \<open>Replacing some chunks by others that fill the same space.\<close>

lemma tiles_replace:
  assumes "tiles (P \<union> S) lo hi" and "P \<inter> S = {}" and "(\<Union>p \<in> P. ivl p) = (\<Union>p \<in> Q. ivl p)"
    and "\<forall>p \<in> Q. 0 < unat (snd p)" and "\<forall>p \<in> Q. \<forall>q \<in> Q. p \<noteq> q \<longrightarrow> ivl p \<inter> ivl q = {}"
  shows "tiles (Q \<union> S) lo hi" "Q \<inter> S = {}"
proof -
  have apart: "ivl q \<inter> ivl p = {}" if "q \<in> Q" "p \<in> S" for p q
  proof -
    have "ivl p \<inter> ivl r = {}" if r: "r \<in> P" for r
    proof -
      have "p \<noteq> r" using r \<open>p \<in> S\<close> assms(2) by blast
      then show ?thesis using r \<open>p \<in> S\<close> assms(1) unfolding tiles_def by blast
    qed
    then show ?thesis using \<open>q \<in> Q\<close> assms(3) by blast
  qed
  have ne: "ivl p \<noteq> {}" if "p \<in> Q" for p using that assms(4) by (auto simp: ivl_def)
  show "Q \<inter> S = {}" using apart ne by blast
  show "tiles (Q \<union> S) lo hi"
    unfolding tiles_def
  proof (intro conjI ballI impI)
    show "0 < unat (snd p)" if "p \<in> Q \<union> S" for p
      using that assms(1,4) unfolding tiles_def by blast
    show "(\<Union>p \<in> Q \<union> S. ivl p) = {lo ..< hi}"
      using assms(1,3) by (simp add: tiles_def)
    show "ivl p \<inter> ivl q = {}" if "p \<in> Q \<union> S" "q \<in> Q \<union> S" "p \<noteq> q" for p q
    proof -
      have "p \<in> S \<Longrightarrow> q \<in> S \<Longrightarrow> ?thesis" using assms(1) \<open>p \<noteq> q\<close> unfolding tiles_def by blast
      moreover have "p \<in> Q \<Longrightarrow> q \<in> Q \<Longrightarrow> ?thesis" using assms(5) \<open>p \<noteq> q\<close> by blast
      moreover have "p \<in> S \<Longrightarrow> q \<in> Q \<Longrightarrow> ?thesis" "p \<in> Q \<Longrightarrow> q \<in> S \<Longrightarrow> ?thesis"
        using apart by blast+
      ultimately show ?thesis using that(1,2) by blast
    qed
  qed
qed

section \<open>The invariant\<close>

definition chunk_aligned :: "u64 \<times> u64 \<Rightarrow> bool" where
  "chunk_aligned p \<longleftrightarrow> 64 dvd unat (fst p) \<and> 64 dvd unat (snd p)"

definition apart :: "u64 \<times> u64 \<Rightarrow> u64 \<times> u64 \<Rightarrow> bool" where
  "apart p q \<longleftrightarrow> unat (fst p) + unat (snd p) \<noteq> unat (fst q)"

definition mem_inv :: "nat \<Rightarrow> nat \<Rightarrow> mem_ctl \<Rightarrow> bool" where
  "mem_inv lo hi st \<longleftrightarrow> 0 < lo \<and> hi < 2 ^ 64
     \<and> ascending (free_chunk st) \<and> ascending (used_chunk st)
     \<and> set (free_chunk st) \<inter> set (used_chunk st) = {}
     \<and> tiles (set (free_chunk st) \<union> set (used_chunk st)) lo hi
     \<and> (\<forall>p \<in> set (free_chunk st) \<union> set (used_chunk st). chunk_aligned p)
     \<and> (\<forall>p \<in> set (free_chunk st). \<forall>q \<in> set (free_chunk st). apart p q)"

text \<open>The state the constructor leaves: one free chunk, the pool.\<close>

definition new_pool :: "u64 \<Rightarrow> u64 \<Rightarrow> mem_ctl" where
  "new_pool base n = \<lparr>pool_size = n, free_chunk = [(base, n)], used_chunk = []\<rparr>"

lemma new_pool_inv:
  assumes "0 < unat base" "unat base + unat n < 2 ^ 64" "chunk_aligned (base, n)" "0 < unat n"
  shows "mem_inv (unat base) (unat base + unat n) (new_pool base n)"
  using assms by (simp add: mem_inv_def new_pool_def tiles_def ivl_def apart_def)

section \<open>Allocation\<close>

lemma round64_div: "round64 n = (n + 63) div 64 * 64"
proof -
  have m: "(63 :: u64) = mask 6" by (simp add: mask_eq_exp_minus_1)
  have a: "n + 64 - 1 = n + 63" by simp
  have "round64 n = (n + 63) AND NOT (mask 6)"
    unfolding round64_def a by (simp add: m)
  also have "\<dots> = push_bit 6 (drop_bit 6 (n + 63))"
    by (rule bit_word_eqI) (auto simp: bit_simps)
  finally show ?thesis by (simp add: push_bit_eq_mult drop_bit_eq_div)
qed

lemma unat_round64:
  assumes "unat n + 63 < 2 ^ 64"
  shows "unat (round64 n) = (unat n + 63) div 64 * 64"
proof -
  have u: "unat (n + 63) = unat n + 63"
    using assms by (simp add: unat_word_ariths(1))
  have "(unat n + 63) div 64 * 64 < 2 ^ 64"
    using assms by (metis div_times_less_eq_dividend le_less_trans)
  then show ?thesis
    by (simp add: round64_div unat_word_ariths(2) unat_div u)
qed

lemma find_chunk:
  "find (\<lambda>it. n \<le> snd it) fr = Some c \<Longrightarrow> c \<in> set fr \<and> n \<le> snd c"
  by (auto simp: find_Some_iff)

text \<open>The sizes a caller may ask for: positive, and small enough that rounding up does not wrap.\<close>

definition sane_size :: "u64 \<Rightarrow> bool" where
  "sane_size n \<longleftrightarrow> 0 < unat n \<and> unat n + 63 < 2 ^ 64"

lemma round_up_nat:
  fixes x :: nat
  shows "x \<le> (x + 63) div 64 * 64" "(x + 63) div 64 * 64 < x + 64"
  by presburger+

lemma round64_sane:
  assumes "sane_size n"
  shows "0 < unat (round64 n)" "64 dvd unat (round64 n)" "unat n \<le> unat (round64 n)"
    "unat (round64 n) < unat n + 64"
proof -
  have e: "unat (round64 n) = (unat n + 63) div 64 * 64"
    using assms by (intro unat_round64) (simp add: sane_size_def)
  have "0 < unat n" using assms by (simp add: sane_size_def)
  then show "0 < unat (round64 n)" using round_up_nat(1) [of "unat n"] unfolding e by linarith
  show "64 dvd unat (round64 n)" unfolding e by (rule dvd_triv_right)
  show "unat n \<le> unat (round64 n)" "unat (round64 n) < unat n + 64"
    unfolding e by (rule round_up_nat)+
qed

text \<open>Every other size is rounded to zero.\<close>

lemma round64_zero:
  assumes "\<not> sane_size n"
  shows "round64 n = 0"
proof (cases "n = 0")
  case True
  then show ?thesis by (simp add: round64_div div_word_less)
next
  case False
  then have "2 ^ 64 - 63 \<le> unat n" using assms by (simp add: sane_size_def unat_gt_0)
  moreover have "unat n < 2 ^ 64" using unsigned_less [of n, where 'a = nat] by simp
  ultimately have "(unat n + 63) mod 2 ^ 64 = unat n + 63 - 2 ^ 64" "unat n + 63 - 2 ^ 64 < 64"
    by (simp_all add: le_mod_geq)
  then have "unat (n + 63) < 64" by (simp add: unat_word_ariths(1))
  then show ?thesis by (simp add: round64_div div_word_less word_less_nat_alt)
qed

lemma word_top_part:
  fixes a s n :: u64
  assumes "n \<le> s" and "unat a + unat s < 2 ^ 64"
  shows "unat (a + s - n) = unat a + unat s - unat n" "unat (s - n) = unat s - unat n"
proof -
  show d: "unat (s - n) = unat s - unat n" using assms(1) by (simp add: unat_sub word_le_nat_alt)
  have "unat n \<le> unat s" using assms(1) by (simp add: word_le_nat_alt)
  have "unat (a + (s - n)) = unat a + (unat s - unat n)"
    using assms(2) d by (simp add: unat_word_ariths(1))
  then have "unat (a + s - n) = unat a + (unat s - unat n)"
    by (simp only: add_diff_eq)
  then show "unat (a + s - n) = unat a + unat s - unat n"
    using \<open>unat n \<le> unat s\<close> by simp
qed

lemma sets_map_put:
  assumes "ascending xs" and "\<And>p. p \<in> set xs \<Longrightarrow> fst p \<noteq> k"
  shows "set (map_put k v xs) = insert (k, v) (set xs)"
  using assms by (auto simp: set_map_put)

lemma mem_invD:
  assumes "mem_inv lo hi st"
  shows "0 < lo" "hi < 2 ^ 64" "ascending (free_chunk st)" "ascending (used_chunk st)"
    "set (free_chunk st) \<inter> set (used_chunk st) = {}"
    "tiles (set (free_chunk st) \<union> set (used_chunk st)) lo hi"
    "p \<in> set (free_chunk st) \<Longrightarrow> chunk_aligned p" "p \<in> set (used_chunk st) \<Longrightarrow> chunk_aligned p"
    "p \<in> set (free_chunk st) \<Longrightarrow> q \<in> set (free_chunk st) \<Longrightarrow> apart p q"
  using assms unfolding mem_inv_def by blast+

text \<open>The three outcomes of a call.\<close>

lemma alloc_cases:
  obtains
    (none) "find (\<lambda>it. round64 n \<le> snd it) (free_chunk st) = None" "alloc n st = (0, st)"
  | (zero) s where "(0, s) \<in> set (free_chunk st)" "alloc n st = (0, st)"
  | (part) a s where "(a, s) \<in> set (free_chunk st)" "a \<noteq> 0" "round64 n < s"
      "alloc n st = (a + s - round64 n,
         st\<lparr>free_chunk := map_put a (s - round64 n) (free_chunk st),
            used_chunk := map_put (a + s - round64 n) (round64 n) (used_chunk st)\<rparr>)"
  | (whole) a where "(a, round64 n) \<in> set (free_chunk st)" "a \<noteq> 0"
      "alloc n st = (a, st\<lparr>free_chunk := map_erase a (free_chunk st),
            used_chunk := map_put a (round64 n) (used_chunk st)\<rparr>)"
proof (cases "find (\<lambda>it. round64 n \<le> snd it) (free_chunk st)")
  case None
  then show ?thesis by (intro none) (simp_all add: alloc_def findFreeChunk_def)
next
  case (Some c)
  obtain a s where c: "c = (a, s)" by (cases c)
  have as: "(a, s) \<in> set (free_chunk st)" "round64 n \<le> s"
    using find_chunk [OF Some] by (simp_all add: c)
  show ?thesis
  proof (cases "a = 0")
    case True
    with as Some c show ?thesis by (intro zero) (simp_all add: alloc_def findFreeChunk_def)
  next
    case False
    show ?thesis
    proof (cases "round64 n < s")
      case True
      with as False Some c show ?thesis
        by (intro part) (simp_all add: alloc_def findFreeChunk_def Let_def)
    next
      case no: False
      with as have "s = round64 n" by simp
      with as False Some c show ?thesis by (intro whole) (simp_all add: alloc_def findFreeChunk_def)
    qed
  qed
qed

text \<open>One successful call: the free and used chunks change by the block handed out.\<close>

definition takes :: "mem_ctl \<Rightarrow> u64 \<times> u64 \<Rightarrow> mem_ctl \<Rightarrow> bool" where
  "takes st b st' \<longleftrightarrow> set (used_chunk st') = insert b (set (used_chunk st)) \<and> b \<notin> set (used_chunk st)
     \<and> (\<exists>c \<in> set (free_chunk st). ivl b \<subseteq> ivl c)"

lemma alloc_part_inv:
  assumes inv: "mem_inv lo hi st" and c: "(a, s) \<in> set (free_chunk st)" and n: "n < s" "0 < unat n" "64 dvd unat n"
    and st': "st' = st\<lparr>free_chunk := map_put a (s - n) (free_chunk st),
            used_chunk := map_put (a + s - n) n (used_chunk st)\<rparr>"
  shows "mem_inv lo hi st' \<and> takes st (a + s - n, n) st'"
proof -
  let ?F = "set (free_chunk st)" and ?U = "set (used_chunk st)"
  let ?P = "{(a, s)}" and ?S = "(?F - {(a, s)}) \<union> ?U" and ?low = "(a, s - n)" and ?b = "(a + s - n, n)"
  note I = mem_invD [OF inv]
  have FU: "?P \<union> ?S = ?F \<union> ?U" "?P \<inter> ?S = {}" using c I(5) by auto
  then have t: "tiles (?P \<union> ?S) lo hi" using I(6) by simp
  have bound: "unat a + unat s < 2 ^ 64"
    using tiles_bounds(2) [OF I(6), of "(a, s)"] c I(2) by simp
  have ns: "n \<le> s" "unat n < unat s"
    using n(1) by (simp_all add: word_less_nat_alt word_le_nat_alt)
  note W = word_top_part [OF ns(1) bound]
  have Q: "(\<Union>p \<in> ?P. ivl p) = (\<Union>p \<in> {?low, ?b}. ivl p)" "ivl ?low \<inter> ivl ?b = {}"
    using ns W by (auto simp: ivl_def)
  have disj: "ivl ?b \<inter> ivl ?low = {}" using Q(2) by blast
  have Qpos: "\<forall>p \<in> {?low, ?b}. 0 < unat (snd p)" using ns W n(2) by simp
  have Qdisj: "\<forall>p \<in> {?low, ?b}. \<forall>q \<in> {?low, ?b}. p \<noteq> q \<longrightarrow> ivl p \<inter> ivl q = {}"
    using Q(2) disj by blast
  note R = tiles_replace [OF t FU(2) Q(1) Qpos Qdisj]
  have start: "p \<in> ?F \<union> ?U \<Longrightarrow> fst p = a \<Longrightarrow> p = (a, s)" for p
    using tiles_same_start [OF I(6), of p "(a, s)"] c by simp
  have F': "set (free_chunk st') = insert ?low (?F - {(a, s)})"
    using start c by (auto simp: st' set_map_put [OF I(3)])
  have bU: "fst p \<noteq> fst ?b" if "p \<in> ?U" for p
  proof
    assume "fst p = fst ?b"
    then have "p = ?b" using tiles_same_start [OF R(1), of p ?b] that by simp
    then show False using R(2) that by blast
  qed
  have U': "set (used_chunk st') = insert ?b ?U"
    using sets_map_put [OF I(4), of "a + s - n" n] bU by (simp add: st')
  have all: "set (free_chunk st') \<union> set (used_chunk st') = {?low, ?b} \<union> ?S"
    using F' U' by auto
  have ne: "?low \<noteq> ?b" using Q(2) Qpos by (auto simp: ivl_def)
  have inter: "set (free_chunk st') \<inter> set (used_chunk st') = {}"
    using F' U' R(2) ne I(5) by auto
  have al: "chunk_aligned (a, s)" using I(7) c by blast
  then have alQ: "chunk_aligned ?low" "chunk_aligned ?b"
    using n(3) W ns by (simp_all add: chunk_aligned_def dvd_diff_nat dvd_add)
  have apart_low: "apart ?low q" "apart q ?low" if "q \<in> ?F - {(a, s)} \<or> q = ?low" for q
  proof -
    have "unat a + (unat s - unat n) \<noteq> unat (fst q)"
    proof (cases "q = ?low")
      case False
      then have q: "q \<in> ?F" "q \<noteq> (a, s)" using that by auto
      show ?thesis
      proof
        assume e: "unat a + (unat s - unat n) = unat (fst q)"
        then have "unat (fst (a, s)) + unat (snd (a, s)) \<le> unat (fst q)"
          using tiles_disjoint [OF I(6), of "(a, s)" q] q c by simp
        with e ns n(2) show False by simp
      qed
    qed (use ns in simp)
    then show "apart ?low q" using W by (simp add: apart_def)
    show "apart q ?low"
    proof (cases "q = ?low")
      case True
      then show ?thesis using W ns by (simp add: apart_def)
    next
      case False
      then show ?thesis using that I(9) [of q "(a, s)"] c by (auto simp: apart_def)
    qed
  qed
  have "mem_inv lo hi st'"
    unfolding mem_inv_def
    using I(1,2) ascending_map_put [OF I(3)] ascending_map_put [OF I(4)] R(1) all inter alQ
      I(7,8,9) apart_low F'
    by (intro conjI) (auto simp: st')
  moreover have "ivl ?b \<subseteq> ivl (a, s)" using Q(1) by auto
  moreover have "?b \<notin> ?U" using R(2) by blast
  ultimately show ?thesis
    using U' c by (auto simp: takes_def)
qed

lemma alloc_whole_inv:
  assumes inv: "mem_inv lo hi st" and c: "(a, n) \<in> set (free_chunk st)"
    and st': "st' = st\<lparr>free_chunk := map_erase a (free_chunk st),
            used_chunk := map_put a n (used_chunk st)\<rparr>"
  shows "mem_inv lo hi st' \<and> takes st (a, n) st'"
proof -
  let ?F = "set (free_chunk st)" and ?U = "set (used_chunk st)"
  note I = mem_invD [OF inv]
  have start: "p \<in> ?F \<union> ?U \<Longrightarrow> fst p = a \<Longrightarrow> p = (a, n)" for p
    using tiles_same_start [OF I(6), of p "(a, n)"] c by simp
  have cU: "(a, n) \<notin> ?U" using c I(5) by blast
  have F': "set (free_chunk st') = ?F - {(a, n)}"
    using start by (auto simp: st' set_map_erase)
  have U': "set (used_chunk st') = insert (a, n) ?U"
  proof -
    have "fst p \<noteq> a" if "p \<in> ?U" for p using start [of p] that cU by auto
    then show ?thesis using sets_map_put [OF I(4), of a n] by (simp add: st')
  qed
  have "set (free_chunk st') \<union> set (used_chunk st') = ?F \<union> ?U" using F' U' c by auto
  moreover have "set (free_chunk st') \<inter> set (used_chunk st') = {}" using F' U' I(5) by auto
  ultimately have "mem_inv lo hi st'"
    unfolding mem_inv_def
    using I ascending_map_erase [OF I(3)] ascending_map_put [OF I(4)] F'
    by (intro conjI) (auto simp: st')
  then show ?thesis using U' cU c by (auto simp: takes_def)
qed

text \<open>A call that returns a pointer hands out the rounded size at that address.\<close>

lemma alloc_takes:
  assumes "mem_inv lo hi st" and "sane_size n" and "alloc n st = (p, st')" and "p \<noteq> 0"
  shows "mem_inv lo hi st' \<and> takes st (p, round64 n) st'"
  using alloc_cases [of n st]
proof cases
  case (part a s)
  then have "p = a + s - round64 n" using assms(3) by simp
  then show ?thesis
    using alloc_part_inv [OF assms(1) part(1,3)] round64_sane [OF assms(2)] part(4) assms(3) by auto
next
  case (whole a)
  then have "p = a" using assms(3) by simp
  then show ?thesis
    using alloc_whole_inv [OF assms(1) whole(1)] whole(3) assms(3) by auto
qed (use assms(3,4) in auto)

text \<open>It returns \<open>nullptr\<close> only when no free chunk is large enough, and then changes nothing.\<close>

lemma alloc_null:
  assumes "mem_inv lo hi st" and "sane_size n" and "alloc n st = (0, st')"
  shows "st' = st \<and> (\<forall>c \<in> set (free_chunk st). snd c < round64 n)"
  using alloc_cases [of n st]
proof cases
  case none
  then show ?thesis using assms(3) by (auto simp: find_None_iff not_le)
next
  case (zero s)
  then have "lo \<le> 0" using tiles_bounds(1) [OF mem_invD(6) [OF assms(1)], of "(0, s)"] by simp
  then show ?thesis using mem_invD(1) [OF assms(1)] by simp
next
  case (part a s)
  have "0 < lo" "tiles (set (free_chunk st) \<union> set (used_chunk st)) lo hi"
    using mem_invD(1,6) [OF assms(1)] by blast+
  moreover have "mem_inv lo hi st'" "takes st (0, round64 n) st'"
    using alloc_part_inv [OF assms(1) part(1,3)] round64_sane [OF assms(2)] part(4) assms(3) by auto
  then have "lo \<le> 0"
    using tiles_bounds(1) [OF mem_invD(6), of lo hi st' "(0, round64 n)"] by (auto simp: takes_def)
  ultimately show ?thesis by simp
qed (use assms(3) in auto)

lemma alloc_inv:
  assumes "mem_inv lo hi st" and "sane_size n"
  shows "mem_inv lo hi (snd (alloc n st))"
proof (cases "alloc n st")
  case (Pair p st')
  then show ?thesis
    using alloc_takes [OF assms Pair] alloc_null [OF assms] assms(1) by (cases "p = 0") auto
qed

section \<open>Release\<close>

text \<open>The block on its way back: it tiles the pool together with the free chunks \<open>F\<close> not yet merged
  with it and the used chunks \<open>U\<close>, and no free chunk ends where it starts.\<close>

definition pending :: "nat \<Rightarrow> nat \<Rightarrow> (u64 \<times> u64) set \<Rightarrow> (u64 \<times> u64) set \<Rightarrow> u64 \<times> u64 \<Rightarrow> bool" where
  "pending lo hi F U b \<longleftrightarrow> tiles ({b} \<union> (F \<union> U)) lo hi \<and> b \<notin> F \<union> U \<and> F \<inter> U = {}
     \<and> (\<forall>p \<in> {b} \<union> (F \<union> U). chunk_aligned p) \<and> (\<forall>p \<in> F. \<forall>q \<in> F. apart p q) \<and> (\<forall>q \<in> F. apart q b)"

lemma unat_end:
  "tiles S lo hi \<Longrightarrow> hi < 2 ^ 64 \<Longrightarrow> p \<in> S \<Longrightarrow> unat (fst p + snd p) = unat (fst p) + unat (snd p)"
  using tiles_bounds(2) [of S lo hi p] by (simp add: unat_word_ariths(1))

lemma end_eq_iff:
  "tiles S lo hi \<Longrightarrow> hi < 2 ^ 64 \<Longrightarrow> p \<in> S \<Longrightarrow> fst p + snd p = a \<longleftrightarrow> unat (fst p) + unat (snd p) = unat a"
  using unat_end [of S lo hi p] by (metis word_unat_eq_iff)

text \<open>Two adjacent chunks fused into one.\<close>

lemma tiles_fuse:
  assumes "tiles ({p, q} \<union> S) lo hi" and "hi < 2 ^ 64" and "p \<notin> S" "q \<notin> S" "p \<noteq> q"
    and "unat (fst p) + unat (snd p) = unat (fst q)"
  shows "tiles ({(fst p, snd p + snd q)} \<union> S) lo hi" "(fst p, snd p + snd q) \<notin> S"
    "unat (snd p + snd q) = unat (snd p) + unat (snd q)"
proof -
  let ?m = "(fst p, snd p + snd q)"
  have "unat (fst q) + unat (snd q) \<le> hi" using tiles_bounds(2) [OF assms(1), of q] by simp
  then show u: "unat (snd p + snd q) = unat (snd p) + unat (snd q)"
    using assms(2,6) by (simp add: unat_word_ariths(1))
  have "ivl ?m = ivl p \<union> ivl q" using u assms(6) by (auto simp: ivl_def)
  then have U: "(\<Union>x \<in> {p, q}. ivl x) = (\<Union>x \<in> {?m}. ivl x)" by simp
  have "{p, q} \<inter> S = {}" using assms(3,4) by blast
  moreover have "\<forall>x \<in> {?m}. 0 < unat (snd x)" using u tiles_pos [OF assms(1), of p] by simp
  ultimately show "tiles ({?m} \<union> S) lo hi" "?m \<notin> S"
    using tiles_replace [OF assms(1) _ U] by auto
qed

lemma merge_prev_pending:
  assumes inv: "mem_inv lo hi st" and b: "(ptr, s) \<in> set (used_chunk st)"
    and m: "merge_prev ptr s (free_chunk st) = Inr (a, n)"
  shows "\<exists>F. pending lo hi F (set (used_chunk st) - {(ptr, s)}) (a, n)
    \<and> F = {p \<in> set (free_chunk st). fst p \<noteq> a} \<and> unat a + unat n = unat ptr + unat s \<and> unat a \<le> unat ptr"
proof -
  let ?F = "set (free_chunk st)" and ?U = "set (used_chunk st)" and ?b = "(ptr, s)"
  note I = mem_invD [OF inv]
  have bF: "?b \<notin> ?F" using b I(5) by blast
  have T: "tiles ({?b} \<union> (?F \<union> (?U - {?b}))) lo hi"
  proof -
    have "{?b} \<union> (?F \<union> (?U - {?b})) = ?F \<union> ?U" using b by blast
    then show ?thesis using I(6) by (simp only:)
  qed
  have no_start: "fst p \<noteq> ptr" if "p \<in> ?F" for p
    using tiles_same_start [OF I(6), of p ?b] that b bF by auto
  show ?thesis
  proof (cases "\<exists>p \<in> ?F. unat (fst p) + unat (snd p) = unat ptr")
    case False
    have "(a, n) = ?b"
    proof (cases "free_chunk st = []")
      case False
      then have ne: "before_upper ptr (free_chunk st) \<noteq> []" using m by (auto simp: merge_prev_def)
      let ?p = "last (before_upper ptr (free_chunk st))"
      have "?p \<in> ?F" using last_before_upper(1) [OF I(3) ne] .
      then have "fst ?p + snd ?p \<noteq> ptr"
        using end_eq_iff [OF I(6,2), of ?p ptr] \<open>\<not> (\<exists>p \<in> ?F. _ p)\<close> by blast
      then show ?thesis using m False ne by (simp add: merge_prev_def Let_def)
    qed (use m in \<open>simp add: merge_prev_def\<close>)
    moreover have "{p \<in> ?F. fst p \<noteq> ptr} = ?F" using no_start by blast
    moreover have "pending lo hi ?F (?U - {?b}) ?b"
      unfolding pending_def using T bF I(5,7,8,9) b False by (auto simp: apart_def)
    ultimately show ?thesis by auto
  next
    case True
    then obtain p where p: "p \<in> ?F" "unat (fst p) + unat (snd p) = unat ptr" by blast
    have pos: "0 < unat (snd p)" using tiles_pos [OF I(6)] p(1) by blast
    have le: "fst p \<le> ptr" using p(2) by (simp add: word_le_nat_alt)
    then have ne: "before_upper ptr (free_chunk st) \<noteq> []"
      using before_upper_Nil [OF I(3)] p(1) by (metis not_le)
    let ?l = "last (before_upper ptr (free_chunk st))"
    note L = last_before_upper [OF I(3) ne]
    have "?l = p"
    proof (rule ccontr)
      assume "?l \<noteq> p"
      moreover have "unat (fst p) \<le> unat (fst ?l)" using L(3) [OF p(1) le] by (simp add: word_le_nat_alt)
      ultimately have "unat ptr \<le> unat (fst ?l)"
        using tiles_disjoint [OF I(6), of p ?l] p L(1) by simp
      then have "fst ?l = ptr" using L(2) by (simp add: word_le_nat_alt word_unat_eq_iff)
      then show False using no_start L(1) by blast
    qed
    moreover have "fst p + snd p = ptr" using end_eq_iff [OF I(6,2)] p by blast
    ultimately have an: "a = fst p" "n = s + snd p"
      using m ne p(1) by (auto simp: merge_prev_def Let_def split: if_splits)
    let ?S = "(?F - {p}) \<union> (?U - {?b})"
    have T2: "tiles ({p, ?b} \<union> ?S) lo hi"
    proof -
      have "{p, ?b} \<union> ?S = ?F \<union> ?U" using p(1) b by blast
      then show ?thesis using I(6) by (simp only:)
    qed
    have notin: "p \<notin> ?S" "?b \<notin> ?S" "p \<noteq> ?b" using p(1) bF b I(5) by auto
    have fuse: "tiles ({(a, n)} \<union> ?S) lo hi" "(a, n) \<notin> ?S" "unat n = unat (snd p) + unat s"
      using tiles_fuse [OF T2 I(2) notin] p(2) by (simp_all add: an add.commute)
    have al: "chunk_aligned p" "chunk_aligned ?b" using I(7) [OF p(1)] I(8) [OF b] by simp_all
    then have "chunk_aligned (a, n)" using fuse(3) by (simp add: chunk_aligned_def an(1) dvd_add)
    moreover have "\<forall>q \<in> ?F - {p}. apart q (a, n)" using I(9) p(1) by (auto simp: apart_def an(1))
    ultimately have "pending lo hi (?F - {p}) (?U - {?b}) (a, n)"
      unfolding pending_def using fuse I(5,7,8,9) by auto
    moreover have "?F - {p} = {q \<in> ?F. fst q \<noteq> a}"
      using tiles_same_start [OF I(6), of _ p] p(1) an(1) by auto
    ultimately show ?thesis using fuse(3) p(2) an(1) by auto
  qed
qed

lemma merge_next_inv:
  assumes pend: "pending lo hi F U (a, n)" and hi: "0 < lo" "hi < 2 ^ 64"
    and asc: "ascending fr" and F: "F = {p \<in> set fr. fst p \<noteq> a}"
    and b: "unat a + unat n = unat ptr + unat s" "unat a \<le> unat ptr" "0 < unat s"
    and ends: "\<And>p. p \<in> set fr \<Longrightarrow> fst p = a \<Longrightarrow> unat (fst p) < unat ptr"
  shows "\<exists>m. set (merge_next a n (from_upper ptr fr) fr) = insert m (F - {p. fst p = a + n})
    \<and> tiles (insert m (F - {p. fst p = a + n}) \<union> U) lo hi \<and> m \<notin> F - {p. fst p = a + n} \<union> U
    \<and> chunk_aligned m \<and> (\<forall>q \<in> F - {p. fst p = a + n}. apart m q \<and> apart q m) \<and> apart m m"
proof -
  let ?b = "(a, n)" and ?res = "merge_next a n (from_upper ptr fr) fr"
  have T: "tiles ({?b} \<union> (F \<union> U)) lo hi" and bn: "?b \<notin> F \<union> U" and FU: "F \<inter> U = {}"
    and al: "\<And>p. p \<in> {?b} \<union> (F \<union> U) \<Longrightarrow> chunk_aligned p"
    and ap: "\<And>p q. p \<in> F \<Longrightarrow> q \<in> F \<Longrightarrow> apart p q" and apb: "\<And>q. q \<in> F \<Longrightarrow> apart q ?b"
    using pend unfolding pending_def by blast+
  have pos: "0 < unat n" using tiles_pos [OF T, of ?b] by simp
  have e: "unat (a + n) = unat a + unat n" using unat_end [OF T hi(2), of ?b] by simp
  have keys: "{p. fst p = a + n} \<inter> F = {p \<in> F. unat (fst p) = unat a + unat n}"
    using e by (auto simp: word_unat_eq_iff)
  have above: "ptr < fst p \<longleftrightarrow> unat a + unat n \<le> unat (fst p)" if p: "p \<in> set fr" for p
  proof (cases "fst p = a")
    case True
    then show ?thesis using ends [OF p] pos by (simp add: word_less_nat_alt)
  next
    case False
    then have pF: "p \<in> F" "p \<noteq> ?b" using p F by auto
    show ?thesis
    proof
      assume "ptr < fst p"
      then have "unat (fst ?b) \<le> unat (fst p)" using b(2) by (simp add: word_less_nat_alt)
      then show "unat a + unat n \<le> unat (fst p)" using tiles_disjoint [OF T, of ?b p] pF by simp
    next
      assume "unat a + unat n \<le> unat (fst p)"
      then show "ptr < fst p" using b by (simp add: word_less_nat_alt)
    qed
  qed
  show ?thesis
  proof (cases "\<exists>p \<in> F. fst p = a + n")
    case False
    have "merge_next a n (from_upper ptr fr) fr = map_put a n fr"
    proof (cases "from_upper ptr fr")
      case (Cons p ps)
      then have "p \<in> set fr" "ptr < fst p" using hd_from_upper(1,2) [OF asc Cons] by simp_all
      then have "p \<in> F" using F b(2) by (auto simp: word_less_nat_alt)
      then have "a + n \<noteq> fst p" using False by auto
      then show ?thesis using Cons by (cases p) (simp add: merge_next_def)
    qed (simp add: merge_next_def)
    then have res: "set ?res = insert ?b F" using F asc by (simp add: set_map_put)
    have "F - {p. fst p = a + n} = F" using False by blast
    moreover have "\<forall>q \<in> F. apart ?b q" using False e by (auto simp: apart_def word_unat_eq_iff)
    moreover have "apart ?b ?b" using pos by (simp add: apart_def)
    ultimately show ?thesis
      using res T bn al [of ?b] apb by (intro exI [of _ ?b]) simp
  next
    case True
    then obtain q where q: "q \<in> F" "fst q = a + n" by blast
    then have qa: "unat (fst q) = unat a + unat n" using e by simp
    have qfr: "q \<in> set fr" "fst q \<noteq> a" using q(1) F by auto
    have "ptr < fst q" using above [OF qfr(1)] qa by simp
    then obtain p ps where up: "from_upper ptr fr = p # ps"
      using from_upper_Nil [of ptr fr] qfr(1) by (cases "from_upper ptr fr") auto
    note H = hd_from_upper [OF asc up]
    have "fst p \<le> fst q" using H(3) [OF qfr(1) \<open>ptr < fst q\<close>] .
    moreover have "unat (fst q) \<le> unat (fst p)" using above [OF H(1)] H(2) qa by simp
    ultimately have "fst p = fst q" by (simp add: word_le_nat_alt word_unat_eq_iff)
    then have "p = q" using H(1) qfr(1) map_of_iff [OF asc]
      by (metis option.inject prod.collapse)
    then have "?res = map_put a (n + snd q) (map_erase (fst q) fr)"
      using up q(2) by (cases q) (simp add: merge_next_def)
    moreover have only: "p = q" if "p \<in> F" "fst p = a + n" for p
      using tiles_same_start [OF T, of p q] that q by simp
    ultimately have res: "set ?res = insert (a, n + snd q) (F - {q})"
      using F q asc by (auto simp: set_map_put [OF ascending_map_erase] set_map_erase)
    have Fq: "F - {p. fst p = a + n} = F - {q}" using only q by blast
    let ?S = "(F - {q}) \<union> U" and ?m = "(a, n + snd q)"
    have T2: "tiles ({?b, q} \<union> ?S) lo hi"
    proof -
      have "{?b, q} \<union> ?S = {?b} \<union> (F \<union> U)" using q(1) by blast
      then show ?thesis using T by (simp only:)
    qed
    have notin: "?b \<notin> ?S" "q \<notin> ?S" "?b \<noteq> q" using bn q(1) FU by auto
    have fuse: "tiles ({?m} \<union> ?S) lo hi" "?m \<notin> ?S" "unat (n + snd q) = unat n + unat (snd q)"
      using tiles_fuse [OF T2 hi(2) notin] qa by simp_all
    have "chunk_aligned ?b" "chunk_aligned q" using al q(1) by blast+
    then have "chunk_aligned ?m" using fuse(3) by (simp add: chunk_aligned_def dvd_add)
    moreover have "\<forall>r \<in> F - {q}. apart ?m r \<and> apart r ?m"
      using ap [OF q(1)] apb fuse(3) qa by (auto simp: apart_def add.assoc [symmetric])
    moreover have "apart ?m ?m" using fuse(3) pos by (simp add: apart_def)
    ultimately show ?thesis
      using res fuse Fq by (intro exI [of _ ?m]) simp
  qed
qed

text \<open>A release that succeeds keeps the invariant and removes exactly the block from the used ones.\<close>

lemma mem_free_inv:
  assumes inv: "mem_inv lo hi st" and fr: "mem_free ptr st = Inr st'"
  shows "mem_inv lo hi st' \<and> (\<exists>s. (ptr, s) \<in> set (used_chunk st)
    \<and> set (used_chunk st') = set (used_chunk st) - {(ptr, s)})"
proof -
  note I = mem_invD [OF inv]
  obtain s where used: "map_of (used_chunk st) ptr = Some s"
    using fr by (auto simp: mem_free_def split: option.splits)
  then have b: "(ptr, s) \<in> set (used_chunk st)" using map_of_iff [OF I(4)] by simp
  obtain a n where m: "merge_prev ptr s (free_chunk st) = Inr (a, n)"
    using fr used by (auto simp: mem_free_def Let_def split: sum.splits)
  let ?U = "set (used_chunk st) - {(ptr, s)}"
    and ?res = "merge_next a n (from_upper ptr (free_chunk st)) (free_chunk st)"
  have st': "st' = st\<lparr>used_chunk := map_erase ptr (used_chunk st), free_chunk := ?res\<rparr>"
    using fr used m by (simp add: mem_free_def Let_def)
  have U': "set (used_chunk st') = ?U"
    using tiles_same_start [OF I(6), of _ "(ptr, s)"] b by (auto simp: st' set_map_erase)
  obtain F where pend: "pending lo hi F ?U (a, n)" and F: "F = {p \<in> set (free_chunk st). fst p \<noteq> a}"
    and sz: "unat a + unat n = unat ptr + unat s" "unat a \<le> unat ptr"
    using merge_prev_pending [OF inv b m] by blast
  have ends: "unat (fst p) < unat ptr" if "p \<in> set (free_chunk st)" "fst p = a" for p
  proof -
    have "fst p \<noteq> ptr" using tiles_same_start [OF I(6), of p "(ptr, s)"] that b I(5) by auto
    then show ?thesis using that(2) sz(2) by (simp add: word_unat_eq_iff)
  qed
  have "0 < unat s" using tiles_pos [OF I(6)] b by fastforce
  then obtain q where q: "set ?res = insert q (F - {p. fst p = a + n})"
      "tiles (insert q (F - {p. fst p = a + n}) \<union> ?U) lo hi" "q \<notin> F - {p. fst p = a + n} \<union> ?U"
      "chunk_aligned q" "\<forall>r \<in> F - {p. fst p = a + n}. apart q r \<and> apart r q" "apart q q"
    using merge_next_inv [OF pend I(1,2,3) F sz _ ends] by blast
  have asc: "ascending (free_chunk st')"
    using ascending_map_put I(3) ascending_map_erase
    by (simp add: st' merge_next_def split: list.split)
  have sub: "F \<subseteq> set (free_chunk st)" using F by blast
  have F': "set (free_chunk st') = insert q (F - {p. fst p = a + n})" using q(1) by (simp add: st')
  have "mem_inv lo hi st'"
    unfolding mem_inv_def F' U'
  proof (intro conjI)
    show "0 < lo" "hi < 2 ^ 64" "ascending (free_chunk st')" by fact+
    show "ascending (used_chunk st')" using ascending_map_erase [OF I(4)] by (simp add: st')
    show "insert q (F - {p. fst p = a + n}) \<inter> ?U = {}" using q(3) sub I(5) by blast
    show "tiles (insert q (F - {p. fst p = a + n}) \<union> ?U) lo hi" by fact
    show "\<forall>p \<in> insert q (F - {p. fst p = a + n}) \<union> ?U. chunk_aligned p"
      using q(4) sub I(7,8) by blast
    show "\<forall>p \<in> insert q (F - {p. fst p = a + n}). \<forall>r \<in> insert q (F - {p. fst p = a + n}). apart p r"
      using q(5,6) sub I(9) by blast
  qed
  then show ?thesis using b U' by blast
qed

lemma mem_free_result:
  assumes "mem_inv lo hi st"
  shows "mem_free ptr st = Inl Not_in_alloc_log \<longleftrightarrow> (\<forall>b \<in> set (used_chunk st). fst b \<noteq> ptr)"
    and "mem_free ptr st = Inl Prev_of_begin \<longleftrightarrow> (\<exists>b \<in> set (used_chunk st). fst b = ptr)
      \<and> free_chunk st \<noteq> [] \<and> (\<forall>q \<in> set (free_chunk st). ptr < fst q)"
proof -
  note I = mem_invD [OF assms]
  have none: "map_of (used_chunk st) ptr = None \<longleftrightarrow> (\<forall>b \<in> set (used_chunk st). fst b \<noteq> ptr)"
    by (auto simp: map_of_eq_None_iff)
  show "mem_free ptr st = Inl Not_in_alloc_log \<longleftrightarrow> (\<forall>b \<in> set (used_chunk st). fst b \<noteq> ptr)"
    unfolding none [symmetric]
    by (cases "map_of (used_chunk st) ptr") (simp_all add: mem_free_def merge_prev_def Let_def)
  have "mem_free ptr st = Inl Prev_of_begin \<longleftrightarrow> map_of (used_chunk st) ptr \<noteq> None
      \<and> free_chunk st \<noteq> [] \<and> before_upper ptr (free_chunk st) = []"
    by (cases "map_of (used_chunk st) ptr") (simp_all add: mem_free_def merge_prev_def Let_def)
  then show "mem_free ptr st = Inl Prev_of_begin \<longleftrightarrow> (\<exists>b \<in> set (used_chunk st). fst b = ptr)
      \<and> free_chunk st \<noteq> [] \<and> (\<forall>q \<in> set (free_chunk st). ptr < fst q)"
    unfolding none before_upper_Nil [OF I(3)] by blast
qed

section \<open>The allocator as its clients see it\<close>

text \<open>A pool hands out blocks that are apart from every live block, and takes live blocks back.\<close>

locale block_pool =
  fixes inv :: "'s \<Rightarrow> bool"
    and live :: "'s \<Rightarrow> (u64 \<times> u64) set"
    and get :: "u64 \<Rightarrow> 's \<Rightarrow> u64 \<times> 's"
    and put :: "u64 \<Rightarrow> 's \<Rightarrow> 'e + 's"
  assumes get_inv: "inv st \<Longrightarrow> sane_size n \<Longrightarrow> inv (snd (get n st))"
    and get_live: "inv st \<Longrightarrow> sane_size n \<Longrightarrow> get n st = (p, st') \<Longrightarrow> p \<noteq> 0 \<Longrightarrow>
      live st' = insert (p, round64 n) (live st) \<and> (p, round64 n) \<notin> live st"
    and get_null: "inv st \<Longrightarrow> sane_size n \<Longrightarrow> get n st = (0, st') \<Longrightarrow> st' = st"
    and put_inv: "inv st \<Longrightarrow> put p st = Inr st' \<Longrightarrow> inv st'"
    and put_live: "inv st \<Longrightarrow> put p st = Inr st' \<Longrightarrow>
      \<exists>n. (p, n) \<in> live st \<and> live st' = live st - {(p, n)}"
    and live_apart: "inv st \<Longrightarrow> b \<in> live st \<Longrightarrow> c \<in> live st \<Longrightarrow> b \<noteq> c \<Longrightarrow> ivl b \<inter> ivl c = {}"
begin

text \<open>A block just handed out overlaps no block that is live, now or before the call.\<close>

lemma get_fresh:
  assumes "inv st" and "sane_size n" and "get n st = (p, st')" and "p \<noteq> 0" and "b \<in> live st"
  shows "ivl (p, round64 n) \<inter> ivl b = {}"
proof -
  have "inv st'" using get_inv [OF assms(1,2)] assms(3) by simp
  then show ?thesis
    using get_live [OF assms(1-4)] assms(5) live_apart [of st' "(p, round64 n)" b] by auto
qed

text \<open>A live block stays live until it is released: releasing another one leaves it.\<close>

lemma put_other:
  assumes "inv st" and "put p st = Inr st'" and "b \<in> live st" and "fst b \<noteq> p"
  shows "b \<in> live st'"
proof -
  obtain n where "live st' = live st - {(p, n)}" using put_live [OF assms(1,2)] by blast
  moreover have "b \<noteq> (p, n)" using assms(4) by auto
  ultimately show ?thesis using assms(3) by blast
qed

end

interpretation mem: block_pool "mem_inv lo hi" "\<lambda>st. set (used_chunk st)" alloc mem_free for lo hi
proof
  fix st st' n p b c
  assume inv: "mem_inv lo hi st"
  show "sane_size n \<Longrightarrow> mem_inv lo hi (snd (alloc n st))" using alloc_inv inv by blast
  show "sane_size n \<Longrightarrow> alloc n st = (p, st') \<Longrightarrow> p \<noteq> 0 \<Longrightarrow>
      set (used_chunk st') = insert (p, round64 n) (set (used_chunk st))
        \<and> (p, round64 n) \<notin> set (used_chunk st)"
    using alloc_takes [OF inv] unfolding takes_def by blast
  show "sane_size n \<Longrightarrow> alloc n st = (0, st') \<Longrightarrow> st' = st" using alloc_null inv by blast
  show "mem_free p st = Inr st' \<Longrightarrow> mem_inv lo hi st'" using mem_free_inv inv by blast
  show "mem_free p st = Inr st' \<Longrightarrow>
      \<exists>n. (p, n) \<in> set (used_chunk st) \<and> set (used_chunk st') = set (used_chunk st) - {(p, n)}"
    using mem_free_inv inv by blast
  show "b \<in> set (used_chunk st) \<Longrightarrow> c \<in> set (used_chunk st) \<Longrightarrow> b \<noteq> c \<Longrightarrow> ivl b \<inter> ivl c = {}"
    using mem_invD(6) [OF inv] unfolding tiles_def by blast
qed

section \<open>Sequences of calls\<close>

text \<open>The calls of a program, of any size and on any pointer; a fault of \<open>free\<close> ends the run.\<close>

datatype mem_call = Call_alloc u64 | Call_free u64

fun mem_run :: "mem_call list \<Rightarrow> mem_ctl \<Rightarrow> mem_fault + mem_ctl" where
  "mem_run [] st = Inr st"
| "mem_run (Call_alloc n # cs) st = mem_run cs (snd (alloc n st))"
| "mem_run (Call_free p # cs) st = (case mem_free p st of Inl e \<Rightarrow> Inl e | Inr st' \<Rightarrow> mem_run cs st')"

fun asks_sane :: "mem_call \<Rightarrow> bool" where
  "asks_sane (Call_alloc n) = sane_size n"
| "asks_sane (Call_free p) = True"

lemma asks_sane_case:
  "asks_sane c = (case c of Call_alloc n \<Rightarrow> 0 < unat n \<and> unat n + 63 < 2 ^ 64 | Call_free p \<Rightarrow> True)"
  by (cases c) (simp_all add: sane_size_def)

lemma mem_run_inv:
  "mem_run cs st = Inr st' \<Longrightarrow> list_all asks_sane cs \<Longrightarrow> mem_inv lo hi st \<Longrightarrow> mem_inv lo hi st'"
  by (induction cs st rule: mem_run.induct) (auto split: sum.splits intro: mem.get_inv mem.put_inv)

lemma sum_ivl:
  "finite S \<Longrightarrow> tiles S lo hi \<Longrightarrow> (\<Sum>p \<in> S. unat (snd p)) = hi - lo"
proof -
  assume S: "finite S" "tiles S lo hi"
  have "card (\<Union>p \<in> S. ivl p) = (\<Sum>p \<in> S. card (ivl p))"
  proof (rule card_UN_disjoint)
    show "\<forall>p \<in> S. finite (ivl p)" by (simp add: ivl_def)
    show "\<forall>p \<in> S. \<forall>q \<in> S. p \<noteq> q \<longrightarrow> ivl p \<inter> ivl q = {}" using S(2) unfolding tiles_def by blast
  qed (rule S(1))
  then show ?thesis using S(2) by (simp add: tiles_def ivl_def)
qed

section \<open>An example\<close>

text \<open>A pool of 8 kB at 4096 after one allocation of 100 bytes.\<close>

definition used_pool :: mem_ctl where
  "used_pool = \<lparr>pool_size = 8192, free_chunk = [(4096, 8064)], used_chunk = [(12160, 128)]\<rparr>"

lemma used_pool_alloc: "alloc 100 (new_pool 4096 8192) = (12160, used_pool)"
  by (simp add: alloc_def new_pool_def findFreeChunk_def round64_def used_pool_def)

lemma small_pool_inv: "mem_inv 4096 12288 (new_pool 4096 8192)"
  using new_pool_inv [of 4096 8192] by (simp add: chunk_aligned_def)

lemma used_pool_inv: "mem_inv 4096 12288 used_pool"
proof -
  have "sane_size 100" by (simp add: sane_size_def)
  then show ?thesis using small_pool_inv mem.get_inv [of 4096 12288 _ 100] used_pool_alloc by (metis snd_conv)
qed

lemma used_pool_free: "mem_free 12160 used_pool = Inr (new_pool 4096 8192)"
  by (simp add: mem_free_def used_pool_def new_pool_def map_erase_def from_upper_def before_upper_def
      merge_prev_def merge_next_def)

section \<open>Blocks handed out\<close>

lemma alloc_sane_block:
  assumes "mem_inv lo hi st" and "sane_size n" and "alloc n st = (p, st')" and "p \<noteq> 0"
  shows "64 dvd unat p \<and> lo \<le> unat p \<and> unat p + unat n \<le> hi \<and> mem_inv lo hi st'
    \<and> set (used_chunk st') = insert (p, round64 n) (set (used_chunk st))
    \<and> unat n \<le> unat (round64 n) \<and> unat (round64 n) < unat n + 64
    \<and> list_all (\<lambda>b. ivl (p, round64 n) \<inter> ivl b = {}) (used_chunk st)"
proof -
  have inv: "mem_inv lo hi st'" using mem.get_inv [OF assms(1,2)] assms(3) by simp
  have used: "set (used_chunk st') = insert (p, round64 n) (set (used_chunk st))"
    using mem.get_live [OF assms] by blast
  then have p: "(p, round64 n) \<in> set (used_chunk st')" by simp
  have "64 dvd unat p" using mem_invD(8) [OF inv p] by (simp add: chunk_aligned_def)
  moreover have "lo \<le> unat p" "unat p + unat (round64 n) \<le> hi"
    using tiles_bounds [OF mem_invD(6) [OF inv], of "(p, round64 n)"] p by auto
  ultimately show ?thesis
    using inv used round64_sane [OF assms(2)] mem.get_fresh [OF assms] by (auto simp: list_all_iff)
qed

text \<open>A size that rounds to zero fits every chunk, so the first one is split, with nothing taken from it.\<close>

lemma alloc_zero_block:
  assumes "mem_inv lo hi st" and "\<not> sane_size n" and "alloc n st = (p, st')" and "p \<noteq> 0"
  shows "p = fst (hd (free_chunk st)) + snd (hd (free_chunk st))
    \<and> set (free_chunk st') = set (free_chunk st)
    \<and> set (used_chunk st') = insert (p, 0) {b \<in> set (used_chunk st). fst b \<noteq> p}"
proof (cases "free_chunk st")
  case Nil
  then show ?thesis using assms(3,4) by (simp add: alloc_def findFreeChunk_def)
next
  case (Cons c fr)
  note I = mem_invD [OF assms(1)]
  obtain a s where c: "c = (a, s)" by (cases c)
  have m: "(a, s) \<in> set (free_chunk st)" by (simp add: Cons c)
  have "a \<noteq> 0" using tiles_bounds(1) [OF I(6), of "(a, s)"] m I(1) by auto
  moreover have "0 < s" using tiles_pos [OF I(6), of "(a, s)"] m by (auto simp: word_less_nat_alt)
  ultimately have e: "p = a + s" "st' = st\<lparr>free_chunk := map_put a s (free_chunk st),
      used_chunk := map_put (a + s) 0 (used_chunk st)\<rparr>"
    using assms(3) by (auto simp: alloc_def round64_zero [OF assms(2)] findFreeChunk_def Cons c)
  then show ?thesis using set_map_put [OF I(4)] by (auto simp: Cons c)
qed

section \<open>Properties\<close>

text \<open>C9. A program that allocates and releases from a fresh pool, in any order, with any pointers and
  with sizes that are neither 0 nor within 63 of 2^64 (those round to 0, and \<open>alloc_zero_aliases\<close> shows that
  a request for 0 bytes can overwrite the record of a live block): as long as no call faults, the free and the
  used chunks are disjoint, lie in the pool, are aligned to 64 bytes, no two free chunks touch, and
  their sizes add up to the pool, so no memory is lost or handed out twice.\<close>

theorem pool_invariant:
  assumes "0 < unat base" and "unat base + unat n < 2 ^ 64" and "64 dvd unat base" and "64 dvd unat n"
    and "0 < unat n" and "mem_run calls (new_pool base n) = Inr st"
    and "list_all (\<lambda>c. case c of Call_alloc m \<Rightarrow> 0 < unat m \<and> unat m + 63 < 2 ^ 64 | Call_free p \<Rightarrow> True) calls"
  shows "mem_inv (unat base) (unat base + unat n) st
    \<and> (\<Sum>p \<in> set (free_chunk st) \<union> set (used_chunk st). unat (snd p)) = unat n"
proof -
  have "mem_inv (unat base) (unat base + unat n) (new_pool base n)"
    using assms(1-5) by (intro new_pool_inv) (simp_all add: chunk_aligned_def)
  moreover have "list_all asks_sane calls"
    using assms(7) by (simp add: asks_sane_case [abs_def])
  ultimately have inv: "mem_inv (unat base) (unat base + unat n) st"
    using mem_run_inv [OF assms(6)] by blast
  then show ?thesis using sum_ivl [OF _ mem_invD(6) [OF inv]] by simp
qed

text \<open>One allocation, a second one, and the release of the first.\<close>

theorem pool_invariant_witness:
  "mem_inv (unat (4096 :: u64)) (unat (4096 :: u64) + unat (8192 :: u64))
      \<lparr>pool_size = 8192, free_chunk = [(4096, 7936), (12160, 128)], used_chunk = [(12032, 128)]\<rparr>
    \<and> (\<Sum>p \<in> set [(4096 :: u64, 7936 :: u64), (12160, 128)] \<union> set [(12032, 128)]. unat (snd p)) = unat (8192 :: u64)"
  (is "mem_inv _ _ ?st \<and> _")
proof -
  have "mem_run [Call_alloc 100, Call_alloc 128, Call_free 12160] (new_pool 4096 8192) = Inr ?st" by code_simp
  from pool_invariant [OF _ _ _ _ _ this] show ?thesis by simp
qed

text \<open>C10. An allocation that returns a pointer.  When the size is neither 0 nor within 63 of 2^64 the
  block lies in the pool, is aligned, has at least the size asked for and less than 64 bytes more, and overlaps
  no block in use; it becomes used, the others stay used, and the invariant is kept.  Any other size is
  rounded to 0, and the code does not refuse it: it returns the end of the first free chunk, memory of the
  next chunk or past the pool, and stores an entry of 0 bytes there, over the entry of a block that starts there.\<close>

theorem alloc_block:
  assumes "mem_inv lo hi st" and "alloc n st = (p, st')" and "p \<noteq> 0"
  shows "if 0 < unat n \<and> unat n + 63 < 2 ^ 64
    then 64 dvd unat p \<and> lo \<le> unat p \<and> unat p + unat n \<le> hi \<and> mem_inv lo hi st'
      \<and> set (used_chunk st') = insert (p, round64 n) (set (used_chunk st))
      \<and> unat n \<le> unat (round64 n) \<and> unat (round64 n) < unat n + 64
      \<and> list_all (\<lambda>b. ivl (p, round64 n) \<inter> ivl b = {}) (used_chunk st)
    else p = fst (hd (free_chunk st)) + snd (hd (free_chunk st))
      \<and> set (free_chunk st') = set (free_chunk st)
      \<and> set (used_chunk st') = insert (p, 0) {b \<in> set (used_chunk st). fst b \<noteq> p}"
  using alloc_sane_block [OF assms(1) _ assms(2,3)] alloc_zero_block [OF assms(1) _ assms(2,3)]
  by (simp add: sane_size_def)

text \<open>100 bytes of a fresh pool, and 2^64 - 1 bytes of the same pool: the second call returns 12288, the first
  address past the pool.\<close>

theorem alloc_block_witness:
  "(64 dvd unat (12160 :: u64) \<and> 4096 \<le> unat (12160 :: u64) \<and> unat (12160 :: u64) + unat (100 :: u64) \<le> 12288
      \<and> mem_inv 4096 12288 used_pool
      \<and> set (used_chunk used_pool) = insert (12160, round64 100) (set (used_chunk (new_pool 4096 8192)))
      \<and> unat (100 :: u64) \<le> unat (round64 100) \<and> unat (round64 100) < unat (100 :: u64) + 64
      \<and> list_all (\<lambda>b. ivl (12160, round64 100) \<inter> ivl b = {}) (used_chunk (new_pool 4096 8192)))
    \<and> alloc 18446744073709551615 (new_pool 4096 8192) = (12288, \<lparr>pool_size = 8192, free_chunk = [(4096, 8192)], used_chunk = [(12288, 0)]\<rparr>)
    \<and> (12288 :: u64) = fst (hd (free_chunk (new_pool 4096 8192))) + snd (hd (free_chunk (new_pool 4096 8192)))"
proof -
  have "alloc 18446744073709551615 (new_pool 4096 8192) = (12288, \<lparr>pool_size = 8192, free_chunk = [(4096, 8192)], used_chunk = [(12288, 0)]\<rparr>)"
    by (simp add: alloc_def new_pool_def findFreeChunk_def round64_def)
  moreover from alloc_block [OF small_pool_inv this]
  have "(12288 :: u64) = fst (hd (free_chunk (new_pool 4096 8192))) + snd (hd (free_chunk (new_pool 4096 8192)))" by simp
  moreover note alloc_block [OF small_pool_inv used_pool_alloc]
  ultimately show ?thesis by simp
qed

text \<open>Within the invariant an allocation fails exactly when no single free chunk is large enough,
  and then it changes nothing.\<close>

theorem alloc_exhausted:
  assumes "mem_inv lo hi st" and "sane_size n"
  shows "fst (alloc n st) = 0 \<longleftrightarrow> list_all (\<lambda>c. snd c < round64 n) (free_chunk st)"
proof
  assume "fst (alloc n st) = 0"
  then have "alloc n st = (0, snd (alloc n st))" by (metis prod.collapse)
  then show "list_all (\<lambda>c. snd c < round64 n) (free_chunk st)"
    using alloc_null [OF assms] by (auto simp: list_all_iff)
next
  assume "list_all (\<lambda>c. snd c < round64 n) (free_chunk st)"
  then have "find (\<lambda>it. round64 n \<le> snd it) (free_chunk st) = None"
    by (auto simp: find_None_iff list_all_iff not_le)
  then show "fst (alloc n st) = 0" by (simp add: alloc_def findFreeChunk_def)
qed

theorem alloc_exhausted_witness:
  "fst (alloc 9000 (new_pool 4096 8192)) = 0 \<longleftrightarrow> list_all (\<lambda>c. snd c < round64 9000) (free_chunk (new_pool 4096 8192))"
  by (rule alloc_exhausted [OF small_pool_inv]) (simp add: sane_size_def)

text \<open>C11. A successful release removes exactly the block at the pointer from those in use; all its bytes are
  free afterwards, no two free chunks touch, so it has been merged with its neighbours, and the
  invariant is kept.\<close>

theorem free_block:
  assumes "mem_inv lo hi st" and "mem_free p st = Inr st'"
  shows "\<exists>n. (p, n) \<in> set (used_chunk st) \<and> set (used_chunk st') = set (used_chunk st) - {(p, n)}
    \<and> ivl (p, n) \<subseteq> (\<Union>c \<in> set (free_chunk st'). ivl c) \<and> mem_inv lo hi st'
    \<and> list_all (\<lambda>c. list_all (\<lambda>d. unat (fst c) + unat (snd c) \<noteq> unat (fst d)) (free_chunk st')) (free_chunk st')"
proof -
  obtain n where n: "(p, n) \<in> set (used_chunk st)" "set (used_chunk st') = set (used_chunk st) - {(p, n)}"
    using mem.put_live [OF assms] by blast
  have inv: "mem_inv lo hi st'" using mem.put_inv [OF assms] .
  note I = mem_invD [OF inv] and J = mem_invD [OF assms(1)]
  have "ivl (p, n) \<subseteq> {lo ..< hi}"
    using J(6) n(1) unfolding tiles_def by blast
  moreover have "{lo ..< hi} = (\<Union>c \<in> set (free_chunk st') \<union> set (used_chunk st'). ivl c)"
    using I(6) unfolding tiles_def by blast
  moreover have "ivl (p, n) \<inter> ivl b = {}" if "b \<in> set (used_chunk st')" for b
  proof -
    have "b \<in> set (used_chunk st)" "b \<noteq> (p, n)" using that n(2) by auto
    then show ?thesis using J(6) n(1) unfolding tiles_def by blast
  qed
  ultimately have "ivl (p, n) \<subseteq> (\<Union>c \<in> set (free_chunk st'). ivl c)" by blast
  moreover have "unat (fst c) + unat (snd c) \<noteq> unat (fst d)"
    if "c \<in> set (free_chunk st')" "d \<in> set (free_chunk st')" for c d
    using I(9) [OF that] by (simp add: apart_def)
  ultimately show ?thesis using n inv unfolding list_all_iff by blast
qed

theorem free_block_witness:
  "\<exists>n. (12160, n) \<in> set (used_chunk used_pool)
    \<and> set (used_chunk (new_pool 4096 8192)) = set (used_chunk used_pool) - {(12160, n)}
    \<and> ivl (12160, n) \<subseteq> (\<Union>c \<in> set (free_chunk (new_pool 4096 8192)). ivl c)
    \<and> mem_inv 4096 12288 (new_pool 4096 8192)
    \<and> list_all (\<lambda>c. list_all (\<lambda>d. unat (fst c) + unat (snd c) \<noteq> unat (fst d)) (free_chunk (new_pool 4096 8192)))
         (free_chunk (new_pool 4096 8192))"
  by (rule free_block [OF used_pool_inv used_pool_free])

text \<open>C35. Within the invariant a release ends the program exactly when the pointer is no block in use, and
  steps before the first free chunk exactly when the block lies below every one of them and there is
  one; otherwise it succeeds.\<close>

theorem free_outcomes:
  assumes "mem_inv lo hi st"
  shows "(mem_free p st = Inl Not_in_alloc_log) = (p \<notin> fst ` set (used_chunk st))
    \<and> (mem_free p st = Inl Prev_of_begin)
       = (p \<in> fst ` set (used_chunk st) \<and> free_chunk st \<noteq> [] \<and> list_all (\<lambda>c. p < fst c) (free_chunk st))"
  using mem_free_result [OF assms, of p] by (auto simp: list_all_iff)

theorem free_outcomes_witness:
  "(mem_free 4096 used_pool = Inl Not_in_alloc_log) = (4096 \<notin> fst ` set (used_chunk used_pool))
    \<and> (mem_free 4096 used_pool = Inl Prev_of_begin)
       = (4096 \<in> fst ` set (used_chunk used_pool) \<and> free_chunk used_pool \<noteq> []
           \<and> list_all (\<lambda>c. 4096 < fst c) (free_chunk used_pool))"
  by (rule free_outcomes [OF used_pool_inv])

text \<open>That undefined step is reachable with correct calls only: in a pool of one page
  at 2 MB, three allocations that use it up, the release of the top block and then of the one below it.\<close>

theorem free_steps_before_begin:
  "\<exists>st. mem_run [Call_alloc 2097024, Call_alloc 64, Call_alloc 64, Call_free 2097280] (new_pool 2097152 2097152) = Inr st
    \<and> (2097216, 64) \<in> set (used_chunk st) \<and> mem_run [Call_free 2097216] st = Inl Prev_of_begin"
proof -
  let ?s = "\<lparr>pool_size = 2097152, free_chunk = [(2097280, 2097024)],
    used_chunk = [(2097152, 64), (2097216, 64)]\<rparr>"
  have "mem_run [Call_alloc 2097024, Call_alloc 64, Call_alloc 64, Call_free 2097280] (new_pool 2097152 2097152) = Inr ?s"
    by code_simp
  moreover have "mem_free 2097216 ?s = Inl Prev_of_begin"
    by (simp add: mem_free_def merge_prev_def before_upper_def)
  ultimately show ?thesis by (intro exI [of _ ?s]) simp
qed

text \<open>An allocation of zero bytes returns the end of the first free chunk; when a block in use
  starts there, the caller gets that block's address and its recorded size becomes zero.\<close>

theorem alloc_zero_aliases:
  assumes "mem_inv lo hi st" and "free_chunk st = (a, s) # fr" and "(a + s, m) \<in> set (used_chunk st)"
  shows "fst (alloc 0 st) = a + s \<and> map_of (used_chunk (snd (alloc 0 st))) (a + s) = Some 0"
proof -
  note I = mem_invD [OF assms(1)]
  have c: "(a, s) \<in> set (free_chunk st)" by (simp add: assms(2))
  have "a \<noteq> 0" using tiles_bounds(1) [OF I(6), of "(a, s)"] c I(1) by auto
  moreover have "0 < s" using tiles_pos [OF I(6), of "(a, s)"] c by (auto simp: word_less_nat_alt)
  moreover have "round64 0 = 0" by (simp add: round64_def)
  ultimately have "alloc 0 st = (a + s, st\<lparr>free_chunk := map_put a s (free_chunk st),
      used_chunk := map_put (a + s) 0 (used_chunk st)\<rparr>)"
    by (simp add: alloc_def findFreeChunk_def assms(2))
  moreover have "map_of (map_put k v xs) k = Some v" for k v xs
    by (induction xs) auto
  ultimately show ?thesis by simp
qed

theorem alloc_zero_aliases_witness:
  "fst (alloc 0 used_pool) = 4096 + 8064 \<and> map_of (used_chunk (snd (alloc 0 used_pool))) (4096 + 8064) = Some 0"
  by (rule alloc_zero_aliases [OF used_pool_inv, where fr = "[]" and m = 128]) (simp_all add: used_pool_def)

end
