(* ===== verification/Tlb.thy ===== *)
theory Tlb
  imports MemCtl
begin

text \<open>
  The page table of the CPU memory pool and its transfer to the FPGA, \<open>CPUMemCtl\<close> in
  \<open>utils/QDMAController.cpp\<close> (lines 316 to 411): the pool rounded to 2 MB pages, \<open>mapV2P\<close>, and the
  register writes of \<open>writeTLB\<close> and \<open>legacyWriteTLB\<close>.  The physical addresses come from the driver's
  \<open>ioctl\<close> and are a field of the model.  A register write is a pair of index and value; \<open>replay\<close> is
  what the sequence means to the device: registers 8 to 12 hold an entry, and a 1 written to
  register 13 commits it.
\<close>

section \<open>The pool\<close>

record page_table =
  n_pages :: u32
  vaddr :: u64
  parray :: "u64 list"

definition page_bytes :: u64 where
  "page_bytes = 2 * 1024 * 1024"

text \<open>\<open>(pool_size + 2UL * 1024 * 1024 - 1) & ~(2UL * 1024 * 1024 - 1)\<close> of \<open>getInstance\<close>.\<close>

definition round_pool :: "u64 \<Rightarrow> u64" where
  "round_pool n = (n + page_bytes - 1) AND NOT (page_bytes - 1)"

text \<open>The constructor on a mapping at \<open>huge_base\<close> with the physical addresses the driver returns.\<close>

definition CPUMemCtl :: "u64 \<Rightarrow> u64 \<Rightarrow> u64 list \<Rightarrow> page_table \<times> mem_ctl" where
  "CPUMemCtl n huge_base phy_addr =
     (let nhpages = ucast (n div page_bytes) :: u32 in
      (\<lparr>n_pages = nhpages, vaddr = huge_base, parray = phy_addr\<rparr>,
       \<lparr>pool_size = n, free_chunk = [(huge_base, ucast nhpages * page_bytes)], used_chunk = []\<rparr>))"

definition table_ok :: "page_table \<Rightarrow> bool" where
  "table_ok pt \<longleftrightarrow> length (parray pt) = unat (n_pages pt)
     \<and> unat (vaddr pt) + unat (n_pages pt) * unat page_bytes < 2 ^ 64"

section \<open>Translation and transfer\<close>

definition mapV2P :: "page_table \<Rightarrow> u64 \<Rightarrow> u64 result" where
  "mapV2P pt ptr =
     (let offset = ptr - vaddr pt in
      if unat (offset div page_bytes) < length (parray pt) then
        Inr (parray pt ! unat (offset div page_bytes) + (offset AND (page_bytes - 1)))
      else Inl Overrun)"

text \<open>The calls \<open>func(i, page_size, vaddr + i * page_size, parray[i])\<close>, as a fold over the state the
  callback acts on.\<close>

definition writeTLB :: "page_table \<Rightarrow> (u32 \<Rightarrow> u32 \<Rightarrow> u64 \<Rightarrow> u64 \<Rightarrow> 's \<Rightarrow> 's) \<Rightarrow> 's \<Rightarrow> 's" where
  "writeTLB pt func =
     fold (\<lambda>i. func (of_nat i) (ucast page_bytes) (vaddr pt + of_nat i * page_bytes) (parray pt ! i))
       [0..<unat (n_pages pt)]"

type_synonym reg_log = "(u32 \<times> u32) list"

definition writeReg :: "u32 \<Rightarrow> u32 \<Rightarrow> reg_log \<Rightarrow> reg_log" where
  "writeReg index value log = log @ [(index, value)]"

definition tlb_callback :: "u32 \<Rightarrow> u32 \<Rightarrow> u64 \<Rightarrow> u64 \<Rightarrow> reg_log \<Rightarrow> reg_log" where
  "tlb_callback page_index page_size va pa log =
     (let log = writeReg 8 (ucast va) log;
          log = writeReg 9 (ucast (drop_bit 32 va)) log;
          log = writeReg 10 (ucast pa) log;
          log = writeReg 11 (ucast (drop_bit 32 pa)) log;
          log = writeReg 12 (if page_index = 0 then 1 else 0) log;
          log = writeReg 13 1 log
      in writeReg 13 0 log)"

definition legacyWriteTLB :: "page_table \<Rightarrow> reg_log \<Rightarrow> reg_log" where
  "legacyWriteTLB pt log = writeTLB pt tlb_callback log"

section \<open>What the device is told\<close>

record tlb_entry =
  tlb_vaddr :: u64
  tlb_paddr :: u64
  tlb_first :: bool

type_synonym device = "(u32 \<Rightarrow> u32) \<times> tlb_entry list"

definition word_of_halves :: "u32 \<Rightarrow> u32 \<Rightarrow> u64" where
  "word_of_halves lo hi = ucast lo OR push_bit 32 (ucast hi)"

fun device_write :: "u32 \<times> u32 \<Rightarrow> device \<Rightarrow> device" where
  "device_write (i, v) (regs, tlb) =
     (let regs = regs(i := v) in
      (regs, if i = 13 \<and> v = 1 then
         tlb @ [\<lparr>tlb_vaddr = word_of_halves (regs 8) (regs 9),
                 tlb_paddr = word_of_halves (regs 10) (regs 11), tlb_first = (regs 12 = 1)\<rparr>]
       else tlb))"

definition replay :: "reg_log \<Rightarrow> device \<Rightarrow> device" where
  "replay log d = fold device_write log d"

definition tlb_of :: "page_table \<Rightarrow> nat \<Rightarrow> tlb_entry" where
  "tlb_of pt i = \<lparr>tlb_vaddr = vaddr pt + of_nat i * page_bytes, tlb_paddr = parray pt ! i,
     tlb_first = (i = 0)\<rparr>"

lemma word_of_halves_split: "word_of_halves (ucast w) (ucast (drop_bit 32 w)) = (w :: u64)"
  by (rule bit_word_eqI) (auto simp: word_of_halves_def bit_simps)

lemma replay_append: "replay (xs @ ys) d = replay ys (replay xs d)"
  by (simp add: replay_def)

lemma replay_callback:
  "snd (replay (tlb_callback i ps va pa log) d)
     = snd (replay log d) @ [\<lparr>tlb_vaddr = va, tlb_paddr = pa, tlb_first = (i = 0)\<rparr>]"
  by (cases "replay log d")
    (simp add: tlb_callback_def writeReg_def replay_append Let_def, simp add: replay_def Let_def
      word_of_halves_split)

lemma replay_writeTLB:
  assumes "n \<le> 2 ^ 32"
  shows "snd (replay (fold (\<lambda>i. tlb_callback (of_nat i) ps (f i) (g i)) [0..<n] log) d)
     = snd (replay log d) @ map (\<lambda>i. \<lparr>tlb_vaddr = f i, tlb_paddr = g i, tlb_first = (i = 0)\<rparr>) [0..<n]"
  using assms
proof (induction n)
  case (Suc n)
  have "unat (of_nat n :: u32) = n" using Suc.prems by (intro unat_of_nat_small) simp
  then have "(of_nat n :: u32) = 0 \<longleftrightarrow> n = 0" by (metis unat_eq_zero)
  with Suc show ?case by (simp add: replay_callback)
qed simp

section \<open>Pages and offsets\<close>

lemma unat_page_bytes: "unat page_bytes = 2 ^ 21"
  by (simp add: page_bytes_def)

lemma and_page_mask: "x AND (page_bytes - 1) = x mod page_bytes"
proof -
  have m: "page_bytes - 1 = mask 21" by (simp add: page_bytes_def mask_eq_exp_minus_1)
  have p: "page_bytes = 2 ^ 21" by (simp add: page_bytes_def)
  show ?thesis unfolding m by (simp only: take_bit_eq_mask [symmetric] take_bit_eq_mod p)
qed

lemma mapV2P_eq:
  assumes "table_ok pt" and "unat off < unat (n_pages pt) * 2 ^ 21"
  shows "mapV2P pt (vaddr pt + off)
     = Inr (parray pt ! (unat off div 2 ^ 21) + of_nat (unat off mod 2 ^ 21))"
proof -
  have i: "unat (off div page_bytes) = unat off div 2 ^ 21"
    by (simp only: unat_div unat_page_bytes)
  have "unat off div 2 ^ 21 < length (parray pt)"
    using assms by (simp add: table_ok_def less_mult_imp_div_less)
  moreover have "off AND (page_bytes - 1) = of_nat (unat off mod 2 ^ 21)"
    unfolding and_page_mask
    by (subst unat_page_bytes [symmetric], subst unat_mod [symmetric]) simp
  moreover have "vaddr pt + off - vaddr pt = off" by simp
  ultimately show ?thesis unfolding mapV2P_def Let_def by (simp only: i if_True)
qed

section \<open>Properties\<close>

text \<open>Within the mapping, translation adds the offset in the page to the physical address of the
  page; one page or more past its end the translation reads past the array.\<close>

theorem mapV2P_pages:
  assumes "table_ok pt"
  shows "mapV2P pt (vaddr pt + off)
    = (if unat off < unat (n_pages pt) * 2 ^ 21
       then Inr (parray pt ! (unat off div 2 ^ 21) + of_nat (unat off mod 2 ^ 21)) else Inl Overrun)"
proof (cases "unat off < unat (n_pages pt) * 2 ^ 21")
  case True
  then show ?thesis using mapV2P_eq [OF assms] by simp
next
  case False
  have i: "unat (off div page_bytes) = unat off div 2 ^ 21"
    by (simp only: unat_div unat_page_bytes)
  have "\<not> unat off div 2 ^ 21 < unat (n_pages pt)"
    using False by (simp add: div_less_iff_less_mult)
  then have "\<not> unat (off div page_bytes) < length (parray pt)"
    using assms i by (simp only: table_ok_def not_False_eq_True)
  then have "mapV2P pt (vaddr pt + off) = Inl Overrun"
    unfolding mapV2P_def Let_def by (simp only: add_diff_cancel_left' if_False)
  with False show ?thesis by (simp only: if_False)
qed

definition two_pages :: page_table where
  "two_pages = \<lparr>n_pages = 2, vaddr = 0x40000000, parray = [0x7000000, 0x1200000]\<rparr>"

lemma two_pages_ok: "table_ok two_pages"
  by (simp add: table_ok_def two_pages_def page_bytes_def)

theorem mapV2P_pages_witness:
  "mapV2P two_pages (vaddr two_pages + 2097160)
    = (if unat (2097160 :: u64) < unat (n_pages two_pages) * 2 ^ 21
       then Inr (parray two_pages ! (unat (2097160 :: u64) div 2 ^ 21) + of_nat (unat (2097160 :: u64) mod 2 ^ 21))
       else Inl Overrun)"
  by (rule mapV2P_pages [OF two_pages_ok])

text \<open>C13. The register writes of \<open>legacyWriteTLB\<close>, replayed by a device that commits an entry on a
  1 written to register 13, add one entry per page in order; only the first is marked as first, and
  each entry translates the start of its page as \<open>mapV2P\<close> does on the host.\<close>

theorem tlb_agrees_with_mapV2P:
  assumes "table_ok pt"
  shows "\<exists>entries. snd (replay (legacyWriteTLB pt log) d) = snd (replay log d) @ entries
    \<and> length entries = unat (n_pages pt)
    \<and> map tlb_vaddr entries = map (\<lambda>i. vaddr pt + of_nat i * page_bytes) [0..<unat (n_pages pt)]
    \<and> map tlb_first entries = map (\<lambda>i. i = 0) [0..<unat (n_pages pt)]
    \<and> list_all (\<lambda>e. mapV2P pt (tlb_vaddr e) = Inr (tlb_paddr e)) entries"
proof -
  let ?n = "unat (n_pages pt)" and ?f = "\<lambda>i. vaddr pt + of_nat i * page_bytes"
  let ?entries = "map (\<lambda>i. \<lparr>tlb_vaddr = ?f i, tlb_paddr = parray pt ! i, tlb_first = (i = 0)\<rparr>) [0..<?n]"
  have "?n \<le> 2 ^ 32" using unat_less [of "n_pages pt"] by simp
  then have "snd (replay (legacyWriteTLB pt log) d) = snd (replay log d) @ ?entries"
    unfolding legacyWriteTLB_def writeTLB_def by (rule replay_writeTLB)
  moreover have "mapV2P pt (?f i) = Inr (parray pt ! i)" if "i < ?n" for i
  proof -
    have "i * 2 ^ 21 < ?n * 2 ^ 21" using that by simp
    moreover have "?n * 2 ^ 21 < 2 ^ 64" using assms by (simp add: table_ok_def unat_page_bytes)
    ultimately have "i * 2 ^ 21 < 2 ^ 64" by (rule less_trans)
    then have "unat (of_nat (i * 2 ^ 21) :: u64) = i * 2 ^ 21"
      by (intro unat_of_nat_small) simp
    moreover have "(of_nat i * page_bytes :: u64) = of_nat (i * 2 ^ 21)"
      by (simp add: page_bytes_def)
    ultimately have "unat (of_nat i * page_bytes :: u64) = i * 2 ^ 21" by (simp only:)
    then show ?thesis
      using mapV2P_eq [OF assms, of "of_nat i * page_bytes"] that by simp
  qed
  then have "list_all (\<lambda>e. mapV2P pt (tlb_vaddr e) = Inr (tlb_paddr e)) ?entries"
    by (simp add: list_all_iff)
  ultimately show ?thesis by (intro exI [of _ ?entries]) (simp add: comp_def)
qed

theorem tlb_agrees_with_mapV2P_witness:
  "\<exists>entries. snd (replay (legacyWriteTLB two_pages []) (\<lambda>_. 0, [])) = snd (replay [] (\<lambda>_. 0, [])) @ entries
    \<and> length entries = unat (n_pages two_pages)
    \<and> map tlb_vaddr entries = map (\<lambda>i. vaddr two_pages + of_nat i * page_bytes) [0..<unat (n_pages two_pages)]
    \<and> map tlb_first entries = map (\<lambda>i. i = 0) [0..<unat (n_pages two_pages)]
    \<and> list_all (\<lambda>e. mapV2P two_pages (tlb_vaddr e) = Inr (tlb_paddr e)) entries"
  by (rule tlb_agrees_with_mapV2P [OF two_pages_ok])

lemma round_up_nat_by:
  assumes "0 < (k :: nat)"
  shows "x \<le> (x + (k - 1)) div k * k" "(x + (k - 1)) div k * k < x + k"
    "(x + (k - 1)) div k * k \<le> x + (k - 1)"
  using div_mult_mod_eq [of "x + (k - 1)" k] mod_less_divisor [OF assms, of "x + (k - 1)"] assms
  by linarith+

lemma unat_round_pool:
  assumes "unat n + 2 ^ 21 \<le> 2 ^ 64"
  shows "unat (round_pool n) = (unat n + (2 ^ 21 - 1)) div 2 ^ 21 * 2 ^ 21"
proof -
  have m: "page_bytes - 1 = mask 21" by (simp add: page_bytes_def mask_eq_exp_minus_1)
  have "round_pool n = (n + mask 21) AND NOT (mask 21)"
    unfolding round_pool_def m [symmetric] by (simp add: algebra_simps)
  also have "\<dots> = push_bit 21 (drop_bit 21 (n + mask 21))"
    by (rule bit_word_eqI) (auto simp: bit_simps)
  finally have r: "round_pool n = drop_bit 21 (n + mask 21) * 2 ^ 21"
    by (simp add: push_bit_eq_mult)
  have "unat (mask 21 :: u64) = 2 ^ 21 - 1" by (simp add: mask_eq_exp_minus_1)
  then have "unat (n + mask 21) = unat n + (2 ^ 21 - 1)"
    using assms by (simp add: unat_word_ariths(1))
  then have d: "unat (drop_bit 21 (n + mask 21)) = (unat n + (2 ^ 21 - 1)) div 2 ^ 21"
    by (simp only: unat_drop_bit_div)
  have "(unat n + (2 ^ 21 - 1)) div 2 ^ 21 * 2 ^ 21 \<le> unat n + (2 ^ 21 - 1)"
    by (rule round_up_nat_by) simp
  moreover have "unat n + (2 ^ 21 - 1) < 2 ^ 64" using assms by simp
  ultimately have "(unat n + (2 ^ 21 - 1)) div 2 ^ 21 * 2 ^ 21 < 2 ^ 64" by (rule le_less_trans)
  then show ?thesis by (simp add: r d unat_word_ariths(2))
qed

text \<open>The pool \<open>getInstance\<close> makes for a request of up to \<open>2^50\<close> bytes covers it with whole pages,
  wastes less than one, and starts within the allocator's invariant as one free chunk of all its pages.\<close>

theorem new_pool_of_pages:
  assumes "0 < unat n" and "unat n \<le> 2 ^ 50" and "0 < unat base" and "64 dvd unat base"
    and "unat base < 2 ^ 63" and "CPUMemCtl (round_pool n) base phy_addr = (pt, st)"
  shows "unat n \<le> unat (n_pages pt) * 2 ^ 21 \<and> unat (n_pages pt) * 2 ^ 21 < unat n + 2 ^ 21
    \<and> free_chunk st = [(base, round_pool n)]
    \<and> mem_inv (unat base) (unat base + unat (n_pages pt) * 2 ^ 21) st"
proof -
  let ?k = "(unat n + (2 ^ 21 - 1)) div 2 ^ 21"
  have r: "unat (round_pool n) = ?k * 2 ^ 21" using assms(2) by (intro unat_round_pool) simp
  have bounds: "unat n \<le> ?k * 2 ^ 21" "?k * 2 ^ 21 < unat n + 2 ^ 21"
    by (rule round_up_nat_by, simp)+
  have "?k < 2 ^ 32" using assms(2) by simp
  have "unat (round_pool n div page_bytes) = ?k"
    unfolding unat_div unat_page_bytes r by simp
  moreover have refold: "of_nat (unat w) = w" for w :: u64 by simp
  ultimately have "round_pool n div page_bytes = of_nat ?k" by metis
  then have pages: "n_pages pt = of_nat ?k" and st: "free_chunk st = [(base, ucast (n_pages pt) * page_bytes)]"
      "used_chunk st = []"
    using assms(6) \<open>?k < 2 ^ 32\<close> by (auto simp: CPUMemCtl_def Let_def ucast_of_nat_down)
  have np: "unat (n_pages pt) = ?k"
    unfolding pages using \<open>?k < 2 ^ 32\<close> by (intro unat_of_nat_small) simp
  have "(ucast (n_pages pt) :: u64) * page_bytes = of_nat (?k * 2 ^ 21)"
    by (simp add: word_of_nat_unat_ucast [of "n_pages pt"] np page_bytes_def)
  also have "\<dots> = round_pool n" using r refold by metis
  finally have fc: "free_chunk st = [(base, round_pool n)]" using st(1) by simp
  have "mem_inv (unat base) (unat base + unat (round_pool n)) (new_pool base (round_pool n))"
    using assms(1-5) r bounds by (intro new_pool_inv) (simp_all add: chunk_aligned_def)
  then have "mem_inv (unat base) (unat base + ?k * 2 ^ 21) st"
    using fc st(2) by (simp add: mem_inv_def new_pool_def r)
  then show ?thesis using bounds fc np by simp
qed

theorem new_pool_of_pages_witness:
  "unat (3000000 :: u64) \<le> unat (n_pages (fst (CPUMemCtl (round_pool 3000000) 0x40000000 []))) * 2 ^ 21
    \<and> unat (n_pages (fst (CPUMemCtl (round_pool 3000000) 0x40000000 []))) * 2 ^ 21 < unat (3000000 :: u64) + 2 ^ 21
    \<and> free_chunk (snd (CPUMemCtl (round_pool 3000000) 0x40000000 [])) = [(0x40000000, round_pool 3000000)]
    \<and> mem_inv (unat (0x40000000 :: u64))
        (unat (0x40000000 :: u64) + unat (n_pages (fst (CPUMemCtl (round_pool 3000000) 0x40000000 []))) * 2 ^ 21)
        (snd (CPUMemCtl (round_pool 3000000) 0x40000000 []))"
  by (rule new_pool_of_pages [where phy_addr = "[]"]) simp_all

end
