(* ===== verification/Fpga_Ctl.thy ===== *)
theory Fpga_Ctl
  imports Tlb
begin

text \<open>
  \<open>FPGACtl\<close> of \<open>utils/QDMAController.cpp\<close> (lines 57 to 236 and 636 to 678): the control object of one
  FPGA, the list that keeps one per PCI bus, and the accesses through its three mapped regions.  The
  regions belong to the device: an access is an entry of a trace, and what a read returns is a
  function of the trace so far (\<open>fpga_device\<close>).  Whether \<open>open\<close> and \<open>mmap\<close> succeed is an argument
  (\<open>fpga_env\<close>).  The code checks no index, and neither do the accesses here: they record whatever index they are
  given.  Which ones are inside their mapping is said by \<open>access_inside\<close>, and shown for the programs in
  \<open>Driver_Spec\<close>.
\<close>

section \<open>The control object\<close>

record fpga_ctl =
  pci_bus :: u8
  bridge_bar_size :: u64

datatype access =
    Write_config u32 u32 | Read_config u32
  | Write_reg u32 u32 | Read_reg u32
  | Write_bridge u32 "u64 list" | Read_bridge u32

type_synonym trace = "(u8 \<times> access) list"

record fpga_host =
  device_list :: "u8 \<Rightarrow> fpga_ctl option"
  trace :: trace

record fpga_env =
  open_ok :: "string \<Rightarrow> bool"
  mmap_ok :: "string \<Rightarrow> u64 \<Rightarrow> bool"

record fpga_device =
  config_value :: "trace \<Rightarrow> u32 \<Rightarrow> u32"
  reg_value :: "trace \<Rightarrow> u32 \<Rightarrow> u32"
  bridge_value :: "trace \<Rightarrow> u32 \<Rightarrow> u64 list"

definition config_region_size :: u64 where
  "config_region_size = 256 * 1024"

definition lite_region_size :: u64 where
  "lite_region_size = 4 * 1024"

definition bridge_region_size :: u64 where
  "bridge_region_size = 1024 * 1024 * 1024"

text \<open>The formats \<open>{:02x}\<close>, \<open>{:x}\<close> and \<open>{}\<close> of a \<open>uint8_t\<close>.\<close>

definition hex_digit :: "nat \<Rightarrow> char" where
  "hex_digit d = ''0123456789abcdef'' ! d"

definition fmt_02x :: "u8 \<Rightarrow> string" where
  "fmt_02x v = [hex_digit (unat v div 16), hex_digit (unat v mod 16)]"

definition fmt_x :: "u8 \<Rightarrow> string" where
  "fmt_x v = (if unat v < 16 then [hex_digit (unat v)] else fmt_02x v)"

definition fmt_d :: "u8 \<Rightarrow> string" where
  "fmt_d v =
     (if unat v < 10 then [hex_digit (unat v)]
      else if unat v < 100 then [hex_digit (unat v div 10), hex_digit (unat v mod 10)]
      else [hex_digit (unat v div 100), hex_digit (unat v div 10 mod 10), hex_digit (unat v mod 10)])"

definition getSysPathBarName :: "u8 \<Rightarrow> u8 \<Rightarrow> u8 \<Rightarrow> u8 \<Rightarrow> string" where
  "getSysPathBarName bus_id dev_id func_id bar_id =
     ''/sys/bus/pci/devices/0000:'' @ fmt_02x bus_id @ '':'' @ fmt_02x dev_id @ ''.'' @ fmt_x func_id
       @ ''/resource'' @ fmt_d bar_id"

definition map_bar :: "fpga_env \<Rightarrow> u8 \<Rightarrow> u8 \<Rightarrow> u64 \<Rightarrow> unit result" where
  "map_bar env bus bar n =
     (let resourceFilename = getSysPathBarName bus 0 0 bar in
      andThen (require (open_ok env resourceFilename)) (\<lambda>_. require (mmap_ok env resourceFilename n)))"

definition new_FPGACtl :: "fpga_env \<Rightarrow> u8 \<Rightarrow> u64 \<Rightarrow> fpga_ctl result" where
  "new_FPGACtl env bus n =
     andThen (map_bar env bus 2 lite_region_size) (\<lambda>_.
     andThen (map_bar env bus 4 n) (\<lambda>_.
     andThen (map_bar env bus 0 config_region_size) (\<lambda>_.
       Inr \<lparr>pci_bus = bus, bridge_bar_size = n\<rparr>)))"

section \<open>One object per bus\<close>

definition explictInit :: "fpga_env \<Rightarrow> u8 \<Rightarrow> u64 \<Rightarrow> fpga_host \<Rightarrow> fpga_host result" where
  "explictInit env bus n st =
     (case device_list st bus of
        None \<Rightarrow> andThen (new_FPGACtl env bus n) (\<lambda>tmp.
          Inr (st\<lparr>device_list := (device_list st)(bus \<mapsto> tmp)\<rparr>))
      | Some _ \<Rightarrow> Inr st)"

definition fpga_getInstance :: "fpga_env \<Rightarrow> u8 \<Rightarrow> fpga_host \<Rightarrow> (fpga_ctl \<times> fpga_host) result" where
  "fpga_getInstance env bus st =
     (case device_list st bus of
        None \<Rightarrow> andThen (new_FPGACtl env bus bridge_region_size) (\<lambda>tmp.
          Inr (tmp, st\<lparr>device_list := (device_list st)(bus \<mapsto> tmp)\<rparr>))
      | Some ctl \<Rightarrow> Inr (ctl, st))"

section \<open>Accesses\<close>

definition emit :: "fpga_ctl \<Rightarrow> access \<Rightarrow> fpga_host \<Rightarrow> fpga_host" where
  "emit ctl a st = st\<lparr>trace := trace st @ [(pci_bus ctl, a)]\<rparr>"

definition ctl_writeConfig :: "fpga_ctl \<Rightarrow> u32 \<Rightarrow> u32 \<Rightarrow> fpga_host \<Rightarrow> fpga_host result" where
  "ctl_writeConfig ctl index value st = Inr (emit ctl (Write_config index value) st)"

definition ctl_readConfig ::
  "fpga_device \<Rightarrow> fpga_ctl \<Rightarrow> u32 \<Rightarrow> fpga_host \<Rightarrow> (u32 \<times> fpga_host) result" where
  "ctl_readConfig dev ctl index st =
     Inr (config_value dev (trace st) index, emit ctl (Read_config index) st)"

definition ctl_writeReg :: "fpga_ctl \<Rightarrow> u32 \<Rightarrow> u32 \<Rightarrow> fpga_host \<Rightarrow> fpga_host result" where
  "ctl_writeReg ctl index value st = Inr (emit ctl (Write_reg index value) st)"

definition ctl_readReg ::
  "fpga_device \<Rightarrow> fpga_ctl \<Rightarrow> u32 \<Rightarrow> fpga_host \<Rightarrow> (u32 \<times> fpga_host) result" where
  "ctl_readReg dev ctl index st = Inr (reg_value dev (trace st) index, emit ctl (Read_reg index) st)"

text \<open>\<open>_mm512_loadu_epi64\<close> loads eight words from \<open>value\<close>; reading past an array is the fault of the load.\<close>

definition load_512 :: "u64 list \<Rightarrow> u64 list result" where
  "load_512 value = (if 8 \<le> length value then Inr (take 8 value) else Inl Overrun)"

definition ctl_writeBridge :: "fpga_ctl \<Rightarrow> u32 \<Rightarrow> u64 list \<Rightarrow> fpga_host \<Rightarrow> fpga_host result" where
  "ctl_writeBridge ctl index value st =
     andThen (load_512 value) (\<lambda>avx_reg. Inr (emit ctl (Write_bridge index avx_reg) st))"

definition ctl_readBridge ::
  "fpga_device \<Rightarrow> fpga_ctl \<Rightarrow> u32 \<Rightarrow> fpga_host \<Rightarrow> (u64 list \<times> fpga_host) result" where
  "ctl_readBridge dev ctl index st =
     Inr (take 8 (bridge_value dev (trace st) index), emit ctl (Read_bridge index) st)"

text \<open>The aligned variants fault if \<open>value\<close> does not lie at a multiple of 64; \<open>addr\<close> is its address.\<close>

definition ctl_writeBridgeAligned :: "fpga_ctl \<Rightarrow> u32 \<Rightarrow> u64 \<Rightarrow> u64 list \<Rightarrow> fpga_host \<Rightarrow> fpga_host result" where
  "ctl_writeBridgeAligned ctl index addr value st =
     (if addr mod 64 = 0 then ctl_writeBridge ctl index value st else Inl Misaligned)"

definition ctl_readBridgeAligned ::
  "fpga_device \<Rightarrow> fpga_ctl \<Rightarrow> u32 \<Rightarrow> u64 \<Rightarrow> fpga_host \<Rightarrow> (u64 list \<times> fpga_host) result" where
  "ctl_readBridgeAligned dev ctl index addr st =
     andThen (ctl_readBridge dev ctl index st) (\<lambda>(line, st).
       if addr mod 64 = 0 then Inr (line, st) else Inl Misaligned)"

section \<open>The C interface\<close>

text \<open>\<open>device_list[pci_bus]\<close> of a bus that was never initialised is a null pointer.\<close>

definition device_at :: "u8 \<Rightarrow> fpga_host \<Rightarrow> fpga_ctl result" where
  "device_at bus st = (case device_list st bus of None \<Rightarrow> Inl Null_deref | Some ctl \<Rightarrow> Inr ctl)"

definition c_init :: "fpga_env \<Rightarrow> u8 \<Rightarrow> u64 \<Rightarrow> fpga_host \<Rightarrow> fpga_host result" where
  "c_init env bus n st = explictInit env bus n st"

definition c_writeConfig :: "u32 \<Rightarrow> u32 \<Rightarrow> u8 \<Rightarrow> fpga_host \<Rightarrow> fpga_host result" where
  "c_writeConfig index value bus st =
     andThen (device_at bus st) (\<lambda>ctl. ctl_writeConfig ctl index value st)"

definition c_readConfig :: "fpga_device \<Rightarrow> u32 \<Rightarrow> u8 \<Rightarrow> fpga_host \<Rightarrow> (u32 \<times> fpga_host) result" where
  "c_readConfig dev index bus st =
     andThen (device_at bus st) (\<lambda>ctl. ctl_readConfig dev ctl index st)"

definition c_writeReg :: "u32 \<Rightarrow> u32 \<Rightarrow> u8 \<Rightarrow> fpga_host \<Rightarrow> fpga_host result" where
  "c_writeReg index value bus st = andThen (device_at bus st) (\<lambda>ctl. ctl_writeReg ctl index value st)"

definition c_readReg :: "fpga_device \<Rightarrow> u32 \<Rightarrow> u8 \<Rightarrow> fpga_host \<Rightarrow> (u32 \<times> fpga_host) result" where
  "c_readReg dev index bus st = andThen (device_at bus st) (\<lambda>ctl. ctl_readReg dev ctl index st)"

definition c_writeBridge :: "u32 \<Rightarrow> u64 list \<Rightarrow> u8 \<Rightarrow> fpga_host \<Rightarrow> fpga_host result" where
  "c_writeBridge index value bus st =
     andThen (device_at bus st) (\<lambda>ctl. ctl_writeBridge ctl index value st)"

definition c_readBridge :: "fpga_device \<Rightarrow> u32 \<Rightarrow> u8 \<Rightarrow> fpga_host \<Rightarrow> (u64 list \<times> fpga_host) result" where
  "c_readBridge dev index bus st =
     andThen (device_at bus st) (\<lambda>ctl. ctl_readBridge dev ctl index st)"

section \<open>The calls as steps\<close>

text \<open>What a client may do with the controllers, in any order.  A call for a bus without a
  controller dereferences a null pointer, so only calls that return are steps; any index is allowed.\<close>

inductive fpga_step :: "fpga_env \<Rightarrow> fpga_device \<Rightarrow> fpga_host \<Rightarrow> fpga_host \<Rightarrow> bool"
  for env dev where
  init: "explictInit env bus n st = Inr st' \<Longrightarrow> fpga_step env dev st st'"
| instance_of: "fpga_getInstance env bus st = Inr (ctl, st') \<Longrightarrow> fpga_step env dev st st'"
| write_config: "c_writeConfig index value bus st = Inr st' \<Longrightarrow> fpga_step env dev st st'"
| read_config: "c_readConfig dev index bus st = Inr (v, st') \<Longrightarrow> fpga_step env dev st st'"
| write_reg: "c_writeReg index value bus st = Inr st' \<Longrightarrow> fpga_step env dev st st'"
| read_reg: "c_readReg dev index bus st = Inr (v, st') \<Longrightarrow> fpga_step env dev st st'"
| write_bridge: "c_writeBridge index line bus st = Inr st' \<Longrightarrow> fpga_step env dev st st'"
| read_bridge: "c_readBridge dev index bus st = Inr (w, st') \<Longrightarrow> fpga_step env dev st st'"
| write_aligned: "device_at bus st = Inr ctl \<Longrightarrow> ctl_writeBridgeAligned ctl index addr line st = Inr st' \<Longrightarrow>
    fpga_step env dev st st'"
| read_aligned: "device_at bus st = Inr ctl \<Longrightarrow> ctl_readBridgeAligned dev ctl index addr st = Inr (w, st') \<Longrightarrow>
    fpga_step env dev st st'"

text \<open>The accesses inside their mapping, whose elements are registers of four bytes and lines of 64 bytes.\<close>

fun access_inside :: "fpga_ctl \<Rightarrow> access \<Rightarrow> bool" where
  "access_inside ctl (Write_config i v) \<longleftrightarrow> 4 * (unat i + 1) \<le> unat config_region_size"
| "access_inside ctl (Read_config i) \<longleftrightarrow> 4 * (unat i + 1) \<le> unat config_region_size"
| "access_inside ctl (Write_reg i v) \<longleftrightarrow> 4 * (unat i + 1) \<le> unat lite_region_size"
| "access_inside ctl (Read_reg i) \<longleftrightarrow> 4 * (unat i + 1) \<le> unat lite_region_size"
| "access_inside ctl (Write_bridge i w) \<longleftrightarrow> 64 * (unat i + 1) \<le> unat (bridge_bar_size ctl)"
| "access_inside ctl (Read_bridge i) \<longleftrightarrow> 64 * (unat i + 1) \<le> unat (bridge_bar_size ctl)"

text \<open>Every object stands under its own bus, and every access went to a bus with an object.\<close>

definition fpga_inv :: "fpga_host \<Rightarrow> bool" where
  "fpga_inv st \<longleftrightarrow> (\<forall>bus ctl. device_list st bus = Some ctl \<longrightarrow> pci_bus ctl = bus)
     \<and> (\<forall>(bus, a) \<in> set (trace st). device_list st bus \<noteq> None)"

lemmas ctl_defs =
  ctl_writeConfig_def ctl_readConfig_def ctl_writeReg_def ctl_readReg_def ctl_writeBridge_def
  ctl_readBridge_def ctl_writeBridgeAligned_def ctl_readBridgeAligned_def load_512_def

lemmas c_defs =
  c_writeConfig_def c_readConfig_def c_writeReg_def c_readReg_def c_writeBridge_def c_readBridge_def

lemma fpga_inv_emit:
  assumes "fpga_inv st" and "device_list st bus = Some ctl"
  shows "fpga_inv (emit ctl a st)"
  using assms by (auto simp: fpga_inv_def emit_def)

lemma fpga_inv_new:
  assumes "fpga_inv st" and "device_list st bus = None" and "new_FPGACtl env bus n = Inr ctl"
  shows "fpga_inv (st\<lparr>device_list := (device_list st)(bus \<mapsto> ctl)\<rparr>)"
proof -
  have "pci_bus ctl = bus" using assms(3) by (auto simp: new_FPGACtl_def andThen_eq_Inr)
  with assms(1,2) show ?thesis by (fastforce simp: fpga_inv_def)
qed

text \<open>What one step leaves: the invariant, every object, and the trace so far.\<close>

lemma fpga_step_keeps:
  assumes "fpga_step env dev st st'" and "fpga_inv st"
  shows "fpga_inv st' \<and> device_list st \<subseteq>\<^sub>m device_list st' \<and> (\<exists>more. trace st' = trace st @ more)"
  using assms
proof (cases rule: fpga_step.cases)
  case (init bus n)
  then show ?thesis using assms(2) fpga_inv_new [of st bus env n]
    by (auto simp: explictInit_def andThen_eq_Inr map_le_def split: option.splits)
next
  case (instance_of bus ctl)
  then show ?thesis using assms(2) fpga_inv_new [of st bus env bridge_region_size]
    by (auto simp: fpga_getInstance_def andThen_eq_Inr map_le_def split: option.splits)
qed (auto simp: c_defs ctl_defs device_at_def andThen_eq_Inr assms(2) emit_def map_le_def
    intro!: fpga_inv_emit [unfolded emit_def] split: option.splits if_splits)

lemma fpga_steps_keep:
  assumes "(fpga_step env dev)\<^sup>*\<^sup>* st st'" and "fpga_inv st"
  shows "fpga_inv st' \<and> device_list st \<subseteq>\<^sub>m device_list st' \<and> (\<exists>more. trace st' = trace st @ more)"
  using assms
proof (induction rule: rtranclp_induct)
  case (step y z)
  then show ?case using fpga_step_keeps [OF step(2)] by (auto intro: map_le_trans)
qed auto

section \<open>Properties\<close>

text \<open>C33. Whatever sequence of calls is made with the controllers, as long as they return: one made for a bus
  stays the one for that bus, so its bridge size is the one it was first asked for; asking for another size
  changes nothing, and \<open>getInstance\<close> returns the same object.  Every access recorded went to a bus that has a
  controller.\<close>

theorem fpga_controllers_stable:
  assumes "(fpga_step env dev)\<^sup>*\<^sup>* st st'" and "fpga_inv st" and "device_list st bus = Some ctl"
  shows "device_list st' bus = Some ctl \<and> pci_bus ctl = bus \<and> explictInit env bus n st' = Inr st'
    \<and> fpga_getInstance env bus st' = Inr (ctl, st')
    \<and> list_all (\<lambda>(b, a). device_list st' b \<noteq> None) (trace st')"
proof -
  have inv: "fpga_inv st'" and le: "device_list st \<subseteq>\<^sub>m device_list st'"
    using fpga_steps_keep [OF assms(1,2)] by simp_all
  have ctl: "device_list st' bus = Some ctl" using le assms(3) by (auto simp: map_le_def dom_def)
  moreover have "pci_bus ctl = bus" using inv ctl by (simp add: fpga_inv_def)
  moreover have "list_all (\<lambda>(b, a). device_list st' b \<noteq> None) (trace st')"
    using inv by (fastforce simp: fpga_inv_def list_all_iff)
  ultimately show ?thesis by (simp add: explictInit_def fpga_getInstance_def)
qed

definition one_card :: fpga_host where
  "one_card = \<lparr>device_list = [0x1a \<mapsto> \<lparr>pci_bus = 0x1a, bridge_bar_size = 4194304\<rparr>], trace = []\<rparr>"

definition quiet_device :: fpga_device where
  "quiet_device = \<lparr>config_value = \<lambda>_ _. 0, reg_value = \<lambda>_ _. 0, bridge_value = \<lambda>_ _. replicate 8 0\<rparr>"

lemma one_card_steps:
  "(fpga_step \<lparr>open_ok = \<lambda>_. True, mmap_ok = \<lambda>_ _. True\<rparr> quiet_device)\<^sup>*\<^sup>* one_card
     (one_card\<lparr>trace := [(0x1a, Write_reg 8 1)]\<rparr>)"
  by (rule r_into_rtranclp, rule fpga_step.write_reg [where index = 8 and bus = "0x1a"])
    (simp add: c_defs ctl_defs device_at_def one_card_def emit_def)

theorem fpga_controllers_stable_witness:
  "device_list (one_card\<lparr>trace := [(0x1a, Write_reg 8 1)]\<rparr>) 0x1a = Some \<lparr>pci_bus = 0x1a, bridge_bar_size = 4194304\<rparr>
    \<and> pci_bus \<lparr>pci_bus = 0x1a, bridge_bar_size = 4194304\<rparr> = 0x1a
    \<and> explictInit \<lparr>open_ok = \<lambda>_. True, mmap_ok = \<lambda>_ _. True\<rparr> 0x1a 0x1000 (one_card\<lparr>trace := [(0x1a, Write_reg 8 1)]\<rparr>)
        = Inr (one_card\<lparr>trace := [(0x1a, Write_reg 8 1)]\<rparr>)
    \<and> fpga_getInstance \<lparr>open_ok = \<lambda>_. True, mmap_ok = \<lambda>_ _. True\<rparr> 0x1a (one_card\<lparr>trace := [(0x1a, Write_reg 8 1)]\<rparr>)
        = Inr (\<lparr>pci_bus = 0x1a, bridge_bar_size = 4194304\<rparr>, one_card\<lparr>trace := [(0x1a, Write_reg 8 1)]\<rparr>)
    \<and> list_all (\<lambda>(b, a). device_list (one_card\<lparr>trace := [(0x1a, Write_reg 8 1)]\<rparr>) b \<noteq> None)
        (trace (one_card\<lparr>trace := [(0x1a, Write_reg 8 1)]\<rparr>))"
  by (rule fpga_controllers_stable [OF one_card_steps]) (simp_all add: fpga_inv_def one_card_def)

end
