(* ===== verification/Config.thy ===== *)
theory Config
  imports Rpc_Prelude
begin

text \<open>
  The constants of \<open>include/config.h\<close>: the wire types of protobuf, the type codes the FPGA
  understands, the software type codes that drive every \<open>switch\<close> of the serializers, and the
  class descriptor \<open>struct Metadata\<close>.  The software codes are a datatype with one constructor per
  \<open>#define\<close>, and \<open>sw_code\<close> gives the numbers; \<open>decode_sw\<close> is the dispatch of a \<open>switch\<close> on such
  a code, \<open>None\<close> being its \<open>default\<close> branch.
\<close>

section \<open>Protobuf wire types\<close>

definition PROTOBUF_VARINT_TYPE :: u32 where
  "PROTOBUF_VARINT_TYPE = 0"

definition PROTOBUF_64BIT_TYPE :: u32 where
  "PROTOBUF_64BIT_TYPE = 1"

definition PROTOBUF_LENGTH_DELIMITED_TYPE :: u32 where
  "PROTOBUF_LENGTH_DELIMITED_TYPE = 2"

definition PROTOBUF_START_GROUP_TYPE :: u32 where
  "PROTOBUF_START_GROUP_TYPE = 3"

definition PROTOBUF_END_GROUP_TYPE :: u32 where
  "PROTOBUF_END_GROUP_TYPE = 4"

definition PROTOBUF_32BIT_TYPE :: u32 where
  "PROTOBUF_32BIT_TYPE = 5"

lemmas protobuf_types =
  PROTOBUF_VARINT_TYPE_def
  PROTOBUF_64BIT_TYPE_def
  PROTOBUF_LENGTH_DELIMITED_TYPE_def
  PROTOBUF_START_GROUP_TYPE_def
  PROTOBUF_END_GROUP_TYPE_def
  PROTOBUF_32BIT_TYPE_def

section \<open>Type codes of the FPGA\<close>

definition FPGA_TYPE_DOUBLE :: u8 where
  "FPGA_TYPE_DOUBLE = 1"

definition FPGA_TYPE_FLOAT :: u8 where
  "FPGA_TYPE_FLOAT = 2"

definition FPGA_TYPE_INT64 :: u8 where
  "FPGA_TYPE_INT64 = 3"

definition FPGA_TYPE_UINT64 :: u8 where
  "FPGA_TYPE_UINT64 = 4"

definition FPGA_TYPE_INT32 :: u8 where
  "FPGA_TYPE_INT32 = 5"

definition FPGA_TYPE_FIXED64 :: u8 where
  "FPGA_TYPE_FIXED64 = 6"

definition FPGA_TYPE_FIXED32 :: u8 where
  "FPGA_TYPE_FIXED32 = 7"

definition FPGA_TYPE_BOOL :: u8 where
  "FPGA_TYPE_BOOL = 8"

definition FPGA_TYPE_STRING :: u8 where
  "FPGA_TYPE_STRING = 9"

definition FPGA_TYPE_GROUP :: u8 where
  "FPGA_TYPE_GROUP = 10"

definition FPGA_TYPE_MESSAGE :: u8 where
  "FPGA_TYPE_MESSAGE = 11"

definition FPGA_TYPE_BYTES :: u8 where
  "FPGA_TYPE_BYTES = 12"

definition FPGA_TYPE_UINT32 :: u8 where
  "FPGA_TYPE_UINT32 = 13"

definition FPGA_TYPE_ENUM :: u8 where
  "FPGA_TYPE_ENUM = 14"

definition FPGA_TYPE_SFIXED32 :: u8 where
  "FPGA_TYPE_SFIXED32 = 15"

definition FPGA_TYPE_SFIXED64 :: u8 where
  "FPGA_TYPE_SFIXED64 = 16"

definition FPGA_TYPE_SINT32 :: u8 where
  "FPGA_TYPE_SINT32 = 17"

definition FPGA_TYPE_SINT64 :: u8 where
  "FPGA_TYPE_SINT64 = 18"

lemmas fpga_types =
  FPGA_TYPE_DOUBLE_def  FPGA_TYPE_FLOAT_def  FPGA_TYPE_INT64_def  FPGA_TYPE_UINT64_def
  FPGA_TYPE_INT32_def  FPGA_TYPE_FIXED64_def  FPGA_TYPE_FIXED32_def
  FPGA_TYPE_BOOL_def  FPGA_TYPE_STRING_def  FPGA_TYPE_GROUP_def
  FPGA_TYPE_MESSAGE_def  FPGA_TYPE_BYTES_def  FPGA_TYPE_UINT32_def
  FPGA_TYPE_ENUM_def  FPGA_TYPE_SFIXED32_def  FPGA_TYPE_SFIXED64_def
  FPGA_TYPE_SINT32_def  FPGA_TYPE_SINT64_def

section \<open>Type codes of the software\<close>

datatype sw_type =
    sw_int32_type | sw_int64_type | sw_fix32_type | sw_fix64_type | sw_float_type
    | sw_double_type | sw_bool_type | sw_enum_type | sw_string_type | sw_bytes_type
    | sw_ptr_type | sw_class_id_type | sw_done_flag_type | sw_uint32_type | sw_uint64_type
    | sw_sint32_type | sw_sint64_type | sw_sfix32_type | sw_sfix64_type
    | sw_repeated_int32_type | sw_repeated_int64_type | sw_repeated_fix32_type
    | sw_repeated_fix64_type | sw_repeated_float_type | sw_repeated_double_type
    | sw_repeated_bool_type | sw_repeated_enum_type | sw_repeated_string_type
    | sw_repeated_bytes_type | sw_repeated_ptr_type | sw_repeated_class_id_type
    | sw_repeated_done_flag_type | sw_repeated_uint32_type | sw_repeated_uint64_type
    | sw_repeated_sint32_type | sw_repeated_sint64_type | sw_repeated_sfix32_type
    | sw_repeated_sfix64_type

fun sw_code :: "sw_type \<Rightarrow> u8" where
  "sw_code sw_int32_type = 1"
| "sw_code sw_int64_type = 2"
| "sw_code sw_fix32_type = 3"
| "sw_code sw_fix64_type = 4"
| "sw_code sw_float_type = 5"
| "sw_code sw_double_type = 6"
| "sw_code sw_bool_type = 7"
| "sw_code sw_enum_type = 8"
| "sw_code sw_string_type = 9"
| "sw_code sw_bytes_type = 10"
| "sw_code sw_ptr_type = 11"
| "sw_code sw_class_id_type = 12"
| "sw_code sw_done_flag_type = 13"
| "sw_code sw_uint32_type = 14"
| "sw_code sw_uint64_type = 15"
| "sw_code sw_sint32_type = 16"
| "sw_code sw_sint64_type = 17"
| "sw_code sw_sfix32_type = 18"
| "sw_code sw_sfix64_type = 19"
| "sw_code sw_repeated_int32_type = 20"
| "sw_code sw_repeated_int64_type = 21"
| "sw_code sw_repeated_fix32_type = 22"
| "sw_code sw_repeated_fix64_type = 23"
| "sw_code sw_repeated_float_type = 24"
| "sw_code sw_repeated_double_type = 25"
| "sw_code sw_repeated_bool_type = 26"
| "sw_code sw_repeated_enum_type = 27"
| "sw_code sw_repeated_string_type = 28"
| "sw_code sw_repeated_bytes_type = 29"
| "sw_code sw_repeated_ptr_type = 30"
| "sw_code sw_repeated_class_id_type = 31"
| "sw_code sw_repeated_done_flag_type = 32"
| "sw_code sw_repeated_uint32_type = 33"
| "sw_code sw_repeated_uint64_type = 34"
| "sw_code sw_repeated_sint32_type = 35"
| "sw_code sw_repeated_sint64_type = 36"
| "sw_code sw_repeated_sfix32_type = 37"
| "sw_code sw_repeated_sfix64_type = 38"

definition all_sw_types :: "sw_type list" where
  "all_sw_types =
    [sw_int32_type, sw_int64_type, sw_fix32_type, sw_fix64_type, sw_float_type
   , sw_double_type, sw_bool_type, sw_enum_type, sw_string_type, sw_bytes_type
   , sw_ptr_type, sw_class_id_type, sw_done_flag_type, sw_uint32_type, sw_uint64_type
   , sw_sint32_type, sw_sint64_type, sw_sfix32_type, sw_sfix64_type
   , sw_repeated_int32_type, sw_repeated_int64_type, sw_repeated_fix32_type
   , sw_repeated_fix64_type, sw_repeated_float_type, sw_repeated_double_type
   , sw_repeated_bool_type, sw_repeated_enum_type, sw_repeated_string_type
   , sw_repeated_bytes_type, sw_repeated_ptr_type, sw_repeated_class_id_type
   , sw_repeated_done_flag_type, sw_repeated_uint32_type, sw_repeated_uint64_type
   , sw_repeated_sint32_type, sw_repeated_sint64_type, sw_repeated_sfix32_type
   , sw_repeated_sfix64_type]"

lemma set_all_sw_types: "set all_sw_types = UNIV"
proof -
  have "t \<in> set all_sw_types" for t
    by (cases t) (simp_all add: all_sw_types_def)
  then show ?thesis by blast
qed

text \<open>The dispatch of \<open>switch (wire_type)\<close>: the constant whose number is the byte read, or
  \<open>None\<close> for the \<open>default\<close> branch.\<close>

definition decode_sw :: "u8 \<Rightarrow> sw_type option" where
  "decode_sw w = find (\<lambda>t. sw_code t = w) all_sw_types"

lemma decode_sw_code [simp]: "decode_sw (sw_code t) = Some t"
  by (cases t) (simp_all add: decode_sw_def all_sw_types_def)

lemma decode_sw_SomeD: "decode_sw w = Some t \<Longrightarrow> sw_code t = w"
  by (auto simp: decode_sw_def find_Some_iff)

lemma sw_code_inject: "sw_code s = sw_code t \<longleftrightarrow> s = t"
  by (metis decode_sw_code option.inject)

instantiation sw_type :: linorder
begin

definition less_eq_sw_type :: "sw_type \<Rightarrow> sw_type \<Rightarrow> bool" where
  "less_eq_sw_type s t \<longleftrightarrow> sw_code s \<le> sw_code t"

definition less_sw_type :: "sw_type \<Rightarrow> sw_type \<Rightarrow> bool" where
  "less_sw_type s t \<longleftrightarrow> sw_code s < sw_code t"

instance
  by standard (auto simp: less_eq_sw_type_def less_sw_type_def sw_code_inject less_le)

end

section \<open>Class descriptors\<close>

text \<open>
  \<open>struct Metadata\<close>: the number of fields, the class number, and for each field its software type
  code and its field number.  The two arrays have 52 and 64 elements.
\<close>

definition wire_type_capacity :: nat where
  "wire_type_capacity = 52"

definition field_id_capacity :: nat where
  "field_id_capacity = 64"

record Metadata =
  field_num :: u64
  class_id :: u32
  wire_type :: "u8 list"
  field_id :: "u8 list"

definition Metadata_ok :: "Metadata \<Rightarrow> bool" where
  "Metadata_ok md \<longleftrightarrow>
     length (wire_type md) = wire_type_capacity \<and> length (field_id md) = field_id_capacity"

text \<open>
  The fields a loop \<open>for (i = 0; i < field_num; ++i)\<close> over the descriptor visits, as pairs of type
  code and field number; a descriptor that claims more fields than its arrays hold makes the loop
  read past them.
\<close>

definition metadata_fields :: "Metadata \<Rightarrow> (u8 \<times> u8) list result" where
  "metadata_fields md =
     (if unat (field_num md) \<le> length (wire_type md) \<and> unat (field_num md) \<le> length (field_id md)
      then Inr (take (unat (field_num md)) (zip (wire_type md) (field_id md)))
      else Inl Overrun)"

lemma metadata_fields_Inr_length:
  "metadata_fields md = Inr fs \<Longrightarrow> length fs = unat (field_num md)"
  by (auto simp: metadata_fields_def split: if_splits)

lemma metadata_fields_overflow:
  "Metadata_ok md \<Longrightarrow> 52 < unat (field_num md) \<Longrightarrow> metadata_fields md = Inl Overrun"
  by (simp add: metadata_fields_def Metadata_ok_def wire_type_capacity_def field_id_capacity_def)

end
