(* ===== verification/Varint.thy ===== *)
theory Varint
  imports Config
begin

text \<open>
  The variable-length integers of \<open>include/encode.h\<close>: the zigzag transform, the size functions
  built on \<open>__builtin_clz\<close>, and the byte writer \<open>UnsafeVarint\<close> (lines 34 to 162).  A write pointer
  \<open>uint8_t* target\<close> is the list of bytes written so far; a writer returns the longer list, so
  \<open>ptr[-1]\<close> is its last element.  The specification is \<open>varint\<close>, the base-128 encoding of a
  natural number; the lemmas show that the writer appends it and that the size functions, which
  replace a division by \<open>(log2 * 9 + 73) / 64\<close>, give its length.
\<close>

section \<open>Specification: base-128 with continuation bits\<close>

fun varint :: "nat \<Rightarrow> bytes" where
  "varint n = (if n < 128 then [of_nat n] else of_nat (n mod 128 + 128) # varint (n div 128))"

declare varint.simps [simp del]

lemma varint_small: "n < 128 \<Longrightarrow> varint n = [of_nat n]"
  by (simp add: varint.simps)

lemma varint_big: "128 \<le> n \<Longrightarrow> varint n = of_nat (n mod 128 + 128) # varint (n div 128)"
  by (subst varint.simps) simp

lemma varint_not_Nil [simp]: "varint n \<noteq> []"
  by (subst varint.simps) simp

lemma length_varint_le: "n < 128 ^ k \<Longrightarrow> 0 < k \<Longrightarrow> length (varint n) \<le> k"
proof (induction k arbitrary: n)
  case 0
  then show ?case by simp
next
  case (Suc k)
  show ?case
  proof (cases "n < 128")
    case True
    then show ?thesis by (simp add: varint_small)
  next
    case False
    with Suc.prems have "n div 128 < 128 ^ k" by (simp add: less_mult_imp_div_less mult.commute)
    moreover from False Suc.prems have "0 < k" by (cases k) auto
    ultimately have "length (varint (n div 128)) \<le> k" by (rule Suc.IH)
    with False show ?thesis by (simp add: varint_big)
  qed
qed

lemma length_varint_gt: "128 ^ k \<le> n \<Longrightarrow> k < length (varint n)"
proof (induction k arbitrary: n)
  case 0
  then show ?case by (simp add: length_greater_0_conv)
next
  case (Suc k)
  then have big: "128 \<le> n"
    by (metis le_trans power_Suc one_le_numeral one_le_power mult_le_mono2 mult.right_neutral)
  from Suc.prems have "128 ^ k \<le> n div 128"
    by (simp add: less_eq_div_iff_mult_less_eq mult.commute)
  then have "k < length (varint (n div 128))" by (rule Suc.IH)
  with big show ?case by (simp add: varint_big)
qed

lemma length_varint:
  assumes "128 ^ k \<le> n \<or> k = 0" and "n < 128 ^ Suc k"
  shows "length (varint n) = Suc k"
proof -
  have "k < length (varint n)"
    using assms(1) length_varint_gt[of k n] by (cases "k = 0") auto
  moreover have "length (varint n) \<le> Suc k" using assms(2) by (rule length_varint_le) simp
  ultimately show ?thesis by simp
qed

section \<open>UnsafeVarint\<close>

text \<open>\<open>ptr[-1] |= 0x80\<close>.\<close>

definition mark_last :: "bytes \<Rightarrow> bytes" where
  "mark_last buf = butlast buf @ [last buf OR 0x80]"

text \<open>The \<open>do ... while (value >= 0x80)\<close> loop of \<open>UnsafeVarint\<close>.\<close>

function UnsafeVarint_loop :: "'a::len word \<Rightarrow> bytes \<Rightarrow> bytes" where
  "UnsafeVarint_loop v ptr =
     (let ptr = mark_last ptr;
          value = drop_bit 7 v;
          ptr = ptr @ [ucast value]
      in if 0x80 \<le> unat value then UnsafeVarint_loop value ptr else ptr)"
  by pat_completeness auto
termination
  by (relation "measure (\<lambda>(v, _). unat v)") (auto simp: unat_drop_bit_div)

declare UnsafeVarint_loop.simps [simp del]

definition UnsafeVarint :: "'a::len word \<Rightarrow> bytes \<Rightarrow> bytes" where
  "UnsafeVarint v ptr =
     (let b0 = ucast v in
      if unat v < 0x80 then ptr @ [b0]
      else
        let b0 = b0 OR 0x80;
            v = drop_bit 7 v;
            b1 = ucast v in
        if unat v < 0x80 then ptr @ [b0, b1]
        else UnsafeVarint_loop v (ptr @ [b0, b1]))"

text \<open>The bit trick and the pointer walk append the base-128 encoding.\<close>

lemma two_power_7: "(2 :: nat) ^ 7 = 128"
  by simp

lemma or_0x80: "(b :: u8) OR 0x80 = of_nat (unat b mod 128 + 128)"
proof -
  have b128: "bit (0x80 :: u8) n \<longleftrightarrow> n = 7" for n
    using bit_exp_iff [where 'a = u8, of 7 n] by auto
  have "b OR 0x80 = take_bit 7 b OR 0x80"
    by (rule bit_word_eqI) (auto simp: bit_or_iff bit_take_bit_iff b128 simp del: bit_numeral_word_iff)
  also have "\<dots> = take_bit 7 b + 0x80"
    by (rule disjunctive_add [symmetric]) (auto simp: bit_or_iff bit_take_bit_iff b128 simp del: bit_numeral_word_iff)
  also have "\<dots> = of_nat (unat (take_bit 7 b) + 128)"
    by simp
  also have "unat (take_bit 7 b) = unat b mod 128"
    by (metis unsigned_take_bit_eq take_bit_eq_mod two_power_7)
  finally show ?thesis by simp
qed

lemma ucast_or_0x80:
  assumes "8 \<le> LENGTH('a)"
  shows "(ucast (v :: 'a::len word) :: u8) OR 0x80 = of_nat (unat v mod 128 + 128)"
proof -
  have "unat (ucast v :: u8) = unat v mod 256"
    by (simp add: unsigned_ucast_eq take_bit_eq_mod)
  then show ?thesis by (simp add: or_0x80 mod_mod_cancel)
qed

lemma mark_last_snoc [simp]: "mark_last (buf @ [b]) = buf @ [b OR 0x80]"
  by (simp add: mark_last_def)

lemma UnsafeVarint_loop_eq:
  assumes "8 \<le> LENGTH('a)" and "128 \<le> unat (v :: 'a::len word)"
  shows "UnsafeVarint_loop v (buf @ [ucast v]) = buf @ varint (unat v)"
  using assms(2)
proof (induction v "buf @ [ucast v :: u8]" arbitrary: buf rule: UnsafeVarint_loop.induct)
  case (1 v)
  let ?w = "drop_bit 7 v" and ?c = "of_nat (unat v mod 128 + 128) :: u8"
  have w: "unat ?w = unat v div 128" by (simp add: unat_drop_bit_div)
  then have uw: "(ucast ?w :: u8) = of_nat (unat v div 128)" by (metis word_of_nat_unat_ucast)
  have step: "UnsafeVarint_loop v (buf @ [ucast v])
      = (if 128 \<le> unat ?w then UnsafeVarint_loop ?w ((buf @ [?c]) @ [ucast ?w])
         else (buf @ [?c]) @ [ucast ?w])"
    using assms(1) by (subst UnsafeVarint_loop.simps) (simp add: Let_def ucast_or_0x80)
  show ?case
  proof (cases "128 \<le> unat ?w")
    case True
    with 1(1)[OF refl refl refl] have "UnsafeVarint_loop ?w ((buf @ [?c]) @ [ucast ?w])
        = (buf @ [?c]) @ varint (unat ?w)"
      using assms(1) by (simp add: ucast_or_0x80)
    with True step 1(2) w show ?thesis by (simp add: varint_big)
  next
    case False
    with step 1(2) w uw show ?thesis by (simp add: varint_big varint_small)
  qed
qed

lemma UnsafeVarint_eq [codec_specs]:
  assumes "8 \<le> LENGTH('a)"
  shows "UnsafeVarint (v :: 'a::len word) ptr = ptr @ varint (unat v)"
proof (cases "unat v < 128")
  case True
  then show ?thesis by (simp add: UnsafeVarint_def varint_small)
next
  case False
  let ?w = "drop_bit 7 v" and ?c = "of_nat (unat v mod 128 + 128) :: u8"
  have w: "unat ?w = unat v div 128" by (simp add: unat_drop_bit_div)
  then have uw: "(ucast ?w :: u8) = of_nat (unat v div 128)" by (metis word_of_nat_unat_ucast)
  show ?thesis
  proof (cases "unat ?w < 128")
    case True
    with False w uw assms show ?thesis
      by (simp add: UnsafeVarint_def Let_def ucast_or_0x80 varint_big varint_small)
  next
    case big: False
    then have "UnsafeVarint_loop ?w ((ptr @ [?c]) @ [ucast ?w]) = (ptr @ [?c]) @ varint (unat ?w)"
      using assms by (intro UnsafeVarint_loop_eq) simp_all
    with False big w assms show ?thesis
      by (simp add: UnsafeVarint_def Let_def ucast_or_0x80 varint_big)
  qed
qed

section \<open>Logarithms from leading zeros\<close>

text \<open>\<open>__builtin_clz\<close> and \<open>__builtin_clzll\<close>: the zero bits above the highest set bit, counted
  from bit \<open>i - 1\<close> down.\<close>

primrec clz_from :: "nat \<Rightarrow> 'a::len word \<Rightarrow> nat" where
  "clz_from 0 n = 0"
| "clz_from (Suc i) n = (if bit n i then 0 else Suc (clz_from i n))"

definition builtin_clz :: "u32 \<Rightarrow> u32" where
  "builtin_clz n = of_nat (clz_from 32 n)"

definition builtin_clzll :: "u64 \<Rightarrow> u32" where
  "builtin_clzll n = of_nat (clz_from 64 n)"

definition Log2FloorNonZero64 :: "u64 \<Rightarrow> u32" where
  "Log2FloorNonZero64 n = 63 XOR builtin_clzll n"

definition Log2FloorNonZero :: "u32 \<Rightarrow> u32" where
  "Log2FloorNonZero n = 31 XOR builtin_clz n"

lemma clz_from_bounds:
  fixes n :: "'a::len word"
  assumes "n \<noteq> 0" and "unat n < 2 ^ i"
  shows "clz_from i n < i \<and> 2 ^ (i - 1 - clz_from i n) \<le> unat n \<and> unat n < 2 ^ (i - clz_from i n)"
  using assms(2)
proof (induction i)
  case 0
  with assms(1) show ?case by (simp add: unat_eq_zero)
next
  case (Suc i)
  have b: "bit n i \<longleftrightarrow> odd (unat n div 2 ^ i)"
    using bit_iff_odd [of "unat n" i] by (auto simp: bit_unsigned_iff dest: bit_imp_le_length)
  show ?case
  proof (cases "bit n i")
    case True
    with b have "unat n div 2 ^ i \<noteq> 0" by (metis even_zero)
    then have "2 ^ i \<le> unat n" by (simp add: div_eq_0_iff not_less)
    with True Suc.prems show ?thesis by simp
  next
    case False
    from Suc.prems have "unat n div 2 ^ i < 2"
      by (simp add: less_mult_imp_div_less)
    with False b have "unat n div 2 ^ i = 0" by (auto dest!: less_2_cases)
    then have "unat n < 2 ^ i" by (simp add: div_eq_0_iff)
    with Suc.IH False show ?thesis by simp
  qed
qed

lemma xor_31: "k < 32 \<Longrightarrow> (31 :: u32) XOR of_nat k = of_nat (31 - k)"
proof -
  assume "k < 32"
  moreover have "\<forall>k \<in> set [0..<32]. (31 :: u32) XOR of_nat k = of_nat (31 - k)"
    by (simp add: upt_conv_Cons)
  ultimately show ?thesis by simp
qed

lemma xor_63: "k < 64 \<Longrightarrow> (63 :: u32) XOR of_nat k = of_nat (63 - k)"
proof -
  assume "k < 64"
  moreover have "\<forall>k \<in> set [0..<64]. (63 :: u32) XOR of_nat k = of_nat (63 - k)"
    by (simp add: upt_conv_Cons)
  ultimately show ?thesis by simp
qed

lemma Log2FloorNonZero_spec:
  assumes "n \<noteq> 0"
  obtains l where "Log2FloorNonZero n = of_nat l" "l < 32" "2 ^ l \<le> unat n" "unat n < 2 ^ Suc l"
proof -
  let ?k = "clz_from 32 n"
  have "unat n < 2 ^ 32" using unsigned_less [of n] by simp
  with assms have k: "?k < 32" "2 ^ (32 - 1 - ?k) \<le> unat n" "unat n < 2 ^ (32 - ?k)"
    using clz_from_bounds by blast+
  have "Suc (31 - ?k) = 32 - ?k" using k(1) by simp
  with k have "2 ^ (31 - ?k) \<le> unat n" "unat n < 2 ^ Suc (31 - ?k)" by simp_all
  moreover have "Log2FloorNonZero n = of_nat (31 - ?k)"
    using k(1) by (simp only: Log2FloorNonZero_def builtin_clz_def xor_31)
  ultimately show thesis using that[of "31 - ?k"] by simp
qed

lemma Log2FloorNonZero64_spec:
  assumes "n \<noteq> 0"
  obtains l where "Log2FloorNonZero64 n = of_nat l" "l < 64" "2 ^ l \<le> unat n" "unat n < 2 ^ Suc l"
proof -
  let ?k = "clz_from 64 n"
  have "unat n < 2 ^ 64" using unsigned_less [of n] by simp
  with assms have k: "?k < 64" "2 ^ (64 - 1 - ?k) \<le> unat n" "unat n < 2 ^ (64 - ?k)"
    using clz_from_bounds by blast+
  have "Suc (63 - ?k) = 64 - ?k" using k(1) by simp
  with k have "2 ^ (63 - ?k) \<le> unat n" "unat n < 2 ^ Suc (63 - ?k)" by simp_all
  moreover have "Log2FloorNonZero64 n = of_nat (63 - ?k)"
    using k(1) by (simp only: Log2FloorNonZero64_def builtin_clzll_def xor_63)
  ultimately show thesis using that[of "63 - ?k"] by simp
qed

section \<open>Encoded sizes\<close>

text \<open>A \<open>size_t\<close> is a 64-bit word; the intermediate \<open>log2value * 9 + 73\<close> is computed on
  \<open>uint32_t\<close>.\<close>

definition VarintSize32 :: "u32 \<Rightarrow> u64" where
  "VarintSize32 v = (let log2value = Log2FloorNonZero (v OR 1) in ucast ((log2value * 9 + 73) div 64))"

definition VarintSize64 :: "u64 \<Rightarrow> u64" where
  "VarintSize64 v = (let log2value = Log2FloorNonZero64 (v OR 1) in ucast ((log2value * 9 + 73) div 64))"

lemma div7_trick: "l < 64 \<Longrightarrow> (of_nat l * 9 + 73 :: u32) div 64 = of_nat (l div 7 + 1)"
proof -
  assume "l < 64"
  moreover have "\<forall>l \<in> set [0..<64]. (of_nat l * 9 + 73 :: u32) div 64 = of_nat (l div 7 + 1)"
    by (simp add: upt_conv_Cons)
  ultimately show ?thesis by simp
qed

lemma length_varint_log2:
  fixes n :: nat
  assumes "2 ^ l \<le> n OR 1" and "n OR 1 < 2 ^ Suc l"
  shows "length (varint n) = l div 7 + 1"
proof -
  have o: "n OR 1 = n + of_bool (even n)" by (rule or_one_eq)
  have e: "(128 :: nat) ^ k = 2 ^ (7 * k)" for k by (simp add: power_mult)
  have "128 ^ (l div 7) \<le> n \<or> l div 7 = 0"
  proof (cases "l = 0")
    case False
    then have "even ((2 :: nat) ^ l)" by simp
    moreover have "odd (n OR 1)" by (simp add: even_or_iff)
    ultimately have "2 ^ l \<noteq> n OR 1" by metis
    with assms(1) o have "2 ^ l \<le> n" by (cases "even n") simp_all
    moreover have "(2 :: nat) ^ (7 * (l div 7)) \<le> 2 ^ l" by (rule power_increasing) simp_all
    ultimately have "2 ^ (7 * (l div 7)) \<le> n" by (metis order.trans)
    then show ?thesis by (metis e)
  qed simp
  moreover have "n < 128 ^ Suc (l div 7)"
  proof -
    have "n < 2 ^ Suc l" using assms(2) o by linarith
    also have "(2 :: nat) ^ Suc l \<le> 2 ^ (7 * Suc (l div 7))"
      by (rule power_increasing) (presburger, simp)
    finally show ?thesis by (simp only: e)
  qed
  ultimately show ?thesis using length_varint[of "l div 7" n] by simp
qed

lemma or_1_neq_0: "(v :: 'a::len word) OR 1 \<noteq> 0"
proof -
  have "bit (v OR 1) 0" by (simp add: bit_or_iff bit_1_iff)
  then show ?thesis by (metis bit_0_eq bot_apply bot_bool_def)
qed

lemma VarintSize32_eq [size_specs]: "VarintSize32 v = of_nat (length (varint (unat v)))"
proof -
  obtain l where l: "Log2FloorNonZero (v OR 1) = of_nat l" "l < 32"
      "2 ^ l \<le> unat (v OR 1)" "unat (v OR 1) < 2 ^ Suc l"
    using Log2FloorNonZero_spec or_1_neq_0 by blast
  have "unat (v OR 1) = unat v OR 1" by (simp add: unsigned_or_eq)
  with l have "length (varint (unat v)) = l div 7 + 1" by (metis length_varint_log2)
  moreover have "VarintSize32 v = ucast (of_nat (l div 7 + 1) :: u32)"
    using l(1,2) by (simp only: VarintSize32_def Let_def div7_trick)
  moreover have "unat (of_nat (l div 7 + 1) :: u32) = l div 7 + 1"
    by (rule unat_of_nat_small) (use l(2) in simp)
  ultimately show ?thesis by (metis word_of_nat_unat_ucast)
qed

lemma VarintSize64_eq [size_specs]: "VarintSize64 v = of_nat (length (varint (unat v)))"
proof -
  obtain l where l: "Log2FloorNonZero64 (v OR 1) = of_nat l" "l < 64"
      "2 ^ l \<le> unat (v OR 1)" "unat (v OR 1) < 2 ^ Suc l"
    using Log2FloorNonZero64_spec or_1_neq_0 by blast
  have "unat (v OR 1) = unat v OR 1" by (simp add: unsigned_or_eq)
  with l have "length (varint (unat v)) = l div 7 + 1" by (metis length_varint_log2)
  moreover have "VarintSize64 v = ucast (of_nat (l div 7 + 1) :: u32)"
    using l(1,2) by (simp only: VarintSize64_def Let_def div7_trick)
  moreover have "unat (of_nat (l div 7 + 1) :: u32) = l div 7 + 1"
    by (rule unat_of_nat_small) (use l(2) in simp)
  ultimately show ?thesis by (metis word_of_nat_unat_ucast)
qed

lemma varint_canonical:
  "list_all (\<lambda>b. 128 \<le> b) (butlast (varint n)) \<and> last (varint n) < 128
     \<and> (length (varint n) = 1 \<or> 0 < last (varint n))
     \<and> foldr (\<lambda>b k. k * 128 + unat b mod 128) (varint n) 0 = n"
proof (induction n rule: varint.induct)
  case (1 n)
  show ?case
  proof (cases "n < 128")
    case True
    have "unat (of_nat n :: u8) = n" using True by (intro unat_of_nat_small) simp
    then show ?thesis using True by (simp add: varint_small word_less_nat_alt)
  next
    case False
    let ?b = "of_nat (n mod 128 + 128) :: u8"
    have b: "unat ?b = n mod 128 + 128" by (intro unat_of_nat_small) simp
    have "last (varint (n div 128)) = of_nat (n div 128)" if "n div 128 < 128"
      using that by (simp add: varint_small)
    moreover have "0 < (of_nat (n div 128) :: u8)" if "n div 128 < 128"
    proof -
      have "unat (of_nat (n div 128) :: u8) = n div 128" using that by (intro unat_of_nat_small) simp
      then show ?thesis using False by (simp add: word_less_nat_alt)
    qed
    moreover have "length (varint (n div 128)) = 1 \<Longrightarrow> n div 128 < 128"
      by (metis length_varint_gt less_irrefl not_less power_one_right)
    ultimately have "0 < last (varint (n div 128))" using 1 [OF False] by metis
    moreover have "128 \<le> ?b" using b by (simp add: word_le_nat_alt)
    moreover have "n div 128 * 128 + (n mod 128 + 128) mod 128 = n" by simp
    ultimately show ?thesis using 1 [OF False] b False by (simp add: varint_big)
  qed
qed

text \<open>C27. \<open>UnsafeVarint\<close> appends at least one byte and leaves what was written before
  alone; every byte but the last has the continuation bit, the last has not and is not a useless
  zero, and the seven-bit groups, least significant first, are the value: for unsigned integers of
  any width of at least a byte.\<close>

theorem UnsafeVarint_canonical:
  assumes "8 \<le> LENGTH('a)"
  shows "\<exists>bs. UnsafeVarint (value :: 'a::len word) ptr = ptr @ bs \<and> bs \<noteq> []
     \<and> list_all (\<lambda>b. 128 \<le> b) (butlast bs) \<and> last bs < 128
     \<and> (length bs = 1 \<or> 0 < last bs)
     \<and> foldr (\<lambda>b k. k * 128 + unat b mod 128) bs 0 = unat value"
  using varint_canonical [of "unat value"]
  by (intro exI [of _ "varint (unat value)"]) (simp add: UnsafeVarint_eq [OF assms])

theorem UnsafeVarint_canonical_witness:
  "\<exists>bs. UnsafeVarint (300 :: u32) [7] = [7] @ bs \<and> bs \<noteq> []
     \<and> list_all (\<lambda>b. 128 \<le> b) (butlast bs) \<and> last bs < 128
     \<and> (length bs = 1 \<or> 0 < last bs)
     \<and> foldr (\<lambda>b k. k * 128 + unat b mod 128) bs 0 = unat (300 :: u32)"
  by (rule UnsafeVarint_canonical) simp

text \<open>The size functions, which compute \<open>(log2 * 9 + 73) / 64\<close> from
  \<open>__builtin_clz\<close> instead of dividing by seven, give exactly the number of bytes \<open>UnsafeVarint\<close> writes,
  between 1 and 5 on 32 bits and between 1 and 10 on 64 bits.\<close>

theorem VarintSize_exact:
  "unat (VarintSize32 v) = length (UnsafeVarint v []) \<and> unat (VarintSize64 w) = length (UnsafeVarint w [])
     \<and> length (UnsafeVarint v []) \<in> {1..5} \<and> length (UnsafeVarint w []) \<in> {1..10}"
proof -
  have v: "length (varint (unat v)) \<le> 5" using unat_less [of v] by (intro length_varint_le) simp_all
  have w: "length (varint (unat w)) \<le> 10" using unat_less [of w] by (intro length_varint_le) simp_all
  have "1 \<le> length (varint n)" for n by (simp add: Suc_le_eq)
  then show ?thesis
    using v w by (simp add: VarintSize32_eq VarintSize64_eq UnsafeVarint_eq unat_of_nat_small)
qed

end
