(* ===== verification/Encode.thy ===== *)
theory Encode
  imports Varint
begin

text \<open>
  The field writers of \<open>include/encode.h\<close>: the size of each scalar, the tag, and one writer per
  protobuf type, plain and repeated.  Signed C++ integers are words; a \<open>static_cast\<close> from
  \<open>int32_t\<close> to \<open>uint64_t\<close> is \<open>scast\<close>.  Floats and doubles are their IEEE-754 bit patterns, which is
  all the code uses of them (\<open>bit_cast\<close>).  A \<open>std::string\<close> is the list of its bytes.  The locale
  \<open>elem_writer\<close> is what a repeated writer needs of its element writer and size function; it is
  interpreted for every element type.
\<close>

type_synonym cfloat = u32
type_synonym cdouble = u64

section \<open>Zigzag\<close>

definition ZigZagEncode32 :: "u32 \<Rightarrow> u32" where
  "ZigZagEncode32 n = push_bit 1 n XOR signed_drop_bit 31 n"

definition ZigZagEncode64 :: "u64 \<Rightarrow> u64" where
  "ZigZagEncode64 n = push_bit 1 n XOR signed_drop_bit 63 n"

section \<open>Scalar sizes\<close>

definition VarintSize32SignExtended :: "u32 \<Rightarrow> u64" where
  "VarintSize32SignExtended value = VarintSize64 (scast value)"

definition LengthDelimitedSize :: "u64 \<Rightarrow> u64" where
  "LengthDelimitedSize len = len + VarintSize32 (ucast len)"

definition Int32Size :: "u32 \<Rightarrow> u64" where
  "Int32Size value = VarintSize32SignExtended value"

definition Int64Size :: "u64 \<Rightarrow> u64" where
  "Int64Size value = VarintSize64 value"

definition UInt64Size :: "u64 \<Rightarrow> u64" where
  "UInt64Size value = VarintSize64 value"

definition UInt32Size :: "u32 \<Rightarrow> u64" where
  "UInt32Size value = VarintSize32 value"

definition SInt32Size :: "u32 \<Rightarrow> u64" where
  "SInt32Size value = VarintSize32 (ZigZagEncode32 value)"

definition EnumSize :: "u32 \<Rightarrow> u64" where
  "EnumSize value = VarintSize32SignExtended value"

definition StringSize :: "bytes \<Rightarrow> u64" where
  "StringSize value = LengthDelimitedSize (of_nat (length value))"

definition EncodeFloat :: "cfloat \<Rightarrow> u32" where
  "EncodeFloat value = value"

definition EncodeDouble :: "cdouble \<Rightarrow> u64" where
  "EncodeDouble value = value"

section \<open>Values without a tag\<close>

definition WriteLittleEndian64ToArray :: "u64 \<Rightarrow> bytes \<Rightarrow> bytes" where
  "WriteLittleEndian64ToArray value target = target @ le_bytes 8 (unat value)"

definition WriteLittleEndian32ToArray :: "u32 \<Rightarrow> bytes \<Rightarrow> bytes" where
  "WriteLittleEndian32ToArray value target = target @ le_bytes 4 (unat value)"

definition WriteVarint32SignExtendedToArray :: "u32 \<Rightarrow> bytes \<Rightarrow> bytes" where
  "WriteVarint32SignExtendedToArray value target = UnsafeVarint (scast value :: u64) target"

definition WriteVarint32ToArray :: "u32 \<Rightarrow> bytes \<Rightarrow> bytes" where
  "WriteVarint32ToArray value target = UnsafeVarint value target"

definition WriteVarint64ToArray :: "u64 \<Rightarrow> bytes \<Rightarrow> bytes" where
  "WriteVarint64ToArray value target = UnsafeVarint value target"

definition WriteInt32NoTagToArray :: "u32 \<Rightarrow> bytes \<Rightarrow> bytes" where
  "WriteInt32NoTagToArray value target = WriteVarint32SignExtendedToArray value target"

definition WriteInt64NoTagToArray :: "u64 \<Rightarrow> bytes \<Rightarrow> bytes" where
  "WriteInt64NoTagToArray value target = WriteVarint64ToArray value target"

definition WriteUInt64NoTagToArray :: "u64 \<Rightarrow> bytes \<Rightarrow> bytes" where
  "WriteUInt64NoTagToArray value target = WriteVarint64ToArray value target"

definition WriteBoolNoTagToArray :: "bool \<Rightarrow> bytes \<Rightarrow> bytes" where
  "WriteBoolNoTagToArray value target = WriteVarint32ToArray (if value then 1 else 0) target"

definition WriteSInt32NoTagToArray :: "u32 \<Rightarrow> bytes \<Rightarrow> bytes" where
  "WriteSInt32NoTagToArray value target = WriteVarint32ToArray (ZigZagEncode32 value) target"

definition WriteDoubleNoTagToArray :: "cdouble \<Rightarrow> bytes \<Rightarrow> bytes" where
  "WriteDoubleNoTagToArray value target = WriteLittleEndian64ToArray (EncodeDouble value) target"

definition WriteFloatNoTagToArray :: "cfloat \<Rightarrow> bytes \<Rightarrow> bytes" where
  "WriteFloatNoTagToArray value target = WriteLittleEndian32ToArray (EncodeFloat value) target"

definition WriteFixed64NoTagToArray :: "u64 \<Rightarrow> bytes \<Rightarrow> bytes" where
  "WriteFixed64NoTagToArray value target = WriteLittleEndian64ToArray value target"

definition WriteFixed32NoTagToArray :: "u32 \<Rightarrow> bytes \<Rightarrow> bytes" where
  "WriteFixed32NoTagToArray value target = WriteLittleEndian32ToArray value target"

definition WriteLengthToArray :: "u16 \<Rightarrow> bytes \<Rightarrow> bytes" where
  "WriteLengthToArray current_field_size target = target @ le_bytes 2 (unat current_field_size)"

definition WriteTagToArray :: "u32 \<Rightarrow> u32 \<Rightarrow> bytes \<Rightarrow> bytes" where
  "WriteTagToArray field_number type target =
     (let value = push_bit 3 field_number OR type in WriteVarint32ToArray value target)"

section \<open>Tagged fields\<close>

definition WriteInt32ToArray :: "u32 \<Rightarrow> u32 \<Rightarrow> bytes \<Rightarrow> bytes" where
  "WriteInt32ToArray field_number value target =
     WriteInt32NoTagToArray value (WriteTagToArray field_number PROTOBUF_VARINT_TYPE target)"

definition WriteRepeatedInt32ToArray :: "u32 \<Rightarrow> u32 list \<Rightarrow> bytes \<Rightarrow> bytes" where
  "WriteRepeatedInt32ToArray field_number value target =
     (let target = WriteTagToArray field_number PROTOBUF_LENGTH_DELIMITED_TYPE target;
          len = fold (\<lambda>v len. len + ucast (Int32Size v)) value (0 :: u32);
          target = WriteVarint32ToArray len target
      in fold WriteInt32NoTagToArray value target)"

definition WritePtrToArray :: "u32 \<Rightarrow> u32 \<Rightarrow> bytes \<Rightarrow> bytes" where
  "WritePtrToArray field_number value target =
     WriteInt32NoTagToArray value (WriteTagToArray field_number PROTOBUF_LENGTH_DELIMITED_TYPE target)"

definition WriteClassIdToArray :: "u32 \<Rightarrow> u32 \<Rightarrow> bytes \<Rightarrow> bytes" where
  "WriteClassIdToArray field_number value target =
     WriteInt32NoTagToArray value (WriteTagToArray field_number PROTOBUF_START_GROUP_TYPE target)"

definition WriteRepeatedPtrToArray :: "u32 \<Rightarrow> u32 list \<Rightarrow> bytes \<Rightarrow> bytes" where
  "WriteRepeatedPtrToArray field_number value target =
     (let target = WriteTagToArray field_number PROTOBUF_LENGTH_DELIMITED_TYPE target;
          len = fold (\<lambda>v len. len + ucast (Int32Size v)) value (0 :: u32);
          target = WriteVarint32ToArray len target
      in fold WriteInt32NoTagToArray value target)"

definition WriteInt64ToArray :: "u32 \<Rightarrow> u64 \<Rightarrow> bytes \<Rightarrow> bytes" where
  "WriteInt64ToArray field_number value target =
     WriteInt64NoTagToArray value (WriteTagToArray field_number PROTOBUF_VARINT_TYPE target)"

definition WriteRepeatedInt64ToArray :: "u32 \<Rightarrow> u64 list \<Rightarrow> bytes \<Rightarrow> bytes" where
  "WriteRepeatedInt64ToArray field_number value target =
     (let target = WriteTagToArray field_number PROTOBUF_LENGTH_DELIMITED_TYPE target;
          len = fold (\<lambda>v len. len + ucast (Int64Size v)) value (0 :: u32);
          target = WriteVarint32ToArray len target
      in fold WriteInt64NoTagToArray value target)"

definition WriteUInt64ToArray :: "u32 \<Rightarrow> u64 \<Rightarrow> bytes \<Rightarrow> bytes" where
  "WriteUInt64ToArray field_number value target =
     WriteUInt64NoTagToArray value (WriteTagToArray field_number PROTOBUF_VARINT_TYPE target)"

definition WriteRepeatedUInt64ToArray :: "u32 \<Rightarrow> u64 list \<Rightarrow> bytes \<Rightarrow> bytes" where
  "WriteRepeatedUInt64ToArray field_number value target =
     (let target = WriteTagToArray field_number PROTOBUF_LENGTH_DELIMITED_TYPE target;
          len = fold (\<lambda>v len. len + ucast (UInt64Size v)) value (0 :: u32);
          target = WriteVarint32ToArray len target
      in fold WriteUInt64NoTagToArray value target)"

definition WriteUInt32ToArray :: "u32 \<Rightarrow> u32 \<Rightarrow> bytes \<Rightarrow> bytes" where
  "WriteUInt32ToArray field_number value target =
     WriteVarint32ToArray value (WriteTagToArray field_number PROTOBUF_VARINT_TYPE target)"

definition WriteRepeatedUInt32ToArray :: "u32 \<Rightarrow> u32 list \<Rightarrow> bytes \<Rightarrow> bytes" where
  "WriteRepeatedUInt32ToArray field_number value target =
     (let target = WriteTagToArray field_number PROTOBUF_LENGTH_DELIMITED_TYPE target;
          len = fold (\<lambda>v len. len + ucast (UInt32Size v)) value (0 :: u32);
          target = WriteVarint32ToArray len target
      in fold WriteVarint32ToArray value target)"

definition WriteBoolToArray :: "u32 \<Rightarrow> bool \<Rightarrow> bytes \<Rightarrow> bytes" where
  "WriteBoolToArray field_number value target =
     WriteBoolNoTagToArray value (WriteTagToArray field_number PROTOBUF_VARINT_TYPE target)"

text \<open>The elements of the vector are \<open>uint8_t\<close>; each is converted to \<open>bool\<close> on the call.\<close>

definition WriteRepeatedBoolToArray :: "u32 \<Rightarrow> u8 list \<Rightarrow> bytes \<Rightarrow> bytes" where
  "WriteRepeatedBoolToArray field_number value target =
     (let target = WriteTagToArray field_number PROTOBUF_LENGTH_DELIMITED_TYPE target;
          len = fold (\<lambda>v len. len + 1) value (0 :: u32);
          target = WriteVarint32ToArray len target
      in fold (\<lambda>v. WriteBoolNoTagToArray (v \<noteq> 0)) value target)"

definition WriteSInt32ToArray :: "u32 \<Rightarrow> u32 \<Rightarrow> bytes \<Rightarrow> bytes" where
  "WriteSInt32ToArray field_number value target =
     WriteSInt32NoTagToArray value (WriteTagToArray field_number PROTOBUF_VARINT_TYPE target)"

definition WriteDoubleToArray :: "u32 \<Rightarrow> cdouble \<Rightarrow> bytes \<Rightarrow> bytes" where
  "WriteDoubleToArray field_number value target =
     WriteDoubleNoTagToArray value (WriteTagToArray field_number PROTOBUF_64BIT_TYPE target)"

definition WriteFloatToArray :: "u32 \<Rightarrow> cfloat \<Rightarrow> bytes \<Rightarrow> bytes" where
  "WriteFloatToArray field_number value target =
     WriteFloatNoTagToArray value (WriteTagToArray field_number PROTOBUF_32BIT_TYPE target)"

definition WriteRepeatedFloatToArray :: "u32 \<Rightarrow> cfloat list \<Rightarrow> bytes \<Rightarrow> bytes" where
  "WriteRepeatedFloatToArray field_number value target =
     (let target = WriteTagToArray field_number PROTOBUF_LENGTH_DELIMITED_TYPE target;
          len = fold (\<lambda>v len. len + 4) value (0 :: u32);
          target = WriteVarint32ToArray len target
      in fold WriteFloatNoTagToArray value target)"

definition WriteEnumToArray :: "u32 \<Rightarrow> u32 \<Rightarrow> bytes \<Rightarrow> bytes" where
  "WriteEnumToArray field_number value target =
     WriteInt32NoTagToArray value (WriteTagToArray field_number PROTOBUF_VARINT_TYPE target)"

definition WriteRepeatedEnumToArray :: "u32 \<Rightarrow> u32 list \<Rightarrow> bytes \<Rightarrow> bytes" where
  "WriteRepeatedEnumToArray field_number value target =
     (let target = WriteTagToArray field_number PROTOBUF_LENGTH_DELIMITED_TYPE target;
          len = fold (\<lambda>v len. len + ucast (EnumSize v)) value (0 :: u32);
          target = WriteVarint32ToArray len target
      in fold WriteInt32NoTagToArray value target)"

definition WriteFixed64ToArray :: "u32 \<Rightarrow> u64 \<Rightarrow> bytes \<Rightarrow> bytes" where
  "WriteFixed64ToArray field_number value target =
     WriteFixed64NoTagToArray value (WriteTagToArray field_number PROTOBUF_64BIT_TYPE target)"

definition WriteRepeatedFixed64ToArray :: "u32 \<Rightarrow> u64 list \<Rightarrow> bytes \<Rightarrow> bytes" where
  "WriteRepeatedFixed64ToArray field_number value target =
     (let target = WriteTagToArray field_number PROTOBUF_LENGTH_DELIMITED_TYPE target;
          len = fold (\<lambda>v len. len + 8) value (0 :: u32);
          target = WriteVarint32ToArray len target
      in fold WriteFixed64NoTagToArray value target)"

definition WriteFixed32ToArray :: "u32 \<Rightarrow> u32 \<Rightarrow> bytes \<Rightarrow> bytes" where
  "WriteFixed32ToArray field_number value target =
     WriteFixed32NoTagToArray value (WriteTagToArray field_number PROTOBUF_32BIT_TYPE target)"

definition WriteStringToArray :: "u32 \<Rightarrow> bytes \<Rightarrow> bytes \<Rightarrow> bytes" where
  "WriteStringToArray field_number s target =
     (let s_size = length s;
          target = WriteTagToArray field_number PROTOBUF_LENGTH_DELIMITED_TYPE target;
          target = WriteVarint32ToArray (of_nat s_size) target
      in target @ s)"

definition WriteStringNoTagToArray :: "u32 \<Rightarrow> bytes \<Rightarrow> bytes \<Rightarrow> bytes" where
  "WriteStringNoTagToArray field_number s target =
     (let s_size = length s;
          target = WriteVarint32ToArray (of_nat s_size) target
      in target @ s)"

definition WriteRepeatedStringToArray :: "u32 \<Rightarrow> bytes list \<Rightarrow> bytes \<Rightarrow> bytes" where
  "WriteRepeatedStringToArray field_number value target =
     (let target = WriteTagToArray field_number PROTOBUF_LENGTH_DELIMITED_TYPE target;
          len = fold (\<lambda>v len. len + ucast (StringSize v)) value (0 :: u32);
          target = WriteVarint32ToArray len target
      in fold (WriteStringNoTagToArray 0) value target)"

definition WriteSkipRepeatedStringToArray :: "u32 \<Rightarrow> bytes list \<Rightarrow> bytes \<Rightarrow> bytes \<Rightarrow> bytes" where
  "WriteSkipRepeatedStringToArray field_number value target skip_field =
     (let target = WriteTagToArray field_number PROTOBUF_LENGTH_DELIMITED_TYPE target;
          len = fold (\<lambda>v len. if 1024 < length v then len + ucast (StringSize skip_field)
                              else len + ucast (StringSize v)) value (0 :: u32);
          target = WriteVarint32ToArray len target
      in fold (\<lambda>v target. if 1024 < length v then WriteStringNoTagToArray 0 skip_field target
                          else WriteStringNoTagToArray 0 v target) value target)"

definition WriteBytesToArray :: "u32 \<Rightarrow> bytes \<Rightarrow> bytes \<Rightarrow> bytes" where
  "WriteBytesToArray field_number s target =
     (let s_size = length s;
          target = WriteTagToArray field_number PROTOBUF_LENGTH_DELIMITED_TYPE target;
          target = WriteVarint32ToArray (of_nat s_size) target
      in target @ s)"

definition WriteBytesNoTagToArray :: "u32 \<Rightarrow> bytes \<Rightarrow> bytes \<Rightarrow> bytes" where
  "WriteBytesNoTagToArray field_number s target =
     (let s_size = length s;
          target = WriteVarint32ToArray (of_nat s_size) target
      in target @ s)"

text \<open>The wire type of the tag is the software type code of repeated bytes, and the length written
  is the number of elements.\<close>

definition WriteRepeatedBytesToArray :: "u32 \<Rightarrow> bytes list \<Rightarrow> bytes \<Rightarrow> bytes" where
  "WriteRepeatedBytesToArray field_number value target =
     (let target = WriteTagToArray field_number (ucast (sw_code sw_repeated_bytes_type)) target;
          target = WriteVarint32ToArray (of_nat (length value)) target
      in fold (WriteBytesNoTagToArray 0) value target)"

section \<open>What the writers append\<close>

text \<open>The encodings of one element, and of a packed sequence of elements.\<close>

definition enc_u64 :: "u64 \<Rightarrow> bytes" where
  "enc_u64 v = varint (unat v)"

definition enc_u32 :: "u32 \<Rightarrow> bytes" where
  "enc_u32 v = varint (unat v)"

definition enc_i32 :: "u32 \<Rightarrow> bytes" where
  "enc_i32 v = enc_u64 (scast v)"

definition enc_bool :: "bool \<Rightarrow> bytes" where
  "enc_bool b = [if b then 1 else 0]"

definition enc_fixed32 :: "u32 \<Rightarrow> bytes" where
  "enc_fixed32 v = le_bytes 4 (unat v)"

definition enc_fixed64 :: "u64 \<Rightarrow> bytes" where
  "enc_fixed64 v = le_bytes 8 (unat v)"

definition enc_string :: "bytes \<Rightarrow> bytes" where
  "enc_string s = enc_u32 (of_nat (length s)) @ s"

definition tag_bytes :: "u32 \<Rightarrow> u32 \<Rightarrow> bytes" where
  "tag_bytes field_number ty = enc_u32 (push_bit 3 field_number OR ty)"

definition enc_packed :: "('v \<Rightarrow> bytes) \<Rightarrow> 'v list \<Rightarrow> bytes" where
  "enc_packed enc vs =
     enc_u32 (of_nat (length (concat (map enc vs)))) @ concat (map enc vs)"

lemma length_enc_fixed [simp]: "length (enc_fixed32 v) = 4" "length (enc_fixed64 w) = 8"
  by (simp_all add: enc_fixed32_def enc_fixed64_def)

lemma length_enc_u32: "length (enc_u32 v) \<le> 5"
  using length_varint_le [of "unat v" 5] unat_less [of v] by (simp add: enc_u32_def)

lemma length_enc_i32: "length (enc_i32 v) \<le> 10"
  using length_varint_le [of "unat (scast v :: u64)" 10] unat_less [of "scast v :: u64"]
  by (simp add: enc_i32_def enc_u64_def)

lemma length_enc_u64: "length (enc_u64 w) \<le> 10"
  using length_varint_le [of "unat w" 10] unat_less [of w] by (simp add: enc_u64_def)

lemma enc_not_Nil [simp]:
  "enc_u32 v \<noteq> []" "enc_u64 w \<noteq> []" "enc_i32 v \<noteq> []" "enc_bool b \<noteq> []" "enc_string s \<noteq> []"
  "enc_fixed32 v \<noteq> []" "enc_fixed64 w \<noteq> []" "tag_bytes f ty \<noteq> []"
proof -
  show "enc_u32 v \<noteq> []" "enc_u64 w \<noteq> []" "enc_i32 v \<noteq> []" "enc_bool b \<noteq> []"
    "enc_string s \<noteq> []" "tag_bytes f ty \<noteq> []"
    by (simp_all add: enc_u32_def enc_u64_def enc_i32_def enc_bool_def enc_string_def tag_bytes_def)
  show "enc_fixed32 v \<noteq> []" "enc_fixed64 w \<noteq> []"
    using length_enc_fixed(1) [of v] length_enc_fixed(2) [of w] by (metis list.size(3) zero_neq_numeral)+
qed

lemma WriteVarint32ToArray_eq [codec_specs]: "WriteVarint32ToArray v t = t @ enc_u32 v"
  by (simp add: WriteVarint32ToArray_def UnsafeVarint_eq enc_u32_def)

lemma WriteTagToArray_eq [codec_specs]: "WriteTagToArray f ty t = t @ tag_bytes f ty"
  by (simp add: WriteTagToArray_def tag_bytes_def Let_def codec_specs)

lemma WriteInt32NoTagToArray_eq [codec_specs]: "WriteInt32NoTagToArray v t = t @ enc_i32 v"
  by (simp add: WriteInt32NoTagToArray_def WriteVarint32SignExtendedToArray_def UnsafeVarint_eq
      enc_i32_def enc_u64_def)

lemma WriteVarint64ToArray_eq [codec_specs]: "WriteVarint64ToArray v t = t @ enc_u64 v"
  by (simp add: WriteVarint64ToArray_def UnsafeVarint_eq enc_u64_def)

lemma WriteInt64NoTagToArray_eq [codec_specs]: "WriteInt64NoTagToArray v t = t @ enc_u64 v"
  by (simp add: WriteInt64NoTagToArray_def codec_specs)

lemma WriteUInt64NoTagToArray_eq [codec_specs]: "WriteUInt64NoTagToArray v t = t @ enc_u64 v"
  by (simp add: WriteUInt64NoTagToArray_def codec_specs)

lemma WriteBoolNoTagToArray_eq [codec_specs]: "WriteBoolNoTagToArray b t = t @ enc_bool b"
  by (simp add: WriteBoolNoTagToArray_def codec_specs enc_bool_def enc_u32_def varint_small)

lemma WriteFloatNoTagToArray_eq [codec_specs]: "WriteFloatNoTagToArray v t = t @ enc_fixed32 v"
  by (simp add: WriteFloatNoTagToArray_def WriteLittleEndian32ToArray_def EncodeFloat_def
      enc_fixed32_def)

lemma WriteDoubleNoTagToArray_eq [codec_specs]: "WriteDoubleNoTagToArray v t = t @ enc_fixed64 v"
  by (simp add: WriteDoubleNoTagToArray_def WriteLittleEndian64ToArray_def EncodeDouble_def
      enc_fixed64_def)

lemma WriteFixed32NoTagToArray_eq [codec_specs]: "WriteFixed32NoTagToArray v t = t @ enc_fixed32 v"
  by (simp add: WriteFixed32NoTagToArray_def WriteLittleEndian32ToArray_def enc_fixed32_def)

lemma WriteFixed64NoTagToArray_eq [codec_specs]: "WriteFixed64NoTagToArray v t = t @ enc_fixed64 v"
  by (simp add: WriteFixed64NoTagToArray_def WriteLittleEndian64ToArray_def enc_fixed64_def)

lemma WriteStringNoTagToArray_eq [codec_specs]: "WriteStringNoTagToArray f s t = t @ enc_string s"
  by (simp add: WriteStringNoTagToArray_def codec_specs enc_string_def)

lemma WriteLengthToArray_eq [codec_specs]: "WriteLengthToArray n t = t @ le_bytes 2 (unat n)"
  by (simp add: WriteLengthToArray_def)

section \<open>What the size functions compute\<close>

lemma Int32Size_eq [size_specs]: "Int32Size v = of_nat (length (enc_i32 v))"
  by (simp add: Int32Size_def VarintSize32SignExtended_def size_specs enc_i32_def enc_u64_def)

lemma EnumSize_eq [size_specs]: "EnumSize v = of_nat (length (enc_i32 v))"
  by (simp add: EnumSize_def VarintSize32SignExtended_def size_specs enc_i32_def enc_u64_def)

lemma Int64Size_eq [size_specs]: "Int64Size v = of_nat (length (enc_u64 v))"
  by (simp add: Int64Size_def size_specs enc_u64_def)

lemma UInt64Size_eq [size_specs]: "UInt64Size v = of_nat (length (enc_u64 v))"
  by (simp add: UInt64Size_def size_specs enc_u64_def)

lemma UInt32Size_eq [size_specs]: "UInt32Size v = of_nat (length (enc_u32 v))"
  by (simp add: UInt32Size_def size_specs enc_u32_def)

lemma VarintSize32_enc [size_specs]: "VarintSize32 v = of_nat (length (enc_u32 v))"
  by (simp add: VarintSize32_eq enc_u32_def)

lemma StringSize_eq [size_specs]: "StringSize s = of_nat (length (enc_string s))"
  by (simp add: StringSize_def LengthDelimitedSize_def VarintSize32_enc enc_string_def
      ucast_of_nat_down)

section \<open>Repeated elements\<close>

text \<open>What a repeated writer relies on: an element writer that appends the encoding of its value, a
  size function that gives its length, and encodings that are never empty.\<close>

locale elem_writer =
  fixes wr :: "'v \<Rightarrow> bytes \<Rightarrow> bytes"
    and sz :: "'v \<Rightarrow> u64"
    and enc :: "'v \<Rightarrow> bytes"
  assumes wr_append: "wr v t = t @ enc v"
    and sz_length: "sz v = of_nat (length (enc v))"
    and enc_not_Nil: "enc v \<noteq> []"
begin

lemma write_all: "fold wr vs t = t @ concat (map enc vs)"
  by (rule fold_append_concat) (rule wr_append)

text \<open>The length accumulated by the loop, on an accumulator of any width up to 64 bits.\<close>

lemma size_all:
  assumes "LENGTH('l) \<le> 64"
  shows "fold (\<lambda>v (n :: 'l::len word). n + ucast (sz v)) vs n
     = n + of_nat (length (concat (map enc vs)))"
  using assms by (simp add: fold_plus_sum_list sz_length ucast_of_nat_down of_nat_length_concat)

lemma packed:
  "fold wr vs (WriteVarint32ToArray (fold (\<lambda>v n. n + ucast (sz v)) vs 0) t)
     = t @ enc_packed enc vs"
  by (simp add: write_all size_all codec_specs enc_packed_def)

end

interpretation w_int32: elem_writer WriteInt32NoTagToArray Int32Size enc_i32
  by unfold_locales (simp_all add: codec_specs size_specs enc_i32_def enc_u64_def)

interpretation w_enum: elem_writer WriteInt32NoTagToArray EnumSize enc_i32
  by unfold_locales (simp_all add: codec_specs size_specs enc_i32_def enc_u64_def)

interpretation w_int64: elem_writer WriteInt64NoTagToArray Int64Size enc_u64
  by unfold_locales (simp_all add: codec_specs size_specs enc_u64_def)

interpretation w_uint64: elem_writer WriteUInt64NoTagToArray UInt64Size enc_u64
  by unfold_locales (simp_all add: codec_specs size_specs enc_u64_def)

interpretation w_uint32: elem_writer WriteVarint32ToArray UInt32Size enc_u32
  by unfold_locales (simp_all add: codec_specs size_specs enc_u32_def)

interpretation w_bool: elem_writer "\<lambda>v. WriteBoolNoTagToArray (v \<noteq> 0)" "\<lambda>_. 1" "\<lambda>v :: u8. enc_bool (v \<noteq> 0)"
  by unfold_locales (simp_all add: codec_specs enc_bool_def)

interpretation w_float: elem_writer WriteFloatNoTagToArray "\<lambda>_. 4" enc_fixed32
  by unfold_locales (simp_all add: codec_specs)

interpretation w_fixed64: elem_writer WriteFixed64NoTagToArray "\<lambda>_. 8" enc_fixed64
  by unfold_locales (simp_all add: codec_specs)

interpretation w_string: elem_writer "WriteStringNoTagToArray 0" StringSize enc_string
  by unfold_locales (simp_all add: codec_specs size_specs enc_string_def enc_u32_def)

section \<open>Tagged fields\<close>

text \<open>Each tagged writer appends its tag and its payload; the repeated ones append the packed
  sequence, whose length prefix the interpretations above account for.\<close>

lemma scalar_writers [codec_specs]:
  "WriteInt32ToArray f v t = t @ tag_bytes f PROTOBUF_VARINT_TYPE @ enc_i32 v"
  "WriteInt64ToArray f w t = t @ tag_bytes f PROTOBUF_VARINT_TYPE @ enc_u64 w"
  "WriteUInt64ToArray f w t = t @ tag_bytes f PROTOBUF_VARINT_TYPE @ enc_u64 w"
  "WriteUInt32ToArray f v t = t @ tag_bytes f PROTOBUF_VARINT_TYPE @ enc_u32 v"
  "WriteBoolToArray f b t = t @ tag_bytes f PROTOBUF_VARINT_TYPE @ enc_bool b"
  "WriteDoubleToArray f w t = t @ tag_bytes f PROTOBUF_64BIT_TYPE @ enc_fixed64 w"
  "WriteFloatToArray f v t = t @ tag_bytes f PROTOBUF_32BIT_TYPE @ enc_fixed32 v"
  "WriteEnumToArray f v t = t @ tag_bytes f PROTOBUF_VARINT_TYPE @ enc_i32 v"
  "WriteFixed64ToArray f w t = t @ tag_bytes f PROTOBUF_64BIT_TYPE @ enc_fixed64 w"
  "WriteFixed32ToArray f v t = t @ tag_bytes f PROTOBUF_32BIT_TYPE @ enc_fixed32 v"
  by (simp_all add: WriteInt32ToArray_def WriteInt64ToArray_def WriteUInt64ToArray_def
      WriteUInt32ToArray_def WriteBoolToArray_def WriteDoubleToArray_def WriteFloatToArray_def
      WriteEnumToArray_def WriteFixed64ToArray_def WriteFixed32ToArray_def codec_specs)

lemma string_writers [codec_specs]:
  "WriteStringToArray f s t = t @ tag_bytes f PROTOBUF_LENGTH_DELIMITED_TYPE @ enc_string s"
  "WriteBytesToArray f s t = t @ tag_bytes f PROTOBUF_LENGTH_DELIMITED_TYPE @ enc_string s"
  by (simp_all add: WriteStringToArray_def WriteBytesToArray_def enc_string_def codec_specs)

lemma repeated_writers [codec_specs]:
  "WriteRepeatedInt32ToArray f vs t
     = t @ tag_bytes f PROTOBUF_LENGTH_DELIMITED_TYPE @ enc_packed enc_i32 vs"
  "WriteRepeatedInt64ToArray f ws t
     = t @ tag_bytes f PROTOBUF_LENGTH_DELIMITED_TYPE @ enc_packed enc_u64 ws"
  "WriteRepeatedUInt64ToArray f ws t
     = t @ tag_bytes f PROTOBUF_LENGTH_DELIMITED_TYPE @ enc_packed enc_u64 ws"
  "WriteRepeatedUInt32ToArray f vs t
     = t @ tag_bytes f PROTOBUF_LENGTH_DELIMITED_TYPE @ enc_packed enc_u32 vs"
  "WriteRepeatedBoolToArray f bs t
     = t @ tag_bytes f PROTOBUF_LENGTH_DELIMITED_TYPE @ enc_packed (\<lambda>b. enc_bool (b \<noteq> 0)) bs"
  "WriteRepeatedFloatToArray f vs t
     = t @ tag_bytes f PROTOBUF_LENGTH_DELIMITED_TYPE @ enc_packed enc_fixed32 vs"
  "WriteRepeatedEnumToArray f vs t
     = t @ tag_bytes f PROTOBUF_LENGTH_DELIMITED_TYPE @ enc_packed enc_i32 vs"
  "WriteRepeatedFixed64ToArray f ws t
     = t @ tag_bytes f PROTOBUF_LENGTH_DELIMITED_TYPE @ enc_packed enc_fixed64 ws"
  "WriteRepeatedStringToArray f ss t
     = t @ tag_bytes f PROTOBUF_LENGTH_DELIMITED_TYPE @ enc_packed enc_string ss"
  using w_int32.packed w_int64.packed w_uint64.packed w_uint32.packed w_bool.packed
    w_float.packed w_enum.packed w_fixed64.packed w_string.packed
  by (simp_all add: WriteRepeatedInt32ToArray_def WriteRepeatedInt64ToArray_def
      WriteRepeatedUInt64ToArray_def WriteRepeatedUInt32ToArray_def WriteRepeatedBoolToArray_def
      WriteRepeatedFloatToArray_def WriteRepeatedEnumToArray_def WriteRepeatedFixed64ToArray_def
      WriteRepeatedStringToArray_def WriteTagToArray_eq Let_def)

section \<open>Tags\<close>

text \<open>A tag takes one byte below field 16 and two up to field 127, the range of the \<open>char\<close> that
  holds a field number without its sign bit.\<close>

lemma unat_tag:
  assumes "unat f < 2 ^ 29" and "ty < 8"
  shows "unat (push_bit 3 (f :: u32) OR ty) = unat f * 8 + unat ty"
proof -
  have ty8: "unat ty < 8" using assms(2) by (simp add: word_less_nat_alt)
  have t: "take_bit 3 ty = ty"
    using ty8 by (simp add: word_unat_eq_iff unsigned_take_bit_eq take_bit_nat_eq_self)
  have "push_bit 3 f OR take_bit 3 ty = push_bit 3 f + take_bit 3 ty"
    by (rule disjunctive_add [symmetric]) (auto simp: bit_push_bit_iff bit_take_bit_iff)
  then have "push_bit 3 f OR ty = of_nat (unat f * 8 + unat ty)"
    by (simp add: t push_bit_eq_mult)
  moreover have "unat (of_nat (unat f * 8 + unat ty) :: u32) = unat f * 8 + unat ty"
    using assms(1) ty8 by (intro unat_of_nat_small) simp
  ultimately show ?thesis by (simp only:)
qed

lemma unat_scast_field_id:
  assumes "unat (fid :: u8) < 128"
  shows "unat (scast fid :: u32) = unat fid"
proof -
  have "(scast fid :: u32) = of_nat (unat fid)"
    using assms by (intro scast_of_small) simp
  moreover have "unat (of_nat (unat fid) :: u32) = unat fid"
    using assms by (intro unat_of_nat_small) simp
  ultimately show ?thesis by (simp only:)
qed

lemma length_tag_bytes:
  assumes "unat fid < 128" and "ty < 8"
  shows "length (tag_bytes (scast (fid :: u8)) ty) = (if unat fid < 16 then 1 else 2)"
proof -
  let ?n = "unat fid * 8 + unat ty"
  have f: "unat (scast fid :: u32) = unat fid" using assms(1) by (rule unat_scast_field_id)
  have ty8: "unat ty < 8" using assms(2) by (simp add: word_less_nat_alt)
  have n: "unat (push_bit 3 (scast fid :: u32) OR ty) = ?n"
    using assms f by (simp add: unat_tag)
  show ?thesis
  proof (cases "unat fid < 16")
    case True
    then have "?n < 128" using ty8 by simp
    with True n show ?thesis by (simp add: tag_bytes_def enc_u32_def varint_small)
  next
    case False
    then have "128 ^ 1 \<le> ?n" by simp
    moreover have "?n < 128 ^ Suc 1" using assms(1) ty8 by simp
    ultimately have "length (varint ?n) = Suc 1" by (intro length_varint) simp_all
    with False n show ?thesis by (simp add: tag_bytes_def enc_u32_def)
  qed
qed

end
