(* ===== verification/No_Encode.thy ===== *)
theory No_Encode
  imports Encode
begin

text \<open>
  The writers of \<open>include/no_encode.h\<close>, the baseline that copies integers in memory order where
  \<open>include/encode.h\<close> writes varints.  The functions whose text is the same in both headers and calls
  nothing that differs are those of \<open>Encode\<close>; the others carry the suffix \<open>_raw\<close>.
\<close>

section \<open>Scalar sizes\<close>

definition VarintSize32_raw :: "u32 \<Rightarrow> u64" where
  "VarintSize32_raw value = 4"

definition VarintSize64_raw :: "u64 \<Rightarrow> u64" where
  "VarintSize64_raw value = 8"

definition VarintSize32SignExtended_raw :: "u32 \<Rightarrow> u64" where
  "VarintSize32SignExtended_raw value = VarintSize64_raw (scast value)"

definition LengthDelimitedSize_raw :: "u64 \<Rightarrow> u64" where
  "LengthDelimitedSize_raw len = len + VarintSize32_raw (ucast len)"

definition Int32Size_raw :: "u32 \<Rightarrow> u64" where
  "Int32Size_raw value = 4"

definition Int64Size_raw :: "u64 \<Rightarrow> u64" where
  "Int64Size_raw value = 8"

definition UInt64Size_raw :: "u64 \<Rightarrow> u64" where
  "UInt64Size_raw value = 8"

definition UInt32Size_raw :: "u32 \<Rightarrow> u64" where
  "UInt32Size_raw value = 4"

definition SInt32Size_raw :: "u32 \<Rightarrow> u64" where
  "SInt32Size_raw value = VarintSize32_raw (ZigZagEncode32 value)"

definition EnumSize_raw :: "u32 \<Rightarrow> u64" where
  "EnumSize_raw value = 4"

definition StringSize_raw :: "bytes \<Rightarrow> u64" where
  "StringSize_raw value = LengthDelimitedSize_raw (of_nat (length value))"

section \<open>Values without a tag\<close>

text \<open>\<open>memcpy\<close> of the value, least significant byte first.\<close>

definition UnsafeVarint_raw :: "'l::len word \<Rightarrow> bytes \<Rightarrow> bytes" where
  "UnsafeVarint_raw value ptr = ptr @ le_bytes (LENGTH('l) div 8) (unat value)"

definition WriteVarint32SignExtendedToArray_raw :: "u32 \<Rightarrow> bytes \<Rightarrow> bytes" where
  "WriteVarint32SignExtendedToArray_raw value target = UnsafeVarint_raw value target"

definition WriteVarint32ToArray_raw :: "u32 \<Rightarrow> bytes \<Rightarrow> bytes" where
  "WriteVarint32ToArray_raw value target = UnsafeVarint_raw value target"

definition WriteVarint64ToArray_raw :: "u64 \<Rightarrow> bytes \<Rightarrow> bytes" where
  "WriteVarint64ToArray_raw value target = UnsafeVarint_raw value target"

definition WriteInt32NoTagToArray_raw :: "u32 \<Rightarrow> bytes \<Rightarrow> bytes" where
  "WriteInt32NoTagToArray_raw value target = WriteVarint32SignExtendedToArray_raw value target"

definition WriteInt64NoTagToArray_raw :: "u64 \<Rightarrow> bytes \<Rightarrow> bytes" where
  "WriteInt64NoTagToArray_raw value target = WriteVarint64ToArray_raw value target"

definition WriteUInt64NoTagToArray_raw :: "u64 \<Rightarrow> bytes \<Rightarrow> bytes" where
  "WriteUInt64NoTagToArray_raw value target = WriteVarint64ToArray_raw value target"

definition WriteBoolNoTagToArray_raw :: "bool \<Rightarrow> bytes \<Rightarrow> bytes" where
  "WriteBoolNoTagToArray_raw value target = WriteVarint32ToArray_raw (if value then 1 else 0) target"

definition WriteSInt32NoTagToArray_raw :: "u32 \<Rightarrow> bytes \<Rightarrow> bytes" where
  "WriteSInt32NoTagToArray_raw value target = WriteVarint32ToArray_raw (ZigZagEncode32 value) target"

definition WriteTagToArray_raw :: "u32 \<Rightarrow> u32 \<Rightarrow> bytes \<Rightarrow> bytes" where
  "WriteTagToArray_raw field_number type target =
     (let value = push_bit 3 field_number OR type in WriteVarint32ToArray_raw value target)"

section \<open>Tagged fields\<close>

definition WriteInt32ToArray_raw :: "u32 \<Rightarrow> u32 \<Rightarrow> bytes \<Rightarrow> bytes" where
  "WriteInt32ToArray_raw field_number value target =
     WriteInt32NoTagToArray_raw value (WriteTagToArray_raw field_number PROTOBUF_VARINT_TYPE target)"

definition WriteRepeatedInt32ToArray_raw :: "u32 \<Rightarrow> u32 list \<Rightarrow> bytes \<Rightarrow> bytes" where
  "WriteRepeatedInt32ToArray_raw field_number value target =
     (let target = WriteTagToArray_raw field_number PROTOBUF_LENGTH_DELIMITED_TYPE target;
          len = fold (\<lambda>v len. len + ucast (Int32Size_raw v)) value (0 :: u32);
          target = WriteVarint32ToArray_raw len target
      in fold WriteInt32NoTagToArray_raw value target)"

definition WritePtrToArray_raw :: "u32 \<Rightarrow> u32 \<Rightarrow> bytes \<Rightarrow> bytes" where
  "WritePtrToArray_raw field_number value target =
     WriteInt32NoTagToArray_raw value (WriteTagToArray_raw field_number PROTOBUF_LENGTH_DELIMITED_TYPE target)"

definition WriteClassIdToArray_raw :: "u32 \<Rightarrow> u32 \<Rightarrow> bytes \<Rightarrow> bytes" where
  "WriteClassIdToArray_raw field_number value target =
     WriteInt32NoTagToArray_raw value (WriteTagToArray_raw field_number PROTOBUF_START_GROUP_TYPE target)"

definition WriteRepeatedPtrToArray_raw :: "u32 \<Rightarrow> u32 list \<Rightarrow> bytes \<Rightarrow> bytes" where
  "WriteRepeatedPtrToArray_raw field_number value target =
     (let target = WriteTagToArray_raw field_number PROTOBUF_LENGTH_DELIMITED_TYPE target;
          len = fold (\<lambda>v len. len + ucast (Int32Size_raw v)) value (0 :: u32);
          target = WriteVarint32ToArray_raw len target
      in fold WriteInt32NoTagToArray_raw value target)"

definition WriteInt64ToArray_raw :: "u32 \<Rightarrow> u64 \<Rightarrow> bytes \<Rightarrow> bytes" where
  "WriteInt64ToArray_raw field_number value target =
     WriteInt64NoTagToArray_raw value (WriteTagToArray_raw field_number PROTOBUF_VARINT_TYPE target)"

definition WriteRepeatedInt64ToArray_raw :: "u32 \<Rightarrow> u64 list \<Rightarrow> bytes \<Rightarrow> bytes" where
  "WriteRepeatedInt64ToArray_raw field_number value target =
     (let target = WriteTagToArray_raw field_number PROTOBUF_LENGTH_DELIMITED_TYPE target;
          len = fold (\<lambda>v len. len + ucast (Int64Size_raw v)) value (0 :: u32);
          target = WriteVarint32ToArray_raw len target
      in fold WriteInt64NoTagToArray_raw value target)"

definition WriteUInt64ToArray_raw :: "u32 \<Rightarrow> u64 \<Rightarrow> bytes \<Rightarrow> bytes" where
  "WriteUInt64ToArray_raw field_number value target =
     WriteUInt64NoTagToArray_raw value (WriteTagToArray_raw field_number PROTOBUF_VARINT_TYPE target)"

definition WriteRepeatedUInt64ToArray_raw :: "u32 \<Rightarrow> u64 list \<Rightarrow> bytes \<Rightarrow> bytes" where
  "WriteRepeatedUInt64ToArray_raw field_number value target =
     (let target = WriteTagToArray_raw field_number PROTOBUF_LENGTH_DELIMITED_TYPE target;
          len = fold (\<lambda>v len. len + ucast (UInt64Size_raw v)) value (0 :: u32);
          target = WriteVarint32ToArray_raw len target
      in fold WriteUInt64NoTagToArray_raw value target)"

definition WriteUInt32ToArray_raw :: "u32 \<Rightarrow> u32 \<Rightarrow> bytes \<Rightarrow> bytes" where
  "WriteUInt32ToArray_raw field_number value target =
     WriteVarint32ToArray_raw value (WriteTagToArray_raw field_number PROTOBUF_VARINT_TYPE target)"

definition WriteRepeatedUInt32ToArray_raw :: "u32 \<Rightarrow> u32 list \<Rightarrow> bytes \<Rightarrow> bytes" where
  "WriteRepeatedUInt32ToArray_raw field_number value target =
     (let target = WriteTagToArray_raw field_number PROTOBUF_LENGTH_DELIMITED_TYPE target;
          len = fold (\<lambda>v len. len + ucast (UInt32Size_raw v)) value (0 :: u32);
          target = WriteVarint32ToArray_raw len target
      in fold WriteVarint32ToArray_raw value target)"

definition WriteBoolToArray_raw :: "u32 \<Rightarrow> bool \<Rightarrow> bytes \<Rightarrow> bytes" where
  "WriteBoolToArray_raw field_number value target =
     WriteBoolNoTagToArray_raw value (WriteTagToArray_raw field_number PROTOBUF_VARINT_TYPE target)"

text \<open>One byte per element is counted, four are written.\<close>

definition WriteRepeatedBoolToArray_raw :: "u32 \<Rightarrow> u8 list \<Rightarrow> bytes \<Rightarrow> bytes" where
  "WriteRepeatedBoolToArray_raw field_number value target =
     (let target = WriteTagToArray_raw field_number PROTOBUF_LENGTH_DELIMITED_TYPE target;
          len = fold (\<lambda>v len. len + 1) value (0 :: u32);
          target = WriteVarint32ToArray_raw len target
      in fold (\<lambda>v. WriteBoolNoTagToArray_raw (v \<noteq> 0)) value target)"

definition WriteSInt32ToArray_raw :: "u32 \<Rightarrow> u32 \<Rightarrow> bytes \<Rightarrow> bytes" where
  "WriteSInt32ToArray_raw field_number value target =
     WriteSInt32NoTagToArray_raw value (WriteTagToArray_raw field_number PROTOBUF_VARINT_TYPE target)"

definition WriteDoubleToArray_raw :: "u32 \<Rightarrow> cdouble \<Rightarrow> bytes \<Rightarrow> bytes" where
  "WriteDoubleToArray_raw field_number value target =
     WriteDoubleNoTagToArray value (WriteTagToArray_raw field_number PROTOBUF_64BIT_TYPE target)"

definition WriteFloatToArray_raw :: "u32 \<Rightarrow> cfloat \<Rightarrow> bytes \<Rightarrow> bytes" where
  "WriteFloatToArray_raw field_number value target =
     WriteFloatNoTagToArray value (WriteTagToArray_raw field_number PROTOBUF_32BIT_TYPE target)"

definition WriteRepeatedFloatToArray_raw :: "u32 \<Rightarrow> cfloat list \<Rightarrow> bytes \<Rightarrow> bytes" where
  "WriteRepeatedFloatToArray_raw field_number value target =
     (let target = WriteTagToArray_raw field_number PROTOBUF_LENGTH_DELIMITED_TYPE target;
          len = fold (\<lambda>v len. len + 4) value (0 :: u32);
          target = WriteVarint32ToArray_raw len target
      in fold WriteFloatNoTagToArray value target)"

definition WriteEnumToArray_raw :: "u32 \<Rightarrow> u32 \<Rightarrow> bytes \<Rightarrow> bytes" where
  "WriteEnumToArray_raw field_number value target =
     WriteInt32NoTagToArray_raw value (WriteTagToArray_raw field_number PROTOBUF_VARINT_TYPE target)"

definition WriteRepeatedEnumToArray_raw :: "u32 \<Rightarrow> u32 list \<Rightarrow> bytes \<Rightarrow> bytes" where
  "WriteRepeatedEnumToArray_raw field_number value target =
     (let target = WriteTagToArray_raw field_number PROTOBUF_LENGTH_DELIMITED_TYPE target;
          len = fold (\<lambda>v len. len + ucast (EnumSize_raw v)) value (0 :: u32);
          target = WriteVarint32ToArray_raw len target
      in fold WriteInt32NoTagToArray_raw value target)"

definition WriteFixed64ToArray_raw :: "u32 \<Rightarrow> u64 \<Rightarrow> bytes \<Rightarrow> bytes" where
  "WriteFixed64ToArray_raw field_number value target =
     WriteFixed64NoTagToArray value (WriteTagToArray_raw field_number PROTOBUF_64BIT_TYPE target)"

definition WriteRepeatedFixed64ToArray_raw :: "u32 \<Rightarrow> u64 list \<Rightarrow> bytes \<Rightarrow> bytes" where
  "WriteRepeatedFixed64ToArray_raw field_number value target =
     (let target = WriteTagToArray_raw field_number PROTOBUF_LENGTH_DELIMITED_TYPE target;
          len = fold (\<lambda>v len. len + 8) value (0 :: u32);
          target = WriteVarint32ToArray_raw len target
      in fold WriteFixed64NoTagToArray value target)"

definition WriteFixed32ToArray_raw :: "u32 \<Rightarrow> u32 \<Rightarrow> bytes \<Rightarrow> bytes" where
  "WriteFixed32ToArray_raw field_number value target =
     WriteFixed32NoTagToArray value (WriteTagToArray_raw field_number PROTOBUF_32BIT_TYPE target)"

definition WriteStringToArray_raw :: "u32 \<Rightarrow> bytes \<Rightarrow> bytes \<Rightarrow> bytes" where
  "WriteStringToArray_raw field_number s target =
     (let s_size = length s;
          target = WriteTagToArray_raw field_number PROTOBUF_LENGTH_DELIMITED_TYPE target;
          target = WriteVarint32ToArray_raw (of_nat s_size) target
      in target @ s)"

definition WriteStringNoTagToArray_raw :: "u32 \<Rightarrow> bytes \<Rightarrow> bytes \<Rightarrow> bytes" where
  "WriteStringNoTagToArray_raw field_number s target =
     (let s_size = length s;
          target = WriteVarint32ToArray_raw (of_nat s_size) target
      in target @ s)"

definition WriteRepeatedStringToArray_raw :: "u32 \<Rightarrow> bytes list \<Rightarrow> bytes \<Rightarrow> bytes" where
  "WriteRepeatedStringToArray_raw field_number value target =
     (let target = WriteTagToArray_raw field_number PROTOBUF_LENGTH_DELIMITED_TYPE target;
          len = fold (\<lambda>v len. len + ucast (StringSize_raw v)) value (0 :: u32);
          target = WriteVarint32ToArray_raw len target
      in fold (WriteStringNoTagToArray_raw 0) value target)"

definition WriteSkipRepeatedStringToArray_raw :: "u32 \<Rightarrow> bytes list \<Rightarrow> bytes \<Rightarrow> bytes \<Rightarrow> bytes" where
  "WriteSkipRepeatedStringToArray_raw field_number value target skip_field =
     (let target = WriteTagToArray_raw field_number PROTOBUF_LENGTH_DELIMITED_TYPE target;
          len = fold (\<lambda>v len. if 1024 < length v then len + ucast (StringSize_raw skip_field)
                              else len + ucast (StringSize_raw v)) value (0 :: u32);
          target = WriteVarint32ToArray_raw len target
      in fold (\<lambda>v target. if 1024 < length v then WriteStringNoTagToArray_raw 0 skip_field target
                          else WriteStringNoTagToArray_raw 0 v target) value target)"

definition WriteBytesToArray_raw :: "u32 \<Rightarrow> bytes \<Rightarrow> bytes \<Rightarrow> bytes" where
  "WriteBytesToArray_raw field_number s target =
     (let s_size = length s;
          target = WriteTagToArray_raw field_number PROTOBUF_LENGTH_DELIMITED_TYPE target;
          target = WriteVarint32ToArray_raw (of_nat s_size) target
      in target @ s)"

definition WriteBytesNoTagToArray_raw :: "u32 \<Rightarrow> bytes \<Rightarrow> bytes \<Rightarrow> bytes" where
  "WriteBytesNoTagToArray_raw field_number s target =
     (let s_size = length s;
          target = WriteVarint32ToArray_raw (of_nat s_size) target
      in target @ s)"

text \<open>The wire type of the tag is the software type code of repeated bytes, and the length written
  is the number of elements.\<close>

definition WriteRepeatedBytesToArray_raw :: "u32 \<Rightarrow> bytes list \<Rightarrow> bytes \<Rightarrow> bytes" where
  "WriteRepeatedBytesToArray_raw field_number value target =
     (let target = WriteTagToArray_raw field_number (ucast (sw_code sw_repeated_bytes_type)) target;
          target = WriteVarint32ToArray_raw (of_nat (length value)) target
      in fold (WriteBytesNoTagToArray_raw 0) value target)"

section \<open>What the writers append\<close>

definition raw_bool :: "bool \<Rightarrow> bytes" where
  "raw_bool b = enc_fixed32 (if b then 1 else 0)"

definition raw_string :: "bytes \<Rightarrow> bytes" where
  "raw_string s = enc_fixed32 (of_nat (length s)) @ s"

definition raw_tag :: "u32 \<Rightarrow> u32 \<Rightarrow> bytes" where
  "raw_tag field_number ty = enc_fixed32 (push_bit 3 field_number OR ty)"

definition raw_packed :: "('v \<Rightarrow> bytes) \<Rightarrow> 'v list \<Rightarrow> bytes" where
  "raw_packed enc vs =
     enc_fixed32 (of_nat (length (concat (map enc vs)))) @ concat (map enc vs)"

lemma length_raw [simp]:
  "length (raw_bool b) = 4" "length (raw_tag f ty) = 4" "length (raw_string s) = length s + 4"
  by (simp_all add: raw_bool_def raw_tag_def raw_string_def)

named_theorems raw_specs

lemma raw_scalar_sizes [raw_specs]:
  "VarintSize32_raw v = 4" "Int32Size_raw v = 4" "EnumSize_raw v = 4" "UInt32Size_raw v = 4"
  "Int64Size_raw w = 8" "UInt64Size_raw w = 8"
  "StringSize_raw s = of_nat (length (raw_string s))"
  by (simp_all add: VarintSize32_raw_def Int32Size_raw_def EnumSize_raw_def UInt32Size_raw_def
      Int64Size_raw_def UInt64Size_raw_def StringSize_raw_def LengthDelimitedSize_raw_def)

lemma raw_untagged [raw_specs]:
  "WriteVarint32ToArray_raw v t = t @ enc_fixed32 v"
  "WriteInt32NoTagToArray_raw v t = t @ enc_fixed32 v"
  "WriteVarint64ToArray_raw w t = t @ enc_fixed64 w"
  "WriteInt64NoTagToArray_raw w t = t @ enc_fixed64 w"
  "WriteUInt64NoTagToArray_raw w t = t @ enc_fixed64 w"
  "WriteBoolNoTagToArray_raw b t = t @ raw_bool b"
  "WriteTagToArray_raw f ty t = t @ raw_tag f ty"
  "WriteStringNoTagToArray_raw f s t = t @ raw_string s"
  by (simp_all add: WriteVarint32ToArray_raw_def WriteInt32NoTagToArray_raw_def
      WriteVarint32SignExtendedToArray_raw_def WriteVarint64ToArray_raw_def
      WriteInt64NoTagToArray_raw_def WriteUInt64NoTagToArray_raw_def WriteBoolNoTagToArray_raw_def
      WriteTagToArray_raw_def WriteStringNoTagToArray_raw_def UnsafeVarint_raw_def enc_fixed32_def
      enc_fixed64_def raw_bool_def raw_tag_def raw_string_def Let_def)

text \<open>The element writers meet the contract of \<open>elem_writer\<close> with the constant sizes.  The repeated
  bool writer counts one byte for an element of four, so its element size is not the one it adds.\<close>

interpretation r_int32: elem_writer WriteInt32NoTagToArray_raw Int32Size_raw enc_fixed32
  by unfold_locales (simp_all add: raw_specs)

interpretation r_enum: elem_writer WriteInt32NoTagToArray_raw EnumSize_raw enc_fixed32
  by unfold_locales (simp_all add: raw_specs)

interpretation r_uint32: elem_writer WriteVarint32ToArray_raw UInt32Size_raw enc_fixed32
  by unfold_locales (simp_all add: raw_specs)

interpretation r_int64: elem_writer WriteInt64NoTagToArray_raw Int64Size_raw enc_fixed64
  by unfold_locales (simp_all add: raw_specs)

interpretation r_uint64: elem_writer WriteUInt64NoTagToArray_raw UInt64Size_raw enc_fixed64
  by unfold_locales (simp_all add: raw_specs)

interpretation r_bool: elem_writer "\<lambda>v. WriteBoolNoTagToArray_raw (v \<noteq> 0)" "\<lambda>_. 4" "\<lambda>v :: u8. raw_bool (v \<noteq> 0)"
  by unfold_locales (simp_all add: raw_specs raw_bool_def)

interpretation r_string: elem_writer "WriteStringNoTagToArray_raw 0" StringSize_raw raw_string
  by unfold_locales (simp_all add: raw_specs raw_string_def)

lemma raw_scalar_writers [raw_specs]:
  "WriteInt32ToArray_raw f v t = t @ raw_tag f PROTOBUF_VARINT_TYPE @ enc_fixed32 v"
  "WriteInt64ToArray_raw f w t = t @ raw_tag f PROTOBUF_VARINT_TYPE @ enc_fixed64 w"
  "WriteUInt64ToArray_raw f w t = t @ raw_tag f PROTOBUF_VARINT_TYPE @ enc_fixed64 w"
  "WriteUInt32ToArray_raw f v t = t @ raw_tag f PROTOBUF_VARINT_TYPE @ enc_fixed32 v"
  "WriteBoolToArray_raw f b t = t @ raw_tag f PROTOBUF_VARINT_TYPE @ raw_bool b"
  "WriteDoubleToArray_raw f w t = t @ raw_tag f PROTOBUF_64BIT_TYPE @ enc_fixed64 w"
  "WriteFloatToArray_raw f v t = t @ raw_tag f PROTOBUF_32BIT_TYPE @ enc_fixed32 v"
  "WriteEnumToArray_raw f v t = t @ raw_tag f PROTOBUF_VARINT_TYPE @ enc_fixed32 v"
  "WriteFixed64ToArray_raw f w t = t @ raw_tag f PROTOBUF_64BIT_TYPE @ enc_fixed64 w"
  "WriteFixed32ToArray_raw f v t = t @ raw_tag f PROTOBUF_32BIT_TYPE @ enc_fixed32 v"
  "WriteStringToArray_raw f s t = t @ raw_tag f PROTOBUF_LENGTH_DELIMITED_TYPE @ raw_string s"
  "WriteBytesToArray_raw f s t = t @ raw_tag f PROTOBUF_LENGTH_DELIMITED_TYPE @ raw_string s"
  by (simp_all add: WriteInt32ToArray_raw_def WriteInt64ToArray_raw_def WriteUInt64ToArray_raw_def
      WriteUInt32ToArray_raw_def WriteBoolToArray_raw_def WriteDoubleToArray_raw_def
      WriteFloatToArray_raw_def WriteEnumToArray_raw_def WriteFixed64ToArray_raw_def
      WriteFixed32ToArray_raw_def WriteStringToArray_raw_def WriteBytesToArray_raw_def
      WriteFloatNoTagToArray_eq WriteDoubleNoTagToArray_eq WriteFixed32NoTagToArray_eq
      WriteFixed64NoTagToArray_eq raw_string_def raw_specs Let_def)

lemma one_byte_each: "length (concat (map (\<lambda>v. enc_bool (p v)) vs)) = length vs"
  by (simp add: length_concat o_def enc_bool_def sum_list_triv)

lemma raw_repeated_writers [raw_specs]:
  "WriteRepeatedInt32ToArray_raw f vs t
     = t @ raw_tag f PROTOBUF_LENGTH_DELIMITED_TYPE @ raw_packed enc_fixed32 vs"
  "WriteRepeatedInt64ToArray_raw f ws t
     = t @ raw_tag f PROTOBUF_LENGTH_DELIMITED_TYPE @ raw_packed enc_fixed64 ws"
  "WriteRepeatedUInt64ToArray_raw f ws t
     = t @ raw_tag f PROTOBUF_LENGTH_DELIMITED_TYPE @ raw_packed enc_fixed64 ws"
  "WriteRepeatedUInt32ToArray_raw f vs t
     = t @ raw_tag f PROTOBUF_LENGTH_DELIMITED_TYPE @ raw_packed enc_fixed32 vs"
  "WriteRepeatedFloatToArray_raw f vs t
     = t @ raw_tag f PROTOBUF_LENGTH_DELIMITED_TYPE @ raw_packed enc_fixed32 vs"
  "WriteRepeatedEnumToArray_raw f vs t
     = t @ raw_tag f PROTOBUF_LENGTH_DELIMITED_TYPE @ raw_packed enc_fixed32 vs"
  "WriteRepeatedFixed64ToArray_raw f ws t
     = t @ raw_tag f PROTOBUF_LENGTH_DELIMITED_TYPE @ raw_packed enc_fixed64 ws"
  "WriteRepeatedStringToArray_raw f ss t
     = t @ raw_tag f PROTOBUF_LENGTH_DELIMITED_TYPE @ raw_packed raw_string ss"
  "WriteRepeatedBoolToArray_raw f bs t
     = t @ raw_tag f PROTOBUF_LENGTH_DELIMITED_TYPE @ enc_fixed32 (of_nat (length bs))
         @ concat (map (\<lambda>b. raw_bool (b \<noteq> 0)) bs)"
  using r_int32.size_all [where 'l = 32] r_int64.size_all [where 'l = 32]
    r_uint64.size_all [where 'l = 32] r_uint32.size_all [where 'l = 32]
    r_enum.size_all [where 'l = 32] r_string.size_all [where 'l = 32]
    w_float.size_all [where 'l = 32] w_fixed64.size_all [where 'l = 32]
    w_bool.size_all [where 'l = 32]
  by (simp_all add: WriteRepeatedInt32ToArray_raw_def WriteRepeatedInt64ToArray_raw_def
      WriteRepeatedUInt64ToArray_raw_def WriteRepeatedUInt32ToArray_raw_def
      WriteRepeatedFloatToArray_raw_def WriteRepeatedEnumToArray_raw_def
      WriteRepeatedFixed64ToArray_raw_def WriteRepeatedStringToArray_raw_def
      WriteRepeatedBoolToArray_raw_def raw_untagged raw_packed_def Let_def
      r_int32.write_all r_int64.write_all r_uint64.write_all r_uint32.write_all r_enum.write_all
      r_string.write_all r_bool.write_all w_float.write_all w_fixed64.write_all one_byte_each)

end
