(* ===== verification/Objects.thy ===== *)
theory Objects
  imports Config Encode
begin

text \<open>
  The objects the serializers walk.  A message is an instance of a generated class: a virtual-table
  pointer at offset 0, the pointer to its \<open>Metadata\<close> at offset 8, and from offset 16 the members,
  each \<open>alignas(8)\<close>.  The code reaches them by pointer arithmetic and \<open>reinterpret_cast\<close>, so an
  object here is the descriptor it points to and its memory cells by byte offset; a load names the
  type it reads, and fails when the cell holds something else.  \<open>Raw\<close> is a scalar that no
  constructor initialised.  A message in the abstract is the tree of its values, \<open>layout\<close> puts it
  in memory, and \<open>wf_msg\<close> says that the values match the descriptor.
\<close>

section \<open>Cells\<close>

datatype cval =
    Raw
  | V32 u32 | V64 u64 | VBool bool | VFloat cfloat | VDouble cdouble | VStr bytes
  | R32 "u32 list" | R64 "u64 list" | R8 "u8 list" | RFloat "cfloat list" | RStr "bytes list"

datatype obj = Obj Metadata "(int \<times> ocell) list"
  and ocell = OVal cval | OPtr "obj option"

type_synonym cells = "(int \<times> ocell) list"

fun obj_metadata :: "obj \<Rightarrow> Metadata" where
  "obj_metadata (Obj md cells) = md"

fun obj_cells :: "obj \<Rightarrow> cells" where
  "obj_cells (Obj md cells) = cells"

text \<open>The offset of the first member, behind the two pointers of \<open>M_base\<close>.\<close>

definition first_member :: int where
  "first_member = 16"

text \<open>The objects an object points to, and the size measure by which walks over them terminate.\<close>

definition child_of :: "obj \<Rightarrow> cells \<Rightarrow> bool" where
  "child_of c cells \<longleftrightarrow> (\<exists>off. (off, OPtr (Some c)) \<in> set cells)"

lemma child_size:
  assumes "child_of c (obj_cells ob)"
  shows "size c < size ob"
proof -
  obtain md cells where ob: "ob = Obj md cells" by (cases ob)
  obtain off where "(off, OPtr (Some c)) \<in> set cells"
    using assms by (auto simp: ob child_of_def)
  then have "size_prod (\<lambda>_. 0) size (off, OPtr (Some c)) \<le> size_list (size_prod (\<lambda>_. 0) size) cells"
    by (rule size_list_estimation') simp
  then show ?thesis by (simp add: ob)
qed

section \<open>Loads and stores\<close>

definition load :: "cells \<Rightarrow> int \<Rightarrow> ocell result" where
  "load cells off = (case map_of cells off of None \<Rightarrow> Inl Overrun | Some c \<Rightarrow> Inr c)"

definition load_as :: "(cval \<Rightarrow> 'a option) \<Rightarrow> cells \<Rightarrow> int \<Rightarrow> 'a result" where
  "load_as as cells off =
     andThen (load cells off) (\<lambda>c. case c of
        OPtr _ \<Rightarrow> Inl Bad_object
      | OVal v \<Rightarrow> (case as v of None \<Rightarrow> Inl Bad_object | Some x \<Rightarrow> Inr x))"

text \<open>\<open>*reinterpret_cast<void **>(obj_addr)\<close>, about to be dereferenced.\<close>

definition load_object :: "cells \<Rightarrow> int \<Rightarrow> obj result" where
  "load_object cells off =
     andThen (load cells off) (\<lambda>c. case c of
        OVal _ \<Rightarrow> Inl Bad_object
      | OPtr None \<Rightarrow> Inl Null_deref
      | OPtr (Some ob) \<Rightarrow> Inr ob)"

fun as_w32 :: "cval \<Rightarrow> u32 option" where
  "as_w32 (V32 v) = Some v" | "as_w32 _ = None"

fun as_w64 :: "cval \<Rightarrow> u64 option" where
  "as_w64 (V64 v) = Some v" | "as_w64 _ = None"

fun as_bool :: "cval \<Rightarrow> bool option" where
  "as_bool (VBool b) = Some b" | "as_bool _ = None"

fun as_float :: "cval \<Rightarrow> cfloat option" where
  "as_float (VFloat v) = Some v" | "as_float _ = None"

fun as_double :: "cval \<Rightarrow> cdouble option" where
  "as_double (VDouble v) = Some v" | "as_double _ = None"

fun as_string :: "cval \<Rightarrow> bytes option" where
  "as_string (VStr s) = Some s" | "as_string _ = None"

fun as_r32 :: "cval \<Rightarrow> u32 list option" where
  "as_r32 (R32 vs) = Some vs" | "as_r32 _ = None"

fun as_r64 :: "cval \<Rightarrow> u64 list option" where
  "as_r64 (R64 vs) = Some vs" | "as_r64 _ = None"

fun as_r8 :: "cval \<Rightarrow> u8 list option" where
  "as_r8 (R8 vs) = Some vs" | "as_r8 _ = None"

fun as_rfloat :: "cval \<Rightarrow> cfloat list option" where
  "as_rfloat (RFloat vs) = Some vs" | "as_rfloat _ = None"

fun as_rstring :: "cval \<Rightarrow> bytes list option" where
  "as_rstring (RStr ss) = Some ss" | "as_rstring _ = None"

text \<open>Assigning to a member: the cell must exist and be of the kind written (an uninitialised
  scalar takes any scalar).\<close>

definition store :: "cells \<Rightarrow> int \<Rightarrow> ocell \<Rightarrow> cells" where
  "store cells off c = map (\<lambda>(k, d). if k = off then (k, c) else (k, d)) cells"

definition store_val :: "(cval \<Rightarrow> bool) \<Rightarrow> cells \<Rightarrow> int \<Rightarrow> cval \<Rightarrow> cells result" where
  "store_val ok cells off v =
     andThen (load cells off) (\<lambda>c. case c of
        OPtr _ \<Rightarrow> Inl Bad_object
      | OVal old \<Rightarrow> if ok old then Inr (store cells off (OVal v)) else Inl Bad_object)"

definition store_object :: "cells \<Rightarrow> int \<Rightarrow> obj \<Rightarrow> cells result" where
  "store_object cells off ob =
     andThen (load cells off) (\<lambda>c. case c of
        OVal _ \<Rightarrow> Inl Bad_object
      | OPtr _ \<Rightarrow> Inr (store cells off (OPtr (Some ob))))"

fun is_scalar :: "cval \<Rightarrow> bool" where
  "is_scalar Raw = True" | "is_scalar (V32 _) = True" | "is_scalar (V64 _) = True"
| "is_scalar (VBool _) = True" | "is_scalar (VFloat _) = True" | "is_scalar (VDouble _) = True"
| "is_scalar _ = False"

lemma load_object_child: "load_object cells off = Inr c \<Longrightarrow> child_of c cells"
  by (auto simp: load_object_def load_def child_of_def andThen_eq_Inr
      split: option.splits ocell.splits dest!: map_of_SomeD)

section \<open>Kinds of values and types of fields\<close>

text \<open>Each software type code that the serializers handle, and the C++ type its member has.  The
  other codes fall into the \<open>default\<close> branch of every \<open>switch\<close>.\<close>

datatype kind = K32 | K64 | KBool | KFloat | KDouble | KStr | KR32 | KR64 | KR8 | KRFloat | KRStr | KPtr

fun kind_of :: "sw_type \<Rightarrow> kind option" where
  "kind_of sw_int32_type = Some K32"
| "kind_of sw_repeated_int32_type = Some KR32"
| "kind_of sw_int64_type = Some K64"
| "kind_of sw_repeated_int64_type = Some KR64"
| "kind_of sw_uint64_type = Some K64"
| "kind_of sw_repeated_uint64_type = Some KR64"
| "kind_of sw_uint32_type = Some K32"
| "kind_of sw_repeated_uint32_type = Some KR32"
| "kind_of sw_bool_type = Some KBool"
| "kind_of sw_repeated_bool_type = Some KR8"
| "kind_of sw_sint32_type = Some K32"
| "kind_of sw_double_type = Some KDouble"
| "kind_of sw_float_type = Some KFloat"
| "kind_of sw_repeated_float_type = Some KRFloat"
| "kind_of sw_fix32_type = Some K32"
| "kind_of sw_fix64_type = Some K64"
| "kind_of sw_repeated_fix64_type = Some KR64"
| "kind_of sw_enum_type = Some K32"
| "kind_of sw_repeated_enum_type = Some KR32"
| "kind_of sw_string_type = Some KStr"
| "kind_of sw_repeated_string_type = Some KRStr"
| "kind_of sw_bytes_type = Some KStr"
| "kind_of sw_repeated_bytes_type = Some KRStr"
| "kind_of sw_ptr_type = Some KPtr"
| "kind_of _ = None"

fun cval_kind :: "cval \<Rightarrow> kind option" where
  "cval_kind Raw = None"
| "cval_kind (V32 _) = Some K32" | "cval_kind (V64 _) = Some K64" | "cval_kind (VBool _) = Some KBool"
| "cval_kind (VFloat _) = Some KFloat" | "cval_kind (VDouble _) = Some KDouble"
| "cval_kind (VStr _) = Some KStr" | "cval_kind (R32 _) = Some KR32" | "cval_kind (R64 _) = Some KR64"
| "cval_kind (R8 _) = Some KR8" | "cval_kind (RFloat _) = Some KRFloat"
| "cval_kind (RStr _) = Some KRStr"

lemma cval_kind_iff:
  "cval_kind c = Some K32 \<longleftrightarrow> (\<exists>v. c = V32 v)" "cval_kind c = Some K64 \<longleftrightarrow> (\<exists>v. c = V64 v)"
  "cval_kind c = Some KBool \<longleftrightarrow> (\<exists>v. c = VBool v)" "cval_kind c = Some KFloat \<longleftrightarrow> (\<exists>v. c = VFloat v)"
  "cval_kind c = Some KDouble \<longleftrightarrow> (\<exists>v. c = VDouble v)" "cval_kind c = Some KStr \<longleftrightarrow> (\<exists>v. c = VStr v)"
  "cval_kind c = Some KR32 \<longleftrightarrow> (\<exists>v. c = R32 v)" "cval_kind c = Some KR64 \<longleftrightarrow> (\<exists>v. c = R64 v)"
  "cval_kind c = Some KR8 \<longleftrightarrow> (\<exists>v. c = R8 v)" "cval_kind c = Some KRFloat \<longleftrightarrow> (\<exists>v. c = RFloat v)"
  "cval_kind c = Some KRStr \<longleftrightarrow> (\<exists>v. c = RStr v)" "cval_kind c \<noteq> Some KPtr"
  by (cases c; simp)+

text \<open>Bytes from one member to the next: 32 for \<open>std::string\<close>, 24 for a vector, 8 for the rest.\<close>

fun kind_stride :: "kind \<Rightarrow> int" where
  "kind_stride KStr = 32"
| "kind_stride KR32 = 24" | "kind_stride KR64 = 24" | "kind_stride KR8 = 24"
| "kind_stride KRFloat = 24" | "kind_stride KRStr = 24"
| "kind_stride _ = 8"

lemma kind_stride_pos: "0 < kind_stride k"
  by (cases k) simp_all

lemma kind_cases:
  assumes "cval_kind c = Some k"
  obtains (K32) v where "c = V32 v" "k = K32" | (K64) w where "c = V64 w" "k = K64"
    | (KBool) b where "c = VBool b" "k = KBool" | (KFloat) f where "c = VFloat f" "k = KFloat"
    | (KDouble) d where "c = VDouble d" "k = KDouble" | (KStr) s where "c = VStr s" "k = KStr"
    | (KR32) vs where "c = R32 vs" "k = KR32" | (KR64) ws where "c = R64 ws" "k = KR64"
    | (KR8) bs where "c = R8 bs" "k = KR8" | (KRFloat) fs where "c = RFloat fs" "k = KRFloat"
    | (KRStr) ss where "c = RStr ss" "k = KRStr"
  using assms by (cases c) auto

section \<open>Messages and their layout\<close>

datatype msg = Msg Metadata "mval list"
  and mval = MVal cval | MSub msg

lemma msg_induct [case_names Msg]:
  assumes step: "\<And>md vs. (\<And>m. MSub m \<in> set vs \<Longrightarrow> P m) \<Longrightarrow> P (Msg md vs)"
  shows "P m"
  by (induction m rule: msg.induct [where ?P2.0 = "\<lambda>v. \<forall>m. v = MSub m \<longrightarrow> P m"])
    (auto intro: step)

fun mval_kind :: "mval \<Rightarrow> kind option" where
  "mval_kind (MVal c) = cval_kind c"
| "mval_kind (MSub m) = Some KPtr"

fun mval_stride :: "mval \<Rightarrow> int" where
  "mval_stride (MVal c) = (case cval_kind c of Some k \<Rightarrow> kind_stride k | None \<Rightarrow> 8)"
| "mval_stride (MSub m) = 8"

lemma mval_stride_pos: "0 < mval_stride v"
  by (cases v) (auto simp: kind_stride_pos split: option.split)

lemma mval_stride_kind: "mval_kind v = Some k \<Longrightarrow> mval_stride v = kind_stride k"
  by (cases v) auto

definition strides :: "mval list \<Rightarrow> int" where
  "strides vs = sum_list (map mval_stride vs)"

lemma strides_simps [simp]:
  "strides [] = 0" "strides (v # vs) = mval_stride v + strides vs"
  "strides (us @ vs) = strides us + strides vs"
  by (simp_all add: strides_def)

lemma strides_nonneg: "0 \<le> strides vs"
  using mval_stride_pos by (induction vs) (auto intro: add_nonneg_nonneg less_imp_le)

fun layout :: "msg \<Rightarrow> obj"
  and layout_val :: "mval \<Rightarrow> ocell"
  and layout_fields :: "int \<Rightarrow> mval list \<Rightarrow> cells" where
  "layout (Msg md vs) = Obj md (layout_fields first_member vs)"
| "layout_val (MVal c) = OVal c"
| "layout_val (MSub m) = OPtr (Some (layout m))"
| "layout_fields off [] = []"
| "layout_fields off (v # vs) = (off, layout_val v) # layout_fields (off + mval_stride v) vs"

fun msg_metadata :: "msg \<Rightarrow> Metadata" where
  "msg_metadata (Msg md vs) = md"

fun msg_vals :: "msg \<Rightarrow> mval list" where
  "msg_vals (Msg md vs) = vs"

text \<open>\<open>sizeof\<close> the class.\<close>

definition msg_sizeof :: "mval list \<Rightarrow> int" where
  "msg_sizeof vs = first_member + strides vs"

lemma obj_metadata_layout [simp]: "obj_metadata (layout m) = msg_metadata m"
  by (cases m) simp

lemma map_of_layout_ge: "map_of (layout_fields off vs) k = Some c \<Longrightarrow> off \<le> k"
proof (induction vs arbitrary: off)
  case (Cons v vs)
  show ?case
  proof (cases "k = off")
    case False
    with Cons show ?thesis using mval_stride_pos [of v] by fastforce
  qed simp
qed simp

lemma map_of_layout:
  "map_of (layout_fields off (xs @ v # ys)) (off + strides xs) = Some (layout_val v)"
proof (induction xs arbitrary: off)
  case (Cons x xs)
  have "off + (mval_stride x + strides xs) \<noteq> off"
    using mval_stride_pos [of x] strides_nonneg [of xs] by linarith
  with Cons [of "off + mval_stride x"] show ?case by (simp add: add.assoc)
qed simp

lemma load_layout:
  "load (layout_fields off (xs @ v # ys)) (off + strides xs) = Inr (layout_val v)"
  by (simp add: load_def map_of_layout)

lemma layout_fields_append:
  "layout_fields off (xs @ ys) = layout_fields off xs @ layout_fields (off + strides xs) ys"
  by (induction xs arbitrary: off) (simp_all add: add.assoc)

section \<open>Well-formed messages\<close>

text \<open>The fields a descriptor lists, decoded; an unknown code stands as a type no \<open>switch\<close> handles.\<close>

definition md_fields :: "Metadata \<Rightarrow> (sw_type \<times> u8) list" where
  "md_fields md =
     map (\<lambda>(w, fid). (case decode_sw w of Some t \<Rightarrow> t | None \<Rightarrow> sw_done_flag_type, fid))
       (take (unat (field_num md)) (zip (wire_type md) (field_id md)))"

definition field_ok :: "sw_type \<times> u8 \<Rightarrow> mval \<Rightarrow> bool" where
  "field_ok f v \<longleftrightarrow> kind_of (fst f) \<noteq> None \<and> kind_of (fst f) = mval_kind v \<and> unat (snd f) < 128"

definition descriptor_ok :: "Metadata \<Rightarrow> bool" where
  "descriptor_ok md \<longleftrightarrow> Metadata_ok md \<and> unat (field_num md) \<le> wire_type_capacity"

fun wf_msg :: "msg \<Rightarrow> bool"
  and wf_val :: "mval \<Rightarrow> bool" where
  "wf_msg (Msg md vs) \<longleftrightarrow>
     descriptor_ok md \<and> list_all2 field_ok (md_fields md) vs \<and> list_all wf_val vs"
| "wf_val (MVal c) \<longleftrightarrow> True"
| "wf_val (MSub m) \<longleftrightarrow> wf_msg m"

lemma kind_of_done_flag [simp]: "kind_of sw_done_flag_type = None"
  by simp

text \<open>On a well-formed descriptor the loop visits the decoded fields.\<close>

lemma metadata_fields_ok:
  "descriptor_ok md \<Longrightarrow>
   metadata_fields md = Inr (take (unat (field_num md)) (zip (wire_type md) (field_id md)))"
  by (simp add: metadata_fields_def descriptor_ok_def Metadata_ok_def wire_type_capacity_def
      field_id_capacity_def)

definition dec_field :: "u8 \<times> u8 \<Rightarrow> sw_type \<times> u8" where
  "dec_field f = (case decode_sw (fst f) of Some t \<Rightarrow> t | None \<Rightarrow> sw_done_flag_type, snd f)"

lemma md_fields_alt:
  "md_fields md = map dec_field (take (unat (field_num md)) (zip (wire_type md) (field_id md)))"
  by (simp add: md_fields_def dec_field_def case_prod_beta)

lemma dec_field_ok: "field_ok (dec_field f) v \<Longrightarrow> decode_sw (fst f) = Some (fst (dec_field f))"
  by (auto simp: field_ok_def dec_field_def split: option.splits)

section \<open>Descriptors written out\<close>

text \<open>The descriptor of a class with the given fields, the rest of its arrays zero.\<close>

definition descriptor :: "u32 \<Rightarrow> (sw_type \<times> u8) list \<Rightarrow> Metadata" where
  "descriptor c fs = \<lparr>field_num = of_nat (length fs), class_id = c,
     wire_type = map (sw_code \<circ> fst) fs @ replicate (52 - length fs) 0,
     field_id = map snd fs @ replicate (64 - length fs) 0\<rparr>"

lemma descriptor_simps [simp]:
  assumes "length fs \<le> 52"
  shows "descriptor_ok (descriptor c fs)" "md_fields (descriptor c fs) = fs"
    "class_id (descriptor c fs) = c"
    "metadata_fields (descriptor c fs) = Inr (map (\<lambda>f. (sw_code (fst f), snd f)) fs)"
proof -
  have n: "unat (of_nat (length fs) :: u64) = length fs"
    using assms by (intro unat_of_nat_small) simp
  show "descriptor_ok (descriptor c fs)" "class_id (descriptor c fs) = c"
    using assms n by (simp_all add: descriptor_def descriptor_ok_def Metadata_ok_def
        wire_type_capacity_def field_id_capacity_def)
  have "zip (map (sw_code \<circ> fst) fs @ xs) (map snd fs @ ys)
      = map (\<lambda>f. (sw_code (fst f), snd f)) fs @ zip xs ys" for xs ys
    by (induction fs) simp_all
  note zip = this
  then show "md_fields (descriptor c fs) = fs"
    using n by (simp add: md_fields_def descriptor_def comp_def)
  show "metadata_fields (descriptor c fs) = Inr (map (\<lambda>f. (sw_code (fst f), snd f)) fs)"
    using assms n zip by (simp add: metadata_fields_def descriptor_def)
qed

end
