(* ===== verification/Wire_Format.thy ===== *)
theory Wire_Format
  imports Objects
begin

text \<open>
  The byte format the serializers of \<open>include/encode_main.h\<close> produce, written down once as a function
  of the message.  Fields come last first; each is a two-byte little-endian length, a protobuf tag
  and a payload.  A sub-message has neither length nor tag: its fields stand inline.  A long string
  (over 1024 bytes), or a repeated string holding one, is left out when the caller asks for it.
\<close>

section \<open>Fields\<close>

definition long_limit :: nat where
  "long_limit = 1024"

fun long_value :: "cval \<Rightarrow> bool" where
  "long_value (VStr s) \<longleftrightarrow> long_limit < length s"
| "long_value (RStr ss) \<longleftrightarrow> list_ex (\<lambda>s. long_limit < length s) ss"
| "long_value _ \<longleftrightarrow> False"

fun payload :: "sw_type \<Rightarrow> cval \<Rightarrow> bytes" where
  "payload t Raw = []"
| "payload t (V32 v) = (if t = sw_uint32_type then enc_u32 v
     else if t = sw_fix32_type then enc_fixed32 v else enc_i32 v)"
| "payload t (V64 w) = (if t = sw_fix64_type then enc_fixed64 w else enc_u64 w)"
| "payload t (VBool b) = enc_bool b"
| "payload t (VFloat v) = enc_fixed32 v"
| "payload t (VDouble w) = enc_fixed64 w"
| "payload t (VStr s) = enc_string s"
| "payload t (R32 vs) = enc_packed (if t = sw_repeated_uint32_type then enc_u32 else enc_i32) vs"
| "payload t (R64 ws) = enc_packed (if t = sw_repeated_fix64_type then enc_fixed64 else enc_u64) ws"
| "payload t (R8 bs) = enc_packed (\<lambda>b. enc_bool (b \<noteq> 0)) bs"
| "payload t (RFloat vs) = enc_packed enc_fixed32 vs"
| "payload t (RStr ss) = enc_packed enc_string ss"

fun proto_type :: "sw_type \<Rightarrow> cval \<Rightarrow> u32" where
  "proto_type t (V32 v) = (if t = sw_fix32_type then PROTOBUF_32BIT_TYPE else PROTOBUF_VARINT_TYPE)"
| "proto_type t (V64 w) = (if t = sw_fix64_type then PROTOBUF_64BIT_TYPE else PROTOBUF_VARINT_TYPE)"
| "proto_type t (VBool b) = PROTOBUF_VARINT_TYPE"
| "proto_type t (VFloat v) = PROTOBUF_32BIT_TYPE"
| "proto_type t (VDouble w) = PROTOBUF_64BIT_TYPE"
| "proto_type t _ = PROTOBUF_LENGTH_DELIMITED_TYPE"

lemma proto_type_less: "proto_type t c < 8"
  by (cases c) (simp_all add: protobuf_types)

definition tag :: "sw_type \<Rightarrow> u8 \<Rightarrow> cval \<Rightarrow> bytes" where
  "tag t fid c = tag_bytes (scast fid) (proto_type t c)"

text \<open>The length prefix is computed on \<open>uint16_t\<close>.  For a repeated field the running sum wraps
  before the size of its own length varint is added.\<close>

definition packed_part :: "cval \<Rightarrow> sw_type \<Rightarrow> bytes" where
  "packed_part c t = (case c of
       R32 vs \<Rightarrow> concat (map (if t = sw_repeated_uint32_type then enc_u32 else enc_i32) vs)
     | R64 ws \<Rightarrow> concat (map (if t = sw_repeated_fix64_type then enc_fixed64 else enc_u64) ws)
     | R8 bs \<Rightarrow> concat (map (\<lambda>b. enc_bool (b \<noteq> 0)) bs)
     | RFloat vs \<Rightarrow> concat (map enc_fixed32 vs)
     | RStr ss \<Rightarrow> concat (map enc_string ss)
     | _ \<Rightarrow> [])"

fun is_repeated :: "cval \<Rightarrow> bool" where
  "is_repeated (R32 _) = True" | "is_repeated (R64 _) = True" | "is_repeated (R8 _) = True"
| "is_repeated (RFloat _) = True" | "is_repeated (RStr _) = True" | "is_repeated _ = False"

definition length_prefix :: "sw_type \<Rightarrow> u8 \<Rightarrow> cval \<Rightarrow> u16" where
  "length_prefix t fid c =
     (if is_repeated c then
        let n = of_nat (length (packed_part c t)) :: u16 in
        n + (of_nat (length (tag t fid c)) + of_nat (length (enc_u32 (ucast n))))
      else of_nat (length (tag t fid c @ payload t c)))"

definition field_body :: "sw_type \<Rightarrow> u8 \<Rightarrow> cval \<Rightarrow> bytes" where
  "field_body t fid c = tag t fid c @ payload t c"

definition field_bytes :: "bool \<Rightarrow> sw_type \<Rightarrow> u8 \<Rightarrow> cval \<Rightarrow> bytes" where
  "field_bytes skip t fid c =
     (if skip \<and> long_value c then []
      else le_bytes 2 (unat (length_prefix t fid c)) @ field_body t fid c)"

section \<open>Messages\<close>

text \<open>The bytes of a message, given the bytes of one field.\<close>

type_synonym field_format = "bool \<Rightarrow> sw_type \<Rightarrow> u8 \<Rightarrow> cval \<Rightarrow> bytes"

fun msg_bytes :: "field_format \<Rightarrow> bool \<Rightarrow> msg \<Rightarrow> bytes"
  and val_bytes :: "field_format \<Rightarrow> bool \<Rightarrow> sw_type \<times> u8 \<Rightarrow> mval \<Rightarrow> bytes"
  and fields_bytes :: "field_format \<Rightarrow> bool \<Rightarrow> (sw_type \<times> u8) list \<Rightarrow> mval list \<Rightarrow> bytes" where
  "msg_bytes fb skip (Msg md vs) = fields_bytes fb skip (md_fields md) vs"
| "val_bytes fb skip f (MVal c) = fb skip (fst f) (snd f) c"
| "val_bytes fb skip f (MSub m) = msg_bytes fb skip m"
| "fields_bytes fb skip (f # fs) (v # vs) = fields_bytes fb skip fs vs @ val_bytes fb skip f v"
| "fields_bytes fb skip fs vs = []"

lemma fields_bytes_snoc:
  "length fs = length vs \<Longrightarrow>
   fields_bytes fb skip (fs @ [f]) (vs @ [v]) = val_bytes fb skip f v @ fields_bytes fb skip fs vs"
  by (induction fs vs rule: list_induct2) simp_all

text \<open>The leaves of a message, last first as they are written: type code, number and value.\<close>

fun leaves :: "msg \<Rightarrow> (sw_type \<times> u8 \<times> cval) list"
  and leaves_val :: "sw_type \<times> u8 \<Rightarrow> mval \<Rightarrow> (sw_type \<times> u8 \<times> cval) list"
  and leaves_fields :: "(sw_type \<times> u8) list \<Rightarrow> mval list \<Rightarrow> (sw_type \<times> u8 \<times> cval) list" where
  "leaves (Msg md vs) = leaves_fields (md_fields md) vs"
| "leaves_val f (MVal c) = [(fst f, snd f, c)]"
| "leaves_val f (MSub m) = leaves m"
| "leaves_fields (f # fs) (v # vs) = leaves_fields fs vs @ leaves_val f v"
| "leaves_fields fs vs = []"

lemma leaves_fields_snoc:
  "length fs = length vs \<Longrightarrow>
   leaves_fields (fs @ [f]) (vs @ [v]) = leaves_val f v @ leaves_fields fs vs"
  by (induction fs vs rule: list_induct2) simp_all

lemma bytes_of_leaves:
  "msg_bytes fb skip m = concat (map (\<lambda>(t, fid, c). fb skip t fid c) (leaves m))"
  "val_bytes fb skip f v = concat (map (\<lambda>(t, fid, c). fb skip t fid c) (leaves_val f v))"
  "fields_bytes fb skip fs vs = concat (map (\<lambda>(t, fid, c). fb skip t fid c) (leaves_fields fs vs))"
  by (induction m and f v and fs vs rule: leaves_leaves_val_leaves_fields.induct) simp_all

section \<open>The length prefix\<close>

lemma payload_packed:
  "is_repeated c \<Longrightarrow> payload t c = enc_u32 (of_nat (length (packed_part c t))) @ packed_part c t"
  by (cases c) (simp_all add: enc_packed_def packed_part_def)

text \<open>Below 65536 bytes the prefix is the length of the tag and the payload.\<close>

lemma length_prefix_correct:
  assumes "length (field_body t fid c) < 65536"
  shows "unat (length_prefix t fid c) = length (field_body t fid c)"
proof (cases "is_repeated c")
  case False
  have "unat (of_nat (length (field_body t fid c)) :: u16) = length (field_body t fid c)"
    using assms by (intro unat_of_nat_small) simp
  with False show ?thesis by (simp only: length_prefix_def field_body_def if_False)
next
  case True
  let ?n = "length (packed_part c t)"
  have "?n < 65536" using assms True by (simp add: field_body_def payload_packed)
  then have "(ucast (of_nat ?n :: u16) :: u32) = of_nat ?n" by (intro ucast_of_nat_small) simp
  with True have "length_prefix t fid c = of_nat (length (field_body t fid c))"
    by (simp add: length_prefix_def field_body_def payload_packed Let_def)
  moreover have "unat (of_nat (length (field_body t fid c)) :: u16) = length (field_body t fid c)"
    using assms by (intro unat_of_nat_small) simp
  ultimately show ?thesis by simp
qed

end
