(* ===== verification/Size_Walk.thy ===== *)
theory Size_Walk
  imports Wire_Format
begin

text \<open>
  The forward walk of \<open>ByteSizeLong\<close> (\<open>include/encode_main.h\<close>, lines 106 to 411, and the same text in
  \<open>include/no_encode_main.h\<close>): over the members of an object from offset 16, adding the size of each
  field.  The walk takes the description of one field as an argument, as the sources take it from the
  header they include.  The loop takes the recursive call on a sub-message; the recursion ends because
  the object pointed to is smaller.  A \<open>size_t\<close> is a 64-bit word.
\<close>

section \<open>The forward walk\<close>

text \<open>A description of one field: the next address and the size of the field.\<close>

type_synonym sizer = "bool \<Rightarrow> sw_type \<Rightarrow> u8 \<Rightarrow> cells \<Rightarrow> int \<Rightarrow> (int \<times> u64) result"

fun ByteSize_loop ::
  "(obj \<Rightarrow> u64 result) \<Rightarrow> sizer \<Rightarrow> bool \<Rightarrow> cells \<Rightarrow> (u8 \<times> u8) list \<Rightarrow> int \<Rightarrow> u64 \<Rightarrow> u64 result" where
  "ByteSize_loop self fld skip_long_string_flag cells [] obj_addr output_size = Inr output_size"
| "ByteSize_loop self fld skip_long_string_flag cells ((w, fid) # fs) obj_addr output_size =
     (case decode_sw w of
        None \<Rightarrow> ByteSize_loop self fld skip_long_string_flag cells fs obj_addr output_size
      | Some t \<Rightarrow>
          if t = sw_ptr_type then
            andThen (load_object cells obj_addr) (\<lambda>current_field.
            andThen (self current_field) (\<lambda>current_field_size.
              ByteSize_loop self fld skip_long_string_flag cells fs (obj_addr + 8)
                (output_size + current_field_size)))
          else
            andThen (fld skip_long_string_flag t fid cells obj_addr)
              (\<lambda>(obj_addr, current_field_size).
                ByteSize_loop self fld skip_long_string_flag cells fs obj_addr
                  (output_size + current_field_size)))"

lemma ByteSize_loop_cong [fundef_cong]:
  assumes "\<And>c. child_of c cells \<Longrightarrow> f c = g c"
    and "fld = fld'" "skip = skip'" "cells = cells'" "fs = fs'" "off = off'" "n = n'"
  shows "ByteSize_loop f fld skip cells fs off n = ByteSize_loop g fld' skip' cells' fs' off' n'"
proof -
  have "ByteSize_loop f fld skip cells fs off n = ByteSize_loop g fld skip cells fs off n"
    using assms(1)
  proof (induction fs arbitrary: off n)
    case (Cons p fs)
    then show ?case
      by (cases p) (auto split: option.split intro!: andThen_cong dest: load_object_child)
  qed simp
  with assms show ?thesis by simp
qed

function ByteSize_walk :: "sizer \<Rightarrow> obj \<Rightarrow> bool \<Rightarrow> u64 result" where
  "ByteSize_walk fld message skip_long_string_flag =
     andThen (metadata_fields (obj_metadata message)) (\<lambda>fields.
       ByteSize_loop (\<lambda>m. ByteSize_walk fld m skip_long_string_flag) fld skip_long_string_flag
         (obj_cells message) fields first_member 0)"
  by pat_completeness auto
termination
  by (relation "measure (\<lambda>(_, m, _). size m)") (auto dest: child_size)

declare ByteSize_walk.simps [simp del]

section \<open>The size of a message\<close>

lemma wf_msg_sub: "wf_msg (Msg md vs) \<Longrightarrow> MSub m \<in> set vs \<Longrightarrow> wf_msg m"
  by (auto simp: list_all_iff dest: bspec)

text \<open>A description of fields that steps over the member and gives the length of the bytes \<open>fb\<close>.\<close>

locale field_sizer =
  fixes fld :: sizer and fb :: field_format
  assumes fld_spec:
    "kind_of t = Some k \<Longrightarrow> cval_kind c = Some k \<Longrightarrow> unat fid < 128 \<Longrightarrow> load cells off = Inr (OVal c) \<Longrightarrow>
     fld skip t fid cells off = Inr (off + kind_stride k, of_nat (length (fb skip t fid c)))"
begin

lemma loop_size:
  assumes "list_all2 field_ok (map dec_field fs) vs"
    and "\<And>m. MSub m \<in> set vs \<Longrightarrow> self (layout m) = Inr (of_nat (length (msg_bytes fb skip m)))"
  shows "ByteSize_loop self fld skip (layout_fields off (us @ vs)) fs (off + strides us) n
     = Inr (n + of_nat (length (fields_bytes fb skip (map dec_field fs) vs)))"
  using assms
proof (induction vs arbitrary: us fs n rule: list.induct)
  case Nil
  then show ?case by simp
next
  case (Cons v vs)
  then obtain f fs' where fs: "fs = f # fs'" and f: "field_ok (dec_field f) v"
    and fs': "list_all2 field_ok (map dec_field fs') vs"
    by (auto simp: list_all2_Cons2)
  obtain w fid where wf: "f = (w, fid)" by (cases f)
  have dec: "decode_sw w = Some (fst (dec_field f))" and snd: "snd (dec_field f) = fid"
    using dec_field_ok [OF f] by (simp_all add: wf dec_field_def)
  note ld = load_layout [of off us v vs]
  have IH: "ByteSize_loop self fld skip (layout_fields off (us @ v # vs)) fs'
      (off + strides us + mval_stride v) m
    = Inr (m + of_nat (length (fields_bytes fb skip (map dec_field fs') vs)))" for m
    using Cons.IH [OF fs', of "us @ [v]" m] Cons.prems(2) by (simp add: add.assoc)
  show ?case
  proof (cases v)
    case (MVal c)
    then obtain k where k: "kind_of (fst (dec_field f)) = Some k" "cval_kind c = Some k"
      using f by (auto simp: field_ok_def)
    then have np: "fst (dec_field f) \<noteq> sw_ptr_type" by (auto simp: cval_kind_iff)
    have "unat fid < 128" using f snd by (simp add: field_ok_def)
    then have "fld skip (fst (dec_field f)) fid (layout_fields off (us @ v # vs))
        (off + strides us)
      = Inr (off + strides us + mval_stride v,
             of_nat (length (fb skip (fst (dec_field f)) fid c)))"
      using fld_spec [OF k, of fid] ld MVal k(2) by simp
    then show ?thesis
      using IH np by (simp add: fs wf [symmetric] dec snd MVal) (simp add: wf dec snd [unfolded wf] add.assoc)
  next
    case (MSub m)
    then have t: "fst (dec_field f) = sw_ptr_type"
      using f by (cases "fst (dec_field f)") (simp_all add: field_ok_def)
    have "self (layout m) = Inr (of_nat (length (msg_bytes fb skip m)))"
      using Cons.prems(2) MSub by simp
    moreover have "load_object (layout_fields off (us @ v # vs)) (off + strides us) = Inr (layout m)"
      using ld MSub by (simp add: load_object_def)
    ultimately show ?thesis
      using IH by (simp add: fs wf dec t [unfolded wf] MSub add.assoc)
  qed
qed

lemma walk_size:
  "wf_msg m \<Longrightarrow> ByteSize_walk fld (layout m) skip = Inr (of_nat (length (msg_bytes fb skip m)))"
proof (induction m rule: msg_induct)
  case (Msg md vs)
  let ?fs = "take (unat (field_num md)) (zip (wire_type md) (field_id md))"
  have "metadata_fields md = Inr ?fs"
    using Msg.prems by (simp add: metadata_fields_ok)
  moreover have "ByteSize_loop (\<lambda>m. ByteSize_walk fld m skip) fld skip (layout_fields first_member vs) ?fs
      first_member 0 = Inr (of_nat (length (fields_bytes fb skip (md_fields md) vs)))"
    using loop_size [of ?fs vs "\<lambda>m. ByteSize_walk fld m skip" skip first_member "[]" 0]
      Msg.prems Msg.IH wf_msg_sub [OF Msg.prems] by (simp add: md_fields_alt)
  ultimately show ?case
    by (subst ByteSize_walk.simps) simp
qed

end

end
