(* ===== verification/ByteSize.thy ===== *)
theory ByteSize
  imports Size_Walk
begin

text \<open>
  \<open>ByteSizeLong\<close> of \<open>include/encode_main.h\<close> (lines 106 to 411): the number of bytes a message will
  take.  The branches of its \<open>switch\<close>, one field at a time, given to the forward walk of \<open>Size_Walk\<close>,
  and the proof that each branch computes the length of the bytes the field takes on the wire.
\<close>

section \<open>One field\<close>

text \<open>\<open>TAG_SIZE\<close>: \<open>field_id\<close> is an array of (signed) \<open>char\<close>.\<close>

definition TAG_SIZE :: "u8 \<Rightarrow> u64" where
  "TAG_SIZE fid = (if sint fid < 16 then 1 else 2)"

definition TAG_SIZE_PLUS_2 :: "u8 \<Rightarrow> u64" where
  "TAG_SIZE_PLUS_2 fid = TAG_SIZE fid + 2"

text \<open>The loop of the repeated string and bytes branches, on a running sum of any width, and
  whether it stopped at a string to skip.\<close>

fun RepeatedStringSize :: "bool \<Rightarrow> bytes list \<Rightarrow> 'l::len word \<Rightarrow> 'l word \<times> bool" where
  "RepeatedStringSize skip_long_string_flag [] n = (n, False)"
| "RepeatedStringSize skip_long_string_flag (s # ss) n =
     (if skip_long_string_flag \<and> 1024 < length s then (n, True)
      else RepeatedStringSize skip_long_string_flag ss (n + ucast (StringSize s)))"

text \<open>The branches of the \<open>switch\<close>, in three groups.  Each returns the next \<open>obj_addr\<close> and
  \<open>current_field_size\<close>; the \<open>default\<close> branch changes neither the address nor the total.\<close>

definition ByteSize_strings :: "bool \<Rightarrow> sw_type \<Rightarrow> u8 \<Rightarrow> cells \<Rightarrow> int \<Rightarrow> (int \<times> u64) result" where
  "ByteSize_strings skip_long_string_flag ty fid cells obj_addr =
     (case ty of
       sw_string_type \<Rightarrow>
         andThen (load_as as_string cells obj_addr) (\<lambda>current_field.
           if skip_long_string_flag \<and> 1024 < length current_field then Inr (obj_addr + 32, 0)
           else Inr (obj_addr + 32, TAG_SIZE_PLUS_2 fid + StringSize current_field))
     | sw_repeated_string_type \<Rightarrow>
         andThen (load_as as_rstring cells obj_addr) (\<lambda>current_field.
           let (current_field_size, skip_flag) =
                 RepeatedStringSize skip_long_string_flag current_field 0;
               current_field_size = current_field_size
                 + (TAG_SIZE_PLUS_2 fid + VarintSize32 (ucast current_field_size))
           in Inr (obj_addr + 24, if skip_flag then 0 else current_field_size))
     | sw_bytes_type \<Rightarrow>
         andThen (load_as as_string cells obj_addr) (\<lambda>current_field.
           if skip_long_string_flag \<and> 1024 < length current_field then Inr (obj_addr + 32, 0)
           else Inr (obj_addr + 32, TAG_SIZE_PLUS_2 fid + StringSize current_field))
     | sw_repeated_bytes_type \<Rightarrow>
         andThen (load_as as_rstring cells obj_addr) (\<lambda>current_field.
           let (current_field_size, skip_flag) =
                 RepeatedStringSize skip_long_string_flag current_field 0;
               current_field_size = current_field_size
                 + (TAG_SIZE_PLUS_2 fid + VarintSize32 (ucast current_field_size))
           in Inr (obj_addr + 24, if skip_flag then 0 else current_field_size))
     | _ \<Rightarrow> Inr (obj_addr, 0))"

definition ByteSize_fixed :: "bool \<Rightarrow> sw_type \<Rightarrow> u8 \<Rightarrow> cells \<Rightarrow> int \<Rightarrow> (int \<times> u64) result" where
  "ByteSize_fixed skip_long_string_flag ty fid cells obj_addr =
     (case ty of
       sw_bool_type \<Rightarrow>
         andThen (load_as as_bool cells obj_addr) (\<lambda>current_field.
           Inr (obj_addr + 8, TAG_SIZE_PLUS_2 fid + 1))
     | sw_repeated_bool_type \<Rightarrow>
         andThen (load_as as_r8 cells obj_addr) (\<lambda>current_field.
           let current_field_size = fold (\<lambda>v n. n + 1) current_field (0 :: u64) in
           Inr (obj_addr + 24, current_field_size + (TAG_SIZE_PLUS_2 fid + VarintSize32 (ucast current_field_size))))
     | sw_sint32_type \<Rightarrow>
         andThen (load_as as_w32 cells obj_addr) (\<lambda>current_field.
           Inr (obj_addr + 8, TAG_SIZE_PLUS_2 fid + Int32Size current_field))
     | sw_double_type \<Rightarrow>
         andThen (load_as as_double cells obj_addr) (\<lambda>current_field.
           Inr (obj_addr + 8, TAG_SIZE_PLUS_2 fid + 8))
     | sw_float_type \<Rightarrow>
         andThen (load_as as_float cells obj_addr) (\<lambda>current_field.
           Inr (obj_addr + 8, TAG_SIZE_PLUS_2 fid + 4))
     | sw_repeated_float_type \<Rightarrow>
         andThen (load_as as_rfloat cells obj_addr) (\<lambda>current_field.
           let current_field_size = fold (\<lambda>v n. n + 4) current_field (0 :: u64) in
           Inr (obj_addr + 24, current_field_size + (TAG_SIZE_PLUS_2 fid + VarintSize32 (ucast current_field_size))))
     | sw_fix32_type \<Rightarrow>
         andThen (load_as as_w32 cells obj_addr) (\<lambda>current_field.
           Inr (obj_addr + 8, TAG_SIZE_PLUS_2 fid + 4))
     | sw_fix64_type \<Rightarrow>
         andThen (load_as as_w64 cells obj_addr) (\<lambda>current_field.
           Inr (obj_addr + 8, TAG_SIZE_PLUS_2 fid + 8))
     | sw_repeated_fix64_type \<Rightarrow>
         andThen (load_as as_r64 cells obj_addr) (\<lambda>current_field.
           let current_field_size = fold (\<lambda>v n. n + 8) current_field (0 :: u64) in
           Inr (obj_addr + 24, current_field_size + (TAG_SIZE_PLUS_2 fid + VarintSize32 (ucast current_field_size))))
     | sw_enum_type \<Rightarrow>
         andThen (load_as as_w32 cells obj_addr) (\<lambda>current_field.
           Inr (obj_addr + 8, TAG_SIZE_PLUS_2 fid + EnumSize current_field))
     | sw_repeated_enum_type \<Rightarrow>
         andThen (load_as as_r32 cells obj_addr) (\<lambda>current_field.
           let current_field_size = fold (\<lambda>v n. n + EnumSize v) current_field (0 :: u64) in
           Inr (obj_addr + 24, current_field_size + (TAG_SIZE_PLUS_2 fid + VarintSize32 (ucast current_field_size))))
     | _ \<Rightarrow> ByteSize_strings skip_long_string_flag ty fid cells obj_addr)"

definition ByteSize_field :: "bool \<Rightarrow> sw_type \<Rightarrow> u8 \<Rightarrow> cells \<Rightarrow> int \<Rightarrow> (int \<times> u64) result" where
  "ByteSize_field skip_long_string_flag ty fid cells obj_addr =
     (case ty of
       sw_int32_type \<Rightarrow>
         andThen (load_as as_w32 cells obj_addr) (\<lambda>current_field.
           Inr (obj_addr + 8, TAG_SIZE_PLUS_2 fid + Int32Size current_field))
     | sw_repeated_int32_type \<Rightarrow>
         andThen (load_as as_r32 cells obj_addr) (\<lambda>current_field.
           let current_field_size = fold (\<lambda>v n. n + Int32Size v) current_field (0 :: u64) in
           Inr (obj_addr + 24, current_field_size + (TAG_SIZE_PLUS_2 fid + VarintSize32 (ucast current_field_size))))
     | sw_int64_type \<Rightarrow>
         andThen (load_as as_w64 cells obj_addr) (\<lambda>current_field.
           Inr (obj_addr + 8, TAG_SIZE_PLUS_2 fid + Int64Size current_field))
     | sw_repeated_int64_type \<Rightarrow>
         andThen (load_as as_r64 cells obj_addr) (\<lambda>current_field.
           let current_field_size = fold (\<lambda>v n. n + Int64Size v) current_field (0 :: u64) in
           Inr (obj_addr + 24, current_field_size + (TAG_SIZE_PLUS_2 fid + VarintSize32 (ucast current_field_size))))
     | sw_uint64_type \<Rightarrow>
         andThen (load_as as_w64 cells obj_addr) (\<lambda>current_field.
           Inr (obj_addr + 8, TAG_SIZE_PLUS_2 fid + UInt64Size current_field))
     | sw_repeated_uint64_type \<Rightarrow>
         andThen (load_as as_r64 cells obj_addr) (\<lambda>current_field.
           let current_field_size = fold (\<lambda>v n. n + UInt64Size v) current_field (0 :: u64) in
           Inr (obj_addr + 24, current_field_size + (TAG_SIZE_PLUS_2 fid + VarintSize32 (ucast current_field_size))))
     | sw_uint32_type \<Rightarrow>
         andThen (load_as as_w32 cells obj_addr) (\<lambda>current_field.
           Inr (obj_addr + 8, TAG_SIZE_PLUS_2 fid + UInt32Size current_field))
     | sw_repeated_uint32_type \<Rightarrow>
         andThen (load_as as_r32 cells obj_addr) (\<lambda>current_field.
           let current_field_size = fold (\<lambda>v n. n + UInt32Size v) current_field (0 :: u64) in
           Inr (obj_addr + 24, current_field_size + (TAG_SIZE_PLUS_2 fid + VarintSize32 (ucast current_field_size))))
     | _ \<Rightarrow> ByteSize_fixed skip_long_string_flag ty fid cells obj_addr)"

section \<open>The size of one field\<close>

lemma sint_small: "unat (w :: u8) < 128 \<Longrightarrow> sint w = int (unat w)"
proof -
  assume "unat w < 128"
  then have "uint w < 128" by (metis of_nat_less_numeral_iff uint_nat)
  then have "signed_take_bit 7 (uint w) = uint w"
    by (intro signed_take_bit_int_eq_self) (simp_all add: order.trans [of _ 0])
  then show ?thesis by (simp add: sint_uint)
qed

lemma sint_less_16: "unat (w :: u8) < 128 \<Longrightarrow> sint w < 16 \<longleftrightarrow> unat w < 16"
  by (simp only: sint_small of_nat_less_numeral_iff)

lemma TAG_SIZE_eq:
  "unat fid < 128 \<Longrightarrow> TAG_SIZE fid = of_nat (length (tag t fid c))"
  using proto_type_less [of t c]
  by (simp add: TAG_SIZE_def tag_def length_tag_bytes sint_less_16)

lemma RepeatedStringSize_eq:
  "RepeatedStringSize skip ss (n :: 'l::len word) =
     (let k = length (takeWhile (\<lambda>s. \<not> (skip \<and> long_limit < length s)) ss) in
      (n + sum_list (map (ucast \<circ> StringSize) (take k ss)), skip \<and> list_ex (\<lambda>s. long_limit < length s) ss))"
  by (induction ss arbitrary: n) (auto simp: Let_def add.assoc long_limit_def)

lemma RepeatedStringSize_all:
  assumes "\<not> (skip \<and> list_ex (\<lambda>s. long_limit < length s) ss)" and "LENGTH('l) \<le> 64"
  shows "RepeatedStringSize skip ss (n :: 'l::len word)
     = (n + of_nat (length (concat (map enc_string ss))), False)"
  using assms
proof (induction ss arbitrary: n)
  case (Cons s ss)
  then show ?case
    by (auto simp: long_limit_def StringSize_eq ucast_of_nat_down add.assoc)
qed simp

lemma RepeatedStringSize_skip:
  "list_ex (\<lambda>s. long_limit < length s) ss \<Longrightarrow> snd (RepeatedStringSize True ss n)"
  by (simp add: RepeatedStringSize_eq)

text \<open>Every branch computes the length of the bytes the field takes on the wire, and steps over the
  member.\<close>

lemma packed_size:
  fixes n :: "'l::len word"
  assumes "\<And>v. sz v = (of_nat (length (enc v)) :: 'l word)"
  shows "fold (\<lambda>v n. n + sz v) vs n = n + of_nat (length (concat (map enc vs)))"
  by (simp add: fold_plus_sum_list assms of_nat_length_concat)

lemmas packed_sizes =
  packed_size [of "\<lambda>v. of_nat (length (enc v))" enc for enc, OF refl]
  packed_size [of "\<lambda>_. 4" enc_fixed32, simplified]
  packed_size [of "\<lambda>_. 8" enc_fixed64, simplified]
  packed_size [of "\<lambda>_. 1" "\<lambda>b. enc_bool (b \<noteq> (0 :: u8))", simplified]

lemmas scalar_sizes =
  Int32Size_eq EnumSize_eq Int64Size_eq UInt64Size_eq UInt32Size_eq StringSize_eq VarintSize32_enc

lemma length_enc_bool [simp]: "length (enc_bool b) = 1"
  by (simp add: enc_bool_def)

lemma ByteSize_field_eq:
  assumes "kind_of t = Some k" and "cval_kind c = Some k" and "unat fid < 128"
    and "load cells off = Inr (OVal c)"
  shows "ByteSize_field skip t fid cells off
     = Inr (off + kind_stride k, of_nat (length (field_bytes skip t fid c)))"
proof -
  note T = TAG_SIZE_eq [OF assms(3), of t c]
  show ?thesis
    using assms(1,2,4)
    by (cases t)
      (auto simp: cval_kind_iff load_as_def field_bytes_def field_body_def payload_packed
        packed_part_def enc_packed_def ByteSize_field_def ByteSize_fixed_def ByteSize_strings_def
        TAG_SIZE_PLUS_2_def T scalar_sizes packed_sizes ucast_of_nat_down Let_def case_prod_beta
        RepeatedStringSize_all [unfolded long_limit_def]
        RepeatedStringSize_skip [unfolded long_limit_def] long_limit_def)
qed

section \<open>The size of a message\<close>

interpretation sizes: field_sizer ByteSize_field field_bytes
  by unfold_locales (rule ByteSize_field_eq)

definition ByteSizeLong :: "obj \<Rightarrow> bool \<Rightarrow> u64 result" where
  "ByteSizeLong message skip_long_string_flag = ByteSize_walk ByteSize_field message skip_long_string_flag"

lemma ByteSizeLong_layout:
  "wf_msg m \<Longrightarrow> ByteSizeLong (layout m) skip = Inr (of_nat (length (msg_bytes field_bytes skip m)))"
  by (simp add: ByteSizeLong_def sizes.walk_size)

end
