(* ===== verification/Write_Walk.thy ===== *)
theory Write_Walk
  imports Size_Walk
begin

text \<open>
  The backward walk of \<open>SerializeToString_DFS\<close> (\<open>include/encode_main.h\<close>, lines 1229 to 1555, and the
  same text in \<open>include/no_encode_main.h\<close>).  It starts at the end of the object, whose size comes from
  \<open>messageSizeVec\<close>, and steps back over each member before it loads it, so the last field is written
  first.  Where only bytes are written the output is the list of bytes written so far, the buffer taken
  to be large enough; the variants that also hand work to a device carry it in the output.
\<close>

section \<open>The backward walk\<close>

text \<open>A description of one field: steps back over the member and writes to the output.\<close>

type_synonym 'o writer =
  "bool \<Rightarrow> sw_type \<Rightarrow> u8 \<Rightarrow> cells \<Rightarrow> int \<Rightarrow> 'o \<Rightarrow> (int \<times> 'o) result"

fun Serialize_loop ::
  "(obj \<Rightarrow> 'o \<Rightarrow> 'o result) \<Rightarrow> 'o writer \<Rightarrow> bool \<Rightarrow> cells \<Rightarrow> (u8 \<times> u8) list \<Rightarrow> int \<Rightarrow> 'o \<Rightarrow> 'o result" where
  "Serialize_loop self fld skip_long_string_flag cells [] obj_addr buf = Inr buf"
| "Serialize_loop self fld skip_long_string_flag cells ((w, fid) # fs) obj_addr buf =
     (case decode_sw w of
        None \<Rightarrow> Serialize_loop self fld skip_long_string_flag cells fs obj_addr buf
      | Some t \<Rightarrow>
          if t = sw_ptr_type then
            let obj_addr = obj_addr - 8 in
            andThen (load_object cells obj_addr) (\<lambda>current_field.
            andThen (self current_field buf) (\<lambda>buf.
              Serialize_loop self fld skip_long_string_flag cells fs obj_addr buf))
          else
            andThen (fld skip_long_string_flag t fid cells obj_addr buf)
              (\<lambda>(obj_addr, buf). Serialize_loop self fld skip_long_string_flag cells fs obj_addr buf))"

lemma Serialize_loop_cong [fundef_cong]:
  assumes "\<And>c b. child_of c cells \<Longrightarrow> f c b = g c b"
    and "fld = fld'" "skip = skip'" "cells = cells'" "fs = fs'" "off = off'" "buf = buf'"
  shows "Serialize_loop f fld skip cells fs off buf = Serialize_loop g fld' skip' cells' fs' off' buf'"
proof -
  have "Serialize_loop f fld skip cells fs off buf = Serialize_loop g fld skip cells fs off buf"
    using assms(1)
  proof (induction fs arbitrary: off buf)
    case (Cons p fs)
    then show ?case
      by (cases p) (auto simp: Let_def split: option.split intro!: andThen_cong dest: load_object_child)
  qed simp
  with assms show ?thesis by simp
qed

text \<open>\<open>messageSizeVec\<close> is indexed by the class number of the descriptor the object points to, and the
  fields are visited from the last to the first.\<close>

function Serialize_walk :: "'o writer \<Rightarrow> obj \<Rightarrow> 'o \<Rightarrow> bool \<Rightarrow> (u32 \<Rightarrow> u64) \<Rightarrow> 'o result" where
  "Serialize_walk fld message current_buffer_addr skip_long_string_flag messageSizeVec =
     andThen (metadata_fields (obj_metadata message)) (\<lambda>fields.
       let message_size = messageSizeVec (class_id (obj_metadata message)) in
       Serialize_loop
         (\<lambda>m buf. Serialize_walk fld m buf skip_long_string_flag messageSizeVec)
         fld skip_long_string_flag (obj_cells message) (rev fields) (int (unat message_size))
         current_buffer_addr)"
  by pat_completeness auto
termination
  by (relation "measure (\<lambda>(_, m, _). size m)") (auto dest: child_size)

declare Serialize_walk.simps [simp del]

section \<open>The bytes of a message\<close>

lemma list_all2_snoc:
  "list_all2 P xs (ys @ [y]) \<longleftrightarrow> (\<exists>zs z. xs = zs @ [z] \<and> list_all2 P zs ys \<and> P z y)"
  by (cases xs rule: rev_cases) (simp_all add: list_all2_rev [symmetric, where ys = "ys @ [y]"] list_all2_rev conj_commute)

text \<open>\<open>sizes_agree\<close>: \<open>messageSizeVec\<close> holds the size of the class of every object of the message.\<close>

fun sizes_agree :: "(u32 \<Rightarrow> u64) \<Rightarrow> msg \<Rightarrow> bool"
  and sizes_agree_val :: "(u32 \<Rightarrow> u64) \<Rightarrow> mval \<Rightarrow> bool" where
  "sizes_agree msv (Msg md vs) \<longleftrightarrow>
     int (unat (msv (class_id md))) = msg_sizeof vs \<and> list_all (sizes_agree_val msv) vs"
| "sizes_agree_val msv (MVal c) \<longleftrightarrow> True"
| "sizes_agree_val msv (MSub m) \<longleftrightarrow> sizes_agree msv m"

lemma sizes_agree_sub: "sizes_agree msv (Msg md vs) \<Longrightarrow> MSub m \<in> set vs \<Longrightarrow> sizes_agree msv m"
  by (auto simp: list_all_iff dest: bspec)

text \<open>A description of fields that steps back over the member and hands the leaf to \<open>emit\<close>: the walk
  does that for every leaf.\<close>

locale field_emitter =
  fixes fld :: "'o writer" and emit :: "bool \<Rightarrow> sw_type \<times> u8 \<times> cval \<Rightarrow> 'o \<Rightarrow> 'o result"
  assumes fld_emits:
    "kind_of t = Some k \<Longrightarrow> cval_kind c = Some k \<Longrightarrow> unat fid < 128 \<Longrightarrow>
     load cells (off - kind_stride k) = Inr (OVal c) \<Longrightarrow>
     fld skip t fid cells off out = andThen (emit skip (t, fid, c) out) (\<lambda>out. Inr (off - kind_stride k, out))"
begin

lemma loop_emits:
  assumes "list_all2 field_ok (map dec_field fs) vs"
    and "\<And>m out. MSub m \<in> set vs \<Longrightarrow> self (layout m) out = each (emit skip) (leaves m) out"
  shows "Serialize_loop self fld skip (layout_fields off (vs @ ws)) (rev fs) (off + strides vs) out
     = each (emit skip) (leaves_fields (map dec_field fs) vs) out"
  using assms
proof (induction vs arbitrary: ws fs out rule: rev_induct)
  case Nil
  then show ?case by simp
next
  case (snoc v vs)
  then obtain f fs' where fs: "fs = fs' @ [f]" and f: "field_ok (dec_field f) v"
    and fs': "list_all2 field_ok (map dec_field fs') vs"
    by (auto simp: list_all2_snoc map_eq_append_conv)
  obtain w fid where wf: "f = (w, fid)" by (cases f)
  have dec: "decode_sw w = Some (fst (dec_field f))" and snd: "snd (dec_field f) = fid"
    using dec_field_ok [OF f] by (simp_all add: wf dec_field_def)
  let ?cells = "layout_fields off (vs @ v # ws)" and ?stop = "off + strides vs"
  have IH: "Serialize_loop self fld skip ?cells (rev fs') ?stop
      = each (emit skip) (leaves_fields (map dec_field fs') vs)"
    using snoc.IH [OF fs', of "v # ws"] snoc.prems(2) by (intro ext) simp
  have len: "length (map dec_field fs') = length vs" using fs' by (rule list_all2_lengthD)
  note ld = load_layout [of off vs v ws]
  have last: "leaves_fields (map dec_field fs) (vs @ [v])
      = leaves_val (dec_field f) v @ leaves_fields (map dec_field fs') vs"
    using leaves_fields_snoc [OF len, of "dec_field f" v] by (simp add: fs)
  show ?case
  proof (cases v)
    case (MVal c)
    then obtain k where k: "kind_of (fst (dec_field f)) = Some k" "cval_kind c = Some k"
      using f by (auto simp: field_ok_def)
    then have np: "fst (dec_field f) \<noteq> sw_ptr_type" by (auto simp: cval_kind_iff)
    have "unat fid < 128" using f snd by (simp add: field_ok_def)
    then have "fld skip (fst (dec_field f)) fid ?cells (?stop + mval_stride v) out
        = andThen (emit skip (fst (dec_field f), fid, c) out) (\<lambda>out. Inr (?stop, out))"
      using fld_emits [OF k, of fid ?cells "?stop + mval_stride v"] ld MVal k(2) by simp
    then show ?thesis
      using IH np last dec snd
      by (simp add: fs wf MVal add.assoc andThen_assoc)
  next
    case (MSub m)
    then have t: "fst (dec_field f) = sw_ptr_type"
      using f by (cases "fst (dec_field f)") (simp_all add: field_ok_def)
    have "self (layout m) out = each (emit skip) (leaves m) out"
      using snoc.prems(2) MSub by simp
    moreover have "load_object ?cells ?stop = Inr (layout m)"
      using ld MSub by (simp add: load_object_def)
    ultimately show ?thesis
      using IH last dec t by (simp add: fs wf MSub add.assoc Let_def each_append)
  qed
qed

lemma walk_emits:
  "wf_msg m \<Longrightarrow> sizes_agree msv m \<Longrightarrow>
   Serialize_walk fld (layout m) out skip msv = each (emit skip) (leaves m) out"
proof (induction m arbitrary: out rule: msg_induct)
  case (Msg md vs)
  let ?fs = "take (unat (field_num md)) (zip (wire_type md) (field_id md))"
    and ?self = "\<lambda>m out. Serialize_walk fld m out skip msv"
  have "metadata_fields md = Inr ?fs"
    using Msg.prems(1) by (simp add: metadata_fields_ok)
  moreover have "Serialize_loop ?self fld skip (layout_fields first_member vs) (rev ?fs) (msg_sizeof vs) out
      = each (emit skip) (leaves_fields (md_fields md) vs) out"
    using loop_emits [of ?fs vs ?self skip first_member "[]" out]
      Msg.prems Msg.IH wf_msg_sub [OF Msg.prems(1)] sizes_agree_sub [OF Msg.prems(2)]
    by (simp add: md_fields_alt msg_sizeof_def)
  ultimately show ?case
    using Msg.prems(2) by (subst Serialize_walk.simps) simp
qed

end

text \<open>A description of fields that appends the bytes \<open>fb\<close>.\<close>

locale field_writer =
  fixes fld :: "bytes writer" and fb :: field_format
  assumes fld_spec:
    "kind_of t = Some k \<Longrightarrow> cval_kind c = Some k \<Longrightarrow> unat fid < 128 \<Longrightarrow>
     load cells (off - kind_stride k) = Inr (OVal c) \<Longrightarrow>
     fld skip t fid cells off buf = Inr (off - kind_stride k, buf @ fb skip t fid c)"

sublocale field_writer \<subseteq> field_emitter fld "\<lambda>skip (t, fid, c) buf. Inr (buf @ fb skip t fid c)"
  by unfold_locales (simp add: fld_spec)

context field_writer begin

lemma walk_bytes:
  assumes "wf_msg m" and "sizes_agree msv m"
  shows "Serialize_walk fld (layout m) buf skip msv = Inr (buf @ msg_bytes fb skip m)"
proof -
  let ?app = "\<lambda>(t, fid, c) buf. buf @ fb skip t fid c"
  have "each (\<lambda>(t, fid, c) buf. Inr (buf @ fb skip t fid c)) (leaves m) buf = Inr (fold ?app (leaves m) buf)"
    by (rule each_total) (simp add: case_prod_beta)
  moreover have "fold ?app (leaves m) buf = buf @ concat (map (\<lambda>(t, fid, c). fb skip t fid c) (leaves m))"
    by (rule fold_append_concat) (simp add: case_prod_beta)
  ultimately show ?thesis
    using walk_emits [OF assms, of buf skip] by (simp add: bytes_of_leaves(1))
qed

end

end
