(* ===== verification/Serialize.thy ===== *)
theory Serialize
  imports ByteSize Write_Walk
begin

text \<open>
  \<open>SerializeToString_DFS\<close> and \<open>SerializeToString\<close> of \<open>include/encode_main.h\<close> (lines 1229 to 1564): the
  branches of the \<open>switch\<close>, given to the backward walk of \<open>Write_Walk\<close>.  \<open>current_field_size\<close> is a
  \<open>uint16_t\<close>: every sum is reduced modulo 65536.
\<close>

section \<open>One field\<close>

definition Serialize_strings ::
  "bool \<Rightarrow> sw_type \<Rightarrow> u8 \<Rightarrow> cells \<Rightarrow> int \<Rightarrow> bytes \<Rightarrow> (int \<times> bytes) result" where
  "Serialize_strings skip_long_string_flag ty fid cells obj_addr buf =
     (let current_field_id = scast fid :: u32 in
      case ty of
       sw_string_type \<Rightarrow>
         (let obj_addr = obj_addr - 32 in
          andThen (load_as as_string cells obj_addr) (\<lambda>current_field.
            if skip_long_string_flag \<and> 1024 < length current_field then Inr (obj_addr, buf)
            else
              let current_field_size = ucast (TAG_SIZE fid + StringSize current_field) :: u16;
                  buf = WriteLengthToArray current_field_size buf
              in Inr (obj_addr, WriteStringToArray current_field_id current_field buf)))
     | sw_repeated_string_type \<Rightarrow>
         (let obj_addr = obj_addr - 24 in
          andThen (load_as as_rstring cells obj_addr) (\<lambda>current_field.
            let (current_field_size, skip_flag) =
                  RepeatedStringSize skip_long_string_flag current_field (0 :: u16);
                current_field_size = current_field_size
                  + ucast (TAG_SIZE fid + VarintSize32 (ucast current_field_size))
            in if skip_flag then Inr (obj_addr, buf)
               else
                 let buf = WriteLengthToArray current_field_size buf
                 in Inr (obj_addr, WriteRepeatedStringToArray current_field_id current_field buf)))
     | sw_bytes_type \<Rightarrow>
         (let obj_addr = obj_addr - 32 in
          andThen (load_as as_string cells obj_addr) (\<lambda>current_field.
            if skip_long_string_flag \<and> 1024 < length current_field then Inr (obj_addr, buf)
            else
              let current_field_size = ucast (TAG_SIZE fid + StringSize current_field) :: u16;
                  buf = WriteLengthToArray current_field_size buf
              in Inr (obj_addr, WriteBytesToArray current_field_id current_field buf)))
     | sw_repeated_bytes_type \<Rightarrow>
         (let obj_addr = obj_addr - 24 in
          andThen (load_as as_rstring cells obj_addr) (\<lambda>current_field.
            let (current_field_size, skip_flag) =
                  RepeatedStringSize skip_long_string_flag current_field (0 :: u16);
                current_field_size = current_field_size
                  + ucast (TAG_SIZE fid + VarintSize32 (ucast current_field_size))
            in if skip_flag then Inr (obj_addr, buf)
               else
                 let buf = WriteLengthToArray current_field_size buf
                 in Inr (obj_addr, WriteRepeatedStringToArray current_field_id current_field buf)))
     | _ \<Rightarrow> Inr (obj_addr, buf))"

definition Serialize_fixed ::
  "bool \<Rightarrow> sw_type \<Rightarrow> u8 \<Rightarrow> cells \<Rightarrow> int \<Rightarrow> bytes \<Rightarrow> (int \<times> bytes) result" where
  "Serialize_fixed skip_long_string_flag ty fid cells obj_addr buf =
     (let current_field_id = scast fid :: u32 in
      case ty of
       sw_bool_type \<Rightarrow>
         (let obj_addr = obj_addr - 8 in
          andThen (load_as as_bool cells obj_addr) (\<lambda>current_field.
            let current_field_size = ucast (TAG_SIZE fid + 1) :: u16;
                buf = WriteLengthToArray current_field_size buf
            in Inr (obj_addr, WriteBoolToArray current_field_id current_field buf)))
     | sw_repeated_bool_type \<Rightarrow>
         (let obj_addr = obj_addr - 24 in
          andThen (load_as as_r8 cells obj_addr) (\<lambda>current_field.
            let current_field_size = fold (\<lambda>v n. n + 1) current_field (0 :: u16);
                current_field_size = current_field_size
                  + ucast (TAG_SIZE fid + VarintSize32 (ucast current_field_size));
                buf = WriteLengthToArray current_field_size buf
            in Inr (obj_addr, WriteRepeatedBoolToArray current_field_id current_field buf)))
     | sw_sint32_type \<Rightarrow>
         (let obj_addr = obj_addr - 8 in
          andThen (load_as as_w32 cells obj_addr) (\<lambda>current_field.
            let current_field_size = ucast (TAG_SIZE fid + Int32Size current_field) :: u16;
                buf = WriteLengthToArray current_field_size buf
            in Inr (obj_addr, WriteInt32ToArray current_field_id current_field buf)))
     | sw_double_type \<Rightarrow>
         (let obj_addr = obj_addr - 8 in
          andThen (load_as as_double cells obj_addr) (\<lambda>current_field.
            let current_field_size = ucast (TAG_SIZE fid + 8) :: u16;
                buf = WriteLengthToArray current_field_size buf
            in Inr (obj_addr, WriteDoubleToArray current_field_id current_field buf)))
     | sw_float_type \<Rightarrow>
         (let obj_addr = obj_addr - 8 in
          andThen (load_as as_float cells obj_addr) (\<lambda>current_field.
            let current_field_size = ucast (TAG_SIZE fid + 4) :: u16;
                buf = WriteLengthToArray current_field_size buf
            in Inr (obj_addr, WriteFloatToArray current_field_id current_field buf)))
     | sw_repeated_float_type \<Rightarrow>
         (let obj_addr = obj_addr - 24 in
          andThen (load_as as_rfloat cells obj_addr) (\<lambda>current_field.
            let current_field_size = fold (\<lambda>v n. n + 4) current_field (0 :: u16);
                current_field_size = current_field_size
                  + ucast (TAG_SIZE fid + VarintSize32 (ucast current_field_size));
                buf = WriteLengthToArray current_field_size buf
            in Inr (obj_addr, WriteRepeatedFloatToArray current_field_id current_field buf)))
     | sw_fix32_type \<Rightarrow>
         (let obj_addr = obj_addr - 8 in
          andThen (load_as as_w32 cells obj_addr) (\<lambda>current_field.
            let current_field_size = ucast (TAG_SIZE fid + 4) :: u16;
                buf = WriteLengthToArray current_field_size buf
            in Inr (obj_addr, WriteFixed32ToArray current_field_id current_field buf)))
     | sw_fix64_type \<Rightarrow>
         (let obj_addr = obj_addr - 8 in
          andThen (load_as as_w64 cells obj_addr) (\<lambda>current_field.
            let current_field_size = ucast (TAG_SIZE fid + 8) :: u16;
                buf = WriteLengthToArray current_field_size buf
            in Inr (obj_addr, WriteFixed64ToArray current_field_id current_field buf)))
     | sw_repeated_fix64_type \<Rightarrow>
         (let obj_addr = obj_addr - 24 in
          andThen (load_as as_r64 cells obj_addr) (\<lambda>current_field.
            let current_field_size = fold (\<lambda>v n. n + 8) current_field (0 :: u16);
                current_field_size = current_field_size
                  + ucast (TAG_SIZE fid + VarintSize32 (ucast current_field_size));
                buf = WriteLengthToArray current_field_size buf
            in Inr (obj_addr, WriteRepeatedFixed64ToArray current_field_id current_field buf)))
     | sw_enum_type \<Rightarrow>
         (let obj_addr = obj_addr - 8 in
          andThen (load_as as_w32 cells obj_addr) (\<lambda>current_field.
            let current_field_size = ucast (TAG_SIZE fid + EnumSize current_field) :: u16;
                buf = WriteLengthToArray current_field_size buf
            in Inr (obj_addr, WriteEnumToArray current_field_id current_field buf)))
     | sw_repeated_enum_type \<Rightarrow>
         (let obj_addr = obj_addr - 24 in
          andThen (load_as as_r32 cells obj_addr) (\<lambda>current_field.
            let current_field_size = fold (\<lambda>v n. n + ucast (EnumSize v)) current_field (0 :: u16);
                current_field_size = current_field_size
                  + ucast (TAG_SIZE fid + VarintSize32 (ucast current_field_size));
                buf = WriteLengthToArray current_field_size buf
            in Inr (obj_addr, WriteRepeatedEnumToArray current_field_id current_field buf)))
     | _ \<Rightarrow> Serialize_strings skip_long_string_flag ty fid cells obj_addr buf)"

definition Serialize_field ::
  "bool \<Rightarrow> sw_type \<Rightarrow> u8 \<Rightarrow> cells \<Rightarrow> int \<Rightarrow> bytes \<Rightarrow> (int \<times> bytes) result" where
  "Serialize_field skip_long_string_flag ty fid cells obj_addr buf =
     (let current_field_id = scast fid :: u32 in
      case ty of
       sw_int32_type \<Rightarrow>
         (let obj_addr = obj_addr - 8 in
          andThen (load_as as_w32 cells obj_addr) (\<lambda>current_field.
            let current_field_size = ucast (TAG_SIZE fid + Int32Size current_field) :: u16;
                buf = WriteLengthToArray current_field_size buf
            in Inr (obj_addr, WriteInt32ToArray current_field_id current_field buf)))
     | sw_repeated_int32_type \<Rightarrow>
         (let obj_addr = obj_addr - 24 in
          andThen (load_as as_r32 cells obj_addr) (\<lambda>current_field.
            let current_field_size = fold (\<lambda>v n. n + ucast (Int32Size v)) current_field (0 :: u16);
                current_field_size = current_field_size
                  + ucast (TAG_SIZE fid + VarintSize32 (ucast current_field_size));
                buf = WriteLengthToArray current_field_size buf
            in Inr (obj_addr, WriteRepeatedInt32ToArray current_field_id current_field buf)))
     | sw_int64_type \<Rightarrow>
         (let obj_addr = obj_addr - 8 in
          andThen (load_as as_w64 cells obj_addr) (\<lambda>current_field.
            let current_field_size = ucast (TAG_SIZE fid + Int64Size current_field) :: u16;
                buf = WriteLengthToArray current_field_size buf
            in Inr (obj_addr, WriteInt64ToArray current_field_id current_field buf)))
     | sw_repeated_int64_type \<Rightarrow>
         (let obj_addr = obj_addr - 24 in
          andThen (load_as as_r64 cells obj_addr) (\<lambda>current_field.
            let current_field_size = fold (\<lambda>v n. n + ucast (Int64Size v)) current_field (0 :: u16);
                current_field_size = current_field_size
                  + ucast (TAG_SIZE fid + VarintSize32 (ucast current_field_size));
                buf = WriteLengthToArray current_field_size buf
            in Inr (obj_addr, WriteRepeatedInt64ToArray current_field_id current_field buf)))
     | sw_uint64_type \<Rightarrow>
         (let obj_addr = obj_addr - 8 in
          andThen (load_as as_w64 cells obj_addr) (\<lambda>current_field.
            let current_field_size = ucast (TAG_SIZE fid + UInt64Size current_field) :: u16;
                buf = WriteLengthToArray current_field_size buf
            in Inr (obj_addr, WriteUInt64ToArray current_field_id current_field buf)))
     | sw_repeated_uint64_type \<Rightarrow>
         (let obj_addr = obj_addr - 24 in
          andThen (load_as as_r64 cells obj_addr) (\<lambda>current_field.
            let current_field_size = fold (\<lambda>v n. n + ucast (UInt64Size v)) current_field (0 :: u16);
                current_field_size = current_field_size
                  + ucast (TAG_SIZE fid + VarintSize32 (ucast current_field_size));
                buf = WriteLengthToArray current_field_size buf
            in Inr (obj_addr, WriteRepeatedUInt64ToArray current_field_id current_field buf)))
     | sw_uint32_type \<Rightarrow>
         (let obj_addr = obj_addr - 8 in
          andThen (load_as as_w32 cells obj_addr) (\<lambda>current_field.
            let current_field_size = ucast (TAG_SIZE fid + UInt32Size current_field) :: u16;
                buf = WriteLengthToArray current_field_size buf
            in Inr (obj_addr, WriteUInt32ToArray current_field_id current_field buf)))
     | sw_repeated_uint32_type \<Rightarrow>
         (let obj_addr = obj_addr - 24 in
          andThen (load_as as_r32 cells obj_addr) (\<lambda>current_field.
            let current_field_size = fold (\<lambda>v n. n + ucast (UInt32Size v)) current_field (0 :: u16);
                current_field_size = current_field_size
                  + ucast (TAG_SIZE fid + VarintSize32 (ucast current_field_size));
                buf = WriteLengthToArray current_field_size buf
            in Inr (obj_addr, WriteRepeatedUInt32ToArray current_field_id current_field buf)))
     | _ \<Rightarrow> Serialize_fixed skip_long_string_flag ty fid cells obj_addr buf)"

section \<open>The serializer\<close>

text \<open>\<open>SerializeToString_DFS\<close> is the backward walk with these branches.\<close>

definition SerializeToString_DFS :: "obj \<Rightarrow> bytes \<Rightarrow> bool \<Rightarrow> (u32 \<Rightarrow> u64) \<Rightarrow> bytes result" where
  "SerializeToString_DFS message current_buffer_addr skip_long_string_flag messageSizeVec =
     Serialize_walk Serialize_field message current_buffer_addr skip_long_string_flag messageSizeVec"

text \<open>\<open>SerializeToString\<close> returns the pointer \<open>bytesizelong_size\<close> past the start of the output,
  here that distance, adds it to \<open>total_size\<close> and fills the output.\<close>

definition SerializeToString ::
  "obj \<Rightarrow> bool \<Rightarrow> u64 \<Rightarrow> (u32 \<Rightarrow> u64) \<Rightarrow> (bytes \<times> u64 \<times> u64) result" where
  "SerializeToString message skip_long_string_flag total_size messageSizeVec =
     andThen (ByteSizeLong message skip_long_string_flag) (\<lambda>bytesizelong_size.
     andThen (SerializeToString_DFS message [] skip_long_string_flag messageSizeVec) (\<lambda>output.
       Inr (output, total_size + bytesizelong_size, bytesizelong_size)))"

section \<open>The bytes of one field\<close>

lemma ucast_numerals:
  "(ucast (1 :: u64) :: u16) = 1" "(ucast (4 :: u64) :: u16) = 4" "(ucast (8 :: u64) :: u16) = 8"
  by simp_all

lemmas serialize_simps =
  cval_kind_iff load_as_def field_bytes_def field_body_def payload_packed packed_part_def
  Serialize_field_def Serialize_fixed_def Serialize_strings_def length_prefix_def tag_def
  scalar_sizes packed_sizes ucast_of_nat_down ucast_add_down ucast_numerals
  scalar_writers string_writers repeated_writers WriteLengthToArray_eq enc_packed_def
  RepeatedStringSize_all [unfolded long_limit_def]
  RepeatedStringSize_skip [unfolded long_limit_def] long_limit_def Let_def case_prod_beta

lemma Serialize_field_eq:
  assumes "kind_of t = Some k" and "cval_kind c = Some k" and "unat fid < 128"
    and "load cells (off - kind_stride k) = Inr (OVal c)"
  shows "Serialize_field skip t fid cells off buf
     = Inr (off - kind_stride k, buf @ field_bytes skip t fid c)"
proof -
  note T = TAG_SIZE_eq [OF assms(3), of t c]
  show ?thesis
    using assms(1,2,4)
    by (cases t; simp only: kind_of.simps option.distinct option.inject)
      (auto simp: serialize_simps T)
qed

section \<open>The bytes of a message\<close>

interpretation writes: field_writer Serialize_field field_bytes
  by unfold_locales (rule Serialize_field_eq)

lemma SerializeToString_DFS_layout:
  "wf_msg m \<Longrightarrow> sizes_agree msv m \<Longrightarrow>
   SerializeToString_DFS (layout m) buf skip msv = Inr (buf @ msg_bytes field_bytes skip m)"
  by (simp add: SerializeToString_DFS_def writes.walk_bytes)

section \<open>Small examples\<close>

text \<open>A class 1 with an integer and a sub-message of class 2, which holds a string.\<close>

definition leaf :: "bytes \<Rightarrow> msg" where
  "leaf s = Msg (descriptor 2 [(sw_string_type, 1)]) [MVal (VStr s)]"

definition tree :: "bytes \<Rightarrow> msg" where
  "tree s = Msg (descriptor 1 [(sw_int32_type, 1), (sw_ptr_type, 2)]) [MVal (V32 (- 1)), MSub (leaf s)]"

definition tree_sizes :: "u32 \<Rightarrow> u64" where
  "tree_sizes c = (if c = 1 then 32 else if c = 2 then 48 else 0)"

lemma tree_ok: "wf_msg (tree s)" "sizes_agree tree_sizes (tree s)"
  by (simp_all add: tree_def leaf_def tree_sizes_def field_ok_def msg_sizeof_def first_member_def)

section \<open>Properties\<close>

text \<open>C3. On a well-formed message whose class sizes are in \<open>messageSizeVec\<close>, \<open>SerializeToString\<close>
  returns the bytes of the format, and the size it announces before it writes, by which the output
  buffer is allocated and which it adds to the total, is exactly their number.\<close>

theorem serialize_bytes:
  assumes "wf_msg m" and "sizes_agree msv m"
  shows "SerializeToString (layout m) skip total_size msv
    = Inr (msg_bytes field_bytes skip m,
           total_size + of_nat (length (msg_bytes field_bytes skip m)),
           of_nat (length (msg_bytes field_bytes skip m)))"
  using ByteSizeLong_layout [OF assms(1)] SerializeToString_DFS_layout [OF assms]
  by (simp add: SerializeToString_def)

theorem serialize_bytes_witness:
  "SerializeToString (layout (tree [104, 105])) True 10 tree_sizes
    = Inr (msg_bytes field_bytes True (tree [104, 105]),
           10 + of_nat (length (msg_bytes field_bytes True (tree [104, 105]))),
           of_nat (length (msg_bytes field_bytes True (tree [104, 105]))))"
  by (rule serialize_bytes [OF tree_ok])

text \<open>A field whose tag and payload take less than 65536 bytes, and that is not a long
  string to skip, is written as the number of those bytes on two bytes, the tag and the payload; the
  address steps back over the member, and what was written before stays.\<close>

theorem field_framing:
  assumes "kind_of t = Some k" and "cval_kind c = Some k" and "unat fid < 128"
    and "load cells (off - kind_stride k) = Inr (OVal c)"
    and "\<not> (skip \<and> long_value c)" and "length (tag t fid c @ payload t c) < 65536"
  shows "Serialize_field skip t fid cells off buf
    = Inr (off - kind_stride k,
           buf @ le_bytes 2 (length (tag t fid c @ payload t c)) @ tag t fid c @ payload t c)"
proof -
  have "field_bytes skip t fid c = le_bytes 2 (length (tag t fid c @ payload t c)) @ tag t fid c @ payload t c"
    using assms(5) length_prefix_correct [of t fid c] assms(6)
    by (simp only: field_bytes_def field_body_def if_False)
  then show ?thesis using Serialize_field_eq [OF assms(1-4), of skip buf] by simp
qed

theorem field_framing_witness:
  "Serialize_field True sw_repeated_uint32_type 3 [(16, OVal (R32 [1, 300]))] 40 [7]
    = Inr (40 - kind_stride KR32,
           [7] @ le_bytes 2 (length (tag sw_repeated_uint32_type 3 (R32 [1, 300]) @ payload sw_repeated_uint32_type (R32 [1, 300])))
             @ tag sw_repeated_uint32_type 3 (R32 [1, 300]) @ payload sw_repeated_uint32_type (R32 [1, 300]))"
  by (rule field_framing)
    (simp_all add: load_def tag_def protobuf_types tag_bytes_def enc_packed_def enc_u32_def varint_small varint_big)

text \<open>The length prefix has sixteen bits: for a string of any length, written when
  long strings are not skipped, it holds the length of tag and payload modulo 65536.\<close>

theorem string_prefix_wraps:
  assumes "unat fid < 128" and "load cells (off - 32) = Inr (OVal (VStr s))"
  shows "\<exists>prefix body. Serialize_field False sw_string_type fid cells off buf
      = Inr (off - 32, buf @ prefix @ body)
    \<and> length prefix = 2 \<and> body = tag sw_string_type fid (VStr s) @ enc_string s
    \<and> le_nat prefix = length body mod 65536"
proof -
  let ?body = "tag sw_string_type fid (VStr s) @ enc_string s"
  have "Serialize_field False sw_string_type fid cells off buf
      = Inr (off - 32, buf @ le_bytes 2 (unat (of_nat (length ?body) :: u16)) @ ?body)"
    using Serialize_field_eq [of sw_string_type KStr "VStr s" fid cells off False buf] assms
    by (simp add: field_bytes_def field_body_def length_prefix_def)
  moreover have "unat (of_nat (length ?body) :: u16) = length ?body mod 65536"
    by (simp only: unat_of_nat) simp
  ultimately show ?thesis
    by (intro exI [of _ "le_bytes 2 (unat (of_nat (length ?body) :: u16))"] exI [of _ ?body])
      (simp add: le_nat_le_bytes)
qed

theorem string_prefix_wraps_witness:
  "\<exists>prefix body. Serialize_field False sw_string_type 1 [(16, OVal (VStr (replicate 65532 97)))] 48 []
      = Inr (48 - 32, [] @ prefix @ body)
    \<and> length prefix = 2 \<and> body = tag sw_string_type 1 (VStr (replicate 65532 97)) @ enc_string (replicate 65532 97)
    \<and> le_nat prefix = length body mod 65536"
  by (rule string_prefix_wraps) (simp_all add: load_def)

text \<open>A null sub-message pointer is dereferenced: when the first field of a message is a
  message field that points nowhere, \<open>SerializeToString\<close> faults already in \<open>ByteSizeLong\<close>.\<close>

theorem null_submessage:
  assumes "metadata_fields md = Inr ((w, fid) # fs)" and "decode_sw w = Some sw_ptr_type"
    and "load cells first_member = Inr (OPtr None)"
  shows "SerializeToString (Obj md cells) skip total_size msv = Inl Null_deref"
  unfolding SerializeToString_def ByteSizeLong_def
  by (subst ByteSize_walk.simps) (simp add: assms load_object_def)

theorem null_submessage_witness:
  "SerializeToString (Obj (descriptor 4 [(sw_ptr_type, 2)]) [(16, OPtr None)]) True 0 (\<lambda>_. 24) = Inl Null_deref"
  by (rule null_submessage [OF _ decode_sw_code]) (simp_all add: load_def first_member_def)

text \<open>The arrays of a descriptor hold 52 type codes; one that announces more fields, as the
  65-field benchmark class does, makes the walk of the size function leave the array.\<close>

theorem wide_descriptor:
  assumes "length (wire_type md) = 52" and "52 < unat (field_num md)"
  shows "SerializeToString (Obj md cells) skip total_size msv = Inl Overrun"
  unfolding SerializeToString_def ByteSizeLong_def
  by (subst ByteSize_walk.simps) (use assms in \<open>simp add: metadata_fields_def\<close>)

theorem wide_descriptor_witness:
  "SerializeToString (Obj \<lparr>field_num = 65, class_id = 1, wire_type = replicate 52 4, field_id = replicate 64 1\<rparr> [])
     True 0 (\<lambda>_. 24) = Inl Overrun"
  by (rule wide_descriptor) simp_all

end
