(* ===== verification/No_Serialize.thy ===== *)
theory No_Serialize
  imports No_Encode ByteSize Serialize
begin

text \<open>
  \<open>ByteSizeLong\<close> and \<open>SerializeToString\<close> of \<open>include/no_encode_main.h\<close>: the walks of
  \<open>include/encode_main.h\<close> over branches that call the writers of \<open>include/no_encode.h\<close>, with a tag
  of four bytes.  The length of the output is again what \<open>ByteSizeLong\<close> announces; the length prefix of
  bool and repeated bool fields is still that of the varint format, so it does not describe the field
  that follows.
\<close>

section \<open>The size of one field\<close>

definition TAG_SIZE_raw :: u64 where
  "TAG_SIZE_raw = 4"

definition TAG_SIZE_PLUS_2_raw :: u64 where
  "TAG_SIZE_PLUS_2_raw = TAG_SIZE_raw + 2"

fun RepeatedStringSize_raw :: "bool \<Rightarrow> bytes list \<Rightarrow> 'l::len word \<Rightarrow> 'l word \<times> bool" where
  "RepeatedStringSize_raw skip_long_string_flag [] n = (n, False)"
| "RepeatedStringSize_raw skip_long_string_flag (s # ss) n =
     (if skip_long_string_flag \<and> 1024 < length s then (n, True)
      else RepeatedStringSize_raw skip_long_string_flag ss (n + ucast (StringSize_raw s)))"

definition ByteSize_strings_raw :: "bool \<Rightarrow> sw_type \<Rightarrow> u8 \<Rightarrow> cells \<Rightarrow> int \<Rightarrow> (int \<times> u64) result" where
  "ByteSize_strings_raw skip_long_string_flag ty fid cells obj_addr =
     (case ty of
       sw_string_type \<Rightarrow>
         andThen (load_as as_string cells obj_addr) (\<lambda>current_field.
           if skip_long_string_flag \<and> 1024 < length current_field then Inr (obj_addr + 32, 0)
           else Inr (obj_addr + 32, TAG_SIZE_PLUS_2_raw + StringSize_raw current_field))
     | sw_repeated_string_type \<Rightarrow>
         andThen (load_as as_rstring cells obj_addr) (\<lambda>current_field.
           let (current_field_size, skip_flag) =
                 RepeatedStringSize_raw skip_long_string_flag current_field 0;
               current_field_size = current_field_size
                 + (TAG_SIZE_PLUS_2_raw + VarintSize32_raw (ucast current_field_size))
           in Inr (obj_addr + 24, if skip_flag then 0 else current_field_size))
     | sw_bytes_type \<Rightarrow>
         andThen (load_as as_string cells obj_addr) (\<lambda>current_field.
           if skip_long_string_flag \<and> 1024 < length current_field then Inr (obj_addr + 32, 0)
           else Inr (obj_addr + 32, TAG_SIZE_PLUS_2_raw + StringSize_raw current_field))
     | sw_repeated_bytes_type \<Rightarrow>
         andThen (load_as as_rstring cells obj_addr) (\<lambda>current_field.
           let (current_field_size, skip_flag) =
                 RepeatedStringSize_raw skip_long_string_flag current_field 0;
               current_field_size = current_field_size
                 + (TAG_SIZE_PLUS_2_raw + VarintSize32_raw (ucast current_field_size))
           in Inr (obj_addr + 24, if skip_flag then 0 else current_field_size))
     | _ \<Rightarrow> Inr (obj_addr, 0))"

definition ByteSize_fixed_raw :: "bool \<Rightarrow> sw_type \<Rightarrow> u8 \<Rightarrow> cells \<Rightarrow> int \<Rightarrow> (int \<times> u64) result" where
  "ByteSize_fixed_raw skip_long_string_flag ty fid cells obj_addr =
     (case ty of
       sw_bool_type \<Rightarrow>
         andThen (load_as as_bool cells obj_addr) (\<lambda>current_field.
           Inr (obj_addr + 8, TAG_SIZE_PLUS_2_raw + 4))
     | sw_repeated_bool_type \<Rightarrow>
         andThen (load_as as_r8 cells obj_addr) (\<lambda>current_field.
           let current_field_size = fold (\<lambda>v n. n + 4) current_field (0 :: u64) in
           Inr (obj_addr + 24, current_field_size + (TAG_SIZE_PLUS_2_raw + VarintSize32_raw (ucast current_field_size))))
     | sw_sint32_type \<Rightarrow>
         andThen (load_as as_w32 cells obj_addr) (\<lambda>current_field.
           Inr (obj_addr + 8, TAG_SIZE_PLUS_2_raw + Int32Size_raw current_field))
     | sw_double_type \<Rightarrow>
         andThen (load_as as_double cells obj_addr) (\<lambda>current_field.
           Inr (obj_addr + 8, TAG_SIZE_PLUS_2_raw + 8))
     | sw_float_type \<Rightarrow>
         andThen (load_as as_float cells obj_addr) (\<lambda>current_field.
           Inr (obj_addr + 8, TAG_SIZE_PLUS_2_raw + 4))
     | sw_repeated_float_type \<Rightarrow>
         andThen (load_as as_rfloat cells obj_addr) (\<lambda>current_field.
           let current_field_size = fold (\<lambda>v n. n + 4) current_field (0 :: u64) in
           Inr (obj_addr + 24, current_field_size + (TAG_SIZE_PLUS_2_raw + VarintSize32_raw (ucast current_field_size))))
     | sw_fix32_type \<Rightarrow>
         andThen (load_as as_w32 cells obj_addr) (\<lambda>current_field.
           Inr (obj_addr + 8, TAG_SIZE_PLUS_2_raw + 4))
     | sw_fix64_type \<Rightarrow>
         andThen (load_as as_w64 cells obj_addr) (\<lambda>current_field.
           Inr (obj_addr + 8, TAG_SIZE_PLUS_2_raw + 8))
     | sw_repeated_fix64_type \<Rightarrow>
         andThen (load_as as_r64 cells obj_addr) (\<lambda>current_field.
           let current_field_size = fold (\<lambda>v n. n + 8) current_field (0 :: u64) in
           Inr (obj_addr + 24, current_field_size + (TAG_SIZE_PLUS_2_raw + VarintSize32_raw (ucast current_field_size))))
     | sw_enum_type \<Rightarrow>
         andThen (load_as as_w32 cells obj_addr) (\<lambda>current_field.
           Inr (obj_addr + 8, TAG_SIZE_PLUS_2_raw + EnumSize_raw current_field))
     | sw_repeated_enum_type \<Rightarrow>
         andThen (load_as as_r32 cells obj_addr) (\<lambda>current_field.
           let current_field_size = fold (\<lambda>v n. n + EnumSize_raw v) current_field (0 :: u64) in
           Inr (obj_addr + 24, current_field_size + (TAG_SIZE_PLUS_2_raw + VarintSize32_raw (ucast current_field_size))))
     | _ \<Rightarrow> ByteSize_strings_raw skip_long_string_flag ty fid cells obj_addr)"

definition ByteSize_field_raw :: "bool \<Rightarrow> sw_type \<Rightarrow> u8 \<Rightarrow> cells \<Rightarrow> int \<Rightarrow> (int \<times> u64) result" where
  "ByteSize_field_raw skip_long_string_flag ty fid cells obj_addr =
     (case ty of
       sw_int32_type \<Rightarrow>
         andThen (load_as as_w32 cells obj_addr) (\<lambda>current_field.
           Inr (obj_addr + 8, TAG_SIZE_PLUS_2_raw + Int32Size_raw current_field))
     | sw_repeated_int32_type \<Rightarrow>
         andThen (load_as as_r32 cells obj_addr) (\<lambda>current_field.
           let current_field_size = fold (\<lambda>v n. n + Int32Size_raw v) current_field (0 :: u64) in
           Inr (obj_addr + 24, current_field_size + (TAG_SIZE_PLUS_2_raw + VarintSize32_raw (ucast current_field_size))))
     | sw_int64_type \<Rightarrow>
         andThen (load_as as_w64 cells obj_addr) (\<lambda>current_field.
           Inr (obj_addr + 8, TAG_SIZE_PLUS_2_raw + Int64Size_raw current_field))
     | sw_repeated_int64_type \<Rightarrow>
         andThen (load_as as_r64 cells obj_addr) (\<lambda>current_field.
           let current_field_size = fold (\<lambda>v n. n + Int64Size_raw v) current_field (0 :: u64) in
           Inr (obj_addr + 24, current_field_size + (TAG_SIZE_PLUS_2_raw + VarintSize32_raw (ucast current_field_size))))
     | sw_uint64_type \<Rightarrow>
         andThen (load_as as_w64 cells obj_addr) (\<lambda>current_field.
           Inr (obj_addr + 8, TAG_SIZE_PLUS_2_raw + UInt64Size_raw current_field))
     | sw_repeated_uint64_type \<Rightarrow>
         andThen (load_as as_r64 cells obj_addr) (\<lambda>current_field.
           let current_field_size = fold (\<lambda>v n. n + UInt64Size_raw v) current_field (0 :: u64) in
           Inr (obj_addr + 24, current_field_size + (TAG_SIZE_PLUS_2_raw + VarintSize32_raw (ucast current_field_size))))
     | sw_uint32_type \<Rightarrow>
         andThen (load_as as_w32 cells obj_addr) (\<lambda>current_field.
           Inr (obj_addr + 8, TAG_SIZE_PLUS_2_raw + UInt32Size_raw current_field))
     | sw_repeated_uint32_type \<Rightarrow>
         andThen (load_as as_r32 cells obj_addr) (\<lambda>current_field.
           let current_field_size = fold (\<lambda>v n. n + UInt32Size_raw v) current_field (0 :: u64) in
           Inr (obj_addr + 24, current_field_size + (TAG_SIZE_PLUS_2_raw + VarintSize32_raw (ucast current_field_size))))
     | _ \<Rightarrow> ByteSize_fixed_raw skip_long_string_flag ty fid cells obj_addr)"

section \<open>Writing one field\<close>

definition Serialize_strings_raw ::
  "bool \<Rightarrow> sw_type \<Rightarrow> u8 \<Rightarrow> cells \<Rightarrow> int \<Rightarrow> bytes \<Rightarrow> (int \<times> bytes) result" where
  "Serialize_strings_raw skip_long_string_flag ty fid cells obj_addr buf =
     (let current_field_id = scast fid :: u32 in
      case ty of
       sw_string_type \<Rightarrow>
         (let obj_addr = obj_addr - 32 in
          andThen (load_as as_string cells obj_addr) (\<lambda>current_field.
            if skip_long_string_flag \<and> 1024 < length current_field then Inr (obj_addr, buf)
            else
              let current_field_size = ucast (TAG_SIZE_raw + StringSize_raw current_field) :: u16;
                  buf = WriteLengthToArray current_field_size buf
              in Inr (obj_addr, WriteStringToArray_raw current_field_id current_field buf)))
     | sw_repeated_string_type \<Rightarrow>
         (let obj_addr = obj_addr - 24 in
          andThen (load_as as_rstring cells obj_addr) (\<lambda>current_field.
            let (current_field_size, skip_flag) =
                  RepeatedStringSize_raw skip_long_string_flag current_field (0 :: u16);
                current_field_size = current_field_size
                  + ucast (TAG_SIZE_raw + VarintSize32_raw (ucast current_field_size))
            in if skip_flag then Inr (obj_addr, buf)
               else
                 let buf = WriteLengthToArray current_field_size buf
                 in Inr (obj_addr, WriteRepeatedStringToArray_raw current_field_id current_field buf)))
     | sw_bytes_type \<Rightarrow>
         (let obj_addr = obj_addr - 32 in
          andThen (load_as as_string cells obj_addr) (\<lambda>current_field.
            if skip_long_string_flag \<and> 1024 < length current_field then Inr (obj_addr, buf)
            else
              let current_field_size = ucast (TAG_SIZE_raw + StringSize_raw current_field) :: u16;
                  buf = WriteLengthToArray current_field_size buf
              in Inr (obj_addr, WriteBytesToArray_raw current_field_id current_field buf)))
     | sw_repeated_bytes_type \<Rightarrow>
         (let obj_addr = obj_addr - 24 in
          andThen (load_as as_rstring cells obj_addr) (\<lambda>current_field.
            let (current_field_size, skip_flag) =
                  RepeatedStringSize_raw skip_long_string_flag current_field (0 :: u16);
                current_field_size = current_field_size
                  + ucast (TAG_SIZE_raw + VarintSize32_raw (ucast current_field_size))
            in if skip_flag then Inr (obj_addr, buf)
               else
                 let buf = WriteLengthToArray current_field_size buf
                 in Inr (obj_addr, WriteRepeatedStringToArray_raw current_field_id current_field buf)))
     | _ \<Rightarrow> Inr (obj_addr, buf))"

definition Serialize_fixed_raw ::
  "bool \<Rightarrow> sw_type \<Rightarrow> u8 \<Rightarrow> cells \<Rightarrow> int \<Rightarrow> bytes \<Rightarrow> (int \<times> bytes) result" where
  "Serialize_fixed_raw skip_long_string_flag ty fid cells obj_addr buf =
     (let current_field_id = scast fid :: u32 in
      case ty of
       sw_bool_type \<Rightarrow>
         (let obj_addr = obj_addr - 8 in
          andThen (load_as as_bool cells obj_addr) (\<lambda>current_field.
            let current_field_size = ucast (TAG_SIZE_raw + 1) :: u16;
                buf = WriteLengthToArray current_field_size buf
            in Inr (obj_addr, WriteBoolToArray_raw current_field_id current_field buf)))
     | sw_repeated_bool_type \<Rightarrow>
         (let obj_addr = obj_addr - 24 in
          andThen (load_as as_r8 cells obj_addr) (\<lambda>current_field.
            let current_field_size = fold (\<lambda>v n. n + 1) current_field (0 :: u16);
                current_field_size = current_field_size
                  + ucast (TAG_SIZE_raw + VarintSize32_raw (ucast current_field_size));
                buf = WriteLengthToArray current_field_size buf
            in Inr (obj_addr, WriteRepeatedBoolToArray_raw current_field_id current_field buf)))
     | sw_sint32_type \<Rightarrow>
         (let obj_addr = obj_addr - 8 in
          andThen (load_as as_w32 cells obj_addr) (\<lambda>current_field.
            let current_field_size = ucast (TAG_SIZE_raw + Int32Size_raw current_field) :: u16;
                buf = WriteLengthToArray current_field_size buf
            in Inr (obj_addr, WriteInt32ToArray_raw current_field_id current_field buf)))
     | sw_double_type \<Rightarrow>
         (let obj_addr = obj_addr - 8 in
          andThen (load_as as_double cells obj_addr) (\<lambda>current_field.
            let current_field_size = ucast (TAG_SIZE_raw + 8) :: u16;
                buf = WriteLengthToArray current_field_size buf
            in Inr (obj_addr, WriteDoubleToArray_raw current_field_id current_field buf)))
     | sw_float_type \<Rightarrow>
         (let obj_addr = obj_addr - 8 in
          andThen (load_as as_float cells obj_addr) (\<lambda>current_field.
            let current_field_size = ucast (TAG_SIZE_raw + 4) :: u16;
                buf = WriteLengthToArray current_field_size buf
            in Inr (obj_addr, WriteFloatToArray_raw current_field_id current_field buf)))
     | sw_repeated_float_type \<Rightarrow>
         (let obj_addr = obj_addr - 24 in
          andThen (load_as as_rfloat cells obj_addr) (\<lambda>current_field.
            let current_field_size = fold (\<lambda>v n. n + 4) current_field (0 :: u16);
                current_field_size = current_field_size
                  + ucast (TAG_SIZE_raw + VarintSize32_raw (ucast current_field_size));
                buf = WriteLengthToArray current_field_size buf
            in Inr (obj_addr, WriteRepeatedFloatToArray_raw current_field_id current_field buf)))
     | sw_fix32_type \<Rightarrow>
         (let obj_addr = obj_addr - 8 in
          andThen (load_as as_w32 cells obj_addr) (\<lambda>current_field.
            let current_field_size = ucast (TAG_SIZE_raw + 4) :: u16;
                buf = WriteLengthToArray current_field_size buf
            in Inr (obj_addr, WriteFixed32ToArray_raw current_field_id current_field buf)))
     | sw_fix64_type \<Rightarrow>
         (let obj_addr = obj_addr - 8 in
          andThen (load_as as_w64 cells obj_addr) (\<lambda>current_field.
            let current_field_size = ucast (TAG_SIZE_raw + 8) :: u16;
                buf = WriteLengthToArray current_field_size buf
            in Inr (obj_addr, WriteFixed64ToArray_raw current_field_id current_field buf)))
     | sw_repeated_fix64_type \<Rightarrow>
         (let obj_addr = obj_addr - 24 in
          andThen (load_as as_r64 cells obj_addr) (\<lambda>current_field.
            let current_field_size = fold (\<lambda>v n. n + 8) current_field (0 :: u16);
                current_field_size = current_field_size
                  + ucast (TAG_SIZE_raw + VarintSize32_raw (ucast current_field_size));
                buf = WriteLengthToArray current_field_size buf
            in Inr (obj_addr, WriteRepeatedFixed64ToArray_raw current_field_id current_field buf)))
     | sw_enum_type \<Rightarrow>
         (let obj_addr = obj_addr - 8 in
          andThen (load_as as_w32 cells obj_addr) (\<lambda>current_field.
            let current_field_size = ucast (TAG_SIZE_raw + EnumSize_raw current_field) :: u16;
                buf = WriteLengthToArray current_field_size buf
            in Inr (obj_addr, WriteEnumToArray_raw current_field_id current_field buf)))
     | sw_repeated_enum_type \<Rightarrow>
         (let obj_addr = obj_addr - 24 in
          andThen (load_as as_r32 cells obj_addr) (\<lambda>current_field.
            let current_field_size = fold (\<lambda>v n. n + ucast (EnumSize_raw v)) current_field (0 :: u16);
                current_field_size = current_field_size
                  + ucast (TAG_SIZE_raw + VarintSize32_raw (ucast current_field_size));
                buf = WriteLengthToArray current_field_size buf
            in Inr (obj_addr, WriteRepeatedEnumToArray_raw current_field_id current_field buf)))
     | _ \<Rightarrow> Serialize_strings_raw skip_long_string_flag ty fid cells obj_addr buf)"

definition Serialize_field_raw ::
  "bool \<Rightarrow> sw_type \<Rightarrow> u8 \<Rightarrow> cells \<Rightarrow> int \<Rightarrow> bytes \<Rightarrow> (int \<times> bytes) result" where
  "Serialize_field_raw skip_long_string_flag ty fid cells obj_addr buf =
     (let current_field_id = scast fid :: u32 in
      case ty of
       sw_int32_type \<Rightarrow>
         (let obj_addr = obj_addr - 8 in
          andThen (load_as as_w32 cells obj_addr) (\<lambda>current_field.
            let current_field_size = ucast (TAG_SIZE_raw + Int32Size_raw current_field) :: u16;
                buf = WriteLengthToArray current_field_size buf
            in Inr (obj_addr, WriteInt32ToArray_raw current_field_id current_field buf)))
     | sw_repeated_int32_type \<Rightarrow>
         (let obj_addr = obj_addr - 24 in
          andThen (load_as as_r32 cells obj_addr) (\<lambda>current_field.
            let current_field_size = fold (\<lambda>v n. n + ucast (Int32Size_raw v)) current_field (0 :: u16);
                current_field_size = current_field_size
                  + ucast (TAG_SIZE_raw + VarintSize32_raw (ucast current_field_size));
                buf = WriteLengthToArray current_field_size buf
            in Inr (obj_addr, WriteRepeatedInt32ToArray_raw current_field_id current_field buf)))
     | sw_int64_type \<Rightarrow>
         (let obj_addr = obj_addr - 8 in
          andThen (load_as as_w64 cells obj_addr) (\<lambda>current_field.
            let current_field_size = ucast (TAG_SIZE_raw + Int64Size_raw current_field) :: u16;
                buf = WriteLengthToArray current_field_size buf
            in Inr (obj_addr, WriteInt64ToArray_raw current_field_id current_field buf)))
     | sw_repeated_int64_type \<Rightarrow>
         (let obj_addr = obj_addr - 24 in
          andThen (load_as as_r64 cells obj_addr) (\<lambda>current_field.
            let current_field_size = fold (\<lambda>v n. n + ucast (Int64Size_raw v)) current_field (0 :: u16);
                current_field_size = current_field_size
                  + ucast (TAG_SIZE_raw + VarintSize32_raw (ucast current_field_size));
                buf = WriteLengthToArray current_field_size buf
            in Inr (obj_addr, WriteRepeatedInt64ToArray_raw current_field_id current_field buf)))
     | sw_uint64_type \<Rightarrow>
         (let obj_addr = obj_addr - 8 in
          andThen (load_as as_w64 cells obj_addr) (\<lambda>current_field.
            let current_field_size = ucast (TAG_SIZE_raw + UInt64Size_raw current_field) :: u16;
                buf = WriteLengthToArray current_field_size buf
            in Inr (obj_addr, WriteUInt64ToArray_raw current_field_id current_field buf)))
     | sw_repeated_uint64_type \<Rightarrow>
         (let obj_addr = obj_addr - 24 in
          andThen (load_as as_r64 cells obj_addr) (\<lambda>current_field.
            let current_field_size = fold (\<lambda>v n. n + ucast (UInt64Size_raw v)) current_field (0 :: u16);
                current_field_size = current_field_size
                  + ucast (TAG_SIZE_raw + VarintSize32_raw (ucast current_field_size));
                buf = WriteLengthToArray current_field_size buf
            in Inr (obj_addr, WriteRepeatedUInt64ToArray_raw current_field_id current_field buf)))
     | sw_uint32_type \<Rightarrow>
         (let obj_addr = obj_addr - 8 in
          andThen (load_as as_w32 cells obj_addr) (\<lambda>current_field.
            let current_field_size = ucast (TAG_SIZE_raw + UInt32Size_raw current_field) :: u16;
                buf = WriteLengthToArray current_field_size buf
            in Inr (obj_addr, WriteUInt32ToArray_raw current_field_id current_field buf)))
     | sw_repeated_uint32_type \<Rightarrow>
         (let obj_addr = obj_addr - 24 in
          andThen (load_as as_r32 cells obj_addr) (\<lambda>current_field.
            let current_field_size = fold (\<lambda>v n. n + ucast (UInt32Size_raw v)) current_field (0 :: u16);
                current_field_size = current_field_size
                  + ucast (TAG_SIZE_raw + VarintSize32_raw (ucast current_field_size));
                buf = WriteLengthToArray current_field_size buf
            in Inr (obj_addr, WriteRepeatedUInt32ToArray_raw current_field_id current_field buf)))
     | _ \<Rightarrow> Serialize_fixed_raw skip_long_string_flag ty fid cells obj_addr buf)"

section \<open>The byte format\<close>

fun raw_payload :: "cval \<Rightarrow> bytes" where
  "raw_payload Raw = []"
| "raw_payload (V32 v) = enc_fixed32 v"
| "raw_payload (V64 w) = enc_fixed64 w"
| "raw_payload (VBool b) = raw_bool b"
| "raw_payload (VFloat v) = enc_fixed32 v"
| "raw_payload (VDouble w) = enc_fixed64 w"
| "raw_payload (VStr s) = raw_string s"
| "raw_payload (R32 vs) = raw_packed enc_fixed32 vs"
| "raw_payload (R64 ws) = raw_packed enc_fixed64 ws"
| "raw_payload (R8 bs) = enc_fixed32 (of_nat (length bs)) @ concat (map (\<lambda>b. raw_bool (b \<noteq> 0)) bs)"
| "raw_payload (RFloat vs) = raw_packed enc_fixed32 vs"
| "raw_payload (RStr ss) = raw_packed raw_string ss"

definition raw_body :: "sw_type \<Rightarrow> u8 \<Rightarrow> cval \<Rightarrow> bytes" where
  "raw_body t fid c = raw_tag (scast fid) (proto_type t c) @ raw_payload c"

definition raw_prefix :: "sw_type \<Rightarrow> u8 \<Rightarrow> cval \<Rightarrow> u16" where
  "raw_prefix t fid c = (case c of
       VBool b \<Rightarrow> 5
     | R8 bs \<Rightarrow> of_nat (length bs + 8)
     | _ \<Rightarrow> of_nat (length (raw_body t fid c)))"

definition raw_field_bytes :: field_format where
  "raw_field_bytes skip t fid c =
     (if skip \<and> long_value c then []
      else le_bytes 2 (unat (raw_prefix t fid c)) @ raw_body t fid c)"

lemma RepeatedStringSize_raw_all:
  assumes "\<not> (skip \<and> list_ex (\<lambda>s. long_limit < length s) ss)" and "LENGTH('l) \<le> 64"
  shows "RepeatedStringSize_raw skip ss (n :: 'l::len word)
     = (n + of_nat (length (concat (map raw_string ss))), False)"
  using assms
proof (induction ss arbitrary: n)
  case (Cons s ss)
  then show ?case
    by (auto simp: long_limit_def raw_scalar_sizes ucast_of_nat_down add.assoc simp del: length_raw)
qed simp

lemma RepeatedStringSize_raw_skip:
  "list_ex (\<lambda>s. long_limit < length s) ss \<Longrightarrow> snd (RepeatedStringSize_raw True ss n)"
  by (induction ss arbitrary: n) (auto simp: long_limit_def)

lemma raw_bools: "length (concat (map (\<lambda>b. raw_bool (p b)) bs)) = 4 * length bs"
  by (simp add: length_concat o_def sum_list_triv)

lemma fold_const: "fold (\<lambda>_ n. n + c) vs n = n + of_nat (length vs) * (c :: 'l::len word)"
  by (induction vs arbitrary: n) (simp_all add: algebra_simps)

lemma add_8_commute: "x + 8 = 8 + (x :: 'l::len word)"
  by (rule add.commute)

lemmas raw_simps =
  cval_kind_iff load_as_def raw_field_bytes_def raw_body_def raw_prefix_def raw_packed_def
  raw_scalar_sizes fold_const length_concat o_def sum_list_triv raw_bools
  ucast_of_nat_down ucast_add_down ucast_numerals
  RepeatedStringSize_raw_all [unfolded long_limit_def]
  RepeatedStringSize_raw_skip [unfolded long_limit_def] long_limit_def Let_def add_8_commute [of "w * c" for w c]
  add_8_commute [of "of_nat n" for n] case_prod_beta

lemma ByteSize_field_raw_eq:
  assumes "kind_of t = Some k" and "cval_kind c = Some k"
    and "load cells off = Inr (OVal c)"
  shows "ByteSize_field_raw skip t fid cells off
     = Inr (off + kind_stride k, of_nat (length (raw_field_bytes skip t fid c)))"
  using assms
  by (cases t; simp only: kind_of.simps option.distinct option.inject)
    (auto simp: raw_simps ByteSize_field_raw_def ByteSize_fixed_raw_def ByteSize_strings_raw_def
      TAG_SIZE_PLUS_2_raw_def TAG_SIZE_raw_def)

lemma Serialize_field_raw_eq:
  assumes "kind_of t = Some k" and "cval_kind c = Some k"
    and "load cells (off - kind_stride k) = Inr (OVal c)"
  shows "Serialize_field_raw skip t fid cells off buf
     = Inr (off - kind_stride k, buf @ raw_field_bytes skip t fid c)"
  using assms
  by (cases t; simp only: kind_of.simps option.distinct option.inject)
    (auto simp: raw_simps Serialize_field_raw_def Serialize_fixed_raw_def Serialize_strings_raw_def
      TAG_SIZE_raw_def raw_scalar_writers raw_repeated_writers WriteLengthToArray_eq)

section \<open>The serializer\<close>

interpretation raw_sizes: field_sizer ByteSize_field_raw raw_field_bytes
  by unfold_locales (rule ByteSize_field_raw_eq)

interpretation raw_writes: field_writer Serialize_field_raw raw_field_bytes
  by unfold_locales (rule Serialize_field_raw_eq)

definition ByteSizeLong_raw :: "obj \<Rightarrow> bool \<Rightarrow> u64 result" where
  "ByteSizeLong_raw message skip_long_string_flag =
     ByteSize_walk ByteSize_field_raw message skip_long_string_flag"

definition SerializeToString_DFS_raw :: "obj \<Rightarrow> bytes \<Rightarrow> bool \<Rightarrow> (u32 \<Rightarrow> u64) \<Rightarrow> bytes result" where
  "SerializeToString_DFS_raw message current_buffer_addr skip_long_string_flag messageSizeVec =
     Serialize_walk Serialize_field_raw message current_buffer_addr skip_long_string_flag messageSizeVec"

definition SerializeToString_raw ::
  "obj \<Rightarrow> bool \<Rightarrow> u64 \<Rightarrow> (u32 \<Rightarrow> u64) \<Rightarrow> (bytes \<times> u64 \<times> u64) result" where
  "SerializeToString_raw message skip_long_string_flag total_size messageSizeVec =
     andThen (ByteSizeLong_raw message skip_long_string_flag) (\<lambda>bytesizelong_size.
     andThen (SerializeToString_DFS_raw message [] skip_long_string_flag messageSizeVec) (\<lambda>output.
       Inr (output, total_size + bytesizelong_size, bytesizelong_size)))"

section \<open>Properties\<close>

text \<open>The baseline serializer, too, returns the bytes of its format and announces exactly
  their number.\<close>

theorem raw_serialize_bytes:
  assumes "wf_msg m" and "sizes_agree msv m"
  shows "SerializeToString_raw (layout m) skip total_size msv
    = Inr (msg_bytes raw_field_bytes skip m,
           total_size + of_nat (length (msg_bytes raw_field_bytes skip m)),
           of_nat (length (msg_bytes raw_field_bytes skip m)))"
  using raw_sizes.walk_size [OF assms(1)] raw_writes.walk_bytes [OF assms]
  by (simp add: SerializeToString_raw_def ByteSizeLong_raw_def SerializeToString_DFS_raw_def)

theorem raw_serialize_bytes_witness:
  "SerializeToString_raw (layout (tree [104, 105])) True 10 tree_sizes
    = Inr (msg_bytes raw_field_bytes True (tree [104, 105]),
           10 + of_nat (length (msg_bytes raw_field_bytes True (tree [104, 105]))),
           of_nat (length (msg_bytes raw_field_bytes True (tree [104, 105]))))"
  by (rule raw_serialize_bytes [OF tree_ok])

text \<open>In the baseline the length prefix of a bool field says 5 where 8 bytes of tag and
  payload follow, and that of a repeated bool field counts one byte per element where four follow.\<close>

theorem raw_bool_prefix:
  assumes "load cells (off - 8) = Inr (OVal (VBool b))"
    and "load cells' (off - 24) = Inr (OVal (R8 bs))" and "length bs < 16000"
  shows "\<exists>body body'. Serialize_field_raw skip sw_bool_type fid cells off buf
        = Inr (off - 8, buf @ le_bytes 2 5 @ body) \<and> length body = 8
    \<and> Serialize_field_raw skip sw_repeated_bool_type fid cells' off buf
        = Inr (off - 24, buf @ le_bytes 2 (8 + length bs) @ body') \<and> length body' = 8 + 4 * length bs"
proof -
  have "unat (of_nat (length bs + 8) :: u16) = length bs + 8"
    using assms(3) by (intro unat_of_nat_small) simp
  then have n: "unat (raw_prefix sw_repeated_bool_type fid (R8 bs)) = 8 + length bs"
    by (simp only: raw_prefix_def cval.case add.commute)
  have "length (raw_body sw_bool_type fid (VBool b)) = 8"
    "length (raw_body sw_repeated_bool_type fid (R8 bs)) = 8 + 4 * length bs"
    by (simp_all add: raw_body_def raw_bools)
  moreover have "Serialize_field_raw skip sw_bool_type fid cells off buf
      = Inr (off - 8, buf @ le_bytes 2 5 @ raw_body sw_bool_type fid (VBool b))"
    using Serialize_field_raw_eq [of sw_bool_type KBool "VBool b" cells off skip fid buf] assms(1)
    by (simp add: raw_field_bytes_def raw_prefix_def)
  moreover have "Serialize_field_raw skip sw_repeated_bool_type fid cells' off buf
      = Inr (off - 24, buf @ le_bytes 2 (8 + length bs) @ raw_body sw_repeated_bool_type fid (R8 bs))"
    using Serialize_field_raw_eq [of sw_repeated_bool_type KR8 "R8 bs" cells' off skip fid buf] assms(2)
    by (simp add: raw_field_bytes_def n)
  ultimately show ?thesis by blast
qed

theorem raw_bool_prefix_witness:
  "\<exists>body body'. Serialize_field_raw True sw_bool_type 1 [(16, OVal (VBool True))] 24 []
        = Inr (24 - 8, [] @ le_bytes 2 5 @ body) \<and> length body = 8
    \<and> Serialize_field_raw True sw_repeated_bool_type 1 [(0, OVal (R8 [1, 0]))] 24 []
        = Inr (24 - 24, [] @ le_bytes 2 (8 + length [1, 0 :: u8]) @ body') \<and> length body' = 8 + 4 * length [1, 0 :: u8]"
  by (rule raw_bool_prefix) (simp_all add: load_def)

end
