(* ===== verification/Forward_Walk.thy ===== *)
theory Forward_Walk
  imports ByteSize Write_Walk
begin

text \<open>
  The walk of the serializer of \<open>include/paralizer.h\<close> (lines 89 to 652): fields
  in the order of the descriptor, a sub-message behind its tag and its length, as in protobuf but for two
  field types (\<open>Protobuf_Format\<close> compares the two).  Both
  \<open>ByteSizeLong\<close> and \<open>SerializeToString_DFS\<close> of that header go forward from offset 16; the branches for
  one field are arguments of the walks here and given in \<open>Paralizer\<close>.  The format is \<open>proto_msg\<close>; the
  locale \<open>forward_fields\<close> proves the walks for any branches that meet it.
\<close>

section \<open>The format\<close>

text \<open>Two flags, because the writer asks for the size of a sub-message with long strings, whatever it
  writes: \<open>pskip\<close> is the flag the length prefixes are computed with, \<open>skip\<close> the one the fields are
  written with.\<close>

fun proto_msg :: "bool \<Rightarrow> bool \<Rightarrow> msg \<Rightarrow> bytes"
  and proto_val :: "bool \<Rightarrow> bool \<Rightarrow> sw_type \<times> u8 \<Rightarrow> mval \<Rightarrow> bytes"
  and proto_fields :: "bool \<Rightarrow> bool \<Rightarrow> (sw_type \<times> u8) list \<Rightarrow> mval list \<Rightarrow> bytes" where
  "proto_msg pskip skip (Msg md vs) = proto_fields pskip skip (md_fields md) vs"
| "proto_val pskip skip f (MVal c) = (if skip \<and> long_value c then [] else field_body (fst f) (snd f) c)"
| "proto_val pskip skip f (MSub m) =
     tag_bytes (scast (snd f)) PROTOBUF_LENGTH_DELIMITED_TYPE
       @ enc_u32 (of_nat (length (proto_msg pskip pskip m))) @ proto_msg pskip skip m"
| "proto_fields pskip skip (f # fs) (v # vs) = proto_val pskip skip f v @ proto_fields pskip skip fs vs"
| "proto_fields pskip skip fs vs = []"

text \<open>No field of type repeated bool, anywhere.\<close>

fun no_rbool :: "msg \<Rightarrow> bool" and no_rbool_val :: "mval \<Rightarrow> bool" where
  "no_rbool (Msg md vs) \<longleftrightarrow> list_all no_rbool_val vs"
| "no_rbool_val (MVal c) \<longleftrightarrow> cval_kind c \<noteq> Some KR8"
| "no_rbool_val (MSub m) \<longleftrightarrow> no_rbool m"

lemma no_rbool_sub: "no_rbool (Msg md vs) \<Longrightarrow> MSub m \<in> set vs \<Longrightarrow> no_rbool m"
  by (auto simp: list_all_iff dest: bspec)

section \<open>The size\<close>

fun Forward_size_loop ::
  "(obj \<Rightarrow> u64 result) \<Rightarrow> sizer \<Rightarrow> bool \<Rightarrow> cells \<Rightarrow> (u8 \<times> u8) list \<Rightarrow> int \<Rightarrow> u64 \<Rightarrow> u64 result" where
  "Forward_size_loop self fld skip_long_string_flag cells [] obj_addr output_size = Inr output_size"
| "Forward_size_loop self fld skip_long_string_flag cells ((w, fid) # fs) obj_addr output_size =
     (case decode_sw w of
        None \<Rightarrow> Forward_size_loop self fld skip_long_string_flag cells fs obj_addr output_size
      | Some t \<Rightarrow>
          if t = sw_ptr_type then
            andThen (load_object cells obj_addr) (\<lambda>current_field.
            andThen (self current_field) (\<lambda>current_field_size.
              Forward_size_loop self fld skip_long_string_flag cells fs (obj_addr + 8)
                (output_size
                 + (current_field_size + (TAG_SIZE fid + VarintSize32 (ucast current_field_size))))))
          else
            andThen (fld skip_long_string_flag t fid cells obj_addr)
              (\<lambda>(obj_addr, current_field_size).
                Forward_size_loop self fld skip_long_string_flag cells fs obj_addr
                  (output_size + current_field_size)))"

lemma Forward_size_loop_cong [fundef_cong]:
  assumes "\<And>c. child_of c cells \<Longrightarrow> f c = g c"
    and "fld = fld'" "skip = skip'" "cells = cells'" "fs = fs'" "off = off'" "n = n'"
  shows "Forward_size_loop f fld skip cells fs off n = Forward_size_loop g fld' skip' cells' fs' off' n'"
proof -
  have "Forward_size_loop f fld skip cells fs off n = Forward_size_loop g fld skip cells fs off n"
    using assms(1)
  proof (induction fs arbitrary: off n)
    case (Cons p fs)
    then show ?case
      by (cases p) (auto split: option.split intro!: andThen_cong dest: load_object_child)
  qed simp
  with assms show ?thesis by simp
qed

function Forward_size_walk :: "sizer \<Rightarrow> obj \<Rightarrow> bool \<Rightarrow> u64 result" where
  "Forward_size_walk fld message skip_long_string_flag =
     andThen (metadata_fields (obj_metadata message)) (\<lambda>fields.
       Forward_size_loop (\<lambda>m. Forward_size_walk fld m skip_long_string_flag) fld skip_long_string_flag
         (obj_cells message) fields first_member 0)"
  by pat_completeness auto
termination
  by (relation "measure (\<lambda>(_, m, _). size m)") (auto dest: child_size)

declare Forward_size_walk.simps [simp del]

section \<open>The writer\<close>

text \<open>\<open>size_of\<close> is \<open>ByteSizeLong\<close> on a sub-message, which the length prefix comes from.\<close>

fun Forward_write_loop ::
  "(obj \<Rightarrow> u64 result) \<Rightarrow> (obj \<Rightarrow> bytes \<Rightarrow> bytes result) \<Rightarrow> bytes writer \<Rightarrow> bool \<Rightarrow> cells \<Rightarrow> (u8 \<times> u8) list
     \<Rightarrow> int \<Rightarrow> bytes \<Rightarrow> bytes result" where
  "Forward_write_loop size_of self fld skip_long_string_flag cells [] obj_addr buf = Inr buf"
| "Forward_write_loop size_of self fld skip_long_string_flag cells ((w, fid) # fs) obj_addr buf =
     (case decode_sw w of
        None \<Rightarrow> Forward_write_loop size_of self fld skip_long_string_flag cells fs obj_addr buf
      | Some t \<Rightarrow>
          if t = sw_ptr_type then
            andThen (load_object cells obj_addr) (\<lambda>current_field.
            let buf = WriteTagToArray (scast fid) PROTOBUF_LENGTH_DELIMITED_TYPE buf in
            andThen (size_of current_field) (\<lambda>n.
            let buf = WriteVarint32ToArray (ucast n) buf in
            andThen (self current_field buf) (\<lambda>buf.
              Forward_write_loop size_of self fld skip_long_string_flag cells fs (obj_addr + 8) buf)))
          else
            andThen (fld skip_long_string_flag t fid cells obj_addr buf)
              (\<lambda>(obj_addr, buf).
                Forward_write_loop size_of self fld skip_long_string_flag cells fs obj_addr buf))"

lemma Forward_write_loop_cong [fundef_cong]:
  assumes "\<And>c b. child_of c cells \<Longrightarrow> f c b = g c b" and "sz = sz'"
    and "fld = fld'" "skip = skip'" "cells = cells'" "fs = fs'" "off = off'" "buf = buf'"
  shows "Forward_write_loop sz f fld skip cells fs off buf
     = Forward_write_loop sz' g fld' skip' cells' fs' off' buf'"
proof -
  have "Forward_write_loop sz f fld skip cells fs off buf = Forward_write_loop sz g fld skip cells fs off buf"
    using assms(1)
  proof (induction fs arbitrary: off buf)
    case (Cons p fs)
    then show ?case
      by (cases p) (auto simp: Let_def split: option.split intro!: andThen_cong dest: load_object_child)
  qed simp
  with assms show ?thesis by simp
qed

function Forward_write_walk :: "sizer \<Rightarrow> bytes writer \<Rightarrow> obj \<Rightarrow> bytes \<Rightarrow> bool \<Rightarrow> bytes result" where
  "Forward_write_walk szf fld message current_buffer_addr skip_long_string_flag =
     andThen (metadata_fields (obj_metadata message)) (\<lambda>fields.
       Forward_write_loop (\<lambda>m. Forward_size_walk szf m False)
         (\<lambda>m buf. Forward_write_walk szf fld m buf skip_long_string_flag)
         fld skip_long_string_flag (obj_cells message) fields first_member current_buffer_addr)"
  by pat_completeness auto
termination
  by (relation "measure (\<lambda>(_, _, m, _). size m)") (auto dest: child_size)

declare Forward_write_walk.simps [simp del]

section \<open>What the walks compute\<close>

text \<open>A field of a well-formed message is a value of the type its code names, or a sub-message.\<close>

lemma field_ok_cases:
  assumes "field_ok (dec_field (w, fid)) v"
  obtains (val) c t k where "v = MVal c" "decode_sw w = Some t" "dec_field (w, fid) = (t, fid)"
      "kind_of t = Some k" "cval_kind c = Some k" "t \<noteq> sw_ptr_type" "mval_stride v = kind_stride k"
      "unat fid < 128"
    | (sub) m where "v = MSub m" "decode_sw w = Some sw_ptr_type"
      "dec_field (w, fid) = (sw_ptr_type, fid)" "unat fid < 128"
proof -
  obtain t where t: "decode_sw w = Some t" "dec_field (w, fid) = (t, fid)"
    using dec_field_ok [OF assms] by (auto simp: dec_field_def)
  have fid: "unat fid < 128" using assms t(2) by (simp add: field_ok_def)
  show thesis
  proof (cases v)
    case (MVal c)
    then obtain k where k: "kind_of t = Some k" "cval_kind c = Some k"
      using assms t(2) by (auto simp: field_ok_def)
    then have "t \<noteq> sw_ptr_type" by (auto simp: cval_kind_iff)
    with k show thesis using val [OF MVal t] fid MVal by simp
  next
    case (MSub m)
    then have "t = sw_ptr_type" using assms t(2) by (cases t) (simp_all add: field_ok_def)
    then show thesis using sub [OF MSub] t fid by simp
  qed
qed

lemma TAG_SIZE_sub:
  "unat fid < 128 \<Longrightarrow>
   TAG_SIZE fid = of_nat (length (tag_bytes (scast fid) PROTOBUF_LENGTH_DELIMITED_TYPE))"
  by (simp add: TAG_SIZE_def length_tag_bytes sint_less_16 protobuf_types)

text \<open>Branches that step over the member, give the length of its field, and append it.\<close>

locale forward_fields =
  fixes szf :: sizer and wrf :: "bytes writer"
  assumes sz_spec:
    "kind_of t = Some k \<Longrightarrow> cval_kind c = Some k \<Longrightarrow> k \<noteq> KR8 \<Longrightarrow> unat fid < 128 \<Longrightarrow>
     load cells off = Inr (OVal c) \<Longrightarrow>
     szf skip t fid cells off
       = Inr (off + kind_stride k, of_nat (length (proto_val skip skip (t, fid) (MVal c))))"
    and wr_spec:
    "kind_of t = Some k \<Longrightarrow> cval_kind c = Some k \<Longrightarrow> k \<noteq> KR8 \<Longrightarrow> unat fid < 128 \<Longrightarrow>
     load cells off = Inr (OVal c) \<Longrightarrow>
     wrf skip t fid cells off buf
       = Inr (off + kind_stride k, buf @ proto_val False skip (t, fid) (MVal c))"
begin

lemma size_loop:
  assumes "list_all2 field_ok (map dec_field fs) vs" and "list_all no_rbool_val vs"
    and "\<And>m. MSub m \<in> set vs \<Longrightarrow> self (layout m) = Inr (of_nat (length (proto_msg skip skip m)))"
  shows "Forward_size_loop self szf skip (layout_fields off (us @ vs)) fs (off + strides us) n
     = Inr (n + of_nat (length (proto_fields skip skip (map dec_field fs) vs)))"
  using assms
proof (induction vs arbitrary: us fs n rule: list.induct)
  case Nil
  then show ?case by simp
next
  case (Cons v vs)
  then obtain w fid fs' where fs: "fs = (w, fid) # fs'" and f: "field_ok (dec_field (w, fid)) v"
    and fs': "list_all2 field_ok (map dec_field fs') vs"
    by (auto simp: list_all2_Cons2)
  note ld = load_layout [of off us v vs]
  have IH: "Forward_size_loop self szf skip (layout_fields off (us @ v # vs)) fs'
      (off + strides us + mval_stride v) m
    = Inr (m + of_nat (length (proto_fields skip skip (map dec_field fs') vs)))" for m
    using Cons.IH [OF fs', of "us @ [v]" m] Cons.prems(2,3) by (simp add: add.assoc)
  from f show ?case
  proof (cases rule: field_ok_cases)
    case (val c t k)
    then have "szf skip t fid (layout_fields off (us @ v # vs)) (off + strides us)
      = Inr (off + strides us + mval_stride v, of_nat (length (proto_val skip skip (t, fid) v)))"
      using sz_spec [of t k c fid] ld Cons.prems(2) by simp
    with val IH show ?thesis by (simp add: fs add.assoc)
  next
    case (sub m)
    have "self (layout m) = Inr (of_nat (length (proto_msg skip skip m)))"
      using Cons.prems(3) sub by simp
    moreover have "load_object (layout_fields off (us @ v # vs)) (off + strides us) = Inr (layout m)"
      using ld sub by (simp add: load_object_def)
    ultimately show ?thesis
      using IH sub by (simp add: fs TAG_SIZE_sub VarintSize32_enc ucast_of_nat_down ac_simps)
  qed
qed

lemma size_walk:
  "wf_msg m \<Longrightarrow> no_rbool m \<Longrightarrow>
   Forward_size_walk szf (layout m) skip = Inr (of_nat (length (proto_msg skip skip m)))"
proof (induction m rule: msg_induct)
  case (Msg md vs)
  let ?fs = "take (unat (field_num md)) (zip (wire_type md) (field_id md))"
  have "metadata_fields md = Inr ?fs"
    using Msg.prems by (simp add: metadata_fields_ok)
  moreover have "Forward_size_loop (\<lambda>m. Forward_size_walk szf m skip) szf skip
      (layout_fields first_member vs) ?fs first_member 0
    = Inr (of_nat (length (proto_fields skip skip (md_fields md) vs)))"
    using size_loop [of ?fs vs "\<lambda>m. Forward_size_walk szf m skip" skip first_member "[]" 0]
      Msg.prems Msg.IH wf_msg_sub [OF Msg.prems(1)] no_rbool_sub [OF Msg.prems(2)]
    by (simp add: md_fields_alt)
  ultimately show ?case by (subst Forward_size_walk.simps) simp
qed

lemma write_loop:
  assumes "list_all2 field_ok (map dec_field fs) vs" and "list_all no_rbool_val vs"
    and "\<And>m. MSub m \<in> set vs \<Longrightarrow> size_of (layout m) = Inr (of_nat (length (proto_msg False False m)))"
    and "\<And>m b. MSub m \<in> set vs \<Longrightarrow> self (layout m) b = Inr (b @ proto_msg False skip m)"
  shows "Forward_write_loop size_of self wrf skip (layout_fields off (us @ vs)) fs (off + strides us) buf
     = Inr (buf @ proto_fields False skip (map dec_field fs) vs)"
  using assms
proof (induction vs arbitrary: us fs buf rule: list.induct)
  case Nil
  then show ?case by simp
next
  case (Cons v vs)
  then obtain w fid fs' where fs: "fs = (w, fid) # fs'" and f: "field_ok (dec_field (w, fid)) v"
    and fs': "list_all2 field_ok (map dec_field fs') vs"
    by (auto simp: list_all2_Cons2)
  note ld = load_layout [of off us v vs]
  have IH: "Forward_write_loop size_of self wrf skip (layout_fields off (us @ v # vs)) fs'
      (off + strides us + mval_stride v) b = Inr (b @ proto_fields False skip (map dec_field fs') vs)" for b
    using Cons.IH [OF fs', of "us @ [v]" b] Cons.prems(2-4) by (simp add: add.assoc)
  from f show ?case
  proof (cases rule: field_ok_cases)
    case (val c t k)
    then have "wrf skip t fid (layout_fields off (us @ v # vs)) (off + strides us) buf
      = Inr (off + strides us + mval_stride v, buf @ proto_val False skip (t, fid) v)"
      using wr_spec [of t k c fid] ld Cons.prems(2) by simp
    with val IH show ?thesis by (simp add: fs)
  next
    case (sub m)
    have "size_of (layout m) = Inr (of_nat (length (proto_msg False False m)))"
      and "self (layout m) b = Inr (b @ proto_msg False skip m)" for b
      using Cons.prems(3,4) sub by simp_all
    moreover have "load_object (layout_fields off (us @ v # vs)) (off + strides us) = Inr (layout m)"
      using ld sub by (simp add: load_object_def)
    ultimately show ?thesis
      using IH sub by (simp add: fs Let_def ucast_of_nat_down codec_specs)
  qed
qed

lemma write_walk:
  "wf_msg m \<Longrightarrow> no_rbool m \<Longrightarrow>
   Forward_write_walk szf wrf (layout m) buf skip = Inr (buf @ proto_msg False skip m)"
proof (induction m arbitrary: buf rule: msg_induct)
  case (Msg md vs)
  let ?fs = "take (unat (field_num md)) (zip (wire_type md) (field_id md))"
    and ?size = "\<lambda>m. Forward_size_walk szf m False" and ?self = "\<lambda>m buf. Forward_write_walk szf wrf m buf skip"
  have "metadata_fields md = Inr ?fs"
    using Msg.prems by (simp add: metadata_fields_ok)
  moreover have "Forward_write_loop ?size ?self wrf skip (layout_fields first_member vs) ?fs first_member buf
    = Inr (buf @ proto_fields False skip (md_fields md) vs)"
    using write_loop [of ?fs vs ?size ?self skip first_member "[]" buf] size_walk
      Msg.prems Msg.IH wf_msg_sub [OF Msg.prems(1)] no_rbool_sub [OF Msg.prems(2)]
    by (simp add: md_fields_alt)
  ultimately show ?case by (subst Forward_write_walk.simps) simp
qed

end

end
