(* ===== verification/Protobuf_Format.thy ===== *)
theory Protobuf_Format
  imports Forward_Walk
begin

text \<open>
  The protobuf encoding of a message, written down from its public description and not from the code:
  records of a field number and a wire value, integers as base-128 varints of numbers.  It is what the
  output of \<open>include/paralizer.h\<close>, the format \<open>proto_msg\<close>, is compared with.  The flag \<open>dialect\<close> stands for
  the two places where the headers leave the standard: a \<open>sint32\<close> is written as an \<open>int32\<close>, without the
  zigzag step, and the elements of a repeated string or bytes field stand in one record, as if they
  could be packed.  Every field of the descriptor is present; an empty packed field is a record of length 0.
\<close>

section \<open>Records\<close>

datatype wire = Wire_varint nat | Wire_64 nat | Wire_bytes bytes | Wire_32 nat

fun wire_code :: "wire \<Rightarrow> nat" where
  "wire_code (Wire_varint n) = 0" | "wire_code (Wire_64 n) = 1"
| "wire_code (Wire_bytes s) = 2" | "wire_code (Wire_32 n) = 5"

fun wire_bytes :: "wire \<Rightarrow> bytes" where
  "wire_bytes (Wire_varint n) = varint n" | "wire_bytes (Wire_64 n) = le_bytes 8 n"
| "wire_bytes (Wire_bytes s) = varint (length s) @ s" | "wire_bytes (Wire_32 n) = le_bytes 4 n"

definition pb_record :: "nat \<Rightarrow> wire \<Rightarrow> bytes" where
  "pb_record number w = varint (8 * number + wire_code w) @ wire_bytes w"

text \<open>Negative numbers are 64 bits wide in two's complement, or zigzag.\<close>

definition twos64 :: "int \<Rightarrow> nat" where
  "twos64 x = nat (x mod 2 ^ 64)"

definition zigzag :: "int \<Rightarrow> nat" where
  "zigzag x = nat (if 0 \<le> x then 2 * x else - 2 * x - 1)"

section \<open>Messages\<close>

text \<open>The records of one field, in order: one, but for repeated strings.\<close>

fun pb_wires :: "bool \<Rightarrow> sw_type \<Rightarrow> cval \<Rightarrow> wire list" where
  "pb_wires dialect t Raw = []"
| "pb_wires dialect t (V32 v) = [if t = sw_uint32_type then Wire_varint (unat v)
     else if t = sw_fix32_type then Wire_32 (unat v)
     else if t = sw_sint32_type \<and> \<not> dialect then Wire_varint (zigzag (sint v))
     else Wire_varint (twos64 (sint v))]"
| "pb_wires dialect t (V64 w) = [if t = sw_fix64_type then Wire_64 (unat w) else Wire_varint (unat w)]"
| "pb_wires dialect t (VBool b) = [Wire_varint (if b then 1 else 0)]"
| "pb_wires dialect t (VFloat v) = [Wire_32 (unat v)]"
| "pb_wires dialect t (VDouble w) = [Wire_64 (unat w)]"
| "pb_wires dialect t (VStr s) = [Wire_bytes s]"
| "pb_wires dialect t (R32 vs) = [Wire_bytes (concat (map (\<lambda>v.
     varint (if t = sw_repeated_uint32_type then unat v else twos64 (sint v))) vs))]"
| "pb_wires dialect t (R64 ws) = [Wire_bytes (concat (map (\<lambda>w.
     if t = sw_repeated_fix64_type then le_bytes 8 (unat w) else varint (unat w)) ws))]"
| "pb_wires dialect t (R8 bs) = [Wire_bytes (map (\<lambda>b. if b \<noteq> 0 then 1 else 0) bs)]"
| "pb_wires dialect t (RFloat vs) = [Wire_bytes (concat (map (\<lambda>v. le_bytes 4 (unat v)) vs))]"
| "pb_wires dialect t (RStr ss) =
     (if dialect then [Wire_bytes (concat (map (\<lambda>s. varint (length s) @ s) ss))] else map Wire_bytes ss)"

fun pb_msg :: "bool \<Rightarrow> msg \<Rightarrow> bytes"
  and pb_val :: "bool \<Rightarrow> sw_type \<times> u8 \<Rightarrow> mval \<Rightarrow> bytes"
  and pb_fields :: "bool \<Rightarrow> (sw_type \<times> u8) list \<Rightarrow> mval list \<Rightarrow> bytes" where
  "pb_msg dialect (Msg md vs) = pb_fields dialect (md_fields md) vs"
| "pb_val dialect f (MVal c) = concat (map (pb_record (unat (snd f))) (pb_wires dialect (fst f) c))"
| "pb_val dialect f (MSub m) = pb_record (unat (snd f)) (Wire_bytes (pb_msg dialect m))"
| "pb_fields dialect (f # fs) (v # vs) = pb_val dialect f v @ pb_fields dialect fs vs"
| "pb_fields dialect fs vs = []"

text \<open>No field whose type is one of the two exceptions, anywhere.\<close>

definition standard_type :: "sw_type \<Rightarrow> bool" where
  "standard_type t \<longleftrightarrow> t \<notin> {sw_sint32_type, sw_repeated_string_type, sw_repeated_bytes_type}"

fun standard_msg :: "msg \<Rightarrow> bool" and standard_val :: "mval \<Rightarrow> bool" where
  "standard_msg (Msg md vs) \<longleftrightarrow> list_all (\<lambda>f. standard_type (fst f)) (md_fields md) \<and> list_all standard_val vs"
| "standard_val (MVal c) \<longleftrightarrow> True"
| "standard_val (MSub m) \<longleftrightarrow> standard_msg m"

section \<open>The code's format is the dialect\<close>

lemma unat_scast_64: "unat (scast (v :: u32) :: u64) = twos64 (sint v)"
proof -
  have "uint (scast v :: u64) = sint v mod 2 ^ 64"
    by (subst scast_eq) (simp only: uint_word_of_int, simp)
  then show ?thesis by (metis twos64_def unat_eq_nat_uint)
qed

lemma enc_pb: "enc_i32 v = varint (twos64 (sint v))"
  by (simp add: enc_i32_def enc_u64_def unat_scast_64)

lemma enc_u32_length: "n < 2 ^ 32 \<Longrightarrow> enc_u32 (of_nat n) = varint n"
  by (simp add: enc_u32_def unat_of_nat_small)

lemma tag_bytes_pb:
  "unat fid < 128 \<Longrightarrow> ty < 8 \<Longrightarrow> tag_bytes (scast (fid :: u8)) ty = varint (8 * unat fid + unat ty)"
  by (simp add: tag_bytes_def enc_u32_def unat_tag unat_scast_field_id mult.commute)

lemma enc_string_pb: "length s < 2 ^ 32 \<Longrightarrow> enc_string s = varint (length s) @ s"
  by (simp add: enc_string_def enc_u32_length)

lemma enc_strings_pb:
  "length (concat (map enc_string ss)) < 2 ^ 32 \<Longrightarrow>
   concat (map enc_string ss) = concat (map (\<lambda>s. varint (length s) @ s) ss)"
proof (induction ss)
  case (Cons s ss)
  then have "length s < 2 ^ 32" by (simp add: enc_string_def)
  then show ?case using Cons by (simp add: enc_string_pb)
qed simp

lemma packed_pb:
  "length (concat (map enc vs)) < 2 ^ 32 \<Longrightarrow> enc_packed enc vs = wire_bytes (Wire_bytes (concat (map enc vs)))"
  by (simp add: enc_packed_def enc_u32_length)

lemma bools_pb: "concat (map (\<lambda>b. enc_bool (b \<noteq> 0)) bs) = map (\<lambda>b. if b \<noteq> 0 then 1 else 0) bs"
  by (induction bs) (simp_all add: enc_bool_def)

text \<open>The payload of a field is the wire value of its one record.\<close>

lemma payload_pb:
  assumes "kind_of t = Some k" and "cval_kind c = Some k" and "length (payload t c) < 2 ^ 32"
  shows "\<exists>w. pb_wires True t c = [w] \<and> payload t c = wire_bytes w \<and> unat (proto_type t c) = wire_code w"
proof -
  have d: "enc_u32 = (\<lambda>v. varint (unat v))" "enc_i32 = (\<lambda>v. varint (twos64 (sint v)))"
    "enc_u64 = (\<lambda>v. varint (unat v))" "enc_fixed32 = (\<lambda>v. le_bytes 4 (unat v))"
    "enc_fixed64 = (\<lambda>v. le_bytes 8 (unat v))"
    by (simp_all add: fun_eq_iff enc_u32_def enc_u64_def enc_pb enc_fixed32_def enc_fixed64_def)
  have p: "is_repeated c \<Longrightarrow> length (packed_part c t) < 2 ^ 32"
    using assms(3) by (simp add: payload_packed)
  have q: "is_repeated c \<Longrightarrow> payload t c = wire_bytes (Wire_bytes (packed_part c t))"
    using p by (simp add: payload_packed enc_u32_length)
  from assms(2) show ?thesis
  proof (cases rule: kind_cases)
    case (K32 v)
    then show ?thesis using assms(1) by (cases t) (simp_all add: d protobuf_types)
  next
    case (K64 w)
    then show ?thesis using assms(1) by (cases t) (simp_all add: d protobuf_types)
  next
    case (KStr s)
    then show ?thesis using assms(3) by (simp add: enc_string_def enc_u32_length protobuf_types)
  next
    case (KBool b)
    then show ?thesis by (simp add: enc_bool_def varint_small protobuf_types)
  next
    case (KR32 vs)
    then show ?thesis using q by (simp add: packed_part_def d protobuf_types if_distrib cong: if_cong)
  next
    case (KR64 ws)
    then show ?thesis using q by (simp add: packed_part_def d protobuf_types if_distrib cong: if_cong)
  next
    case (KR8 bs)
    then show ?thesis using q by (simp add: packed_part_def bools_pb protobuf_types)
  next
    case (KRStr ss)
    then show ?thesis using q p enc_strings_pb [of ss] by (simp add: packed_part_def protobuf_types)
  qed (use q in \<open>simp_all add: d packed_part_def protobuf_types\<close>)
qed

lemma field_body_pb:
  assumes "kind_of t = Some k" and "cval_kind c = Some k" and "unat fid < 128"
    and "length (field_body t fid c) < 2 ^ 32"
  shows "field_body t fid c = pb_val True (t, fid) (MVal c)"
proof -
  have "length (payload t c) < 2 ^ 32" using assms(4) by (simp add: field_body_def)
  then obtain w where "pb_wires True t c = [w]" "payload t c = wire_bytes w" "unat (proto_type t c) = wire_code w"
    using payload_pb [OF assms(1,2)] by blast
  then show ?thesis
    using tag_bytes_pb [OF assms(3) proto_type_less, of t c] by (simp add: field_body_def tag_def pb_record_def)
qed

lemma proto_msg_pb:
  "wf_msg m \<Longrightarrow> length (proto_msg False False m) < 2 ^ 32 \<Longrightarrow> proto_msg False False m = pb_msg True m"
  "field_ok f v \<Longrightarrow> wf_val v \<Longrightarrow> length (proto_val False False f v) < 2 ^ 32 \<Longrightarrow>
     proto_val False False f v = pb_val True f v"
  "list_all2 field_ok fs vs \<Longrightarrow> list_all wf_val vs \<Longrightarrow> length (proto_fields False False fs vs) < 2 ^ 32 \<Longrightarrow>
     proto_fields False False fs vs = pb_fields True fs vs"
proof (induction m and f v and fs vs rule: leaves_leaves_val_leaves_fields.induct)
  case (2 f c)
  then obtain k where "kind_of (fst f) = Some k" "cval_kind c = Some k" "unat (snd f) < 128"
    by (auto simp: field_ok_def)
  then show ?case using field_body_pb [of "fst f" k c "snd f"] 2 by simp
next
  case (3 f m)
  then have "proto_msg False False m = pb_msg True m" "length (pb_msg True m) < 2 ^ 32" "unat (snd f) < 128"
    by (auto simp: field_ok_def)
  then show ?case
    by (simp add: pb_record_def tag_bytes_pb protobuf_types enc_u32_length)
qed simp_all

lemma standard_pb:
  "standard_msg m \<Longrightarrow> wf_msg m \<Longrightarrow> pb_msg True m = pb_msg False m"
  "standard_val v \<Longrightarrow> wf_val v \<Longrightarrow> standard_type (fst f) \<Longrightarrow> field_ok f v \<Longrightarrow> pb_val True f v = pb_val False f v"
  "list_all (\<lambda>f. standard_type (fst f)) fs \<Longrightarrow> list_all standard_val vs \<Longrightarrow> list_all wf_val vs \<Longrightarrow>
     list_all2 field_ok fs vs \<Longrightarrow> pb_fields True fs vs = pb_fields False fs vs"
proof (induction m and f v and fs vs rule: leaves_leaves_val_leaves_fields.induct)
  case (2 f c)
  then have "pb_wires True (fst f) c = pb_wires False (fst f) c"
    by (cases c; cases "fst f") (auto simp: field_ok_def standard_type_def)
  then show ?case by simp
qed simp_all

end
