(* ===== verification/Paralizer.thy ===== *)
theory Paralizer
  imports Serialize Protobuf_Format
begin

text \<open>
  \<open>ByteSizeLong\<close> and \<open>SerializeToString\<close> of \<open>include/paralizer.h\<close> (lines 89 to 652): the branches of
  the two \<open>switch\<close> statements, given to the forward walks of \<open>Forward_Walk\<close>.  The header includes
  \<open>include/old_encode.h\<close>, whose functions are those of \<open>include/encode.h\<close> but for three: repeated bool
  takes a \<open>vector<bool>\<close>, repeated bytes has the right wire type, and the writer of shortened repeated
  strings, which nothing calls, a flag.
\<close>

section \<open>Repeated bool\<close>

text \<open>A \<open>vector<bool>\<close> takes 40 bytes and packs its elements; the generated classes hold repeated bools
  in a \<open>vector<uint8_t>\<close> of 24 bytes, so no cell of an object is one.\<close>

fun as_rbool :: "cval \<Rightarrow> bool list option" where
  "as_rbool c = None"

definition WriteRepeatedBoolToArray_old :: "u32 \<Rightarrow> bool list \<Rightarrow> bytes \<Rightarrow> bytes" where
  "WriteRepeatedBoolToArray_old field_number value target =
     (let target = WriteTagToArray field_number PROTOBUF_LENGTH_DELIMITED_TYPE target;
          len = fold (\<lambda>v len. len + 1) value (0 :: u32);
          target = WriteVarint32ToArray len target
      in fold WriteBoolNoTagToArray value target)"

definition WriteSkipRepeatedStringToArray_old ::
  "u32 \<Rightarrow> bytes list \<Rightarrow> bytes \<Rightarrow> bytes \<Rightarrow> bool \<Rightarrow> bytes" where
  "WriteSkipRepeatedStringToArray_old field_number value target skip_field skip_flag =
     (let target = WriteTagToArray field_number PROTOBUF_LENGTH_DELIMITED_TYPE target;
          len = fold (\<lambda>v len. if 1024 < length v \<and> skip_flag then len + ucast (StringSize skip_field)
                              else len + ucast (StringSize v)) value (0 :: u32);
          target = WriteVarint32ToArray len target
      in fold (\<lambda>v target. if 1024 < length v \<and> skip_flag then WriteStringNoTagToArray 0 skip_field target
                          else WriteStringNoTagToArray 0 v target) value target)"

definition WriteRepeatedBytesToArray_old :: "u32 \<Rightarrow> bytes list \<Rightarrow> bytes \<Rightarrow> bytes" where
  "WriteRepeatedBytesToArray_old field_number value target =
     (let target = WriteTagToArray field_number PROTOBUF_LENGTH_DELIMITED_TYPE target;
          target = WriteVarint32ToArray (of_nat (length value)) target
      in fold (WriteBytesNoTagToArray 0) value target)"

section \<open>The size of one field\<close>

definition Forward_size_strings :: "bool \<Rightarrow> sw_type \<Rightarrow> u8 \<Rightarrow> cells \<Rightarrow> int \<Rightarrow> (int \<times> u64) result" where
  "Forward_size_strings skip_long_string_flag ty fid cells obj_addr =
     (case ty of
       sw_string_type \<Rightarrow>
         andThen (load_as as_string cells obj_addr) (\<lambda>current_field.
           if skip_long_string_flag \<and> 1024 < length current_field then Inr (obj_addr + 32, 0)
           else Inr (obj_addr + 32, TAG_SIZE fid + StringSize current_field))
     | sw_repeated_string_type \<Rightarrow>
         andThen (load_as as_rstring cells obj_addr) (\<lambda>current_field.
           let (current_field_size, skip_flag) =
                 RepeatedStringSize skip_long_string_flag current_field 0;
               current_field_size = current_field_size
                 + (TAG_SIZE fid + VarintSize32 (ucast current_field_size))
           in Inr (obj_addr + 24, if skip_flag then 0 else current_field_size))
     | sw_bytes_type \<Rightarrow>
         andThen (load_as as_string cells obj_addr) (\<lambda>current_field.
           if skip_long_string_flag \<and> 1024 < length current_field then Inr (obj_addr + 32, 0)
           else Inr (obj_addr + 32, TAG_SIZE fid + StringSize current_field))
     | sw_repeated_bytes_type \<Rightarrow>
         andThen (load_as as_rstring cells obj_addr) (\<lambda>current_field.
           let (current_field_size, skip_flag) =
                 RepeatedStringSize skip_long_string_flag current_field 0;
               current_field_size = current_field_size
                 + (TAG_SIZE fid + VarintSize32 (ucast current_field_size))
           in Inr (obj_addr + 24, if skip_flag then 0 else current_field_size))
     | _ \<Rightarrow> Inr (obj_addr, 0))"

definition Forward_size_fixed :: "bool \<Rightarrow> sw_type \<Rightarrow> u8 \<Rightarrow> cells \<Rightarrow> int \<Rightarrow> (int \<times> u64) result" where
  "Forward_size_fixed skip_long_string_flag ty fid cells obj_addr =
     (case ty of
       sw_bool_type \<Rightarrow>
         andThen (load_as as_bool cells obj_addr) (\<lambda>current_field.
           Inr (obj_addr + 8, TAG_SIZE fid + 1))
     | sw_repeated_bool_type \<Rightarrow>
         andThen (load_as as_rbool cells obj_addr) (\<lambda>current_field.
           let current_field_size = fold (\<lambda>v n. n + 1) current_field (0 :: u64) in
           Inr (obj_addr + 40, current_field_size + (TAG_SIZE fid + VarintSize32 (ucast current_field_size))))
     | sw_sint32_type \<Rightarrow>
         andThen (load_as as_w32 cells obj_addr) (\<lambda>current_field.
           Inr (obj_addr + 8, TAG_SIZE fid + Int32Size current_field))
     | sw_double_type \<Rightarrow>
         andThen (load_as as_double cells obj_addr) (\<lambda>current_field.
           Inr (obj_addr + 8, TAG_SIZE fid + 8))
     | sw_float_type \<Rightarrow>
         andThen (load_as as_float cells obj_addr) (\<lambda>current_field.
           Inr (obj_addr + 8, TAG_SIZE fid + 4))
     | sw_repeated_float_type \<Rightarrow>
         andThen (load_as as_rfloat cells obj_addr) (\<lambda>current_field.
           let current_field_size = fold (\<lambda>v n. n + 4) current_field (0 :: u64) in
           Inr (obj_addr + 24, current_field_size + (TAG_SIZE fid + VarintSize32 (ucast current_field_size))))
     | sw_fix32_type \<Rightarrow>
         andThen (load_as as_w32 cells obj_addr) (\<lambda>current_field.
           Inr (obj_addr + 8, TAG_SIZE fid + 4))
     | sw_fix64_type \<Rightarrow>
         andThen (load_as as_w64 cells obj_addr) (\<lambda>current_field.
           Inr (obj_addr + 8, TAG_SIZE fid + 8))
     | sw_repeated_fix64_type \<Rightarrow>
         andThen (load_as as_r64 cells obj_addr) (\<lambda>current_field.
           let current_field_size = fold (\<lambda>v n. n + 8) current_field (0 :: u64) in
           Inr (obj_addr + 24, current_field_size + (TAG_SIZE fid + VarintSize32 (ucast current_field_size))))
     | sw_enum_type \<Rightarrow>
         andThen (load_as as_w32 cells obj_addr) (\<lambda>current_field.
           Inr (obj_addr + 8, TAG_SIZE fid + EnumSize current_field))
     | sw_repeated_enum_type \<Rightarrow>
         andThen (load_as as_r32 cells obj_addr) (\<lambda>current_field.
           let current_field_size = fold (\<lambda>v n. n + EnumSize v) current_field (0 :: u64) in
           Inr (obj_addr + 24, current_field_size + (TAG_SIZE fid + VarintSize32 (ucast current_field_size))))
     | _ \<Rightarrow> Forward_size_strings skip_long_string_flag ty fid cells obj_addr)"

definition Forward_size_field :: "bool \<Rightarrow> sw_type \<Rightarrow> u8 \<Rightarrow> cells \<Rightarrow> int \<Rightarrow> (int \<times> u64) result" where
  "Forward_size_field skip_long_string_flag ty fid cells obj_addr =
     (case ty of
       sw_int32_type \<Rightarrow>
         andThen (load_as as_w32 cells obj_addr) (\<lambda>current_field.
           Inr (obj_addr + 8, TAG_SIZE fid + Int32Size current_field))
     | sw_repeated_int32_type \<Rightarrow>
         andThen (load_as as_r32 cells obj_addr) (\<lambda>current_field.
           let current_field_size = fold (\<lambda>v n. n + Int32Size v) current_field (0 :: u64) in
           Inr (obj_addr + 24, current_field_size + (TAG_SIZE fid + VarintSize32 (ucast current_field_size))))
     | sw_int64_type \<Rightarrow>
         andThen (load_as as_w64 cells obj_addr) (\<lambda>current_field.
           Inr (obj_addr + 8, TAG_SIZE fid + Int64Size current_field))
     | sw_repeated_int64_type \<Rightarrow>
         andThen (load_as as_r64 cells obj_addr) (\<lambda>current_field.
           let current_field_size = fold (\<lambda>v n. n + Int64Size v) current_field (0 :: u64) in
           Inr (obj_addr + 24, current_field_size + (TAG_SIZE fid + VarintSize32 (ucast current_field_size))))
     | sw_uint64_type \<Rightarrow>
         andThen (load_as as_w64 cells obj_addr) (\<lambda>current_field.
           Inr (obj_addr + 8, TAG_SIZE fid + UInt64Size current_field))
     | sw_repeated_uint64_type \<Rightarrow>
         andThen (load_as as_r64 cells obj_addr) (\<lambda>current_field.
           let current_field_size = fold (\<lambda>v n. n + UInt64Size v) current_field (0 :: u64) in
           Inr (obj_addr + 24, current_field_size + (TAG_SIZE fid + VarintSize32 (ucast current_field_size))))
     | sw_uint32_type \<Rightarrow>
         andThen (load_as as_w32 cells obj_addr) (\<lambda>current_field.
           Inr (obj_addr + 8, TAG_SIZE fid + UInt32Size current_field))
     | sw_repeated_uint32_type \<Rightarrow>
         andThen (load_as as_r32 cells obj_addr) (\<lambda>current_field.
           let current_field_size = fold (\<lambda>v n. n + UInt32Size v) current_field (0 :: u64) in
           Inr (obj_addr + 24, current_field_size + (TAG_SIZE fid + VarintSize32 (ucast current_field_size))))
     | _ \<Rightarrow> Forward_size_fixed skip_long_string_flag ty fid cells obj_addr)"

definition ByteSizeLong_forward :: "obj \<Rightarrow> bool \<Rightarrow> u64 result" where
  "ByteSizeLong_forward message skip_long_string_flag =
     Forward_size_walk Forward_size_field message skip_long_string_flag"

section \<open>Writing one field\<close>

definition Forward_write_strings ::
  "bool \<Rightarrow> sw_type \<Rightarrow> u8 \<Rightarrow> cells \<Rightarrow> int \<Rightarrow> bytes \<Rightarrow> (int \<times> bytes) result" where
  "Forward_write_strings skip_long_string_flag ty fid cells obj_addr buf =
     (let current_field_id = scast fid :: u32 in
      case ty of
       sw_string_type \<Rightarrow>
         andThen (load_as as_string cells obj_addr) (\<lambda>current_field.
           if skip_long_string_flag \<and> 1024 < length current_field then Inr (obj_addr + 32, buf)
           else Inr (obj_addr + 32, WriteStringToArray current_field_id current_field buf))
     | sw_repeated_string_type \<Rightarrow>
         andThen (load_as as_rstring cells obj_addr) (\<lambda>current_field.
           let hasbigstr = list_ex (\<lambda>s. 1024 < length s \<and> skip_long_string_flag) current_field
           in Inr (obj_addr + 24, if \<not> hasbigstr
                then WriteRepeatedStringToArray current_field_id current_field buf else buf))
     | sw_bytes_type \<Rightarrow>
         andThen (load_as as_string cells obj_addr) (\<lambda>current_field.
           if skip_long_string_flag \<and> 1024 < length current_field then Inr (obj_addr + 32, buf)
           else Inr (obj_addr + 32, WriteBytesToArray current_field_id current_field buf))
     | sw_repeated_bytes_type \<Rightarrow>
         andThen (load_as as_rstring cells obj_addr) (\<lambda>current_field.
           let hasbigstr = list_ex (\<lambda>s. 1024 < length s \<and> skip_long_string_flag) current_field
           in Inr (obj_addr + 24, if \<not> hasbigstr
                then WriteRepeatedStringToArray current_field_id current_field buf else buf))
     | _ \<Rightarrow> Inr (obj_addr, buf))"

definition Forward_write_fixed ::
  "bool \<Rightarrow> sw_type \<Rightarrow> u8 \<Rightarrow> cells \<Rightarrow> int \<Rightarrow> bytes \<Rightarrow> (int \<times> bytes) result" where
  "Forward_write_fixed skip_long_string_flag ty fid cells obj_addr buf =
     (let current_field_id = scast fid :: u32 in
      case ty of
       sw_bool_type \<Rightarrow>
         andThen (load_as as_bool cells obj_addr) (\<lambda>current_field.
           Inr (obj_addr + 8, WriteBoolToArray current_field_id current_field buf))
     | sw_repeated_bool_type \<Rightarrow>
         andThen (load_as as_rbool cells obj_addr) (\<lambda>current_field.
           Inr (obj_addr + 40, WriteRepeatedBoolToArray_old current_field_id current_field buf))
     | sw_sint32_type \<Rightarrow>
         andThen (load_as as_w32 cells obj_addr) (\<lambda>current_field.
           Inr (obj_addr + 8, WriteInt32ToArray current_field_id current_field buf))
     | sw_double_type \<Rightarrow>
         andThen (load_as as_double cells obj_addr) (\<lambda>current_field.
           Inr (obj_addr + 8, WriteDoubleToArray current_field_id current_field buf))
     | sw_float_type \<Rightarrow>
         andThen (load_as as_float cells obj_addr) (\<lambda>current_field.
           Inr (obj_addr + 8, WriteFloatToArray current_field_id current_field buf))
     | sw_repeated_float_type \<Rightarrow>
         andThen (load_as as_rfloat cells obj_addr) (\<lambda>current_field.
           Inr (obj_addr + 24, WriteRepeatedFloatToArray current_field_id current_field buf))
     | sw_fix32_type \<Rightarrow>
         andThen (load_as as_w32 cells obj_addr) (\<lambda>current_field.
           Inr (obj_addr + 8, WriteFixed32ToArray current_field_id current_field buf))
     | sw_fix64_type \<Rightarrow>
         andThen (load_as as_w64 cells obj_addr) (\<lambda>current_field.
           Inr (obj_addr + 8, WriteFixed64ToArray current_field_id current_field buf))
     | sw_repeated_fix64_type \<Rightarrow>
         andThen (load_as as_r64 cells obj_addr) (\<lambda>current_field.
           Inr (obj_addr + 24, WriteRepeatedFixed64ToArray current_field_id current_field buf))
     | sw_enum_type \<Rightarrow>
         andThen (load_as as_w32 cells obj_addr) (\<lambda>current_field.
           Inr (obj_addr + 8, WriteEnumToArray current_field_id current_field buf))
     | sw_repeated_enum_type \<Rightarrow>
         andThen (load_as as_r32 cells obj_addr) (\<lambda>current_field.
           Inr (obj_addr + 24, WriteRepeatedEnumToArray current_field_id current_field buf))
     | _ \<Rightarrow> Forward_write_strings skip_long_string_flag ty fid cells obj_addr buf)"

definition Forward_write_field ::
  "bool \<Rightarrow> sw_type \<Rightarrow> u8 \<Rightarrow> cells \<Rightarrow> int \<Rightarrow> bytes \<Rightarrow> (int \<times> bytes) result" where
  "Forward_write_field skip_long_string_flag ty fid cells obj_addr buf =
     (let current_field_id = scast fid :: u32 in
      case ty of
       sw_int32_type \<Rightarrow>
         andThen (load_as as_w32 cells obj_addr) (\<lambda>current_field.
           Inr (obj_addr + 8, WriteInt32ToArray current_field_id current_field buf))
     | sw_repeated_int32_type \<Rightarrow>
         andThen (load_as as_r32 cells obj_addr) (\<lambda>current_field.
           Inr (obj_addr + 24, WriteRepeatedInt32ToArray current_field_id current_field buf))
     | sw_int64_type \<Rightarrow>
         andThen (load_as as_w64 cells obj_addr) (\<lambda>current_field.
           Inr (obj_addr + 8, WriteInt64ToArray current_field_id current_field buf))
     | sw_repeated_int64_type \<Rightarrow>
         andThen (load_as as_r64 cells obj_addr) (\<lambda>current_field.
           Inr (obj_addr + 24, WriteRepeatedInt64ToArray current_field_id current_field buf))
     | sw_uint64_type \<Rightarrow>
         andThen (load_as as_w64 cells obj_addr) (\<lambda>current_field.
           Inr (obj_addr + 8, WriteUInt64ToArray current_field_id current_field buf))
     | sw_repeated_uint64_type \<Rightarrow>
         andThen (load_as as_r64 cells obj_addr) (\<lambda>current_field.
           Inr (obj_addr + 24, WriteRepeatedUInt64ToArray current_field_id current_field buf))
     | sw_uint32_type \<Rightarrow>
         andThen (load_as as_w32 cells obj_addr) (\<lambda>current_field.
           Inr (obj_addr + 8, WriteUInt32ToArray current_field_id current_field buf))
     | sw_repeated_uint32_type \<Rightarrow>
         andThen (load_as as_r32 cells obj_addr) (\<lambda>current_field.
           Inr (obj_addr + 24, WriteRepeatedUInt32ToArray current_field_id current_field buf))
     | _ \<Rightarrow> Forward_write_fixed skip_long_string_flag ty fid cells obj_addr buf)"

definition SerializeToString_DFS_forward :: "obj \<Rightarrow> bytes \<Rightarrow> bool \<Rightarrow> bytes result" where
  "SerializeToString_DFS_forward message current_buffer_addr skip_long_string_flag =
     Forward_write_walk Forward_size_field Forward_write_field message current_buffer_addr
       skip_long_string_flag"

definition SerializeToString_forward :: "obj \<Rightarrow> bool \<Rightarrow> bytes result" where
  "SerializeToString_forward message skip_long_string_flag =
     SerializeToString_DFS_forward message [] skip_long_string_flag"

section \<open>What the branches compute\<close>

lemma Forward_size_field_eq:
  assumes "kind_of t = Some k" and "cval_kind c = Some k" and "k \<noteq> KR8" and "unat fid < 128"
    and "load cells off = Inr (OVal c)"
  shows "Forward_size_field skip t fid cells off
     = Inr (off + kind_stride k, of_nat (length (proto_val skip skip (t, fid) (MVal c))))"
proof -
  note T = TAG_SIZE_eq [OF assms(4), of t c]
  show ?thesis
    using assms(1,2,3,5)
    by (cases t; simp only: kind_of.simps option.distinct option.inject)
      (auto simp: cval_kind_iff load_as_def field_body_def payload_packed
        packed_part_def enc_packed_def Forward_size_field_def Forward_size_fixed_def Forward_size_strings_def
        T scalar_sizes packed_sizes ucast_of_nat_down Let_def case_prod_beta
        RepeatedStringSize_all [unfolded long_limit_def]
        RepeatedStringSize_skip [unfolded long_limit_def] long_limit_def)
qed

lemma list_ex_conj: "list_ex (\<lambda>x. P x \<and> q) xs \<longleftrightarrow> q \<and> list_ex P xs"
  by (induction xs) auto

lemma Forward_write_field_eq:
  assumes "kind_of t = Some k" and "cval_kind c = Some k" and "k \<noteq> KR8" and "unat fid < 128"
    and "load cells off = Inr (OVal c)"
  shows "Forward_write_field skip t fid cells off buf
     = Inr (off + kind_stride k, buf @ proto_val False skip (t, fid) (MVal c))"
  using assms(1,2,3,5)
  by (cases t; simp only: kind_of.simps option.distinct option.inject)
    (auto simp: cval_kind_iff load_as_def field_body_def tag_def Forward_write_field_def
      Forward_write_fixed_def Forward_write_strings_def scalar_writers string_writers repeated_writers
      long_limit_def Let_def list_ex_conj)

interpretation forward: forward_fields Forward_size_field Forward_write_field
  by unfold_locales (fact Forward_size_field_eq Forward_write_field_eq)+

lemma ByteSizeLong_forward_layout:
  "wf_msg m \<Longrightarrow> no_rbool m \<Longrightarrow>
   ByteSizeLong_forward (layout m) skip = Inr (of_nat (length (proto_msg skip skip m)))"
  by (simp add: ByteSizeLong_forward_def forward.size_walk)

lemma SerializeToString_forward_layout:
  "wf_msg m \<Longrightarrow> no_rbool m \<Longrightarrow>
   SerializeToString_forward (layout m) skip = Inr (proto_msg False skip m)"
  by (simp add: SerializeToString_forward_def SerializeToString_DFS_forward_def forward.write_walk)

section \<open>The frames of the other serializer\<close>

text \<open>The stream of \<open>Serialize\<close> cut at its length prefixes.\<close>

function frames :: "bytes \<Rightarrow> bytes list" where
  "frames bs =
     (if length bs < 2 then []
      else let n = le_nat (take 2 bs); rest = drop 2 bs in take n rest # frames (drop n rest))"
  by pat_completeness auto
termination
  by (relation "measure length") (auto simp: Let_def)

declare frames.simps [simp del]

lemma frames_Nil [simp]: "frames [] = []"
  by (simp add: frames.simps)

lemma frames_frame:
  assumes "length b < 65536"
  shows "frames (le_bytes 2 (length b) @ b @ bs) = b # frames bs"
proof -
  have "le_nat (le_bytes 2 (length b)) = length b"
    using assms by (simp add: le_nat_le_bytes)
  then show ?thesis by (subst frames.simps) simp
qed

lemma frames_append_frame:
  assumes "\<And>bs. frames (b @ bs) = xs @ frames bs" and "\<And>bs. frames (b' @ bs) = ys @ frames bs"
  shows "frames ((b @ b') @ bs) = (xs @ ys) @ frames bs"
  using assms by simp

text \<open>The fields of a message in the order of the descriptor, those of a sub-message inline.\<close>

fun leaf_bodies :: "msg \<Rightarrow> bytes list"
  and leaf_bodies_val :: "sw_type \<times> u8 \<Rightarrow> mval \<Rightarrow> bytes list"
  and leaf_bodies_fields :: "(sw_type \<times> u8) list \<Rightarrow> mval list \<Rightarrow> bytes list" where
  "leaf_bodies (Msg md vs) = leaf_bodies_fields (md_fields md) vs"
| "leaf_bodies_val f (MVal c) = [field_body (fst f) (snd f) c]"
| "leaf_bodies_val f (MSub m) = leaf_bodies m"
| "leaf_bodies_fields (f # fs) (v # vs) = leaf_bodies_val f v @ leaf_bodies_fields fs vs"
| "leaf_bodies_fields fs vs = []"

lemma frames_msg:
  "list_all (\<lambda>b. length b < 65536) (leaf_bodies m) \<Longrightarrow>
     frames (msg_bytes field_bytes False m @ bs) = rev (leaf_bodies m) @ frames bs"
  "list_all (\<lambda>b. length b < 65536) (leaf_bodies_val f v) \<Longrightarrow>
     frames (val_bytes field_bytes False f v @ bs) = rev (leaf_bodies_val f v) @ frames bs"
  "list_all (\<lambda>b. length b < 65536) (leaf_bodies_fields fs vs) \<Longrightarrow>
     frames (fields_bytes field_bytes False fs vs @ bs) = rev (leaf_bodies_fields fs vs) @ frames bs"
proof (induction m and f v and fs vs arbitrary: bs and bs and bs
    rule: leaf_bodies_leaf_bodies_val_leaf_bodies_fields.induct)
  case (2 f c)
  then show ?case by (simp add: field_bytes_def length_prefix_correct frames_frame)
qed simp_all

text \<open>A message of scalars, strings and repeated fields only.\<close>

definition flat :: "msg \<Rightarrow> bool" where
  "flat m \<longleftrightarrow> list_all (\<lambda>v. case v of MVal c \<Rightarrow> True | MSub m \<Rightarrow> False) (msg_vals m)"

lemma proto_fields_flat:
  "list_all (\<lambda>v. case v of MVal c \<Rightarrow> True | MSub m \<Rightarrow> False) vs \<Longrightarrow>
   proto_fields p False fs vs = concat (leaf_bodies_fields fs vs)"
proof (induction fs vs rule: leaf_bodies_leaf_bodies_val_leaf_bodies_fields.induct(3)
    [where P = "\<lambda>_. True" and Q = "\<lambda>_ _. True"])
  case (4 f fs v vs)
  then show ?case by (cases v) simp_all
qed simp_all

lemma proto_msg_flat: "flat m \<Longrightarrow> proto_msg p False m = concat (leaf_bodies m)"
  by (cases m) (simp add: flat_def proto_fields_flat)

section \<open>Bounds on encodings\<close>

lemma length_tag_le: "unat fid < 128 \<Longrightarrow> length (tag t fid c) \<le> 2"
  using length_tag_bytes [OF _ proto_type_less [of t c]] by (simp add: tag_def)

lemma tag_not_Nil: "0 < length (tag t fid c)"
  by (simp add: tag_def)

section \<open>Properties\<close>

text \<open>C15. The serializer of \<open>paralizer.h\<close>, keeping long strings, writes \<open>proto_msg\<close>: the fields in
  order, each sub-message behind its tag and its length; \<open>ByteSizeLong\<close> of that header announces exactly
  the number of bytes.  Below 2^32 bytes that is the format \<open>pb_msg\<close>, written down independently of the code,
  in the dialect where a \<open>sint32\<close> has no zigzag and a repeated string or bytes field is one record; a
  message without fields of those types is standard protobuf.  Messages with repeated bools are excepted:
  on them the code fails (\<open>forward_repeated_bool\<close>).\<close>

theorem forward_serialize:
  assumes "wf_msg m" and "no_rbool m"
  shows "SerializeToString_forward (layout m) False = Inr (proto_msg False False m)
    \<and> ByteSizeLong_forward (layout m) False = Inr (of_nat (length (proto_msg False False m)))
    \<and> (length (proto_msg False False m) < 2 ^ 32 \<longrightarrow>
        proto_msg False False m = pb_msg True m \<and> (standard_msg m \<longrightarrow> pb_msg True m = pb_msg False m))"
  using SerializeToString_forward_layout [OF assms] ByteSizeLong_forward_layout [OF assms]
    proto_msg_pb(1) [OF assms(1)] standard_pb(1) [OF _ assms(1)] by blast

text \<open>The message of an \<open>int32\<close> with the value -1 and a sub-message of one string: 17 bytes, which are those of
  the standard.\<close>

theorem forward_serialize_witness:
  "SerializeToString_forward (layout (tree [104, 105])) False = Inr (pb_msg False (tree [104, 105]))
    \<and> ByteSizeLong_forward (layout (tree [104, 105])) False = Inr 17
    \<and> pb_msg False (tree [104, 105])
       = [8, 255, 255, 255, 255, 255, 255, 255, 255, 255, 1, 18, 4, 10, 2, 104, 105]"
proof -
  have "proto_msg False False (tree [104, 105])
      = [8, 255, 255, 255, 255, 255, 255, 255, 255, 255, 1, 18, 4, 10, 2, 104, 105]"
    by (simp add: tree_def leaf_def field_body_def tag_def tag_bytes_pb [of 1, simplified] tag_bytes_pb [of 2, simplified]
        enc_pb twos64_def enc_string_def enc_u32_def protobuf_types varint.simps)
  moreover have "standard_msg (tree [104, 105])" "no_rbool (tree [104, 105])"
    by (simp_all add: tree_def leaf_def standard_type_def)
  ultimately show ?thesis using forward_serialize [OF tree_ok(1), of "[104, 105]"] by simp
qed

text \<open>The two exceptions are real: the value of a \<open>sint32\<close> of -1 takes 10 bytes where the standard has the one
  byte 1, and the two strings ``a'' and ``b'' in a repeated field come as one record, in which a parser of
  the standard sees the one string of their records.\<close>

theorem forward_dialect:
  "SerializeToString_forward (layout (Msg (descriptor 7 [(sw_sint32_type, 1)]) [MVal (V32 (- 1))])) False
     = Inr [8, 255, 255, 255, 255, 255, 255, 255, 255, 255, 1]
   \<and> pb_msg False (Msg (descriptor 7 [(sw_sint32_type, 1)]) [MVal (V32 (- 1))]) = [8, 1]
   \<and> SerializeToString_forward (layout (Msg (descriptor 7 [(sw_repeated_string_type, 1)]) [MVal (RStr [[97], [98]])])) False
     = Inr [10, 4, 1, 97, 1, 98]
   \<and> pb_msg False (Msg (descriptor 7 [(sw_repeated_string_type, 1)]) [MVal (RStr [[97], [98]])])
     = [10, 1, 97, 10, 1, 98]"
  (is "SerializeToString_forward (layout ?m) _ = _ \<and> pb_msg False ?m = _
    \<and> SerializeToString_forward (layout ?n) _ = _ \<and> pb_msg False ?n = _")
proof -
  have "wf_msg ?m" "no_rbool ?m" "wf_msg ?n" "no_rbool ?n"
    by (simp_all add: field_ok_def)
  moreover have "proto_msg False False ?m = [8, 255, 255, 255, 255, 255, 255, 255, 255, 255, 1]" "pb_msg False ?m = [8, 1]"
    by (simp_all add: field_body_def tag_def tag_bytes_pb [of 1, simplified] enc_pb twos64_def pb_record_def zigzag_def
        protobuf_types varint.simps)
  moreover have "proto_msg False False ?n = [10, 4, 1, 97, 1, 98]" "pb_msg False ?n = [10, 1, 97, 10, 1, 98]"
    by (simp_all add: field_body_def tag_def tag_bytes_pb [of 1, simplified] enc_packed_def enc_string_def enc_u32_def
        pb_record_def protobuf_types varint.simps)
  moreover note SerializeToString_forward_layout [of ?m False] SerializeToString_forward_layout [of ?n False]
  ultimately show ?thesis by presburger
qed

text \<open>The two serializers encode the fields of a message without sub-messages in the same bytes: the
  output of \<open>encode_main.h\<close>, cut at its length prefixes and put back in order, is the output of
  \<open>paralizer.h\<close>.\<close>

theorem serializers_agree:
  assumes "wf_msg m" and "sizes_agree msv m" and "no_rbool m" and "flat m"
    and "list_all (\<lambda>b. length b < 65536) (leaf_bodies m)"
  shows "\<exists>out. SerializeToString_DFS (layout m) [] False msv = Inr out
    \<and> SerializeToString_forward (layout m) False = Inr (concat (rev (frames out)))"
proof -
  have "frames (msg_bytes field_bytes False m) = rev (leaf_bodies m)"
    using frames_msg(1) [OF assms(5), of "[]"] by simp
  then have "concat (rev (frames (msg_bytes field_bytes False m))) = proto_msg False False m"
    using proto_msg_flat [OF assms(4)] by simp
  then show ?thesis
    using SerializeToString_DFS_layout [OF assms(1,2), of "[]" False]
      SerializeToString_forward_layout [OF assms(1,3), of False] by simp
qed

text \<open>A class with a packed, a string and a boolean field.\<close>

definition flat_message :: msg where
  "flat_message = Msg (descriptor 9 [(sw_repeated_uint32_type, 1), (sw_string_type, 2), (sw_bool_type, 30)])
     [MVal (R32 [1, 300]), MVal (VStr [104, 105]), MVal (VBool True)]"

lemma flat_message_ok:
  "wf_msg flat_message" "sizes_agree (\<lambda>_. 80) flat_message" "no_rbool flat_message" "flat flat_message"
  "list_all (\<lambda>b. length b < 65536) (leaf_bodies flat_message)"
proof -
  have "length (tag t fid c) \<le> 2" if "unat fid < 128" for t fid c
    using length_tag_bytes [OF that proto_type_less [of t c]] by (simp add: tag_def)
  then have l: "length (field_body t fid c) \<le> 2 + length (payload t c)" if "unat fid < 128" for t fid c
    using that by (simp add: field_body_def)
  have "length (payload sw_repeated_uint32_type (R32 [1, 300])) = 4"
    "length (payload sw_string_type (VStr [104, 105])) = 3" "length (payload sw_bool_type (VBool True)) = 1"
    by (simp_all add: enc_packed_def enc_string_def enc_u32_def varint_small varint_big)
  with l [of 1 sw_repeated_uint32_type "R32 [1, 300]"] l [of 2 sw_string_type "VStr [104, 105]"]
    l [of 30 sw_bool_type "VBool True"]
  show "list_all (\<lambda>b. length b < 65536) (leaf_bodies flat_message)"
    by (simp add: flat_message_def)
qed (simp_all add: flat_message_def field_ok_def msg_sizeof_def first_member_def flat_def)

theorem serializers_agree_witness:
  "\<exists>out. SerializeToString_DFS (layout flat_message) [] False (\<lambda>_. 80) = Inr out
    \<and> SerializeToString_forward (layout flat_message) False = Inr (concat (rev (frames out)))"
  by (rule serializers_agree [OF flat_message_ok])

text \<open>When long strings are skipped, the length in front of a sub-message still counts them:
  \<open>SerializeToString_DFS\<close> asks \<open>ByteSizeLong\<close> for the size with the strings.  A message whose sub-message
  is one long string gets a length of over 1024 with nothing behind it, and more bytes than announced.\<close>

theorem forward_prefix_with_skip:
  assumes "1024 < length s" and "length s < 2 ^ 31"
  shows "\<exists>out n body. SerializeToString_forward (layout (tree s)) True = Inr out
    \<and> out = field_body sw_int32_type 1 (V32 (- 1))
        @ tag_bytes (scast (2 :: u8)) PROTOBUF_LENGTH_DELIMITED_TYPE @ enc_u32 (of_nat (length body))
    \<and> body = proto_msg False False (leaf s) \<and> length s < length body
    \<and> ByteSizeLong_forward (layout (tree s)) True = Inr n \<and> unat n < length out"
proof -
  let ?int = "field_body sw_int32_type 1 (V32 (- 1))" and ?body = "field_body sw_string_type 1 (VStr s)"
    and ?tag = "tag_bytes (scast (2 :: u8)) PROTOBUF_LENGTH_DELIMITED_TYPE"
  have long: "long_value (VStr s)" using assms(1) by (simp add: long_limit_def)
  have body: "proto_msg False False (leaf s) = ?body" "proto_msg p True (leaf s) = []" for p
    using long by (simp_all add: leaf_def)
  have bl: "length s < length ?body" "length ?body \<le> length s + 7"
    using length_enc_u32 [of "of_nat (length s)"] length_tag_le [of 1 sw_string_type "VStr s"]
      tag_not_Nil [of sw_string_type 1 "VStr s"]
    by (simp_all add: field_body_def enc_string_def)
  have u: "unat (of_nat (length ?body) :: u32) = length ?body"
    using bl assms(2) by (intro unat_of_nat_small) simp
  have two: "1 < length (enc_u32 (of_nat (length ?body)))"
    using bl(1) assms(1) by (simp add: enc_u32_def u varint_big)
  have out: "proto_msg False True (tree s) = ?int @ ?tag @ enc_u32 (of_nat (length ?body))"
    and "proto_msg True True (tree s) = ?int @ ?tag @ enc_u32 0"
    using body by (simp_all add: tree_def)
  moreover have "length (enc_u32 0) = 1" by (simp add: enc_u32_def varint_small)
  moreover have int: "length ?int \<le> 12" "length ?tag \<le> 2"
    using length_tag_le [of 1 sw_int32_type "V32 (- 1)"] length_tag_bytes [of 2 PROTOBUF_LENGTH_DELIMITED_TYPE]
      length_enc_i32 [of "- 1"]
    by (simp_all add: field_body_def protobuf_types)
  ultimately have "unat (of_nat (length (proto_msg True True (tree s))) :: u64) < length (proto_msg False True (tree s))"
    using two by (subst unat_of_nat_small) simp_all
  moreover have "no_rbool (tree s)" by (simp add: tree_def leaf_def)
  ultimately show ?thesis
    using SerializeToString_forward_layout [OF tree_ok(1), of s True] out body bl(1)
      ByteSizeLong_forward_layout [OF tree_ok(1), of s True] by simp
qed

theorem forward_prefix_with_skip_witness:
  "\<exists>out n body. SerializeToString_forward (layout (tree (replicate 1100 97))) True = Inr out
    \<and> out = field_body sw_int32_type 1 (V32 (- 1))
        @ tag_bytes (scast (2 :: u8)) PROTOBUF_LENGTH_DELIMITED_TYPE @ enc_u32 (of_nat (length body))
    \<and> body = proto_msg False False (leaf (replicate 1100 97)) \<and> length (replicate 1100 97 :: bytes) < length body
    \<and> ByteSizeLong_forward (layout (tree (replicate 1100 97))) True = Inr n \<and> unat n < length out"
  by (rule forward_prefix_with_skip) simp_all

text \<open>A repeated bool member is a \<open>vector<uint8_t>\<close> but \<open>paralizer.h\<close> reads it as a \<open>vector<bool>\<close>, an
  object of another type and size: on a class that has one first, both functions fail.\<close>

theorem forward_repeated_bool:
  assumes "metadata_fields md = Inr ((w, fid) # fs)" and "decode_sw w = Some sw_repeated_bool_type"
    and "load cells first_member = Inr (OVal (R8 bs))"
  shows "SerializeToString_forward (Obj md cells) skip = Inl Bad_object
    \<and> ByteSizeLong_forward (Obj md cells) skip = Inl Bad_object"
proof
  show "SerializeToString_forward (Obj md cells) skip = Inl Bad_object"
    unfolding SerializeToString_forward_def SerializeToString_DFS_forward_def
    by (subst Forward_write_walk.simps)
      (simp add: assms load_as_def Forward_write_field_def Forward_write_fixed_def Let_def)
  show "ByteSizeLong_forward (Obj md cells) skip = Inl Bad_object"
    unfolding ByteSizeLong_forward_def
    by (subst Forward_size_walk.simps)
      (simp add: assms load_as_def Forward_size_field_def Forward_size_fixed_def)
qed

theorem forward_repeated_bool_witness:
  "SerializeToString_forward (Obj (descriptor 4 [(sw_repeated_bool_type, 1)]) [(16, OVal (R8 [1, 0]))]) False = Inl Bad_object
    \<and> ByteSizeLong_forward (Obj (descriptor 4 [(sw_repeated_bool_type, 1)]) [(16, OVal (R8 [1, 0]))]) False = Inl Bad_object"
  by (rule forward_repeated_bool [OF _ decode_sw_code]) (simp_all add: load_def first_member_def)

end
