(* ===== verification/Fpga_Table.thy ===== *)
theory Fpga_Table
  imports Objects
begin

text \<open>
  The class table shared by the metadata walk, the parser and the FPGA: \<open>FPGA_Field\<close> and
  \<open>FPGA_Metadata\<close> of \<open>include/encode_main.h\<close> (lines 46 to 57).  A row holds 46 fields indexed by
  field number, so a field number of 46 or more reads or writes past the row.  The table itself is
  indexed by class number.
\<close>

record FPGA_Field =
  field_type :: u8
  reserve :: u8
  sub_class_id :: u16

record FPGA_Metadata =
  fclass_id :: u16
  max_field_number :: u16
  class_length :: u32
  field :: "FPGA_Field list"

type_synonym fpga_table = "u32 \<Rightarrow> FPGA_Metadata"

definition fpga_fields :: nat where
  "fpga_fields = 46"

definition row_ok :: "FPGA_Metadata \<Rightarrow> bool" where
  "row_ok r \<longleftrightarrow> length (field r) = fpga_fields"

text \<open>\<open>FPGA_metadataVec[class].field[i]\<close>, read.\<close>

definition get_field :: "FPGA_Metadata \<Rightarrow> u32 \<Rightarrow> FPGA_Field result" where
  "get_field r i = (if unat i < length (field r) then Inr (field r ! unat i) else Inl Overrun)"

text \<open>The lowest bit of \<open>field_type\<close>: clear when the field travels outside the message.\<close>

definition inline_bit :: "FPGA_Field \<Rightarrow> bool" where
  "inline_bit f \<longleftrightarrow> field_type f AND 1 \<noteq> 0"

end
