(* ===== verification/Decode.thy ===== *)
theory Decode
  imports Encode
begin

text \<open>
  The readers of \<open>include/decode.h\<close>.  A read pointer is the rest of the buffer, \<open>None\<close> when a
  malformed varint made it \<open>nullptr\<close>; a read past the end of the buffer or through \<open>nullptr\<close> is a
  fault.  The template \<open>VarintParse<T>\<close> takes the overload of \<open>VarintParseSlow\<close> that \<open>T\<close> selects as
  an argument.  The locale \<open>elem_codec\<close> adds to \<open>elem_writer\<close> a reader that inverts the encoding; in
  it the packed-sequence loop of the parser is proved to recover what was written.
\<close>

section \<open>Zigzag and floats\<close>

definition ZigZagDecode32 :: "u32 \<Rightarrow> u32" where
  "ZigZagDecode32 n = drop_bit 1 n XOR (NOT (n AND 1) + 1)"

definition ZigZagDecode64 :: "u64 \<Rightarrow> u64" where
  "ZigZagDecode64 n = drop_bit 1 n XOR (NOT (n AND 1) + 1)"

definition DecodeFloat :: "u32 \<Rightarrow> cfloat" where
  "DecodeFloat value = value"

definition DecodeDouble :: "u64 \<Rightarrow> cdouble" where
  "DecodeDouble value = value"

section \<open>Varints\<close>

text \<open>\<open>static_cast<uint8_t>(p[i])\<close>.\<close>

definition byte_at :: "bytes \<Rightarrow> nat \<Rightarrow> u8 result" where
  "byte_at p i = (if i < length p then Inr (p ! i) else Inl Overrun)"

lemma byte_at_append [simp]: "byte_at (xs @ b # ys) (length xs) = Inr b"
  by (simp add: byte_at_def)

definition ReadTag :: "rptr \<Rightarrow> (rptr \<times> u32) result" where
  "ReadTag p =
     (case p of None \<Rightarrow> Inl Null_deref
      | Some q \<Rightarrow> andThen (byte_at q 0) (\<lambda>b. Inr (Some (drop 1 q), ucast b)))"

text \<open>The second loop of \<open>VarintParseSlow32\<close>, which accepts up to ten bytes and ignores the bits.\<close>

function VarintSkip32 :: "nat \<Rightarrow> bytes \<Rightarrow> u32 \<Rightarrow> (rptr \<times> u32) result" where
  "VarintSkip32 i p res =
     (if i < 10 then
        andThen (byte_at p i) (\<lambda>b. let byte = ucast b :: u32 in
          if byte < 128 then Inr (Some (drop (i + 1) p), res) else VarintSkip32 (i + 1) p res)
      else Inr (None, 0))"
  by pat_completeness auto
termination
  by (relation "measure (\<lambda>(i, _). 10 - i)") auto

function VarintSlow32_loop :: "nat \<Rightarrow> bytes \<Rightarrow> u32 \<Rightarrow> (rptr \<times> u32) result" where
  "VarintSlow32_loop i p res =
     (if i < 5 then
        andThen (byte_at p i) (\<lambda>b. let byte = ucast b; res = res + push_bit (7 * i) (byte - 1) in
          if byte < 128 then Inr (Some (drop (i + 1) p), res) else VarintSlow32_loop (i + 1) p res)
      else VarintSkip32 5 p res)"
  by pat_completeness auto
termination
  by (relation "measure (\<lambda>(i, _). 5 - i)") auto

function VarintSlow64_loop :: "nat \<Rightarrow> bytes \<Rightarrow> u64 \<Rightarrow> (rptr \<times> u64) result" where
  "VarintSlow64_loop i p res =
     (if i < 10 then
        andThen (byte_at p i) (\<lambda>b. let byte = ucast b; res = res + push_bit (7 * i) (byte - 1) in
          if byte < 128 then Inr (Some (drop (i + 1) p), res) else VarintSlow64_loop (i + 1) p res)
      else Inr (None, 0))"
  by pat_completeness auto
termination
  by (relation "measure (\<lambda>(i, _). 10 - i)") auto

declare VarintSkip32.simps [simp del] VarintSlow32_loop.simps [simp del]
  VarintSlow64_loop.simps [simp del]

definition VarintParseSlow32 :: "bytes \<Rightarrow> u32 \<Rightarrow> (rptr \<times> u32) result" where
  "VarintParseSlow32 p res = VarintSlow32_loop 2 p res"

definition VarintParseSlow64 :: "bytes \<Rightarrow> u32 \<Rightarrow> (rptr \<times> u64) result" where
  "VarintParseSlow64 p res32 = VarintSlow64_loop 2 p (ucast res32)"

definition VarintParse ::
  "(bytes \<Rightarrow> u32 \<Rightarrow> (rptr \<times> 'a::len word) result) \<Rightarrow> rptr \<Rightarrow> (rptr \<times> 'a word) result" where
  "VarintParse VarintParseSlow p =
     (case p of None \<Rightarrow> Inl Null_deref
      | Some ptr \<Rightarrow>
          andThen (byte_at ptr 0) (\<lambda>b.
            let res = ucast b :: u32 in
            if res AND 0x80 = 0 then Inr (Some (drop 1 ptr), ucast res)
            else andThen (byte_at ptr 1) (\<lambda>b.
              let byte = ucast b :: u32; res = res + push_bit 7 (byte - 1) in
              if byte AND 0x80 = 0 then Inr (Some (drop 2 ptr), ucast res)
              else VarintParseSlow ptr res)))"

definition ReadVarint64 :: "rptr \<Rightarrow> (rptr \<times> u64) result" where
  "ReadVarint64 p = VarintParse VarintParseSlow64 p"

definition ReadVarint32 :: "rptr \<Rightarrow> (rptr \<times> u32) result" where
  "ReadVarint32 p = VarintParse VarintParseSlow32 p"

definition ReadVarintZigZag32 :: "rptr \<Rightarrow> (rptr \<times> u32) result" where
  "ReadVarintZigZag32 p =
     andThen (VarintParse VarintParseSlow64 p) (\<lambda>(p, tmp). Inr (p, ZigZagDecode32 (ucast tmp)))"

section \<open>Fixed-width values and strings\<close>

text \<open>\<open>memcpy\<close> of a \<open>k\<close>-byte integer, and the advance of the pointer.\<close>

definition read_le :: "nat \<Rightarrow> rptr \<Rightarrow> (rptr \<times> nat) result" where
  "read_le k p =
     (case p of None \<Rightarrow> Inl Null_deref
      | Some q \<Rightarrow> if length q < k then Inl Overrun else Inr (Some (drop k q), le_nat (take k q)))"

definition ReadFieldLength :: "rptr \<Rightarrow> (rptr \<times> u16) result" where
  "ReadFieldLength p = andThen (read_le 2 p) (\<lambda>(p, n). Inr (p, of_nat n))"

definition ReadFixed32 :: "rptr \<Rightarrow> (rptr \<times> u32) result" where
  "ReadFixed32 p = andThen (read_le 4 p) (\<lambda>(p, n). Inr (p, of_nat n))"

definition ReadFixed64 :: "rptr \<Rightarrow> (rptr \<times> u64) result" where
  "ReadFixed64 p = andThen (read_le 8 p) (\<lambda>(p, n). Inr (p, of_nat n))"

definition ReadDouble :: "rptr \<Rightarrow> (rptr \<times> cdouble) result" where
  "ReadDouble p = andThen (read_le 8 p) (\<lambda>(p, n). Inr (p, DecodeDouble (of_nat n)))"

definition ReadFloat :: "rptr \<Rightarrow> (rptr \<times> cfloat) result" where
  "ReadFloat p = andThen (read_le 4 p) (\<lambda>(p, n). Inr (p, DecodeFloat (of_nat n)))"

text \<open>\<open>s->assign(ptr, size)\<close> with an \<open>int\<close> size: a negative one becomes a huge \<open>size_t\<close> and the
  call throws \<open>std::length_error\<close>.\<close>

definition ReadString :: "rptr \<Rightarrow> u32 \<Rightarrow> (rptr \<times> bytes) result" where
  "ReadString ptr len =
     (case ptr of None \<Rightarrow> Inl Null_deref
      | Some q \<Rightarrow>
          if sint len < 0 then Inl Length_error
          else if length q < unat len then Inl Overrun
          else Inr (Some (drop (unat len) q), take (unat len) q))"

section \<open>Readers invert writers\<close>

text \<open>The subtraction of one in \<open>(byte - 1) << (7 * i)\<close> cancels the continuation bit of the byte
  before: with \<open>i\<close> bytes read that all had the bit set, the accumulator is \<open>k + 128 ^ i\<close> for the
  value \<open>k\<close> read so far.\<close>

lemma ucast_byte: "x < 256 \<Longrightarrow> (ucast (of_nat x :: u8) :: 'a::len word) = of_nat x"
  by (rule ucast_of_nat_small) simp

lemma base128_digit: "m mod 128 * c + m div 128 * (128 * c) = m * c" for c :: nat
proof -
  have "r * c + q * (128 * c) = (q * 128 + r) * c" for q r :: nat by (simp add: algebra_simps)
  then show ?thesis by (metis div_mult_mod_eq)
qed

lemma varint_step:
  assumes "b = (if m < 128 then m else m mod 128 + 128)"
  shows "of_nat (k + 128 ^ i) + push_bit (7 * i) (of_nat b - 1)
       = (of_nat (if m < 128 then k + m * 128 ^ i else k + m mod 128 * 128 ^ i + 128 ^ Suc i)
          :: 'a::len word)"
proof -
  have p: "(2 :: 'a word) ^ (i * 7) = 128 ^ i" by (simp add: power_mult [of 2 7 i, unfolded mult.commute [of 7 i]])
  show ?thesis
    using assms by (simp add: push_bit_eq_mult p algebra_simps)
qed

lemma digits_left: "i < 10 \<Longrightarrow> m < 128 ^ (10 - i) \<Longrightarrow> m div 128 < (128 :: nat) ^ (10 - Suc i)"
proof -
  assume "i < 10" and "m < 128 ^ (10 - i)"
  moreover from this have "10 - i = Suc (10 - Suc i)" by simp
  ultimately show ?thesis by (simp add: less_mult_imp_div_less mult.commute)
qed

lemma VarintSlow64_correct:
  assumes "i = length front" and "i < 10" and "m < 128 ^ (10 - i)"
  shows "VarintSlow64_loop i (front @ varint m @ rest) (of_nat (k + 128 ^ i))
       = Inr (Some rest, of_nat (k + m * 128 ^ i))"
  using assms
proof (induction "10 - i" arbitrary: i front m k)
  case 0
  then show ?case by simp
next
  case (Suc d)
  define b where "b = (if m < 128 then m else m mod 128 + 128)"
  have b: "b < 256" by (auto simp: b_def)
  have small: "of_nat b < (128 :: u64) \<longleftrightarrow> m < 128"
    using b by (simp add: word_less_nat_alt unat_of_nat_small b_def)
  note step = varint_step [where 'a = 64, OF b_def, of k i]
  show ?case
  proof (cases "m < 128")
    case True
    then show ?thesis using Suc.prems b small step
      by (subst VarintSlow64_loop.simps) (simp add: varint_small Let_def ucast_byte b_def)
  next
    case False
    let ?k = "k + m mod 128 * 128 ^ i"
    have eq: "?k + m div 128 * 128 ^ Suc i = k + m * 128 ^ i"
      by (simp add: add.assoc base128_digit)
    have "VarintSlow64_loop (Suc i) ((front @ [of_nat b]) @ varint (m div 128) @ rest)
        (of_nat (?k + 128 ^ Suc i)) = Inr (Some rest, of_nat (?k + m div 128 * 128 ^ Suc i))"
    proof (rule Suc.hyps(1))
      show "d = 10 - Suc i" using Suc.hyps(2) by simp
      show "Suc i = length (front @ [of_nat b])" using Suc.prems(1) by simp
      show "m div 128 < 128 ^ (10 - Suc i)"
        using Suc.prems(2,3) by (rule digits_left)
      show "Suc i < 10" using Suc.prems(2,3) False by (cases "i = 9") auto
    qed
    then have "VarintSlow64_loop (Suc i) ((front @ [of_nat b]) @ varint (m div 128) @ rest)
        (of_nat (?k + 128 ^ Suc i)) = Inr (Some rest, of_nat (k + m * 128 ^ i))"
      by (simp only: eq)
    then show ?thesis using Suc.prems False b small step
      by (subst VarintSlow64_loop.simps)
         (simp add: varint_big Let_def ucast_byte b_def del: of_nat_add of_nat_mult)
  qed
qed

lemma VarintSkip32_correct:
  assumes "i = length front" and "i < 10" and "m < 128 ^ (10 - i)"
  shows "VarintSkip32 i (front @ varint m @ rest) res = Inr (Some rest, res)"
  using assms
proof (induction "10 - i" arbitrary: i front m)
  case 0
  then show ?case by simp
next
  case (Suc d)
  define b where "b = (if m < 128 then m else m mod 128 + 128)"
  have b: "b < 256" by (auto simp: b_def)
  have small: "of_nat b < (128 :: u32) \<longleftrightarrow> m < 128"
    using b by (simp add: word_less_nat_alt unat_of_nat_small b_def)
  show ?case
  proof (cases "m < 128")
    case True
    then show ?thesis using Suc.prems b small
      by (subst VarintSkip32.simps) (simp add: varint_small Let_def ucast_byte b_def)
  next
    case False
    have "VarintSkip32 (Suc i) ((front @ [of_nat b]) @ varint (m div 128) @ rest) res
        = Inr (Some rest, res)"
    proof (rule Suc.hyps(1))
      show "d = 10 - Suc i" using Suc.hyps(2) by simp
      show "Suc i = length (front @ [of_nat b])" using Suc.prems(1) by simp
      show "m div 128 < 128 ^ (10 - Suc i)"
        using Suc.prems(2,3) by (rule digits_left)
      show "Suc i < 10" using Suc.prems(2,3) False by (cases "i = 9") auto
    qed
    then show ?thesis using Suc.prems False b small
      by (subst VarintSkip32.simps) (simp add: varint_big Let_def ucast_byte b_def del: of_nat_add)
  qed
qed

lemma VarintSlow32_correct:
  assumes "i = length front" and "i \<le> 5" and "m < 128 ^ (10 - i)"
  shows "VarintSlow32_loop i (front @ varint m @ rest) (of_nat (k + 128 ^ i))
       = Inr (Some rest, of_nat (k + m * 128 ^ i))"
  using assms
proof (induction "5 - i" arbitrary: i front m k)
  case 0
  then have i: "i = 5" by simp
  have z: "(34359738368 :: u32) = 0" by simp
  from 0 i show ?case
    by (subst VarintSlow32_loop.simps) (simp add: VarintSkip32_correct z)
next
  case (Suc d)
  define b where "b = (if m < 128 then m else m mod 128 + 128)"
  have b: "b < 256" by (auto simp: b_def)
  have small: "of_nat b < (128 :: u32) \<longleftrightarrow> m < 128"
    using b by (simp add: word_less_nat_alt unat_of_nat_small b_def)
  have i5: "i < 5" using Suc.hyps(2) by simp
  note step = varint_step [where 'a = 32, OF b_def, of k i]
  show ?case
  proof (cases "m < 128")
    case True
    then show ?thesis using Suc.prems b small step i5
      by (subst VarintSlow32_loop.simps) (simp add: varint_small Let_def ucast_byte b_def)
  next
    case False
    let ?k = "k + m mod 128 * 128 ^ i"
    have eq: "?k + m div 128 * 128 ^ Suc i = k + m * 128 ^ i"
      by (simp add: add.assoc base128_digit)
    have "VarintSlow32_loop (Suc i) ((front @ [of_nat b]) @ varint (m div 128) @ rest)
        (of_nat (?k + 128 ^ Suc i)) = Inr (Some rest, of_nat (?k + m div 128 * 128 ^ Suc i))"
    proof (rule Suc.hyps(1))
      show "d = 5 - Suc i" using Suc.hyps(2) by simp
      show "Suc i = length (front @ [of_nat b])" using Suc.prems(1) by simp
      show "m div 128 < 128 ^ (10 - Suc i)"
        using i5 Suc.prems(3) by (intro digits_left) simp_all
      show "Suc i \<le> 5" using i5 by simp
    qed
    then have "VarintSlow32_loop (Suc i) ((front @ [of_nat b]) @ varint (m div 128) @ rest)
        (of_nat (?k + 128 ^ Suc i)) = Inr (Some rest, of_nat (k + m * 128 ^ i))"
      by (simp only: eq)
    then show ?thesis using Suc.prems False b small step i5
      by (subst VarintSlow32_loop.simps)
         (simp add: varint_big Let_def ucast_byte b_def del: of_nat_add of_nat_mult)
  qed
qed

text \<open>The test \<open>res & 0x80\<close> of the unrolled first two bytes.\<close>

lemma and_0x80_eq_0:
  assumes "x < 256"
  shows "(of_nat x AND 0x80 :: u32) = 0 \<longleftrightarrow> x < 128"
proof -
  have p: "(0x80 :: u32) = 2 ^ 7" by simp
  have "(of_nat x AND 0x80 :: u32) = 0 \<longleftrightarrow> \<not> bit (of_nat x :: u32) 7"
    unfolding p by (rule and_exp_eq_0_iff_not_bit)
  also have "bit (of_nat x :: u32) 7 \<longleftrightarrow> bit (unat (of_nat x :: u32)) 7"
    by (subst bit_unsigned_iff) simp
  also have "unat (of_nat x :: u32) = x"
    using assms by (intro unat_of_nat_small) simp
  also have "bit x 7 \<longleftrightarrow> odd (x div 128)"
    by (simp add: bit_iff_odd)
  also have "odd (x div 128) \<longleftrightarrow> \<not> x < 128"
    using assms by (cases "x < 128") (simp_all add: le_div_geq)
  finally show ?thesis by blast
qed

lemma VarintParse_correct:
  assumes "n < 128 ^ 10" and "LENGTH('a) \<le> 64"
    and slow: "\<And>front m k. length front = 2 \<Longrightarrow> m < 128 ^ 8 \<Longrightarrow> k < 128 ^ 2 \<Longrightarrow>
       VarintParseSlow (front @ varint m @ rest) (of_nat (k + 128 ^ 2))
         = Inr (Some rest, of_nat (k + m * 128 ^ 2))"
  shows "VarintParse VarintParseSlow (Some (varint n @ rest))
       = Inr (Some rest, of_nat n :: 'a::len word)"
proof -
  have low: "n mod 128 + 128 < 256" by (metis add_less_cancel_right mod_less_divisor numeral_Bit0 zero_less_numeral)
  note and0 = and_0x80_eq_0
  have up: "(ucast (of_nat x :: u32) :: 'a word) = of_nat x" if "x < 2 ^ 32" for x
    using that by (intro ucast_of_nat_small) simp
  show ?thesis
  proof (cases "n < 128")
    case True
    then show ?thesis
      by (simp add: VarintParse_def varint_small byte_at_def Let_def ucast_byte and0 up)
  next
    case False
    let ?m = "n div 128" and ?r = "n mod 128"
    define b where "b = (if ?m < 128 then ?m else ?m mod 128 + 128)"
    have b: "b < 256" by (auto simp: b_def)
    have n: "?r + ?m * 128 = n" by simp
    have step: "of_nat (?r + 128) + push_bit 7 (of_nat b - 1)
        = (of_nat (if ?m < 128 then n else ?r + ?m mod 128 * 128 + 128 ^ 2) :: u32)"
      using varint_step [where 'a = 32, OF b_def, of ?r 1] n by (simp add: power2_eq_square)
    have b80: "(of_nat b AND 0x80 :: u32) = 0 \<longleftrightarrow> ?m < 128"
      using and0 [OF b] by (auto simp: b_def)
    have r80: "(of_nat (?r + 128) AND 0x80 :: u32) \<noteq> 0"
      using and0 [OF low] by simp
    have first: "VarintParse VarintParseSlow (Some (of_nat (?r + 128) # of_nat b # bs)) =
       (if ?m < 128 then Inr (Some bs, of_nat n)
        else VarintParseSlow (of_nat (?r + 128) # of_nat b # bs)
               (of_nat (?r + ?m mod 128 * 128 + 128 ^ 2)))" for bs
    proof (cases "?m < 128")
      case True
      then have "n < 128 * 128" by (simp add: div_less_iff_less_mult)
      then have "n < 2 ^ 32" by simp
      with True show ?thesis
        using step b80 r80 by (simp add: VarintParse_def byte_at_def Let_def ucast_byte [OF low]
            ucast_byte [OF b] up del: of_nat_add)
    next
      case False
      then show ?thesis
        using step b80 r80 by (simp add: VarintParse_def byte_at_def Let_def ucast_byte [OF low]
            ucast_byte [OF b] del: of_nat_add)
    qed
    show ?thesis
    proof (cases "?m < 128")
      case True
      with False first show ?thesis by (simp add: varint_big varint_small b_def)
    next
      case big: False
      let ?k = "?r + ?m mod 128 * 128"
      have "?r < 128" and "?m mod 128 < 128" by simp_all
      then have k: "?k < 128 ^ 2" by simp
      have m: "?m div 128 < 128 ^ 8" using assms(1) by (simp add: less_mult_imp_div_less)
      have "?k + ?m div 128 * 128 ^ 2 = n"
        using base128_digit [of ?m 128] n by (simp add: add.assoc)
      with slow [OF _ m k, of "[of_nat (?r + 128), of_nat b]"]
      have "VarintParseSlow (of_nat (?r + 128) # of_nat b # varint (?m div 128) @ rest)
          (of_nat (?k + 128 ^ 2)) = Inr (Some rest, of_nat n)" by (simp del: of_nat_add)
      with big False first show ?thesis
        by (simp add: varint_big b_def del: of_nat_add)
    qed
  qed
qed

lemma ReadVarint64_correct [codec_specs]:
  "n < 128 ^ 10 \<Longrightarrow> ReadVarint64 (Some (varint n @ rest)) = Inr (Some rest, of_nat n)"
  unfolding ReadVarint64_def
proof (rule VarintParse_correct)
  fix front :: bytes and m k :: nat
  assume front: "length front = 2" and m: "m < 128 ^ 8" and k: "k < 128 ^ 2"
  have "(ucast (of_nat (k + 128 ^ 2) :: u32) :: u64) = of_nat (k + 128 ^ 2)"
    using k by (intro ucast_of_nat_small) simp
  then show "VarintParseSlow64 (front @ varint m @ rest) (of_nat (k + 128 ^ 2))
      = Inr (Some rest, of_nat (k + m * 128 ^ 2))"
    using VarintSlow64_correct [of 2 front m rest k] front m by (simp add: VarintParseSlow64_def)
qed simp_all

lemma ReadVarint32_correct [codec_specs]:
  "n < 128 ^ 10 \<Longrightarrow> ReadVarint32 (Some (varint n @ rest)) = Inr (Some rest, of_nat n)"
  unfolding ReadVarint32_def
proof (rule VarintParse_correct)
  fix front :: bytes and m k :: nat
  assume front: "length front = 2" and m: "m < 128 ^ 8"
  then show "VarintParseSlow32 (front @ varint m @ rest) (of_nat (k + 128 ^ 2))
      = Inr (Some rest, of_nat (k + m * 128 ^ 2))"
    using VarintSlow32_correct [of 2 front m rest k] by (simp add: VarintParseSlow32_def)
qed simp_all

section \<open>One element, read back\<close>

lemma u64_lt_128_10: "unat (w :: u64) < 128 ^ 10"
  using unat_less [of w] by simp

lemma u32_lt_128_10: "unat (w :: u32) < 128 ^ 10"
  using unat_less [of w] by simp

lemma ReadVarint64_enc_u64 [codec_specs]: "ReadVarint64 (Some (enc_u64 w @ rest)) = Inr (Some rest, w)"
  by (simp add: enc_u64_def ReadVarint64_correct [OF u64_lt_128_10])

lemma ReadVarint32_enc_u32 [codec_specs]: "ReadVarint32 (Some (enc_u32 w @ rest)) = Inr (Some rest, w)"
  by (simp add: enc_u32_def ReadVarint32_correct [OF u32_lt_128_10])

text \<open>A negative \<open>int32_t\<close> takes ten bytes; reading it back on 32 bits drops the sign extension.\<close>

lemma ReadVarint32_enc_i32 [codec_specs]: "ReadVarint32 (Some (enc_i32 w @ rest)) = Inr (Some rest, w)"
proof -
  have "(ucast (scast w :: u64) :: u32) = w"
    by (rule bit_word_eqI) (auto simp: bit_simps)
  then have "of_nat (unat (scast w :: u64)) = w" by simp
  then show ?thesis
    by (simp add: enc_i32_def enc_u64_def ReadVarint32_correct [OF u64_lt_128_10])
qed

lemma ReadVarint32_enc_bool [codec_specs]:
  "ReadVarint32 (Some (enc_bool b @ rest)) = Inr (Some rest, if b then 1 else 0)"
proof -
  have "enc_bool b = varint (if b then 1 else 0)" by (simp add: enc_bool_def varint_small)
  then show ?thesis by (simp add: codec_specs)
qed

lemma read_le_append:
  assumes "length bs = k"
  shows "read_le k (Some (bs @ rest)) = Inr (Some rest, le_nat bs)"
  using assms by (simp add: read_le_def)

lemma ReadFixed32_enc [codec_specs]: "ReadFixed32 (Some (enc_fixed32 w @ rest)) = Inr (Some rest, w)"
proof -
  have "unat w < 256 ^ 4" using unat_less [of w] by simp
  then show ?thesis
    by (simp add: ReadFixed32_def enc_fixed32_def read_le_append le_nat_le_bytes)
qed

lemma ReadFixed64_enc [codec_specs]: "ReadFixed64 (Some (enc_fixed64 w @ rest)) = Inr (Some rest, w)"
proof -
  have "unat w < 256 ^ 8" using unat_less [of w] by simp
  then show ?thesis
    by (simp add: ReadFixed64_def enc_fixed64_def read_le_append le_nat_le_bytes)
qed

lemma ReadFloat_enc [codec_specs]: "ReadFloat (Some (enc_fixed32 w @ rest)) = Inr (Some rest, w)"
  using ReadFixed32_enc [of w rest] by (simp add: ReadFloat_def ReadFixed32_def DecodeFloat_def)

lemma ReadDouble_enc [codec_specs]: "ReadDouble (Some (enc_fixed64 w @ rest)) = Inr (Some rest, w)"
  using ReadFixed64_enc [of w rest] by (simp add: ReadDouble_def ReadFixed64_def DecodeDouble_def)

lemma ReadFieldLength_le [codec_specs]:
  "ReadFieldLength (Some (le_bytes 2 (unat (n :: u16)) @ rest)) = Inr (Some rest, n)"
proof -
  have "unat n < 256 ^ 2" using unat_less [of n] by simp
  then show ?thesis by (simp add: ReadFieldLength_def read_le_append le_nat_le_bytes)
qed

text \<open>A string is its length and its bytes; the two reads of the parser, in one step.\<close>

definition read_string :: "rptr \<Rightarrow> (rptr \<times> bytes) result" where
  "read_string p = andThen (ReadVarint32 p) (\<lambda>(p, len). ReadString p len)"

lemma sint_of_nat_small:
  assumes "n < 2 ^ 31"
  shows "0 \<le> sint (of_nat n :: u32)"
proof -
  have "sint (of_nat n :: u32) = signed_take_bit 31 (int n)"
    by (simp add: signed_of_nat)
  also have "\<dots> = int n"
    using assms by (intro signed_take_bit_int_eq_self) simp_all
  finally show ?thesis by simp
qed

lemma read_string_enc [codec_specs]:
  assumes "length s < 2 ^ 31"
  shows "read_string (Some (enc_string s @ rest)) = Inr (Some rest, s)"
proof -
  have "unat (of_nat (length s) :: u32) = length s"
    using assms by (intro unat_of_nat_small) simp
  then show ?thesis
    using sint_of_nat_small [OF assms]
    by (simp add: read_string_def enc_string_def codec_specs ReadString_def)
qed

section \<open>Zigzag round trip\<close>

text \<open>The arithmetic shift spreads the sign bit, so the encoding interleaves the non-negative and the
  negative integers and the decoding undoes it.\<close>

lemma zigzag_mask: "(NOT (e AND 1) + 1 :: 'a::len word) = (if bit e 0 then - 1 else 0)"
proof -
  have "NOT (e AND 1) + 1 = - (e AND 1)"
    by (rule minus_eq_not_plus_1 [symmetric])
  then show ?thesis by (simp only: and_one_eq bit_0 mod_2_eq_odd) simp
qed

lemma div_sign:
  fixes a :: int
  assumes "- (2 ^ k) \<le> a" "a < 2 ^ k"
  shows "a div 2 ^ k = (if a < 0 then - 1 else 0)"
proof (cases "a < 0")
  case True
  have "a div 2 ^ k = - 1"
    by (rule int_div_pos_eq [of _ _ _ "a + 2 ^ k"]) (use True assms in simp_all)
  with True show ?thesis by simp
next
  case False
  with assms show ?thesis by (simp add: div_pos_pos_trivial)
qed

lemma signed_drop_bit_sign:
  assumes "Suc k = LENGTH('a)"
  shows "signed_drop_bit k (n :: 'a::len word) = (if bit n k then - 1 else 0)"
proof -
  have k: "LENGTH('a) - Suc 0 = k" using assms by simp
  have b: "bit n k \<longleftrightarrow> sint n < 0"
    using bit_last_iff [of n] k by simp
  have "- (2 ^ k) \<le> sint n" "sint n < 2 ^ k"
    using sint_ge [of n] sint_lt [of n] k by simp_all
  then have "sint n div 2 ^ k = (if sint n < 0 then - 1 else 0)"
    by (rule div_sign)
  then have "sint (signed_drop_bit k n) = sint (if bit n k then - 1 else (0 :: 'a word))"
    by (simp add: sint_signed_drop_bit_eq drop_bit_eq_div b)
  then show ?thesis by (rule signed_word_eqI)
qed

lemma bit_ZigZagEncode32:
  "bit (ZigZagEncode32 n) i \<longleftrightarrow> i < 32 \<and> ((0 < i \<and> bit n (i - 1)) \<noteq> bit n 31)"
  unfolding ZigZagEncode32_def bit_xor_iff bit_push_bit_iff
  by (auto simp: signed_drop_bit_sign bit_minus_1_iff Suc_le_eq)

lemma ZigZagDecode32_Encode32 [codec_specs]: "ZigZagDecode32 (ZigZagEncode32 n) = n"
proof (rule bit_word_eqI)
  fix i assume "i < LENGTH(32)"
  then show "bit (ZigZagDecode32 (ZigZagEncode32 n)) i = bit n i"
    unfolding ZigZagDecode32_def zigzag_mask
    by (cases "i = 31") (auto simp: bit_xor_iff bit_drop_bit_eq bit_ZigZagEncode32)
qed

lemma bit_ZigZagEncode64:
  "bit (ZigZagEncode64 n) i \<longleftrightarrow> i < 64 \<and> ((0 < i \<and> bit n (i - 1)) \<noteq> bit n 63)"
  unfolding ZigZagEncode64_def bit_xor_iff bit_push_bit_iff
  by (auto simp: signed_drop_bit_sign bit_minus_1_iff Suc_le_eq)

lemma ZigZagDecode64_Encode64 [codec_specs]: "ZigZagDecode64 (ZigZagEncode64 n) = n"
proof (rule bit_word_eqI)
  fix i assume "i < LENGTH(64)"
  then show "bit (ZigZagDecode64 (ZigZagEncode64 n)) i = bit n i"
    unfolding ZigZagDecode64_def zigzag_mask
    by (cases "i = 63") (auto simp: bit_xor_iff bit_drop_bit_eq bit_ZigZagEncode64)
qed

lemma ZigZagEncode32_value:
  "int (unat (ZigZagEncode32 n)) = (if 0 \<le> sint n then 2 * sint n else - 2 * sint n - 1)"
proof -
  have b: "bit n 31 \<longleftrightarrow> sint n < 0"
    using bit_last_iff [of n] by simp
  have r: "- (2 ^ 31) \<le> sint n" "sint n < 2 ^ 31"
    using sint_ge [of n] sint_lt [of n] by simp_all
  have n: "n = word_of_int (sint n)" by simp
  have p: "push_bit 1 n = word_of_int (2 * sint n)"
    by (subst n) (simp add: push_bit_eq_mult)
  show ?thesis
  proof (cases "sint n < 0")
    case True
    then have "ZigZagEncode32 n = NOT (word_of_int (2 * sint n))"
      unfolding ZigZagEncode32_def p by (simp add: signed_drop_bit_sign b)
    also have "\<dots> = word_of_int (- 2 * sint n - 1)"
      by (simp add: not_eq_complement)
    finally have "uint (ZigZagEncode32 n) = (- 2 * sint n - 1) mod 2 ^ 32"
      by (simp only: uint_word_of_int) simp
    also have "\<dots> = - 2 * sint n - 1"
      using True r by (intro mod_pos_pos_trivial) simp_all
    finally show ?thesis using True by simp
  next
    case False
    then have "ZigZagEncode32 n = word_of_int (2 * sint n)"
      unfolding ZigZagEncode32_def p by (simp add: signed_drop_bit_sign b)
    then have "uint (ZigZagEncode32 n) = (2 * sint n) mod 2 ^ 32"
      by (simp only: uint_word_of_int) simp
    also have "\<dots> = 2 * sint n"
      using False r by (intro mod_pos_pos_trivial) simp_all
    finally show ?thesis using False by simp
  qed
qed

section \<open>Packed sequences\<close>

text \<open>The parser's loop \<open>while (current_buffer_addr - before_parse_current_buffer_addr < size)\<close> around
  one element reader.  The difference of the pointers is signed; when a malformed varint has made
  the current one \<open>nullptr\<close> it is negative and the next read faults.  Every reader moves the pointer,
  so the branch \<open>No_progress\<close> only serves the termination of the definition.\<close>

fun bytes_left :: "rptr \<Rightarrow> nat" where
  "bytes_left None = 0"
| "bytes_left (Some q) = Suc (length q)"

fun more_elems :: "rptr \<Rightarrow> rptr \<Rightarrow> u32 \<Rightarrow> bool" where
  "more_elems (Some b) (Some q) len \<longleftrightarrow> int (length b) - int (length q) < int (unat len)"
| "more_elems None None len \<longleftrightarrow> 0 < unat len"
| "more_elems (Some b) None len \<longleftrightarrow> True"
| "more_elems None (Some q) len \<longleftrightarrow> False"

function parse_elems ::
  "(rptr \<Rightarrow> (rptr \<times> 'v) result) \<Rightarrow> rptr \<Rightarrow> u32 \<Rightarrow> rptr \<Rightarrow> 'v list \<Rightarrow> (rptr \<times> 'v list) result" where
  "parse_elems rd before len cur acc =
     (if more_elems before cur len then
        andThen (rd cur) (\<lambda>(cur', v).
          if bytes_left cur' < bytes_left cur then parse_elems rd before len cur' (acc @ [v])
          else Inl No_progress)
      else Inr (cur, acc))"
  by pat_completeness auto
termination
  by (relation "measure (\<lambda>(_, _, _, cur, _). bytes_left cur)") auto

declare parse_elems.simps [simp del]

text \<open>The length of the sequence, then its elements, appended to those the vector already holds.\<close>

definition ReadPacked ::
  "(rptr \<Rightarrow> (rptr \<times> 'v) result) \<Rightarrow> rptr \<Rightarrow> 'v list \<Rightarrow> (rptr \<times> 'v list) result" where
  "ReadPacked rd p old = andThen (ReadVarint32 p) (\<lambda>(p, len). parse_elems rd p len p old)"

text \<open>A reader inverts an element writer up to \<open>norm\<close>, on the values that satisfy \<open>ok\<close>.\<close>

locale elem_codec = elem_writer wr sz enc
  for wr :: "'v \<Rightarrow> bytes \<Rightarrow> bytes" and sz :: "'v \<Rightarrow> u64" and enc :: "'v \<Rightarrow> bytes" +
  fixes rd :: "rptr \<Rightarrow> (rptr \<times> 'v) result"
    and norm :: "'v \<Rightarrow> 'v"
    and ok :: "'v \<Rightarrow> bool"
  assumes rd_enc: "ok v \<Longrightarrow> rd (Some (enc v @ rest)) = Inr (Some rest, norm v)"
begin

lemma parse_elems_enc:
  assumes "list_all ok vs" and "length b = used + length (concat (map enc vs) @ rest)"
    and "unat len = used + length (concat (map enc vs))"
  shows "parse_elems rd (Some b) len (Some (concat (map enc vs) @ rest)) acc
     = Inr (Some rest, acc @ map norm vs)"
  using assms
proof (induction vs arbitrary: used acc)
  case Nil
  then show ?case by (subst parse_elems.simps) simp
next
  case (Cons v vs)
  have "0 < int (length (enc v)) + int (length (concat (map enc vs)))"
    using enc_not_Nil [of v] by (intro add_pos_nonneg) simp_all
  moreover have "enc v \<noteq> []" by (rule enc_not_Nil)
  moreover have "rd (Some (enc v @ concat (map enc vs) @ rest))
      = Inr (Some (concat (map enc vs) @ rest), norm v)"
    using Cons.prems(1) by (intro rd_enc) simp
  ultimately show ?case
    using Cons.IH [of "used + length (enc v)" "acc @ [norm v]"] Cons.prems
    by (subst parse_elems.simps) simp
qed

lemma ReadPacked_enc:
  assumes "list_all ok vs" and "length (concat (map enc vs)) < 2 ^ 32"
  shows "ReadPacked rd (Some (enc_packed enc vs @ rest)) old = Inr (Some rest, old @ map norm vs)"
proof -
  have "unat (of_nat (length (concat (map enc vs))) :: u32) = length (concat (map enc vs))"
    using assms(2) by (intro unat_of_nat_small) simp
  then show ?thesis
    using parse_elems_enc [OF assms(1), of "concat (map enc vs) @ rest" 0 rest
        "of_nat (length (concat (map enc vs)))" old]
    by (simp add: ReadPacked_def enc_packed_def ReadVarint32_enc_u32)
qed

end

text \<open>The readers of the elements, as the parser calls them: a \<open>uint8_t\<close> of a repeated bool takes the
  low byte of the varint.\<close>

definition ReadBoolByte :: "rptr \<Rightarrow> (rptr \<times> u8) result" where
  "ReadBoolByte p = andThen (ReadVarint32 p) (\<lambda>(p, v). Inr (p, ucast v))"

definition norm_bool :: "u8 \<Rightarrow> u8" where
  "norm_bool b = (if b = 0 then 0 else 1)"

interpretation c_int32: elem_codec WriteInt32NoTagToArray Int32Size enc_i32 ReadVarint32 id "\<lambda>_. True"
  by unfold_locales (simp add: codec_specs)

interpretation c_enum: elem_codec WriteInt32NoTagToArray EnumSize enc_i32 ReadVarint32 id "\<lambda>_. True"
  by unfold_locales (simp add: codec_specs)

interpretation c_int64: elem_codec WriteInt64NoTagToArray Int64Size enc_u64 ReadVarint64 id "\<lambda>_. True"
  by unfold_locales (simp add: codec_specs)

interpretation c_uint64: elem_codec WriteUInt64NoTagToArray UInt64Size enc_u64 ReadVarint64 id "\<lambda>_. True"
  by unfold_locales (simp add: codec_specs)

interpretation c_uint32: elem_codec WriteVarint32ToArray UInt32Size enc_u32 ReadVarint32 id "\<lambda>_. True"
  by unfold_locales (simp add: codec_specs)

interpretation c_bool: elem_codec "\<lambda>v. WriteBoolNoTagToArray (v \<noteq> 0)" "\<lambda>_. 1"
    "\<lambda>v. enc_bool (v \<noteq> 0)" ReadBoolByte norm_bool "\<lambda>_. True"
  by unfold_locales (simp add: codec_specs ReadBoolByte_def norm_bool_def)

interpretation c_float: elem_codec WriteFloatNoTagToArray "\<lambda>_. 4" enc_fixed32 ReadFloat id "\<lambda>_. True"
  by unfold_locales (simp add: codec_specs)

interpretation c_fixed64: elem_codec WriteFixed64NoTagToArray "\<lambda>_. 8" enc_fixed64 ReadFixed64 id "\<lambda>_. True"
  by unfold_locales (simp add: codec_specs)

interpretation c_string: elem_codec "WriteStringNoTagToArray 0" StringSize enc_string read_string id
    "\<lambda>s. length s < 2 ^ 31"
  by unfold_locales (simp add: codec_specs)

text \<open>C28. Reading the varint of a 64-bit value gives the value and leaves the pointer
  right behind it, whatever follows; on 32 bits likewise, also for a negative \<open>int32_t\<close>, which is
  written sign-extended in ten bytes.\<close>

theorem ReadVarint_inverse:
  "ReadVarint64 (Some (UnsafeVarint w [] @ rest)) = Inr (Some rest, w)
   \<and> ReadVarint32 (Some (WriteVarint32ToArray v [] @ rest)) = Inr (Some rest, v)
   \<and> ReadVarint32 (Some (WriteInt32NoTagToArray v [] @ rest)) = Inr (Some rest, v)"
proof -
  have "UnsafeVarint w [] = enc_u64 w" by (simp add: UnsafeVarint_eq enc_u64_def)
  then show ?thesis
    by (simp add: WriteVarint32ToArray_eq WriteInt32NoTagToArray_eq ReadVarint64_enc_u64
        ReadVarint32_enc_u32 ReadVarint32_enc_i32)
qed

section \<open>Malformed varints\<close>

lemma continuation_byte:
  assumes "128 \<le> (b :: u8)"
  shows "(ucast b :: u32) AND 0x80 \<noteq> 0" "\<not> (ucast b :: u32) < 128" "\<not> (ucast b :: u64) < 128"
proof -
  have u: "128 \<le> unat b" using assms by (simp add: word_le_nat_alt)
  have lt: "unat b < 256" using unat_less [of b] by simp
  show "(ucast b :: u32) AND 0x80 \<noteq> 0"
    using u unfolding word_of_nat_unat_ucast [of b] and_0x80_eq_0 [OF lt] by simp
  have "unat (ucast b :: u32) = unat b" "unat (ucast b :: u64) = unat b"
    unfolding word_of_nat_unat_ucast using lt by (intro unat_of_nat_small; simp)+
  then show "\<not> (ucast b :: u32) < 128" "\<not> (ucast b :: u64) < 128"
    using u by (simp_all add: word_less_nat_alt)
qed

definition ten_continuations :: "bytes \<Rightarrow> bool" where
  "ten_continuations p \<longleftrightarrow> 10 \<le> length p \<and> list_all (\<lambda>b. 128 \<le> b) (take 10 p)"

lemma ten_continuations_at:
  assumes "ten_continuations p" and "i < 10"
  shows "byte_at p i = Inr (p ! i)" "128 \<le> p ! i"
  using assms by (auto simp: ten_continuations_def byte_at_def list_all_length)

lemma slow_loops_malformed:
  assumes "ten_continuations p"
  shows "VarintSkip32 i p r = Inr (None, 0)" "VarintSlow32_loop i p r = Inr (None, 0)"
    "VarintSlow64_loop i p s = Inr (None, 0)"
proof -
  have at: "byte_at p j = Inr (p ! j)" "128 \<le> p ! j" if "j < 10" for j
    using ten_continuations_at [OF assms that] by simp_all
  note step = at continuation_byte Let_def
  have skip: "VarintSkip32 i p r = Inr (None, 0)" for i r
  proof (induction "10 - i" arbitrary: i)
    case (Suc n)
    then show ?case by (subst VarintSkip32.simps) (simp add: step)
  qed (subst VarintSkip32.simps, simp)
  then show "VarintSkip32 i p r = Inr (None, 0)" .
  show "VarintSlow32_loop i p r = Inr (None, 0)"
  proof (induction "5 - i" arbitrary: i r)
    case (Suc n)
    then show ?case by (subst VarintSlow32_loop.simps) (simp add: step skip)
  qed (subst VarintSlow32_loop.simps, simp add: skip)
  show "VarintSlow64_loop i p s = Inr (None, 0)"
  proof (induction "10 - i" arbitrary: i s)
    case (Suc n)
    then show ?case by (subst VarintSlow64_loop.simps) (simp add: step)
  qed (subst VarintSlow64_loop.simps, simp)
qed

text \<open>Ten bytes with the continuation bit set are no varint: the readers read no further, return
  the value 0 and a null pointer, and any reader that goes on from there dereferences it; nothing
  between the readers checks for it.\<close>

theorem malformed_varint:
  assumes "10 \<le> length p" and "list_all (\<lambda>b. 128 \<le> b) (take 10 p)"
  shows "ReadVarint32 (Some p) = Inr (None, 0) \<and> ReadVarint64 (Some p) = Inr (None, 0)
    \<and> ReadVarint32 None = Inl Null_deref \<and> ReadString None len = Inl Null_deref
    \<and> ReadFieldLength None = Inl Null_deref"
proof -
  have t: "ten_continuations p" using assms by (simp add: ten_continuations_def)
  note at0 = ten_continuations_at [OF t, of 0] and at1 = ten_continuations_at [OF t, of 1]
  show ?thesis
    using at0 at1 slow_loops_malformed [OF t]
    by (simp add: ReadVarint32_def ReadVarint64_def VarintParse_def VarintParseSlow32_def
        VarintParseSlow64_def Let_def continuation_byte ReadString_def ReadFieldLength_def read_le_def)
qed

theorem malformed_varint_witness:
  "ReadVarint32 (Some (replicate 12 255)) = Inr (None, 0) \<and> ReadVarint64 (Some (replicate 12 255)) = Inr (None, 0)
    \<and> ReadVarint32 None = Inl Null_deref \<and> ReadString None 3 = Inl Null_deref
    \<and> ReadFieldLength None = Inl Null_deref"
  by (rule malformed_varint) (simp_all add: list_all_iff)

section \<open>Zigzag, tags, sequences and strings\<close>

text \<open>The zigzag transform is inverted by its decoder on both widths, and interleaves:
  a non-negative number goes to the even number twice as large, a negative \<open>n\<close> to \<open>-2n - 1\<close>.\<close>

theorem zigzag_inverse:
  "ZigZagDecode32 (ZigZagEncode32 n) = n \<and> ZigZagDecode64 (ZigZagEncode64 m) = m
   \<and> int (unat (ZigZagEncode32 n)) = (if 0 \<le> sint n then 2 * sint n else - 2 * sint n - 1)"
  by (intro conjI ZigZagDecode32_Encode32 ZigZagDecode64_Encode64 ZigZagEncode32_value)

text \<open>The tag written for a field number below \<open>2^29\<close> and a wire type below 8 reads back
  as eight times the field number plus the wire type, so both can be recovered.\<close>

theorem tag_inverse:
  assumes "unat field_number < 2 ^ 29" and "type < 8"
  shows "\<exists>t. ReadVarint32 (Some (WriteTagToArray field_number type [] @ rest)) = Inr (Some rest, t)
    \<and> unat t = unat field_number * 8 + unat type"
  using unat_tag [OF assms] by (simp add: WriteTagToArray_eq tag_bytes_def ReadVarint32_enc_u32)

theorem tag_inverse_witness:
  "\<exists>t. ReadVarint32 (Some (WriteTagToArray 300 2 [] @ [1])) = Inr (Some [1], t) \<and> unat t = unat (300 :: u32) * 8 + unat (2 :: u32)"
  by (rule tag_inverse) simp_all

text \<open>A repeated int32 field is its tag and a packed sequence; reading the sequence
  consumes exactly its bytes and appends the elements, in order, to what the vector held.\<close>

theorem packed_int32_roundtrip:
  assumes "10 * length vs < 2 ^ 32"
  shows "\<exists>body. WriteRepeatedInt32ToArray field_number vs target
      = WriteTagToArray field_number PROTOBUF_LENGTH_DELIMITED_TYPE target @ body
    \<and> ReadPacked ReadVarint32 (Some (body @ rest)) old = Inr (Some rest, old @ vs)"
proof -
  have "length (enc_i32 v) \<le> 10" for v
    using unat_less [of "scast v :: u64"] unfolding enc_i32_def enc_u64_def
    by (intro length_varint_le) simp_all
  then have "length (concat (map enc_i32 vs)) \<le> 10 * length vs"
    by (induction vs) (auto intro: add_mono)
  with assms have "length (concat (map enc_i32 vs)) < 2 ^ 32" by linarith
  then have "ReadPacked ReadVarint32 (Some (enc_packed enc_i32 vs @ rest)) old
      = Inr (Some rest, old @ map id vs)"
    by (intro c_int32.ReadPacked_enc) (simp_all add: list_all_iff)
  then show ?thesis
    by (intro exI [of _ "enc_packed enc_i32 vs"]) (simp add: repeated_writers WriteTagToArray_eq)
qed

theorem packed_int32_roundtrip_witness:
  "\<exists>body. WriteRepeatedInt32ToArray 4 [1, - 1, 300] [9]
      = WriteTagToArray 4 PROTOBUF_LENGTH_DELIMITED_TYPE [9] @ body
    \<and> ReadPacked ReadVarint32 (Some (body @ [0])) [5] = Inr (Some [0], [5] @ [1, - 1, 300])"
  by (rule packed_int32_roundtrip) simp

text \<open>A string below 2 GiB is read back whole; from 2 GiB to 4 GiB its length is
  negative as an \<open>int\<close> and the reader throws.\<close>

theorem string_roundtrip:
  assumes "length s < 2 ^ 32"
  shows "andThen (ReadVarint32 (Some (WriteStringNoTagToArray 0 s [] @ rest))) (\<lambda>(p, len). ReadString p len)
    = (if length s < 2 ^ 31 then Inr (Some rest, s) else Inl Length_error)"
proof (cases "length s < 2 ^ 31")
  case True
  then show ?thesis
    using read_string_enc [OF True, of rest] by (simp add: read_string_def WriteStringNoTagToArray_eq)
next
  case False
  let ?n = "of_nat (length s) :: u32"
  have "int (length s) div 2 ^ 31 = 1" using False assms by (intro int_div_pos_eq [where r = "int (length s) - 2 ^ 31"]) simp_all
  then have "bit (int (length s)) 31" by (simp add: bit_iff_odd)
  then have "sint ?n < 0" by (simp add: signed_of_nat signed_take_bit_negative_iff)
  then show ?thesis
    using False by (simp add: WriteStringNoTagToArray_eq enc_string_def ReadVarint32_enc_u32 ReadString_def)
qed

theorem string_roundtrip_witness:
  "andThen (ReadVarint32 (Some (WriteStringNoTagToArray 0 [104, 105] [] @ [0]))) (\<lambda>(p, len). ReadString p len)
    = (if length [104, 105 :: u8] < 2 ^ 31 then Inr (Some [0], [104, 105]) else Inl Length_error)"
  by (rule string_roundtrip) simp

text \<open>\<open>WriteRepeatedBytesToArray\<close> passes the software type code of repeated bytes as wire
  type and the number of elements as length: for field 1 it writes the tag of field 3 with the
  obsolete wire type 5, and the length that follows is not that of the elements.\<close>

theorem repeated_bytes_tag:
  "\<exists>body. WriteRepeatedBytesToArray 1 values [] = WriteTagToArray 3 PROTOBUF_32BIT_TYPE [] @ body
     \<and> ReadVarint32 (Some body) = Inr (Some (concat (map enc_string values)), of_nat (length values))"
proof -
  have "fold (WriteBytesNoTagToArray 0) values t = t @ concat (map enc_string values)" for t
    by (rule fold_append_concat)
      (simp add: WriteBytesNoTagToArray_def WriteVarint32ToArray_eq enc_string_def Let_def)
  moreover have "push_bit 3 1 OR ucast (sw_code sw_repeated_bytes_type) = push_bit 3 3 OR PROTOBUF_32BIT_TYPE"
    by (simp add: protobuf_types)
  ultimately show ?thesis
    by (intro exI [of _ "enc_u32 (of_nat (length values)) @ concat (map enc_string values)"])
      (simp add: WriteRepeatedBytesToArray_def WriteTagToArray_eq WriteVarint32ToArray_eq Let_def
        tag_bytes_def ReadVarint32_enc_u32)
qed

end
