(* ===== verification/Parse.thy ===== *)
theory Parse
  imports Fpga_Table Wire_Format Decode Serialize
begin

text \<open>
  \<open>ParseFromString_DFS\<close> and \<open>ParseFromString\<close> of \<open>include/encode_main.h\<close> (lines 1566 to 1847).  The
  parser is driven by the class table alone: it walks the fields of the class from the last to the
  first, stepping back through the new object, and expects in the buffer exactly the fields whose
  inline bit is set in the FPGA table.  The value of the length prefix and of the tag is read and
  ignored.  A sub-message is created by \<open>createMessage\<close> on the class number the table holds.  The
  nesting depth is bounded by an explicit fuel, which stands for the stack; \<open>depth\<close> is enough.
\<close>

section \<open>One field\<close>

definition Parse_strings ::
  "bool \<Rightarrow> sw_type \<Rightarrow> rptr \<Rightarrow> cells \<Rightarrow> int \<Rightarrow> (rptr \<times> cells \<times> int) result" where
  "Parse_strings skip_flag ty cur cells obj_addr =
     (case ty of
       sw_string_type \<Rightarrow>
         (let obj_addr = obj_addr - 32 in
          if skip_flag then Inr (cur, cells, obj_addr)
          else
            andThen (ReadVarint32 cur) (\<lambda>(cur, string_length).
            andThen (ReadString cur string_length) (\<lambda>(cur, s).
            andThen (store_val (\<lambda>v. as_string v \<noteq> None) cells obj_addr (VStr s)) (\<lambda>cells.
              Inr (cur, cells, obj_addr)))))
     | sw_repeated_string_type \<Rightarrow>
         (let obj_addr = obj_addr - 24 in
          if skip_flag then Inr (cur, cells, obj_addr)
          else
            andThen (load_as as_rstring cells obj_addr) (\<lambda>old.
            andThen (ReadPacked read_string cur old) (\<lambda>(cur, vec).
              Inr (cur, store cells obj_addr (OVal (RStr vec)), obj_addr))))
     | sw_bytes_type \<Rightarrow>
         (let obj_addr = obj_addr - 32 in
          if skip_flag then Inr (cur, cells, obj_addr)
          else
            andThen (ReadVarint32 cur) (\<lambda>(cur, string_length).
            andThen (ReadString cur string_length) (\<lambda>(cur, s).
            andThen (store_val (\<lambda>v. as_string v \<noteq> None) cells obj_addr (VStr s)) (\<lambda>cells.
              Inr (cur, cells, obj_addr)))))
     | sw_repeated_bytes_type \<Rightarrow>
         (let obj_addr = obj_addr - 24 in
          if skip_flag then Inr (cur, cells, obj_addr)
          else
            andThen (load_as as_rstring cells obj_addr) (\<lambda>old.
            andThen (ReadPacked read_string cur old) (\<lambda>(cur, vec).
              Inr (cur, store cells obj_addr (OVal (RStr vec)), obj_addr))))
     | _ \<Rightarrow> Inr (cur, cells, obj_addr))"

definition Parse_fixed ::
  "bool \<Rightarrow> sw_type \<Rightarrow> rptr \<Rightarrow> cells \<Rightarrow> int \<Rightarrow> (rptr \<times> cells \<times> int) result" where
  "Parse_fixed skip_flag ty cur cells obj_addr =
     (case ty of
       sw_bool_type \<Rightarrow>
         (let obj_addr = obj_addr - 8 in
          andThen (ReadVarint32 cur) (\<lambda>(cur, v).
          andThen (store_val is_scalar cells obj_addr (VBool (v \<noteq> 0))) (\<lambda>cells.
            Inr (cur, cells, obj_addr))))
     | sw_repeated_bool_type \<Rightarrow>
         (let obj_addr = obj_addr - 24 in
          andThen (load_as as_r8 cells obj_addr) (\<lambda>old.
          andThen (ReadPacked ReadBoolByte cur old) (\<lambda>(cur, vec).
            Inr (cur, store cells obj_addr (OVal (R8 vec)), obj_addr))))
     | sw_sint32_type \<Rightarrow>
         (let obj_addr = obj_addr - 8 in
          andThen (ReadVarint32 cur) (\<lambda>(cur, v).
          andThen (store_val is_scalar cells obj_addr (V32 v)) (\<lambda>cells.
            Inr (cur, cells, obj_addr))))
     | sw_double_type \<Rightarrow>
         (let obj_addr = obj_addr - 8 in
          andThen (ReadDouble cur) (\<lambda>(cur, v).
          andThen (store_val is_scalar cells obj_addr (VDouble v)) (\<lambda>cells.
            Inr (cur, cells, obj_addr))))
     | sw_float_type \<Rightarrow>
         (let obj_addr = obj_addr - 8 in
          andThen (ReadFloat cur) (\<lambda>(cur, v).
          andThen (store_val is_scalar cells obj_addr (VFloat v)) (\<lambda>cells.
            Inr (cur, cells, obj_addr))))
     | sw_repeated_float_type \<Rightarrow>
         (let obj_addr = obj_addr - 24 in
          andThen (load_as as_rfloat cells obj_addr) (\<lambda>old.
          andThen (ReadPacked ReadFloat cur old) (\<lambda>(cur, vec).
            Inr (cur, store cells obj_addr (OVal (RFloat vec)), obj_addr))))
     | sw_fix32_type \<Rightarrow>
         (let obj_addr = obj_addr - 8 in
          andThen (ReadFixed32 cur) (\<lambda>(cur, v).
          andThen (store_val is_scalar cells obj_addr (V32 v)) (\<lambda>cells.
            Inr (cur, cells, obj_addr))))
     | sw_fix64_type \<Rightarrow>
         (let obj_addr = obj_addr - 8 in
          andThen (ReadFixed64 cur) (\<lambda>(cur, v).
          andThen (store_val is_scalar cells obj_addr (V64 v)) (\<lambda>cells.
            Inr (cur, cells, obj_addr))))
     | sw_repeated_fix64_type \<Rightarrow>
         (let obj_addr = obj_addr - 24 in
          andThen (load_as as_r64 cells obj_addr) (\<lambda>old.
          andThen (ReadPacked ReadFixed64 cur old) (\<lambda>(cur, vec).
            Inr (cur, store cells obj_addr (OVal (R64 vec)), obj_addr))))
     | sw_enum_type \<Rightarrow>
         (let obj_addr = obj_addr - 8 in
          andThen (ReadVarint32 cur) (\<lambda>(cur, v).
          andThen (store_val is_scalar cells obj_addr (V32 v)) (\<lambda>cells.
            Inr (cur, cells, obj_addr))))
     | sw_repeated_enum_type \<Rightarrow>
         (let obj_addr = obj_addr - 24 in
          andThen (load_as as_r32 cells obj_addr) (\<lambda>old.
          andThen (ReadPacked ReadVarint32 cur old) (\<lambda>(cur, vec).
            Inr (cur, store cells obj_addr (OVal (R32 vec)), obj_addr))))
     | _ \<Rightarrow> Parse_strings skip_flag ty cur cells obj_addr)"

definition Parse_field ::
  "bool \<Rightarrow> sw_type \<Rightarrow> rptr \<Rightarrow> cells \<Rightarrow> int \<Rightarrow> (rptr \<times> cells \<times> int) result" where
  "Parse_field skip_flag ty cur cells obj_addr =
     (case ty of
       sw_int32_type \<Rightarrow>
         (let obj_addr = obj_addr - 8 in
          andThen (ReadVarint32 cur) (\<lambda>(cur, v).
          andThen (store_val is_scalar cells obj_addr (V32 v)) (\<lambda>cells.
            Inr (cur, cells, obj_addr))))
     | sw_repeated_int32_type \<Rightarrow>
         (let obj_addr = obj_addr - 24 in
          andThen (load_as as_r32 cells obj_addr) (\<lambda>old.
          andThen (ReadPacked ReadVarint32 cur old) (\<lambda>(cur, vec).
            Inr (cur, store cells obj_addr (OVal (R32 vec)), obj_addr))))
     | sw_int64_type \<Rightarrow>
         (let obj_addr = obj_addr - 8 in
          andThen (ReadVarint64 cur) (\<lambda>(cur, v).
          andThen (store_val is_scalar cells obj_addr (V64 v)) (\<lambda>cells.
            Inr (cur, cells, obj_addr))))
     | sw_repeated_int64_type \<Rightarrow>
         (let obj_addr = obj_addr - 24 in
          andThen (load_as as_r64 cells obj_addr) (\<lambda>old.
          andThen (ReadPacked ReadVarint64 cur old) (\<lambda>(cur, vec).
            Inr (cur, store cells obj_addr (OVal (R64 vec)), obj_addr))))
     | sw_uint64_type \<Rightarrow>
         (let obj_addr = obj_addr - 8 in
          andThen (ReadVarint64 cur) (\<lambda>(cur, v).
          andThen (store_val is_scalar cells obj_addr (V64 v)) (\<lambda>cells.
            Inr (cur, cells, obj_addr))))
     | sw_repeated_uint64_type \<Rightarrow>
         (let obj_addr = obj_addr - 24 in
          andThen (load_as as_r64 cells obj_addr) (\<lambda>old.
          andThen (ReadPacked ReadVarint64 cur old) (\<lambda>(cur, vec).
            Inr (cur, store cells obj_addr (OVal (R64 vec)), obj_addr))))
     | sw_uint32_type \<Rightarrow>
         (let obj_addr = obj_addr - 8 in
          andThen (ReadVarint32 cur) (\<lambda>(cur, v).
          andThen (store_val is_scalar cells obj_addr (V32 v)) (\<lambda>cells.
            Inr (cur, cells, obj_addr))))
     | sw_repeated_uint32_type \<Rightarrow>
         (let obj_addr = obj_addr - 24 in
          andThen (load_as as_r32 cells obj_addr) (\<lambda>old.
          andThen (ReadPacked ReadVarint32 cur old) (\<lambda>(cur, vec).
            Inr (cur, store cells obj_addr (OVal (R32 vec)), obj_addr))))
     | _ \<Rightarrow> Parse_fixed skip_flag ty cur cells obj_addr)"

section \<open>The walk\<close>

text \<open>The arrays and the class constructor the parser is given.  \<open>createMessage\<close> returns the members of
  a new object; its metadata pointer is set by the parser right after.\<close>

record tables =
  metadataVec :: "u32 \<Rightarrow> Metadata"
  messageSizeVec :: "u32 \<Rightarrow> u64"
  FPGA_metadataVec :: fpga_table
  createMessage :: "u32 \<Rightarrow> cells result"

text \<open>The length and the tag, read only for an inline field that is no sub-message.\<close>

definition ReadHeader :: "bool \<Rightarrow> rptr \<Rightarrow> rptr result" where
  "ReadHeader wanted cur =
     (if wanted then
        andThen (ReadFieldLength cur) (\<lambda>(cur, field_length).
        andThen (ReadVarint32 cur) (\<lambda>(cur, tag). Inr cur))
      else Inr cur)"

fun Parse_loop ::
  "(u32 \<Rightarrow> cells \<Rightarrow> rptr \<Rightarrow> (rptr \<times> cells) result) \<Rightarrow> tables \<Rightarrow> u32 \<Rightarrow>
   (u8 \<times> u8) list \<Rightarrow> int \<Rightarrow> cells \<Rightarrow> rptr \<Rightarrow> (rptr \<times> cells) result" where
  "Parse_loop self T idx [] obj_addr cells cur = Inr (cur, cells)"
| "Parse_loop self T idx ((w, fid) # fs) obj_addr cells cur =
     andThen (get_field (FPGA_metadataVec T idx) (scast fid)) (\<lambda>entry.
       let skip_flag = (field_type entry AND 1 = 0) in
       andThen (ReadHeader (w \<noteq> sw_code sw_ptr_type \<and> \<not> skip_flag) cur) (\<lambda>cur.
       case decode_sw w of
         None \<Rightarrow> Parse_loop self T idx fs obj_addr cells cur
       | Some t \<Rightarrow>
           if t = sw_ptr_type then
             let obj_addr = obj_addr - 8;
                 next_metadata_idx = ucast (sub_class_id entry)
             in
             andThen (createMessage T next_metadata_idx) (\<lambda>next_obj.
             andThen (self next_metadata_idx next_obj cur) (\<lambda>(cur, next_cells).
             andThen (store_object cells obj_addr (Obj (metadataVec T next_metadata_idx) next_cells))
               (\<lambda>cells. Parse_loop self T idx fs obj_addr cells cur)))
           else
             andThen (Parse_field skip_flag t cur cells obj_addr) (\<lambda>(cur, cells, obj_addr).
               Parse_loop self T idx fs obj_addr cells cur)))"

fun ParseFromString_DFS ::
  "nat \<Rightarrow> tables \<Rightarrow> u32 \<Rightarrow> cells \<Rightarrow> rptr \<Rightarrow> (rptr \<times> cells) result" where
  "ParseFromString_DFS 0 T current_metadata_idx cells cur = Inl Out_of_fuel"
| "ParseFromString_DFS (Suc fuel) T current_metadata_idx cells cur =
     andThen (metadata_fields (metadataVec T current_metadata_idx)) (\<lambda>fields.
       Parse_loop (ParseFromString_DFS fuel T) T current_metadata_idx (rev fields)
         (int (unat (messageSizeVec T current_metadata_idx))) cells cur)"

text \<open>The parser reads from \<open>&data[0]\<close>; a \<open>std::string\<close> is followed by a null byte.\<close>

definition ParseFromString :: "nat \<Rightarrow> bytes \<Rightarrow> obj \<Rightarrow> u16 \<Rightarrow> tables \<Rightarrow> obj result" where
  "ParseFromString fuel data message current_metadata_idx T =
     andThen (ParseFromString_DFS fuel T (ucast current_metadata_idx) (obj_cells message)
                (Some (data @ [0])))
       (\<lambda>(cur, cells). Inr (Obj (metadataVec T (ucast current_metadata_idx)) cells))"

section \<open>What the receiver gets\<close>

text \<open>A field sent inline arrives as it was, except that the elements of a repeated bool become 0 or
  1; a field left out stays as the constructor made it, empty.\<close>

fun norm_val :: "cval \<Rightarrow> cval" where
  "norm_val (R8 bs) = R8 (map norm_bool bs)"
| "norm_val c = c"

fun empty_val :: "cval \<Rightarrow> cval" where
  "empty_val (VStr s) = VStr []"
| "empty_val (RStr ss) = RStr []"
| "empty_val c = c"

fun received :: "bool \<Rightarrow> msg \<Rightarrow> msg"
  and received_val :: "bool \<Rightarrow> mval \<Rightarrow> mval" where
  "received skip (Msg md vs) = Msg md (map (received_val skip) vs)"
| "received_val skip (MVal c) = MVal (if skip \<and> long_value c then empty_val c else norm_val c)"
| "received_val skip (MSub m) = MSub (received skip m)"

lemma cval_kind_norm [simp]: "cval_kind (norm_val c) = cval_kind c" "cval_kind (empty_val c) = cval_kind c"
  by (cases c; simp)+

lemma mval_stride_received [simp]: "mval_stride (received_val skip v) = mval_stride v"
  by (cases v) simp_all

text \<open>The sizes the parser can take: string lengths pass through an \<open>int\<close>, packed lengths through a
  \<open>uint32_t\<close>.\<close>

fun short_strings :: "cval \<Rightarrow> bool" where
  "short_strings (VStr s) \<longleftrightarrow> length s < 2 ^ 31"
| "short_strings (RStr ss) \<longleftrightarrow> list_all (\<lambda>s. length s < 2 ^ 31) ss"
| "short_strings _ \<longleftrightarrow> True"

definition parsable :: "sw_type \<Rightarrow> cval \<Rightarrow> bool" where
  "parsable t c \<longleftrightarrow> short_strings c \<and> length (packed_part c t) < 2 ^ 32"

fun fits :: "bool \<Rightarrow> msg \<Rightarrow> bool"
  and fits_val :: "bool \<Rightarrow> sw_type \<times> u8 \<Rightarrow> mval \<Rightarrow> bool"
  and fits_fields :: "bool \<Rightarrow> (sw_type \<times> u8) list \<Rightarrow> mval list \<Rightarrow> bool" where
  "fits skip (Msg md vs) \<longleftrightarrow> fits_fields skip (md_fields md) vs"
| "fits_val skip f (MVal c) \<longleftrightarrow> (skip \<and> long_value c) \<or> parsable (fst f) c"
| "fits_val skip f (MSub m) \<longleftrightarrow> fits skip m"
| "fits_fields skip (f # fs) (v # vs) \<longleftrightarrow> fits_val skip f v \<and> fits_fields skip fs vs"
| "fits_fields skip fs vs \<longleftrightarrow> True"

lemma fits_fields_snoc:
  "length fs = length vs \<Longrightarrow>
   fits_fields skip (fs @ [f]) (vs @ [v]) \<longleftrightarrow> fits_fields skip fs vs \<and> fits_val skip f v"
  by (induction fs vs rule: list_induct2) auto

text \<open>The nesting depth of a message, the fuel that parsing it takes.\<close>

fun depth :: "msg \<Rightarrow> nat"
  and depth_val :: "mval \<Rightarrow> nat" where
  "depth (Msg md vs) = Suc (fold max (map depth_val vs) 0)"
| "depth_val (MVal c) = 0"
| "depth_val (MSub m) = depth m"

lemma depth_sub: "MSub m \<in> set vs \<Longrightarrow> depth m < depth (Msg md vs)"
proof -
  have "fold max ns (a :: nat) \<ge> a \<and> (\<forall>n \<in> set ns. n \<le> fold max ns a)" for ns a
    by (induction ns arbitrary: a) (auto intro: order.trans [OF max.cobounded2] order.trans [OF max.cobounded1])
  then have "\<forall>n \<in> set (map depth_val vs). n \<le> fold max (map depth_val vs) 0" by blast
  moreover assume "MSub m \<in> set vs"
  then have "depth_val (MSub m) \<in> set (map depth_val vs)" by (auto simp del: depth_val.simps)
  ultimately have "depth_val (MSub m) \<le> fold max (map depth_val vs) 0" by blast
  then show ?thesis by simp
qed

section \<open>New objects\<close>

text \<open>What \<open>createMessage\<close> promises: the members of the class at their offsets, strings and vectors
  empty, scalars of any content.\<close>

fun blank_val :: "kind \<Rightarrow> cval \<Rightarrow> bool" where
  "blank_val KStr c \<longleftrightarrow> c = VStr []"
| "blank_val KR32 c \<longleftrightarrow> c = R32 []"
| "blank_val KR64 c \<longleftrightarrow> c = R64 []"
| "blank_val KR8 c \<longleftrightarrow> c = R8 []"
| "blank_val KRFloat c \<longleftrightarrow> c = RFloat []"
| "blank_val KRStr c \<longleftrightarrow> c = RStr []"
| "blank_val KPtr c \<longleftrightarrow> False"
| "blank_val _ c \<longleftrightarrow> is_scalar c"

definition blank_for :: "sw_type \<Rightarrow> ocell \<Rightarrow> bool" where
  "blank_for t c \<longleftrightarrow> (case kind_of t of None \<Rightarrow> False
     | Some k \<Rightarrow> (case c of OPtr p \<Rightarrow> k = KPtr | OVal v \<Rightarrow> blank_val k v))"

definition type_stride :: "sw_type \<Rightarrow> int" where
  "type_stride t = (case kind_of t of None \<Rightarrow> 0 | Some k \<Rightarrow> kind_stride k)"

fun offsets :: "int \<Rightarrow> (sw_type \<times> u8) list \<Rightarrow> int list" where
  "offsets off [] = []"
| "offsets off (f # fs) = off # offsets (off + type_stride (fst f)) fs"

definition blank_cells :: "int \<Rightarrow> (sw_type \<times> u8) list \<Rightarrow> cells \<Rightarrow> bool" where
  "blank_cells off fs cs \<longleftrightarrow>
     map fst cs = offsets off fs \<and> list_all2 (\<lambda>f kc. blank_for (fst f) (snd kc)) fs cs"

lemma offsets_snoc:
  "offsets off (fs @ [f]) = offsets off fs @ [off + sum_list (map (\<lambda>f. type_stride (fst f)) fs)]"
  by (induction fs arbitrary: off) (simp_all add: add.assoc)

lemma list_all2_snoc1:
  "list_all2 P (xs @ [x]) ys \<longleftrightarrow> (\<exists>zs z. ys = zs @ [z] \<and> list_all2 P xs zs \<and> P x z)"
  by (cases ys rule: rev_cases)
    (simp_all add: list_all2_rev [symmetric, where xs = "xs @ [x]"] list_all2_rev conj_commute)

lemma blank_cells_snoc:
  assumes "blank_cells off (fs @ [f]) cs"
  obtains cs' c where "cs = cs' @ [(off + sum_list (map (\<lambda>f. type_stride (fst f)) fs), c)]"
    "blank_cells off fs cs'" "blank_for (fst f) c"
  using assms by (auto simp: blank_cells_def offsets_snoc list_all2_snoc1)

lemma field_ok_kind: "field_ok f v \<Longrightarrow> kind_of (fst f) \<noteq> None"
  unfolding field_ok_def by blast

lemma field_ok_stride: "field_ok f v \<Longrightarrow> type_stride (fst f) = mval_stride v"
  by (auto simp: field_ok_def type_stride_def mval_stride_kind split: option.split)

lemma fields_ok_stride:
  "list_all2 field_ok fs vs \<Longrightarrow> sum_list (map (\<lambda>f. type_stride (fst f)) fs) = strides vs"
  by (induction rule: list_all2_induct) (simp_all add: field_ok_stride)

lemma type_stride_nonneg: "0 \<le> type_stride t"
  by (simp add: type_stride_def kind_stride_pos less_imp_le split: option.split)

lemma offsets_less:
  assumes "list_all (\<lambda>f. kind_of (fst f) \<noteq> None) fs" and "k \<in> set (offsets off fs)"
  shows "k < off + sum_list (map (\<lambda>f. type_stride (fst f)) fs)"
  using assms
proof (induction fs arbitrary: off)
  case (Cons f fs)
  have "0 < type_stride (fst f)"
    using Cons.prems(1) kind_stride_pos by (auto simp: type_stride_def)
  moreover have "0 \<le> sum_list (map (\<lambda>f. type_stride (fst f)) fs)"
    by (rule sum_list_nonneg) (auto simp: type_stride_nonneg)
  ultimately show ?case
    using Cons.IH [of "off + type_stride (fst f)"] Cons.prems
    by (cases "k = off") (simp_all add: add.assoc del: not_None_eq)
qed simp

lemma blank_cells_keys:
  assumes "blank_cells off fs cs" and "list_all2 field_ok fs vs" and "k \<in> fst ` set cs"
  shows "k < off + strides vs"
proof -
  have "list_all (\<lambda>f. kind_of (fst f) \<noteq> None) fs"
    using assms(2) by (induction rule: list_all2_induct) (simp_all add: field_ok_kind del: not_None_eq)
  moreover have "k \<in> set (offsets off fs)"
    using assms(1,3) by (metis blank_cells_def set_map)
  ultimately show ?thesis
    using offsets_less fields_ok_stride [OF assms(2)] by metis
qed

lemma layout_keys: "k \<in> fst ` set (layout_fields off vs) \<Longrightarrow> off \<le> k"
proof (induction vs arbitrary: off)
  case (Cons v vs)
  then show ?case using mval_stride_pos [of v] by fastforce
qed simp

text \<open>Writing the member at \<open>k\<close> leaves the members before and after it alone.\<close>

lemma load_mid: "k \<notin> fst ` set xs \<Longrightarrow> load (xs @ (k, c) # ys) k = Inr c"
  by (auto simp: load_def map_add_def dest!: map_of_SomeD split: option.split intro: rev_image_eqI)

lemma store_other: "k \<notin> fst ` set xs \<Longrightarrow> store xs k d = xs"
  by (induction xs) (auto simp: store_def)

lemma store_mid:
  "k \<notin> fst ` set xs \<Longrightarrow> k \<notin> fst ` set ys \<Longrightarrow> store (xs @ (k, c) # ys) k d = xs @ (k, d) # ys"
  using store_other [of k xs d] store_other [of k ys d] by (simp add: store_def)

section \<open>Parsing one field\<close>


lemmas scalar_reads =
  ReadVarint32_enc_i32 ReadVarint32_enc_u32 ReadVarint64_enc_u64 ReadVarint32_enc_bool
  ReadFixed32_enc ReadFixed64_enc ReadFloat_enc ReadDouble_enc

lemmas packed_reads =
  c_int32.ReadPacked_enc c_int64.ReadPacked_enc c_uint32.ReadPacked_enc c_bool.ReadPacked_enc
  c_float.ReadPacked_enc c_fixed64.ReadPacked_enc c_string.ReadPacked_enc

lemmas parse_field_simps =
  scalar_reads packed_reads parsable_def packed_part_def load_as_def store_val_def list_all_iff

lemma Parse_field_eq:
  assumes "kind_of t = Some k" and "cval_kind c = Some k"
    and "load cells (off - kind_stride k) = Inr (OVal b)" and "blank_val k b" and "parsable t c"
  shows "Parse_field False t (Some (payload t c @ rest)) cells off
     = Inr (Some rest, store cells (off - kind_stride k) (OVal (norm_val c)), off - kind_stride k)"
proof -
  have S: "read_string p = andThen (ReadVarint32 p) (\<lambda>(p, n). ReadString p n)" for p
    by (simp add: read_string_def)
  have R: "andThen (ReadVarint32 (Some (enc_string s @ rest))) (\<lambda>(p, n). andThen (ReadString p n) h)
      = h (Some rest, s)" if "length s < 2 ^ 31" for s and h :: "rptr \<times> bytes \<Rightarrow> 'h result"
  proof -
    have "andThen (ReadVarint32 (Some (enc_string s @ rest))) (\<lambda>(p, n). andThen (ReadString p n) h)
        = andThen (read_string (Some (enc_string s @ rest))) h"
      unfolding S andThen_assoc by (simp only: split_def)
    then show ?thesis using read_string_enc [OF that] by simp
  qed
  show ?thesis
    using assms
    by (cases t; simp only: kind_of.simps option.distinct option.inject)
      (auto simp: cval_kind_iff Parse_field_def Parse_fixed_def Parse_strings_def Let_def
        parse_field_simps R)
qed

lemma Parse_field_skip:
  assumes "kind_of t = Some k" and "cval_kind c = Some k" and "long_value c"
  shows "Parse_field True t cur cells off = Inr (cur, cells, off - kind_stride k)"
  using assms
  by (cases t; simp only: kind_of.simps option.distinct option.inject)
    (auto simp: cval_kind_iff Parse_field_def Parse_fixed_def Parse_strings_def Let_def)

section \<open>Parsing a message\<close>

text \<open>What the table must say of the fields of a class, for one message of it: the inline bit is set
  exactly for the fields the sender wrote, and a sub-message field names the class of the value.\<close>

definition entry_agrees :: "bool \<Rightarrow> FPGA_Metadata \<Rightarrow> sw_type \<times> u8 \<Rightarrow> mval \<Rightarrow> bool" where
  "entry_agrees skip row f v \<longleftrightarrow>
     unat (snd f) < length (field row) \<and>
     (let entry = field row ! unat (snd f) in
      case v of
        MVal c \<Rightarrow> inline_bit entry \<longleftrightarrow> \<not> (skip \<and> long_value c)
      | MSub m \<Rightarrow> ucast (sub_class_id entry) = class_id (msg_metadata m))"

fun table_agrees :: "bool \<Rightarrow> fpga_table \<Rightarrow> msg \<Rightarrow> bool"
  and table_agrees_val :: "bool \<Rightarrow> fpga_table \<Rightarrow> mval \<Rightarrow> bool" where
  "table_agrees skip tab (Msg md vs) \<longleftrightarrow>
     list_all2 (entry_agrees skip (tab (class_id md))) (md_fields md) vs
       \<and> list_all (table_agrees_val skip tab) vs"
| "table_agrees_val skip tab (MVal c) \<longleftrightarrow> True"
| "table_agrees_val skip tab (MSub m) \<longleftrightarrow> table_agrees skip tab m"

text \<open>The registry knows the class of every object of the message: its descriptor, and a constructor
  that makes a blank object of it.\<close>

definition knows_class :: "tables \<Rightarrow> Metadata \<Rightarrow> bool" where
  "knows_class T md \<longleftrightarrow> metadataVec T (class_id md) = md \<and>
     (case createMessage T (class_id md) of Inl e \<Rightarrow> False
      | Inr cs \<Rightarrow> blank_cells first_member (md_fields md) cs)"

fun registered :: "tables \<Rightarrow> msg \<Rightarrow> bool"
  and registered_val :: "tables \<Rightarrow> mval \<Rightarrow> bool" where
  "registered T (Msg md vs) \<longleftrightarrow> knows_class T md \<and> list_all (registered_val T) vs"
| "registered_val T (MVal c) \<longleftrightarrow> True"
| "registered_val T (MSub m) \<longleftrightarrow> registered T m"

lemma registered_class: "registered T m \<Longrightarrow> knows_class T (msg_metadata m)"
  by (cases m) simp

lemma ReadHeader_enc:
  "ReadHeader True (Some (le_bytes 2 (unat (n :: u16)) @ tag t fid c @ rest)) = Inr (Some rest)"
  by (simp add: ReadHeader_def ReadFieldLength_le tag_def tag_bytes_def ReadVarint32_enc_u32)

lemma ReadHeader_none [simp]: "ReadHeader False cur = Inr cur"
  by (simp add: ReadHeader_def)

lemma get_field_agrees:
  assumes "entry_agrees skip row f v" and "unat (snd f) < 128"
  shows "get_field row (scast (snd f)) = Inr (field row ! unat (snd f))"
  using assms by (simp add: get_field_def entry_agrees_def unat_scast_field_id)

text \<open>One turn of the loop: the last field not yet parsed is read from the front of the buffer and
  written to the last member not yet filled.\<close>

lemma Parse_loop_step:
  assumes f: "field_ok (dec_field f) v" and agr: "entry_agrees skip (FPGA_metadataVec T idx) (dec_field f) v"
    and fit: "fits_val skip (dec_field f) v"
    and fresh: "off \<notin> fst ` set bs" "off \<notin> fst ` set ls" and b: "blank_for (fst (dec_field f)) b"
    and sub: "\<And>m rest. v = MSub m \<Longrightarrow> \<exists>ob. createMessage T (class_id (msg_metadata m)) = Inr ob
       \<and> self (class_id (msg_metadata m)) ob (Some (msg_bytes field_bytes skip m @ rest))
           = Inr (Some rest, obj_cells (layout (received skip m)))
       \<and> metadataVec T (class_id (msg_metadata m)) = msg_metadata m"
  shows "Parse_loop self T idx (f # fs) (off + mval_stride v) (bs @ (off, b) # ls)
       (Some (val_bytes field_bytes skip (dec_field f) v @ rest))
     = Parse_loop self T idx fs off (bs @ (off, layout_val (received_val skip v)) # ls) (Some rest)"
proof -
  obtain w fid where wf: "f = (w, fid)" by (cases f)
  let ?t = "fst (dec_field f)" and ?row = "FPGA_metadataVec T idx"
  let ?entry = "field ?row ! unat fid"
  have dec: "decode_sw w = Some ?t" and snd: "snd (dec_field f) = fid"
    using dec_field_ok [OF f] by (simp_all add: wf dec_field_def)
  have get: "get_field ?row (scast fid) = Inr ?entry"
    using get_field_agrees [OF agr] f snd by (simp add: field_ok_def)
  note at = load_mid [OF fresh(1), of b ls] and st = store_mid [OF fresh]
  show ?thesis
  proof (cases v)
    case (MVal c)
    then obtain k where k: "kind_of ?t = Some k" "cval_kind c = Some k"
      using f by (auto simp: field_ok_def)
    then have np: "?t \<noteq> sw_ptr_type" by (auto simp: cval_kind_iff)
    then have npw: "w \<noteq> sw_code sw_ptr_type"
      using dec decode_sw_code [of sw_ptr_type] by (metis option.inject)
    obtain b' where b': "b = OVal b'" "blank_val k b'"
      using b k by (auto simp: blank_for_def cval_kind_iff split: ocell.splits)
    have stride: "mval_stride v = kind_stride k" using MVal k(2) by simp
    have skip: "field_type ?entry AND 1 = 0 \<longleftrightarrow> skip \<and> long_value c"
      using agr snd MVal by (auto simp: entry_agrees_def inline_bit_def Let_def)
    show ?thesis
    proof (cases "skip \<and> long_value c")
      case True
      then have "b = OVal (empty_val c)"
        using b' k(2) by (cases c) (auto simp: blank_val.simps)
      with True show ?thesis
        using Parse_field_skip [OF k, of "Some rest"] get skip npw np dec snd k(2)
        by (simp add: wf MVal Let_def field_bytes_def)
    next
      case False
      have "Parse_field False ?t (Some (payload ?t c @ rest)) (bs @ (off, b) # ls)
          (off + kind_stride k)
        = Inr (Some rest, bs @ (off, OVal (norm_val c)) # ls, off)"
        using Parse_field_eq [OF k, of "bs @ (off, b) # ls" "off + kind_stride k" b' rest]
          at st fit False b' MVal by simp
      moreover have "val_bytes field_bytes skip (dec_field f) v
          = le_bytes 2 (unat (length_prefix ?t fid c)) @ tag ?t fid c @ payload ?t c"
        using False MVal snd by (auto simp: field_bytes_def field_body_def)
      moreover have "received_val skip v = MVal (norm_val c)" and "field_type ?entry AND 1 \<noteq> 0"
        using False MVal skip by auto
      ultimately show ?thesis
        using get npw np dec ReadHeader_enc [of "length_prefix ?t fid c" ?t fid c]
        by (simp add: wf stride Let_def)
    qed
  next
    case (MSub m)
    then have t: "?t = sw_ptr_type"
      using f by (cases ?t) (simp_all add: field_ok_def)
    then have w: "w = sw_code sw_ptr_type" using dec decode_sw_SomeD by metis
    obtain p where p: "b = OPtr p"
      using b t by (auto simp: blank_for_def split: ocell.splits)
    have cid: "ucast (sub_class_id ?entry) = class_id (msg_metadata m)"
      using agr snd MSub by (simp add: entry_agrees_def Let_def)
    obtain ob where ob: "createMessage T (class_id (msg_metadata m)) = Inr ob"
        "self (class_id (msg_metadata m)) ob (Some (msg_bytes field_bytes skip m @ rest))
           = Inr (Some rest, obj_cells (layout (received skip m)))"
        "metadataVec T (class_id (msg_metadata m)) = msg_metadata m"
      using sub [OF MSub, of rest] by blast
    have "Obj (msg_metadata m) (obj_cells (layout (received skip m))) = layout (received skip m)"
      by (cases m) simp
    moreover have "store_object (bs @ (off, b) # ls) off x
        = Inr (bs @ (off, OPtr (Some x)) # ls)" for x
      using at st p by (simp add: store_object_def)
    ultimately show ?thesis
      using get w t dec cid ob by (simp add: wf MSub Let_def)
  qed
qed

lemma Parse_loop_layout:
  assumes "list_all2 field_ok (map dec_field fs) vs"
    and "list_all2 (entry_agrees skip (FPGA_metadataVec T idx)) (map dec_field fs) vs"
    and "fits_fields skip (map dec_field fs) vs" and "blank_cells off (map dec_field fs) bs"
    and "\<And>m rest. MSub m \<in> set vs \<Longrightarrow> \<exists>ob. createMessage T (class_id (msg_metadata m)) = Inr ob
       \<and> self (class_id (msg_metadata m)) ob (Some (msg_bytes field_bytes skip m @ rest))
           = Inr (Some rest, obj_cells (layout (received skip m)))
       \<and> metadataVec T (class_id (msg_metadata m)) = msg_metadata m"
  shows "Parse_loop self T idx (rev fs) (off + strides vs)
       (bs @ layout_fields (off + strides vs) ws) (Some (fields_bytes field_bytes skip (map dec_field fs) vs @ rest))
     = Inr (Some rest, layout_fields off (map (received_val skip) vs @ ws))"
  using assms
proof (induction vs arbitrary: fs bs ws rule: rev_induct)
  case Nil
  then show ?case by (simp add: blank_cells_def)
next
  case (snoc v vs)
  then obtain f fs' where fs: "fs = fs' @ [f]" and f: "field_ok (dec_field f) v"
    and fs': "list_all2 field_ok (map dec_field fs') vs"
    by (auto simp: list_all2_snoc map_eq_append_conv)
  let ?ds = "map dec_field fs'" and ?stop = "off + strides vs"
  have len: "length ?ds = length vs" using fs' by (rule list_all2_lengthD)
  have agr: "list_all2 (entry_agrees skip (FPGA_metadataVec T idx)) ?ds vs"
      "entry_agrees skip (FPGA_metadataVec T idx) (dec_field f) v"
    using snoc.prems(2) by (auto simp: fs list_all2_snoc)
  have fit: "fits_fields skip ?ds vs" "fits_val skip (dec_field f) v"
    using snoc.prems(3) fits_fields_snoc [OF len] by (simp_all add: fs)
  have "blank_cells off (?ds @ [dec_field f]) bs" using snoc.prems(4) by (simp add: fs)
  then obtain bs' b where bs: "bs = bs' @ [(?stop, b)]" and bs': "blank_cells off ?ds bs'"
      and b: "blank_for (fst (dec_field f)) b"
    by (rule blank_cells_snoc [of off ?ds, unfolded fields_ok_stride [OF fs']])
  let ?ls = "layout_fields (?stop + mval_stride v) ws"
  have fresh: "?stop \<notin> fst ` set bs'" "?stop \<notin> fst ` set ?ls"
    using blank_cells_keys [OF bs' fs'] layout_keys [of ?stop "?stop + mval_stride v" ws]
      mval_stride_pos [of v] by force+
  have bytes: "fields_bytes field_bytes skip (map dec_field fs) (vs @ [v])
      = val_bytes field_bytes skip (dec_field f) v @ fields_bytes field_bytes skip ?ds vs"
    using fields_bytes_snoc [OF len] by (simp add: fs)
  have "Parse_loop self T idx (f # rev fs') (?stop + mval_stride v) (bs' @ (?stop, b) # ?ls)
      (Some (val_bytes field_bytes skip (dec_field f) v @ fields_bytes field_bytes skip ?ds vs @ rest))
    = Parse_loop self T idx (rev fs') ?stop (bs' @ (?stop, layout_val (received_val skip v)) # ?ls)
      (Some (fields_bytes field_bytes skip ?ds vs @ rest))"
    using snoc.prems(5) by (intro Parse_loop_step f agr fit fresh b) simp
  moreover have "Parse_loop self T idx (rev fs') ?stop
      (bs' @ layout_fields ?stop (received_val skip v # ws)) (Some (fields_bytes field_bytes skip ?ds vs @ rest))
    = Inr (Some rest, layout_fields off (map (received_val skip) vs @ received_val skip v # ws))"
    using snoc.prems(5) by (intro snoc.IH fs' agr fit bs') simp
  ultimately show ?case
    by (simp add: bytes) (simp add: fs bs add.assoc)
qed

lemma table_agrees_sub: "table_agrees skip tab (Msg md vs) \<Longrightarrow> MSub m \<in> set vs \<Longrightarrow> table_agrees skip tab m"
  by (auto simp: list_all_iff dest: bspec)

lemma registered_sub: "registered T (Msg md vs) \<Longrightarrow> MSub m \<in> set vs \<Longrightarrow> registered T m"
  by (auto simp: list_all_iff dest: bspec)

lemma fits_fields_sub:
  "fits_fields skip fs vs \<Longrightarrow> length fs = length vs \<Longrightarrow> MSub m \<in> set vs \<Longrightarrow> fits skip m"
proof (induction vs arbitrary: fs)
  case (Cons v vs)
  then show ?case by (cases fs) auto
qed simp

lemma ParseFromString_DFS_layout:
  assumes "wf_msg m" and "sizes_agree (messageSizeVec T) m" and "registered T m"
    and "table_agrees skip (FPGA_metadataVec T) m" and "fits skip m" and "depth m \<le> fuel"
    and "blank_cells first_member (md_fields (msg_metadata m)) cells"
  shows "ParseFromString_DFS fuel T (class_id (msg_metadata m)) cells (Some (msg_bytes field_bytes skip m @ rest))
     = Inr (Some rest, obj_cells (layout (received skip m)))"
  using assms
proof (induction m arbitrary: fuel cells rest rule: msg_induct)
  case (Msg md vs)
  let ?fs = "take (unat (field_num md)) (zip (wire_type md) (field_id md))"
  obtain fuel' where fuel: "fuel = Suc fuel'"
    using Msg.prems(6) by (cases fuel) simp_all
  have md: "metadataVec T (class_id md) = md"
    using Msg.prems(3) by (simp add: knows_class_def)
  have fields: "metadata_fields md = Inr ?fs"
    using Msg.prems(1) by (simp add: metadata_fields_ok)
  have ok: "list_all2 field_ok (map dec_field ?fs) vs"
    using Msg.prems(1) by (simp add: md_fields_alt)
  have sub: "\<exists>ob. createMessage T (class_id (msg_metadata m)) = Inr ob
       \<and> ParseFromString_DFS fuel' T (class_id (msg_metadata m)) ob
            (Some (msg_bytes field_bytes skip m @ rest))
           = Inr (Some rest, obj_cells (layout (received skip m)))
       \<and> metadataVec T (class_id (msg_metadata m)) = msg_metadata m"
    if m: "MSub m \<in> set vs" for m rest
  proof -
    have reg: "registered T m" using registered_sub [OF Msg.prems(3) m] .
    then obtain ob where ob: "createMessage T (class_id (msg_metadata m)) = Inr ob"
        "blank_cells first_member (md_fields (msg_metadata m)) ob"
        "metadataVec T (class_id (msg_metadata m)) = msg_metadata m"
      using registered_class [OF reg] by (auto simp: knows_class_def split: sum.splits)
    have "depth m \<le> fuel'" using depth_sub [OF m, of md] Msg.prems(6) fuel by simp
    moreover have "fits skip m"
      using Msg.prems(5) fits_fields_sub [OF _ list_all2_lengthD [OF ok] m] by (simp add: md_fields_alt)
    ultimately show ?thesis
      using Msg.IH [OF m] wf_msg_sub [OF Msg.prems(1) m] sizes_agree_sub [OF Msg.prems(2) m] reg
        table_agrees_sub [OF Msg.prems(4) m] ob by blast
  qed
  have "Parse_loop (ParseFromString_DFS fuel' T) T (class_id md) (rev ?fs) (first_member + strides vs)
      (cells @ layout_fields (first_member + strides vs) [])
      (Some (fields_bytes field_bytes skip (map dec_field ?fs) vs @ rest))
    = Inr (Some rest, layout_fields first_member (map (received_val skip) vs @ []))"
    using Msg.prems(4,5,7) by (intro Parse_loop_layout ok sub) (simp_all add: md_fields_alt)
  then show ?case
    using Msg.prems(2) fields md by (simp add: fuel md_fields_alt msg_sizeof_def)
qed

section \<open>Properties\<close>

text \<open>C2. The parser inverts the serializer, sub-messages included: given tables that
  know the classes and whose inline bits agree with the message, it consumes from a buffer exactly
  the bytes written for the message, leaves what follows, and fills the new object with the values
  sent; the nesting depth is enough fuel.  With skipping, long strings arrive empty.\<close>

theorem parse_inverts_serialize:
  assumes "wf_msg m" and "sizes_agree (messageSizeVec T) m" and "registered T m"
    and "table_agrees skip (FPGA_metadataVec T) m" and "fits skip m" and "depth m \<le> fuel"
    and "blank_cells first_member (md_fields (msg_metadata m)) cells"
  shows "\<exists>out. SerializeToString_DFS (layout m) [] skip (messageSizeVec T) = Inr out
    \<and> ParseFromString_DFS fuel T (class_id (msg_metadata m)) cells (Some (out @ rest))
        = Inr (Some rest, obj_cells (layout (received skip m)))"
  using ParseFromString_DFS_layout [OF assms] SerializeToString_DFS_layout [OF assms(1,2)] by simp

definition tree_tables :: tables where
  "tree_tables = \<lparr>metadataVec = \<lambda>c. if c = 1 then descriptor 1 [(sw_int32_type, 1), (sw_ptr_type, 2)]
       else descriptor 2 [(sw_string_type, 1)],
     messageSizeVec = tree_sizes,
     FPGA_metadataVec = \<lambda>_. \<lparr>fclass_id = 0, max_field_number = 0, class_length = 0,
       field = replicate 46 \<lparr>field_type = 1, reserve = 0, sub_class_id = 2\<rparr>\<rparr>,
     createMessage = \<lambda>c. Inr (if c = 1 then [(16, OVal Raw), (24, OPtr None)] else [(16, OVal (VStr []))])\<rparr>"

theorem parse_inverts_serialize_witness:
  "\<exists>out. SerializeToString_DFS (layout (tree [104, 105])) [] True (messageSizeVec tree_tables) = Inr out
    \<and> ParseFromString_DFS 2 tree_tables (class_id (msg_metadata (tree [104, 105])))
         [(16, OVal Raw), (24, OPtr None)] (Some (out @ [0]))
        = Inr (Some [0], obj_cells (layout (received True (tree [104, 105]))))"
proof (rule parse_inverts_serialize)
  note S = tree_def leaf_def tree_tables_def first_member_def blank_cells_def blank_for_def type_stride_def
  show "wf_msg (tree [104, 105])" by (rule tree_ok)
  show "sizes_agree (messageSizeVec tree_tables) (tree [104, 105])"
    using tree_ok(2) by (simp add: tree_tables_def)
  show "registered tree_tables (tree [104, 105])"
    by (simp add: S knows_class_def)
  show "table_agrees True (FPGA_metadataVec tree_tables) (tree [104, 105])"
    by (simp add: S entry_agrees_def inline_bit_def long_limit_def)
  show "fits True (tree [104, 105])"
    by (simp add: S parsable_def packed_part_def)
  show "depth (tree [104, 105]) \<le> 2" by (simp add: S)
  show "blank_cells first_member (md_fields (msg_metadata (tree [104, 105]))) [(16, OVal Raw), (24, OPtr None)]"
    by (simp add: S)
qed

text \<open>The parser does not use what the length prefix and the tag of a field say: any two
  bytes and any varint are stepped over, so a wrapped prefix does not mislead it.\<close>

theorem header_ignored:
  assumes "n < 128 ^ 10"
  shows "ReadHeader True (Some (b0 # b1 # varint n @ rest)) = Inr (Some rest)"
  using ReadVarint32_correct [OF assms, of rest]
  by (simp add: ReadHeader_def ReadFieldLength_def read_le_def)

theorem header_ignored_witness:
  "ReadHeader True (Some (0 # 0 # varint 77 @ [5])) = Inr (Some [5])"
  by (rule header_ignored) simp

end
