(* ===== verification/Fpga_Metadata_Walk.thy ===== *)
theory Fpga_Metadata_Walk
  imports Parse
begin

text \<open>
  \<open>SendMetadataToFPGA\<close> and \<open>SendMetadataToFPGA_hw\<close> of \<open>include/encode_main.h\<close> (lines 413 to 1227):
  one walk over a message that fills the class table and copies the long strings, padded to 64
  bytes, to the buffer the FPGA reads.  The two walks differ only in what they store in
  \<open>sub_class_id\<close>; each is the common walk with its own description of one field.  The state is the
  table, the bytes written through \<open>uint8_p_c2h\<close>, and the three reference parameters.
\<close>

section \<open>State and writes\<close>

record meta_state =
  table :: fpga_table
  c2h :: bytes
  p_c2h_buffer_size :: u64
  min_class_id :: u64
  max_class_id :: u64

text \<open>Assignments to \<open>FPGA_metadataVec[cid].field[fid]\<close>.\<close>

definition upd_entry ::
  "u16 \<Rightarrow> u16 \<Rightarrow> (FPGA_Field \<Rightarrow> FPGA_Field) \<Rightarrow> meta_state \<Rightarrow> meta_state result" where
  "upd_entry cid fid g st =
     (let row = table st (ucast cid) in
      if unat fid < length (field row) then
        Inr (st\<lparr>table := (table st)(ucast cid :=
               row\<lparr>field := (field row)[unat fid := g (field row ! unat fid)]\<rparr>)\<rparr>)
      else Inl Overrun)"

definition set_entry :: "u16 \<Rightarrow> u16 \<Rightarrow> u8 \<Rightarrow> u16 \<Rightarrow> meta_state \<Rightarrow> meta_state result" where
  "set_entry cid fid ty sub st =
     upd_entry cid fid (\<lambda>_. \<lparr>field_type = ty, reserve = 0, sub_class_id = sub\<rparr>) st"

text \<open>\<open>aligned_size\<close>, on \<open>size_t\<close>; one long string: its aligned size, 56 zero bytes, the string, and
  zeros up to the aligned size.\<close>

definition aligned_size :: "bytes \<Rightarrow> u64" where
  "aligned_size s = ((of_nat (length s) + 64 - 1) div 64) * 64"

definition push_block :: "bytes \<Rightarrow> meta_state \<Rightarrow> meta_state" where
  "push_block s st = st\<lparr>
     c2h := c2h st @ le_bytes 8 (unat (aligned_size s)) @ replicate 56 0 @ s
              @ replicate (unat (aligned_size s - of_nat (length s))) 0,
     p_c2h_buffer_size := p_c2h_buffer_size st + (64 + aligned_size s)\<rparr>"

definition push_count :: "nat \<Rightarrow> meta_state \<Rightarrow> meta_state" where
  "push_count repeated_num st = st\<lparr>
     c2h := c2h st @ le_bytes 8 (unat (of_nat repeated_num :: u64)) @ replicate 56 0,
     p_c2h_buffer_size := p_c2h_buffer_size st + 64\<rparr>"

text \<open>The loop from the last element to the first; the count goes before the last one.\<close>

definition push_repeated :: "bytes list \<Rightarrow> meta_state \<Rightarrow> meta_state" where
  "push_repeated ss st =
     (if ss = [] then st else fold push_block (rev ss) (push_count (length ss) st))"

section \<open>One field\<close>

text \<open>The branches of the software walk.  Only strings are read; the other branches step over the
  member and describe it.\<close>

definition Describe_strings ::
  "u16 \<Rightarrow> u16 \<Rightarrow> sw_type \<Rightarrow> cells \<Rightarrow> int \<Rightarrow> u32 \<Rightarrow> meta_state \<Rightarrow> (int \<times> u32 \<times> meta_state) result"
  where
  "Describe_strings cid fid ty cells obj_addr clen st =
     (case ty of
       sw_string_type \<Rightarrow>
         andThen (load_as as_string cells (obj_addr - 32)) (\<lambda>current_field.
           if 1024 < length current_field then
             andThen (set_entry cid fid (0 OR push_bit 2 FPGA_TYPE_STRING) 0
                 (push_block current_field st))
               (\<lambda>st. Inr (obj_addr - 32, clen + 8, st))
           else
             andThen (set_entry cid fid (1 OR push_bit 2 FPGA_TYPE_STRING) 0 st)
               (\<lambda>st. Inr (obj_addr - 32, clen + 8, st)))
     | sw_repeated_string_type \<Rightarrow>
         andThen (load_as as_rstring cells (obj_addr - 24)) (\<lambda>current_field.
           if list_ex (\<lambda>s. 1024 < length s) current_field then
             andThen (set_entry cid fid (2 OR push_bit 2 FPGA_TYPE_STRING) 0 (push_repeated current_field st))
               (\<lambda>st. Inr (obj_addr - 24, clen + 8, st))
           else
             andThen (set_entry cid fid (3 OR push_bit 2 FPGA_TYPE_STRING) 0 st)
               (\<lambda>st. Inr (obj_addr - 24, clen + 8, st)))
     | sw_bytes_type \<Rightarrow>
         andThen (load_as as_string cells (obj_addr - 32)) (\<lambda>current_field.
           if 1024 < length current_field then
             andThen (set_entry cid fid (0 OR push_bit 2 FPGA_TYPE_BYTES) 0
                 (push_block current_field st))
               (\<lambda>st. Inr (obj_addr - 32, clen + 8, st))
           else
             andThen (set_entry cid fid (1 OR push_bit 2 FPGA_TYPE_BYTES) 0 st)
               (\<lambda>st. Inr (obj_addr - 32, clen + 8, st)))
     | sw_repeated_bytes_type \<Rightarrow>
         andThen (load_as as_rstring cells (obj_addr - 24)) (\<lambda>current_field.
           if list_ex (\<lambda>s. 1024 < length s) current_field then
             andThen (set_entry cid fid (2 OR push_bit 2 FPGA_TYPE_BYTES) 0 (push_repeated current_field st))
               (\<lambda>st. Inr (obj_addr - 24, clen + 8, st))
           else
             andThen (set_entry cid fid (3 OR push_bit 2 FPGA_TYPE_BYTES) 0 st)
               (\<lambda>st. Inr (obj_addr - 24, clen + 8, st)))
     | _ \<Rightarrow> Inr (obj_addr, clen, st))"

definition Describe_fixed ::
  "u16 \<Rightarrow> u16 \<Rightarrow> sw_type \<Rightarrow> cells \<Rightarrow> int \<Rightarrow> u32 \<Rightarrow> meta_state \<Rightarrow> (int \<times> u32 \<times> meta_state) result"
  where
  "Describe_fixed cid fid ty cells obj_addr clen st =
     (case ty of
       sw_bool_type \<Rightarrow>
         andThen (set_entry cid fid (1 OR push_bit 2 FPGA_TYPE_BOOL) 0 st)
           (\<lambda>st. Inr (obj_addr - 8, clen + 4, st))
     | sw_repeated_bool_type \<Rightarrow>
         andThen (set_entry cid fid (3 OR push_bit 2 FPGA_TYPE_BOOL) 0 st)
           (\<lambda>st. Inr (obj_addr - 24, clen + 8, st))
     | sw_sint32_type \<Rightarrow>
         andThen (set_entry cid fid (1 OR push_bit 2 FPGA_TYPE_SINT32) 0 st)
           (\<lambda>st. Inr (obj_addr - 8, clen + 4, st))
     | sw_double_type \<Rightarrow>
         andThen (set_entry cid fid (1 OR push_bit 2 FPGA_TYPE_DOUBLE) 0 st)
           (\<lambda>st. Inr (obj_addr - 8, clen + 8, st))
     | sw_float_type \<Rightarrow>
         andThen (set_entry cid fid (1 OR push_bit 2 FPGA_TYPE_FLOAT) 0 st)
           (\<lambda>st. Inr (obj_addr - 8, clen + 4, st))
     | sw_repeated_float_type \<Rightarrow>
         andThen (set_entry cid fid (3 OR push_bit 2 FPGA_TYPE_FLOAT) 0 st)
           (\<lambda>st. Inr (obj_addr - 24, clen + 8, st))
     | sw_fix32_type \<Rightarrow>
         andThen (set_entry cid fid (1 OR push_bit 2 FPGA_TYPE_SFIXED32) 0 st)
           (\<lambda>st. Inr (obj_addr - 8, clen + 4, st))
     | sw_fix64_type \<Rightarrow>
         andThen (set_entry cid fid (1 OR push_bit 2 FPGA_TYPE_SFIXED64) 0 st)
           (\<lambda>st. Inr (obj_addr - 8, clen + 8, st))
     | sw_repeated_fix64_type \<Rightarrow>
         andThen (set_entry cid fid (3 OR push_bit 2 FPGA_TYPE_SFIXED64) 0 st)
           (\<lambda>st. Inr (obj_addr - 24, clen + 8, st))
     | sw_enum_type \<Rightarrow>
         andThen (set_entry cid fid (1 OR push_bit 2 FPGA_TYPE_ENUM) 0 st)
           (\<lambda>st. Inr (obj_addr - 8, clen + 4, st))
     | sw_repeated_enum_type \<Rightarrow>
         andThen (set_entry cid fid (3 OR push_bit 2 FPGA_TYPE_ENUM) 0 st)
           (\<lambda>st. Inr (obj_addr - 24, clen + 8, st))
     | _ \<Rightarrow> Describe_strings cid fid ty cells obj_addr clen st)"

definition Describe_field ::
  "u16 \<Rightarrow> u16 \<Rightarrow> sw_type \<Rightarrow> cells \<Rightarrow> int \<Rightarrow> u32 \<Rightarrow> meta_state \<Rightarrow> (int \<times> u32 \<times> meta_state) result"
  where
  "Describe_field cid fid ty cells obj_addr clen st =
     (case ty of
       sw_int32_type \<Rightarrow>
         andThen (set_entry cid fid (1 OR push_bit 2 FPGA_TYPE_INT32) 0 st)
           (\<lambda>st. Inr (obj_addr - 8, clen + 4, st))
     | sw_repeated_int32_type \<Rightarrow>
         andThen (set_entry cid fid (3 OR push_bit 2 FPGA_TYPE_INT32) 0 st)
           (\<lambda>st. Inr (obj_addr - 24, clen + 8, st))
     | sw_int64_type \<Rightarrow>
         andThen (set_entry cid fid (1 OR push_bit 2 FPGA_TYPE_INT64) 0 st)
           (\<lambda>st. Inr (obj_addr - 8, clen + 8, st))
     | sw_repeated_int64_type \<Rightarrow>
         andThen (set_entry cid fid (3 OR push_bit 2 FPGA_TYPE_INT64) 0 st)
           (\<lambda>st. Inr (obj_addr - 24, clen + 8, st))
     | sw_uint64_type \<Rightarrow>
         andThen (set_entry cid fid (1 OR push_bit 2 FPGA_TYPE_UINT64) 0 st)
           (\<lambda>st. Inr (obj_addr - 8, clen + 8, st))
     | sw_repeated_uint64_type \<Rightarrow>
         andThen (set_entry cid fid (3 OR push_bit 2 FPGA_TYPE_UINT64) 0 st)
           (\<lambda>st. Inr (obj_addr - 24, clen + 8, st))
     | sw_uint32_type \<Rightarrow>
         andThen (set_entry cid fid (1 OR push_bit 2 FPGA_TYPE_UINT32) 0 st)
           (\<lambda>st. Inr (obj_addr - 8, clen + 4, st))
     | sw_repeated_uint32_type \<Rightarrow>
         andThen (set_entry cid fid (3 OR push_bit 2 FPGA_TYPE_UINT32) 0 st)
           (\<lambda>st. Inr (obj_addr - 24, clen + 8, st))
     | _ \<Rightarrow> Describe_fixed cid fid ty cells obj_addr clen st)"

text \<open>The branches of the hardware walk, which stores the number of elements of a vector and the
  number of 64-byte lines of a string in \<open>sub_class_id\<close>.\<close>

definition Describe_hw_strings ::
  "u16 \<Rightarrow> u16 \<Rightarrow> sw_type \<Rightarrow> cells \<Rightarrow> int \<Rightarrow> u32 \<Rightarrow> meta_state \<Rightarrow> (int \<times> u32 \<times> meta_state) result"
  where
  "Describe_hw_strings cid fid ty cells obj_addr clen st =
     (case ty of
       sw_string_type \<Rightarrow>
         andThen (load_as as_string cells (obj_addr - 32)) (\<lambda>current_field.
           if 1024 < length current_field then
             andThen (set_entry cid fid (0 OR push_bit 2 FPGA_TYPE_STRING) (ucast (aligned_size current_field div 64))
                 (push_block current_field st))
               (\<lambda>st. Inr (obj_addr - 32, clen + 8, st))
           else
             andThen (set_entry cid fid (1 OR push_bit 2 FPGA_TYPE_STRING) (ucast (aligned_size current_field div 64)) st)
               (\<lambda>st. Inr (obj_addr - 32, clen + 8, st)))
     | sw_repeated_string_type \<Rightarrow>
         andThen (load_as as_rstring cells (obj_addr - 24)) (\<lambda>current_field.
           if list_ex (\<lambda>s. 1024 < length s) current_field then
             andThen (upd_entry cid fid (\<lambda>e. e\<lparr>field_type := 2 OR push_bit 2 FPGA_TYPE_STRING, reserve := 0,
                 sub_class_id := (fold (\<lambda>s n. n + ucast (aligned_size s div 64)) (rev current_field)) (sub_class_id e)\<rparr>) (push_repeated current_field st))
               (\<lambda>st. Inr (obj_addr - 24, clen + 8, st))
           else
             andThen (upd_entry cid fid (\<lambda>e. e\<lparr>field_type := 3 OR push_bit 2 FPGA_TYPE_STRING, reserve := 0,
                 sub_class_id := id (sub_class_id e)\<rparr>) st)
               (\<lambda>st. Inr (obj_addr - 24, clen + 8, st)))
     | sw_bytes_type \<Rightarrow>
         andThen (load_as as_string cells (obj_addr - 32)) (\<lambda>current_field.
           if 1024 < length current_field then
             andThen (set_entry cid fid (0 OR push_bit 2 FPGA_TYPE_BYTES) (ucast (aligned_size current_field div 64))
                 (push_block current_field st))
               (\<lambda>st. Inr (obj_addr - 32, clen + 8, st))
           else
             andThen (set_entry cid fid (1 OR push_bit 2 FPGA_TYPE_BYTES) (ucast (aligned_size current_field div 64)) st)
               (\<lambda>st. Inr (obj_addr - 32, clen + 8, st)))
     | sw_repeated_bytes_type \<Rightarrow>
         andThen (load_as as_rstring cells (obj_addr - 24)) (\<lambda>current_field.
           if list_ex (\<lambda>s. 1024 < length s) current_field then
             andThen (upd_entry cid fid (\<lambda>e. e\<lparr>field_type := 2 OR push_bit 2 FPGA_TYPE_BYTES, reserve := 0,
                 sub_class_id := (fold (\<lambda>s n. ucast (aligned_size s div 64)) (rev current_field)) (sub_class_id e)\<rparr>) (push_repeated current_field st))
               (\<lambda>st. Inr (obj_addr - 24, clen + 8, st))
           else
             andThen (upd_entry cid fid (\<lambda>e. e\<lparr>field_type := 3 OR push_bit 2 FPGA_TYPE_BYTES, reserve := 0,
                 sub_class_id := id (sub_class_id e)\<rparr>) st)
               (\<lambda>st. Inr (obj_addr - 24, clen + 8, st)))
     | _ \<Rightarrow> Inr (obj_addr, clen, st))"

definition Describe_hw_fixed ::
  "u16 \<Rightarrow> u16 \<Rightarrow> sw_type \<Rightarrow> cells \<Rightarrow> int \<Rightarrow> u32 \<Rightarrow> meta_state \<Rightarrow> (int \<times> u32 \<times> meta_state) result"
  where
  "Describe_hw_fixed cid fid ty cells obj_addr clen st =
     (case ty of
       sw_bool_type \<Rightarrow>
         andThen (set_entry cid fid (1 OR push_bit 2 FPGA_TYPE_BOOL) 0 st)
           (\<lambda>st. Inr (obj_addr - 8, clen + 4, st))
     | sw_repeated_bool_type \<Rightarrow>
         andThen (load_as as_r8 cells (obj_addr - 24)) (\<lambda>current_field.
         andThen (set_entry cid fid (3 OR push_bit 2 FPGA_TYPE_BOOL) (of_nat (length current_field)) st)
           (\<lambda>st. Inr (obj_addr - 24, clen + 8, st)))
     | sw_sint32_type \<Rightarrow>
         andThen (set_entry cid fid (1 OR push_bit 2 FPGA_TYPE_SINT32) 0 st)
           (\<lambda>st. Inr (obj_addr - 8, clen + 4, st))
     | sw_double_type \<Rightarrow>
         andThen (set_entry cid fid (1 OR push_bit 2 FPGA_TYPE_DOUBLE) 0 st)
           (\<lambda>st. Inr (obj_addr - 8, clen + 8, st))
     | sw_float_type \<Rightarrow>
         andThen (set_entry cid fid (1 OR push_bit 2 FPGA_TYPE_FLOAT) 0 st)
           (\<lambda>st. Inr (obj_addr - 8, clen + 4, st))
     | sw_repeated_float_type \<Rightarrow>
         andThen (load_as as_rfloat cells (obj_addr - 24)) (\<lambda>current_field.
         andThen (set_entry cid fid (3 OR push_bit 2 FPGA_TYPE_FLOAT) (of_nat (length current_field)) st)
           (\<lambda>st. Inr (obj_addr - 24, clen + 8, st)))
     | sw_fix32_type \<Rightarrow>
         andThen (set_entry cid fid (1 OR push_bit 2 FPGA_TYPE_SFIXED32) 0 st)
           (\<lambda>st. Inr (obj_addr - 8, clen + 4, st))
     | sw_fix64_type \<Rightarrow>
         andThen (set_entry cid fid (1 OR push_bit 2 FPGA_TYPE_SFIXED64) 0 st)
           (\<lambda>st. Inr (obj_addr - 8, clen + 8, st))
     | sw_repeated_fix64_type \<Rightarrow>
         andThen (load_as as_r64 cells (obj_addr - 24)) (\<lambda>current_field.
         andThen (set_entry cid fid (3 OR push_bit 2 FPGA_TYPE_SFIXED64) (of_nat (length current_field)) st)
           (\<lambda>st. Inr (obj_addr - 24, clen + 8, st)))
     | sw_enum_type \<Rightarrow>
         andThen (set_entry cid fid (1 OR push_bit 2 FPGA_TYPE_ENUM) 0 st)
           (\<lambda>st. Inr (obj_addr - 8, clen + 4, st))
     | sw_repeated_enum_type \<Rightarrow>
         andThen (load_as as_r32 cells (obj_addr - 24)) (\<lambda>current_field.
         andThen (set_entry cid fid (3 OR push_bit 2 FPGA_TYPE_ENUM) (of_nat (length current_field)) st)
           (\<lambda>st. Inr (obj_addr - 24, clen + 8, st)))
     | _ \<Rightarrow> Describe_hw_strings cid fid ty cells obj_addr clen st)"

definition Describe_hw_field ::
  "u16 \<Rightarrow> u16 \<Rightarrow> sw_type \<Rightarrow> cells \<Rightarrow> int \<Rightarrow> u32 \<Rightarrow> meta_state \<Rightarrow> (int \<times> u32 \<times> meta_state) result"
  where
  "Describe_hw_field cid fid ty cells obj_addr clen st =
     (case ty of
       sw_int32_type \<Rightarrow>
         andThen (set_entry cid fid (1 OR push_bit 2 FPGA_TYPE_INT32) 0 st)
           (\<lambda>st. Inr (obj_addr - 8, clen + 4, st))
     | sw_repeated_int32_type \<Rightarrow>
         andThen (load_as as_r32 cells (obj_addr - 24)) (\<lambda>current_field.
         andThen (set_entry cid fid (3 OR push_bit 2 FPGA_TYPE_INT32) (of_nat (length current_field)) st)
           (\<lambda>st. Inr (obj_addr - 24, clen + 8, st)))
     | sw_int64_type \<Rightarrow>
         andThen (set_entry cid fid (1 OR push_bit 2 FPGA_TYPE_INT64) 0 st)
           (\<lambda>st. Inr (obj_addr - 8, clen + 8, st))
     | sw_repeated_int64_type \<Rightarrow>
         andThen (load_as as_r64 cells (obj_addr - 24)) (\<lambda>current_field.
         andThen (set_entry cid fid (3 OR push_bit 2 FPGA_TYPE_INT64) (of_nat (length current_field)) st)
           (\<lambda>st. Inr (obj_addr - 24, clen + 8, st)))
     | sw_uint64_type \<Rightarrow>
         andThen (set_entry cid fid (1 OR push_bit 2 FPGA_TYPE_UINT64) 0 st)
           (\<lambda>st. Inr (obj_addr - 8, clen + 8, st))
     | sw_repeated_uint64_type \<Rightarrow>
         andThen (load_as as_r64 cells (obj_addr - 24)) (\<lambda>current_field.
         andThen (set_entry cid fid (3 OR push_bit 2 FPGA_TYPE_UINT64) (of_nat (length current_field)) st)
           (\<lambda>st. Inr (obj_addr - 24, clen + 8, st)))
     | sw_uint32_type \<Rightarrow>
         andThen (set_entry cid fid (1 OR push_bit 2 FPGA_TYPE_UINT32) 0 st)
           (\<lambda>st. Inr (obj_addr - 8, clen + 4, st))
     | sw_repeated_uint32_type \<Rightarrow>
         andThen (load_as as_r32 cells (obj_addr - 24)) (\<lambda>current_field.
         andThen (set_entry cid fid (3 OR push_bit 2 FPGA_TYPE_UINT32) (of_nat (length current_field)) st)
           (\<lambda>st. Inr (obj_addr - 24, clen + 8, st)))
     | _ \<Rightarrow> Describe_hw_fixed cid fid ty cells obj_addr clen st)"

section \<open>The walk\<close>

type_synonym describer =
  "u16 \<Rightarrow> u16 \<Rightarrow> sw_type \<Rightarrow> cells \<Rightarrow> int \<Rightarrow> u32 \<Rightarrow> meta_state \<Rightarrow> (int \<times> u32 \<times> meta_state) result"

fun Meta_loop ::
  "(obj \<Rightarrow> meta_state \<Rightarrow> meta_state result) \<Rightarrow> describer \<Rightarrow> u16 \<Rightarrow> cells \<Rightarrow> (u8 \<times> u8) list \<Rightarrow>
   int \<Rightarrow> u16 \<Rightarrow> u32 \<Rightarrow> meta_state \<Rightarrow> (u16 \<times> u32 \<times> meta_state) result" where
  "Meta_loop self describe cid cells [] obj_addr mfn clen st = Inr (mfn, clen, st)"
| "Meta_loop self describe cid cells ((w, fid) # fs) obj_addr mfn clen st =
     (let current_field_id = scast fid :: u16;
          mfn = (if mfn < current_field_id then current_field_id else mfn)
      in case decode_sw w of
        None \<Rightarrow> Meta_loop self describe cid cells fs obj_addr mfn clen st
      | Some t \<Rightarrow>
          if t = sw_ptr_type then
            let obj_addr = obj_addr - 8 in
            andThen (load_object cells obj_addr) (\<lambda>current_field.
            andThen (set_entry cid current_field_id (1 OR push_bit 2 FPGA_TYPE_MESSAGE)
                       (ucast (class_id (obj_metadata current_field))) st) (\<lambda>st.
            andThen (self current_field st) (\<lambda>st.
              Meta_loop self describe cid cells fs obj_addr mfn (clen + 8) st)))
          else
            andThen (describe cid current_field_id t cells obj_addr clen st)
              (\<lambda>(obj_addr, clen, st).
                Meta_loop self describe cid cells fs obj_addr mfn clen st))"

lemma Meta_loop_cong [fundef_cong]:
  assumes "\<And>c st. child_of c cells \<Longrightarrow> f c st = g c st"
    and "describe = describe'" "cid = cid'" "cells = cells'" "fs = fs'" "off = off'" "mfn = mfn'"
    and "clen = clen'" "st = st'"
  shows "Meta_loop f describe cid cells fs off mfn clen st
    = Meta_loop g describe' cid' cells' fs' off' mfn' clen' st'"
proof -
  have "Meta_loop f describe cid cells fs off mfn clen st
      = Meta_loop g describe cid cells fs off mfn clen st"
    using assms(1)
  proof (induction fs arbitrary: off mfn clen st)
    case (Cons p fs)
    then show ?case
      by (cases p) (auto simp: Let_def split: option.split intro!: andThen_cong dest: load_object_child)
  qed simp
  with assms show ?thesis by simp
qed

text \<open>Entering a class: the range of class numbers, the row's number; leaving it: the row's largest
  field number and the class length.\<close>

definition enter_class :: "u16 \<Rightarrow> meta_state \<Rightarrow> meta_state" where
  "enter_class cid st =
     (let st = (if max_class_id st < ucast cid then st\<lparr>max_class_id := ucast cid\<rparr> else st);
          st = (if ucast cid < min_class_id st then st\<lparr>min_class_id := ucast cid\<rparr> else st)
      in st\<lparr>table := (table st)(ucast cid := (table st (ucast cid))\<lparr>fclass_id := cid\<rparr>)\<rparr>)"

definition leave_class :: "u16 \<Rightarrow> u16 \<Rightarrow> u32 \<Rightarrow> meta_state \<Rightarrow> meta_state" where
  "leave_class cid mfn clen st =
     st\<lparr>table := (table st)(ucast cid :=
        (table st (ucast cid))\<lparr>max_field_number := mfn, class_length := clen\<rparr>)\<rparr>"

function Meta_walk :: "describer \<Rightarrow> (u32 \<Rightarrow> u64) \<Rightarrow> obj \<Rightarrow> meta_state \<Rightarrow> meta_state result" where
  "Meta_walk describe msv message st =
     andThen (metadata_fields (obj_metadata message)) (\<lambda>fields.
       let cid = ucast (class_id (obj_metadata message)) :: u16;
           message_size = msv (ucast cid)
       in
       andThen (Meta_loop (Meta_walk describe msv) describe cid (obj_cells message)
                  (rev fields) (int (unat message_size)) 0 0 (enter_class cid st))
         (\<lambda>(mfn, clen, st). Inr (leave_class cid mfn clen st)))"
  by pat_completeness auto
termination
  by (relation "measure (\<lambda>(_, _, m, _). size m)") (auto dest: child_size)

declare Meta_walk.simps [simp del]

definition SendMetadataToFPGA :: "obj \<Rightarrow> (u32 \<Rightarrow> u64) \<Rightarrow> meta_state \<Rightarrow> meta_state result" where
  "SendMetadataToFPGA message msv st = Meta_walk Describe_field msv message st"

definition SendMetadataToFPGA_hw :: "obj \<Rightarrow> (u32 \<Rightarrow> u64) \<Rightarrow> meta_state \<Rightarrow> meta_state result" where
  "SendMetadataToFPGA_hw message msv st = Meta_walk Describe_hw_field msv message st"

end
