(* ===== verification/Fpga_Metadata_Spec.thy ===== *)
theory Fpga_Metadata_Spec
  imports Fpga_Metadata_Walk
begin

text \<open>
  What the metadata walks establish.  Both descriptions of a field satisfy the interface
  \<open>describer\<close>: they give the field its type byte, whose lowest bit is clear exactly for a long
  string, and push exactly the long strings to the buffer.  In that locale the walk over a
  well-formed message is shown to succeed, to append a fixed sequence of blocks whose total length
  is what it adds to the buffer size, and to leave a table that agrees with the message, so that the
  parser can read what the serializer writes.
\<close>

section \<open>Type bytes\<close>

fun fpga_code :: "sw_type \<Rightarrow> u8" where
  "fpga_code sw_int32_type = FPGA_TYPE_INT32" | "fpga_code sw_repeated_int32_type = FPGA_TYPE_INT32"
| "fpga_code sw_int64_type = FPGA_TYPE_INT64" | "fpga_code sw_repeated_int64_type = FPGA_TYPE_INT64"
| "fpga_code sw_uint64_type = FPGA_TYPE_UINT64" | "fpga_code sw_repeated_uint64_type = FPGA_TYPE_UINT64"
| "fpga_code sw_uint32_type = FPGA_TYPE_UINT32" | "fpga_code sw_repeated_uint32_type = FPGA_TYPE_UINT32"
| "fpga_code sw_bool_type = FPGA_TYPE_BOOL" | "fpga_code sw_repeated_bool_type = FPGA_TYPE_BOOL"
| "fpga_code sw_sint32_type = FPGA_TYPE_SINT32" | "fpga_code sw_double_type = FPGA_TYPE_DOUBLE"
| "fpga_code sw_float_type = FPGA_TYPE_FLOAT" | "fpga_code sw_repeated_float_type = FPGA_TYPE_FLOAT"
| "fpga_code sw_fix32_type = FPGA_TYPE_SFIXED32" | "fpga_code sw_fix64_type = FPGA_TYPE_SFIXED64"
| "fpga_code sw_repeated_fix64_type = FPGA_TYPE_SFIXED64"
| "fpga_code sw_enum_type = FPGA_TYPE_ENUM" | "fpga_code sw_repeated_enum_type = FPGA_TYPE_ENUM"
| "fpga_code sw_string_type = FPGA_TYPE_STRING" | "fpga_code sw_repeated_string_type = FPGA_TYPE_STRING"
| "fpga_code sw_bytes_type = FPGA_TYPE_BYTES" | "fpga_code sw_repeated_bytes_type = FPGA_TYPE_BYTES"
| "fpga_code _ = FPGA_TYPE_MESSAGE"

definition type_byte :: "sw_type \<Rightarrow> cval \<Rightarrow> u8" where
  "type_byte t c =
     (if is_repeated c then if long_value c then 2 else 3 else if long_value c then 0 else 1)
       OR push_bit 2 (fpga_code t)"

text \<open>The bytes a member counts for in \<open>class_length\<close>.\<close>

definition fpga_length :: "sw_type \<Rightarrow> u32" where
  "fpga_length t = (case kind_of t of
       Some K32 \<Rightarrow> 4 | Some KBool \<Rightarrow> 4 | Some KFloat \<Rightarrow> 4 | _ \<Rightarrow> 8)"

lemma type_byte_inline: "type_byte t c AND 1 \<noteq> 0 \<longleftrightarrow> \<not> long_value c"
  by (simp add: type_byte_def and_one_eq mod_2_eq_odd even_or_iff even_push_bit_iff)

section \<open>Blocks in the buffer\<close>

definition block :: "bytes \<Rightarrow> bytes" where
  "block s = le_bytes 8 (unat (aligned_size s)) @ replicate 56 0 @ s
     @ replicate (unat (aligned_size s - of_nat (length s))) 0"

definition count_block :: "nat \<Rightarrow> bytes" where
  "count_block n = le_bytes 8 (unat (of_nat n :: u64)) @ replicate 56 0"

fun c2h_val :: "cval \<Rightarrow> bytes" where
  "c2h_val (VStr s) = (if long_limit < length s then block s else [])"
| "c2h_val (RStr ss) = (if list_ex (\<lambda>s. long_limit < length s) ss
     then count_block (length ss) @ concat (map block (rev ss)) else [])"
| "c2h_val _ = []"

fun c2h_msg :: "msg \<Rightarrow> bytes"
  and c2h_mval :: "mval \<Rightarrow> bytes"
  and c2h_vals :: "mval list \<Rightarrow> bytes" where
  "c2h_msg (Msg md vs) = c2h_vals vs"
| "c2h_mval (MVal c) = c2h_val c"
| "c2h_mval (MSub m) = c2h_msg m"
| "c2h_vals [] = []"
| "c2h_vals (v # vs) = c2h_vals vs @ c2h_mval v"

lemma c2h_vals_snoc: "c2h_vals (vs @ [v]) = c2h_mval v @ c2h_vals vs"
  by (induction vs) simp_all

text \<open>The lengths of strings in memory, far below the range of \<open>size_t\<close>.\<close>

definition string_fits :: "bytes \<Rightarrow> bool" where
  "string_fits s \<longleftrightarrow> length s < 2 ^ 63"

fun strings_fit :: "cval \<Rightarrow> bool" where
  "strings_fit (VStr s) \<longleftrightarrow> string_fits s"
| "strings_fit (RStr ss) \<longleftrightarrow> list_all string_fits ss"
| "strings_fit _ \<longleftrightarrow> True"

lemma unat_aligned_size:
  assumes "string_fits s"
  shows "unat (aligned_size s) = (length s + 63) div 64 * 64"
proof -
  have a: "(of_nat (length s) + 64 - 1 :: u64) = of_nat (length s + 63)"
    by (simp add: algebra_simps)
  have l: "length s + 63 < 2 ^ 64" using assms by (simp add: string_fits_def)
  have u: "unat (of_nat (length s + 63) :: u64) = length s + 63"
    using l by (intro unat_of_nat_small) simp
  have "(length s + 63) div 64 * 64 < 2 ^ 64"
    using l by (metis div_times_less_eq_dividend le_less_trans)
  then show ?thesis
    unfolding aligned_size_def a by (simp only: unat_word_ariths(2) unat_div u) simp
qed

lemma length_block:
  assumes "string_fits s"
  shows "of_nat (length (block s)) = 64 + aligned_size s"
    and "64 dvd length (block s)"
proof -
  let ?n = "(length s + 63) div 64 * 64"
  have n: "unat (aligned_size s) = ?n" using assms by (rule unat_aligned_size)
  have le: "length s \<le> ?n" by presburger
  have "of_nat (unat (aligned_size s)) = aligned_size s" by simp
  then have "aligned_size s = of_nat ?n" by (simp only: n)
  then have "aligned_size s - of_nat (length s) = of_nat (?n - length s)"
    using le by (simp add: of_nat_diff)
  moreover have "?n < 2 ^ 64" using unat_less [of "aligned_size s"] n by simp
  then have "unat (of_nat (?n - length s) :: u64) = ?n - length s"
    by (intro unat_of_nat_small) simp
  ultimately have "length (block s) = 64 + ?n"
    using le by (simp add: block_def)
  then show "of_nat (length (block s)) = 64 + aligned_size s" "64 dvd length (block s)"
    using \<open>aligned_size s = of_nat ?n\<close> by simp_all
qed

section \<open>One field\<close>

definition put_entry :: "u16 \<Rightarrow> u16 \<Rightarrow> (FPGA_Field \<Rightarrow> FPGA_Field) \<Rightarrow> meta_state \<Rightarrow> meta_state" where
  "put_entry cid fid g st =
     st\<lparr>table := (table st)(ucast cid := (table st (ucast cid))\<lparr>field :=
        (field (table st (ucast cid)))[unat fid := g (field (table st (ucast cid)) ! unat fid)]\<rparr>)\<rparr>"

definition append_c2h :: "bytes \<Rightarrow> meta_state \<Rightarrow> meta_state" where
  "append_c2h bs st = st\<lparr>c2h := c2h st @ bs,
     p_c2h_buffer_size := p_c2h_buffer_size st + of_nat (length bs)\<rparr>"

definition has_slot :: "meta_state \<Rightarrow> u16 \<Rightarrow> u16 \<Rightarrow> bool" where
  "has_slot st cid fid \<longleftrightarrow> unat fid < length (field (table st (ucast cid)))"

lemma upd_entry_ok: "has_slot st cid fid \<Longrightarrow> upd_entry cid fid g st = Inr (put_entry cid fid g st)"
  by (simp add: upd_entry_def put_entry_def has_slot_def Let_def)

lemma append_c2h_Nil [simp]: "append_c2h [] st = st"
  by (simp add: append_c2h_def)

lemma append_c2h_append: "append_c2h bs (append_c2h as st) = append_c2h (as @ bs) st"
  by (simp add: append_c2h_def add.assoc)

lemma has_slot_append [simp]: "has_slot (append_c2h bs st) cid fid = has_slot st cid fid"
  by (simp add: has_slot_def append_c2h_def)

lemma push_block_eq: "string_fits s \<Longrightarrow> push_block s st = append_c2h (block s) st"
  using length_block(1) [of s] by (simp add: push_block_def append_c2h_def block_def [symmetric])

lemma push_count_eq: "push_count n st = append_c2h (count_block n) st"
  by (simp add: push_count_def append_c2h_def count_block_def)

lemma push_blocks_eq:
  "list_all string_fits ss \<Longrightarrow> fold push_block ss st = append_c2h (concat (map block ss)) st"
  by (induction ss arbitrary: st) (simp_all add: push_block_eq append_c2h_append)

lemma push_repeated_eq:
  "list_all string_fits ss \<Longrightarrow> ss \<noteq> [] \<Longrightarrow>
   push_repeated ss st = append_c2h (count_block (length ss) @ concat (map block (rev ss))) st"
  by (simp add: push_repeated_def push_blocks_eq push_count_eq append_c2h_append list_all_iff)

text \<open>The interface of a description of fields: it steps over the member, adds the member's FPGA length,
  sets the type byte of the entry and appends the long strings of the value.\<close>

locale describer =
  fixes describe :: describer
  assumes describe_spec:
    "kind_of t = Some k \<Longrightarrow> cval_kind c = Some k \<Longrightarrow> load cells (off - kind_stride k) = Inr (OVal c) \<Longrightarrow>
     strings_fit c \<Longrightarrow> has_slot st cid fid \<Longrightarrow>
     \<exists>g. describe cid fid t cells off clen st
         = Inr (off - kind_stride k, clen + fpga_length t,
                put_entry cid fid g (append_c2h (c2h_val c) st))
       \<and> (\<forall>e. field_type (g e) = type_byte t c)"

lemma nonempty_if_ex: "list_ex P xs \<Longrightarrow> xs \<noteq> []"
  by auto

lemmas describe_simps =
  cval_kind_iff load_as_def upd_entry_ok push_block_eq push_repeated_eq nonempty_if_ex
  fpga_length_def type_byte_def long_limit_def Let_def

lemma put_entry_exI:
  "(\<And>e. field_type (g e) = b) \<Longrightarrow>
   \<exists>h. put_entry cid fid g st = put_entry cid fid h st \<and> (\<forall>e. field_type (h e) = b)"
  by blast

interpretation sw_walk: describer Describe_field
proof
  fix t k c cells off st cid fid clen
  assume "kind_of t = Some k" "cval_kind c = Some k" "load cells (off - kind_stride k) = Inr (OVal c)"
    "strings_fit c" "has_slot st cid fid"
  then show "\<exists>g. Describe_field cid fid t cells off clen st
         = Inr (off - kind_stride k, clen + fpga_length t,
                put_entry cid fid g (append_c2h (c2h_val c) st))
       \<and> (\<forall>e. field_type (g e) = type_byte t c)"
    by (cases t; simp only: kind_of.simps option.distinct option.inject)
      (auto simp: Describe_field_def Describe_fixed_def Describe_strings_def set_entry_def
        describe_simps intro!: put_entry_exI)
qed

interpretation hw_walk: describer Describe_hw_field
proof
  fix t k c cells off st cid fid clen
  assume "kind_of t = Some k" "cval_kind c = Some k" "load cells (off - kind_stride k) = Inr (OVal c)"
    "strings_fit c" "has_slot st cid fid"
  then show "\<exists>g. Describe_hw_field cid fid t cells off clen st
         = Inr (off - kind_stride k, clen + fpga_length t,
                put_entry cid fid g (append_c2h (c2h_val c) st))
       \<and> (\<forall>e. field_type (g e) = type_byte t c)"
    by (cases t; simp only: kind_of.simps option.distinct option.inject)
      (auto simp: Describe_hw_field_def Describe_hw_fixed_def Describe_hw_strings_def set_entry_def
        describe_simps intro!: put_entry_exI)
qed

section \<open>What a walk keeps and what it establishes\<close>

text \<open>A signature says, for each class and field number, whether the field is inline and which class
  its sub-message has.  \<open>holds\<close>: the table entry is as the signature says.\<close>

type_synonym signature = "u32 \<Rightarrow> nat \<Rightarrow> bool \<times> u32 option"

definition entry_holds :: "bool \<times> u32 option \<Rightarrow> FPGA_Field \<Rightarrow> bool" where
  "entry_holds s e \<longleftrightarrow> inline_bit e = fst s \<and>
     (case snd s of None \<Rightarrow> True | Some d \<Rightarrow> ucast (sub_class_id e) = d)"

definition holds :: "signature \<Rightarrow> meta_state \<Rightarrow> u32 \<Rightarrow> nat \<Rightarrow> bool" where
  "holds sig st c i \<longleftrightarrow> i < length (field (table st c)) \<and> entry_holds (sig c i) (field (table st c) ! i)"

fun slot_sig :: "mval \<Rightarrow> bool \<times> u32 option" where
  "slot_sig (MVal c) = (\<not> long_value c, None)"
| "slot_sig (MSub m) = (True, Some (class_id (msg_metadata m)))"

definition slot_ok :: "signature \<Rightarrow> u32 \<Rightarrow> sw_type \<times> u8 \<Rightarrow> mval \<Rightarrow> bool" where
  "slot_ok sig c f v \<longleftrightarrow> unat (snd f) < fpga_fields \<and> sig c (unat (snd f)) = slot_sig v
     \<and> (case v of MVal x \<Rightarrow> strings_fit x | MSub m \<Rightarrow> True)"

text \<open>A message is consistent with a signature when all its objects are: in particular two objects of
  one class have the same long strings.  Class numbers fit the 16 bits the table gives them.\<close>

fun consistent :: "signature \<Rightarrow> msg \<Rightarrow> bool"
  and consistent_val :: "signature \<Rightarrow> mval \<Rightarrow> bool" where
  "consistent sig (Msg md vs) \<longleftrightarrow> unat (class_id md) < 65536
     \<and> list_all2 (slot_ok sig (class_id md)) (md_fields md) vs \<and> list_all (consistent_val sig) vs"
| "consistent_val sig (MVal c) \<longleftrightarrow> True"
| "consistent_val sig (MSub m) \<longleftrightarrow> consistent sig m"

definition in_range :: "meta_state \<Rightarrow> u32 \<Rightarrow> bool" where
  "in_range st c \<longleftrightarrow> min_class_id st \<le> ucast c \<and> ucast c \<le> max_class_id st"

fun covered :: "signature \<Rightarrow> meta_state \<Rightarrow> msg \<Rightarrow> bool"
  and covered_val :: "signature \<Rightarrow> meta_state \<Rightarrow> mval \<Rightarrow> bool" where
  "covered sig st (Msg md vs) \<longleftrightarrow>
     list_all (\<lambda>f. holds sig st (class_id md) (unat (snd f))) (md_fields md)
       \<and> in_range st (class_id md) \<and> list_all (covered_val sig st) vs"
| "covered_val sig st (MVal c) \<longleftrightarrow> True"
| "covered_val sig st (MSub m) \<longleftrightarrow> covered sig st m"

definition keeps :: "signature \<Rightarrow> meta_state \<Rightarrow> meta_state \<Rightarrow> bool" where
  "keeps sig st st' \<longleftrightarrow>
     (\<forall>c. length (field (table st' c)) = length (field (table st c)))
     \<and> (\<forall>c i. holds sig st c i \<longrightarrow> holds sig st' c i)
     \<and> min_class_id st' \<le> min_class_id st \<and> max_class_id st \<le> max_class_id st'"

definition emits :: "bytes \<Rightarrow> meta_state \<Rightarrow> meta_state \<Rightarrow> bool" where
  "emits bs st st' \<longleftrightarrow> c2h st' = c2h st @ bs
     \<and> p_c2h_buffer_size st' = p_c2h_buffer_size st + of_nat (length bs)"

definition rows_ok :: "meta_state \<Rightarrow> bool" where
  "rows_ok st \<longleftrightarrow> (\<forall>c. row_ok (table st c))"

lemma keeps_refl [simp]: "keeps sig st st"
  by (simp add: keeps_def)

lemma keeps_trans: "keeps sig a b \<Longrightarrow> keeps sig b c \<Longrightarrow> keeps sig a c"
  by (auto simp: keeps_def intro: order.trans)

lemma keeps_holds: "keeps sig st st' \<Longrightarrow> holds sig st c i \<Longrightarrow> holds sig st' c i"
  by (simp add: keeps_def)

lemma keeps_rows: "keeps sig st st' \<Longrightarrow> rows_ok st \<Longrightarrow> rows_ok st'"
  by (simp add: keeps_def rows_ok_def row_ok_def)

lemma keeps_in_range: "keeps sig st st' \<Longrightarrow> in_range st c \<Longrightarrow> in_range st' c"
  by (auto simp: keeps_def in_range_def intro: order.trans)

lemma keeps_covered: "keeps sig st st' \<Longrightarrow> covered sig st m \<Longrightarrow> covered sig st' m"
proof (induction m rule: msg_induct)
  case (Msg md vs)
  have "covered_val sig st' v" if "v \<in> set vs" "covered_val sig st v" for v
    using that Msg.IH Msg.prems(1) by (cases v rule: mval.exhaust) simp_all
  then show ?case
    using Msg.prems keeps_holds keeps_in_range by (simp add: list_all_iff)
qed

lemma emits_refl [simp]: "emits [] st st"
  by (simp add: emits_def)

lemma emits_trans: "emits as a b \<Longrightarrow> emits bs b c \<Longrightarrow> emits (as @ bs) a c"
  by (simp add: emits_def add.assoc)

lemma rows_ok_slot: "rows_ok st \<Longrightarrow> unat fid < fpga_fields \<Longrightarrow> has_slot st cid fid"
  by (simp add: rows_ok_def row_ok_def has_slot_def)

lemma append_keeps: "keeps sig st (append_c2h bs st)" and append_emits: "emits bs st (append_c2h bs st)"
  by (simp_all add: keeps_def holds_def append_c2h_def emits_def)

text \<open>An assignment to an entry that conforms to the signature.\<close>

lemma put_entry_keeps:
  assumes "has_slot st cid fid" and "\<And>e. entry_holds (sig (ucast cid) (unat fid)) (g e)"
  shows "keeps sig st (put_entry cid fid g st)" "emits [] st (put_entry cid fid g st)"
    "holds sig (put_entry cid fid g st) (ucast cid) (unat fid)"
  using assms by (auto simp: keeps_def holds_def put_entry_def emits_def has_slot_def nth_list_update)

lemma ucast_16_32:
  assumes "unat (c :: u32) < 65536"
  shows "(ucast (ucast c :: u16) :: u32) = c" and "(ucast (ucast c :: u16) :: u64) = ucast c"
proof -
  have "unat (ucast c :: u16) = unat c"
    using assms by (simp add: unsigned_ucast_eq take_bit_nat_eq_self)
  then show "(ucast (ucast c :: u16) :: u32) = c" "(ucast (ucast c :: u16) :: u64) = ucast c"
    by (metis word_of_nat_unat_ucast ucast_id)+
qed

lemma enter_class_ok:
  "keeps sig st (enter_class cid st)" "emits [] st (enter_class cid st)"
  by (auto simp: keeps_def holds_def emits_def enter_class_def Let_def)

lemma enter_class_in_range:
  "unat c < 65536 \<Longrightarrow> in_range (enter_class (ucast c) st) c"
  by (auto simp: in_range_def enter_class_def Let_def ucast_16_32)

lemma leave_class_ok:
  "keeps sig st (leave_class cid mfn clen st)" "emits [] st (leave_class cid mfn clen st)"
  by (auto simp: keeps_def holds_def emits_def leave_class_def Let_def)

section \<open>The walk\<close>

text \<open>The largest field number and the class length the loop accumulates.\<close>

definition step_max :: "sw_type \<times> u8 \<Rightarrow> u16 \<Rightarrow> u16" where
  "step_max f mfn = (if mfn < scast (snd f) then scast (snd f) else mfn)"

definition fields_length :: "(sw_type \<times> u8) list \<Rightarrow> u32" where
  "fields_length fs = sum_list (map (\<lambda>f. fpga_length (fst f)) fs)"

lemma unat_scast_16:
  assumes "unat (fid :: u8) < 128"
  shows "unat (scast fid :: u16) = unat fid"
proof -
  have "(scast fid :: u16) = of_nat (unat fid)"
    using assms by (intro scast_of_small) simp
  moreover have "unat (of_nat (unat fid) :: u16) = unat fid"
    using assms by (intro unat_of_nat_small) simp
  ultimately show ?thesis by (simp only:)
qed

text \<open>A turn of the loop on one member.\<close>

definition turn_ok :: "signature \<Rightarrow> u16 \<Rightarrow> sw_type \<times> u8 \<Rightarrow> mval \<Rightarrow> meta_state \<Rightarrow> meta_state \<Rightarrow> bool" where
  "turn_ok sig cid f v st st' \<longleftrightarrow> keeps sig st st' \<and> emits (c2h_mval v) st st'
     \<and> holds sig st' (ucast cid) (unat (snd f)) \<and> covered_val sig st' v"

definition walk_ok :: "signature \<Rightarrow> msg \<Rightarrow> meta_state \<Rightarrow> meta_state \<Rightarrow> bool" where
  "walk_ok sig m st st' \<longleftrightarrow> keeps sig st st' \<and> emits (c2h_msg m) st st' \<and> covered sig st' m"

lemma entry_holds_type:
  "slot_ok sig c f (MVal x) \<Longrightarrow> field_type e = type_byte t x \<Longrightarrow> entry_holds (sig c (unat (snd f))) e"
  by (simp add: slot_ok_def entry_holds_def inline_bit_def type_byte_inline)

lemma entry_holds_message:
  assumes "slot_ok sig c f (MSub m)" and "unat (class_id (msg_metadata m)) < 65536"
  shows "entry_holds (sig c (unat (snd f)))
     \<lparr>field_type = 1 OR push_bit 2 FPGA_TYPE_MESSAGE, reserve = 0,
       sub_class_id = ucast (class_id (msg_metadata m))\<rparr>"
  using assms by (simp add: slot_ok_def entry_holds_def inline_bit_def ucast_16_32 FPGA_TYPE_MESSAGE_def)

context describer
begin

lemma turn:
  assumes f: "field_ok (dec_field f) v" and slot: "slot_ok sig (ucast cid) (dec_field f) v"
    and rows: "rows_ok st"
    and sub: "\<And>m st. v = MSub m \<Longrightarrow> rows_ok st \<Longrightarrow>
       unat (class_id (msg_metadata m)) < 65536 \<and> (\<exists>st'. self (layout m) st = Inr st' \<and> walk_ok sig m st st')"
  shows "\<exists>st'. turn_ok sig cid (dec_field f) v st st' \<and>
     Meta_loop self describe cid (layout_fields off (us @ v # ws)) (f # fs)
       (off + strides us + mval_stride v) mfn clen st
     = Meta_loop self describe cid (layout_fields off (us @ v # ws)) fs (off + strides us)
         (step_max (dec_field f) mfn) (clen + fpga_length (fst (dec_field f))) st'"
proof -
  obtain w fid where wf: "f = (w, fid)" by (cases f)
  let ?t = "fst (dec_field f)"
  have dec: "decode_sw w = Some ?t" and snd: "snd (dec_field f) = fid"
    using dec_field_ok [OF f] by (simp_all add: wf dec_field_def)
  have fid: "unat fid < 128" using f snd by (simp add: field_ok_def)
  then have u: "unat (scast fid :: u16) = unat fid" by (rule unat_scast_16)
  then have has: "has_slot st cid (scast fid)" if "rows_ok st" for st
    using that slot snd by (intro rows_ok_slot) (simp_all add: slot_ok_def)
  note ld = load_layout [of off us v ws]
  show ?thesis
  proof (cases v)
    case (MVal c)
    then obtain k where k: "kind_of ?t = Some k" "cval_kind c = Some k"
      using f by (auto simp: field_ok_def)
    then have np: "?t \<noteq> sw_ptr_type" by (auto simp: cval_kind_iff)
    have stride: "mval_stride v = kind_stride k" using MVal k(2) by simp
    have load: "load (layout_fields off (us @ v # ws)) (off + strides us + kind_stride k - kind_stride k)
        = Inr (OVal c)" using ld MVal by simp
    have fit: "strings_fit c" using slot MVal by (simp add: slot_ok_def)
    obtain g where g: "describe cid (scast fid) ?t (layout_fields off (us @ v # ws))
          (off + strides us + kind_stride k) clen st
        = Inr (off + strides us, clen + fpga_length ?t,
            put_entry cid (scast fid) g (append_c2h (c2h_val c) st))"
      and ty: "\<And>e. field_type (g e) = type_byte ?t c"
      using describe_spec [OF k load fit has [OF rows], of clen] by auto
    let ?st = "put_entry cid (scast fid) g (append_c2h (c2h_val c) st)"
    have "entry_holds (sig (ucast cid) (unat (scast fid :: u16))) (g e)" for e
      using entry_holds_type [OF _ ty] slot MVal snd u by metis
    note put = put_entry_keeps [where st = "append_c2h (c2h_val c) st" and sig = sig,
        OF _ this, simplified, OF has [OF rows]]
    have "turn_ok sig cid (dec_field f) v st ?st"
      using put keeps_trans [OF append_keeps put(1)] emits_trans [OF append_emits put(2)] u snd
      by (simp add: turn_ok_def MVal)
    moreover have "Meta_loop self describe cid (layout_fields off (us @ v # ws)) (f # fs)
         (off + strides us + mval_stride v) mfn clen st
       = Meta_loop self describe cid (layout_fields off (us @ v # ws)) fs (off + strides us)
         (step_max (dec_field f) mfn) (clen + fpga_length ?t) ?st"
      using np dec snd g by (simp add: wf stride Let_def step_max_def)
    ultimately show ?thesis by blast
  next
    case (MSub m)
    then have t: "?t = sw_ptr_type"
      using f by (cases ?t) (simp_all add: field_ok_def)
    have cls: "unat (class_id (msg_metadata m)) < 65536" using sub [OF MSub rows] by blast
    let ?g = "\<lambda>_. \<lparr>field_type = 1 OR push_bit 2 FPGA_TYPE_MESSAGE, reserve = 0,
       sub_class_id = ucast (class_id (msg_metadata m))\<rparr>"
    let ?st1 = "put_entry cid (scast fid) ?g st"
    have "entry_holds (sig (ucast cid) (unat (scast fid :: u16))) (?g e)" for e
      using entry_holds_message [OF _ cls] slot MSub snd u by metis
    note put = put_entry_keeps [where sig = sig, OF has [OF rows] this]
    obtain st2 where st2: "self (layout m) ?st1 = Inr st2" "walk_ok sig m ?st1 st2"
      using sub [OF MSub keeps_rows [OF put(1) rows]] by blast
    have "turn_ok sig cid (dec_field f) v st st2"
      using put st2(2) keeps_trans [OF put(1)] emits_trans [OF put(2)] keeps_holds u snd
      by (auto simp: turn_ok_def walk_ok_def MSub)
    moreover have "load_object (layout_fields off (us @ v # ws)) (off + strides us) = Inr (layout m)"
      using ld MSub by (simp add: load_object_def)
    then have "Meta_loop self describe cid (layout_fields off (us @ v # ws)) (f # fs)
         (off + strides us + mval_stride v) mfn clen st
       = Meta_loop self describe cid (layout_fields off (us @ v # ws)) fs (off + strides us)
         (step_max (dec_field f) mfn) (clen + fpga_length ?t) st2"
      using dec snd t st2(1) upd_entry_ok [OF has [OF rows]]
      by (simp add: wf MSub Let_def step_max_def set_entry_def fpga_length_def)
    ultimately show ?thesis by blast
  qed
qed

lemma loop:
  assumes "list_all2 field_ok (map dec_field fs) vs"
    and "list_all2 (slot_ok sig (ucast cid)) (map dec_field fs) vs" and "rows_ok st"
    and "\<And>m st. MSub m \<in> set vs \<Longrightarrow> rows_ok st \<Longrightarrow>
       unat (class_id (msg_metadata m)) < 65536 \<and> (\<exists>st'. self (layout m) st = Inr st' \<and> walk_ok sig m st st')"
  shows "\<exists>st'. Meta_loop self describe cid (layout_fields off (vs @ ws)) (rev fs) (off + strides vs) mfn clen st
      = Inr (fold step_max (rev (map dec_field fs)) mfn, clen + fields_length (map dec_field fs), st')
    \<and> keeps sig st st' \<and> emits (c2h_vals vs) st st'
    \<and> list_all (\<lambda>f. holds sig st' (ucast cid) (unat (snd f))) (map dec_field fs)
    \<and> list_all (covered_val sig st') vs"
  using assms
proof (induction vs arbitrary: fs ws mfn clen st rule: rev_induct)
  case Nil
  then show ?case by (simp add: fields_length_def)
next
  case (snoc v vs)
  then obtain f fs' where fs: "fs = fs' @ [f]" and f: "field_ok (dec_field f) v"
    and fs': "list_all2 field_ok (map dec_field fs') vs"
    by (auto simp: list_all2_snoc map_eq_append_conv)
  have slot: "slot_ok sig (ucast cid) (dec_field f) v"
      "list_all2 (slot_ok sig (ucast cid)) (map dec_field fs') vs"
    using snoc.prems(2) by (auto simp: fs list_all2_snoc)
  obtain st1 where t1: "turn_ok sig cid (dec_field f) v st st1" and
    l1: "Meta_loop self describe cid (layout_fields off (vs @ v # ws)) (f # rev fs')
       (off + strides vs + mval_stride v) mfn clen st
     = Meta_loop self describe cid (layout_fields off (vs @ v # ws)) (rev fs') (off + strides vs)
         (step_max (dec_field f) mfn) (clen + fpga_length (fst (dec_field f))) st1"
    using turn [OF f slot(1) snoc.prems(3), of self off vs ws "rev fs'" mfn clen] snoc.prems(4)
    by auto
  have k1: "keeps sig st st1" and e1: "emits (c2h_mval v) st st1"
    and h1: "holds sig st1 (ucast cid) (unat (snd (dec_field f)))" and c1: "covered_val sig st1 v"
    using t1 by (simp_all add: turn_ok_def)
  have sub: "unat (class_id (msg_metadata m)) < 65536
      \<and> (\<exists>st'. self (layout m) st = Inr st' \<and> walk_ok sig m st st')"
    if "MSub m \<in> set vs" "rows_ok st" for m st
    using snoc.prems(4) [of m st] that by simp
  obtain st' where l2: "Meta_loop self describe cid (layout_fields off (vs @ v # ws)) (rev fs')
        (off + strides vs) (step_max (dec_field f) mfn) (clen + fpga_length (fst (dec_field f))) st1
      = Inr (fold step_max (rev (map dec_field fs')) (step_max (dec_field f) mfn),
             clen + fpga_length (fst (dec_field f)) + fields_length (map dec_field fs'), st')"
    and k2: "keeps sig st1 st'" and e2: "emits (c2h_vals vs) st1 st'"
    and h2: "list_all (\<lambda>f. holds sig st' (ucast cid) (unat (snd f))) (map dec_field fs')"
    and c2: "list_all (covered_val sig st') vs"
    using snoc.IH [OF fs' slot(2) keeps_rows [OF k1 snoc.prems(3)] sub, of "v # ws"
        "step_max (dec_field f) mfn" "clen + fpga_length (fst (dec_field f))"] by auto
  have "covered_val sig st' v"
    using c1 keeps_covered [OF k2] by (cases v) simp_all
  moreover have "emits (c2h_vals (vs @ [v])) st st'"
    using emits_trans [OF e1 e2] by (simp add: c2h_vals_snoc)
  ultimately show ?case
    using l1 l2 keeps_trans [OF k1 k2] keeps_holds [OF k2 h1] h2 c2
    by (simp add: fs fields_length_def algebra_simps)
qed

text \<open>The walk succeeds, and the row of the message's class gets the largest field number and the class
  length.\<close>

lemma walk:
  assumes "wf_msg m" and "sizes_agree msv m" and "consistent sig m" and "rows_ok st"
  shows "\<exists>st'. Meta_walk describe msv (layout m) st = Inr st' \<and> walk_ok sig m st st'
    \<and> max_field_number (table st' (class_id (msg_metadata m)))
        = fold step_max (rev (md_fields (msg_metadata m))) 0
    \<and> class_length (table st' (class_id (msg_metadata m)))
        = fields_length (md_fields (msg_metadata m))"
  using assms
proof (induction m arbitrary: st rule: msg_induct)
  case (Msg md vs)
  let ?fs = "take (unat (field_num md)) (zip (wire_type md) (field_id md))"
    and ?cid = "ucast (class_id md) :: u16" and ?self = "Meta_walk describe msv"
  have fields: "metadata_fields md = Inr ?fs" and ok: "list_all2 field_ok (map dec_field ?fs) vs"
    using Msg.prems(1) by (simp_all add: metadata_fields_ok md_fields_alt)
  have cls: "unat (class_id md) < 65536" using Msg.prems(3) by simp
  have cid: "ucast ?cid = class_id md" using ucast_16_32(1) [OF cls] .
  have slots: "list_all2 (slot_ok sig (ucast ?cid)) (map dec_field ?fs) vs"
    using Msg.prems(3) by (simp add: cid md_fields_alt)
  have sub: "unat (class_id (msg_metadata m)) < 65536
      \<and> (\<exists>st'. ?self (layout m) st = Inr st' \<and> walk_ok sig m st st')"
    if "MSub m \<in> set vs" "rows_ok st" for m st
  proof -
    have c: "consistent sig m"
      using Msg.prems(3) that(1) by (auto simp: list_all_iff dest: bspec)
    then have "unat (class_id (msg_metadata m)) < 65536" by (cases m) simp
    then show ?thesis
      using Msg.IH [OF that(1) _ _ c that(2)] wf_msg_sub [OF Msg.prems(1) that(1)]
        sizes_agree_sub [OF Msg.prems(2) that(1)] by blast
  qed
  let ?st0 = "enter_class ?cid st"
  have rows0: "rows_ok ?st0" using keeps_rows [OF enter_class_ok(1) Msg.prems(4)] .
  obtain st1 where l: "Meta_loop ?self describe ?cid (layout_fields first_member vs) (rev ?fs)
        (first_member + strides vs) 0 0 ?st0
      = Inr (fold step_max (rev (map dec_field ?fs)) 0, fields_length (map dec_field ?fs), st1)"
    and k: "keeps sig ?st0 st1" and e: "emits (c2h_vals vs) ?st0 st1"
    and h: "list_all (\<lambda>f. holds sig st1 (class_id md) (unat (snd f))) (map dec_field ?fs)"
    and c: "list_all (covered_val sig st1) vs"
    using loop [OF ok slots rows0 sub, of first_member "[]" 0 0] by (auto simp: cid)
  let ?st' = "leave_class ?cid (fold step_max (rev (map dec_field ?fs)) 0)
    (fields_length (map dec_field ?fs)) st1"
  have "Meta_walk describe msv (layout (Msg md vs)) st = Inr ?st'"
    using Msg.prems(2) fields l by (subst Meta_walk.simps) (simp add: cid msg_sizeof_def Let_def)
  moreover have "keeps sig st ?st'"
    using keeps_trans [OF keeps_trans [OF enter_class_ok(1) k] leave_class_ok(1)] .
  moreover have "emits (c2h_vals vs) st ?st'"
    using emits_trans [OF emits_trans [OF enter_class_ok(2) e] leave_class_ok(2)] by simp
  moreover have "covered sig st1 (Msg md vs)"
    using h c keeps_in_range [OF k enter_class_in_range [OF cls]] by (simp add: md_fields_alt)
  then have "covered sig ?st' (Msg md vs)"
    using keeps_covered [OF leave_class_ok(1)] by blast
  ultimately show ?case
    by (simp add: walk_ok_def leave_class_def cid md_fields_alt)
qed

end

section \<open>The table agrees with the message\<close>

lemma consistent_sub: "consistent sig (Msg md vs) \<Longrightarrow> MSub m \<in> set vs \<Longrightarrow> consistent sig m"
  by (auto simp: list_all_iff dest: bspec)

lemma covered_sub: "covered sig st (Msg md vs) \<Longrightarrow> MSub m \<in> set vs \<Longrightarrow> covered sig st m"
  by (auto simp: list_all_iff dest: bspec)

lemma covered_agrees:
  "consistent sig m \<Longrightarrow> covered sig st m \<Longrightarrow> table_agrees True (table st) m"
proof (induction m rule: msg_induct)
  case (Msg md vs)
  have "list_all2 (slot_ok sig (class_id md)) (md_fields md) vs"
    and "list_all (\<lambda>f. holds sig st (class_id md) (unat (snd f))) (md_fields md)"
    using Msg.prems by simp_all
  then have "list_all2 (entry_agrees True (table st (class_id md))) (md_fields md) vs"
    by (induction rule: list_all2_induct)
      (auto simp: slot_ok_def holds_def entry_holds_def entry_agrees_def Let_def split: mval.splits)
  moreover have "table_agrees_val True (table st) v" if "v \<in> set vs" for v
    using that Msg.IH consistent_sub [OF Msg.prems(1)] covered_sub [OF Msg.prems(2)]
    by (cases v rule: mval.exhaust) simp_all
  ultimately show ?case by (simp add: list_all_iff)
qed

section \<open>Examples\<close>

text \<open>The state of a caller before its first message, with room for every field number below 46.\<close>

definition fresh_state :: meta_state where
  "fresh_state = \<lparr>table = \<lambda>_. \<lparr>fclass_id = 0, max_field_number = 0, class_length = 0,
       field = replicate 46 \<lparr>field_type = 0, reserve = 0, sub_class_id = 0\<rparr>\<rparr>,
     c2h = [], p_c2h_buffer_size = 0, min_class_id = 1000, max_class_id = 0\<rparr>"

lemma fresh_rows_ok: "rows_ok fresh_state"
  by (simp add: fresh_state_def rows_ok_def row_ok_def fpga_fields_def)

text \<open>The signature of \<open>tree s\<close>.\<close>

definition tree_signature :: "bytes \<Rightarrow> signature" where
  "tree_signature s c i =
     (if c = 1 \<and> i = 2 then (True, Some 2) else if c = 2 then (\<not> long_limit < length s, None)
      else (True, None))"

lemma tree_consistent: "string_fits s \<Longrightarrow> consistent (tree_signature s) (tree s)"
  by (simp add: tree_def leaf_def tree_signature_def slot_ok_def fpga_fields_def)

definition long_string :: bytes where
  "long_string = replicate 1100 97"

lemma long_string_fits: "string_fits long_string"
  by (simp add: long_string_def string_fits_def)

section \<open>Facts the properties share\<close>

lemma c2h_lines: "consistent sig m \<Longrightarrow> 64 dvd length (c2h_msg m)"
proof (induction m rule: msg_induct)
  case (Msg md vs)
  have blocks: "list_all string_fits ss \<Longrightarrow> 64 dvd length (concat (map block ss))" for ss
    by (induction ss) (simp_all add: length_block(2) dvd_add)
  have val: "64 dvd length (c2h_val x)" if "strings_fit x" for x
  proof (cases x)
    case (RStr ss)
    have "64 dvd length (concat (map block (rev ss)))"
      using that RStr by (intro blocks) (simp add: list_all_iff)
    then show ?thesis using RStr by (simp add: count_block_def)
  qed (use that length_block(2) in simp_all)
  have "list_all2 (slot_ok sig (class_id md)) (md_fields md) vs"
    using Msg.prems by simp
  then have fit: "v \<in> set vs \<Longrightarrow> (case v of MVal x \<Rightarrow> strings_fit x | MSub m \<Rightarrow> True)" for v
    by (auto simp: list_all2_conv_all_nth in_set_conv_nth slot_ok_def)
  have "64 dvd length (c2h_mval v)" if v: "v \<in> set vs" for v
  proof (cases v)
    case (MVal x)
    then show ?thesis using val fit [OF v] by simp
  next
    case (MSub m)
    then show ?thesis using Msg.IH [of m] consistent_sub [OF Msg.prems] v by simp
  qed
  then have "64 dvd length (c2h_vals vs)"
    by (induction vs) (simp_all add: dvd_add)
  then show ?case by simp
qed

text \<open>The class numbers of the objects of a message.\<close>

fun msg_classes :: "msg \<Rightarrow> u32 list"
  and val_classes :: "mval \<Rightarrow> u32 list" where
  "msg_classes (Msg md vs) = class_id md # concat (map val_classes vs)"
| "val_classes (MVal c) = []"
| "val_classes (MSub m) = msg_classes m"

lemma covered_classes: "covered sig st m \<Longrightarrow> list_all (in_range st) (msg_classes m)"
proof (induction m rule: msg_induct)
  case (Msg md vs)
  have "list_all (in_range st) (val_classes v)" if "v \<in> set vs" for v
    using that Msg.IH covered_sub [OF Msg.prems] by (cases v rule: mval.exhaust) simp_all
  then show ?case using Msg.prems by (auto simp: list_all_iff)
qed

lemma step_max_fold:
  "list_all (\<lambda>f. unat (snd f) < 128) fs \<Longrightarrow>
   unat (fold step_max fs n) = fold (\<lambda>f k. max (unat (snd f)) k) fs (unat n)"
proof (induction fs arbitrary: n)
  case (Cons f fs)
  then have "unat (step_max f n) = max (unat (snd f)) (unat n)"
    by (simp add: step_max_def unat_scast_16 word_less_nat_alt max_def)
  with Cons show ?case by simp
qed simp

section \<open>Properties\<close>

text \<open>C4. \<open>SendMetadataToFPGA\<close> on a message in which objects of one class agree on their
  long strings succeeds and leaves a class table that tells the parser the truth: the inline bit of
  every field is set exactly if the serializer writes the field, and every message field names the
  class of its sub-message.\<close>

theorem send_table_agrees:
  assumes "wf_msg m" and "sizes_agree msv m" and "consistent sig m" and "rows_ok st"
  shows "\<exists>st'. SendMetadataToFPGA (layout m) msv st = Inr st' \<and> table_agrees True (table st') m"
  using sw_walk.walk [OF assms] covered_agrees [OF assms(3)]
  by (auto simp: SendMetadataToFPGA_def walk_ok_def)

theorem send_table_agrees_witness:
  "\<exists>st'. SendMetadataToFPGA (layout (tree long_string)) tree_sizes fresh_state = Inr st'
    \<and> table_agrees True (table st') (tree long_string)"
  by (rule send_table_agrees [OF tree_ok tree_consistent [OF long_string_fits] fresh_rows_ok])

text \<open>C7. The walk for the hardware serializer leaves a table that agrees with the message in the same
  sense; it differs from the software walk only in the counts it keeps beside the types.\<close>

theorem send_hw_table_agrees:
  assumes "wf_msg m" and "sizes_agree msv m" and "consistent sig m" and "rows_ok st"
  shows "\<exists>st'. SendMetadataToFPGA_hw (layout m) msv st = Inr st' \<and> table_agrees True (table st') m"
  using hw_walk.walk [OF assms] covered_agrees [OF assms(3)]
  by (auto simp: SendMetadataToFPGA_hw_def walk_ok_def)

theorem send_hw_table_agrees_witness:
  "\<exists>st'. SendMetadataToFPGA_hw (layout (tree long_string)) tree_sizes fresh_state = Inr st'
    \<and> table_agrees True (table st') (tree long_string)"
  by (rule send_hw_table_agrees [OF tree_ok tree_consistent [OF long_string_fits] fresh_rows_ok])

text \<open>C8. Both walks append the same blocks to the buffer for the FPGA, those of the long
  strings of the message from its last field to its first; they add to \<open>p_c2h_buffer_size\<close> exactly
  the number of bytes appended, a multiple of the 64 bytes of a line.\<close>

theorem send_buffer_accounting:
  assumes "wf_msg m" and "sizes_agree msv m" and "consistent sig m" and "rows_ok st"
  shows "\<exists>sw hw. SendMetadataToFPGA (layout m) msv st = Inr sw \<and> SendMetadataToFPGA_hw (layout m) msv st = Inr hw
    \<and> c2h sw = c2h st @ c2h_msg m \<and> c2h hw = c2h sw \<and> 64 dvd length (c2h_msg m)
    \<and> p_c2h_buffer_size sw = p_c2h_buffer_size st + of_nat (length (c2h_msg m))
    \<and> p_c2h_buffer_size hw = p_c2h_buffer_size sw"
proof -
  obtain sw hw where "Meta_walk Describe_field msv (layout m) st = Inr sw" "walk_ok sig m st sw"
      "Meta_walk Describe_hw_field msv (layout m) st = Inr hw" "walk_ok sig m st hw"
    using sw_walk.walk [OF assms] hw_walk.walk [OF assms] by blast
  then show ?thesis
    using c2h_lines [OF assms(3)]
    by (simp add: SendMetadataToFPGA_def SendMetadataToFPGA_hw_def walk_ok_def emits_def)
qed

theorem send_buffer_accounting_witness:
  "\<exists>sw hw. SendMetadataToFPGA (layout (tree long_string)) tree_sizes fresh_state = Inr sw
    \<and> SendMetadataToFPGA_hw (layout (tree long_string)) tree_sizes fresh_state = Inr hw
    \<and> c2h sw = c2h fresh_state @ c2h_msg (tree long_string) \<and> c2h hw = c2h sw
    \<and> 64 dvd length (c2h_msg (tree long_string))
    \<and> p_c2h_buffer_size sw = p_c2h_buffer_size fresh_state + of_nat (length (c2h_msg (tree long_string)))
    \<and> p_c2h_buffer_size hw = p_c2h_buffer_size sw"
  by (rule send_buffer_accounting [OF tree_ok tree_consistent [OF long_string_fits] fresh_rows_ok])

text \<open>After the walk the range from \<open>min_class_id\<close> to \<open>max_class_id\<close>, by which the caller
  decides which rows of the table to send, holds the class of every object of the message, and is no
  smaller than it was.\<close>

theorem send_class_range:
  assumes "wf_msg m" and "sizes_agree msv m" and "consistent sig m" and "rows_ok st"
  shows "\<exists>st'. SendMetadataToFPGA (layout m) msv st = Inr st'
    \<and> list_all (\<lambda>c. min_class_id st' \<le> ucast c \<and> ucast c \<le> max_class_id st') (msg_classes m)
    \<and> min_class_id st' \<le> min_class_id st \<and> max_class_id st \<le> max_class_id st'"
proof -
  obtain st' where "Meta_walk Describe_field msv (layout m) st = Inr st'" "walk_ok sig m st st'"
    using sw_walk.walk [OF assms] by blast
  then show ?thesis
    using covered_classes [of sig st' m]
    by (simp add: SendMetadataToFPGA_def walk_ok_def in_range_def [abs_def] keeps_def)
qed

theorem send_class_range_witness:
  "\<exists>st'. SendMetadataToFPGA (layout (tree long_string)) tree_sizes fresh_state = Inr st'
    \<and> list_all (\<lambda>c. min_class_id st' \<le> ucast c \<and> ucast c \<le> max_class_id st') (msg_classes (tree long_string))
    \<and> min_class_id st' \<le> min_class_id fresh_state \<and> max_class_id fresh_state \<le> max_class_id st'"
  by (rule send_class_range [OF tree_ok tree_consistent [OF long_string_fits] fresh_rows_ok])

text \<open>The row of the message's class gets its largest field number and the sum of the lengths the FPGA
  gives to its fields: four bytes for 32-bit values and bools, eight for the rest.\<close>

theorem send_class_row:
  assumes "wf_msg m" and "sizes_agree msv m" and "consistent sig m" and "rows_ok st"
  shows "\<exists>st'. SendMetadataToFPGA (layout m) msv st = Inr st'
    \<and> unat (max_field_number (table st' (class_id (msg_metadata m))))
        = fold (\<lambda>f k. max (unat (snd f)) k) (rev (md_fields (msg_metadata m))) 0
    \<and> class_length (table st' (class_id (msg_metadata m)))
        = sum_list (map (\<lambda>f. fpga_length (fst f)) (md_fields (msg_metadata m)))"
proof -
  obtain md vs where m: "m = Msg md vs" by (cases m)
  have "list_all (\<lambda>f. unat (snd f) < 128) (md_fields md)"
    using assms(1) by (auto simp: m list_all2_conv_all_nth list_all_length field_ok_def)
  then have "list_all (\<lambda>f. unat (snd f) < 128) (rev (md_fields (msg_metadata m)))"
    by (simp add: m list_all_iff)
  then show ?thesis
    using sw_walk.walk [OF assms] step_max_fold [of "rev (md_fields (msg_metadata m))" 0]
    by (auto simp: SendMetadataToFPGA_def fields_length_def)
qed

theorem send_class_row_witness:
  "\<exists>st'. SendMetadataToFPGA (layout (tree long_string)) tree_sizes fresh_state = Inr st'
    \<and> unat (max_field_number (table st' (class_id (msg_metadata (tree long_string)))))
        = fold (\<lambda>f k. max (unat (snd f)) k) (rev (md_fields (msg_metadata (tree long_string)))) 0
    \<and> class_length (table st' (class_id (msg_metadata (tree long_string))))
        = sum_list (map (\<lambda>f. fpga_length (fst f)) (md_fields (msg_metadata (tree long_string))))"
  by (rule send_class_row [OF tree_ok tree_consistent [OF long_string_fits] fresh_rows_ok])

text \<open>A long string travels as a line whose first eight bytes hold its size rounded up to
  lines, then the string, then zeros up to that size; the buffer size grows by both parts.\<close>

theorem long_string_block:
  assumes "length s < 2 ^ 63"
  shows "\<exists>header padding. c2h (push_block s st) = c2h st @ header @ s @ padding
    \<and> length header = 64 \<and> le_nat (take 8 header) = (length s + 63) div 64 * 64
    \<and> length (s @ padding) = (length s + 63) div 64 * 64
    \<and> p_c2h_buffer_size (push_block s st)
        = p_c2h_buffer_size st + of_nat (length (header @ s @ padding))"
proof -
  have fits: "string_fits s" using assms by (simp add: string_fits_def)
  let ?header = "le_bytes 8 (unat (aligned_size s)) @ replicate 56 0"
    and ?padding = "replicate (unat (aligned_size s - of_nat (length s))) 0"
  have "unat (aligned_size s) < 256 ^ 8" using unat_less [of "aligned_size s"] by simp
  moreover have "block s = ?header @ s @ ?padding" by (simp add: block_def)
  moreover have "length (s @ ?padding) = (length s + 63) div 64 * 64"
  proof -
    have e: "unat (of_nat (length s) :: u64) = length s" using assms by (intro unat_of_nat_small) simp
    have "length s \<le> unat (aligned_size s)" unfolding unat_aligned_size [OF fits] by presburger
    then have "unat (aligned_size s - of_nat (length s)) = unat (aligned_size s) - length s"
      using e by (simp add: unat_sub word_le_nat_alt)
    then show ?thesis using \<open>length s \<le> unat (aligned_size s)\<close> unat_aligned_size [OF fits] by simp
  qed
  ultimately show ?thesis
    using unat_aligned_size [OF fits]
    by (intro exI [of _ ?header] exI [of _ ?padding])
      (simp add: push_block_eq [OF fits] append_c2h_def le_nat_le_bytes)
qed

theorem long_string_block_witness:
  "\<exists>header padding. c2h (push_block long_string fresh_state) = c2h fresh_state @ header @ long_string @ padding
    \<and> length header = 64 \<and> le_nat (take 8 header) = (length long_string + 63) div 64 * 64
    \<and> length (long_string @ padding) = (length long_string + 63) div 64 * 64
    \<and> p_c2h_buffer_size (push_block long_string fresh_state)
        = p_c2h_buffer_size fresh_state + of_nat (length (header @ long_string @ padding))"
  by (rule long_string_block) (simp add: long_string_def)

text \<open>A row has 46 entries: a message whose last field is an int64 numbered from 46 to 127 makes the walk
  write outside the row at once.\<close>

theorem far_field_number:
  assumes "metadata_fields md = Inr (fs @ [(w, fid)])" and "decode_sw w = Some sw_int64_type"
    and "46 \<le> unat fid" and "unat fid < 128" and "rows_ok st"
  shows "SendMetadataToFPGA (Obj md cells) msv st = Inl Overrun"
proof -
  let ?cid = "ucast (class_id md) :: u16"
  have "rows_ok (enter_class ?cid st)" using keeps_rows [OF enter_class_ok(1) assms(5)] .
  then have "length (field (table (enter_class ?cid st) (ucast ?cid))) = 46"
    by (simp add: rows_ok_def row_ok_def fpga_fields_def)
  then have "set_entry ?cid (scast fid) ty sub (enter_class ?cid st) = Inl Overrun" for ty sub
    using assms(3) by (simp add: set_entry_def upd_entry_def unat_scast_16 [OF assms(4)])
  then show ?thesis
    unfolding SendMetadataToFPGA_def
    by (subst Meta_walk.simps) (simp add: assms(1,2) Describe_field_def Let_def)
qed

theorem far_field_number_witness:
  "SendMetadataToFPGA (Obj (descriptor 1 [(sw_bool_type, 1), (sw_int64_type, 46)]) []) (\<lambda>_. 32) fresh_state = Inl Overrun"
  by (rule far_field_number [where fs = "[(sw_code sw_bool_type, 1)]" and fid = 46, OF _ decode_sw_code])
    (simp_all add: fresh_rows_ok)

text \<open>For a repeated string with a long element the hardware walk adds the lines of all
  elements to the count the entry already held; for repeated bytes it overwrites it with the lines of
  each element in turn, so the count of the first element is left.\<close>

theorem hw_repeated_counts:
  assumes "load cells (off - 24) = Inr (OVal (RStr (s # ss)))" and "list_ex (\<lambda>s. 1024 < length s) (s # ss)"
    and "unat fid < length (field (table st (ucast cid)))"
  shows "\<exists>st1 st2. Describe_hw_field cid fid sw_repeated_string_type cells off clen st = Inr (off - 24, clen + 8, st1)
    \<and> Describe_hw_field cid fid sw_repeated_bytes_type cells off clen st = Inr (off - 24, clen + 8, st2)
    \<and> sub_class_id (field (table st1 (ucast cid)) ! unat fid)
        = sub_class_id (field (table st (ucast cid)) ! unat fid)
          + sum_list (map (\<lambda>s. ucast (aligned_size s div 64)) (s # ss))
    \<and> sub_class_id (field (table st2 (ucast cid)) ! unat fid) = ucast (aligned_size s div 64)"
proof -
  have tab: "table (push_repeated ts st) = table st" for ts
  proof -
    have "table (fold push_block us st') = table st'" for us st'
      by (induction us arbitrary: st') (simp_all add: push_block_def)
    then show ?thesis by (simp add: push_repeated_def push_count_def)
  qed
  have slot: "has_slot (push_repeated (s # ss) st) cid fid" using assms(3) by (simp add: has_slot_def tab)
  have sum: "fold (\<lambda>s n. n + f s) (rev ts) k = k + sum_list (map f ts)" for f :: "bytes \<Rightarrow> u16" and ts k
    by (induction ts arbitrary: k) (simp_all add: algebra_simps)
  show ?thesis
    using assms(1,2) upd_entry_ok [OF slot]
    by (simp add: Describe_hw_field_def Describe_hw_fixed_def Describe_hw_strings_def load_as_def
        put_entry_def tab assms(3) sum algebra_simps)
qed

theorem hw_repeated_counts_witness:
  "\<exists>st1 st2. Describe_hw_field 1 2 sw_repeated_string_type [(16, OVal (RStr [long_string, [1]]))] 40 0 fresh_state = Inr (40 - 24, 0 + 8, st1)
    \<and> Describe_hw_field 1 2 sw_repeated_bytes_type [(16, OVal (RStr [long_string, [1]]))] 40 0 fresh_state = Inr (40 - 24, 0 + 8, st2)
    \<and> sub_class_id (field (table st1 (ucast (1 :: u16))) ! unat (2 :: u16))
        = sub_class_id (field (table fresh_state (ucast (1 :: u16))) ! unat (2 :: u16))
          + sum_list (map (\<lambda>s. ucast (aligned_size s div 64)) [long_string, [1]])
    \<and> sub_class_id (field (table st2 (ucast (1 :: u16))) ! unat (2 :: u16)) = ucast (aligned_size long_string div 64)"
  by (rule hw_repeated_counts) (simp_all add: load_def long_string_def fresh_state_def)

end
