(* ===== verification/Repeated_Walks.thy ===== *)
theory Repeated_Walks
  imports No_Serialize Paralizer Parse Fpga_Metadata_Spec
begin

text \<open>
  The functions \<open>include/no_encode_main.h\<close> and \<open>include/paralizer.h\<close> repeat from \<open>include/encode_main.h\<close>
  without a change: the metadata walks and the parser.  Their text is the same, and so are the readers
  of \<open>include/decode.h\<close> it calls, so each is the function modelled before.  The serializers beside them
  write other formats, which that parser does not read: a message does not survive the round trip.
\<close>

section \<open>The baseline\<close>

definition SendMetadataToFPGA_raw :: "obj \<Rightarrow> (u32 \<Rightarrow> u64) \<Rightarrow> meta_state \<Rightarrow> meta_state result" where
  "SendMetadataToFPGA_raw = SendMetadataToFPGA"

definition SendMetadataToFPGA_hw_raw :: "obj \<Rightarrow> (u32 \<Rightarrow> u64) \<Rightarrow> meta_state \<Rightarrow> meta_state result" where
  "SendMetadataToFPGA_hw_raw = SendMetadataToFPGA_hw"

definition ParseFromString_DFS_raw :: "nat \<Rightarrow> tables \<Rightarrow> u32 \<Rightarrow> cells \<Rightarrow> rptr \<Rightarrow> (rptr \<times> cells) result" where
  "ParseFromString_DFS_raw = ParseFromString_DFS"

definition ParseFromString_raw :: "nat \<Rightarrow> bytes \<Rightarrow> obj \<Rightarrow> u16 \<Rightarrow> tables \<Rightarrow> obj result" where
  "ParseFromString_raw = ParseFromString"

section \<open>The forward-order header\<close>

definition SendMetadataToFPGA_forward :: "obj \<Rightarrow> (u32 \<Rightarrow> u64) \<Rightarrow> meta_state \<Rightarrow> meta_state result" where
  "SendMetadataToFPGA_forward = SendMetadataToFPGA"

definition ParseFromString_DFS_forward :: "nat \<Rightarrow> tables \<Rightarrow> u32 \<Rightarrow> cells \<Rightarrow> rptr \<Rightarrow> (rptr \<times> cells) result" where
  "ParseFromString_DFS_forward = ParseFromString_DFS"

definition ParseFromString_forward :: "nat \<Rightarrow> bytes \<Rightarrow> obj \<Rightarrow> u16 \<Rightarrow> tables \<Rightarrow> obj result" where
  "ParseFromString_forward = ParseFromString"

section \<open>A class with one integer\<close>

definition int_message :: "u8 \<Rightarrow> u32 \<Rightarrow> msg" where
  "int_message i v = Msg (descriptor 1 [(sw_int32_type, i)]) [MVal (V32 v)]"

definition int_tables :: "u8 \<Rightarrow> tables" where
  "int_tables i = \<lparr>metadataVec = \<lambda>_. descriptor 1 [(sw_int32_type, i)], messageSizeVec = \<lambda>_. 24,
     FPGA_metadataVec = \<lambda>_. \<lparr>fclass_id = 1, max_field_number = ucast i, class_length = 4,
       field = replicate 46 \<lparr>field_type = 1, reserve = 0, sub_class_id = 0\<rparr>\<rparr>,
     createMessage = \<lambda>_. Inr [(16, OVal Raw)]\<rparr>"

lemma int_message_ok:
  "unat i < 128 \<Longrightarrow> wf_msg (int_message i v)" "sizes_agree (\<lambda>_. 24) (int_message i v)" "no_rbool (int_message i v)"
  by (simp_all add: int_message_def field_ok_def msg_sizeof_def first_member_def)

text \<open>The parser on an object of this class: a length, a tag, and the value.\<close>

lemma parse_int:
  assumes "unat i < 46"
  shows "ParseFromString 1 data (Obj md0 [(16, OVal Raw)]) 1 (int_tables i)
     = andThen (ReadHeader True (Some (data @ [0]))) (\<lambda>cur.
       andThen (ReadVarint32 cur) (\<lambda>(cur, v). Inr (layout (int_message i v))))"
proof -
  have "decode_sw 1 = Some sw_int32_type" using decode_sw_code [of sw_int32_type] by simp
  moreover have "unat (scast i :: u32) = unat i" using assms by (intro unat_scast_field_id) simp
  ultimately show ?thesis
    using assms
    by (cases "ReadHeader True (Some (data @ [0]))")
      (auto simp: ParseFromString_def int_tables_def int_message_def first_member_def Parse_field_def
        get_field_def store_val_def store_def load_def fpga_fields_def andThen_def split: sum.splits)
qed

text \<open>The first bytes of a tag of four bytes, read as a varint: one byte, or two when its low byte is 128 or
  more, which leaves the next byte to be read as the value.\<close>

lemma read_fixed_tag:
  assumes "0 < n" and "n < 46"
  shows "\<exists>w rest'. ReadVarint32 (Some (le_bytes 4 (8 * n) @ rest))
    = Inr (Some (of_nat (if n < 32 then 0 else 1) # rest'), w)"
proof -
  define m h where "m = 8 * n mod 256" and "h = 8 * n div 256"
  have h: "h = (if n < 32 then 0 else 1)"
    using assms(2) unfolding h_def by (cases "n < 32") (simp_all add: div_nat_eqI)
  have m: "m < 256" "n < 32 \<or> m < 128"
    using assms(2) le_mod_geq [of 256 "8 * n"] by (cases "n < 32"; simp add: m_def)+
  have "(4 :: nat) = Suc (Suc (Suc (Suc 0)))" by simp
  then have "le_bytes 4 (8 * n) = [of_nat m, of_nat (h mod 256), of_nat (h div 256 mod 256), of_nat (h div 256 div 256 mod 256)]"
    unfolding m_def h_def by (simp only: le_bytes.simps)
  then have t: "le_bytes 4 (8 * n) @ rest = of_nat m # of_nat h # 0 # 0 # rest"
    unfolding h by simp
  have u: "(ucast (of_nat m :: u8) :: u32) = of_nat m" using m(1) by (intro ucast_of_nat_small) simp
  have b: "(of_nat m AND 0x80 :: u32) = 0 \<longleftrightarrow> m < 128" using m(1) by (rule and_0x80_eq_0)
  show ?thesis
    unfolding t h using u b m(2) by (auto simp: ReadVarint32_def VarintParse_def byte_at_def Let_def)
qed

section \<open>Properties\<close>

text \<open>C39. The baseline cannot read what it writes: its serializer writes tags of four bytes, its
  parser reads varints, so it takes a byte of the tag for the value.  For a class of one \<open>int32\<close>, whatever value
  is sent and whatever the number of the field, the parser reports no error and returns 0 when the number is
  below 32 and 1 from 32 to 45, the largest a row of the class table holds.\<close>

theorem baseline_parser_reads_tag:
  assumes "0 < unat i" and "unat i < 46"
  shows "\<exists>out. SerializeToString_raw (layout (int_message i v)) False 0 (\<lambda>_. 24)
      = Inr (out, of_nat (length out), of_nat (length out))
    \<and> ParseFromString_raw 1 out (Obj md0 [(16, OVal Raw)]) 1 (int_tables i)
      = Inr (layout (int_message i (if unat i < 32 then 0 else 1)))"
proof -
  let ?out = "msg_bytes raw_field_bytes False (int_message i v)" and ?n = "if unat i < 32 then 0 else 1 :: nat"
  have i: "unat (scast i :: u32) = unat i" using assms(2) by (intro unat_scast_field_id) simp
  have "raw_tag (scast i) PROTOBUF_VARINT_TYPE = le_bytes 4 (8 * unat i)"
    using assms(2) by (simp add: raw_tag_def enc_fixed32_def unat_tag i protobuf_types mult.commute del: or.right_neutral)
  then have out: "?out @ [0] = le_bytes 2 8 @ le_bytes 4 (8 * unat i) @ le_bytes 4 (unat v) @ [0]"
    by (simp add: int_message_def raw_field_bytes_def raw_prefix_def raw_body_def enc_fixed32_def protobuf_types)
  obtain w rest where tag: "ReadVarint32 (Some (le_bytes 4 (8 * unat i) @ le_bytes 4 (unat v) @ [0]))
      = Inr (Some (of_nat ?n # rest), w)"
    using read_fixed_tag [OF assms] by blast
  have "ReadHeader True (Some (?out @ [0])) = Inr (Some (of_nat ?n # rest))"
    unfolding out by (simp add: ReadHeader_def ReadFieldLength_def read_le_def tag)
  moreover have "ReadVarint32 (Some (of_nat ?n # rest)) = Inr (Some rest, of_nat ?n)"
    using ReadVarint32_correct [of ?n rest] by (simp add: varint_small)
  ultimately have "ParseFromString_raw 1 ?out (Obj md0 [(16, OVal Raw)]) 1 (int_tables i)
      = Inr (layout (int_message i (if unat i < 32 then 0 else 1)))"
    by (simp add: ParseFromString_raw_def parse_int [OF assms(2)] if_distrib [of of_nat] del: One_nat_def cong: if_cong)
  moreover have "SerializeToString_raw (layout (int_message i v)) False 0 (\<lambda>_. 24)
      = Inr (?out, of_nat (length ?out), of_nat (length ?out))"
    using raw_sizes.walk_size [OF int_message_ok(1)] raw_writes.walk_bytes [OF int_message_ok(1,2)] assms(2)
    by (simp add: SerializeToString_raw_def ByteSizeLong_raw_def SerializeToString_DFS_raw_def)
  ultimately show ?thesis by (intro exI [of _ ?out] conjI)
qed

theorem baseline_parser_reads_tag_witness:
  "(\<exists>out. SerializeToString_raw (layout (int_message 1 77)) False 0 (\<lambda>_. 24)
      = Inr (out, of_nat (length out), of_nat (length out))
    \<and> ParseFromString_raw 1 out (Obj (descriptor 1 []) [(16, OVal Raw)]) 1 (int_tables 1) = Inr (layout (int_message 1 0)))
   \<and> (\<exists>out. SerializeToString_raw (layout (int_message 32 77)) False 0 (\<lambda>_. 24)
      = Inr (out, of_nat (length out), of_nat (length out))
    \<and> ParseFromString_raw 1 out (Obj (descriptor 1 []) [(16, OVal Raw)]) 1 (int_tables 32) = Inr (layout (int_message 32 1)))"
  using baseline_parser_reads_tag [of 1 77 "descriptor 1 []"] baseline_parser_reads_tag [of 32 77 "descriptor 1 []"] by simp

text \<open>Nor can the forward-order header: its parser expects a length of two bytes before each tag, which
  its serializer does not write, so an integer below 128 makes it read past the end of the string.\<close>

theorem forward_parser_overruns:
  assumes "unat v < 128"
  shows "\<exists>out. SerializeToString_forward (layout (int_message 1 v)) False = Inr out
    \<and> ParseFromString_forward 1 out (Obj md0 [(16, OVal Raw)]) 1 (int_tables 1) = Inl Overrun"
proof -
  let ?out = "proto_msg False False (int_message 1 v)"
  have "(scast v :: u64) = of_nat (unat v)" using assms by (intro scast_of_small) simp
  then have "unat (scast v :: u64) = unat v" by (simp only:) (rule unat_of_nat_small, use assms in simp)
  then have out: "?out = [8, of_nat (unat v)]"
    by (simp add: int_message_def field_body_def tag_def tag_bytes_def enc_i32_def enc_u64_def enc_u32_def varint_small assms
        protobuf_types)
  have "ReadHeader True (Some (?out @ [0])) = Inr (Some [])"
    unfolding out using ReadVarint32_correct [of 0 "[]"]
    by (simp add: ReadHeader_def ReadFieldLength_def read_le_def varint_small)
  then have "ParseFromString_forward 1 ?out (Obj md0 [(16, OVal Raw)]) 1 (int_tables 1) = Inl Overrun"
    by (simp add: ParseFromString_forward_def parse_int [of 1] ReadVarint32_def VarintParse_def byte_at_def del: One_nat_def)
  then show ?thesis
    using SerializeToString_forward_layout [OF int_message_ok(1) [of 1] int_message_ok(3)] by (intro exI [of _ ?out]) simp
qed

theorem forward_parser_overruns_witness:
  "\<exists>out. SerializeToString_forward (layout (int_message 1 77)) False = Inr out
    \<and> ParseFromString_forward 1 out (Obj (descriptor 1 []) [(16, OVal Raw)]) 1 (int_tables 1) = Inl Overrun"
  by (rule forward_parser_overruns) simp

end
