(* ===== verification/Drivers.thy ===== *)
theory Drivers
  imports Fpga_Ctl Repeated_Walks
begin

text \<open>
  The programs under \<open>src/src\<close> that drive the card: \<open>serialize_hw.cpp\<close>, \<open>serialize_co.cpp\<close>,
  \<open>serialize_sw.cpp\<close> and \<open>deserialize_hw.cpp\<close>.  Each opens the board, allocates one block of DMA
  memory and splits it in two halves, fills the class table and sends its rows line by line,
  serializes a message into the first half, and issues a command that names buffers and lengths.
  The message comes from \<open>BenchmarkInit\<close> of the benchmark the program is built with and is an
  argument here, like the results of \<open>mmap\<close> and \<open>ioctl\<close>.  Printing, timing, \<open>sleep\<close> and the
  initial fill of the buffers, which nothing reads before it is overwritten, are left out.
\<close>

section \<open>Rows of the class table as bridge lines\<close>

text \<open>The memory image of an \<open>FPGA_Metadata\<close>, 192 bytes, and \<open>memcpy\<close> of it to \<open>uint64_t metadata[3][8]\<close>.\<close>

definition field_image :: "FPGA_Field \<Rightarrow> bytes" where
  "field_image f = [field_type f, reserve f] @ le_bytes 2 (unat (sub_class_id f))"

definition row_image :: "FPGA_Metadata \<Rightarrow> bytes" where
  "row_image r = le_bytes 2 (unat (fclass_id r)) @ le_bytes 2 (unat (max_field_number r))
     @ le_bytes 4 (unat (class_length r)) @ concat (map field_image (field r))"

function words_of :: "bytes \<Rightarrow> u64 list" where
  "words_of bs = (if bs = [] then [] else of_nat (le_nat (take 8 bs)) # words_of (drop 8 bs))"
  by pat_completeness auto
termination by (relation "measure length") simp_all

declare words_of.simps [simp del]

definition send_lines :: "fpga_ctl \<Rightarrow> u64 list \<Rightarrow> fpga_host \<Rightarrow> fpga_host result" where
  "send_lines ctl metadata st =
     andThen (ctl_writeBridge ctl 20 (take 8 metadata) st) (\<lambda>st.
     andThen (ctl_writeBridge ctl 21 (take 8 (drop 8 metadata)) st) (\<lambda>st.
       ctl_writeBridge ctl 22 (take 8 (drop 16 metadata)) st))"

text \<open>The rows from \<open>min_class_id\<close> to \<open>max_class_id\<close>; the table has 1000.  \<open>patch\<close> is what the program
  changes in the copy.\<close>

definition send_rows ::
  "fpga_ctl \<Rightarrow> (u64 list \<Rightarrow> u64 list) \<Rightarrow> meta_state \<Rightarrow> fpga_host \<Rightarrow> fpga_host result" where
  "send_rows ctl patch ms =
     each (\<lambda>j st. if j < 1000 then send_lines ctl (patch (words_of (row_image (table ms (of_nat j))))) st
                  else Inl Overrun)
       [unat (min_class_id ms)..<Suc (unat (max_class_id ms))]"

section \<open>Commands\<close>

record ser_cmd =
  cmd_class_id :: u32
  host_addr :: u64
  device_addr :: u64
  host_length :: u64
  device_length :: u64
  result_base_addr :: u32

definition sercmd :: "ser_cmd \<Rightarrow> u64 list" where
  "sercmd c = [ucast (cmd_class_id c), host_addr c, device_addr c,
     push_bit 32 (device_length c) + host_length c, ucast (result_base_addr c), 0, 0, 0]"

record eng_cmd =
  engine_num :: u32
  src_length :: u64
  src_addr :: u64
  dest_addr :: u64
  src_device :: u32
  dest_device :: u32

definition engcmd :: "eng_cmd \<Rightarrow> u64 list" where
  "engcmd c = [push_bit 32 (src_length c) + ucast (engine_num c), src_addr c, dest_addr c,
     ucast (push_bit 1 (dest_device c) + src_device c), 0, 0, 0, 0]"

section \<open>Opening the board\<close>

record board =
  board_ctl :: fpga_ctl
  board_pages :: page_table
  board_mem :: mem_ctl
  p_h2c :: u64
  p_c2h :: u64
  board_host :: fpga_host

text \<open>The callback given to \<open>writeTLB\<close>.\<close>

definition write_page :: "fpga_ctl \<Rightarrow> u32 \<Rightarrow> u32 \<Rightarrow> u64 \<Rightarrow> u64 \<Rightarrow> fpga_host \<Rightarrow> fpga_host result" where
  "write_page ctl page_index page_size va pa st =
     andThen (ctl_writeReg ctl 8 (ucast va) st) (\<lambda>st.
     andThen (ctl_writeReg ctl 9 (ucast (drop_bit 32 va)) st) (\<lambda>st.
     andThen (ctl_writeReg ctl 10 (ucast pa) st) (\<lambda>st.
     andThen (ctl_writeReg ctl 11 (ucast (drop_bit 32 pa)) st) (\<lambda>st.
     andThen (ctl_writeReg ctl 12 (if page_index = 0 then 1 else 0) st) (\<lambda>st.
     andThen (ctl_writeReg ctl 13 1 st) (\<lambda>st. ctl_writeReg ctl 13 0 st))))))"

definition board_size :: u64 where
  "board_size = 1024 * 1024 * 1024"

text \<open>The first lines of every program: the controller of bus 1a, the pool of 1 GiB on a mapping at
  \<open>huge_base\<close> with the pages \<open>phy_addr\<close>, the page table, and one block for both buffers.\<close>

definition open_board ::
  "fpga_env \<Rightarrow> u64 \<Rightarrow> u64 list \<Rightarrow> fpga_host \<Rightarrow> board result" where
  "open_board env huge_base phy_addr st =
     andThen (explictInit env 0x1a (4 * 1024 * 1024) st) (\<lambda>st.
     andThen (fpga_getInstance env 0x1a st) (\<lambda>(ctl, st).
     let (pt, mc) = CPUMemCtl (round_pool board_size) huge_base phy_addr in
     andThen (writeTLB pt (\<lambda>i n va pa r. andThen r (write_page ctl i n va pa)) (Inr st)) (\<lambda>st.
     let (dma_buff, mc) = alloc board_size mc in
     if dma_buff = 0 then Inl Null_deref
     else Inr \<lparr>board_ctl = ctl, board_pages = pt, board_mem = mc, p_h2c = dma_buff, p_c2h = dma_buff + board_size div 2,
               board_host = st\<rparr>)))"

definition config_queue :: "fpga_device \<Rightarrow> fpga_ctl \<Rightarrow> fpga_host \<Rightarrow> fpga_host result" where
  "config_queue dev ctl st =
     andThen (ctl_writeConfig ctl (0x1408 div 4) 0 st) (\<lambda>st.
     andThen (ctl_readConfig dev ctl (0x140c div 4) st) (\<lambda>(tag, st). Inr st))"

definition reset_card :: "fpga_ctl \<Rightarrow> fpga_host \<Rightarrow> fpga_host result" where
  "reset_card ctl st = andThen (ctl_writeReg ctl 0 1 st) (\<lambda>st. ctl_writeReg ctl 0 0 st)"

text \<open>Polling a register until its value is as wanted; the loop has no bound, so it takes fuel.\<close>

fun wait_reg ::
  "fpga_device \<Rightarrow> fpga_ctl \<Rightarrow> u32 \<Rightarrow> (u32 \<Rightarrow> bool) \<Rightarrow> nat \<Rightarrow> fpga_host \<Rightarrow> fpga_host result" where
  "wait_reg dev ctl index ok 0 st = Inl Out_of_fuel"
| "wait_reg dev ctl index ok (Suc n) st =
     andThen (ctl_readReg dev ctl index st) (\<lambda>(v, st). if ok v then Inr st else wait_reg dev ctl index ok n st)"

section \<open>The programs\<close>

text \<open>The parameters of \<open>main\<close> before the metadata walk, over the table the stack happens to hold.\<close>

definition main_state :: "fpga_table \<Rightarrow> meta_state" where
  "main_state tab = \<lparr>table = tab, c2h = [], p_c2h_buffer_size = 0, min_class_id = 65535, max_class_id = 0\<rparr>"

record outcome =
  out_host :: fpga_host
  out_meta :: meta_state
  out_stream :: bytes
  out_mem :: mem_ctl

text \<open>\<open>free(dma_buff)\<close>, the last call of every program.\<close>

definition release :: "board \<Rightarrow> mem_ctl result" where
  "release b =
     (case mem_free (p_h2c b) (board_mem b) of
        Inl Not_in_alloc_log \<Rightarrow> Inl Exit
      | Inl Prev_of_begin \<Rightarrow> Inl Overrun
      | Inr mc \<Rightarrow> Inr mc)"

text \<open>The functions \<open>NO_ENCODE\<close> selects.\<close>

definition metadata_walk :: "bool \<Rightarrow> obj \<Rightarrow> (u32 \<Rightarrow> u64) \<Rightarrow> meta_state \<Rightarrow> meta_state result" where
  "metadata_walk no_encode = (if no_encode then SendMetadataToFPGA_raw else SendMetadataToFPGA)"

definition metadata_walk_hw :: "bool \<Rightarrow> obj \<Rightarrow> (u32 \<Rightarrow> u64) \<Rightarrow> meta_state \<Rightarrow> meta_state result" where
  "metadata_walk_hw no_encode = (if no_encode then SendMetadataToFPGA_hw_raw else SendMetadataToFPGA_hw)"

lemma metadata_walks [simp]:
  "metadata_walk no_encode = SendMetadataToFPGA" "metadata_walk_hw no_encode = SendMetadataToFPGA_hw"
  "SendMetadataToFPGA_forward = SendMetadataToFPGA"
  by (simp_all add: metadata_walk_def metadata_walk_hw_def SendMetadataToFPGA_raw_def
      SendMetadataToFPGA_hw_raw_def SendMetadataToFPGA_forward_def)

definition serializer ::
  "bool \<Rightarrow> obj \<Rightarrow> bool \<Rightarrow> u64 \<Rightarrow> (u32 \<Rightarrow> u64) \<Rightarrow> (bytes \<times> u64 \<times> u64) result" where
  "serializer no_encode = (if no_encode then SerializeToString_raw else SerializeToString)"

text \<open>Each half of the block holds 512 MiB; the programs do not check it.\<close>

definition fits_half :: "bytes \<Rightarrow> bool" where
  "fits_half bs \<longleftrightarrow> length bs \<le> 2 ^ 29"

definition host_cmd :: "board \<Rightarrow> meta_state \<Rightarrow> u64 \<Rightarrow> ser_cmd" where
  "host_cmd b ms host_serialized_len =
     \<lparr>cmd_class_id = ucast (min_class_id ms), host_addr = p_h2c b, device_addr = 0x80000000,
      host_length = host_serialized_len, device_length = p_c2h_buffer_size ms, result_base_addr = 0x1000\<rparr>"

definition copy_cmd :: "board \<Rightarrow> u64 \<Rightarrow> eng_cmd" where
  "copy_cmd b n = \<lparr>engine_num = 0, src_length = n, src_addr = p_c2h b, dest_addr = 0x80000000,
     src_device = 0, dest_device = 1\<rparr>"

definition serialize_hw ::
  "bool \<Rightarrow> nat \<Rightarrow> fpga_device \<Rightarrow> fpga_table \<Rightarrow> obj \<Rightarrow> (u32 \<Rightarrow> u64) \<Rightarrow> board \<Rightarrow> outcome result" where
  "serialize_hw no_encode fuel dev tab top_msg msv b =
     andThen (config_queue dev (board_ctl b) (board_host b)) (\<lambda>st.
     andThen (metadata_walk_hw no_encode top_msg msv (main_state tab)) (\<lambda>ms.
     andThen (if fits_half (c2h ms) then Inr () else Inl Overrun) (\<lambda>_.
     andThen (reset_card (board_ctl b) st) (\<lambda>st.
     andThen (send_rows (board_ctl b) (\<lambda>w. w) ms st) (\<lambda>st.
     andThen (serializer no_encode top_msg True 0 msv) (\<lambda>(out, total_size, _).
     andThen (if fits_half out then Inr () else Inl Overrun) (\<lambda>_.
     andThen (ctl_writeBridge (board_ctl b) 12 (sercmd (host_cmd b ms total_size)) st) (\<lambda>st.
     andThen (wait_reg dev (board_ctl b) (512 + 300) (\<lambda>v. v \<noteq> 0) fuel st) (\<lambda>st.
     andThen (release b) (\<lambda>mc.
       Inr \<lparr>out_host = st, out_meta = ms, out_stream = out, out_mem = mc\<rparr>))))))))))"

definition serialize_co ::
  "bool \<Rightarrow> nat \<Rightarrow> fpga_device \<Rightarrow> fpga_table \<Rightarrow> obj \<Rightarrow> (u32 \<Rightarrow> u64) \<Rightarrow> board \<Rightarrow> outcome result" where
  "serialize_co no_encode fuel dev tab top_msg msv b =
     andThen (config_queue dev (board_ctl b) (board_host b)) (\<lambda>st.
     andThen (metadata_walk no_encode top_msg msv (main_state tab)) (\<lambda>ms.
     andThen (if fits_half (c2h ms) then Inr () else Inl Overrun) (\<lambda>_.
     andThen (reset_card (board_ctl b) st) (\<lambda>st.
     andThen (send_rows (board_ctl b) (\<lambda>w. w) ms st) (\<lambda>st.
     andThen (ctl_writeBridge (board_ctl b) 13 (engcmd (copy_cmd b (p_c2h_buffer_size ms))) st) (\<lambda>st.
     andThen (serializer no_encode top_msg True 0 msv) (\<lambda>(out, total_size, _).
     andThen (if fits_half out then Inr () else Inl Overrun) (\<lambda>_.
     andThen (ctl_writeBridge (board_ctl b) 12 (sercmd (host_cmd b ms total_size)) st) (\<lambda>st.
     andThen (wait_reg dev (board_ctl b) (512 + 300) (\<lambda>v. v \<noteq> 0) fuel st) (\<lambda>st.
     andThen (release b) (\<lambda>mc.
       Inr \<lparr>out_host = st, out_meta = ms, out_stream = out, out_mem = mc\<rparr>)))))))))))"

definition serialize_sw ::
  "bool \<Rightarrow> nat \<Rightarrow> fpga_device \<Rightarrow> fpga_table \<Rightarrow> obj \<Rightarrow> (u32 \<Rightarrow> u64) \<Rightarrow> board \<Rightarrow> outcome result" where
  "serialize_sw no_encode fuel dev tab top_msg msv b =
     andThen (config_queue dev (board_ctl b) (board_host b)) (\<lambda>st.
     andThen (metadata_walk no_encode top_msg msv (main_state tab)) (\<lambda>ms.
     andThen (if fits_half (c2h ms) then Inr () else Inl Overrun) (\<lambda>_.
     andThen (reset_card (board_ctl b) st) (\<lambda>st.
     andThen (send_rows (board_ctl b) (\<lambda>w. w) ms st) (\<lambda>st.
     andThen (serializer no_encode top_msg False 0 msv) (\<lambda>(out, total_size, _).
     andThen (if fits_half out then Inr () else Inl Overrun) (\<lambda>_.
     andThen (ctl_writeBridge (board_ctl b) 13 (engcmd (copy_cmd b ((total_size + 63) div 64 * 64))) st) (\<lambda>st.
     andThen (wait_reg dev (board_ctl b) (512 + 420) (\<lambda>v. ucast v = (total_size + 63) div 64) fuel st) (\<lambda>st.
     andThen (release b) (\<lambda>mc.
       Inr \<lparr>out_host = st, out_meta = ms, out_stream = out, out_mem = mc\<rparr>))))))))))"

text \<open>\<open>metadata[2][7] = k\<close>: each row is sent four times, its last word replaced by the engine number.\<close>

definition number_row :: "nat \<Rightarrow> u64 list \<Rightarrow> u64 list" where
  "number_row k metadata = metadata[23 := of_nat k]"

text \<open>The registers it prints when it is done; the speed and the time are computed from three more reads
  of the same one.\<close>

definition read_counters :: "fpga_device \<Rightarrow> fpga_ctl \<Rightarrow> fpga_host \<Rightarrow> fpga_host result" where
  "read_counters dev ctl =
     each (\<lambda>i st. andThen (ctl_readReg dev ctl i st) (\<lambda>(v, st). Inr st))
       [512 + 300, 512 + 301, 512 + 302, 512 + 302, 512 + 302, 512 + 302]"

definition deserialize_hw ::
  "u32 \<Rightarrow> fpga_device \<Rightarrow> fpga_table \<Rightarrow> obj \<Rightarrow> (u32 \<Rightarrow> u64) \<Rightarrow> board \<Rightarrow> outcome result" where
  "deserialize_hw outstanding_req dev tab top_msg msv b =
     (let total_rpcs = 100000 :: u32 in
     andThen (reset_card (board_ctl b) (board_host b)) (\<lambda>st.
     andThen (ctl_writeReg (board_ctl b) 105 total_rpcs st) (\<lambda>st.
     andThen (ctl_writeReg (board_ctl b) 106 0 st) (\<lambda>st.
     andThen (ctl_writeReg (board_ctl b) 107 outstanding_req st) (\<lambda>st.
     andThen (ctl_writeReg (board_ctl b) 110 (ucast (p_c2h b)) st) (\<lambda>st.
     andThen (ctl_writeReg (board_ctl b) 111 (ucast (drop_bit 32 (p_c2h b))) st) (\<lambda>st.
     andThen (config_queue dev (board_ctl b) st) (\<lambda>st.
     andThen (SendMetadataToFPGA_forward top_msg msv (main_state tab)) (\<lambda>ms.
     andThen (if fits_half (c2h ms) then Inr () else Inl Overrun) (\<lambda>_.
     andThen (each (\<lambda>k. send_rows (board_ctl b) (number_row k) ms) [0..<4] st) (\<lambda>st.
     andThen (ByteSizeLong_forward top_msg False) (\<lambda>total_size.
     andThen (SerializeToString_forward top_msg False) (\<lambda>out.
     andThen (if fits_half out then Inr () else Inl Overrun) (\<lambda>_.
     andThen (ctl_writeReg (board_ctl b) 108 (ucast (ucast total_rpcs * total_size div 64)) st) (\<lambda>st.
     andThen (ctl_writeBridge (board_ctl b) 12 (sercmd
         \<lparr>cmd_class_id = ucast (min_class_id ms), host_addr = p_h2c b, device_addr = 0x40000000,
          host_length = total_size, device_length = 0, result_base_addr = 0x1000\<rparr>) st) (\<lambda>st.
     andThen (read_counters dev (board_ctl b) st) (\<lambda>st.
     andThen (release b) (\<lambda>mc.
       Inr \<lparr>out_host = st, out_meta = ms, out_stream = out, out_mem = mc\<rparr>))))))))))))))))))"

end
