(* ===== verification/Class_Range.thy ===== *)
theory Class_Range
  imports Fpga_Metadata_Spec
begin

text \<open>
  The range of class numbers the metadata walks leave is tight: from the smallest to the largest class
  of the objects of the message.  The programs send exactly the rows of this range to the card.
\<close>

section \<open>One turn\<close>

text \<open>The range stays between two bounds.\<close>

definition range_within :: "u64 \<Rightarrow> u64 \<Rightarrow> meta_state \<Rightarrow> bool" where
  "range_within lo hi st \<longleftrightarrow> lo \<le> min_class_id st \<and> max_class_id st \<le> hi"

lemma range_push [simp]:
  "range_within lo hi (push_block s st) = range_within lo hi st"
  "range_within lo hi (push_count n st) = range_within lo hi st"
  by (simp_all add: range_within_def push_block_def push_count_def)

lemma range_push_repeated [simp]: "range_within lo hi (push_repeated ss st) = range_within lo hi st"
proof -
  have "range_within lo hi (fold push_block xs st) = range_within lo hi st" for xs st
    by (induction xs arbitrary: st) simp_all
  then show ?thesis by (simp add: push_repeated_def)
qed

lemma range_upd_entry:
  "upd_entry cid fid g st = Inr st' \<Longrightarrow> range_within lo hi st' = range_within lo hi st"
  by (auto simp: upd_entry_def Let_def range_within_def split: if_splits)

lemma range_set_entry:
  "set_entry cid fid ty sub st = Inr st' \<Longrightarrow> range_within lo hi st' = range_within lo hi st"
  by (simp add: set_entry_def range_upd_entry)

lemma range_leave [simp]: "range_within lo hi (leave_class cid mfn clen st) = range_within lo hi st"
  by (simp add: range_within_def leave_class_def)

lemma range_enter:
  assumes "range_within lo hi st" and "lo \<le> ucast cid" and "ucast cid \<le> hi"
  shows "range_within lo hi (enter_class cid st)"
  using assms by (auto simp: range_within_def enter_class_def Let_def)

text \<open>Describing a field leaves the range alone, in both walks.\<close>

lemma range_strings:
  assumes "Describe_strings cid fid t cells off clen st = Inr (off', clen', st')"
  shows "range_within lo hi st' = range_within lo hi st"
  using assms unfolding Describe_strings_def
  by (cases t) (auto simp: andThen_eq_Inr range_set_entry range_upd_entry split: if_splits)

lemma range_fixed:
  assumes "Describe_fixed cid fid t cells off clen st = Inr (off', clen', st')"
  shows "range_within lo hi st' = range_within lo hi st"
  using assms unfolding Describe_fixed_def
  by (cases t) (auto simp: andThen_eq_Inr range_set_entry range_upd_entry range_strings split: if_splits)

lemma range_describe:
  assumes "Describe_field cid fid t cells off clen st = Inr (off', clen', st')"
  shows "range_within lo hi st' = range_within lo hi st"
  using assms unfolding Describe_field_def
  by (cases t) (auto simp: andThen_eq_Inr range_set_entry range_upd_entry range_fixed split: if_splits)

lemma range_hw_strings:
  assumes "Describe_hw_strings cid fid t cells off clen st = Inr (off', clen', st')"
  shows "range_within lo hi st' = range_within lo hi st"
  using assms unfolding Describe_hw_strings_def
  by (cases t) (auto simp: andThen_eq_Inr range_set_entry range_upd_entry split: if_splits)

lemma range_hw_fixed:
  assumes "Describe_hw_fixed cid fid t cells off clen st = Inr (off', clen', st')"
  shows "range_within lo hi st' = range_within lo hi st"
  using assms unfolding Describe_hw_fixed_def
  by (cases t) (auto simp: andThen_eq_Inr range_set_entry range_upd_entry range_hw_strings split: if_splits)

lemma range_hw_describe:
  assumes "Describe_hw_field cid fid t cells off clen st = Inr (off', clen', st')"
  shows "range_within lo hi st' = range_within lo hi st"
  using assms unfolding Describe_hw_field_def
  by (cases t) (auto simp: andThen_eq_Inr range_set_entry range_upd_entry range_hw_fixed split: if_splits)

section \<open>The walk\<close>

text \<open>A walk whose descriptions of fields leave the range alone.\<close>

locale range_keeper =
  fixes describe :: describer
  assumes keeps_range:
    "describe cid fid t cells off clen st = Inr (off', clen', st') \<Longrightarrow>
     range_within lo hi st' = range_within lo hi st"
begin

lemma loop_range:
  assumes "Meta_loop self describe cid cells fs off mfn clen st = Inr (mfn', clen', st')"
    and "range_within lo hi st"
    and "\<And>a c x y. load_object cells a = Inr c \<Longrightarrow> self c x = Inr y \<Longrightarrow> range_within lo hi x \<Longrightarrow>
      range_within lo hi y"
  shows "range_within lo hi st'"
  using assms(1,2)
proof (induction fs arbitrary: off mfn clen st)
  case (Cons p fs)
  obtain w fid where p: "p = (w, fid)" by (cases p)
  show ?case
  proof (cases "decode_sw w")
    case None
    then show ?thesis using Cons.IH Cons.prems by (simp add: p Let_def split: if_splits)
  next
    case (Some t)
    show ?thesis
    proof (cases "t = sw_ptr_type")
      case True
      then obtain c x y m where "load_object cells (off - 8) = Inr c"
        "set_entry cid (scast fid) (1 OR push_bit 2 FPGA_TYPE_MESSAGE)
           (ucast (class_id (obj_metadata c))) st = Inr x"
        "self c x = Inr y" "Meta_loop self describe cid cells fs (off - 8) m (clen + 8) y = Inr (mfn', clen', st')"
        using Cons.prems(1) Some by (auto simp: p Let_def andThen_eq_Inr simp del: push_bit_of_1)
      then show ?thesis using Cons.IH assms(3) Cons.prems(2) range_set_entry by blast
    next
      case False
      then obtain o' l x m where "describe cid (scast fid) t cells off clen st = Inr (o', l, x)"
        "Meta_loop self describe cid cells fs o' m l x = Inr (mfn', clen', st')"
        using Cons.prems(1) Some by (auto simp: p Let_def andThen_eq_Inr)
      then show ?thesis using Cons.IH Cons.prems(2) keeps_range by blast
    qed
  qed
qed simp

lemma load_object_layout:
  assumes "load_object (layout_fields off vs) a = Inr c"
  shows "\<exists>m. MSub m \<in> set vs \<and> c = layout m"
proof -
  have "(k, OPtr (Some c)) \<in> set (layout_fields off vs) \<Longrightarrow> \<exists>m. MSub m \<in> set vs \<and> c = layout m" for k
  proof (induction vs arbitrary: off)
    case (Cons v vs)
    then show ?case by (cases v) auto
  qed simp
  then show ?thesis using load_object_child [OF assms] by (auto simp: child_of_def)
qed

lemma walk_range:
  assumes "Meta_walk describe msv (layout m) st = Inr st'" and "range_within lo hi st"
    and "list_all (\<lambda>c. unat c < 65536 \<and> lo \<le> ucast c \<and> ucast c \<le> hi) (msg_classes m)"
  shows "range_within lo hi st'"
  using assms
proof (induction m arbitrary: st st' rule: msg_induct)
  case (Msg md vs)
  let ?cid = "ucast (class_id md) :: u16"
  obtain fs mfn clen st2 where
    loop: "Meta_loop (Meta_walk describe msv) describe ?cid (layout_fields first_member vs) (rev fs)
      (int (unat (msv (ucast ?cid)))) 0 0 (enter_class ?cid st) = Inr (mfn, clen, st2)"
    and st': "st' = leave_class ?cid mfn clen st2"
    using Msg.prems(1) by (subst (asm) Meta_walk.simps) (auto simp: andThen_eq_Inr Let_def)
  have "range_within lo hi (enter_class ?cid st)"
    using Msg.prems(2,3) by (intro range_enter) (simp_all add: ucast_16_32)
  moreover have "range_within lo hi y"
    if c: "load_object (layout_fields first_member vs) a = Inr c" and w: "Meta_walk describe msv c x = Inr y"
      and x: "range_within lo hi x" for a c x y
  proof -
    obtain m where m: "MSub m \<in> set vs" "c = layout m" using load_object_layout [OF c] by blast
    have "list_all (\<lambda>c. unat c < 65536 \<and> lo \<le> ucast c \<and> ucast c \<le> hi) (msg_classes m)"
      using Msg.prems(3) m(1) by (force simp: list_all_iff)
    then show ?thesis using Msg.IH [OF m(1)] w x m(2) by blast
  qed
  ultimately show ?case using loop_range [OF loop] st' by simp
qed

end

interpretation sw_range: range_keeper Describe_field
  by unfold_locales (rule range_describe)

interpretation hw_range: range_keeper Describe_hw_field
  by unfold_locales (rule range_hw_describe)

end
