(* ===== verification/Driver_Spec.thy ===== *)
theory Driver_Spec
  imports Drivers Class_Range
begin

text \<open>
  What the programs of \<open>Drivers\<close> do to the card, as a list of accesses: the lines of a row and their
  decoding, the rows sent, the polling loop, and the state in which the board is opened.
\<close>

section \<open>Images of rows\<close>

definition word_image :: "u64 \<Rightarrow> bytes" where
  "word_image w = le_bytes 8 (unat w)"

lemma le_nat_less: "le_nat bs < 256 ^ length bs"
proof (induction bs)
  case (Cons b bs)
  have "unat b < 256" using unat_less [of b] by simp
  with Cons show ?case by simp
qed simp

lemma le_bytes_le_nat: "le_bytes (length bs) (le_nat bs) = bs"
proof (induction bs)
  case (Cons b bs)
  have b: "unat b < 256" using unat_less [of b] by simp
  then have "(unat b + 256 * le_nat bs) mod 256 = unat b" "(unat b + 256 * le_nat bs) div 256 = le_nat bs"
    by simp_all
  with Cons show ?case by simp
qed simp

lemma le_bytes_zero: "le_bytes n 0 = replicate n 0"
  by (induction n) simp_all

lemma le_bytes_small: "k < 256 \<Longrightarrow> le_bytes (Suc n) k = of_nat k # replicate n 0"
  by (simp add: le_bytes_zero)

lemma length_words_of: "length (words_of bs) = (length bs + 7) div 8"
proof (induction bs rule: words_of.induct)
  case (1 bs)
  show ?case
  proof (cases "bs = []")
    case False
    then have "length (words_of bs) = Suc ((length bs - 8 + 7) div 8)"
      using 1 [OF False] False by (simp only: words_of.simps [of bs] if_False list.size length_drop add_0_right add_Suc_right)
    moreover have "Suc ((n - 8 + 7) div 8) = (n + 7) div 8" if "0 < n" for n :: nat
    proof (cases "n < 8")
      case True
      then have "(n + 7) div 8 = 1" using that by (intro div_nat_eqI) simp_all
      then show ?thesis using True by simp
    next
      case False
      then obtain k where n: "n = k + 8" by (metis add.commute le_Suc_ex not_less)
      have "(k + 7 + 8) div 8 = Suc ((k + 7) div 8)" by (simp only: div_add_self2 zero_neq_numeral not_False_eq_True Suc_eq_plus1)
      then show ?thesis by (simp add: n add.commute add.left_commute)
    qed
    ultimately show ?thesis using False by (metis length_greater_0_conv)
  qed (simp add: words_of.simps)
qed

lemma word_images:
  "8 dvd length bs \<Longrightarrow> concat (map word_image (words_of bs)) = bs"
proof (induction bs rule: words_of.induct)
  case (1 bs)
  show ?case
  proof (cases "bs = []")
    case False
    then have len: "8 \<le> length bs" using 1(2) by (auto dest: dvd_imp_le)
    then have t: "length (take 8 bs) = 8" by simp
    have "le_nat (take 8 bs) < 2 ^ 64" using le_nat_less [of "take 8 bs"] t by simp
    then have "unat (of_nat (le_nat (take 8 bs)) :: u64) = le_nat (take 8 bs)"
      by (intro unat_of_nat_small) simp
    then have "word_image (of_nat (le_nat (take 8 bs))) = take 8 bs"
      using le_bytes_le_nat [of "take 8 bs"] t by (simp add: word_image_def)
    moreover have "8 dvd length (drop 8 bs)" using 1(2) len by (simp add: dvd_diff_nat)
    ultimately show ?thesis
      using False 1(1) by (subst words_of.simps) simp
  qed (simp add: words_of.simps)
qed

lemma length_field_image [simp]: "length (field_image f) = 4"
  by (simp add: field_image_def)

lemma length_concat_same: "(\<And>x. x \<in> set xs \<Longrightarrow> length (f x) = n) \<Longrightarrow> length (concat (map f xs)) = n * length xs"
  by (induction xs) simp_all

lemma length_row_image: "row_ok r \<Longrightarrow> length (row_image r) = 192"
  by (simp add: row_image_def length_concat_same row_ok_def fpga_fields_def)

text \<open>Reading an image back, as the card does: a field at offset \<open>8 + 4 i\<close>.\<close>

definition field_of_image :: "bytes \<Rightarrow> FPGA_Field" where
  "field_of_image bs = \<lparr>field_type = bs ! 0, reserve = bs ! 1, sub_class_id = of_nat (le_nat (drop 2 bs))\<rparr>"

definition row_of_image :: "bytes \<Rightarrow> FPGA_Metadata" where
  "row_of_image bs = \<lparr>fclass_id = of_nat (le_nat (take 2 bs)),
     max_field_number = of_nat (le_nat (take 2 (drop 2 bs))),
     class_length = of_nat (le_nat (take 4 (drop 4 bs))),
     field = map (\<lambda>i. field_of_image (take 4 (drop (8 + 4 * i) bs))) [0..<46]\<rparr>"

definition row_of_words :: "u64 list \<Rightarrow> FPGA_Metadata" where
  "row_of_words ws = row_of_image (concat (map word_image ws))"

lemma field_of_field_image [simp]: "field_of_image (field_image f) = f"
proof -
  have "le_nat (le_bytes 2 (unat (sub_class_id f))) = unat (sub_class_id f)"
    using unat_less [of "sub_class_id f"] by (simp add: le_nat_le_bytes)
  then show ?thesis by (simp add: field_of_image_def field_image_def)
qed

lemma take_drop_concat:
  assumes "\<And>x. x \<in> set xs \<Longrightarrow> length (f x) = n" and "i < length xs"
  shows "take n (drop (n * i) (concat (map f xs))) = f (xs ! i)"
  using assms
proof (induction xs arbitrary: i)
  case (Cons x xs)
  then show ?case by (cases i) (simp_all add: drop_append)
qed simp

lemma row_of_row_image:
  assumes "row_ok r"
  shows "row_of_image (row_image r) = r"
proof -
  have le: "le_nat (le_bytes 2 (unat (v :: u16))) = unat v" "le_nat (le_bytes 4 (unat (w :: u32))) = unat w" for v w
    using unat_less [of v] unat_less [of w] by (simp_all add: le_nat_le_bytes)
  have drop: "drop (8 + 4 * i) (row_image r) = drop (4 * i) (concat (map field_image (field r)))" for i
    by (simp add: row_image_def drop_append)
  have "field_of_image (take 4 (drop (8 + 4 * i) (row_image r))) = field r ! i" if "i < 46" for i
    unfolding drop using that assms
    by (subst take_drop_concat [of "field r" field_image 4]) (simp_all add: row_ok_def fpga_fields_def)
  then have "map (\<lambda>i. field_of_image (take 4 (drop (8 + 4 * i) (row_image r)))) [0..<46] = field r"
    using assms by (intro nth_equalityI) (simp_all add: row_ok_def fpga_fields_def)
  then show ?thesis
    by (simp add: row_of_image_def) (simp add: row_image_def le)
qed

section \<open>Accesses\<close>

definition did :: "fpga_ctl \<Rightarrow> access list \<Rightarrow> fpga_host \<Rightarrow> fpga_host" where
  "did ctl as st = st\<lparr>trace := trace st @ map (Pair (pci_bus ctl)) as\<rparr>"

lemma did_simps [simp]:
  "did ctl [] st = st" "did ctl bs (did ctl as st) = did ctl (as @ bs) st"
  "device_list (did ctl as st) = device_list st"
  "trace (did ctl as st) = trace st @ map (Pair (pci_bus ctl)) as"
  by (simp_all add: did_def)

lemma ctl_did:
  "ctl_writeReg ctl i v st = Inr (did ctl [Write_reg i v] st)"
  "ctl_readReg dev ctl i st = Inr (reg_value dev (trace st) i, did ctl [Read_reg i] st)"
  "ctl_writeConfig ctl i v st = Inr (did ctl [Write_config i v] st)"
  "ctl_readConfig dev ctl i st = Inr (config_value dev (trace st) i, did ctl [Read_config i] st)"
  "length w = 8 \<Longrightarrow> ctl_writeBridge ctl i w st = Inr (did ctl [Write_bridge i w] st)"
  by (simp_all add: ctl_defs did_def emit_def)

text \<open>The bridge of 4 MiB the programs map has 65536 lines.\<close>

definition bridge_4M :: "fpga_ctl \<Rightarrow> bool" where
  "bridge_4M ctl \<longleftrightarrow> bridge_bar_size ctl = 4 * 1024 * 1024"

lemma inside:
  "unat i < 1024 \<Longrightarrow> access_inside ctl (Write_reg i v)" "unat i < 1024 \<Longrightarrow> access_inside ctl (Read_reg i)"
  "unat i < 65536 \<Longrightarrow> access_inside ctl (Write_config i v)" "unat i < 65536 \<Longrightarrow> access_inside ctl (Read_config i)"
  "bridge_4M ctl \<Longrightarrow> unat i < 65536 \<Longrightarrow> access_inside ctl (Write_bridge i w)"
  by (simp_all add: lite_region_size_def config_region_size_def bridge_4M_def)

lemma each_did:
  "(\<And>x s. x \<in> set xs \<Longrightarrow> f x s = Inr (did ctl (g x) s)) \<Longrightarrow>
   each f xs s = Inr (did ctl (concat (map g xs)) s)"
  by (induction xs arbitrary: s) simp_all

text \<open>The lines of one row, and of the rows of a table.\<close>

definition row_lines :: "u64 list \<Rightarrow> access list" where
  "row_lines w = [Write_bridge 20 (take 8 w), Write_bridge 21 (take 8 (drop 8 w)),
     Write_bridge 22 (take 8 (drop 16 w))]"

definition table_lines :: "(u64 list \<Rightarrow> u64 list) \<Rightarrow> meta_state \<Rightarrow> access list" where
  "table_lines patch ms =
     concat (map (\<lambda>j. row_lines (patch (words_of (row_image (table ms (of_nat j))))))
       [unat (min_class_id ms)..<Suc (unat (max_class_id ms))])"

lemma table_lines_inside: "bridge_4M ctl \<Longrightarrow> list_all (access_inside ctl) (table_lines patch ms)"
  by (auto simp: list_all_iff table_lines_def row_lines_def inside simp del: access_inside.simps)

lemma send_rows_did:
  assumes "rows_ok ms" and "unat (max_class_id ms) < 1000"
    and "\<And>w. length w = 24 \<Longrightarrow> length (patch w) = 24"
  shows "send_rows ctl patch ms st = Inr (did ctl (table_lines patch ms) st)"
proof -
  have "length (words_of (row_image (table ms c))) = 24" for c
    using assms(1) by (simp add: length_words_of length_row_image rows_ok_def)
  then show ?thesis
    unfolding send_rows_def table_lines_def using assms
    by (intro each_did) (auto simp: send_lines_def ctl_did row_lines_def)
qed

lemma config_queue_did:
  "config_queue dev ctl st = Inr (did ctl [Write_config 0x502 0, Read_config 0x503] st)"
  by (simp add: config_queue_def ctl_did)

lemma reset_card_did: "reset_card ctl st = Inr (did ctl [Write_reg 0 1, Write_reg 0 0] st)"
  by (simp add: reset_card_def ctl_did)

section \<open>Polling\<close>

text \<open>What the register holds after \<open>k\<close> polls.\<close>

definition polled :: "fpga_device \<Rightarrow> fpga_ctl \<Rightarrow> u32 \<Rightarrow> fpga_host \<Rightarrow> nat \<Rightarrow> u32" where
  "polled dev ctl i st k = reg_value dev (trace (did ctl (replicate k (Read_reg i)) st)) i"

lemma wait_reg_iff:
  "wait_reg dev ctl i ok n st = Inr st' \<longleftrightarrow>
    (\<exists>k < n. ok (polled dev ctl i st k) \<and> (\<forall>j < k. \<not> ok (polled dev ctl i st j))
      \<and> st' = did ctl (replicate (Suc k) (Read_reg i)) st)"
proof (induction n arbitrary: st)
  case (Suc n)
  have shift: "polled dev ctl i (did ctl [Read_reg i] st) k = polled dev ctl i st (Suc k)" for k
    by (simp add: polled_def)
  have first: "polled dev ctl i st 0 = reg_value dev (trace st) i" by (simp add: polled_def)
  show ?case
  proof (cases "ok (reg_value dev (trace st) i)")
    case True
    then have "(\<forall>j < k. \<not> ok (polled dev ctl i st j)) \<longleftrightarrow> k = 0" for k
      using first by auto
    then have "(\<exists>k < Suc n. ok (polled dev ctl i st k) \<and> (\<forall>j < k. \<not> ok (polled dev ctl i st j))
        \<and> st' = did ctl (replicate (Suc k) (Read_reg i)) st) \<longleftrightarrow> st' = did ctl [Read_reg i] st"
      using True first by auto
    then show ?thesis using True by (auto simp: ctl_did)
  next
    case False
    have "wait_reg dev ctl i ok (Suc n) st = wait_reg dev ctl i ok n (did ctl [Read_reg i] st)"
      using False by (simp add: ctl_did)
    also have "\<dots> = Inr st' \<longleftrightarrow> (\<exists>k < n. ok (polled dev ctl i st (Suc k))
        \<and> (\<forall>j < k. \<not> ok (polled dev ctl i st (Suc j)))
        \<and> st' = did ctl (replicate (Suc (Suc k)) (Read_reg i)) st)"
      by (simp add: Suc.IH shift)
    also have "\<dots> \<longleftrightarrow> (\<exists>k < Suc n. ok (polled dev ctl i st k) \<and> (\<forall>j < k. \<not> ok (polled dev ctl i st j))
        \<and> st' = did ctl (replicate (Suc k) (Read_reg i)) st)"
      using False first by (auto simp: Ex_less_Suc2 All_less_Suc2 simp del: replicate_Suc)
    finally show ?thesis .
  qed
qed simp

text \<open>So the loop returns, with enough fuel, exactly when some read gives a wanted value.\<close>

lemma wait_reg_returns:
  "(\<exists>n st'. wait_reg dev ctl i ok n st = Inr st') \<longleftrightarrow> (\<exists>k. ok (polled dev ctl i st k))"
proof
  assume "\<exists>k. ok (polled dev ctl i st k)"
  then obtain k where "ok (polled dev ctl i st k)" "\<forall>j < k. \<not> ok (polled dev ctl i st j)"
    using exists_least_iff [of "\<lambda>k. ok (polled dev ctl i st k)"] by auto
  then show "\<exists>n st'. wait_reg dev ctl i ok n st = Inr st'"
    unfolding wait_reg_iff by blast
qed (auto simp: wait_reg_iff)

section \<open>The board\<close>

definition reg_writes :: "reg_log \<Rightarrow> access list" where
  "reg_writes log = map (\<lambda>(i, v). Write_reg i v) log"

lemma write_page_did:
  "write_page ctl i n va pa (did ctl (reg_writes log) st)
     = Inr (did ctl (reg_writes (tlb_callback i n va pa log)) st)"
  by (simp add: write_page_def ctl_did reg_writes_def tlb_callback_def writeReg_def Let_def)

lemma writeTLB_did:
  "writeTLB pt (\<lambda>i n va pa r. andThen r (write_page ctl i n va pa)) (Inr (did ctl (reg_writes log) st))
     = Inr (did ctl (reg_writes (legacyWriteTLB pt log)) st)"
proof -
  have "fold (\<lambda>i r. andThen r (write_page ctl (of_nat i) n (f i) (g i))) xs (Inr (did ctl (reg_writes log) st))
      = Inr (did ctl (reg_writes (fold (\<lambda>i. tlb_callback (of_nat i) n (f i) (g i)) xs log)) st)" for n f g xs
    by (induction xs arbitrary: log) (simp_all add: write_page_did)
  then show ?thesis by (simp add: writeTLB_def legacyWriteTLB_def)
qed

definition card :: fpga_ctl where
  "card = \<lparr>pci_bus = 0x1a, bridge_bar_size = 4 * 1024 * 1024\<rparr>"

lemma card_simps [simp]: "bridge_4M card" "pci_bus card = 0x1a"
  by (simp_all add: card_def bridge_4M_def)

definition board_table :: "u64 \<Rightarrow> u64 list \<Rightarrow> page_table" where
  "board_table huge_base phy_addr = \<lparr>n_pages = 512, vaddr = huge_base, parray = phy_addr\<rparr>"

lemma board_pool:
  "CPUMemCtl (round_pool board_size) huge_base phy_addr
     = (board_table huge_base phy_addr,
        \<lparr>pool_size = board_size, free_chunk = [(huge_base, board_size)], used_chunk = []\<rparr>)"
  by (simp add: CPUMemCtl_def round_pool_def board_size_def page_bytes_def board_table_def)

lemma board_alloc:
  assumes "huge_base \<noteq> 0"
  shows "alloc board_size \<lparr>pool_size = n, free_chunk = [(huge_base, board_size)], used_chunk = []\<rparr>
     = (huge_base, \<lparr>pool_size = n, free_chunk = [], used_chunk = [(huge_base, board_size)]\<rparr>)"
  using assms by (simp add: alloc_def round64_def board_size_def findFreeChunk_def map_erase_def)

definition the_board :: "u64 \<Rightarrow> u64 list \<Rightarrow> fpga_host \<Rightarrow> board" where
  "the_board huge_base phy_addr st =
     \<lparr>board_ctl = card, board_pages = board_table huge_base phy_addr,
      board_mem = \<lparr>pool_size = board_size, free_chunk = [], used_chunk = [(huge_base, board_size)]\<rparr>,
      p_h2c = huge_base, p_c2h = huge_base + 2 ^ 29,
      board_host = did card (reg_writes (legacyWriteTLB (board_table huge_base phy_addr) []))
        (st\<lparr>device_list := (device_list st)(0x1a \<mapsto> card)\<rparr>)\<rparr>"

lemma open_board_eq:
  assumes "device_list st 0x1a = None" and "new_FPGACtl env 0x1a (4 * 1024 * 1024) = Inr c" and "huge_base \<noteq> 0"
  shows "open_board env huge_base phy_addr st = Inr (the_board huge_base phy_addr st)"
proof -
  have "c = card" using assms(2) by (auto simp: new_FPGACtl_def card_def andThen_eq_Inr)
  then have "explictInit env 0x1a (4 * 1024 * 1024) st = Inr (st\<lparr>device_list := (device_list st)(0x1a \<mapsto> card)\<rparr>)"
    using assms(1,2) by (simp add: explictInit_def)
  moreover have "board_size div 2 = 2 ^ 29" by (simp add: board_size_def)
  ultimately show ?thesis
    using writeTLB_did [of "board_table huge_base phy_addr" card "[]"] assms(3)
    by (simp add: open_board_def fpga_getInstance_def board_pool board_alloc Let_def the_board_def
        reg_writes_def)
qed

section \<open>The metadata walk and the serializer\<close>

text \<open>What a metadata walk over a message leaves for the rest of the program.\<close>

definition sent :: "msg \<Rightarrow> meta_state \<Rightarrow> bool" where
  "sent m ms \<longleftrightarrow> rows_ok ms \<and> table_agrees True (table ms) m \<and> c2h ms = c2h_msg m
     \<and> p_c2h_buffer_size ms = of_nat (length (c2h_msg m))
     \<and> min_class_id ms = Min (ucast ` set (msg_classes m))
     \<and> max_class_id ms = Max (ucast ` set (msg_classes m))"

text \<open>A message the programs can send.\<close>

definition sendable :: "signature \<Rightarrow> (u32 \<Rightarrow> u64) \<Rightarrow> msg \<Rightarrow> bool" where
  "sendable sig msv m \<longleftrightarrow> wf_msg m \<and> sizes_agree msv m \<and> consistent sig m
     \<and> list_all (\<lambda>c. unat c < 1000) (msg_classes m) \<and> fits_half (c2h_msg m)"

lemma msg_classes_not_Nil [simp]: "msg_classes m \<noteq> []"
  by (cases m) simp

lemma unat_ucast_32_64: "unat (ucast (c :: u32) :: u64) = unat c"
  using unat_less [of c] by (simp add: unsigned_ucast_eq take_bit_nat_eq_self)

lemma sent_by_walk:
  assumes "sendable sig msv m" and "rows_ok (main_state tab)"
    and "Meta_walk d msv (layout m) (main_state tab) = Inr ms" and ok: "walk_ok sig m (main_state tab) ms"
    and within: "\<And>lo hi. range_within lo hi (main_state tab) \<Longrightarrow>
      list_all (\<lambda>c. unat c < 65536 \<and> lo \<le> ucast c \<and> ucast c \<le> hi) (msg_classes m) \<Longrightarrow> range_within lo hi ms"
  shows "sent m ms"
proof -
  let ?C = "ucast ` set (msg_classes m) :: u64 set"
  have C: "finite ?C" "?C \<noteq> {}" by simp_all
  have small: "unat c < 1000" if "c \<in> set (msg_classes m)" for c
    using assms(1) that by (simp add: sendable_def list_all_iff)
  have "list_all (in_range ms) (msg_classes m)"
    using covered_classes [of sig ms m] ok by (simp add: walk_ok_def)
  then have "min_class_id ms \<le> Min ?C" "Max ?C \<le> max_class_id ms"
    using C by (auto simp: in_range_def list_all_iff)
  moreover have "range_within (Min ?C) (Max ?C) ms"
  proof (rule within)
    have "Min ?C \<in> ?C" using C by (intro Min_in)
    then obtain c where c: "Min ?C = ucast c" "c \<in> set (msg_classes m)" by (rule imageE)
    then have "unat (Min ?C) < 1000" using small unat_ucast_32_64 by metis
    then show "range_within (Min ?C) (Max ?C) (main_state tab)"
      by (simp add: range_within_def main_state_def word_le_nat_alt)
    have "Min ?C \<le> ucast c \<and> ucast c \<le> Max ?C" if "c \<in> set (msg_classes m)" for c
      using C that by (intro conjI Min_le Max_ge) auto
    then show "list_all (\<lambda>c. unat c < 65536 \<and> Min ?C \<le> ucast c \<and> ucast c \<le> Max ?C) (msg_classes m)"
      using small by (fastforce simp: list_all_iff)
  qed
  ultimately have "min_class_id ms = Min ?C" "max_class_id ms = Max ?C"
    by (simp_all add: range_within_def order.antisym)
  moreover have "rows_ok ms" using keeps_rows [OF _ assms(2)] ok by (auto simp: walk_ok_def)
  ultimately show ?thesis
    using ok covered_agrees [of sig m ms] assms(1)
    by (simp add: sent_def walk_ok_def emits_def sendable_def main_state_def)
qed

lemma send_sent:
  assumes "sendable sig msv m" and "rows_ok (main_state tab)"
  shows "\<exists>ms. SendMetadataToFPGA (layout m) msv (main_state tab) = Inr ms \<and> sent m ms"
    and "\<exists>ms. SendMetadataToFPGA_hw (layout m) msv (main_state tab) = Inr ms \<and> sent m ms"
proof -
  have m: "wf_msg m" "sizes_agree msv m" "consistent sig m" using assms(1) by (simp_all add: sendable_def)
  show "\<exists>ms. SendMetadataToFPGA (layout m) msv (main_state tab) = Inr ms \<and> sent m ms"
    using sw_walk.walk [OF m assms(2)] sent_by_walk [OF assms] sw_range.walk_range
    unfolding SendMetadataToFPGA_def by blast
  show "\<exists>ms. SendMetadataToFPGA_hw (layout m) msv (main_state tab) = Inr ms \<and> sent m ms"
    using hw_walk.walk [OF m assms(2)] sent_by_walk [OF assms] hw_range.walk_range
    unfolding SendMetadataToFPGA_hw_def by blast
qed

lemma sent_rows:
  assumes "sent m ms" and "sendable sig msv m"
  shows "unat (max_class_id ms) < 1000" "rows_ok ms" "fits_half (c2h ms)"
proof -
  have "Max (ucast ` set (msg_classes m) :: u64 set) \<in> ucast ` set (msg_classes m)" by (intro Max_in) simp_all
  then obtain c where "Max (ucast ` set (msg_classes m) :: u64 set) = ucast c" "c \<in> set (msg_classes m)"
    by (rule imageE)
  then show "unat (max_class_id ms) < 1000"
    using assms by (simp add: sent_def sendable_def list_all_iff unat_ucast_32_64)
  show "rows_ok ms" "fits_half (c2h ms)" using assms by (simp_all add: sent_def sendable_def)
qed

definition stream :: "bool \<Rightarrow> bool \<Rightarrow> msg \<Rightarrow> bytes" where
  "stream no_encode skip m = msg_bytes (if no_encode then raw_field_bytes else field_bytes) skip m"

lemma serializer_eq:
  assumes "wf_msg m" and "sizes_agree msv m"
  shows "serializer no_encode (layout m) skip 0 msv
     = Inr (stream no_encode skip m, of_nat (length (stream no_encode skip m)),
            of_nat (length (stream no_encode skip m)))"
  using ByteSizeLong_layout [OF assms(1)] SerializeToString_DFS_layout [OF assms]
    raw_sizes.walk_size [OF assms(1)] raw_writes.walk_bytes [OF assms]
  by (simp add: serializer_def stream_def SerializeToString_def SerializeToString_raw_def
      ByteSizeLong_raw_def SerializeToString_DFS_raw_def)

lemma wait_reg_answer:
  assumes "\<And>tr. ok (reg_value dev (tr @ replicate k (pci_bus ctl, Read_reg i)) i)"
    and "k < fuel"
  shows "\<exists>j. wait_reg dev ctl i ok fuel st = Inr (did ctl (replicate (Suc j) (Read_reg i)) st)"
proof -
  let ?P = "\<lambda>j. ok (polled dev ctl i st j)"
  let ?j = "LEAST j. ?P j"
  have "?P k" using assms(1) by (simp add: polled_def)
  then have "?P ?j" "?j < fuel" using assms(2) Least_le [of ?P k] by (auto intro: LeastI)
  moreover have "\<forall>j < ?j. \<not> ?P j" using not_less_Least by blast
  ultimately have "wait_reg dev ctl i ok fuel st = Inr (did ctl (replicate (Suc ?j) (Read_reg i)) st)"
    unfolding wait_reg_iff by (intro exI [of _ ?j] conjI refl)
  then show ?thesis by (rule exI)
qed

text \<open>Two lengths in one word of a command.\<close>

lemma length_word:
  assumes "a < 2 ^ 32" and "b < 2 ^ 32"
  shows "unat (push_bit 32 (of_nat a) + of_nat b :: u64) = a * 2 ^ 32 + b"
proof -
  have "(push_bit 32 (of_nat a) + of_nat b :: u64) = of_nat (a * 2 ^ 32 + b)"
    by (simp add: push_bit_eq_mult)
  moreover have "a * 2 ^ 32 + b < 2 ^ 64"
  proof -
    have "a * 2 ^ 32 + 2 ^ 32 \<le> 2 ^ 32 * 2 ^ 32"
      using mult_le_mono1 [of "Suc a" "2 ^ 32" "2 ^ 32"] assms(1) by simp
    then show ?thesis using assms(2) by simp
  qed
  then have "unat (of_nat (a * 2 ^ 32 + b) :: u64) = a * 2 ^ 32 + b" by (intro unat_of_nat_small) simp
  ultimately show ?thesis by (simp only:)
qed

text \<open>The lines all programs send before the command.\<close>

definition opening_lines :: "meta_state \<Rightarrow> access list" where
  "opening_lines ms = [Write_config 0x502 0, Read_config 0x503, Write_reg 0 1, Write_reg 0 0]
     @ table_lines (\<lambda>w. w) ms"

lemma opening_inside: "bridge_4M ctl \<Longrightarrow> list_all (access_inside ctl) (opening_lines ms)"
  by (simp add: opening_lines_def table_lines_inside inside del: access_inside.simps)

lemma polling_inside:
  assumes "bridge_4M ctl"
  shows "list_all (access_inside ctl) (opening_lines ms @ [Write_bridge 12 w] @ replicate j (Read_reg 812))"
  using opening_inside [OF assms] assms by (auto simp: list_all_iff inside simp del: access_inside.simps)

lemma opening_did:
  assumes "sent m ms" and "sendable sig msv m"
  shows "send_rows ctl (\<lambda>w. w) ms (did ctl [Write_config 0x502 0, Read_config 0x503, Write_reg 0 1, Write_reg 0 0] st)
     = Inr (did ctl (opening_lines ms) st)"
  using send_rows_did [OF sent_rows(2,1) [OF assms], of "\<lambda>w. w"]
  by (simp add: opening_lines_def)

lemma length_commands [simp]: "length (sercmd c) = 8" "length (engcmd e) = 8"
  by (simp_all add: sercmd_def engcmd_def)

section \<open>The runs\<close>

text \<open>A board as \<open>open_board\<close> leaves it: the bridge of the right size, and one block that is the whole
  pool.  Releasing it gives the pool back.\<close>

definition opened :: "board \<Rightarrow> bool" where
  "opened b \<longleftrightarrow> bridge_4M (board_ctl b) \<and> free_chunk (board_mem b) = []
     \<and> used_chunk (board_mem b) = [(p_h2c b, board_size)]"

definition released :: "board \<Rightarrow> mem_ctl" where
  "released b = (board_mem b)\<lparr>free_chunk := [(p_h2c b, board_size)], used_chunk := []\<rparr>"

lemma release_opened: "opened b \<Longrightarrow> release b = Inr (released b)"
  by (simp add: opened_def released_def release_def mem_free_def merge_prev_def merge_next_def map_erase_def
      from_upper_def)

lemma opened_the_board [simp]: "opened (the_board huge_base phy_addr st)"
  by (simp add: opened_def the_board_def)

lemma opened_bridge: "opened b \<Longrightarrow> bridge_4M (board_ctl b)"
  by (simp add: opened_def)

text \<open>The state in which \<open>serialize_hw\<close> starts to poll, and what is left of the program then.\<close>

definition before_polling :: "bool \<Rightarrow> msg \<Rightarrow> meta_state \<Rightarrow> board \<Rightarrow> access list" where
  "before_polling no_encode m ms b =
     opening_lines ms @ [Write_bridge 12 (sercmd (host_cmd b ms (of_nat (length (stream no_encode True m)))))]"

lemma serialize_hw_polls:
  assumes "sendable sig msv m" and "fits_half (stream no_encode True m)" and "opened b"
    and "SendMetadataToFPGA_hw (layout m) msv (main_state tab) = Inr ms" and "sent m ms"
  shows "serialize_hw no_encode fuel dev tab (layout m) msv b
    = andThen (wait_reg dev (board_ctl b) 812 (\<lambda>v. v \<noteq> 0) fuel
          (did (board_ctl b) (before_polling no_encode m ms b) (board_host b)))
        (\<lambda>st. Inr \<lparr>out_host = st, out_meta = ms, out_stream = stream no_encode True m, out_mem = released b\<rparr>)"
  using assms(4) sent_rows(3) [OF assms(5,1)] opening_did [OF assms(5,1)] assms(1,2)
    serializer_eq [of m msv] release_opened [OF assms(3)]
  by (simp add: serialize_hw_def ctl_did config_queue_did reset_card_did sendable_def before_polling_def)

text \<open>The serializing programs run to their end, and what they have done to the card then.\<close>

lemma serialize_hw_result:
  assumes "sendable sig msv m" and "rows_ok (main_state tab)" and "fits_half (stream no_encode True m)"
    and "opened b" and "k < fuel"
    and "\<And>tr. reg_value dev (tr @ replicate k (pci_bus (board_ctl b), Read_reg 812)) 812 \<noteq> 0"
  shows "\<exists>ms j. sent m ms \<and> serialize_hw no_encode fuel dev tab (layout m) msv b = Inr \<lparr>out_host =
      did (board_ctl b) (opening_lines ms
        @ [Write_bridge 12 (sercmd (host_cmd b ms (of_nat (length (stream no_encode True m)))))]
        @ replicate (Suc j) (Read_reg 812)) (board_host b),
      out_meta = ms, out_stream = stream no_encode True m, out_mem = released b\<rparr>"
proof -
  obtain ms where ms: "SendMetadataToFPGA_hw (layout m) msv (main_state tab) = Inr ms" "sent m ms"
    using send_sent(2) [OF assms(1,2)] by blast
  let ?st = "did (board_ctl b) (before_polling no_encode m ms b) (board_host b)"
  have "\<exists>j. wait_reg dev (board_ctl b) 812 (\<lambda>v. v \<noteq> 0) fuel ?st
      = Inr (did (board_ctl b) (replicate (Suc j) (Read_reg 812)) ?st)"
    by (rule wait_reg_answer [where k = k]) (simp_all add: assms(5,6))
  then obtain j where "wait_reg dev (board_ctl b) 812 (\<lambda>v. v \<noteq> 0) fuel ?st
      = Inr (did (board_ctl b) (replicate (Suc j) (Read_reg 812)) ?st)" by (rule exE)
  then show ?thesis
    using ms(2) serialize_hw_polls [OF assms(1,3,4) ms]
    by (intro exI [of _ ms] exI [of _ j]) (simp add: before_polling_def)
qed

text \<open>A class of a sendable message fits the words of the command.\<close>

lemma sent_min_class:
  assumes "sendable sig msv m" and "sent m ms"
  shows "ucast (ucast (min_class_id ms) :: u32) = min_class_id ms" "ucast (min_class_id ms) = Min (set (msg_classes m))"
proof -
  let ?C = "set (msg_classes m)"
  have u: "(ucast (ucast c :: u64) :: u32) = c" for c :: u32
    by (rule bit_word_eqI) (auto simp: bit_simps)
  have "mono (ucast :: u32 \<Rightarrow> u64)" by (rule monoI) (simp add: word_le_nat_alt unat_ucast_32_64)
  then have "Min (ucast ` ?C) = (ucast (Min ?C) :: u64)" by (simp add: mono_Min_commute)
  then have m: "min_class_id ms = ucast (Min ?C)" using assms(2) by (simp add: sent_def)
  show "ucast (min_class_id ms) = Min ?C" "ucast (ucast (min_class_id ms) :: u32) = min_class_id ms"
    unfolding m u by (rule refl)+
qed

lemma serialize_co_result:
  assumes "sendable sig msv m" and "rows_ok (main_state tab)" and "fits_half (stream no_encode True m)"
    and "opened b" and "k < fuel"
    and "\<And>tr. reg_value dev (tr @ replicate k (pci_bus (board_ctl b), Read_reg 812)) 812 \<noteq> 0"
  shows "\<exists>ms j. sent m ms \<and> serialize_co no_encode fuel dev tab (layout m) msv b = Inr \<lparr>out_host =
      did (board_ctl b) (opening_lines ms
        @ [Write_bridge 13 (engcmd (copy_cmd b (p_c2h_buffer_size ms))),
           Write_bridge 12 (sercmd (host_cmd b ms (of_nat (length (stream no_encode True m)))))]
        @ replicate (Suc j) (Read_reg 812)) (board_host b),
      out_meta = ms, out_stream = stream no_encode True m, out_mem = released b\<rparr>"
proof -
  let ?out = "stream no_encode True m" and ?ctl = "board_ctl b"
  obtain ms where ms: "SendMetadataToFPGA (layout m) msv (main_state tab) = Inr ms" "sent m ms"
    using send_sent(1) [OF assms(1,2)] by blast
  let ?st = "did ?ctl (opening_lines ms @ [Write_bridge 13 (engcmd (copy_cmd b (p_c2h_buffer_size ms))),
    Write_bridge 12 (sercmd (host_cmd b ms (of_nat (length ?out))))]) (board_host b)"
  have "\<exists>j. wait_reg dev ?ctl 812 (\<lambda>v. v \<noteq> 0) fuel ?st = Inr (did ?ctl (replicate (Suc j) (Read_reg 812)) ?st)"
    by (rule wait_reg_answer [where k = k]) (simp_all add: assms(5,6))
  then obtain j where j: "wait_reg dev ?ctl 812 (\<lambda>v. v \<noteq> 0) fuel ?st
      = Inr (did ?ctl (replicate (Suc j) (Read_reg 812)) ?st)" by (rule exE)
  have "serialize_co no_encode fuel dev tab (layout m) msv b
      = Inr \<lparr>out_host = did ?ctl (replicate (Suc j) (Read_reg 812)) ?st, out_meta = ms, out_stream = ?out, out_mem = released b\<rparr>"
    using ms(1) sent_rows(3) [OF ms(2) assms(1)] opening_did [OF ms(2) assms(1)] assms(1,3)
      serializer_eq [of m msv] j release_opened [OF assms(4)]
    by (simp add: serialize_co_def ctl_did config_queue_did reset_card_did sendable_def)
  then show ?thesis using ms(2) by (intro exI [of _ ms] exI [of _ j]) simp
qed

text \<open>The size \<open>serialize_sw\<close> announces, in bytes and lines.\<close>

definition copy_size :: "bytes \<Rightarrow> u64" where
  "copy_size out = (of_nat (length out) + 63) div 64 * 64"

lemma serialize_sw_result:
  assumes "sendable sig msv m" and "rows_ok (main_state tab)" and "fits_half (stream no_encode False m)"
    and "opened b" and "k < fuel"
    and "\<And>tr. ucast (reg_value dev (tr @ replicate k (pci_bus (board_ctl b), Read_reg 932)) 932)
      = (of_nat (length (stream no_encode False m)) + 63 :: u64) div 64"
  shows "\<exists>ms j. sent m ms \<and> serialize_sw no_encode fuel dev tab (layout m) msv b = Inr \<lparr>out_host =
      did (board_ctl b) (opening_lines ms
        @ [Write_bridge 13 (engcmd (copy_cmd b (copy_size (stream no_encode False m))))]
        @ replicate (Suc j) (Read_reg 932)) (board_host b),
      out_meta = ms, out_stream = stream no_encode False m, out_mem = released b\<rparr>"
proof -
  let ?out = "stream no_encode False m" and ?ctl = "board_ctl b"
  let ?ok = "\<lambda>v. ucast v = (of_nat (length ?out) + 63 :: u64) div 64"
  obtain ms where ms: "SendMetadataToFPGA (layout m) msv (main_state tab) = Inr ms" "sent m ms"
    using send_sent(1) [OF assms(1,2)] by blast
  let ?st = "did ?ctl (opening_lines ms @ [Write_bridge 13 (engcmd (copy_cmd b (copy_size ?out)))]) (board_host b)"
  have "\<exists>j. wait_reg dev ?ctl 932 ?ok fuel ?st = Inr (did ?ctl (replicate (Suc j) (Read_reg 932)) ?st)"
    by (rule wait_reg_answer [where k = k]) (simp_all add: assms(5,6))
  then obtain j where j: "wait_reg dev ?ctl 932 ?ok fuel ?st
      = Inr (did ?ctl (replicate (Suc j) (Read_reg 932)) ?st)" by (rule exE)
  have "serialize_sw no_encode fuel dev tab (layout m) msv b
      = Inr \<lparr>out_host = did ?ctl (replicate (Suc j) (Read_reg 932)) ?st, out_meta = ms, out_stream = ?out, out_mem = released b\<rparr>"
    using ms(1) sent_rows(3) [OF ms(2) assms(1)] opening_did [OF ms(2) assms(1)] assms(1,3)
      serializer_eq [of m msv] j release_opened [OF assms(4)]
    by (simp add: serialize_sw_def ctl_did config_queue_did reset_card_did sendable_def copy_size_def)
  then show ?thesis using ms(2) by (intro exI [of _ ms] exI [of _ j]) simp
qed

text \<open>What \<open>deserialize_hw\<close> does to the card, up to the command.\<close>

definition feed_lines :: "u32 \<Rightarrow> board \<Rightarrow> meta_state \<Rightarrow> access list" where
  "feed_lines outstanding_req b ms =
     [Write_reg 0 1, Write_reg 0 0, Write_reg 105 100000, Write_reg 106 0, Write_reg 107 outstanding_req,
      Write_reg 110 (ucast (p_c2h b)), Write_reg 111 (ucast (drop_bit 32 (p_c2h b))),
      Write_config 0x502 0, Read_config 0x503]
     @ concat (map (\<lambda>k. table_lines (number_row k) ms) [0..<4])"

definition feed_cmd :: "board \<Rightarrow> meta_state \<Rightarrow> u64 \<Rightarrow> ser_cmd" where
  "feed_cmd b ms total_size =
     \<lparr>cmd_class_id = ucast (min_class_id ms), host_addr = p_h2c b, device_addr = 0x40000000,
      host_length = total_size, device_length = 0, result_base_addr = 0x1000\<rparr>"

lemma read_counters_did:
  "read_counters dev ctl st = Inr (did ctl (map Read_reg [812, 813, 814, 814, 814, 814]) st)"
  by (simp add: read_counters_def ctl_did)

lemma feed_inside:
  assumes "bridge_4M ctl"
  shows "list_all (access_inside ctl) (feed_lines outstanding_req b ms)"
  using table_lines_inside [OF assms]
  by (auto simp: feed_lines_def inside list_all_iff simp del: access_inside.simps)

lemma counters_inside:
  assumes "bridge_4M ctl"
  shows "list_all (access_inside ctl) (feed_lines outstanding_req b ms @ [Write_reg 108 v, Write_bridge 12 w]
    @ map Read_reg [812, 813, 814, 814, 814, 814])"
  using feed_inside [OF assms] assms by (auto simp: list_all_iff inside simp del: access_inside.simps)

lemma unat_numeral_64: "unat (64 :: u64) = 64"
  by simp

lemma deserialize_hw_result:
  assumes "sendable sig msv m" and "no_rbool m" and "rows_ok (main_state tab)" and "opened b"
    and "fits_half (proto_msg False False m)"
  shows "\<exists>ms. sent m ms \<and> deserialize_hw outstanding_req dev tab (layout m) msv b = Inr \<lparr>out_host =
      did (board_ctl b) (feed_lines outstanding_req b ms
        @ [Write_reg 108 (of_nat (100000 * length (proto_msg False False m) div 64)),
           Write_bridge 12 (sercmd (feed_cmd b ms (of_nat (length (proto_msg False False m)))))]
        @ map Read_reg [812, 813, 814, 814, 814, 814]) (board_host b),
      out_meta = ms, out_stream = proto_msg False False m, out_mem = released b\<rparr>"
proof -
  let ?out = "proto_msg False False m" and ?ctl = "board_ctl b"
  obtain ms where ms: "SendMetadataToFPGA (layout m) msv (main_state tab) = Inr ms" "sent m ms"
    using send_sent(1) [OF assms(1,3)] by blast
  have wf: "wf_msg m" using assms(1) by (simp add: sendable_def)
  have rows: "send_rows ?ctl (number_row k) ms st = Inr (did ?ctl (table_lines (number_row k) ms) st)" for k st
    using send_rows_did [OF sent_rows(2,1) [OF ms(2) assms(1)]] by (simp add: number_row_def)
  have rows4: "each (\<lambda>k. send_rows ?ctl (number_row k) ms) [0..<4] st
      = Inr (did ?ctl (concat (map (\<lambda>k. table_lines (number_row k) ms) [0..<4])) st)" for st
    by (intro each_did rows)
  have n: "100000 * length ?out < 2 ^ 64" using assms(5) by (simp add: fits_half_def)
  then have "unat (of_nat (100000 * length ?out) :: u64) = 100000 * length ?out"
    "unat (of_nat (100000 * length ?out div 64) :: u64) = 100000 * length ?out div 64"
    by (intro unat_of_nat_small; simp)+
  then have "(of_nat (100000 * length ?out) div 64 :: u64) = of_nat (100000 * length ?out div 64)"
    by (intro word_unat_eq_iff [THEN iffD2]) (simp only: unat_div_distrib unat_numeral_64)
  then have size: "ucast (ucast (100000 :: u32) * of_nat (length ?out) div 64 :: u64)
      = (of_nat (100000 * length ?out div 64) :: u32)"
    by (simp add: ucast_of_nat_down)
  show ?thesis
    using ms sent_rows(3) [OF ms(2) assms(1)] assms(5) release_opened [OF assms(4)]
      ByteSizeLong_forward_layout [OF wf assms(2)] SerializeToString_forward_layout [OF wf assms(2)] size
    by (simp add: deserialize_hw_def Let_def config_queue_did reset_card_did ctl_did rows4 read_counters_did
        feed_lines_def feed_cmd_def)
qed

section \<open>Examples\<close>

definition no_host :: fpga_host where
  "no_host = \<lparr>device_list = \<lambda>_. None, trace = []\<rparr>"

definition any_env :: fpga_env where
  "any_env = \<lparr>open_ok = \<lambda>_. True, mmap_ok = \<lambda>_ _. True\<rparr>"

text \<open>A card whose registers read 1, and one whose counter reads the number of lines written.\<close>

definition card_reading :: "u32 \<Rightarrow> fpga_device" where
  "card_reading v = \<lparr>config_value = \<lambda>_ _. 0, reg_value = \<lambda>_ _. v, bridge_value = \<lambda>_ _. replicate 8 0\<rparr>"

definition sample_board :: board where
  "sample_board = the_board 0x40000000 (replicate 512 0x80000000) no_host"

lemma sample_board_simps [simp]:
  "board_ctl sample_board = card" "p_h2c sample_board = 0x40000000" "p_c2h sample_board = 0x60000000"
  "opened sample_board"
  by (simp_all add: sample_board_def) (simp_all add: the_board_def)

lemma main_rows_ok: "rows_ok (main_state (table fresh_state))"
  using fresh_rows_ok by (simp add: rows_ok_def main_state_def)

lemma tree_sendable: "sendable (tree_signature long_string) tree_sizes (tree long_string)"
proof -
  have "length (c2h_msg (tree long_string)) \<le> 2 ^ 29"
    by (simp add: tree_def leaf_def long_string_def long_limit_def block_def aligned_size_def)
  then show ?thesis
    using tree_ok tree_consistent [OF long_string_fits]
    by (simp add: sendable_def fits_half_def) (simp add: tree_def leaf_def)
qed

lemma tree_stream_fits: "fits_half (stream True True (tree long_string))" "fits_half (stream True False (tree long_string))"
  by (simp_all add: fits_half_def stream_def tree_def leaf_def raw_field_bytes_def raw_body_def long_string_def
      long_limit_def)

lemma tree_no_rbool: "no_rbool (tree s)"
  by (simp add: tree_def leaf_def)

lemma tree_proto_fits: "fits_half (proto_msg False False (tree long_string))"
proof -
  let ?s = "field_body sw_string_type 1 (VStr long_string)" and ?n = "field_body sw_int32_type 1 (V32 (- 1))"
  have s: "length ?s \<le> 1200"
    using length_tag_le [of 1 sw_string_type "VStr long_string"] length_enc_u32 [of "of_nat (length long_string)"]
    by (simp add: field_body_def enc_string_def long_string_def long_limit_def)
  moreover have "length ?n \<le> 20"
    using length_tag_le [of 1 sw_int32_type "V32 (- 1)"] length_enc_i32 [of "- 1"] by (simp add: field_body_def)
  moreover have "length (tag_bytes (scast (2 :: u8)) PROTOBUF_LENGTH_DELIMITED_TYPE) \<le> 2"
    using length_tag_bytes [of 2 PROTOBUF_LENGTH_DELIMITED_TYPE] by (simp add: protobuf_types)
  ultimately show ?thesis
    using length_enc_u32 [of "of_nat (length ?s)"] by (simp add: fits_half_def tree_def leaf_def)
qed

section \<open>Properties\<close>

text \<open>A row of the class table fills the three bridge lines it is sent in, 24 words, and
  reading them back gives the row.\<close>

theorem row_lines_roundtrip:
  assumes "row_ok r"
  shows "length (words_of (row_image r)) = 24 \<and> row_of_words (words_of (row_image r)) = r"
proof -
  have "length (row_image r) = 192" using assms by (rule length_row_image)
  then show ?thesis
    using word_images [of "row_image r"] row_of_row_image [OF assms]
    by (simp add: length_words_of row_of_words_def)
qed

theorem row_lines_roundtrip_witness:
  "length (words_of (row_image (table fresh_state 3))) = 24
    \<and> row_of_words (words_of (row_image (table fresh_state 3))) = table fresh_state 3"
  by (rule row_lines_roundtrip) (simp add: fresh_state_def row_ok_def fpga_fields_def)

text \<open>The engine number \<open>deserialize_hw\<close> writes into the last word of a row replaces what the
  table says of field numbers 44 and 45: for engine \<open>k\<close> below 256 the card reads type \<open>k\<close> for field
  44 and zero for the rest of both.\<close>

theorem engine_number_overwrites:
  assumes "row_ok r" and "k < 256"
  shows "row_of_words (number_row k (words_of (row_image r)))
    = r\<lparr>field := (field r)[44 := \<lparr>field_type = of_nat k, reserve = 0, sub_class_id = 0\<rparr>,
                            45 := \<lparr>field_type = 0, reserve = 0, sub_class_id = 0\<rparr>]\<rparr>"
proof -
  let ?w = "words_of (row_image r)" and ?e = "\<lambda>t. \<lparr>field_type = t, reserve = 0, sub_class_id = 0\<rparr>"
  let ?r = "r\<lparr>field := (field r)[44 := ?e (of_nat k), 45 := ?e 0]\<rparr>"
  have len: "length ?w = 24" using assms(1) by (simp add: length_words_of length_row_image)
  have fl: "length (field r) = 46" using assms(1) by (simp add: row_ok_def fpga_fields_def)
  have "length ys = Suc (Suc 0) \<Longrightarrow> \<exists>x y. ys = [x, y]" for ys :: "FPGA_Field list"
    by (auto simp: length_Suc_conv)
  from this [of "drop 44 (field r)"] obtain x y where "drop 44 (field r) = [x, y]" using fl by auto
  then have split: "field r = take 44 (field r) @ [x, y]" by (metis append_take_drop_id)
  have l44: "length (take 44 (field r)) = 44" using fl by simp
  have "(ys @ [x, y])[44 := a, 45 := b] = ys @ [a, b]" if "length ys = 44" for ys a b
    using that by (simp add: list_update_append)
  from this [OF l44] have new: "field ?r = take 44 (field r) @ [?e (of_nat k), ?e 0]"
    using split by simp
  have k: "unat (of_nat k :: u64) = k" using assms(2) by (intro unat_of_nat_small) simp
  have image: "word_image (of_nat k) = field_image (?e (of_nat k)) @ field_image (?e 0)"
  proof -
    have "replicate 7 (0 :: u8) = [0, 0, 0, 0, 0, 0, 0]" "replicate 2 (0 :: u8) = [0, 0]" by (simp_all add: eval_nat_numeral)
    then show ?thesis
      using le_bytes_small [OF assms(2), of 7] k by (simp add: word_image_def field_image_def le_bytes_zero)
  qed
  have front: "concat (map word_image (take 23 ?w)) = take 184 (row_image r)"
  proof -
    have w: "?w = take 23 ?w @ [?w ! 23]"
      using len take_Suc_conv_app_nth [of 23 ?w] by simp
    have "concat (map word_image (take 23 ?w @ [?w ! 23])) = row_image r"
      unfolding w [symmetric] using length_row_image [OF assms(1)] by (intro word_images) simp
    then have "row_image r = concat (map word_image (take 23 ?w)) @ word_image (?w ! 23)" by simp
    moreover have "length (concat (map word_image (take 23 ?w))) = 184"
      using len length_concat_same [of "take 23 ?w" word_image 8] by (simp add: word_image_def)
    ultimately show ?thesis by (metis append_eq_conv_conj)
  qed
  have "concat (map word_image (number_row k ?w)) = take 184 (row_image r) @ word_image (of_nat k)"
    using len front by (simp add: number_row_def upd_conv_take_nth_drop)
  also have "\<dots> = row_image ?r"
    using image fl by (simp add: row_image_def new, subst split) (simp add: length_concat_same)
  finally have "row_of_words (number_row k ?w) = row_of_image (row_image ?r)" by (simp add: row_of_words_def)
  also have "\<dots> = ?r" using assms(1) by (intro row_of_row_image) (simp add: row_ok_def)
  finally show ?thesis .
qed

theorem engine_number_overwrites_witness:
  "row_of_words (number_row 3 (words_of (row_image (table fresh_state 1))))
    = (table fresh_state 1)\<lparr>field := (field (table fresh_state 1))
        [44 := \<lparr>field_type = of_nat 3, reserve = 0, sub_class_id = 0\<rparr>,
         45 := \<lparr>field_type = 0, reserve = 0, sub_class_id = 0\<rparr>]\<rparr>"
  by (rule engine_number_overwrites) (simp_all add: fresh_state_def row_ok_def fpga_fields_def)

text \<open>C32. Opening the board gives the two halves of one block that is the whole pool, tells the card the
  translation of every page, and every byte of both halves translates to the physical page behind it.\<close>

theorem board_buffers:
  assumes "device_list st 0x1a = None" and "new_FPGACtl env 0x1a (4 * 1024 * 1024) = Inr c"
    and "length phy_addr = 512" and "0 < unat huge_base" and "unat huge_base + 2 ^ 30 < 2 ^ 64"
    and "unat off < 2 ^ 30"
  shows "\<exists>b. open_board env huge_base phy_addr st = Inr b
    \<and> p_h2c b = huge_base \<and> unat (p_c2h b) = unat (p_h2c b) + 2 ^ 29
    \<and> used_chunk (board_mem b) = [(huge_base, 2 ^ 30)] \<and> free_chunk (board_mem b) = []
    \<and> trace (board_host b)
        = trace st @ map (Pair 0x1a) (reg_writes (legacyWriteTLB (board_pages b) []))
    \<and> mapV2P (board_pages b) (p_h2c b + off)
        = Inr (phy_addr ! (unat off div 2 ^ 21) + of_nat (unat off mod 2 ^ 21))"
proof -
  have "huge_base \<noteq> 0" using assms(4) by auto
  note open_board_eq [OF assms(1,2) this, of phy_addr]
  moreover have "table_ok (board_table huge_base phy_addr)"
    using assms(3,5) by (simp add: table_ok_def board_table_def page_bytes_def)
  then have "mapV2P (board_table huge_base phy_addr) (huge_base + off)
      = Inr (phy_addr ! (unat off div 2 ^ 21) + of_nat (unat off mod 2 ^ 21))"
    using mapV2P_eq [of "board_table huge_base phy_addr" off] assms(6) by (simp add: board_table_def)
  moreover have "unat (huge_base + 2 ^ 29) = unat huge_base + 2 ^ 29"
    using assms(5) by (simp add: unat_word_ariths(1))
  ultimately show ?thesis by (simp add: the_board_def board_size_def)
qed

theorem board_buffers_witness:
  "\<exists>b. open_board any_env 0x40000000 (replicate 512 0x80000000) no_host = Inr b
    \<and> p_h2c b = 0x40000000 \<and> unat (p_c2h b) = unat (p_h2c b) + 2 ^ 29
    \<and> used_chunk (board_mem b) = [(0x40000000, 2 ^ 30)] \<and> free_chunk (board_mem b) = []
    \<and> trace (board_host b)
        = trace no_host @ map (Pair 0x1a) (reg_writes (legacyWriteTLB (board_pages b) []))
    \<and> mapV2P (board_pages b) (p_h2c b + 0x3fffffff)
        = Inr (replicate 512 0x80000000 ! (unat (0x3fffffff :: u64) div 2 ^ 21) + of_nat (unat (0x3fffffff :: u64) mod 2 ^ 21))"
  by (rule board_buffers [where c = card])
    (simp_all add: no_host_def any_env_def new_FPGACtl_def map_bar_def card_def)

text \<open>C34. On a message that can be sent, nothing can keep \<open>serialize_hw\<close> from ending but its polling
  loop, and that ends exactly when the card, after the rows of the table, the command and some reads, has
  a value other than 0 in register 812.  For every card: the program ends with enough fuel if and only if it does.\<close>

theorem serialize_hw_ends:
  assumes "sendable sig msv m" and "rows_ok (main_state tab)" and "fits_half (stream no_encode True m)"
    and "opened b"
  shows "\<exists>ms. SendMetadataToFPGA_hw (layout m) msv (main_state tab) = Inr ms
    \<and> ((\<exists>fuel res. serialize_hw no_encode fuel dev tab (layout m) msv b = Inr res) \<longleftrightarrow>
       (\<exists>k. reg_value dev (trace (board_host b) @ map (Pair (pci_bus (board_ctl b)))
          (opening_lines ms
           @ [Write_bridge 12 (sercmd (host_cmd b ms (of_nat (length (stream no_encode True m)))))]
           @ replicate k (Read_reg 812))) 812 \<noteq> 0))"
proof -
  obtain ms where ms: "SendMetadataToFPGA_hw (layout m) msv (main_state tab) = Inr ms" "sent m ms"
    using send_sent(2) [OF assms(1,2)] by blast
  let ?st = "did (board_ctl b) (before_polling no_encode m ms b) (board_host b)"
  have "(\<exists>fuel res. serialize_hw no_encode fuel dev tab (layout m) msv b = Inr res)
      \<longleftrightarrow> (\<exists>fuel st. wait_reg dev (board_ctl b) 812 (\<lambda>v. v \<noteq> 0) fuel ?st = Inr st)"
    unfolding serialize_hw_polls [OF assms(1,3,4) ms] by (auto simp: andThen_eq_Inr)
  also have "\<dots> \<longleftrightarrow> (\<exists>k. polled dev (board_ctl b) 812 ?st k \<noteq> 0)" by (rule wait_reg_returns)
  finally show ?thesis using ms(1) by (intro exI [of _ ms]) (simp add: polled_def before_polling_def)
qed

text \<open>A card whose register stays 0: the program never ends, whatever the fuel.\<close>

theorem serialize_hw_ends_witness:
  "(\<exists>fuel res. serialize_hw True fuel (card_reading 0) (table fresh_state) (layout (tree long_string)) tree_sizes sample_board = Inr res)
     = False
   \<and> (\<exists>fuel res. serialize_hw True fuel (card_reading 1) (table fresh_state) (layout (tree long_string)) tree_sizes sample_board = Inr res)"
  using serialize_hw_ends [OF tree_sendable main_rows_ok tree_stream_fits(1), of sample_board "card_reading 0"]
    serialize_hw_ends [OF tree_sendable main_rows_ok tree_stream_fits(1), of sample_board "card_reading 1"]
  by (auto simp: card_reading_def)

text \<open>C6. On a message that can be sent, and a card that answers, \<open>serialize_hw\<close> runs to its end.  It
  leaves the bytes of the format in the first buffer, a class table that agrees with them, sends the
  rows of the classes of the message, issues one command, whose fourth word holds both lengths, makes no access
  outside the mappings of the card, whose bounds the code does not check, and returns its block to the pool.\<close>

theorem serialize_hw_run:
  assumes "sendable sig msv m" and "rows_ok (main_state tab)" and "fits_half (stream no_encode True m)"
    and "opened b" and "k < fuel"
    and "\<And>tr. reg_value dev (tr @ replicate k (pci_bus (board_ctl b), Read_reg 812)) 812 \<noteq> 0"
  shows "\<exists>res j. serialize_hw no_encode fuel dev tab (layout m) msv b = Inr res
    \<and> out_stream res = stream no_encode True m \<and> sent m (out_meta res)
    \<and> trace (out_host res) = trace (board_host b) @ map (Pair (pci_bus (board_ctl b)))
        (opening_lines (out_meta res)
         @ [Write_bridge 12 (sercmd (host_cmd b (out_meta res) (of_nat (length (out_stream res)))))]
         @ replicate (Suc j) (Read_reg 812))
    \<and> list_all (access_inside (board_ctl b)) (map snd (drop (length (trace (board_host b))) (trace (out_host res))))
    \<and> unat (sercmd (host_cmd b (out_meta res) (of_nat (length (out_stream res)))) ! 3)
        = length (c2h_msg m) * 2 ^ 32 + length (out_stream res)
    \<and> used_chunk (out_mem res) = [] \<and> free_chunk (out_mem res) = [(p_h2c b, board_size)]"
proof -
  let ?out = "stream no_encode True m"
  obtain ms j where ms: "sent m ms"
    and run: "serialize_hw no_encode fuel dev tab (layout m) msv b = Inr \<lparr>out_host = did (board_ctl b)
      (opening_lines ms @ [Write_bridge 12 (sercmd (host_cmd b ms (of_nat (length ?out))))]
        @ replicate (Suc j) (Read_reg 812)) (board_host b), out_meta = ms, out_stream = ?out, out_mem = released b\<rparr>"
    using serialize_hw_result [OF assms] by blast
  moreover have "unat (sercmd (host_cmd b ms (of_nat (length ?out))) ! 3)
      = length (c2h_msg m) * 2 ^ 32 + length ?out"
    using length_word [of "length (c2h_msg m)" "length ?out"] ms assms(1,3)
    by (simp add: sercmd_def host_cmd_def sent_def sendable_def fits_half_def)
  moreover note polling_inside [OF opened_bridge [OF assms(4)], of ms "sercmd (host_cmd b ms (of_nat (length ?out)))" "Suc j"]
  ultimately show ?thesis
    by (intro exI conjI) (assumption | simp add: released_def o_def del: access_inside.simps)+
qed

theorem serialize_hw_run_witness:
  "\<exists>res j. serialize_hw True 5 (card_reading 1) (table fresh_state) (layout (tree long_string)) tree_sizes sample_board = Inr res
    \<and> out_stream res = stream True True (tree long_string) \<and> sent (tree long_string) (out_meta res)
    \<and> trace (out_host res) = trace (board_host sample_board) @ map (Pair (pci_bus (board_ctl sample_board)))
        (opening_lines (out_meta res)
         @ [Write_bridge 12 (sercmd (host_cmd sample_board (out_meta res) (of_nat (length (out_stream res)))))]
         @ replicate (Suc j) (Read_reg 812))
    \<and> list_all (access_inside (board_ctl sample_board)) (map snd (drop (length (trace (board_host sample_board))) (trace (out_host res))))
    \<and> unat (sercmd (host_cmd sample_board (out_meta res) (of_nat (length (out_stream res)))) ! 3)
        = length (c2h_msg (tree long_string)) * 2 ^ 32 + length (out_stream res)
    \<and> used_chunk (out_mem res) = [] \<and> free_chunk (out_mem res) = [(p_h2c sample_board, board_size)]"
  by (rule serialize_hw_run [OF tree_sendable main_rows_ok tree_stream_fits(1), where k = 0])
    (simp_all add: card_reading_def)

text \<open>\<open>serialize_co\<close> differs in one access: before the message is serialized it has the engine
  copy the buffer of long strings, exactly its blocks, to the memory of the card.\<close>

theorem serialize_co_copies_strings:
  assumes "sendable sig msv m" and "rows_ok (main_state tab)" and "fits_half (stream no_encode True m)"
    and "opened b" and "k < fuel"
    and "\<And>tr. reg_value dev (tr @ replicate k (pci_bus (board_ctl b), Read_reg 812)) 812 \<noteq> 0"
  shows "\<exists>res w j. serialize_co no_encode fuel dev tab (layout m) msv b = Inr res
    \<and> out_stream res = stream no_encode True m \<and> sent m (out_meta res)
    \<and> trace (out_host res) = trace (board_host b) @ map (Pair (pci_bus (board_ctl b)))
        (opening_lines (out_meta res) @ [Write_bridge 13 w,
           Write_bridge 12 (sercmd (host_cmd b (out_meta res) (of_nat (length (out_stream res)))))]
         @ replicate (Suc j) (Read_reg 812))
    \<and> unat (w ! 0) = length (c2h_msg m) * 2 ^ 32 \<and> w ! 1 = p_c2h b"
proof -
  obtain ms j where ms: "sent m ms"
    and run: "serialize_co no_encode fuel dev tab (layout m) msv b = Inr \<lparr>out_host = did (board_ctl b)
      (opening_lines ms @ [Write_bridge 13 (engcmd (copy_cmd b (p_c2h_buffer_size ms))),
         Write_bridge 12 (sercmd (host_cmd b ms (of_nat (length (stream no_encode True m)))))]
        @ replicate (Suc j) (Read_reg 812)) (board_host b), out_meta = ms, out_stream = stream no_encode True m, out_mem = released b\<rparr>"
    using serialize_co_result [OF assms] by blast
  have "unat (engcmd (copy_cmd b (p_c2h_buffer_size ms)) ! 0) = length (c2h_msg m) * 2 ^ 32"
    using length_word [of "length (c2h_msg m)" 0] ms assms(1)
    by (simp add: engcmd_def copy_cmd_def sent_def sendable_def fits_half_def)
  moreover have "engcmd (copy_cmd b (p_c2h_buffer_size ms)) ! 1 = p_c2h b"
    by (simp add: engcmd_def copy_cmd_def)
  ultimately show ?thesis
    using ms unfolding run
    by (intro exI [where x = "engcmd (copy_cmd b (p_c2h_buffer_size ms))"] exI [of _ j] exI conjI) (rule refl | simp)+
qed

theorem serialize_co_copies_strings_witness:
  "\<exists>res w j. serialize_co True 5 (card_reading 1) (table fresh_state) (layout (tree long_string)) tree_sizes sample_board = Inr res
    \<and> out_stream res = stream True True (tree long_string) \<and> sent (tree long_string) (out_meta res)
    \<and> trace (out_host res) = trace (board_host sample_board) @ map (Pair (pci_bus (board_ctl sample_board)))
        (opening_lines (out_meta res) @ [Write_bridge 13 w,
           Write_bridge 12 (sercmd (host_cmd sample_board (out_meta res) (of_nat (length (out_stream res)))))]
         @ replicate (Suc j) (Read_reg 812))
    \<and> unat (w ! 0) = length (c2h_msg (tree long_string)) * 2 ^ 32 \<and> w ! 1 = p_c2h sample_board"
  by (rule serialize_co_copies_strings [OF tree_sendable main_rows_ok tree_stream_fits(1), where k = 0])
    (simp_all add: card_reading_def)

text \<open>\<open>serialize_sw\<close> serializes into the first buffer but has the engine copy from the second:
  the command names the size of the stream, rounded up to lines, and an address past its last byte.\<close>

theorem sw_engine_reads_other_buffer:
  assumes "sendable sig msv m" and "rows_ok (main_state tab)" and "fits_half (stream no_encode False m)"
    and "opened b" and "k < fuel"
    and "\<And>tr. ucast (reg_value dev (tr @ replicate k (pci_bus (board_ctl b), Read_reg 932)) 932)
      = (of_nat (length (stream no_encode False m)) + 63 :: u64) div 64"
    and "unat (p_c2h b) = unat (p_h2c b) + 2 ^ 29"
  shows "\<exists>res w. serialize_sw no_encode fuel dev tab (layout m) msv b = Inr res
    \<and> out_stream res = stream no_encode False m
    \<and> (pci_bus (board_ctl b), Write_bridge 13 w) \<in> set (trace (out_host res))
    \<and> w ! 0 = push_bit 32 (copy_size (out_stream res))
    \<and> unat (p_h2c b) + length (out_stream res) \<le> unat (w ! 1)"
proof -
  let ?out = "stream no_encode False m" and ?w = "engcmd (copy_cmd b (copy_size (stream no_encode False m)))"
  obtain ms j where run: "serialize_sw no_encode fuel dev tab (layout m) msv b = Inr \<lparr>out_host =
      did (board_ctl b) (opening_lines ms @ [Write_bridge 13 ?w] @ replicate (Suc j) (Read_reg 932)) (board_host b),
      out_meta = ms, out_stream = ?out, out_mem = released b\<rparr>"
    using serialize_sw_result [OF assms(1-6)] by blast
  have "?w ! 0 = push_bit 32 (copy_size ?out)" "?w ! 1 = p_c2h b"
    by (simp_all add: engcmd_def copy_cmd_def)
  then show ?thesis
    using assms(3,7) unfolding run
    by (intro exI [where x = ?w] exI conjI) (rule refl | simp add: fits_half_def)+
qed

theorem sw_engine_reads_other_buffer_witness:
  "\<exists>res w. serialize_sw True 5 (card_reading (ucast ((of_nat (length (stream True False (tree long_string))) + 63 :: u64) div 64)))
        (table fresh_state) (layout (tree long_string)) tree_sizes sample_board = Inr res
    \<and> out_stream res = stream True False (tree long_string)
    \<and> (pci_bus (board_ctl sample_board), Write_bridge 13 w) \<in> set (trace (out_host res))
    \<and> w ! 0 = push_bit 32 (copy_size (out_stream res))
    \<and> unat (p_h2c sample_board) + length (out_stream res) \<le> unat (w ! 1)"
proof (rule sw_engine_reads_other_buffer [OF tree_sendable main_rows_ok tree_stream_fits(2), where k = 0])
  have "length (stream True False (tree long_string)) = 1120"
    by (simp add: stream_def tree_def leaf_def raw_field_bytes_def raw_body_def long_string_def long_limit_def)
  then show "ucast (reg_value (card_reading (ucast ((of_nat (length (stream True False (tree long_string))) + 63 :: u64) div 64)))
      (tr @ replicate 0 (pci_bus (board_ctl sample_board), Read_reg 932)) 932)
    = (of_nat (length (stream True False (tree long_string))) + 63 :: u64) div 64" for tr
    by (simp add: card_reading_def)
qed simp_all

text \<open>C16. On a message without repeated bools \<open>deserialize_hw\<close> runs to its end.  Every access to the
  card, in order: reset, the four parameters and the address of the second buffer, the rows of the classes four
  times, once per engine, the number of lines of all requests, one command, written out, and six counters.  The
  command names the smallest class of the message, the first buffer, the address on the card and the exact size
  of the stream, which is in the format of the forward serializer.  No access is outside the mappings of the card, and the block
  goes back to the pool.\<close>

theorem deserialize_hw_run:
  assumes "sendable sig msv m" and "no_rbool m" and "rows_ok (main_state tab)" and "opened b"
    and "fits_half (proto_msg False False m)"
  shows "\<exists>res. deserialize_hw outstanding_req dev tab (layout m) msv b = Inr res
    \<and> out_stream res = proto_msg False False m \<and> sent m (out_meta res)
    \<and> trace (out_host res) = trace (board_host b) @ map (Pair (pci_bus (board_ctl b)))
        (feed_lines outstanding_req b (out_meta res)
         @ [Write_reg 108 (of_nat (100000 * length (out_stream res) div 64)),
            Write_bridge 12 [ucast (Min (set (msg_classes m))), p_h2c b, 0x40000000,
              of_nat (length (out_stream res)), 0x1000, 0, 0, 0]]
         @ map Read_reg [812, 813, 814, 814, 814, 814])
    \<and> list_all (access_inside (board_ctl b)) (map snd (drop (length (trace (board_host b))) (trace (out_host res))))
    \<and> unat (of_nat (length (out_stream res)) :: u64) = length (out_stream res)
    \<and> used_chunk (out_mem res) = [] \<and> free_chunk (out_mem res) = [(p_h2c b, board_size)]"
proof -
  let ?out = "proto_msg False False m" let ?n = "length ?out"
  obtain ms where ms: "sent m ms"
    and run: "deserialize_hw outstanding_req dev tab (layout m) msv b = Inr \<lparr>out_host =
      did (board_ctl b) (feed_lines outstanding_req b ms
        @ [Write_reg 108 (of_nat (100000 * ?n div 64)), Write_bridge 12 (sercmd (feed_cmd b ms (of_nat ?n)))]
        @ map Read_reg [812, 813, 814, 814, 814, 814]) (board_host b),
      out_meta = ms, out_stream = ?out, out_mem = released b\<rparr>"
    using deserialize_hw_result [OF assms] by blast
  have "sercmd (feed_cmd b ms (of_nat ?n)) = [ucast (Min (set (msg_classes m))), p_h2c b, 0x40000000, of_nat ?n, 0x1000, 0, 0, 0]"
    using sent_min_class(2) [OF assms(1) ms] by (simp add: sercmd_def feed_cmd_def)
  moreover have "unat (of_nat ?n :: u64) = ?n"
    using assms(5) by (intro unat_of_nat_small) (simp add: fits_half_def)
  moreover note counters_inside [OF opened_bridge [OF assms(4)], of outstanding_req b ms "of_nat (100000 * ?n div 64)"
    "sercmd (feed_cmd b ms (of_nat ?n))"]
  ultimately show ?thesis
    using ms unfolding run by (intro exI conjI) (rule refl | simp add: released_def o_def del: access_inside.simps)+
qed

theorem deserialize_hw_run_witness:
  "\<exists>res. deserialize_hw 4 (card_reading 1) (table fresh_state) (layout (tree long_string)) tree_sizes sample_board = Inr res
    \<and> out_stream res = proto_msg False False (tree long_string) \<and> sent (tree long_string) (out_meta res)
    \<and> trace (out_host res) = trace (board_host sample_board) @ map (Pair (pci_bus (board_ctl sample_board)))
        (feed_lines 4 sample_board (out_meta res)
         @ [Write_reg 108 (of_nat (100000 * length (out_stream res) div 64)),
            Write_bridge 12 [ucast (Min (set (msg_classes (tree long_string)))), p_h2c sample_board, 0x40000000,
              of_nat (length (out_stream res)), 0x1000, 0, 0, 0]]
         @ map Read_reg [812, 813, 814, 814, 814, 814])
    \<and> list_all (access_inside (board_ctl sample_board)) (map snd (drop (length (trace (board_host sample_board))) (trace (out_host res))))
    \<and> unat (of_nat (length (out_stream res)) :: u64) = length (out_stream res)
    \<and> used_chunk (out_mem res) = [] \<and> free_chunk (out_mem res) = [(p_h2c sample_board, board_size)]"
  by (rule deserialize_hw_run [OF tree_sendable tree_no_rbool main_rows_ok _ tree_proto_fits]) simp

text \<open>C31. Both metadata walks, started as the programs start them, leave the range of class numbers
  tight: from the smallest to the largest class of the message.\<close>

theorem class_range_exact:
  assumes "sendable sig msv m" and "rows_ok (main_state tab)"
  shows "\<exists>sw hw. SendMetadataToFPGA (layout m) msv (main_state tab) = Inr sw
    \<and> SendMetadataToFPGA_hw (layout m) msv (main_state tab) = Inr hw
    \<and> min_class_id sw = Min (ucast ` set (msg_classes m)) \<and> min_class_id hw = min_class_id sw
    \<and> max_class_id sw = Max (ucast ` set (msg_classes m)) \<and> max_class_id hw = max_class_id sw"
  using send_sent [OF assms] by (auto simp: sent_def)

theorem class_range_exact_witness:
  "\<exists>sw hw. SendMetadataToFPGA (layout (tree long_string)) tree_sizes (main_state (table fresh_state)) = Inr sw
    \<and> SendMetadataToFPGA_hw (layout (tree long_string)) tree_sizes (main_state (table fresh_state)) = Inr hw
    \<and> min_class_id sw = Min (ucast ` set (msg_classes (tree long_string))) \<and> min_class_id hw = min_class_id sw
    \<and> max_class_id sw = Max (ucast ` set (msg_classes (tree long_string))) \<and> max_class_id hw = max_class_id sw"
  by (rule class_range_exact [OF tree_sendable main_rows_ok])

end
