(* ===== verification/Registry.thy ===== *)
theory Registry
  imports Parse
begin

text \<open>
  The interface between the generated classes and the serializers.  A registry gives, for each class
  number, the descriptor, the size and the constructor; \<open>class_registry\<close> states what the walks rely
  on: the three describe the same members at the same offsets.  In it, a message whose objects all
  belong to registered classes is shown to satisfy the hypotheses of the serializer and the parser.
\<close>

text \<open>A message over a set of classes: every object carries the registered descriptor of its class, and
  its values have the types the descriptor lists.\<close>

definition same_kind :: "sw_type \<times> u8 \<Rightarrow> mval \<Rightarrow> bool" where
  "same_kind f v \<longleftrightarrow> kind_of (fst f) = mval_kind v"

fun typed :: "(u32 \<Rightarrow> Metadata) \<Rightarrow> u32 list \<Rightarrow> msg \<Rightarrow> bool"
  and typed_val :: "(u32 \<Rightarrow> Metadata) \<Rightarrow> u32 list \<Rightarrow> mval \<Rightarrow> bool" where
  "typed mdv classes (Msg md vs) \<longleftrightarrow> class_id md \<in> set classes \<and> mdv (class_id md) = md
     \<and> list_all2 same_kind (md_fields md) vs \<and> list_all (typed_val mdv classes) vs"
| "typed_val mdv classes (MVal c) \<longleftrightarrow> True"
| "typed_val mdv classes (MSub m) \<longleftrightarrow> typed mdv classes m"

definition fields_supported :: "Metadata \<Rightarrow> bool" where
  "fields_supported md \<longleftrightarrow> descriptor_ok md
     \<and> list_all (\<lambda>f. kind_of (fst f) \<noteq> None \<and> unat (snd f) < 128) (md_fields md)"

definition class_sizeof :: "Metadata \<Rightarrow> int" where
  "class_sizeof md = first_member + sum_list (map (\<lambda>f. type_stride (fst f)) (md_fields md))"

lemma typed_sub: "typed mdv classes (Msg md vs) \<Longrightarrow> MSub m \<in> set vs \<Longrightarrow> typed mdv classes m"
  by (auto simp: list_all_iff dest: bspec)

lemma same_kinds_ok:
  assumes "list_all (\<lambda>f. kind_of (fst f) \<noteq> None \<and> unat (snd f) < 128) fs" and "list_all2 same_kind fs vs"
  shows "list_all2 field_ok fs vs"
  using assms(2,1) by (induction rule: list_all2_induct) (simp_all add: field_ok_def same_kind_def del: not_None_eq)

locale class_registry =
  fixes mdv :: "u32 \<Rightarrow> Metadata" and sizes :: "u32 \<Rightarrow> u64" and create :: "u32 \<Rightarrow> cells result"
    and classes :: "u32 list"
  assumes reg_supported: "c \<in> set classes \<Longrightarrow> fields_supported (mdv c)"
    and reg_size: "c \<in> set classes \<Longrightarrow> int (unat (sizes c)) = class_sizeof (mdv c)"
    and reg_create: "c \<in> set classes \<Longrightarrow>
      \<exists>cs. create c = Inr cs \<and> blank_cells first_member (md_fields (mdv c)) cs"
begin

lemma typed_wf: "typed mdv classes m \<Longrightarrow> wf_msg m"
proof (induction m rule: msg_induct)
  case (Msg md vs)
  have md: "class_id md \<in> set classes" "mdv (class_id md) = md" using Msg.prems by simp_all
  have "wf_val v" if "v \<in> set vs" for v
    using that Msg.IH typed_sub [OF Msg.prems] by (cases v rule: mval.exhaust) simp_all
  moreover have "list_all2 field_ok (md_fields md) vs"
    using reg_supported [OF md(1)] md(2) Msg.prems by (simp add: fields_supported_def same_kinds_ok)
  ultimately show ?case
    using reg_supported [OF md(1)] md(2) by (simp add: fields_supported_def list_all_iff)
qed

lemma typed_sizes: "typed mdv classes m \<Longrightarrow> sizes_agree sizes m"
proof (induction m rule: msg_induct)
  case (Msg md vs)
  have md: "class_id md \<in> set classes" "mdv (class_id md) = md" using Msg.prems by simp_all
  have "sizes_agree_val sizes v" if "v \<in> set vs" for v
    using that Msg.IH typed_sub [OF Msg.prems] by (cases v rule: mval.exhaust) simp_all
  moreover have "list_all2 field_ok (md_fields md) vs"
    using typed_wf [OF Msg.prems] by simp
  then have "class_sizeof md = msg_sizeof vs"
    by (simp add: class_sizeof_def msg_sizeof_def fields_ok_stride)
  ultimately show ?case
    using reg_size [OF md(1)] md(2) by (simp add: list_all_iff)
qed

lemma typed_registered:
  assumes "typed mdv classes m" and "metadataVec T = mdv" and "createMessage T = create"
  shows "registered T m"
  using assms(1)
proof (induction m rule: msg_induct)
  case (Msg md vs)
  have md: "class_id md \<in> set classes" "mdv (class_id md) = md" using Msg.prems by simp_all
  have "registered_val T v" if "v \<in> set vs" for v
    using that Msg.IH typed_sub [OF Msg.prems] by (cases v rule: mval.exhaust) simp_all
  moreover have "knows_class T md"
    using reg_create [OF md(1)] md(2) assms(2,3) by (auto simp: knows_class_def)
  ultimately show ?case by (simp add: list_all_iff)
qed

end

end
