(* ===== verification/Registry_Roundtrip.thy ===== *)
theory Registry_Roundtrip
  imports Registry Fpga_Metadata_Spec
begin

text \<open>
  Sender and receiver over any \<open>class_registry\<close>: the metadata walk, the serializer and the parser
  composed, for messages of registered classes.
\<close>

lemma consistent_class: "consistent sig m \<Longrightarrow> unat (class_id (msg_metadata m)) < 65536"
  by (cases m) simp

text \<open>A new object of a class, as the constructor leaves it.\<close>

definition blank_of :: "(u32 \<Rightarrow> cells result) \<Rightarrow> Metadata \<Rightarrow> u32 \<Rightarrow> obj" where
  "blank_of create md c = Obj md (case create c of Inr cs \<Rightarrow> cs | Inl e \<Rightarrow> [])"

context class_registry
begin

lemma parse_typed:
  assumes "typed mdv classes m" and "consistent sig m" and "fits True m" and "table_agrees True tab m"
    and T: "T = \<lparr>metadataVec = mdv, messageSizeVec = sizes, FPGA_metadataVec = tab, createMessage = create\<rparr>"
  shows "ParseFromString (depth m) (msg_bytes field_bytes True m) (blank_of create md0 (class_id (msg_metadata m)))
      (ucast (class_id (msg_metadata m))) T = Inr (layout (received True m))"
proof -
  let ?c = "class_id (msg_metadata m)" and ?out = "msg_bytes field_bytes True m"
  have c: "?c \<in> set classes" and md: "mdv ?c = msg_metadata m" using assms(1) by (cases m; simp)+
  have blank: "blank_cells first_member (md_fields (msg_metadata m)) (obj_cells (blank_of create md0 ?c))"
    using reg_create [OF c] md by (auto simp: blank_of_def)
  have "ParseFromString_DFS (depth m) T ?c (obj_cells (blank_of create md0 ?c)) (Some (?out @ [0]))
      = Inr (Some [0], obj_cells (layout (received True m)))"
    using typed_registered [OF assms(1), of T] typed_wf [OF assms(1)] typed_sizes [OF assms(1)] assms(3,4) blank
    by (intro ParseFromString_DFS_layout) (simp_all add: T)
  moreover have "ucast (ucast ?c :: u16) = ?c" using ucast_16_32(1) [OF consistent_class [OF assms(2)]] .
  moreover have "Obj (msg_metadata m) (obj_cells (layout (received True m))) = layout (received True m)"
    by (cases m) simp
  ultimately show ?thesis using md by (simp add: ParseFromString_def T)
qed

lemma send_and_parse:
  assumes "typed mdv classes m" and "consistent sig m" and "fits True m" and "rows_ok st"
  shows "\<exists>st' out. SendMetadataToFPGA (layout m) sizes st = Inr st'
    \<and> SerializeToString (layout m) True total_size sizes = Inr (out, total_size + of_nat (length out), of_nat (length out))
    \<and> ParseFromString (depth m) out (blank_of create md0 (class_id (msg_metadata m)))
        (ucast (class_id (msg_metadata m)))
        \<lparr>metadataVec = mdv, messageSizeVec = sizes, FPGA_metadataVec = table st', createMessage = create\<rparr>
        = Inr (layout (received True m))"
proof -
  let ?out = "msg_bytes field_bytes True m"
  note wf = typed_wf [OF assms(1)] typed_sizes [OF assms(1)]
  obtain st' where send: "Meta_walk Describe_field sizes (layout m) st = Inr st'" and ok: "walk_ok sig m st st'"
    using sw_walk.walk [OF wf assms(2,4)] by blast
  have "table_agrees True (table st') m" using covered_agrees [OF assms(2)] ok by (simp add: walk_ok_def)
  note parse_typed [OF assms(1-3) this refl]
  moreover have "SerializeToString (layout m) True total_size sizes
      = Inr (?out, total_size + of_nat (length ?out), of_nat (length ?out))"
    using ByteSizeLong_layout [OF wf(1)] SerializeToString_DFS_layout [OF wf] by (simp add: SerializeToString_def)
  ultimately show ?thesis
    using send by (intro exI [of _ st'] exI [of _ ?out]) (simp add: SendMetadataToFPGA_def)
qed

end

end
