(* ===== verification/Generated.thy ===== *)
theory Generated
  imports Registry_Roundtrip
begin

text \<open>
  What the generated headers of \<open>include/bench_header\<close> have in common: members and the layout the
  compiler gives them under \<open>alignas(8)\<close>, constructors and setters, \<open>InitMessageSizeVec\<close>, and the
  assignments that register one class.  An object is built by storing into the cells its constructor
  leaves; a sub-message is filled before its pointer is stored, which nothing can observe.
\<close>

section \<open>Class declarations\<close>

text \<open>The C++ types of the members: integers, floating-point numbers, \<open>bool\<close>, enumerations, \<open>string\<close>,
  vectors (a repeated \<open>bool\<close> is a \<open>vector<uint8_t>\<close>), and pointers to the message class of a number.\<close>

datatype member = Int32 | UInt32 | Int64 | UInt64 | Bool | Float | Double | Enum | String
  | VecInt32 | VecUInt32 | VecEnum | VecInt64 | VecUInt64 | VecUInt8 | VecFloat | VecString | Ptr nat

fun member_sizeof :: "member \<Rightarrow> int" where
  "member_sizeof Int32 = 4" | "member_sizeof UInt32 = 4" | "member_sizeof Int64 = 8"
| "member_sizeof UInt64 = 8" | "member_sizeof Bool = 1" | "member_sizeof Float = 4"
| "member_sizeof Double = 8" | "member_sizeof Enum = 4" | "member_sizeof String = 32"
| "member_sizeof VecInt32 = 24" | "member_sizeof VecUInt32 = 24" | "member_sizeof VecUInt64 = 24"
| "member_sizeof VecEnum = 24" | "member_sizeof VecInt64 = 24" | "member_sizeof VecUInt8 = 24"
| "member_sizeof VecFloat = 24" | "member_sizeof VecString = 24" | "member_sizeof (Ptr c) = 8"

text \<open>What the constructor leaves in a member: pointers are null, strings and vectors empty, numbers
  indeterminate.\<close>

fun member_init :: "member \<Rightarrow> ocell" where
  "member_init String = OVal (VStr [])" | "member_init VecInt32 = OVal (R32 [])"
| "member_init VecUInt32 = OVal (R32 [])" | "member_init VecUInt64 = OVal (R64 [])"
| "member_init VecEnum = OVal (R32 [])" | "member_init VecInt64 = OVal (R64 [])"
| "member_init VecUInt8 = OVal (R8 [])" | "member_init VecFloat = OVal (RFloat [])"
| "member_init VecString = OVal (RStr [])" | "member_init (Ptr c) = OPtr None"
| "member_init _ = OVal Raw"

definition align8 :: "int \<Rightarrow> int" where
  "align8 n = (n + 7) div 8 * 8"

fun place :: "int \<Rightarrow> member list \<Rightarrow> cells" where
  "place off [] = []"
| "place off (m # ms) = (align8 off, member_init m) # place (align8 off + member_sizeof m) ms"

fun end_of :: "int \<Rightarrow> member list \<Rightarrow> int" where
  "end_of off [] = off"
| "end_of off (m # ms) = end_of (align8 off + member_sizeof m) ms"

text \<open>The members start behind \<open>M_base\<close>, whose two pointers take 16 bytes; the size of a class is
  rounded up to its alignment.\<close>

definition class_sizeof_members :: "member list \<Rightarrow> u64" where
  "class_sizeof_members ms = of_int (align8 (end_of first_member ms))"

text \<open>\<open>for (int i = 0; i < 1000; ++i) messageSizeVec[i] = getMessageSize(i)\<close>\<close>

definition init_sizes :: "(u32 \<Rightarrow> u64) \<Rightarrow> (u32 \<Rightarrow> u64) \<Rightarrow> u32 \<Rightarrow> u64" where
  "init_sizes message_size msv = fold (\<lambda>i msv. msv(of_nat i := message_size (of_nat i))) [0..<1000] msv"

lemma init_sizes_upto:
  fixes message_size :: "u32 \<Rightarrow> u64"
  shows "n \<le> 2 ^ 32 \<Longrightarrow> fold (\<lambda>i msv. msv(of_nat i := message_size (of_nat i))) [0..<n] msv c
     = (if unat c < n then message_size c else msv c)"
proof (induction n)
  case (Suc n)
  have "c = of_nat n \<longleftrightarrow> unat c = n"
  proof -
    have "unat (of_nat n :: u32) = n" using Suc.prems by (intro unat_of_nat_small) simp
    then show ?thesis by (metis word_unat_eq_iff)
  qed
  with Suc show ?case by (auto simp: less_Suc_eq)
qed simp

lemma init_sizes_eq: "init_sizes message_size msv c = (if unat c < 1000 then message_size c else msv c)"
  unfolding init_sizes_def by (rule init_sizes_upto) simp

text \<open>The zeroed rows a fresh \<open>metadataVec\<close> holds.\<close>

definition zero_metadata :: Metadata where
  "zero_metadata = \<lparr>field_num = 0, class_id = 0, wire_type = replicate 52 0, field_id = replicate 64 0\<rparr>"

section \<open>Setting members\<close>

definition new_object :: "member list \<Rightarrow> obj" where
  "new_object ms = Obj zero_metadata (place first_member ms)"

definition member_offset :: "member list \<Rightarrow> nat \<Rightarrow> int" where
  "member_offset ms i = fst (place first_member ms ! i)"

fun set_metadata_ptr :: "Metadata \<Rightarrow> obj \<Rightarrow> obj" where
  "set_metadata_ptr md (Obj _ cells) = Obj md cells"

fun set_member :: "member list \<Rightarrow> nat \<Rightarrow> ocell \<Rightarrow> obj \<Rightarrow> obj" where
  "set_member ms i c (Obj md cells) = Obj md (store cells (member_offset ms i) c)"

definition set_int64 :: "member list \<Rightarrow> nat \<Rightarrow> u64 \<Rightarrow> obj \<Rightarrow> obj" where
  "set_int64 ms i val = set_member ms i (OVal (V64 val))"

definition set_string :: "member list \<Rightarrow> nat \<Rightarrow> string \<Rightarrow> obj \<Rightarrow> obj" where
  "set_string ms i val = set_member ms i (OVal (VStr (map of_char val)))"

definition set_enum :: "member list \<Rightarrow> nat \<Rightarrow> u32 \<Rightarrow> obj \<Rightarrow> obj" where
  "set_enum ms i val = set_member ms i (OVal (V32 val))"

definition set_sub :: "member list \<Rightarrow> nat \<Rightarrow> obj \<Rightarrow> obj \<Rightarrow> obj" where
  "set_sub ms i sub = set_member ms i (OPtr (Some sub))"

lemmas set_defs =
  set_int64_def set_string_def set_enum_def set_sub_def new_object_def member_offset_def store_def
  align8_def first_member_def

section \<open>Registration\<close>

text \<open>The assignments to one row of \<open>metadataVec\<close>: class number, number of fields, and for each field
  in order its software type and its field number.\<close>

definition set_class :: "u32 \<Rightarrow> (sw_type \<times> u8) list \<Rightarrow> (u32 \<Rightarrow> Metadata) \<Rightarrow> u32 \<Rightarrow> Metadata" where
  "set_class c fs mdv = mdv(c := (mdv c)\<lparr>class_id := c, field_num := of_nat (length fs),
     wire_type := map (sw_code \<circ> fst) fs @ drop (length fs) (wire_type (mdv c)),
     field_id := map snd fs @ drop (length fs) (field_id (mdv c))\<rparr>)"

lemma set_class_other: "d \<noteq> c \<Longrightarrow> set_class c fs mdv d = mdv d"
  by (simp add: set_class_def)

lemma set_class_ok:
  assumes "Metadata_ok (mdv c)" and "length fs \<le> wire_type_capacity"
  shows "descriptor_ok (set_class c fs mdv c)" "md_fields (set_class c fs mdv c) = fs"
    "class_id (set_class c fs mdv c) = c"
proof -
  have n: "unat (of_nat (length fs) :: u64) = length fs"
    using assms(2) by (intro unat_of_nat_small) (simp add: wire_type_capacity_def)
  show "descriptor_ok (set_class c fs mdv c)" "class_id (set_class c fs mdv c) = c"
    using assms n by (simp_all add: set_class_def descriptor_ok_def Metadata_ok_def
        wire_type_capacity_def field_id_capacity_def)
  have "zip (map (sw_code \<circ> fst) fs @ xs) (map snd fs @ ys)
      = map (\<lambda>f. (sw_code (fst f), snd f)) fs @ zip xs ys" for xs ys
    by (induction fs) simp_all
  then show "md_fields (set_class c fs mdv c) = fs"
    using n by (simp add: md_fields_def set_class_def comp_def)
qed

lemma zero_metadata_ok: "Metadata_ok zero_metadata"
  by (simp add: Metadata_ok_def zero_metadata_def wire_type_capacity_def field_id_capacity_def)

section \<open>Headers given as tables\<close>

text \<open>A member that fits the type its field is registered with: the walks step over it by the right
  number of bytes, and find in it what its constructor left.\<close>

definition agrees :: "member \<Rightarrow> sw_type \<times> u8 \<Rightarrow> bool" where
  "agrees m f \<longleftrightarrow> blank_for (fst f) (member_init m) \<and> type_stride (fst f) = align8 (member_sizeof m)"

lemma align8_add: "align8 (align8 n + m) = align8 n + align8 m"
proof -
  let ?q = "(n + 7) div 8"
  have "(?q * 8 + m + 7) div 8 = ((m + 7) + ?q * 8) div 8" by (rule arg_cong [where f = "\<lambda>k. k div 8"]) arith
  also have "\<dots> = ?q + (m + 7) div 8" by (rule div_mult_self1) simp
  finally show ?thesis by (simp only: align8_def distrib_right)
qed

lemma members_blank: "list_all2 agrees ms fs \<Longrightarrow> blank_cells (align8 off) fs (place off ms)"
proof (induction ms fs arbitrary: off rule: list_all2_induct)
  case (Cons m ms f fs)
  have "blank_cells (align8 (align8 off + member_sizeof m)) fs (place (align8 off + member_sizeof m) ms)"
    by (rule Cons.IH)
  then show ?case
    using Cons.hyps by (simp add: blank_cells_def agrees_def align8_add)
qed (simp add: blank_cells_def)

lemma members_size:
  "list_all2 agrees ms fs \<Longrightarrow>
     align8 (end_of off ms) = align8 off + sum_list (map (\<lambda>f. type_stride (fst f)) fs)"
proof (induction ms fs arbitrary: off rule: list_all2_induct)
  case (Cons m ms f fs)
  then show ?case by (simp add: agrees_def align8_add)
qed simp

definition table_create :: "(nat \<times> member list) list \<Rightarrow> u32 \<Rightarrow> cells result" where
  "table_create tbl temp_class_id =
     (case map_of tbl (unat temp_class_id) of
        Some ms \<Rightarrow> Inr (place first_member ms)
      | None \<Rightarrow> Inl Bad_class)"

definition table_size :: "(nat \<times> member list) list \<Rightarrow> u32 \<Rightarrow> u64" where
  "table_size tbl temp_class_id =
     (case map_of tbl (unat temp_class_id) of Some ms \<Rightarrow> class_sizeof_members ms | None \<Rightarrow> 0)"

definition register_rows ::
  "(u32 \<times> (sw_type \<times> u8) list) list \<Rightarrow> (u32 \<Rightarrow> Metadata) \<Rightarrow> u32 \<Rightarrow> Metadata" where
  "register_rows rows = fold (\<lambda>(c, fs). set_class c fs) rows"

lemma register_rows_row:
  assumes "distinct (map fst rows)" and "(c, fs) \<in> set rows"
  shows "register_rows rows mdv c = set_class c fs mdv c"
  using assms
proof (induction rows rule: rev_induct)
  case (snoc r rows)
  have other: "register_rows rows mdv d = mdv d" if "d \<notin> fst ` set rows" for rows d
    using that
    by (induction rows rule: rev_induct) (auto simp: register_rows_def set_class_other split: prod.splits)
  obtain d gs where r: "r = (d, gs)" by (cases r)
  show ?case
  proof (cases "c = d")
    case True
    then have "gs = fs" using snoc.prems r by force
    then show ?thesis
      using snoc.prems True r other [of d rows] by (simp add: register_rows_def set_class_def)
  next
    case False
    then show ?thesis
      using snoc r by (simp add: register_rows_def set_class_other)
  qed
qed simp

text \<open>What one row has to meet; it can be evaluated.\<close>

definition class_ok :: "(nat \<times> member list) list \<Rightarrow> u32 \<times> (sw_type \<times> u8) list \<Rightarrow> bool" where
  "class_ok tbl r \<longleftrightarrow> unat (fst r) < 1000 \<and> length (snd r) \<le> wire_type_capacity
     \<and> list_all (\<lambda>f. kind_of (fst f) \<noteq> None \<and> unat (snd f) < 128) (snd r)
     \<and> (case map_of tbl (unat (fst r)) of Some ms \<Rightarrow> list_all2 agrees ms (snd r) | None \<Rightarrow> False)"

lemma table_registry:
  assumes "distinct (map fst rows)" and "list_all (class_ok tbl) rows"
  shows "class_registry (register_rows rows (\<lambda>_. zero_metadata)) (init_sizes (table_size tbl) (\<lambda>_. 0))
    (table_create tbl) (map fst rows)"
proof
  fix c assume "c \<in> set (map fst rows)"
  then obtain fs where r: "(c, fs) \<in> set rows" by auto
  then have ok: "class_ok tbl (c, fs)" using assms(2) by (auto simp: list_all_iff)
  then obtain ms where ms: "map_of tbl (unat c) = Some ms" "list_all2 agrees ms fs"
    by (auto simp: class_ok_def split: option.splits)
  have len: "length fs \<le> wire_type_capacity" using ok by (simp add: class_ok_def)
  have eq: "register_rows rows (\<lambda>_. zero_metadata) c = set_class c fs (\<lambda>_. zero_metadata) c"
    by (rule register_rows_row [OF assms(1) r])
  note row = set_class_ok [where mdv = "\<lambda>_. zero_metadata", OF zero_metadata_ok len, of c, folded eq]
  show "fields_supported (register_rows rows (\<lambda>_. zero_metadata) c)"
    using row ok by (simp add: fields_supported_def class_ok_def del: not_None_eq)
  have bound: "0 \<le> sum_list (map (\<lambda>f. type_stride (fst f)) gs)
      \<and> sum_list (map (\<lambda>f. type_stride (fst f)) gs) \<le> 32 * int (length gs)" for gs :: "(sw_type \<times> u8) list"
  proof (induction gs)
    case (Cons g gs)
    have "0 \<le> kind_stride k \<and> kind_stride k \<le> 32" for k by (cases k) simp_all
    then have "0 \<le> type_stride (fst g) \<and> type_stride (fst g) \<le> 32"
      by (auto simp: type_stride_def split: option.split)
    with Cons show ?case by simp
  qed simp
  have small: "int (unat (of_int k :: u64)) = k" if "0 \<le> k" "k < 2 ^ 64" for k
    using that by (simp add: unsigned_of_int take_bit_int_eq_self)
  have "0 \<le> align8 (end_of first_member ms)" "align8 (end_of first_member ms) < 2 ^ 64"
    using members_size [OF ms(2), of first_member] bound [of fs] len
    by (simp_all add: align8_def first_member_def wire_type_capacity_def)
  then have "int (unat (class_sizeof_members ms)) = align8 (end_of first_member ms)"
    unfolding class_sizeof_members_def by (rule small)
  then show "int (unat (init_sizes (table_size tbl) (\<lambda>_. 0) c)) = class_sizeof (register_rows rows (\<lambda>_. zero_metadata) c)"
    using members_size [OF ms(2), of first_member] row(2) ms(1) ok
    by (simp add: init_sizes_eq table_size_def class_sizeof_def class_ok_def) (simp add: align8_def first_member_def)
  have "blank_cells first_member fs (place first_member ms)"
    using members_blank [OF ms(2), of first_member] by (simp add: align8_def first_member_def)
  then show "\<exists>cs. table_create tbl c = Inr cs \<and> blank_cells first_member (md_fields (register_rows rows (\<lambda>_. zero_metadata) c)) cs"
    using row(2) ms(1) by (simp add: table_create_def)
qed

end
