(* ===== verification/Accessors.thy ===== *)
theory Accessors
  imports Generated
begin

text \<open>
  The member functions every generated class has (\<open>include/bench_header/*_testclass.h\<close>): \<open>set_f\<close> and \<open>get_f\<close>
  for a member of a number or string type, \<open>add_f\<close> and \<open>get_f\<close> of an index for a vector, \<open>mutable_f\<close> and
  \<open>get_f\<close> for a pointer, \<open>print_message\<close>, constructor and destructor.  They are functions of the list of
  members, since they are the same text in every class: \<open>generated_class\<close> is the class generated from
  its members.  The locale \<open>accessor\<close> has the laws of a getter and a setter; each member of each class
  meets them.
\<close>

section \<open>Reading and writing members\<close>

text \<open>A getter returns a reference, which is read here.\<close>

fun get_member :: "member list \<Rightarrow> nat \<Rightarrow> obj \<Rightarrow> ocell result" where
  "get_member ms i (Obj md cells) = load cells (member_offset ms i)"

text \<open>\<open>f[idx]\<close> is not checked.  A \<open>uint8_t\<close> is given as the integer it is promoted to.\<close>

fun element :: "cval \<Rightarrow> nat \<Rightarrow> cval result" where
  "element (R32 vs) idx = (if idx < length vs then Inr (V32 (vs ! idx)) else Inl Overrun)"
| "element (R64 ws) idx = (if idx < length ws then Inr (V64 (ws ! idx)) else Inl Overrun)"
| "element (R8 bs) idx = (if idx < length bs then Inr (V32 (ucast (bs ! idx))) else Inl Overrun)"
| "element (RFloat fs) idx = (if idx < length fs then Inr (VFloat (fs ! idx)) else Inl Overrun)"
| "element (RStr ss) idx = (if idx < length ss then Inr (VStr (ss ! idx)) else Inl Overrun)"
| "element _ idx = Inl Bad_object"

definition get_element :: "member list \<Rightarrow> nat \<Rightarrow> nat \<Rightarrow> obj \<Rightarrow> cval result" where
  "get_element ms i idx ob =
     andThen (get_member ms i ob) (\<lambda>c. case c of OVal v \<Rightarrow> element v idx | OPtr p \<Rightarrow> Inl Bad_object)"

text \<open>\<open>push_back\<close>; an element of another type does not compile.\<close>

fun push_back :: "cval \<Rightarrow> cval \<Rightarrow> cval" where
  "push_back (V32 v) (R32 vs) = R32 (vs @ [v])"
| "push_back (V64 w) (R64 ws) = R64 (ws @ [w])"
| "push_back (V32 v) (R8 bs) = R8 (bs @ [ucast v])"
| "push_back (VFloat f) (RFloat fs) = RFloat (fs @ [f])"
| "push_back (VStr s) (RStr ss) = RStr (ss @ [s])"
| "push_back _ c = c"

fun add_member :: "member list \<Rightarrow> nat \<Rightarrow> cval \<Rightarrow> obj \<Rightarrow> obj" where
  "add_member ms i v (Obj md cells) =
     Obj md (map (\<lambda>(k, d). if k = member_offset ms i
                           then (k, case d of OVal c \<Rightarrow> OVal (push_back v c) | OPtr p \<Rightarrow> OPtr p)
                           else (k, d)) cells)"

definition members_of :: "(nat \<times> member list) list \<Rightarrow> nat \<Rightarrow> member list" where
  "members_of tbl c = (case map_of tbl c of Some ms \<Rightarrow> ms | None \<Rightarrow> [])"

text \<open>A new object with its metadata pointer set.\<close>

definition described_object :: "(nat \<times> member list) list \<Rightarrow> (u32 \<Rightarrow> Metadata) \<Rightarrow> nat \<Rightarrow> obj" where
  "described_object tbl mdv c = set_metadata_ptr (mdv (of_nat c)) (new_object (members_of tbl c))"

section \<open>Printing\<close>

text \<open>\<open>print_message\<close> writes one line for each value: the class, the number of the member and the value.
  A vector gives a line for each element, a pointer that is not null the lines of its object.  How the
  stream formats a value is left open.\<close>

fun elements :: "cval \<Rightarrow> cval list" where
  "elements (R32 vs) = map V32 vs" | "elements (R64 ws) = map V64 ws"
| "elements (R8 bs) = map (\<lambda>b. V32 (ucast b)) bs" | "elements (RFloat fs) = map VFloat fs"
| "elements (RStr ss) = map VStr ss" | "elements c = [c]"

fun print_message :: "(nat \<times> member list) list \<Rightarrow> nat \<Rightarrow> obj \<Rightarrow> (nat \<times> nat \<times> cval) list"
  and print_members :: "(nat \<times> member list) list \<Rightarrow> nat \<Rightarrow> nat \<Rightarrow> member list \<Rightarrow> cells \<Rightarrow> (nat \<times> nat \<times> cval) list"
  and print_cell :: "(nat \<times> member list) list \<Rightarrow> nat \<Rightarrow> nat \<Rightarrow> member \<Rightarrow> ocell \<Rightarrow> (nat \<times> nat \<times> cval) list" where
  "print_message tbl c (Obj md cells) = print_members tbl c 1 (members_of tbl c) cells"
| "print_members tbl c i (m # ms) ((off, d) # cells) = print_cell tbl c i m d @ print_members tbl c (Suc i) ms cells"
| "print_members tbl c i _ _ = []"
| "print_cell tbl c i m (OVal v) = map (\<lambda>e. (c, i, e)) (elements v)"
| "print_cell tbl c i m (OPtr None) = []"
| "print_cell tbl c i m (OPtr (Some ob)) = (case m of Ptr d \<Rightarrow> print_message tbl d ob | _ \<Rightarrow> [])"

text \<open>\<open>M<c>_Get_F1\<close> prints the message and the other message.\<close>

definition Get_F1 ::
  "(nat \<times> member list) list \<Rightarrow> nat \<Rightarrow> obj \<Rightarrow> obj \<Rightarrow> (nat \<times> nat \<times> cval) list \<times> (nat \<times> nat \<times> cval) list" where
  "Get_F1 tbl c message other_message = (print_message tbl c message, print_message tbl c other_message)"

section \<open>Destruction\<close>

text \<open>\<open>~M<c>()\<close> deletes each pointer that is not null, in the order of the members.  The result is the
  classes of the objects freed, in the order in which they are freed: \<open>delete\<close> runs the destructor of
  the object first.\<close>

fun destroy :: "(nat \<times> member list) list \<Rightarrow> nat \<Rightarrow> obj \<Rightarrow> nat list"
  and destroy_members :: "(nat \<times> member list) list \<Rightarrow> member list \<Rightarrow> cells \<Rightarrow> nat list"
  and destroy_cell :: "(nat \<times> member list) list \<Rightarrow> member \<Rightarrow> ocell \<Rightarrow> nat list" where
  "destroy tbl c (Obj md cells) = destroy_members tbl (members_of tbl c) cells"
| "destroy_members tbl (m # ms) ((off, d) # cells) = destroy_cell tbl m d @ destroy_members tbl ms cells"
| "destroy_members tbl _ _ = []"
| "destroy_cell tbl (Ptr d) (OPtr (Some ob)) = destroy tbl d ob @ [d]"
| "destroy_cell tbl _ _ = []"

text \<open>\<open>delete\<close> is defined for an object that \<open>new\<close> allocated: it runs the destructor and frees the object.
  An object of static storage has no memory of its own to give back, and its destructor runs when the
  program ends: to delete it is undefined.\<close>

datatype storage = Static_object | On_heap

fun delete_object :: "(nat \<times> member list) list \<Rightarrow> nat \<Rightarrow> storage \<times> obj \<Rightarrow> nat list result" where
  "delete_object tbl c (On_heap, ob) = Inr (destroy tbl c ob @ [c])"
| "delete_object tbl c (Static_object, ob) = Inl Bad_delete"

text \<open>\<open>M<c>_Destroy_F1\<close> deletes the message and the other message.  It takes two pointers, which may point
  to objects of either storage.\<close>

definition Destroy_F1 ::
  "(nat \<times> member list) list \<Rightarrow> nat \<Rightarrow> storage \<times> obj \<Rightarrow> storage \<times> obj \<Rightarrow> nat list result" where
  "Destroy_F1 tbl c message other_message =
     andThen (delete_object tbl c message) (\<lambda>freed.
     andThen (delete_object tbl c other_message) (\<lambda>freed_other. Inr (freed @ freed_other)))"

text \<open>The messages of every header are variables at file scope: \<open>M<c> m<c>, m<c>_other;\<close>.\<close>

definition message_storage :: storage where
  "message_storage = Static_object"

section \<open>The generated class\<close>

text \<open>What one class of a generated header consists of.  Members are numbered from 1, as in their names;
  \<open>mutable_f\<close> stores the new object it returns, here given with the calls made on it already done.\<close>

record gen_class =
  private_members :: "member list"
  construct :: obj
  set_f :: "nat \<Rightarrow> cval \<Rightarrow> obj \<Rightarrow> obj"
  get_f :: "nat \<Rightarrow> obj \<Rightarrow> ocell result"
  add_f :: "nat \<Rightarrow> cval \<Rightarrow> obj \<Rightarrow> obj"
  get_f_at :: "nat \<Rightarrow> nat \<Rightarrow> obj \<Rightarrow> cval result"
  mutable_f :: "nat \<Rightarrow> obj \<Rightarrow> obj \<Rightarrow> obj"
  print_f :: "(nat \<times> member list) list \<Rightarrow> nat \<Rightarrow> obj \<Rightarrow> (nat \<times> nat \<times> cval) list"
  destruct :: "(nat \<times> member list) list \<Rightarrow> obj \<Rightarrow> nat list"

definition generated_class :: "member list \<Rightarrow> gen_class" where
  "generated_class ms =
     \<lparr>private_members = ms,
      construct = new_object ms,
      set_f = (\<lambda>i v. set_member ms (i - 1) (OVal v)),
      get_f = (\<lambda>i. get_member ms (i - 1)),
      add_f = (\<lambda>i. add_member ms (i - 1)),
      get_f_at = (\<lambda>i. get_element ms (i - 1)),
      mutable_f = (\<lambda>i. set_sub ms (i - 1)),
      print_f = (\<lambda>tbl c ob. print_members tbl c 1 ms (obj_cells ob)),
      destruct = (\<lambda>tbl ob. destroy_members tbl ms (obj_cells ob))\<rparr>"

lemma generated_class_simps [simp]:
  "private_members (generated_class ms) = ms" "construct (generated_class ms) = new_object ms"
  "set_f (generated_class ms) i v = set_member ms (i - 1) (OVal v)"
  "get_f (generated_class ms) i = get_member ms (i - 1)"
  "add_f (generated_class ms) i = add_member ms (i - 1)"
  "get_f_at (generated_class ms) i = get_element ms (i - 1)"
  "mutable_f (generated_class ms) i = set_sub ms (i - 1)"
  by (simp_all add: generated_class_def)

text \<open>Printing and destruction of a class of the table are those of its row.\<close>

lemma generated_class_of_table:
  assumes "map_of tbl c = Some ms"
  shows "print_f (generated_class ms) tbl c ob = print_message tbl c ob"
    "destruct (generated_class ms) tbl ob = destroy tbl c ob"
  using assms by (cases ob; simp add: generated_class_def members_of_def)+

section \<open>Laws of accessors\<close>

locale accessor =
  fixes valid :: "'s \<Rightarrow> bool" and get :: "'s \<Rightarrow> 'v result" and set_to :: "'v \<Rightarrow> 's \<Rightarrow> 's"
  assumes set_valid: "valid s \<Longrightarrow> valid (set_to v s)"
    and get_set: "valid s \<Longrightarrow> get (set_to v s) = Inr v"
    and set_set: "valid s \<Longrightarrow> set_to w (set_to v s) = set_to w s"
    and set_get: "valid s \<Longrightarrow> \<exists>v. get s = Inr v \<and> set_to v s = s"
begin

lemma get_returns: "valid s \<Longrightarrow> \<exists>v. get s = Inr v"
  using set_get by blast

lemma set_same: "valid s \<Longrightarrow> get s = Inr v \<Longrightarrow> set_to v s = s"
  using set_get by fastforce

lemma set_determines: "valid s \<Longrightarrow> set_to v s = set_to w s \<Longrightarrow> v = w"
  using get_set by (metis sum.inject(2))

end

text \<open>Two members that do not overlap.\<close>

locale apart = a: accessor valid get1 set1 + b: accessor valid get2 set2
  for valid :: "'s \<Rightarrow> bool" and get1 :: "'s \<Rightarrow> 'v result" and set1 and get2 :: "'s \<Rightarrow> 'v result" and set2 +
  assumes commute: "valid s \<Longrightarrow> set1 v (set2 w s) = set2 w (set1 v s)"
begin

lemma get_other: "valid s \<Longrightarrow> get2 (set1 v s) = get2 s"
  by (metis a.set_valid b.get_set b.set_get commute)

end

section \<open>Objects under construction\<close>

definition member_offsets :: "member list \<Rightarrow> int list" where
  "member_offsets ms = map fst (place first_member ms)"

lemma length_place [simp]: "length (place off ms) = length ms"
  by (induction off ms rule: place.induct) simp_all

lemma snd_place: "map snd (place off ms) = map member_init ms"
  by (induction off ms rule: place.induct) simp_all

lemma align8_ge: "off \<le> align8 off"
  by (simp add: align8_def)

lemma member_sizeof_pos: "0 < member_sizeof m"
  by (cases m) simp_all

lemma place_ge: "k \<in> set (map fst (place off ms)) \<Longrightarrow> off \<le> k"
proof (induction off ms rule: place.induct)
  case (2 off m ms)
  then show ?case using align8_ge [of off] member_sizeof_pos [of m] by fastforce
qed simp

lemma distinct_place: "distinct (map fst (place off ms))"
proof (induction off ms rule: place.induct)
  case (2 off m ms)
  have "align8 off \<notin> set (map fst (place (align8 off + member_sizeof m) ms))"
    using place_ge member_sizeof_pos [of m] by fastforce
  then show ?case using 2 by simp
qed simp

text \<open>The object of members \<open>ms\<close> whose \<open>i\<close>-th cell is \<open>g i\<close>.\<close>

definition obj_of :: "member list \<Rightarrow> Metadata \<Rightarrow> (nat \<Rightarrow> ocell) \<Rightarrow> obj" where
  "obj_of ms md g = Obj md (map (\<lambda>i. (member_offsets ms ! i, g i)) [0..<length ms])"

lemma member_offset_nth: "i < length ms \<Longrightarrow> member_offset ms i = member_offsets ms ! i"
  by (simp add: member_offset_def member_offsets_def)

lemma same_offset:
  "i < length ms \<Longrightarrow> j < length ms \<Longrightarrow> member_offsets ms ! i = member_offsets ms ! j \<longleftrightarrow> i = j"
  unfolding member_offsets_def by (rule nth_eq_iff_index_eq [OF distinct_place]) simp_all

lemma described_obj_of:
  "described_object tbl mdv c = obj_of (members_of tbl c) (mdv (of_nat c)) (\<lambda>i. member_init (members_of tbl c ! i))"
proof -
  have "place off ms = map (\<lambda>i. (map fst (place off ms) ! i, member_init (ms ! i))) [0..<length ms]" for off ms
  proof (rule nth_equalityI)
    fix i assume "i < length (place off ms)"
    then have "snd (place off ms ! i) = member_init (ms ! i)"
      using snd_place [of off ms] by (metis length_place nth_map)
    then show "place off ms ! i = map (\<lambda>i. (map fst (place off ms) ! i, member_init (ms ! i))) [0..<length ms] ! i"
      using \<open>i < length (place off ms)\<close> by (metis (no_types, lifting) add_0 diff_zero length_map length_place length_upt
          nth_map nth_upt prod.collapse)
  qed simp
  then show ?thesis by (simp add: described_object_def new_object_def obj_of_def member_offsets_def)
qed

lemma set_member_obj_of:
  assumes "j < length ms"
  shows "set_member ms j c (obj_of ms md g) = obj_of ms md (g(j := c))"
  using assms by (simp add: obj_of_def store_def member_offset_nth same_offset)

lemma add_member_obj_of:
  assumes "j < length ms" and "g j = OVal v"
  shows "add_member ms j w (obj_of ms md g) = obj_of ms md (g(j := OVal (push_back w v)))"
  using assms by (simp add: obj_of_def member_offset_nth same_offset)

text \<open>Values of the registered kinds lie where the compiler puts the members.\<close>

lemma layout_members:
  "list_all2 agrees ms fs \<Longrightarrow> list_all2 same_kind fs vs \<Longrightarrow> list_all (\<lambda>f. kind_of (fst f) \<noteq> None) fs \<Longrightarrow>
     layout_fields (align8 off) vs = zip (map fst (place off ms)) (map layout_val vs)"
proof (induction ms fs arbitrary: off vs rule: list_all2_induct)
  case (Cons m ms f fs)
  obtain v ws where vs: "vs = v # ws" "same_kind f v" "list_all2 same_kind fs ws"
    using Cons.prems(1) by (auto simp: list_all2_Cons1)
  obtain k where k: "kind_of (fst f) = Some k" using Cons.prems(2) by auto
  then have "mval_kind v = Some k" using vs(2) by (simp add: same_kind_def)
  then have "mval_stride v = align8 (member_sizeof m)"
    using k Cons.hyps(1) by (simp add: agrees_def type_stride_def mval_stride_kind)
  moreover have "align8 (align8 off + member_sizeof m) = align8 off + align8 (member_sizeof m)" by (rule align8_add)
  ultimately show ?case
    using Cons.IH [of ws "align8 off + member_sizeof m"] vs Cons.prems(2) by simp
qed simp

lemma layout_obj_of:
  assumes "list_all2 agrees ms fs" and "list_all2 same_kind fs vs" and "list_all (\<lambda>f. kind_of (fst f) \<noteq> None) fs"
    and "\<And>i. i < length ms \<Longrightarrow> g i = layout_val (vs ! i)"
  shows "obj_of ms md g = layout (Msg md vs)"
proof -
  have n: "length ms = length vs" using assms(1,2) by (simp add: list_all2_lengthD)
  have "layout_fields first_member vs = zip (member_offsets ms) (map layout_val vs)"
    using layout_members [OF assms(1-3), of first_member] by (simp add: member_offsets_def align8_def first_member_def)
  also have "\<dots> = map (\<lambda>i. (member_offsets ms ! i, g i)) [0..<length ms]"
    using assms(4) n by (intro nth_equalityI) (simp_all add: member_offsets_def)
  finally show ?thesis by (simp add: obj_of_def)
qed

section \<open>Members of a class\<close>

definition has_members :: "member list \<Rightarrow> obj \<Rightarrow> bool" where
  "has_members ms ob \<longleftrightarrow> map fst (obj_cells ob) = member_offsets ms"

lemma has_members_obj_of: "has_members ms (obj_of ms md g)"
  using map_nth [of "map fst (place first_member ms)"]
  by (simp add: has_members_def obj_of_def member_offsets_def comp_def)

lemma obj_cells_set_member [simp]: "obj_cells (set_member ms i c ob) = store (obj_cells ob) (member_offset ms i) c"
  by (cases ob) simp

lemma get_member_load: "get_member ms i ob = load (obj_cells ob) (member_offset ms i)"
  by (cases ob) simp

lemma map_fst_store [simp]: "map fst (store cells off c) = map fst cells"
  by (induction cells) (auto simp: store_def)

lemma map_of_store:
  "k \<noteq> off \<Longrightarrow> map_of (store cells off c) k = map_of cells k"
  "off \<in> fst ` set cells \<Longrightarrow> map_of (store cells off c) off = Some c"
  by (induction cells) (force simp: store_def)+

lemma load_stored:
  "k \<noteq> off \<Longrightarrow> load (store cells off c) k = load cells k"
  "off \<in> fst ` set cells \<Longrightarrow> load (store cells off c) off = Inr c"
  by (simp_all add: load_def map_of_store)

lemma store_store: "store (store cells off c) off d = store cells off d"
  by (induction cells) (auto simp: store_def)

lemma store_same: "load cells off = Inr c \<Longrightarrow> distinct (map fst cells) \<Longrightarrow> store cells off c = cells"
proof (induction cells)
  case (Cons x cells)
  obtain k d where x: "x = (k, d)" by (cases x)
  show ?case
  proof (cases "k = off")
    case True
    then show ?thesis using Cons.prems x store_other [of off cells c] by (simp add: store_def load_def)
  next
    case False
    then show ?thesis using Cons x by (simp add: store_def load_def)
  qed
qed (simp add: store_def)

lemma store_commute: "off \<noteq> k \<Longrightarrow> store (store cells off c) k d = store (store cells k d) off c"
  by (induction cells) (auto simp: store_def)

lemma obj_eq_iff: "ob = ob' \<longleftrightarrow> obj_metadata ob = obj_metadata ob' \<and> obj_cells ob = obj_cells ob'"
  by (cases ob; cases ob') auto

lemma obj_metadata_set_member [simp]: "obj_metadata (set_member ms i c ob) = obj_metadata ob"
  by (cases ob) simp

locale class_member =
  fixes ms :: "member list" and i :: nat
  assumes in_class: "i < length ms"

lemma member_accessor:
  assumes in_class: "i < length ms"
  shows "accessor (has_members ms) (get_member ms i) (set_member ms i)"
proof
  fix s :: obj assume v: "has_members ms s"
  have off: "member_offset ms i \<in> fst ` set (obj_cells s)"
    using v in_class nth_mem [of i "member_offsets ms"]
    by (simp add: has_members_def member_offset_nth flip: set_map) (simp add: member_offsets_def)
  show "has_members ms (set_member ms i c s)" for c using v by (simp add: has_members_def)
  show "get_member ms i (set_member ms i c s) = Inr c" for c using off by (simp add: get_member_load load_stored)
  show "set_member ms i d (set_member ms i c s) = set_member ms i d s" for c d
    by (simp add: obj_eq_iff store_store)
  obtain c where "load (obj_cells s) (member_offset ms i) = Inr c"
    using off by (cases "map_of (obj_cells s) (member_offset ms i)") (auto simp: load_def map_of_eq_None_iff)
  moreover have "distinct (map fst (obj_cells s))" using v distinct_place by (simp add: has_members_def member_offsets_def)
  ultimately show "\<exists>c. get_member ms i s = Inr c \<and> set_member ms i c s = s"
    by (auto simp: get_member_load obj_eq_iff store_same)
qed

sublocale class_member \<subseteq> accessor "has_members ms" "get_member ms i" "set_member ms i"
  by (rule member_accessor [OF in_class])

lemma members_apart:
  assumes in_class: "i < length ms" "j < length ms" and different: "i \<noteq> j"
  shows "apart (has_members ms) (get_member ms i) (set_member ms i) (get_member ms j) (set_member ms j)"
proof (intro apart.intro apart_axioms.intro member_accessor in_class)
  show "set_member ms i c (set_member ms j d s) = set_member ms j d (set_member ms i c s)" for c d s
    using same_offset [OF in_class] different in_class
    by (simp add: obj_eq_iff member_offset_nth store_commute)
qed

locale two_members =
  fixes ms :: "member list" and i j :: nat
  assumes in_class: "i < length ms" "j < length ms" and different: "i \<noteq> j"

sublocale two_members \<subseteq> apart "has_members ms" "get_member ms i" "set_member ms i" "get_member ms j" "set_member ms j"
  by (rule members_apart [OF in_class different])

end
