(* ===== verification/DeathStar.thy ===== *)
theory DeathStar
  imports Accessors
begin

text \<open>
  The classes of \<open>include/bench_header/deathstarbench_testclass.h\<close> and their registration in
  \<open>deathstarbench_target.inc\<close>: the members of M1 to M10, \<open>createMessage\<close>, \<open>getMessageSize\<close>,
  \<open>RegisterTestClass\<close> and \<open>InitMessageSizeVec\<close>.  They are shown to form a \<open>class_registry\<close>.
\<close>

section \<open>Class declarations\<close>

definition M1_members :: "member list" where
  "M1_members = [Int64, String, String, String, String]"

definition M2_members :: "member list" where
  "M2_members = [Int64, String, String]"

definition M3_members :: "member list" where
  "M3_members = [Int64, String]"

definition M4_members :: "member list" where
  "M4_members = [Int64, Ptr 3]"

definition M5_members :: "member list" where
  "M5_members = [Int64, String, Int64, String, Ptr 3, Enum]"

definition M6_members :: "member list" where
  "M6_members = [Int64, Ptr 7]"

definition M7_members :: "member list" where
  "M7_members = [Int64, Ptr 8, Int64, String, Ptr 9, Ptr 3, Ptr 10, Int64, Enum]"

definition M8_members :: "member list" where
  "M8_members = [Int64, String]"

definition M9_members :: "member list" where
  "M9_members = [Int64, String]"

definition M10_members :: "member list" where
  "M10_members = [String, String]"

text \<open>The classes.  Their accessors are named after the members, here numbered in order.\<close>

definition M1_class :: gen_class where
  "M1_class = generated_class M1_members"

definition M2_class :: gen_class where
  "M2_class = generated_class M2_members"

definition M3_class :: gen_class where
  "M3_class = generated_class M3_members"

definition M4_class :: gen_class where
  "M4_class = generated_class M4_members"

definition M5_class :: gen_class where
  "M5_class = generated_class M5_members"

definition M6_class :: gen_class where
  "M6_class = generated_class M6_members"

definition M7_class :: gen_class where
  "M7_class = generated_class M7_members"

definition M8_class :: gen_class where
  "M8_class = generated_class M8_members"

definition M9_class :: gen_class where
  "M9_class = generated_class M9_members"

definition M10_class :: gen_class where
  "M10_class = generated_class M10_members"

text \<open>The class of each class number.\<close>

definition members :: "nat \<Rightarrow> member list option" where
  "members c =
     (if c = 1 then Some M1_members
      else if c = 2 then Some M2_members
      else if c = 3 then Some M3_members
      else if c = 4 then Some M4_members
      else if c = 5 then Some M5_members
      else if c = 6 then Some M6_members
      else if c = 7 then Some M7_members
      else if c = 8 then Some M8_members
      else if c = 9 then Some M9_members
      else if c = 10 then Some M10_members
      else None)"

lemmas members_simps =
  members_def M1_members_def M2_members_def M3_members_def M4_members_def M5_members_def M6_members_def M7_members_def M8_members_def M9_members_def M10_members_def

definition createMessage_ds :: "u32 \<Rightarrow> cells result" where
  "createMessage_ds temp_class_id =
     (case members (unat temp_class_id) of
        Some ms \<Rightarrow> Inr (place first_member ms)
      | None \<Rightarrow> Inl Bad_class)"

definition getMessageSize :: "u32 \<Rightarrow> u64" where
  "getMessageSize temp_class_id =
     (case members (unat temp_class_id) of Some ms \<Rightarrow> class_sizeof_members ms | None \<Rightarrow> 0)"

definition InitMessageSizeVec :: "(u32 \<Rightarrow> u64) \<Rightarrow> u32 \<Rightarrow> u64" where
  "InitMessageSizeVec msv = init_sizes getMessageSize msv"

section \<open>Registration\<close>

definition RegisterTestClass :: "(u32 \<Rightarrow> Metadata) \<Rightarrow> u32 \<Rightarrow> Metadata" where
  "RegisterTestClass mdv =
    (let mdv = set_class 1 [(sw_int64_type, 1), (sw_string_type, 2), (sw_string_type, 3),
                 (sw_string_type, 4), (sw_string_type, 5)] mdv;
         mdv = set_class 2 [(sw_int64_type, 1), (sw_string_type, 2), (sw_string_type, 3)] mdv;
         mdv = set_class 3 [(sw_int64_type, 1), (sw_string_type, 2)] mdv;
         mdv = set_class 4 [(sw_int64_type, 1), (sw_ptr_type, 2)] mdv;
         mdv = set_class 5 [(sw_int64_type, 1), (sw_string_type, 2), (sw_int64_type, 3),
                 (sw_string_type, 4), (sw_ptr_type, 5), (sw_enum_type, 6)] mdv;
         mdv = set_class 8 [(sw_int64_type, 1), (sw_string_type, 2)] mdv;
         mdv = set_class 9 [(sw_int64_type, 1), (sw_string_type, 2)] mdv;
         mdv = set_class 10 [(sw_string_type, 1), (sw_string_type, 2)] mdv;
         mdv = set_class 7 [(sw_int64_type, 1), (sw_ptr_type, 2), (sw_int64_type, 3),
                 (sw_string_type, 4), (sw_ptr_type, 5), (sw_ptr_type, 6), (sw_ptr_type, 7),
                 (sw_int64_type, 8), (sw_enum_type, 9)] mdv
     in set_class 6 [(sw_int64_type, 1), (sw_ptr_type, 2)] mdv)"

definition ds_classes :: "u32 list" where
  "ds_classes = [1, 2, 3, 4, 5, 6, 7, 8, 9, 10]"

definition ds_metadata :: "u32 \<Rightarrow> Metadata" where
  "ds_metadata = RegisterTestClass (\<lambda>_. zero_metadata)"

definition ds_sizes :: "u32 \<Rightarrow> u64" where
  "ds_sizes = InitMessageSizeVec (\<lambda>_. 0)"

section \<open>The registry\<close>

text \<open>The fields each class is registered with.\<close>

definition ds_fields :: "nat \<Rightarrow> (sw_type \<times> u8) list" where
  "ds_fields c =
     (if c = 1 then [(sw_int64_type, 1), (sw_string_type, 2), (sw_string_type, 3),
                 (sw_string_type, 4), (sw_string_type, 5)]
      else if c = 2 then [(sw_int64_type, 1), (sw_string_type, 2), (sw_string_type, 3)]
      else if c = 4 \<or> c = 6 then [(sw_int64_type, 1), (sw_ptr_type, 2)]
      else if c = 5 then [(sw_int64_type, 1), (sw_string_type, 2), (sw_int64_type, 3),
                 (sw_string_type, 4), (sw_ptr_type, 5), (sw_enum_type, 6)]
      else if c = 7 then [(sw_int64_type, 1), (sw_ptr_type, 2), (sw_int64_type, 3),
                 (sw_string_type, 4), (sw_ptr_type, 5), (sw_ptr_type, 6), (sw_ptr_type, 7),
                 (sw_int64_type, 8), (sw_enum_type, 9)]
      else if c = 10 then [(sw_string_type, 1), (sw_string_type, 2)]
      else [(sw_int64_type, 1), (sw_string_type, 2)])"

lemma ds_class_cases:
  assumes "c \<in> set ds_classes"
  obtains "c = 1" | "c = 2" | "c = 3" | "c = 4" | "c = 5" | "c = 6" | "c = 7" | "c = 8" | "c = 9" | "c = 10"
  using assms by (auto simp: ds_classes_def)

lemma RegisterTestClass_fields:
  assumes "c \<in> set ds_classes" and "\<And>d. Metadata_ok (mdv d)"
  shows "descriptor_ok (RegisterTestClass mdv c)" "md_fields (RegisterTestClass mdv c) = ds_fields (unat c)"
    "class_id (RegisterTestClass mdv c) = c"
proof -
  have "descriptor_ok (RegisterTestClass mdv c) \<and> md_fields (RegisterTestClass mdv c) = ds_fields (unat c)
      \<and> class_id (RegisterTestClass mdv c) = c"
    using assms(1)
    by (cases rule: ds_class_cases)
      (simp_all add: RegisterTestClass_def Let_def set_class_other set_class_ok assms(2)
        wire_type_capacity_def ds_fields_def)
  then show "descriptor_ok (RegisterTestClass mdv c)"
    "md_fields (RegisterTestClass mdv c) = ds_fields (unat c)"
    "class_id (RegisterTestClass mdv c) = c" by simp_all
qed

lemmas ds_fields_metadata [unfolded ds_metadata_def [symmetric]] =
  RegisterTestClass_fields [of _ "\<lambda>_. zero_metadata", OF _ zero_metadata_ok]

lemma ds_supported: "c \<in> set ds_classes \<Longrightarrow> fields_supported (ds_metadata c)"
proof -
  assume c: "c \<in> set ds_classes"
  then have "list_all (\<lambda>f. kind_of (fst f) \<noteq> None \<and> unat (snd f) < 128) (ds_fields (unat c))"
    by (cases rule: ds_class_cases) (simp_all add: ds_fields_def)
  then show ?thesis
    using ds_fields_metadata [OF c] by (simp add: fields_supported_def)
qed

lemma ds_size: "c \<in> set ds_classes \<Longrightarrow> int (unat (ds_sizes c)) = class_sizeof (ds_metadata c)"
proof -
  assume c: "c \<in> set ds_classes"
  then have "int (unat (getMessageSize c))
      = first_member + sum_list (map (\<lambda>f. type_stride (fst f)) (ds_fields (unat c)))"
    by (cases rule: ds_class_cases)
      (simp_all add: getMessageSize_def members_simps class_sizeof_members_def align8_def
        first_member_def ds_fields_def type_stride_def)
  moreover have "unat c < 1000"
    using c by (cases rule: ds_class_cases) simp_all
  ultimately show ?thesis
    using ds_fields_metadata(2) [OF c]
    by (simp add: ds_sizes_def InitMessageSizeVec_def init_sizes_eq class_sizeof_def)
qed

lemma ds_create:
  "c \<in> set ds_classes \<Longrightarrow>
   \<exists>cs. createMessage_ds c = Inr cs \<and> blank_cells first_member (md_fields (ds_metadata c)) cs"
proof -
  assume c: "c \<in> set ds_classes"
  then have "blank_cells first_member (ds_fields (unat c)) (place first_member (the (members (unat c))))
      \<and> members (unat c) \<noteq> None"
    by (cases rule: ds_class_cases)
      (simp_all add: members_simps blank_cells_def ds_fields_def align8_def first_member_def
        type_stride_def blank_for_def)
  then show ?thesis
    using ds_fields_metadata(2) [OF c] by (auto simp: createMessage_ds_def)
qed

interpretation ds: class_registry ds_metadata ds_sizes createMessage_ds ds_classes
  by unfold_locales (rule ds_supported ds_size ds_create; assumption)+

section \<open>Properties\<close>

text \<open>For each of the ten classes the three sources of the generated code agree: the class
  number and the fields \<open>RegisterTestClass\<close> records, the members \<open>createMessage\<close> constructs, each at the
  offset the walks compute from the field types and empty, and the size \<open>InitMessageSizeVec\<close> stores.\<close>

theorem registry_consistent:
  assumes "c \<in> set ds_classes"
  shows "class_id (ds_metadata c) = c
    \<and> int (unat (ds_sizes c)) = first_member + sum_list (map (\<lambda>f. type_stride (fst f)) (md_fields (ds_metadata c)))
    \<and> (\<exists>cs. createMessage_ds c = Inr cs \<and> blank_cells first_member (md_fields (ds_metadata c)) cs)"
  using ds_fields_metadata(3) [OF assms] ds.reg_size [OF assms] ds.reg_create [OF assms]
  by (simp add: class_sizeof_def)

theorem registry_consistent_witness:
  "class_id (ds_metadata 7) = 7
    \<and> int (unat (ds_sizes 7)) = first_member + sum_list (map (\<lambda>f. type_stride (fst f)) (md_fields (ds_metadata 7)))
    \<and> (\<exists>cs. createMessage_ds 7 = Inr cs \<and> blank_cells first_member (md_fields (ds_metadata 7)) cs)"
  by (rule registry_consistent) (simp add: ds_classes_def)

end
