(* ===== verification/DeathStar_Messages.thy ===== *)
theory DeathStar_Messages
  imports DeathStar Fpga_Metadata_Spec
begin

text \<open>
  The sample messages of \<open>include/bench_header/deathstarbench_target.inc\<close> (lines 101 to 193): the
  functions that set the members of M1, M2, M4, M5 and M6, and \<open>BenchmarkInit\<close>, which registers the
  classes and hands out one of the messages.  They are shown to be the layouts of five typed messages.
\<close>

section \<open>The messages\<close>

definition M1_Set_F1 :: "obj \<Rightarrow> (u32 \<Rightarrow> Metadata) \<Rightarrow> obj" where
  "M1_Set_F1 message mdv =
     (let message = set_metadata_ptr (mdv 1) message;
          message = set_int64 M1_members 0 0x7FFFFFFFFFFFFFF0 message;
          message = set_string M1_members 1 ''first_name'' message;
          message = set_string M1_members 2 ''last_name'' message;
          message = set_string M1_members 3 ''username'' message
      in set_string M1_members 4 ''password'' message)"

definition M2_Set_F1 :: "obj \<Rightarrow> (u32 \<Rightarrow> Metadata) \<Rightarrow> obj" where
  "M2_Set_F1 message mdv =
     (let message = set_metadata_ptr (mdv 2) message;
          message = set_int64 M2_members 0 0x7FFFFFFFFFFFFFF1 message;
          message = set_string M2_members 1 ''username'' message
      in set_string M2_members 2 ''password'' message)"

definition M4_Set_F1 :: "obj \<Rightarrow> (u32 \<Rightarrow> Metadata) \<Rightarrow> obj" where
  "M4_Set_F1 message mdv =
     (let message = set_metadata_ptr (mdv 4) message;
          message = set_int64 M4_members 0 0x7FFFFFFFFFFFFFF2 message;
          m3 = new_object M3_members;
          m3 = set_metadata_ptr (mdv 3) m3;
          m3 = set_int64 M3_members 0 0x7FFFFFFFFFFFFFF3 m3;
          m3 = set_string M3_members 1 ''media_type'' m3
      in set_sub M4_members 1 m3 message)"

definition M5_Set_F1 :: "obj \<Rightarrow> (u32 \<Rightarrow> Metadata) \<Rightarrow> obj" where
  "M5_Set_F1 message mdv =
     (let message = set_metadata_ptr (mdv 5) message;
          message = set_int64 M5_members 0 0x7FFFFFFFFFFFFFF4 message;
          message = set_string M5_members 1 ''username'' message;
          message = set_int64 M5_members 2 0x7FFFFFFFFFFFFFF5 message;
          message = set_string M5_members 3 ''text'' message;
          m3 = new_object M3_members;
          m3 = set_metadata_ptr (mdv 3) m3;
          m3 = set_int64 M3_members 0 0x7FFFFFFFFFFFFFF6 m3;
          m3 = set_string M3_members 1 ''media_type'' m3;
          message = set_sub M5_members 4 m3 message
      in set_enum M5_members 5 0 message)"

definition M6_Set_F1 :: "obj \<Rightarrow> (u32 \<Rightarrow> Metadata) \<Rightarrow> obj" where
  "M6_Set_F1 message mdv =
     (let message = set_metadata_ptr (mdv 6) message;
          message = set_int64 M6_members 0 0x7FFFFFFFFFFFFFF7 message;
          m7 = new_object M7_members;
          m7 = set_metadata_ptr (mdv 7) m7;
          m7 = set_int64 M7_members 0 0x7FFFFFFFFFFFFFF8 m7;
          m8 = new_object M8_members;
          m8 = set_metadata_ptr (mdv 8) m8;
          m8 = set_int64 M8_members 0 0x7FFFFFFFFFFFFFF9 m8;
          m8 = set_string M8_members 1 ''username'' m8;
          m7 = set_sub M7_members 1 m8 m7;
          m7 = set_int64 M7_members 2 0x7FFFFFFFFFFFFFFA m7;
          m7 = set_string M7_members 3 ''text'' m7;
          m9 = new_object M9_members;
          m9 = set_metadata_ptr (mdv 9) m9;
          m9 = set_int64 M9_members 0 0x7FFFFFFFFFFFFFFB m9;
          m9 = set_string M9_members 1 ''username'' m9;
          m7 = set_sub M7_members 4 m9 m7;
          m3 = new_object M3_members;
          m3 = set_metadata_ptr (mdv 3) m3;
          m3 = set_int64 M3_members 0 0x7FFFFFFFFFFFFFFC m3;
          m3 = set_string M3_members 1 ''media_type'' m3;
          m7 = set_sub M7_members 5 m3 m7;
          m10 = new_object M10_members;
          m10 = set_metadata_ptr (mdv 10) m10;
          m10 = set_string M10_members 0 ''shortened_url'' m10;
          m10 = set_string M10_members 1 ''expanded_url'' m10;
          m7 = set_sub M7_members 6 m10 m7;
          m7 = set_int64 M7_members 7 0x7FFFFFFFFFFFFFFD m7;
          m7 = set_enum M7_members 8 1 m7
      in set_sub M6_members 1 m7 message)"

text \<open>\<open>messages[idx]\<close> is not checked: past the five messages the access leaves the vector.\<close>

definition BenchmarkInit ::
  "nat \<Rightarrow> (u32 \<Rightarrow> Metadata) \<Rightarrow> (u32 \<Rightarrow> u64) \<Rightarrow> (obj \<times> (u32 \<Rightarrow> Metadata) \<times> (u32 \<Rightarrow> u64)) result" where
  "BenchmarkInit idx mdv msv =
     (let mdv = RegisterTestClass mdv;
          msv = InitMessageSizeVec msv;
          messages = [M1_Set_F1 (new_object M1_members) mdv, M2_Set_F1 (new_object M2_members) mdv,
                      M4_Set_F1 (new_object M4_members) mdv, M5_Set_F1 (new_object M5_members) mdv,
                      M6_Set_F1 (new_object M6_members) mdv]
      in if idx < length messages then Inr (messages ! idx, mdv, msv) else Inl Overrun)"

section \<open>The messages as trees\<close>

definition ds_str :: "string \<Rightarrow> mval" where
  "ds_str s = MVal (VStr (map of_char s))"

definition ds_media :: "u64 \<Rightarrow> msg" where
  "ds_media n = Msg (ds_metadata 3) [MVal (V64 n), ds_str ''media_type'']"

definition ds_post :: msg where
  "ds_post = Msg (ds_metadata 7)
     [MVal (V64 0x7FFFFFFFFFFFFFF8),
      MSub (Msg (ds_metadata 8) [MVal (V64 0x7FFFFFFFFFFFFFF9), ds_str ''username'']),
      MVal (V64 0x7FFFFFFFFFFFFFFA), ds_str ''text'',
      MSub (Msg (ds_metadata 9) [MVal (V64 0x7FFFFFFFFFFFFFFB), ds_str ''username'']),
      MSub (ds_media 0x7FFFFFFFFFFFFFFC),
      MSub (Msg (ds_metadata 10) [ds_str ''shortened_url'', ds_str ''expanded_url'']),
      MVal (V64 0x7FFFFFFFFFFFFFFD), MVal (V32 1)]"

definition ds_messages :: "msg list" where
  "ds_messages =
     [Msg (ds_metadata 1) [MVal (V64 0x7FFFFFFFFFFFFFF0), ds_str ''first_name'', ds_str ''last_name'',
        ds_str ''username'', ds_str ''password''],
      Msg (ds_metadata 2) [MVal (V64 0x7FFFFFFFFFFFFFF1), ds_str ''username'', ds_str ''password''],
      Msg (ds_metadata 4) [MVal (V64 0x7FFFFFFFFFFFFFF2), MSub (ds_media 0x7FFFFFFFFFFFFFF3)],
      Msg (ds_metadata 5) [MVal (V64 0x7FFFFFFFFFFFFFF4), ds_str ''username'',
        MVal (V64 0x7FFFFFFFFFFFFFF5), ds_str ''text'', MSub (ds_media 0x7FFFFFFFFFFFFFF6), MVal (V32 0)],
      Msg (ds_metadata 6) [MVal (V64 0x7FFFFFFFFFFFFFF7), MSub ds_post]]"

lemmas ds_message_defs = ds_messages_def ds_post_def ds_media_def ds_str_def

lemmas ds_set_defs = set_defs members_simps

lemma set_messages:
  "M1_Set_F1 (new_object M1_members) ds_metadata = layout (ds_messages ! 0)"
  "M2_Set_F1 (new_object M2_members) ds_metadata = layout (ds_messages ! 1)"
  "M4_Set_F1 (new_object M4_members) ds_metadata = layout (ds_messages ! 2)"
  "M5_Set_F1 (new_object M5_members) ds_metadata = layout (ds_messages ! 3)"
  "M6_Set_F1 (new_object M6_members) ds_metadata = layout (ds_messages ! 4)"
  by (simp_all add: M1_Set_F1_def M2_Set_F1_def M4_Set_F1_def M5_Set_F1_def M6_Set_F1_def Let_def
      ds_set_defs ds_message_defs)

lemma length_ds_messages: "length ds_messages = 5"
  by (simp add: ds_messages_def)

lemma BenchmarkInit_layout:
  "BenchmarkInit idx (\<lambda>_. zero_metadata) (\<lambda>_. 0)
     = (if idx < 5 then Inr (layout (ds_messages ! idx), ds_metadata, ds_sizes) else Inl Overrun)"
proof -
  have "[M1_Set_F1 (new_object M1_members) ds_metadata, M2_Set_F1 (new_object M2_members) ds_metadata,
      M4_Set_F1 (new_object M4_members) ds_metadata, M5_Set_F1 (new_object M5_members) ds_metadata,
      M6_Set_F1 (new_object M6_members) ds_metadata] = map layout ds_messages"
    unfolding set_messages by (simp add: ds_messages_def)
  then show ?thesis
    by (simp only: BenchmarkInit_def Let_def ds_metadata_def [symmetric] ds_sizes_def [symmetric]
        length_map length_ds_messages) (simp add: length_ds_messages)
qed

text \<open>What the table has to say of each class: no long strings, and the class of each sub-message.\<close>

definition ds_signature :: signature where
  "ds_signature c i =
     (True, if c = 4 \<and> i = 2 \<or> c = 5 \<and> i = 5 \<or> c = 7 \<and> i = 6 then Some 3
            else if c = 6 \<and> i = 2 then Some 7 else if c = 7 \<and> i = 2 then Some 8
            else if c = 7 \<and> i = 5 then Some 9 else if c = 7 \<and> i = 7 then Some 10 else None)"

lemma ds_rows:
  "c \<in> set ds_classes \<Longrightarrow> md_fields (ds_metadata c) = ds_fields (unat c) \<and> class_id (ds_metadata c) = c"
  using ds_fields_metadata by blast

lemma ds_row_fields:
  "md_fields (ds_metadata 1) = ds_fields 1" "class_id (ds_metadata 1) = 1"
  "md_fields (ds_metadata 2) = ds_fields 2" "class_id (ds_metadata 2) = 2"
  "md_fields (ds_metadata 3) = ds_fields 3" "class_id (ds_metadata 3) = 3"
  "md_fields (ds_metadata 4) = ds_fields 4" "class_id (ds_metadata 4) = 4"
  "md_fields (ds_metadata 5) = ds_fields 5" "class_id (ds_metadata 5) = 5"
  "md_fields (ds_metadata 6) = ds_fields 6" "class_id (ds_metadata 6) = 6"
  "md_fields (ds_metadata 7) = ds_fields 7" "class_id (ds_metadata 7) = 7"
  "md_fields (ds_metadata 8) = ds_fields 8" "class_id (ds_metadata 8) = 8"
  "md_fields (ds_metadata 9) = ds_fields 9" "class_id (ds_metadata 9) = 9"
  "md_fields (ds_metadata 10) = ds_fields 10" "class_id (ds_metadata 10) = 10"
  using ds_rows [of 1] ds_rows [of 2] ds_rows [of 3] ds_rows [of 4] ds_rows [of 5]
    ds_rows [of 6] ds_rows [of 7] ds_rows [of 8] ds_rows [of 9] ds_rows [of 10]
  by (simp_all add: ds_classes_def)

lemma ds_messages_ok:
  "list_all (typed ds_metadata ds_classes) ds_messages"
  "list_all (consistent ds_signature) ds_messages"
  "list_all (fits True) ds_messages"
  by (simp_all add: ds_message_defs ds_row_fields ds_fields_def ds_classes_def same_kind_def ds_signature_def
      slot_ok_def fpga_fields_def string_fits_def long_limit_def parsable_def packed_part_def)

lemma ds_message_ok:
  assumes "idx < 5"
  shows "typed ds_metadata ds_classes (ds_messages ! idx)" "consistent ds_signature (ds_messages ! idx)"
    "fits True (ds_messages ! idx)"
  using ds_messages_ok assms by (simp_all add: list_all_length length_ds_messages)

section \<open>Accessors\<close>

text \<open>Members of M5 and M7, a number, a string and a pointer among them.\<close>

interpretation post_text: class_member M5_members 3
  by unfold_locales (simp add: M5_members_def)

interpretation post_members: two_members M7_members 3 4
  by unfold_locales (simp_all add: M7_members_def)

section \<open>Properties\<close>

text \<open>On zeroed tables \<open>BenchmarkInit\<close> fills the tables of all ten classes and hands out, for each index below 5,
  an object that is the layout of a well-typed message whose strings are all sent inline; every index
  from 5 on, though the programs accept up to 9, reads past the end of the vector of messages.\<close>

theorem benchmark_messages:
  "BenchmarkInit idx (\<lambda>_. zero_metadata) (\<lambda>_. 0)
     = (if idx < 5 then Inr (layout (ds_messages ! idx), ds_metadata, ds_sizes) else Inl Overrun)
   \<and> list_all (\<lambda>m. typed ds_metadata ds_classes m \<and> consistent ds_signature m \<and> fits True m) ds_messages"
  using BenchmarkInit_layout ds_messages_ok by (simp add: list_all_iff)

end
