(* ===== verification/Microbench.thy ===== *)
theory Microbench
  imports Accessors
begin

text \<open>
  The microbenchmarks \<open>include/bench_header/<n>int_microbench_testclass.h\<close> and
  \<open><n>int_microbench_target.inc\<close> for n = 1, 2, 4, 8, 16, 32 and 64.  The generator writes the same code
  for each: 31 classes in five chains of 1, 2, 4, 8 and 16, each with n members of type \<open>int64_t\<close> and,
  but for the last of a chain, a pointer to the next class.  The definitions take n as an argument, and
  loops stand for the repeated assignments.
\<close>

section \<open>Classes\<close>

definition last_of_chain :: "nat \<Rightarrow> bool" where
  "last_of_chain c \<longleftrightarrow> c = 1 \<or> c = 3 \<or> c = 7 \<or> c = 15 \<or> c = 31"

definition micro_members :: "nat \<Rightarrow> nat \<Rightarrow> member list" where
  "micro_members n c = replicate n Int64 @ (if last_of_chain c then [] else [Ptr (c + 1)])"

definition micro_class :: "nat \<Rightarrow> nat \<Rightarrow> gen_class" where
  "micro_class n c = generated_class (micro_members n c)"

definition createMessage_micro :: "nat \<Rightarrow> u32 \<Rightarrow> cells result" where
  "createMessage_micro n temp_class_id =
     (if 1 \<le> unat temp_class_id \<and> unat temp_class_id \<le> 31
      then Inr (place first_member (micro_members n (unat temp_class_id))) else Inl Bad_class)"

definition getMessageSize_micro :: "nat \<Rightarrow> u32 \<Rightarrow> u64" where
  "getMessageSize_micro n temp_class_id =
     (if 1 \<le> unat temp_class_id \<and> unat temp_class_id \<le> 31
      then class_sizeof_members (micro_members n (unat temp_class_id)) else 0)"

section \<open>Registration\<close>

definition micro_fields :: "nat \<Rightarrow> nat \<Rightarrow> (sw_type \<times> u8) list" where
  "micro_fields n c = map (\<lambda>i. (sw_int64_type, of_nat i)) [1..<Suc n]
     @ (if last_of_chain c then [] else [(sw_ptr_type, of_nat (Suc n))])"

text \<open>\<open>wire_type\<close> has 52 elements: assigning to a later one is outside the array.\<close>

definition assign_class :: "u32 \<Rightarrow> (sw_type \<times> u8) list \<Rightarrow> (u32 \<Rightarrow> Metadata) \<Rightarrow> (u32 \<Rightarrow> Metadata) result" where
  "assign_class c fs mdv =
     (if length fs \<le> wire_type_capacity then Inr (set_class c fs mdv) else Inl Overrun)"

definition micro_order :: "nat list" where
  "micro_order = [1, 3, 2, 7, 6, 5, 4, 15, 14, 13, 12, 11, 10, 9, 8,
     31, 30, 29, 28, 27, 26, 25, 24, 23, 22, 21, 20, 19, 18, 17, 16]"

definition RegisterTestClass_micro :: "nat \<Rightarrow> (u32 \<Rightarrow> Metadata) \<Rightarrow> (u32 \<Rightarrow> Metadata) result" where
  "RegisterTestClass_micro n = each (\<lambda>c. assign_class (of_nat c) (micro_fields n c)) micro_order"

section \<open>Messages\<close>

text \<open>An object of class \<open>c\<close> with the \<open>k\<close> classes that follow it in its chain.\<close>

fun micro_Set_F1 :: "nat \<Rightarrow> nat \<Rightarrow> nat \<Rightarrow> (u32 \<Rightarrow> Metadata) \<Rightarrow> obj" where
  "micro_Set_F1 n k c mdv =
     (let message = set_metadata_ptr (mdv (of_nat c)) (new_object (micro_members n c));
          message = fold (\<lambda>i. set_int64 (micro_members n c) i 0x7FFFFFFFFFFFFFF0) [0..<n] message
      in case k of
           0 \<Rightarrow> message
         | Suc k \<Rightarrow> set_sub (micro_members n c) n (micro_Set_F1 n k (Suc c) mdv) message)"

declare micro_Set_F1.simps [simp del]

text \<open>\<open>messages[idx]\<close> is not checked.\<close>

definition BenchmarkInit_micro ::
  "nat \<Rightarrow> nat \<Rightarrow> (u32 \<Rightarrow> Metadata) \<Rightarrow> (u32 \<Rightarrow> u64) \<Rightarrow> (obj \<times> (u32 \<Rightarrow> Metadata) \<times> (u32 \<Rightarrow> u64)) result" where
  "BenchmarkInit_micro n idx mdv msv =
     andThen (RegisterTestClass_micro n mdv) (\<lambda>mdv.
       let msv = init_sizes (getMessageSize_micro n) msv;
           messages = [micro_Set_F1 n 0 1 mdv, micro_Set_F1 n 1 2 mdv, micro_Set_F1 n 3 4 mdv,
                       micro_Set_F1 n 7 8 mdv, micro_Set_F1 n 15 16 mdv]
       in if idx < length messages then Inr (messages ! idx, mdv, msv) else Inl Overrun)"

section \<open>The registry\<close>

definition micro_classes :: "u32 list" where
  "micro_classes = map of_nat [1..<32]"

definition micro_metadata :: "nat \<Rightarrow> u32 \<Rightarrow> Metadata" where
  "micro_metadata n = (case RegisterTestClass_micro n (\<lambda>_. zero_metadata) of Inr mdv \<Rightarrow> mdv | Inl e \<Rightarrow> \<lambda>_. zero_metadata)"

definition micro_sizes :: "nat \<Rightarrow> u32 \<Rightarrow> u64" where
  "micro_sizes n = init_sizes (getMessageSize_micro n) (\<lambda>_. 0)"

lemma length_micro_fields: "length (micro_fields n c) = n + (if last_of_chain c then 0 else 1)"
  by (simp add: micro_fields_def)

lemma micro_register:
  assumes "n \<le> 51"
  shows "RegisterTestClass_micro n mdv = Inr (fold (\<lambda>c. set_class (of_nat c) (micro_fields n c)) micro_order mdv)"
  unfolding RegisterTestClass_micro_def
  using assms by (intro each_total) (simp add: assign_class_def length_micro_fields wire_type_capacity_def)

lemma micro_register_overrun:
  assumes "52 < n"
  shows "RegisterTestClass_micro n mdv = Inl Overrun"
  using assms
  by (simp add: RegisterTestClass_micro_def micro_order_def assign_class_def length_micro_fields wire_type_capacity_def)

text \<open>Registering distinct classes in any order gives each its own fields.\<close>

lemma fold_set_class:
  assumes "distinct cs" and "list_all (\<lambda>c. c < 1000) cs" and "c < 1000"
    and "\<And>d. Metadata_ok (mdv d)" and "list_all (\<lambda>c. length (fs c) \<le> wire_type_capacity) cs"
  shows "fold (\<lambda>c. set_class (of_nat c) (fs c)) cs mdv (of_nat c)
     = (if c \<in> set cs then set_class (of_nat c) (fs c) mdv (of_nat c) else mdv (of_nat c))"
proof -
  have inj: "(of_nat c :: u32) = of_nat d \<longleftrightarrow> c = d" if "c < 1000" "d < 1000" for c d
  proof -
    have "unat (of_nat c :: u32) = c" "unat (of_nat d :: u32) = d" using that by (auto intro!: unat_of_nat_small)
    then show ?thesis by metis
  qed
  show ?thesis
    using assms
  proof (induction cs rule: rev_induct)
    case (snoc x cs)
    then have "c = x \<or> (of_nat c :: u32) \<noteq> of_nat x" using inj by auto
    then show ?case using snoc
      by (auto simp: set_class_other) (simp add: set_class_def)
  qed simp
qed

lemma micro_order_ok:
  "distinct micro_order" "list_all (\<lambda>c. c < 1000) micro_order" "set micro_order = set [1..<32]"
  by (simp add: micro_order_def, simp add: micro_order_def, code_simp)

lemma micro_row:
  assumes "n \<le> 51" and "1 \<le> c" and "c < 32"
  shows "descriptor_ok (micro_metadata n (of_nat c))" "md_fields (micro_metadata n (of_nat c)) = micro_fields n c"
    "class_id (micro_metadata n (of_nat c)) = of_nat c"
proof -
  have "c \<in> set micro_order" using assms(2,3) by (simp add: micro_order_ok)
  then have eq: "micro_metadata n (of_nat c) = set_class (of_nat c) (micro_fields n c) (\<lambda>_. zero_metadata) (of_nat c)"
    using fold_set_class [OF micro_order_ok(1,2), of c "\<lambda>_. zero_metadata" "micro_fields n"] assms
    by (simp add: micro_metadata_def micro_register zero_metadata_ok list_all_iff length_micro_fields
        wire_type_capacity_def)
  have "length (micro_fields n c) \<le> wire_type_capacity"
    using assms(1) by (simp add: length_micro_fields wire_type_capacity_def)
  from set_class_ok [where mdv = "\<lambda>_. zero_metadata", OF zero_metadata_ok this]
  show "descriptor_ok (micro_metadata n (of_nat c))" "md_fields (micro_metadata n (of_nat c)) = micro_fields n c"
    "class_id (micro_metadata n (of_nat c)) = of_nat c"
    unfolding eq by blast+
qed

lemma micro_class_cases:
  assumes "c \<in> set micro_classes"
  obtains d where "c = of_nat d" "1 \<le> d" "d < 32" "unat c = d"
proof -
  obtain d where d: "c = of_nat d" "1 \<le> d" "d < 32" using assms by (auto simp: micro_classes_def)
  moreover have "unat c = d" unfolding d(1) using d(3) by (intro unat_of_nat_small) simp
  ultimately show ?thesis by (rule that)
qed

lemma unat_field_number: "i < 128 \<Longrightarrow> unat (of_nat i :: u8) = i"
  by (rule unat_of_nat_small) simp

lemma place_ints:
  "place (8 * m) (replicate n Int64 @ ms)
     = map (\<lambda>i. (8 * m + 8 * int i, OVal Raw)) [0..<n] @ place (8 * m + 8 * int n) ms"
proof (induction n arbitrary: m)
  case (Suc n)
  have "align8 (8 * m) = 8 * m" by (simp add: align8_def)
  moreover have "map (\<lambda>i. (8 * m + 8 * int i, OVal Raw)) [0..<Suc n]
      = (8 * m, OVal Raw) # map (\<lambda>i. (8 * (m + 1) + 8 * int i, OVal Raw)) [0..<n]"
    by (simp add: upt_conv_Cons map_Suc_upt [symmetric] comp_def del: upt_Suc)
  ultimately show ?case using Suc [of "m + 1"] by (simp add: algebra_simps)
qed simp

lemma micro_place:
  "place first_member (micro_members n c) = map (\<lambda>i. (16 + 8 * int i, OVal Raw)) [0..<n]
     @ (if last_of_chain c then [] else [(16 + 8 * int n, OPtr None)])"
  using place_ints [of 2 n "if last_of_chain c then [] else [Ptr (c + 1)]"]
  by (simp add: micro_members_def first_member_def align8_def)

lemma micro_agrees: "list_all2 agrees (micro_members n c) (micro_fields n c)"
proof -
  have "list_all2 agrees (replicate n Int64) (map (\<lambda>i. (sw_int64_type, of_nat i)) [1..<Suc n])"
    by (simp add: list_all2_conv_all_nth agrees_def blank_for_def type_stride_def align8_def del: upt_Suc)
  then show ?thesis
    by (auto simp: micro_members_def micro_fields_def list_all2_append agrees_def blank_for_def type_stride_def
        align8_def simp del: upt_Suc)
qed

text \<open>Up to 51 integers the three tables of a microbenchmark form a registry.\<close>

lemma micro_registry:
  assumes "n \<le> 51"
  shows "class_registry (micro_metadata n) (micro_sizes n) (createMessage_micro n) micro_classes"
proof
  fix c assume "c \<in> set micro_classes"
  then obtain d where d: "c = of_nat d" "1 \<le> d" "d < 32" "unat c = d" by (rule micro_class_cases)
  note row = micro_row [OF assms d(2,3), folded d(1)]
  show "fields_supported (micro_metadata n c)"
    using row assms by (auto simp: fields_supported_def micro_fields_def list_all_iff unat_field_number
        simp del: of_nat_Suc upt_Suc)
  have strides: "sum_list (map (\<lambda>f. type_stride (fst f)) (micro_fields n d))
      = 8 * (int n + (if last_of_chain d then 0 else 1))"
    by (simp add: micro_fields_def comp_def type_stride_def sum_list_triv del: upt_Suc)
  then have "align8 (end_of first_member (micro_members n d)) = 8 * (2 + int n + (if last_of_chain d then 0 else 1))"
    using members_size [OF micro_agrees, of first_member n d] by (simp add: align8_def first_member_def)
  then have "class_sizeof_members (micro_members n d) = of_nat (8 * (2 + n + (if last_of_chain d then 0 else 1)))"
    by (simp add: class_sizeof_members_def)
  moreover have "unat (of_nat (8 * (2 + n + (if last_of_chain d then 0 else 1))) :: u64)
      = 8 * (2 + n + (if last_of_chain d then 0 else 1))"
    using assms by (intro unat_of_nat_small) simp
  ultimately show "int (unat (micro_sizes n c)) = class_sizeof (micro_metadata n c)"
    using d row(2) strides
    by (simp add: micro_sizes_def init_sizes_eq getMessageSize_micro_def class_sizeof_def first_member_def)
  have "blank_cells first_member (micro_fields n d) (place first_member (micro_members n d))"
    using members_blank [OF micro_agrees, of first_member n d] by (simp add: align8_def first_member_def)
  then show "\<exists>cs. createMessage_micro n c = Inr cs \<and> blank_cells first_member (md_fields (micro_metadata n c)) cs"
    using d row(2) by (simp add: createMessage_micro_def)
qed

section \<open>The messages as trees\<close>

definition micro_int :: mval where
  "micro_int = MVal (V64 0x7FFFFFFFFFFFFFF0)"

fun micro_msg :: "nat \<Rightarrow> nat \<Rightarrow> nat \<Rightarrow> msg" where
  "micro_msg n 0 c = Msg (micro_metadata n (of_nat c)) (replicate n micro_int)"
| "micro_msg n (Suc k) c = Msg (micro_metadata n (of_nat c)) (replicate n micro_int @ [MSub (micro_msg n k (Suc c))])"

text \<open>Class \<open>c\<close> is followed by exactly \<open>k\<close> classes in its chain.\<close>

fun chain :: "nat \<Rightarrow> nat \<Rightarrow> bool" where
  "chain 0 c \<longleftrightarrow> 1 \<le> c \<and> c < 32 \<and> last_of_chain c"
| "chain (Suc k) c \<longleftrightarrow> 1 \<le> c \<and> \<not> last_of_chain c \<and> chain k (Suc c)"

lemma chain_bounds: "chain k c \<Longrightarrow> 1 \<le> c \<and> c < 32"
proof (induction k arbitrary: c)
  case (Suc k)
  then show ?case using Suc.IH [of "Suc c"] by simp
qed simp

text \<open>Storing the integers one after the other, and the pointer behind them.\<close>

lemma ints_layout:
  "layout_fields off (replicate n micro_int @ vs)
     = map (\<lambda>i. (off + 8 * int i, OVal (V64 0x7FFFFFFFFFFFFFF0))) [0..<n] @ layout_fields (off + 8 * int n) vs"
proof (induction n arbitrary: off)
  case (Suc n)
  have "map (\<lambda>i. (off + 8 * int i, c)) [0..<Suc n]
      = (off, c) # map (\<lambda>i. (off + 8 + 8 * int i, c)) [0..<n]" for c :: ocell
    by (simp add: upt_conv_Cons map_Suc_upt [symmetric] comp_def algebra_simps del: upt_Suc)
  then show ?case using Suc [of "off + 8"] by (simp add: micro_int_def algebra_simps del: upt_Suc)
qed simp

lemma store_upt:
  assumes "k < n"
  shows "store (map (\<lambda>i. (16 + 8 * int i, f i)) [0..<n] @ rest) (16 + 8 * int k) c
     = map (\<lambda>i. (16 + 8 * int i, if i = k then c else f i)) [0..<n] @ store rest (16 + 8 * int k) c"
  by (simp add: store_def)

lemma offset_micro:
  "i < n \<Longrightarrow> member_offset (micro_members n c) i = 16 + 8 * int i"
  "\<not> last_of_chain c \<Longrightarrow> member_offset (micro_members n c) n = 16 + 8 * int n"
  by (simp_all add: member_offset_def micro_place nth_append)

lemma micro_ints:
  assumes "m \<le> n"
  shows "fold (\<lambda>i. set_int64 (micro_members n c) i v) [0..<m] (Obj md (place first_member (micro_members n c)))
     = Obj md (map (\<lambda>i. (16 + 8 * int i, if i < m then OVal (V64 v) else OVal Raw)) [0..<n]
         @ (if last_of_chain c then [] else [(16 + 8 * int n, OPtr None)]))"
  using assms
proof (induction m)
  case (Suc m)
  have "(if i = m then OVal (V64 v) else if i < m then OVal (V64 v) else OVal Raw)
      = (if i < Suc m then OVal (V64 v) else OVal Raw)" for i by simp
  then show ?case using Suc
    by (simp add: set_int64_def offset_micro store_upt) (simp add: store_def)
qed (simp add: micro_place)

lemma micro_Set_F1_layout:
  "chain k c \<Longrightarrow> micro_Set_F1 n k c (micro_metadata n) = layout (micro_msg n k c)"
proof (induction k arbitrary: c)
  case 0
  then show ?case
    using ints_layout [of 16 n "[]"]
    by (simp add: micro_Set_F1.simps new_object_def micro_ints [unfolded first_member_def] first_member_def)
next
  case (Suc k)
  have "store (map (\<lambda>i. (16 + 8 * int i, if i < n then OVal (V64 v) else OVal Raw)) [0..<n] @ [(16 + 8 * int n, d)])
      (16 + 8 * int n) e = map (\<lambda>i. (16 + 8 * int i, OVal (V64 v))) [0..<n] @ [(16 + 8 * int n, e)]" for v d e
    by (simp add: store_def)
  moreover have "micro_Set_F1 n k (Suc c) (micro_metadata n) = layout (micro_msg n k (Suc c))"
    using Suc by simp
  ultimately show ?case
    using Suc.prems ints_layout [of 16 n "[MSub (micro_msg n k (Suc c))]"]
    by (subst micro_Set_F1.simps)
      (simp add: new_object_def micro_ints [unfolded first_member_def] set_sub_def offset_micro first_member_def)
qed

text \<open>What the table says: every value inline, and the next class.\<close>

definition micro_signature :: "nat \<Rightarrow> signature" where
  "micro_signature n c i = (True, if i = Suc n then Some (c + 1) else None)"

lemma micro_msg_metadata: "msg_metadata (micro_msg n k c) = micro_metadata n (of_nat c)"
  by (cases k) simp_all

lemma same_kinds_ints:
  "list_all2 same_kind (map (\<lambda>i. (sw_int64_type, f i)) xs) (replicate (length xs) micro_int)"
  by (simp add: list_all2_conv_all_nth same_kind_def micro_int_def)

lemma micro_typed:
  "n \<le> 51 \<Longrightarrow> chain k c \<Longrightarrow> typed (micro_metadata n) micro_classes (micro_msg n k c)"
proof (induction k arbitrary: c)
  case 0
  then have "of_nat c \<in> set micro_classes" using chain_bounds by (auto simp: micro_classes_def)
  then show ?case
    using 0 micro_row [OF 0(1), of c] same_kinds_ints [of _ "[1..<Suc n]"]
    by (simp add: micro_fields_def micro_int_def list_all_iff del: upt_Suc)
next
  case (Suc k)
  have c: "1 \<le> c" "c < 32" using chain_bounds [OF Suc.prems(2)] by simp_all
  then have "of_nat c \<in> set micro_classes" by (auto simp: micro_classes_def)
  then show ?case
    using Suc micro_row [OF Suc.prems(1) c] same_kinds_ints [of _ "[1..<Suc n]"]
    by (simp add: micro_fields_def micro_int_def list_all_iff list_all2_append same_kind_def del: upt_Suc)
qed

lemma micro_fits: "n \<le> 51 \<Longrightarrow> chain k c \<Longrightarrow> fits True (micro_msg n k c)"
proof (induction k arbitrary: c)
  case 0
  have "fits_fields True fs (replicate m micro_int)" for fs m
    by (induction m arbitrary: fs; case_tac fs) (simp_all add: micro_int_def parsable_def packed_part_def)
  then show ?case by simp
next
  case (Suc k)
  have "fits_fields True fs (replicate m micro_int @ [MSub (micro_msg n k (Suc c))])" for fs m
    using Suc
    by (induction m arbitrary: fs; case_tac fs) (simp_all add: micro_int_def parsable_def packed_part_def)
  then show ?case by simp
qed

lemma micro_slots:
  assumes "n \<le> 44"
  shows "list_all2 (slot_ok (micro_signature n) c) (map (\<lambda>i. (sw_int64_type, of_nat i)) [1..<Suc n])
    (replicate n micro_int)"
proof -
  have "slot_ok (micro_signature n) c (sw_int64_type, of_nat i) micro_int" if "i \<le> n" for i
    using that assms
    by (simp add: slot_ok_def micro_signature_def micro_int_def unat_field_number fpga_fields_def)
  then show ?thesis by (simp add: list_all2_conv_all_nth del: upt_Suc of_nat_Suc)
qed

lemma micro_consistent:
  "n \<le> 44 \<Longrightarrow> chain k c \<Longrightarrow> consistent (micro_signature n) (micro_msg n k c)"
proof (induction k arbitrary: c)
  case 0
  have c: "1 \<le> c" "c < 32" using chain_bounds [OF 0(2)] by simp_all
  have "unat (of_nat c :: u32) = c" using c by (intro unat_of_nat_small) simp
  moreover have "micro_fields n c = map (\<lambda>i. (sw_int64_type, of_nat i)) [1..<Suc n]"
    using 0 by (simp add: micro_fields_def)
  ultimately show ?case
    using 0(1) c micro_slots [OF 0(1), of "of_nat c"] micro_row [of n c]
    by (simp add: list_all_iff micro_int_def del: upt_Suc)
next
  case (Suc k)
  have c: "1 \<le> c" "Suc c < 32" using chain_bounds [of k "Suc c"] Suc.prems by simp_all
  have "unat (of_nat c :: u32) = c" using c by (intro unat_of_nat_small) simp
  moreover have "micro_fields n c = map (\<lambda>i. (sw_int64_type, of_nat i)) [1..<Suc n] @ [(sw_ptr_type, of_nat (Suc n))]"
    using Suc.prems by (simp add: micro_fields_def del: of_nat_Suc)
  moreover have "slot_ok (micro_signature n) (of_nat c) (sw_ptr_type, of_nat (Suc n)) (MSub (micro_msg n k (Suc c)))"
    using Suc.prems(1) c micro_row(3) [of n "Suc c"] unat_field_number [of "Suc n"]
    by (simp add: slot_ok_def micro_signature_def micro_msg_metadata fpga_fields_def add.commute)
  ultimately show ?case
    using Suc c micro_slots [OF Suc.prems(1), of "of_nat c"] micro_row [of n c]
    by (simp add: list_all_iff micro_int_def list_all2_append del: upt_Suc of_nat_Suc)
qed

section \<open>The five messages\<close>

text \<open>The first class of each message and the length of its chain.\<close>

definition micro_tops :: "(nat \<times> nat) list" where
  "micro_tops = [(0, 1), (1, 2), (3, 4), (7, 8), (15, 16)]"

definition micro_messages :: "nat \<Rightarrow> msg list" where
  "micro_messages n = map (\<lambda>(k, c). micro_msg n k c) micro_tops"

lemma micro_chains: "list_all (\<lambda>(k, c). chain k c) micro_tops"
  by (simp add: micro_tops_def last_of_chain_def eval_nat_numeral)

lemma micro_message:
  assumes "idx < 5"
  obtains k c where "micro_messages n ! idx = micro_msg n k c" "chain k c" "micro_tops ! idx = (k, c)"
proof -
  have len: "length micro_tops = 5" by (simp add: micro_tops_def)
  obtain k c where kc: "micro_tops ! idx = (k, c)" by (cases "micro_tops ! idx")
  have "chain k c" using micro_chains assms kc by (force simp: list_all_length len)
  then show ?thesis using kc assms len by (intro that) (simp_all add: micro_messages_def)
qed

lemma BenchmarkInit_micro_eq:
  assumes "n \<le> 51"
  shows "BenchmarkInit_micro n idx (\<lambda>_. zero_metadata) (\<lambda>_. 0)
    = (if idx < 5 then Inr (layout (micro_messages n ! idx), micro_metadata n, micro_sizes n) else Inl Overrun)"
proof -
  have reg: "RegisterTestClass_micro n (\<lambda>_. zero_metadata) = Inr (micro_metadata n)"
    using micro_register [OF assms] by (simp add: micro_metadata_def)
  have "map (\<lambda>(k, c). micro_Set_F1 n k c (micro_metadata n)) micro_tops = map layout (micro_messages n)"
    using micro_chains micro_Set_F1_layout by (auto simp: micro_messages_def list_all_iff)
  then have "[micro_Set_F1 n 0 1 (micro_metadata n), micro_Set_F1 n 1 2 (micro_metadata n),
      micro_Set_F1 n 3 4 (micro_metadata n), micro_Set_F1 n 7 8 (micro_metadata n),
      micro_Set_F1 n 15 16 (micro_metadata n)] = map layout (micro_messages n)"
    by (simp add: micro_tops_def)
  moreover have "length (micro_messages n) = 5" by (simp add: micro_messages_def micro_tops_def)
  ultimately show ?thesis
    by (simp only: BenchmarkInit_micro_def reg andThen_Inr Let_def micro_sizes_def [symmetric] length_map nth_map
        cong: if_cong)
qed

lemma micro_received: "received True (micro_msg n k c) = micro_msg n k c"
proof (induction k arbitrary: c)
  case 0
  have "map (received_val True) (replicate n micro_int) = replicate n micro_int"
    by (simp add: micro_int_def)
  then show ?case by simp
next
  case (Suc k)
  then show ?case by (simp add: micro_int_def)
qed

section \<open>The seven headers\<close>

definition classes_1int :: "nat \<Rightarrow> gen_class" where
  "classes_1int = micro_class 1"

definition createMessage_1int :: "u32 \<Rightarrow> cells result" where
  "createMessage_1int = createMessage_micro 1"

definition getMessageSize_1int :: "u32 \<Rightarrow> u64" where
  "getMessageSize_1int = getMessageSize_micro 1"

definition RegisterTestClass_1int :: "(u32 \<Rightarrow> Metadata) \<Rightarrow> (u32 \<Rightarrow> Metadata) result" where
  "RegisterTestClass_1int = RegisterTestClass_micro 1"

definition BenchmarkInit_1int ::
  "nat \<Rightarrow> (u32 \<Rightarrow> Metadata) \<Rightarrow> (u32 \<Rightarrow> u64) \<Rightarrow> (obj \<times> (u32 \<Rightarrow> Metadata) \<times> (u32 \<Rightarrow> u64)) result" where
  "BenchmarkInit_1int = BenchmarkInit_micro 1"

definition classes_2int :: "nat \<Rightarrow> gen_class" where
  "classes_2int = micro_class 2"

definition createMessage_2int :: "u32 \<Rightarrow> cells result" where
  "createMessage_2int = createMessage_micro 2"

definition getMessageSize_2int :: "u32 \<Rightarrow> u64" where
  "getMessageSize_2int = getMessageSize_micro 2"

definition RegisterTestClass_2int :: "(u32 \<Rightarrow> Metadata) \<Rightarrow> (u32 \<Rightarrow> Metadata) result" where
  "RegisterTestClass_2int = RegisterTestClass_micro 2"

definition BenchmarkInit_2int ::
  "nat \<Rightarrow> (u32 \<Rightarrow> Metadata) \<Rightarrow> (u32 \<Rightarrow> u64) \<Rightarrow> (obj \<times> (u32 \<Rightarrow> Metadata) \<times> (u32 \<Rightarrow> u64)) result" where
  "BenchmarkInit_2int = BenchmarkInit_micro 2"

definition classes_4int :: "nat \<Rightarrow> gen_class" where
  "classes_4int = micro_class 4"

definition createMessage_4int :: "u32 \<Rightarrow> cells result" where
  "createMessage_4int = createMessage_micro 4"

definition getMessageSize_4int :: "u32 \<Rightarrow> u64" where
  "getMessageSize_4int = getMessageSize_micro 4"

definition RegisterTestClass_4int :: "(u32 \<Rightarrow> Metadata) \<Rightarrow> (u32 \<Rightarrow> Metadata) result" where
  "RegisterTestClass_4int = RegisterTestClass_micro 4"

definition BenchmarkInit_4int ::
  "nat \<Rightarrow> (u32 \<Rightarrow> Metadata) \<Rightarrow> (u32 \<Rightarrow> u64) \<Rightarrow> (obj \<times> (u32 \<Rightarrow> Metadata) \<times> (u32 \<Rightarrow> u64)) result" where
  "BenchmarkInit_4int = BenchmarkInit_micro 4"

definition classes_8int :: "nat \<Rightarrow> gen_class" where
  "classes_8int = micro_class 8"

definition createMessage_8int :: "u32 \<Rightarrow> cells result" where
  "createMessage_8int = createMessage_micro 8"

definition getMessageSize_8int :: "u32 \<Rightarrow> u64" where
  "getMessageSize_8int = getMessageSize_micro 8"

definition RegisterTestClass_8int :: "(u32 \<Rightarrow> Metadata) \<Rightarrow> (u32 \<Rightarrow> Metadata) result" where
  "RegisterTestClass_8int = RegisterTestClass_micro 8"

definition BenchmarkInit_8int ::
  "nat \<Rightarrow> (u32 \<Rightarrow> Metadata) \<Rightarrow> (u32 \<Rightarrow> u64) \<Rightarrow> (obj \<times> (u32 \<Rightarrow> Metadata) \<times> (u32 \<Rightarrow> u64)) result" where
  "BenchmarkInit_8int = BenchmarkInit_micro 8"

definition classes_16int :: "nat \<Rightarrow> gen_class" where
  "classes_16int = micro_class 16"

definition createMessage_16int :: "u32 \<Rightarrow> cells result" where
  "createMessage_16int = createMessage_micro 16"

definition getMessageSize_16int :: "u32 \<Rightarrow> u64" where
  "getMessageSize_16int = getMessageSize_micro 16"

definition RegisterTestClass_16int :: "(u32 \<Rightarrow> Metadata) \<Rightarrow> (u32 \<Rightarrow> Metadata) result" where
  "RegisterTestClass_16int = RegisterTestClass_micro 16"

definition BenchmarkInit_16int ::
  "nat \<Rightarrow> (u32 \<Rightarrow> Metadata) \<Rightarrow> (u32 \<Rightarrow> u64) \<Rightarrow> (obj \<times> (u32 \<Rightarrow> Metadata) \<times> (u32 \<Rightarrow> u64)) result" where
  "BenchmarkInit_16int = BenchmarkInit_micro 16"

definition classes_32int :: "nat \<Rightarrow> gen_class" where
  "classes_32int = micro_class 32"

definition createMessage_32int :: "u32 \<Rightarrow> cells result" where
  "createMessage_32int = createMessage_micro 32"

definition getMessageSize_32int :: "u32 \<Rightarrow> u64" where
  "getMessageSize_32int = getMessageSize_micro 32"

definition RegisterTestClass_32int :: "(u32 \<Rightarrow> Metadata) \<Rightarrow> (u32 \<Rightarrow> Metadata) result" where
  "RegisterTestClass_32int = RegisterTestClass_micro 32"

definition BenchmarkInit_32int ::
  "nat \<Rightarrow> (u32 \<Rightarrow> Metadata) \<Rightarrow> (u32 \<Rightarrow> u64) \<Rightarrow> (obj \<times> (u32 \<Rightarrow> Metadata) \<times> (u32 \<Rightarrow> u64)) result" where
  "BenchmarkInit_32int = BenchmarkInit_micro 32"

definition classes_64int :: "nat \<Rightarrow> gen_class" where
  "classes_64int = micro_class 64"

definition createMessage_64int :: "u32 \<Rightarrow> cells result" where
  "createMessage_64int = createMessage_micro 64"

definition getMessageSize_64int :: "u32 \<Rightarrow> u64" where
  "getMessageSize_64int = getMessageSize_micro 64"

definition RegisterTestClass_64int :: "(u32 \<Rightarrow> Metadata) \<Rightarrow> (u32 \<Rightarrow> Metadata) result" where
  "RegisterTestClass_64int = RegisterTestClass_micro 64"

definition BenchmarkInit_64int ::
  "nat \<Rightarrow> (u32 \<Rightarrow> Metadata) \<Rightarrow> (u32 \<Rightarrow> u64) \<Rightarrow> (obj \<times> (u32 \<Rightarrow> Metadata) \<times> (u32 \<Rightarrow> u64)) result" where
  "BenchmarkInit_64int = BenchmarkInit_micro 64"

text \<open>Those that fit: the number of integers, the start of the benchmark, and the constructor.\<close>

definition micro_files ::
  "(nat \<times> (nat \<Rightarrow> (u32 \<Rightarrow> Metadata) \<Rightarrow> (u32 \<Rightarrow> u64) \<Rightarrow> (obj \<times> (u32 \<Rightarrow> Metadata) \<times> (u32 \<Rightarrow> u64)) result)
     \<times> (u32 \<Rightarrow> cells result)) list" where
  "micro_files = [(1, BenchmarkInit_1int, createMessage_1int), (2, BenchmarkInit_2int, createMessage_2int),
     (4, BenchmarkInit_4int, createMessage_4int), (8, BenchmarkInit_8int, createMessage_8int),
     (16, BenchmarkInit_16int, createMessage_16int), (32, BenchmarkInit_32int, createMessage_32int)]"

lemma micro_files_eq:
  "(n, start, create) \<in> set micro_files \<Longrightarrow>
     n \<le> 32 \<and> start = BenchmarkInit_micro n \<and> create = createMessage_micro n"
  unfolding micro_files_def BenchmarkInit_1int_def BenchmarkInit_2int_def BenchmarkInit_4int_def
    BenchmarkInit_8int_def BenchmarkInit_16int_def BenchmarkInit_32int_def createMessage_1int_def
    createMessage_2int_def createMessage_4int_def createMessage_8int_def createMessage_16int_def
    createMessage_32int_def
  by auto

section \<open>Properties\<close>

text \<open>C24. For the microbenchmarks with 1 to 32 integers and each of their five messages, chains of up to 16
  nested objects: \<open>BenchmarkInit\<close> succeeds, the metadata walk and the serializer run on the message, and
  the parser rebuilds it from the bytes, the table and the registered classes alone.\<close>

theorem micro_roundtrip:
  assumes "(n, start, create) \<in> set micro_files" and "idx < 5" and "rows_ok st"
  shows "\<exists>obj mdv msv st' out. start idx (\<lambda>_. zero_metadata) (\<lambda>_. 0) = Inr (obj, mdv, msv)
    \<and> SendMetadataToFPGA obj msv st = Inr st'
    \<and> SerializeToString obj True 0 msv = Inr (out, of_nat (length out), of_nat (length out))
    \<and> ParseFromString (depth (micro_messages n ! idx)) out (blank_of create zero_metadata (class_id (obj_metadata obj)))
        (ucast (class_id (obj_metadata obj)))
        \<lparr>metadataVec = mdv, messageSizeVec = msv, FPGA_metadataVec = table st', createMessage = create\<rparr>
      = Inr obj"
proof -
  have n: "n \<le> 32" "start = BenchmarkInit_micro n" "create = createMessage_micro n"
    using micro_files_eq [OF assms(1)] by simp_all
  obtain k c where m: "micro_messages n ! idx = micro_msg n k c" "chain k c"
    using micro_message [OF assms(2)] by blast
  have "class_registry (micro_metadata n) (micro_sizes n) create micro_classes"
    using micro_registry n by simp
  note class_registry.send_and_parse [OF this, of "micro_msg n k c" "micro_signature n" st 0 zero_metadata]
  then have "\<exists>st' out. SendMetadataToFPGA (layout (micro_msg n k c)) (micro_sizes n) st = Inr st'
    \<and> SerializeToString (layout (micro_msg n k c)) True 0 (micro_sizes n)
        = Inr (out, of_nat (length out), of_nat (length out))
    \<and> ParseFromString (depth (micro_msg n k c)) out
        (blank_of create zero_metadata (class_id (msg_metadata (micro_msg n k c))))
        (ucast (class_id (msg_metadata (micro_msg n k c))))
        \<lparr>metadataVec = micro_metadata n, messageSizeVec = micro_sizes n, FPGA_metadataVec = table st',
          createMessage = create\<rparr> = Inr (layout (micro_msg n k c))"
    using n m(2) assms(3) micro_typed micro_consistent micro_fits by (simp add: micro_received)
  moreover have "obj_metadata (layout (micro_msg n k c)) = msg_metadata (micro_msg n k c)" by (cases k) simp_all
  moreover have "start idx (\<lambda>_. zero_metadata) (\<lambda>_. 0)
      = Inr (layout (micro_msg n k c), micro_metadata n, micro_sizes n)"
    using BenchmarkInit_micro_eq [of n idx] n m(1) assms(2) by simp
  ultimately show ?thesis by (simp add: m(1))
qed

theorem micro_roundtrip_witness:
  "\<exists>obj mdv msv st' out. BenchmarkInit_8int 4 (\<lambda>_. zero_metadata) (\<lambda>_. 0) = Inr (obj, mdv, msv)
    \<and> SendMetadataToFPGA obj msv fresh_state = Inr st'
    \<and> SerializeToString obj True 0 msv = Inr (out, of_nat (length out), of_nat (length out))
    \<and> ParseFromString (depth (micro_messages 8 ! 4)) out (blank_of createMessage_8int zero_metadata (class_id (obj_metadata obj)))
        (ucast (class_id (obj_metadata obj)))
        \<lparr>metadataVec = mdv, messageSizeVec = msv, FPGA_metadataVec = table st', createMessage = createMessage_8int\<rparr>
      = Inr obj"
  by (rule micro_roundtrip [OF _ _ fresh_rows_ok]) (simp_all add: micro_files_def)

text \<open>The microbenchmark with 64 integers does not start: its classes have 64 or 65 fields, and
  registering them assigns past the 52 elements of \<open>wire_type\<close>.\<close>

theorem micro_64_overruns:
  "RegisterTestClass_64int mdv = Inl Overrun \<and> BenchmarkInit_64int idx mdv msv = Inl Overrun"
  by (simp add: RegisterTestClass_64int_def BenchmarkInit_64int_def BenchmarkInit_micro_def micro_register_overrun)

end
