(* ===== verification/Hyperproto_Classes.thy ===== *)
theory Hyperproto_Classes
  imports Accessors
begin

text \<open>
  The classes of the HyperProtoBench benchmarks 0, 1, 3 and 4 (\<open>include/bench_header/bench<n>_testclass.h\<close>).
  A class is generated from the types of its members \<open>f1\<close>, \<open>f2\<close>, and so on.  Class \<open>M<c>\<close> has number \<open>c\<close>, in
  \<open>createMessage\<close> and \<open>getMessageSize\<close> too; the tables give the members of each number.
\<close>

section \<open>Benchmark 0\<close>

definition M1_bench0 :: gen_class where
  "M1_bench0 = generated_class
     [Ptr 2, Enum, Int64, Int32, Int64, Ptr 3, Int64, Int64, Int32, Bool, Int64, Enum, Ptr 4, UInt64,
      Double, Ptr 7, Ptr 8]"

definition M2_bench0 :: gen_class where
  "M2_bench0 = generated_class
     [Int64, String, Int64, Int64, String, String, String, Int64, String, Int64]"

definition M3_bench0 :: gen_class where
  "M3_bench0 = generated_class [Int64]"

definition M4_bench0 :: gen_class where
  "M4_bench0 = generated_class [Ptr 5, Ptr 6, Int64]"

definition M5_bench0 :: gen_class where
  "M5_bench0 = generated_class [Int64]"

definition M6_bench0 :: gen_class where
  "M6_bench0 = generated_class [Int64]"

definition M7_bench0 :: gen_class where
  "M7_bench0 = generated_class [String, String, Bool, Bool]"

definition M8_bench0 :: gen_class where
  "M8_bench0 = generated_class [String, Ptr 9, Bool, UInt64]"

definition M9_bench0 :: gen_class where
  "M9_bench0 = generated_class [Int64, Bool, VecString, String]"

definition M10_bench0 :: gen_class where
  "M10_bench0 = generated_class
     [Int32, Ptr 11, Ptr 13, Int64, Ptr 14, String, UInt64, Int64, Int32, Int64]"

definition M11_bench0 :: gen_class where
  "M11_bench0 = generated_class [Ptr 12, String]"

definition M12_bench0 :: gen_class where
  "M12_bench0 = generated_class [Int32, Int32]"

definition M13_bench0 :: gen_class where
  "M13_bench0 = generated_class [String, Int64, Int32, Int32, Bool]"

definition M14_bench0 :: gen_class where
  "M14_bench0 = generated_class [Int64, Double, Bool, Int64]"

definition M15_bench0 :: gen_class where
  "M15_bench0 = generated_class
     [String, Int32, String, Bool, String, Int64, Bool, String, Ptr 16, Ptr 17, String, Ptr 20, Bool]"

definition M16_bench0 :: gen_class where
  "M16_bench0 = generated_class [Int32, String, VecString, String, Int64, String, Int64]"

definition M17_bench0 :: gen_class where
  "M17_bench0 = generated_class [Ptr 18, Ptr 19, Int64]"

definition M18_bench0 :: gen_class where
  "M18_bench0 = generated_class [String]"

definition M19_bench0 :: gen_class where
  "M19_bench0 = generated_class [Int64]"

definition M20_bench0 :: gen_class where
  "M20_bench0 = generated_class [Int64, Int64]"

definition M21_bench0 :: gen_class where
  "M21_bench0 = generated_class
     [Int64, Int64, Int64, String, Ptr 22, Int64, Ptr 23, String, Enum, Int64, Int64, Int32, VecString,
      String]"

definition M22_bench0 :: gen_class where
  "M22_bench0 = generated_class
     [Int64, Int64, Int32, Int64, Int64, Int32, Int64, VecString, String, String, Int64, String]"

definition M23_bench0 :: gen_class where
  "M23_bench0 = generated_class [Int64, Ptr 24]"

definition M24_bench0 :: gen_class where
  "M24_bench0 = generated_class
     [String, String, Bool, String, String, UInt64, Int64, Int64, String, Int64, Int64, UInt64]"

definition M25_bench0 :: gen_class where
  "M25_bench0 = generated_class
     [Int32, Int64, Int64, Double, String, Ptr 26, Bool, String, String, String, Bool, Ptr 28, Enum]"

definition M26_bench0 :: gen_class where
  "M26_bench0 = generated_class [Int64, Enum, Ptr 27]"

definition M27_bench0 :: gen_class where
  "M27_bench0 = generated_class [String]"

definition M28_bench0 :: gen_class where
  "M28_bench0 = generated_class
     [String, Ptr 29, Int64, Int64, Int64, String, Enum, Int32, String, Bool]"

definition M29_bench0 :: gen_class where
  "M29_bench0 = generated_class [Int64, Int64, Int64, Bool, Bool, Int64, Int64, Bool]"

definition M30_bench0 :: gen_class where
  "M30_bench0 = generated_class
     [Ptr 31, Ptr 32, Ptr 34, Bool, Int64, Bool, VecString, Int64, String, Int64, Int64, String, String,
      Ptr 35]"

definition M31_bench0 :: gen_class where
  "M31_bench0 = generated_class [Int64]"

definition M32_bench0 :: gen_class where
  "M32_bench0 = generated_class [Ptr 33, UInt64]"

definition M33_bench0 :: gen_class where
  "M33_bench0 = generated_class [Int64, Int64, Int64, Int32, String]"

definition M34_bench0 :: gen_class where
  "M34_bench0 = generated_class [Int64]"

definition M35_bench0 :: gen_class where
  "M35_bench0 = generated_class
     [String, String, Int32, VecString, String, String, String, String, String]"

definition M36_bench0 :: gen_class where
  "M36_bench0 = generated_class
     [Int64, Ptr 37, String, Int32, Int64, Bool, Int64, Ptr 40, Double, Bool, Double, Int64, Ptr 41,
      Int64, UInt64]"

definition M37_bench0 :: gen_class where
  "M37_bench0 = generated_class [Int64, Ptr 38, Ptr 39]"

definition M38_bench0 :: gen_class where
  "M38_bench0 = generated_class [Bool, Int64]"

definition M39_bench0 :: gen_class where
  "M39_bench0 = generated_class [Double, Int64, String, Int64]"

definition M40_bench0 :: gen_class where
  "M40_bench0 = generated_class [Int64, String, String, Int32, UInt32, Enum, Int64, Int64]"

definition M41_bench0 :: gen_class where
  "M41_bench0 = generated_class [Int64, String, Int64, String, Bool, Int32, String]"

definition M42_bench0 :: gen_class where
  "M42_bench0 = generated_class
     [String, String, UInt64, Int64, Int64, Int64, Ptr 43, Int64, Ptr 44, Ptr 45, Double, Bool, String,
      Ptr 47, Int64, String]"

definition M43_bench0 :: gen_class where
  "M43_bench0 = generated_class
     [String, String, Int64, VecString, Int64, Int64, Int64, String, Int64, Int64, String]"

definition M44_bench0 :: gen_class where
  "M44_bench0 = generated_class [Int64, Enum, Int64, Int64, String, Int32, Int32, Int64, String]"

definition M45_bench0 :: gen_class where
  "M45_bench0 = generated_class [Int32, Ptr 46]"

definition M46_bench0 :: gen_class where
  "M46_bench0 = generated_class [Int32, Int64, Int64]"

definition M47_bench0 :: gen_class where
  "M47_bench0 = generated_class [Int64]"

definition M48_bench0 :: gen_class where
  "M48_bench0 = generated_class [String, Double, Int64, String, Ptr 49, Ptr 50, String, Int64]"

definition M49_bench0 :: gen_class where
  "M49_bench0 = generated_class [Int64]"

definition M50_bench0 :: gen_class where
  "M50_bench0 = generated_class [String, Int64, Ptr 51, Int64, VecString, Int64]"

definition M51_bench0 :: gen_class where
  "M51_bench0 = generated_class [String]"

definition M52_bench0 :: gen_class where
  "M52_bench0 = generated_class
     [Int64, String, Int64, Int32, Int64, Int64, UInt64, Ptr 53, Ptr 54, String, Int64, Ptr 55, Ptr 56]"

definition M53_bench0 :: gen_class where
  "M53_bench0 = generated_class [UInt64]"

definition M54_bench0 :: gen_class where
  "M54_bench0 = generated_class [Int64, UInt64, Int64, Int64, Int64, String]"

definition M55_bench0 :: gen_class where
  "M55_bench0 = generated_class [Int64]"

definition M56_bench0 :: gen_class where
  "M56_bench0 = generated_class [Ptr 57, Int32]"

definition M57_bench0 :: gen_class where
  "M57_bench0 = generated_class [Int64, Int32, String, Int64, Int64]"

definition bench0_members :: "(nat \<times> member list) list" where
  "bench0_members = map (\<lambda>(c, C). (c, private_members C))
     [(1, M1_bench0), (2, M2_bench0), (3, M3_bench0), (4, M4_bench0), (5, M5_bench0), (6, M6_bench0),
      (7, M7_bench0), (8, M8_bench0), (9, M9_bench0), (10, M10_bench0), (11, M11_bench0),
      (12, M12_bench0), (13, M13_bench0), (14, M14_bench0), (15, M15_bench0), (16, M16_bench0),
      (17, M17_bench0), (18, M18_bench0), (19, M19_bench0), (20, M20_bench0), (21, M21_bench0),
      (22, M22_bench0), (23, M23_bench0), (24, M24_bench0), (25, M25_bench0), (26, M26_bench0),
      (27, M27_bench0), (28, M28_bench0), (29, M29_bench0), (30, M30_bench0), (31, M31_bench0),
      (32, M32_bench0), (33, M33_bench0), (34, M34_bench0), (35, M35_bench0), (36, M36_bench0),
      (37, M37_bench0), (38, M38_bench0), (39, M39_bench0), (40, M40_bench0), (41, M41_bench0),
      (42, M42_bench0), (43, M43_bench0), (44, M44_bench0), (45, M45_bench0), (46, M46_bench0),
      (47, M47_bench0), (48, M48_bench0), (49, M49_bench0), (50, M50_bench0), (51, M51_bench0),
      (52, M52_bench0), (53, M53_bench0), (54, M54_bench0), (55, M55_bench0), (56, M56_bench0),
      (57, M57_bench0)]"

section \<open>Benchmark 1\<close>

definition M1_bench1 :: gen_class where
  "M1_bench1 = generated_class
     [String, Ptr 2, String, Float, Float, UInt32, Int64, Int32, Int64, Bool, Int64]"

definition M2_bench1 :: gen_class where
  "M2_bench1 = generated_class [String, String, String]"

definition M3_bench1 :: gen_class where
  "M3_bench1 = generated_class
     [UInt32, Int32, String, Float, Float, String, String, Enum, Ptr 4, Float, String]"

definition M4_bench1 :: gen_class where
  "M4_bench1 = generated_class [Float, Int32]"

definition M5_bench1 :: gen_class where
  "M5_bench1 = generated_class
     [Int64, Int32, Float, Int32, Bool, Int64, Int32, Int64, Int64, Float, Bool, Ptr 6, Int32, Ptr 7]"

definition M6_bench1 :: gen_class where
  "M6_bench1 = generated_class [Int32]"

definition M7_bench1 :: gen_class where
  "M7_bench1 = generated_class [Ptr 8, String]"

definition M8_bench1 :: gen_class where
  "M8_bench1 = generated_class [Bool]"

definition M9_bench1 :: gen_class where
  "M9_bench1 = generated_class
     [VecUInt32, Ptr 10, String, Float, Ptr 12, Int32, String, Int32, Float, Bool, Float, Int64, Float,
      Int64]"

definition M10_bench1 :: gen_class where
  "M10_bench1 = generated_class [Ptr 11, UInt64]"

definition M11_bench1 :: gen_class where
  "M11_bench1 = generated_class [Int32, Float, Float, Int32, Int32, Float, Bool]"

definition M12_bench1 :: gen_class where
  "M12_bench1 = generated_class [VecInt32, VecInt32, String, Int32, Float, Int32, Bool]"

definition M13_bench1 :: gen_class where
  "M13_bench1 = generated_class [Float, Ptr 14, Int32, String, String, String, Bool, Int64, Int32]"

definition M14_bench1 :: gen_class where
  "M14_bench1 = generated_class [Int32]"

definition M15_bench1 :: gen_class where
  "M15_bench1 = generated_class [Int32, Ptr 16, Int32, Int32, UInt32]"

definition M16_bench1 :: gen_class where
  "M16_bench1 = generated_class [Int32]"

definition M17_bench1 :: gen_class where
  "M17_bench1 = generated_class [UInt64, Float, Enum, VecString, String, Bool, String, Ptr 18]"

definition M18_bench1 :: gen_class where
  "M18_bench1 = generated_class [Int32, Int32, Int32, Int32, Enum]"

definition M19_bench1 :: gen_class where
  "M19_bench1 = generated_class
     [Int32, Bool, String, Bool, Int32, Ptr 20, Int32, UInt64, Int64, Ptr 21, Float, Float, String,
      Int32]"

definition M20_bench1 :: gen_class where
  "M20_bench1 = generated_class [String]"

definition M21_bench1 :: gen_class where
  "M21_bench1 = generated_class [Ptr 22, Int64, String]"

definition M22_bench1 :: gen_class where
  "M22_bench1 = generated_class [String, Int32, Int64, Int32, UInt32, Bool, String, Int64]"

definition M23_bench1 :: gen_class where
  "M23_bench1 = generated_class
     [Ptr 24, Double, String, Bool, Int64, String, Int32, Int32, Float, Int32]"

definition M24_bench1 :: gen_class where
  "M24_bench1 = generated_class [Float, UInt64, UInt64, Int32, Float]"

definition M25_bench1 :: gen_class where
  "M25_bench1 = generated_class
     [Int32, Int32, String, Int32, Int32, Int32, String, Int32, Int32, Double, Bool, Ptr 26]"

definition M26_bench1 :: gen_class where
  "M26_bench1 = generated_class [Int32, Float]"

definition bench1_members :: "(nat \<times> member list) list" where
  "bench1_members = map (\<lambda>(c, C). (c, private_members C))
     [(1, M1_bench1), (2, M2_bench1), (3, M3_bench1), (4, M4_bench1), (5, M5_bench1), (6, M6_bench1),
      (7, M7_bench1), (8, M8_bench1), (9, M9_bench1), (10, M10_bench1), (11, M11_bench1),
      (12, M12_bench1), (13, M13_bench1), (14, M14_bench1), (15, M15_bench1), (16, M16_bench1),
      (17, M17_bench1), (18, M18_bench1), (19, M19_bench1), (20, M20_bench1), (21, M21_bench1),
      (22, M22_bench1), (23, M23_bench1), (24, M24_bench1), (25, M25_bench1), (26, M26_bench1)]"

section \<open>Benchmark 3\<close>

definition M1_bench3 :: gen_class where
  "M1_bench3 = generated_class
     [String, Bool, String, Bool, String, Int32, Ptr 2, Int32, Enum, String, Int64, String]"

definition M2_bench3 :: gen_class where
  "M2_bench3 = generated_class [Int32, String, Int64, String, String, String, String]"

definition M3_bench3 :: gen_class where
  "M3_bench3 = generated_class
     [Int64, Bool, Enum, String, String, Ptr 4, String, Enum, Int32, Int32, Ptr 5, Int64, Int64, Ptr 6]"

definition M4_bench3 :: gen_class where
  "M4_bench3 = generated_class [Int32, UInt64]"

definition M5_bench3 :: gen_class where
  "M5_bench3 = generated_class [VecInt32, Int32]"

definition M6_bench3 :: gen_class where
  "M6_bench3 = generated_class [Bool, Bool, Int64, Int32, UInt64]"

definition M7_bench3 :: gen_class where
  "M7_bench3 = generated_class [String, Int32, Ptr 8]"

definition M8_bench3 :: gen_class where
  "M8_bench3 = generated_class [Int64, Bool]"

definition M9_bench3 :: gen_class where
  "M9_bench3 = generated_class [Int32, String, VecInt32, Ptr 10, Int32, Int64]"

definition M10_bench3 :: gen_class where
  "M10_bench3 = generated_class [Bool, Int32, Int32]"

definition M11_bench3 :: gen_class where
  "M11_bench3 = generated_class
     [Int32, Int64, String, String, Enum, String, Enum, Int32, Int32, Ptr 12, UInt64, Ptr 13]"

definition M12_bench3 :: gen_class where
  "M12_bench3 = generated_class [Int32, Bool, Enum]"

definition M13_bench3 :: gen_class where
  "M13_bench3 = generated_class [UInt64, UInt64, String]"

definition M14_bench3 :: gen_class where
  "M14_bench3 = generated_class [Ptr 15, VecInt32, Ptr 16, String, Int64]"

definition M15_bench3 :: gen_class where
  "M15_bench3 = generated_class [VecUInt64]"

definition M16_bench3 :: gen_class where
  "M16_bench3 = generated_class [Int32, Double]"

definition M17_bench3 :: gen_class where
  "M17_bench3 = generated_class
     [Ptr 18, VecInt32, Int64, Double, String, Int64, String, VecInt32, Int64, String, Int32, String]"

definition M18_bench3 :: gen_class where
  "M18_bench3 = generated_class [String, Int64, Int32, String, Int64, Int32, Int32]"

definition M19_bench3 :: gen_class where
  "M19_bench3 = generated_class [Int32, Ptr 20, Int64, Int64, UInt64, Int64, String, Ptr 21]"

definition M20_bench3 :: gen_class where
  "M20_bench3 = generated_class [Int64, Int64]"

definition M21_bench3 :: gen_class where
  "M21_bench3 = generated_class [Int32, Bool]"

definition M22_bench3 :: gen_class where
  "M22_bench3 = generated_class
     [Int32, String, Int64, Ptr 23, String, UInt64, Ptr 24, Ptr 25, Int32, Int32]"

definition M23_bench3 :: gen_class where
  "M23_bench3 = generated_class [Int32, Bool, UInt64]"

definition M24_bench3 :: gen_class where
  "M24_bench3 = generated_class [Int64]"

definition M25_bench3 :: gen_class where
  "M25_bench3 = generated_class [Int32]"

definition M26_bench3 :: gen_class where
  "M26_bench3 = generated_class
     [Int32, Double, Int32, Int64, Ptr 27, String, Ptr 28, Bool, Ptr 29, Int32, Int64, Double, Ptr 30,
      VecInt32]"

definition M27_bench3 :: gen_class where
  "M27_bench3 = generated_class [Int64, Int32]"

definition M28_bench3 :: gen_class where
  "M28_bench3 = generated_class [Int64]"

definition M29_bench3 :: gen_class where
  "M29_bench3 = generated_class [Int64, Int32]"

definition M30_bench3 :: gen_class where
  "M30_bench3 = generated_class [Int64]"

definition bench3_members :: "(nat \<times> member list) list" where
  "bench3_members = map (\<lambda>(c, C). (c, private_members C))
     [(1, M1_bench3), (2, M2_bench3), (3, M3_bench3), (4, M4_bench3), (5, M5_bench3), (6, M6_bench3),
      (7, M7_bench3), (8, M8_bench3), (9, M9_bench3), (10, M10_bench3), (11, M11_bench3),
      (12, M12_bench3), (13, M13_bench3), (14, M14_bench3), (15, M15_bench3), (16, M16_bench3),
      (17, M17_bench3), (18, M18_bench3), (19, M19_bench3), (20, M20_bench3), (21, M21_bench3),
      (22, M22_bench3), (23, M23_bench3), (24, M24_bench3), (25, M25_bench3), (26, M26_bench3),
      (27, M27_bench3), (28, M28_bench3), (29, M29_bench3), (30, M30_bench3)]"

section \<open>Benchmark 4\<close>

definition M1_bench4 :: gen_class where
  "M1_bench4 = generated_class
     [String, String, Int32, Int32, Ptr 2, Int32, Int32, String, Int32, Ptr 5, String]"

definition M2_bench4 :: gen_class where
  "M2_bench4 = generated_class [Enum, Int32, Int32, Double, String, Int64, Ptr 3, String]"

definition M3_bench4 :: gen_class where
  "M3_bench4 = generated_class [Ptr 4, Int64, Bool, Int32, Enum, Bool, Bool, Bool, Bool]"

definition M4_bench4 :: gen_class where
  "M4_bench4 = generated_class [String, String, UInt64, Int64, String]"

definition M5_bench4 :: gen_class where
  "M5_bench4 = generated_class [String]"

definition M6_bench4 :: gen_class where
  "M6_bench4 = generated_class
     [Bool, Int32, Bool, Int64, String, UInt64, UInt64, String, Ptr 7, Int64, Int32]"

definition M7_bench4 :: gen_class where
  "M7_bench4 = generated_class [Ptr 8, Int32, Double, Int64, UInt64, Enum, Bool, Ptr 10]"

definition M8_bench4 :: gen_class where
  "M8_bench4 = generated_class [String, Ptr 9]"

definition M9_bench4 :: gen_class where
  "M9_bench4 = generated_class [String, String]"

definition M10_bench4 :: gen_class where
  "M10_bench4 = generated_class [Int64, String, Int64]"

definition M11_bench4 :: gen_class where
  "M11_bench4 = generated_class
     [Ptr 12, String, String, Ptr 16, Int32, Int32, String, Int64, Bool, Bool, Int32, Int64, Int64]"

definition M12_bench4 :: gen_class where
  "M12_bench4 = generated_class [String, String, Int32, Ptr 13, Ptr 15]"

definition M13_bench4 :: gen_class where
  "M13_bench4 = generated_class [Bool, Ptr 14]"

definition M14_bench4 :: gen_class where
  "M14_bench4 = generated_class [Int64, Bool, Int64, Int32, Enum]"

definition M15_bench4 :: gen_class where
  "M15_bench4 = generated_class [String, String, Int64]"

definition M16_bench4 :: gen_class where
  "M16_bench4 = generated_class [Bool]"

definition M17_bench4 :: gen_class where
  "M17_bench4 = generated_class [Ptr 18, String, Int64, String, Int64]"

definition M18_bench4 :: gen_class where
  "M18_bench4 = generated_class [Double, Ptr 19, String]"

definition M19_bench4 :: gen_class where
  "M19_bench4 = generated_class [Int32, Ptr 20, String, Int32]"

definition M20_bench4 :: gen_class where
  "M20_bench4 = generated_class [UInt64]"

definition M21_bench4 :: gen_class where
  "M21_bench4 = generated_class [Int64, UInt64, String, Ptr 22, Bool, String, UInt64]"

definition M22_bench4 :: gen_class where
  "M22_bench4 = generated_class [Bool, Ptr 23, UInt64, Double]"

definition M23_bench4 :: gen_class where
  "M23_bench4 = generated_class [Int32, Ptr 24, Int32, Bool, String, Int32]"

definition M24_bench4 :: gen_class where
  "M24_bench4 = generated_class [Int32, Int32, Int64, Int32]"

definition M25_bench4 :: gen_class where
  "M25_bench4 = generated_class [String, Ptr 26, Int64, UInt64, Ptr 29, Int32, Int32, UInt64, Double]"

definition M26_bench4 :: gen_class where
  "M26_bench4 = generated_class [String, Ptr 27]"

definition M27_bench4 :: gen_class where
  "M27_bench4 = generated_class [Int64, String, Int32, Enum, Ptr 28]"

definition M28_bench4 :: gen_class where
  "M28_bench4 = generated_class [String, String, Bool]"

definition M29_bench4 :: gen_class where
  "M29_bench4 = generated_class [String]"

definition M30_bench4 :: gen_class where
  "M30_bench4 = generated_class
     [Int32, String, Bool, String, Int64, String, String, Int32, String, String, Ptr 31, Int64]"

definition M31_bench4 :: gen_class where
  "M31_bench4 = generated_class [String, Int32, Double, String, Ptr 32, Bool, Int64, Int32, Int32]"

definition M32_bench4 :: gen_class where
  "M32_bench4 = generated_class [UInt64, Ptr 33, Enum, Int64, Bool, Int64, Ptr 34, Int32]"

definition M33_bench4 :: gen_class where
  "M33_bench4 = generated_class [Int32, String, String, String]"

definition M34_bench4 :: gen_class where
  "M34_bench4 = generated_class [Int64]"

definition M35_bench4 :: gen_class where
  "M35_bench4 = generated_class [String, Int32, Int32, Ptr 36, Double]"

definition M36_bench4 :: gen_class where
  "M36_bench4 = generated_class [String, Int32, Ptr 37]"

definition M37_bench4 :: gen_class where
  "M37_bench4 = generated_class [Bool, Int32, Ptr 38]"

definition M38_bench4 :: gen_class where
  "M38_bench4 = generated_class [String, UInt64]"

definition M39_bench4 :: gen_class where
  "M39_bench4 = generated_class
     [Int64, String, Bool, Enum, Int64, String, String, String, Ptr 40, Double]"

definition M40_bench4 :: gen_class where
  "M40_bench4 = generated_class [Ptr 41, Int32, Bool]"

definition M41_bench4 :: gen_class where
  "M41_bench4 = generated_class [Int32, Int64, Int32, Bool, String, String, Ptr 42, Bool, Int32]"

definition M42_bench4 :: gen_class where
  "M42_bench4 = generated_class [Int32, Bool, Int32]"

definition M43_bench4 :: gen_class where
  "M43_bench4 = generated_class [String, Double, Enum, Ptr 44, Int64]"

definition M44_bench4 :: gen_class where
  "M44_bench4 = generated_class [Int32, Int32, String, Ptr 45]"

definition M45_bench4 :: gen_class where
  "M45_bench4 = generated_class [Bool, Ptr 46]"

definition M46_bench4 :: gen_class where
  "M46_bench4 = generated_class [Bool, String, Int32]"

definition bench4_members :: "(nat \<times> member list) list" where
  "bench4_members = map (\<lambda>(c, C). (c, private_members C))
     [(1, M1_bench4), (2, M2_bench4), (3, M3_bench4), (4, M4_bench4), (5, M5_bench4), (6, M6_bench4),
      (7, M7_bench4), (8, M8_bench4), (9, M9_bench4), (10, M10_bench4), (11, M11_bench4),
      (12, M12_bench4), (13, M13_bench4), (14, M14_bench4), (15, M15_bench4), (16, M16_bench4),
      (17, M17_bench4), (18, M18_bench4), (19, M19_bench4), (20, M20_bench4), (21, M21_bench4),
      (22, M22_bench4), (23, M23_bench4), (24, M24_bench4), (25, M25_bench4), (26, M26_bench4),
      (27, M27_bench4), (28, M28_bench4), (29, M29_bench4), (30, M30_bench4), (31, M31_bench4),
      (32, M32_bench4), (33, M33_bench4), (34, M34_bench4), (35, M35_bench4), (36, M36_bench4),
      (37, M37_bench4), (38, M38_bench4), (39, M39_bench4), (40, M40_bench4), (41, M41_bench4),
      (42, M42_bench4), (43, M43_bench4), (44, M44_bench4), (45, M45_bench4), (46, M46_bench4)]"

end
