(* ===== verification/Hyperproto.thy ===== *)
theory Hyperproto
  imports Hyperproto_Classes
begin

text \<open>
  The registration of the HyperProtoBench benchmarks 0, 1, 3 and 4
  (\<open>include/bench_header/bench<n>_target.inc\<close>): for each benchmark the rows \<open>RegisterTestClass\<close> assigns, in
  its order, \<open>createMessage\<close> and \<open>getMessageSize\<close>.  Each row is checked against the members of its class by
  evaluation, which makes each benchmark a \<open>class_registry\<close>.
\<close>

section \<open>Benchmark 0\<close>

definition bench0_rows :: "(u32 \<times> (sw_type \<times> u8) list) list" where
  "bench0_rows =
     [(2, [(sw_int64_type, 3), (sw_bytes_type, 4), (sw_int64_type, 5), (sw_int64_type, 6),
       (sw_bytes_type, 7), (sw_bytes_type, 10), (sw_bytes_type, 11), (sw_int64_type, 12),
       (sw_bytes_type, 13), (sw_int64_type, 14)]),
     (3, [(sw_int64_type, 1)]), (5, [(sw_fix64_type, 1)]), (6, [(sw_int64_type, 1)]),
     (4, [(sw_ptr_type, 1), (sw_ptr_type, 2), (sw_int64_type, 6)]),
     (7, [(sw_string_type, 2), (sw_string_type, 3), (sw_bool_type, 4), (sw_bool_type, 6)]),
     (9, [(sw_int64_type, 1), (sw_bool_type, 2), (sw_repeated_bytes_type, 3), (sw_bytes_type, 5)]),
     (8, [(sw_bytes_type, 4), (sw_ptr_type, 5), (sw_bool_type, 7), (sw_uint64_type, 11)]),
     (1, [(sw_ptr_type, 2), (sw_enum_type, 3), (sw_int64_type, 4), (sw_int32_type, 5), (sw_fix64_type,
       6), (sw_ptr_type, 9), (sw_int64_type, 15), (sw_fix64_type, 16), (sw_fix32_type, 17),
       (sw_bool_type, 18), (sw_fix64_type, 19), (sw_enum_type, 20), (sw_ptr_type, 21), (sw_uint64_type,
       22), (sw_double_type, 23), (sw_ptr_type, 24), (sw_ptr_type, 25)]),
     (12, [(sw_int32_type, 1), (sw_int32_type, 2)]), (11, [(sw_ptr_type, 1), (sw_bytes_type, 8)]),
     (13, [(sw_bytes_type, 2), (sw_fix64_type, 3), (sw_fix32_type, 4), (sw_fix32_type, 5),
       (sw_bool_type, 8)]),
     (14, [(sw_int64_type, 1), (sw_double_type, 2), (sw_bool_type, 5), (sw_int64_type, 7)]),
     (10, [(sw_int32_type, 1), (sw_ptr_type, 2), (sw_ptr_type, 4), (sw_int64_type, 5), (sw_ptr_type,
       7), (sw_bytes_type, 8), (sw_uint64_type, 9), (sw_fix64_type, 10), (sw_int32_type, 11),
       (sw_fix64_type, 12)]),
     (16, [(sw_fix32_type, 1), (sw_bytes_type, 4), (sw_repeated_bytes_type, 5), (sw_string_type, 8),
       (sw_int64_type, 10), (sw_string_type, 14), (sw_int64_type, 15)]),
     (18, [(sw_bytes_type, 1)]), (19, [(sw_int64_type, 2)]),
     (17, [(sw_ptr_type, 1), (sw_ptr_type, 2), (sw_int64_type, 7)]),
     (20, [(sw_int64_type, 2), (sw_int64_type, 3)]),
     (15, [(sw_string_type, 2), (sw_fix32_type, 3), (sw_bytes_type, 4), (sw_bool_type, 5),
       (sw_string_type, 6), (sw_int64_type, 8), (sw_bool_type, 10), (sw_bytes_type, 12), (sw_ptr_type,
       16), (sw_ptr_type, 20), (sw_bytes_type, 22), (sw_ptr_type, 23), (sw_bool_type, 24)]),
     (22, [(sw_int64_type, 1), (sw_int64_type, 3), (sw_int32_type, 10), (sw_fix64_type, 13),
       (sw_int64_type, 14), (sw_int32_type, 15), (sw_int64_type, 16), (sw_repeated_string_type, 17),
       (sw_bytes_type, 20), (sw_bytes_type, 21), (sw_int64_type, 22), (sw_bytes_type, 24)]),
     (24, [(sw_bytes_type, 1), (sw_bytes_type, 3), (sw_bool_type, 4), (sw_bytes_type, 5),
       (sw_bytes_type, 6), (sw_uint64_type, 7), (sw_fix64_type, 8), (sw_int64_type, 10),
       (sw_bytes_type, 11), (sw_fix64_type, 13), (sw_int64_type, 14), (sw_uint64_type, 15)]),
     (23, [(sw_int64_type, 1), (sw_ptr_type, 2)]),
     (21, [(sw_fix64_type, 1), (sw_int64_type, 2), (sw_fix64_type, 3), (sw_bytes_type, 6),
       (sw_ptr_type, 8), (sw_fix64_type, 9), (sw_ptr_type, 15), (sw_bytes_type, 17), (sw_enum_type,
       20), (sw_int64_type, 22), (sw_int64_type, 24), (sw_int32_type, 25), (sw_repeated_bytes_type,
       26), (sw_bytes_type, 29)]),
     (27, [(sw_bytes_type, 1)]), (26, [(sw_fix64_type, 1), (sw_enum_type, 2), (sw_ptr_type, 3)]),
     (29, [(sw_int64_type, 2), (sw_fix64_type, 3), (sw_fix64_type, 5), (sw_bool_type, 7),
       (sw_bool_type, 8), (sw_int64_type, 9), (sw_int64_type, 10), (sw_bool_type, 11)]),
     (28, [(sw_bytes_type, 2), (sw_ptr_type, 3), (sw_int64_type, 7), (sw_int64_type, 9),
       (sw_int64_type, 10), (sw_bytes_type, 11), (sw_enum_type, 13), (sw_fix32_type, 14),
       (sw_bytes_type, 18), (sw_bool_type, 19)]),
     (25, [(sw_fix32_type, 2), (sw_fix64_type, 3), (sw_fix64_type, 4), (sw_double_type, 5),
       (sw_string_type, 9), (sw_ptr_type, 11), (sw_bool_type, 12), (sw_bytes_type, 13), (sw_bytes_type,
       19), (sw_bytes_type, 20), (sw_bool_type, 21), (sw_ptr_type, 24), (sw_enum_type, 25)]),
     (31, [(sw_fix64_type, 1)]),
     (33, [(sw_int64_type, 1), (sw_fix64_type, 3), (sw_fix64_type, 4), (sw_int32_type, 5),
       (sw_bytes_type, 7)]),
     (32, [(sw_ptr_type, 1), (sw_uint64_type, 3)]), (34, [(sw_fix64_type, 3)]),
     (35, [(sw_string_type, 1), (sw_bytes_type, 2), (sw_int32_type, 3), (sw_repeated_bytes_type, 4),
       (sw_bytes_type, 5), (sw_string_type, 6), (sw_string_type, 7), (sw_bytes_type, 8),
       (sw_bytes_type, 10)]),
     (30, [(sw_ptr_type, 4), (sw_ptr_type, 5), (sw_ptr_type, 6), (sw_bool_type, 7), (sw_int64_type, 8),
       (sw_bool_type, 11), (sw_repeated_bytes_type, 12), (sw_int64_type, 13), (sw_bytes_type, 14),
       (sw_fix64_type, 15), (sw_int64_type, 16), (sw_bytes_type, 17), (sw_bytes_type, 23),
       (sw_ptr_type, 25)]),
     (38, [(sw_bool_type, 2), (sw_int64_type, 3)]),
     (39, [(sw_double_type, 1), (sw_int64_type, 2), (sw_bytes_type, 3), (sw_int64_type, 5)]),
     (37, [(sw_int64_type, 1), (sw_ptr_type, 2), (sw_ptr_type, 3)]),
     (40, [(sw_int64_type, 2), (sw_bytes_type, 4), (sw_bytes_type, 5), (sw_fix32_type, 6),
       (sw_uint32_type, 8), (sw_enum_type, 9), (sw_int64_type, 10), (sw_int64_type, 11)]),
     (41, [(sw_int64_type, 1), (sw_bytes_type, 3), (sw_int64_type, 6), (sw_string_type, 8),
       (sw_bool_type, 9), (sw_int32_type, 12), (sw_bytes_type, 16)]),
     (36, [(sw_int64_type, 2), (sw_ptr_type, 3), (sw_bytes_type, 5), (sw_int32_type, 6),
       (sw_int64_type, 11), (sw_bool_type, 12), (sw_int64_type, 13), (sw_ptr_type, 14),
       (sw_double_type, 15), (sw_bool_type, 16), (sw_double_type, 19), (sw_int64_type, 20),
       (sw_ptr_type, 23), (sw_int64_type, 24), (sw_uint64_type, 25)]),
     (43, [(sw_bytes_type, 6), (sw_bytes_type, 8), (sw_int64_type, 9), (sw_repeated_bytes_type, 11),
       (sw_int64_type, 13), (sw_fix64_type, 14), (sw_fix64_type, 15), (sw_bytes_type, 16),
       (sw_int64_type, 19), (sw_int64_type, 20), (sw_string_type, 22)]),
     (44, [(sw_int64_type, 1), (sw_enum_type, 3), (sw_int64_type, 4), (sw_fix64_type, 8),
       (sw_bytes_type, 9), (sw_fix32_type, 11), (sw_int32_type, 12), (sw_int64_type, 14),
       (sw_bytes_type, 15)]),
     (46, [(sw_int32_type, 1), (sw_int64_type, 2), (sw_int64_type, 3)]),
     (45, [(sw_int32_type, 2), (sw_ptr_type, 4)]), (47, [(sw_int64_type, 2)]),
     (42, [(sw_bytes_type, 1), (sw_string_type, 4), (sw_uint64_type, 5), (sw_int64_type, 6),
       (sw_int64_type, 9), (sw_int64_type, 10), (sw_ptr_type, 11), (sw_int64_type, 13), (sw_ptr_type,
       18), (sw_ptr_type, 19), (sw_double_type, 22), (sw_bool_type, 28), (sw_bytes_type, 29),
       (sw_ptr_type, 30), (sw_int64_type, 31), (sw_string_type, 32)]),
     (49, [(sw_fix64_type, 10)]), (51, [(sw_bytes_type, 1)]),
     (50, [(sw_bytes_type, 2), (sw_fix64_type, 3), (sw_ptr_type, 4), (sw_int64_type, 6),
       (sw_repeated_bytes_type, 7), (sw_int64_type, 8)]),
     (48, [(sw_bytes_type, 1), (sw_double_type, 4), (sw_int64_type, 5), (sw_bytes_type, 7),
       (sw_ptr_type, 9), (sw_ptr_type, 10), (sw_bytes_type, 15), (sw_fix64_type, 16)]),
     (53, [(sw_uint64_type, 1)]),
     (54, [(sw_int64_type, 1), (sw_uint64_type, 2), (sw_fix64_type, 3), (sw_int64_type, 4),
       (sw_int64_type, 5), (sw_bytes_type, 7)]),
     (55, [(sw_fix64_type, 1)]),
     (57, [(sw_int64_type, 1), (sw_fix32_type, 7), (sw_string_type, 8), (sw_int64_type, 10),
       (sw_int64_type, 12)]),
     (56, [(sw_ptr_type, 2), (sw_fix32_type, 4)]),
     (52, [(sw_int64_type, 1), (sw_bytes_type, 2), (sw_int64_type, 3), (sw_fix32_type, 5),
       (sw_int64_type, 6), (sw_int64_type, 7), (sw_uint64_type, 8), (sw_ptr_type, 16), (sw_ptr_type,
       17), (sw_bytes_type, 19), (sw_int64_type, 25), (sw_ptr_type, 26), (sw_ptr_type, 27)])]"

definition createMessage_bench0 :: "u32 \<Rightarrow> cells result" where
  "createMessage_bench0 = table_create bench0_members"

definition getMessageSize_bench0 :: "u32 \<Rightarrow> u64" where
  "getMessageSize_bench0 = table_size bench0_members"

definition RegisterTestClass_bench0 :: "(u32 \<Rightarrow> Metadata) \<Rightarrow> u32 \<Rightarrow> Metadata" where
  "RegisterTestClass_bench0 = register_rows bench0_rows"

lemma bench0_rows_ok: "distinct (map fst bench0_rows)" "list_all (class_ok bench0_members) bench0_rows"
  by code_simp+

interpretation bench0: class_registry "RegisterTestClass_bench0 (\<lambda>_. zero_metadata)"
    "init_sizes getMessageSize_bench0 (\<lambda>_. 0)" createMessage_bench0 "map fst bench0_rows"
  unfolding RegisterTestClass_bench0_def getMessageSize_bench0_def createMessage_bench0_def
  by (rule table_registry [OF bench0_rows_ok])

section \<open>Benchmark 1\<close>

definition bench1_rows :: "(u32 \<times> (sw_type \<times> u8) list) list" where
  "bench1_rows = [
     (2, [(sw_string_type, 2), (sw_string_type, 3), (sw_string_type, 6)]),
     (1, [(sw_bytes_type, 3), (sw_ptr_type, 4), (sw_bytes_type, 5), (sw_float_type, 8), (sw_float_type,
       9), (sw_uint32_type, 10), (sw_int64_type, 13), (sw_int32_type, 14), (sw_int64_type, 15),
       (sw_bool_type, 16), (sw_int64_type, 17)]),
     (4, [(sw_float_type, 1), (sw_int32_type, 2)]),
     (3, [(sw_uint32_type, 1), (sw_int32_type, 2), (sw_string_type, 3), (sw_float_type, 4),
       (sw_float_type, 5), (sw_string_type, 6), (sw_string_type, 7), (sw_enum_type, 11), (sw_ptr_type,
       12), (sw_float_type, 14), (sw_string_type, 20)]),
     (6, [(sw_int32_type, 1)]), (8, [(sw_bool_type, 1)]), (7, [(sw_ptr_type, 1), (sw_bytes_type, 2)]),
     (5, [(sw_int64_type, 1), (sw_int32_type, 5), (sw_float_type, 6), (sw_int32_type, 7),
       (sw_bool_type, 8), (sw_fix64_type, 11), (sw_int32_type, 13), (sw_int64_type, 14),
       (sw_int64_type, 15), (sw_float_type, 17), (sw_bool_type, 18), (sw_ptr_type, 19), (sw_int32_type,
       20), (sw_ptr_type, 21)]),
     (11, [(sw_fix32_type, 1), (sw_float_type, 2), (sw_float_type, 3), (sw_int32_type, 4),
       (sw_int32_type, 6), (sw_float_type, 7), (sw_bool_type, 9)]),
     (10, [(sw_ptr_type, 5), (sw_uint64_type, 6)]),
     (12, [(sw_repeated_int32_type, 2), (sw_repeated_int32_type, 7), (sw_string_type, 8),
       (sw_int32_type, 9), (sw_float_type, 14), (sw_int32_type, 15), (sw_bool_type, 16)]),
     (9, [(sw_repeated_uint32_type, 1), (sw_ptr_type, 2), (sw_bytes_type, 3), (sw_float_type, 5),
       (sw_ptr_type, 6), (sw_int32_type, 7), (sw_bytes_type, 8), (sw_int32_type, 9), (sw_float_type,
       11), (sw_bool_type, 12), (sw_float_type, 14), (sw_int64_type, 17), (sw_float_type, 19),
       (sw_int64_type, 20)]),
     (14, [(sw_int32_type, 1)]),
     (13, [(sw_float_type, 2), (sw_ptr_type, 4), (sw_int32_type, 6), (sw_bytes_type, 7),
       (sw_bytes_type, 9), (sw_string_type, 10), (sw_bool_type, 11), (sw_fix64_type, 12),
       (sw_int32_type, 14)]),
     (16, [(sw_int32_type, 1)]),
     (15, [(sw_int32_type, 1), (sw_ptr_type, 2), (sw_int32_type, 3), (sw_int32_type, 4),
       (sw_uint32_type, 8)]),
     (18, [(sw_int32_type, 2), (sw_fix32_type, 3), (sw_int32_type, 4), (sw_int32_type, 7),
       (sw_enum_type, 8)]),
     (17, [(sw_uint64_type, 1), (sw_float_type, 2), (sw_enum_type, 3), (sw_repeated_string_type, 4),
       (sw_string_type, 7), (sw_bool_type, 8), (sw_bytes_type, 16), (sw_ptr_type, 20)]),
     (20, [(sw_string_type, 1)]),
     (22, [(sw_string_type, 1), (sw_int32_type, 4), (sw_fix64_type, 5), (sw_int32_type, 6),
       (sw_uint32_type, 7), (sw_bool_type, 10), (sw_string_type, 11), (sw_fix64_type, 12)]),
     (21, [(sw_ptr_type, 4), (sw_fix64_type, 5), (sw_string_type, 9)]),
     (19, [(sw_int32_type, 5), (sw_bool_type, 6), (sw_string_type, 8), (sw_bool_type, 11),
       (sw_int32_type, 13), (sw_ptr_type, 15), (sw_int32_type, 16), (sw_uint64_type, 17),
       (sw_fix64_type, 20), (sw_ptr_type, 21), (sw_float_type, 22), (sw_float_type, 23),
       (sw_string_type, 24), (sw_int32_type, 26)]),
     (24, [(sw_float_type, 1), (sw_uint64_type, 2), (sw_uint64_type, 3), (sw_int32_type, 4),
       (sw_float_type, 5)]),
     (23, [(sw_ptr_type, 1), (sw_double_type, 2), (sw_string_type, 3), (sw_bool_type, 5),
       (sw_int64_type, 13), (sw_string_type, 14), (sw_int32_type, 18), (sw_int32_type, 22),
       (sw_float_type, 23), (sw_int32_type, 29)]),
     (26, [(sw_int32_type, 1), (sw_float_type, 2)]),
     (25, [(sw_int32_type, 1), (sw_int32_type, 2), (sw_bytes_type, 3), (sw_int32_type, 8),
       (sw_int32_type, 9), (sw_int32_type, 10), (sw_string_type, 11), (sw_int32_type, 14),
       (sw_fix32_type, 15), (sw_double_type, 16), (sw_bool_type, 17), (sw_ptr_type, 25)])]"

definition createMessage_bench1 :: "u32 \<Rightarrow> cells result" where
  "createMessage_bench1 = table_create bench1_members"

definition getMessageSize_bench1 :: "u32 \<Rightarrow> u64" where
  "getMessageSize_bench1 = table_size bench1_members"

definition RegisterTestClass_bench1 :: "(u32 \<Rightarrow> Metadata) \<Rightarrow> u32 \<Rightarrow> Metadata" where
  "RegisterTestClass_bench1 = register_rows bench1_rows"

lemma bench1_rows_ok: "distinct (map fst bench1_rows)" "list_all (class_ok bench1_members) bench1_rows"
  by code_simp+

interpretation bench1: class_registry "RegisterTestClass_bench1 (\<lambda>_. zero_metadata)"
    "init_sizes getMessageSize_bench1 (\<lambda>_. 0)" createMessage_bench1 "map fst bench1_rows"
  unfolding RegisterTestClass_bench1_def getMessageSize_bench1_def createMessage_bench1_def
  by (rule table_registry [OF bench1_rows_ok])

section \<open>Benchmark 3\<close>

definition bench3_rows :: "(u32 \<times> (sw_type \<times> u8) list) list" where
  "bench3_rows =
     [(2, [(sw_int32_type, 3), (sw_bytes_type, 4), (sw_fix64_type, 5), (sw_bytes_type, 6),
       (sw_bytes_type, 7), (sw_bytes_type, 8), (sw_bytes_type, 11)]),
     (1, [(sw_string_type, 4), (sw_bool_type, 5), (sw_bytes_type, 6), (sw_bool_type, 7),
       (sw_string_type, 8), (sw_int32_type, 9), (sw_ptr_type, 11), (sw_int32_type, 12), (sw_enum_type,
       13), (sw_bytes_type, 16), (sw_int64_type, 18), (sw_bytes_type, 23)]),
     (4, [(sw_int32_type, 1), (sw_uint64_type, 2)]),
     (5, [(sw_repeated_int32_type, 5), (sw_int32_type, 6)]),
     (6, [(sw_bool_type, 2), (sw_bool_type, 3), (sw_int64_type, 10), (sw_int32_type, 12),
       (sw_uint64_type, 13)]),
     (3, [(sw_fix64_type, 2), (sw_bool_type, 3), (sw_enum_type, 7), (sw_string_type, 8),
       (sw_string_type, 9), (sw_ptr_type, 11), (sw_string_type, 13), (sw_enum_type, 14),
       (sw_int32_type, 17), (sw_int32_type, 18), (sw_ptr_type, 20), (sw_int64_type, 22),
       (sw_fix64_type, 28), (sw_ptr_type, 30)]),
     (8, [(sw_int64_type, 1), (sw_bool_type, 2)]),
     (7, [(sw_bytes_type, 1), (sw_fix32_type, 3), (sw_ptr_type, 4)]),
     (10, [(sw_bool_type, 1), (sw_int32_type, 2), (sw_int32_type, 3)]),
     (9, [(sw_int32_type, 1), (sw_bytes_type, 3), (sw_repeated_int32_type, 4), (sw_ptr_type, 6),
       (sw_int32_type, 9), (sw_int64_type, 10)]),
     (12, [(sw_int32_type, 1), (sw_bool_type, 5), (sw_enum_type, 9)]),
     (13, [(sw_uint64_type, 2), (sw_uint64_type, 6), (sw_bytes_type, 8)]),
     (11, [(sw_int32_type, 2), (sw_fix64_type, 3), (sw_string_type, 4), (sw_string_type, 5),
       (sw_enum_type, 13), (sw_bytes_type, 14), (sw_enum_type, 15), (sw_int32_type, 16),
       (sw_int32_type, 19), (sw_ptr_type, 20), (sw_uint64_type, 21), (sw_ptr_type, 24)]),
     (15, [(sw_repeated_uint64_type, 2)]), (16, [(sw_int32_type, 6), (sw_double_type, 7)]),
     (14, [(sw_ptr_type, 1), (sw_repeated_int32_type, 2), (sw_ptr_type, 4), (sw_bytes_type, 5),
       (sw_int64_type, 7)]),
     (18, [(sw_bytes_type, 1), (sw_int64_type, 2), (sw_int32_type, 3), (sw_bytes_type, 4),
       (sw_int64_type, 5), (sw_int32_type, 6), (sw_int32_type, 7)]),
     (17, [(sw_ptr_type, 1), (sw_repeated_int32_type, 4), (sw_int64_type, 6), (sw_double_type, 7),
       (sw_bytes_type, 10), (sw_int64_type, 11), (sw_bytes_type, 12), (sw_repeated_int32_type, 14),
       (sw_int64_type, 16), (sw_bytes_type, 17), (sw_int32_type, 18), (sw_string_type, 20)]),
     (20, [(sw_int64_type, 3), (sw_fix64_type, 5)]), (21, [(sw_int32_type, 3), (sw_bool_type, 4)]),
     (19, [(sw_fix32_type, 1), (sw_ptr_type, 2), (sw_int64_type, 6), (sw_int64_type, 7),
       (sw_uint64_type, 8), (sw_int64_type, 9), (sw_string_type, 12), (sw_ptr_type, 13)]),
     (23, [(sw_int32_type, 1), (sw_bool_type, 3), (sw_uint64_type, 5)]), (24, [(sw_fix64_type, 1)]),
     (25, [(sw_int32_type, 1)]),
     (22, [(sw_int32_type, 3), (sw_bytes_type, 4), (sw_int64_type, 5), (sw_ptr_type, 8),
       (sw_string_type, 10), (sw_uint64_type, 11), (sw_ptr_type, 12), (sw_ptr_type, 19),
       (sw_int32_type, 20), (sw_int32_type, 21)]),
     (27, [(sw_int64_type, 5), (sw_int32_type, 6)]), (28, [(sw_fix64_type, 2)]),
     (29, [(sw_int64_type, 1), (sw_int32_type, 3)]), (30, [(sw_int64_type, 4)]),
     (26, [(sw_int32_type, 1), (sw_double_type, 5), (sw_int32_type, 6), (sw_int64_type, 7),
       (sw_ptr_type, 11), (sw_string_type, 12), (sw_ptr_type, 13), (sw_bool_type, 14), (sw_ptr_type,
       15), (sw_int32_type, 16), (sw_int64_type, 17), (sw_double_type, 18), (sw_ptr_type, 19),
       (sw_repeated_int32_type, 20)])]"

definition createMessage_bench3 :: "u32 \<Rightarrow> cells result" where
  "createMessage_bench3 = table_create bench3_members"

definition getMessageSize_bench3 :: "u32 \<Rightarrow> u64" where
  "getMessageSize_bench3 = table_size bench3_members"

definition RegisterTestClass_bench3 :: "(u32 \<Rightarrow> Metadata) \<Rightarrow> u32 \<Rightarrow> Metadata" where
  "RegisterTestClass_bench3 = register_rows bench3_rows"

lemma bench3_rows_ok: "distinct (map fst bench3_rows)" "list_all (class_ok bench3_members) bench3_rows"
  by code_simp+

interpretation bench3: class_registry "RegisterTestClass_bench3 (\<lambda>_. zero_metadata)"
    "init_sizes getMessageSize_bench3 (\<lambda>_. 0)" createMessage_bench3 "map fst bench3_rows"
  unfolding RegisterTestClass_bench3_def getMessageSize_bench3_def createMessage_bench3_def
  by (rule table_registry [OF bench3_rows_ok])

section \<open>Benchmark 4\<close>

definition bench4_rows :: "(u32 \<times> (sw_type \<times> u8) list) list" where
  "bench4_rows =
     [(4, [(sw_string_type, 2), (sw_string_type, 3), (sw_uint64_type, 5), (sw_fix64_type, 6),
       (sw_string_type, 7)]),
     (3, [(sw_ptr_type, 2), (sw_int64_type, 3), (sw_bool_type, 5), (sw_int32_type, 7), (sw_enum_type,
       8), (sw_bool_type, 9), (sw_bool_type, 10), (sw_bool_type, 13), (sw_bool_type, 14)]),
     (2, [(sw_enum_type, 1), (sw_int32_type, 2), (sw_int32_type, 3), (sw_double_type, 5),
       (sw_string_type, 6), (sw_int64_type, 7), (sw_ptr_type, 8), (sw_string_type, 9)]),
     (5, [(sw_string_type, 1)]),
     (1, [(sw_string_type, 3), (sw_string_type, 4), (sw_int32_type, 5), (sw_int32_type, 6),
       (sw_ptr_type, 7), (sw_int32_type, 8), (sw_int32_type, 12), (sw_string_type, 13), (sw_int32_type,
       17), (sw_ptr_type, 18), (sw_string_type, 20)]),
     (9, [(sw_string_type, 1), (sw_bytes_type, 2)]), (8, [(sw_string_type, 1), (sw_ptr_type, 2)]),
     (10, [(sw_int64_type, 1), (sw_string_type, 2), (sw_fix64_type, 3)]),
     (7, [(sw_ptr_type, 1), (sw_int32_type, 2), (sw_double_type, 3), (sw_int64_type, 4),
       (sw_uint64_type, 6), (sw_enum_type, 7), (sw_bool_type, 9), (sw_ptr_type, 10)]),
     (6, [(sw_bool_type, 1), (sw_int32_type, 9), (sw_bool_type, 11), (sw_fix64_type, 12),
       (sw_string_type, 13), (sw_uint64_type, 14), (sw_uint64_type, 15), (sw_bytes_type, 16),
       (sw_ptr_type, 17), (sw_fix64_type, 19), (sw_int32_type, 20)]),
     (14, [(sw_int64_type, 2), (sw_bool_type, 3), (sw_fix64_type, 4), (sw_fix32_type, 5), (sw_enum_type, 7)]),
     (13, [(sw_bool_type, 1), (sw_ptr_type, 2)]),
     (15, [(sw_string_type, 2), (sw_string_type, 5), (sw_int64_type, 6)]),
     (12, [(sw_bytes_type, 1), (sw_string_type, 2), (sw_int32_type, 4), (sw_ptr_type, 6), (sw_ptr_type, 7)]),
     (16, [(sw_bool_type, 1)]),
     (11, [(sw_ptr_type, 1), (sw_string_type, 2), (sw_string_type, 3), (sw_ptr_type, 4),
       (sw_int32_type, 5), (sw_int32_type, 6), (sw_string_type, 7), (sw_fix64_type, 8), (sw_bool_type,
       10), (sw_bool_type, 11), (sw_int32_type, 12), (sw_int64_type, 13), (sw_fix64_type, 14)]),
     (20, [(sw_uint64_type, 9)]),
     (19, [(sw_int32_type, 1), (sw_ptr_type, 2), (sw_string_type, 3), (sw_int32_type, 4)]),
     (18, [(sw_double_type, 1), (sw_ptr_type, 2), (sw_string_type, 3)]),
     (17, [(sw_ptr_type, 1), (sw_string_type, 2), (sw_int64_type, 5), (sw_string_type, 6),
       (sw_fix64_type, 7)]),
     (24, [(sw_fix32_type, 1), (sw_int32_type, 4), (sw_int64_type, 6), (sw_int32_type, 7)]),
     (23, [(sw_int32_type, 3), (sw_ptr_type, 5), (sw_int32_type, 6), (sw_bool_type, 8),
       (sw_string_type, 9), (sw_fix32_type, 10)]),
     (22, [(sw_bool_type, 2), (sw_ptr_type, 5), (sw_uint64_type, 6), (sw_double_type, 8)]),
     (21, [(sw_int64_type, 1), (sw_uint64_type, 3), (sw_string_type, 4), (sw_ptr_type, 6),
       (sw_bool_type, 7), (sw_bytes_type, 8), (sw_uint64_type, 9)]),
     (28, [(sw_string_type, 1), (sw_string_type, 4), (sw_bool_type, 5)]),
     (27, [(sw_int64_type, 1), (sw_string_type, 2), (sw_int32_type, 5), (sw_enum_type, 7), (sw_ptr_type, 8)]),
     (26, [(sw_string_type, 1), (sw_ptr_type, 4)]), (29, [(sw_string_type, 1)]),
     (25, [(sw_bytes_type, 2), (sw_ptr_type, 3), (sw_fix64_type, 4), (sw_uint64_type, 7), (sw_ptr_type,
       8), (sw_int32_type, 9), (sw_int32_type, 10), (sw_uint64_type, 11), (sw_double_type, 12)]),
     (33, [(sw_int32_type, 1), (sw_string_type, 4), (sw_bytes_type, 6), (sw_string_type, 7)]),
     (34, [(sw_int64_type, 1)]),
     (32, [(sw_uint64_type, 1), (sw_ptr_type, 2), (sw_enum_type, 4), (sw_fix64_type, 5), (sw_bool_type,
       6), (sw_int64_type, 7), (sw_ptr_type, 8), (sw_int32_type, 9)]),
     (31, [(sw_string_type, 6), (sw_int32_type, 7), (sw_double_type, 11), (sw_string_type, 12),
       (sw_ptr_type, 13), (sw_bool_type, 14), (sw_fix64_type, 15), (sw_int32_type, 16), (sw_fix32_type, 17)]),
     (30, [(sw_int32_type, 1), (sw_string_type, 2), (sw_bool_type, 3), (sw_string_type, 4),
       (sw_fix64_type, 5), (sw_string_type, 9), (sw_string_type, 10), (sw_fix32_type, 11),
       (sw_string_type, 12), (sw_string_type, 14), (sw_ptr_type, 15), (sw_fix64_type, 16)]),
     (38, [(sw_bytes_type, 2), (sw_uint64_type, 4)]),
     (37, [(sw_bool_type, 1), (sw_int32_type, 2), (sw_ptr_type, 7)]),
     (36, [(sw_bytes_type, 5), (sw_int32_type, 6), (sw_ptr_type, 7)]),
     (35, [(sw_string_type, 2), (sw_int32_type, 3), (sw_int32_type, 5), (sw_ptr_type, 6),
       (sw_double_type, 11)]),
     (42, [(sw_int32_type, 2), (sw_bool_type, 4), (sw_int32_type, 5)]),
     (41, [(sw_int32_type, 2), (sw_fix64_type, 5), (sw_fix32_type, 7), (sw_bool_type, 8),
       (sw_string_type, 10), (sw_string_type, 11), (sw_ptr_type, 13), (sw_bool_type, 14),
       (sw_int32_type, 15)]),
     (40, [(sw_ptr_type, 1), (sw_int32_type, 3), (sw_bool_type, 4)]),
     (39, [(sw_int64_type, 1), (sw_string_type, 2), (sw_bool_type, 3), (sw_enum_type, 4),
       (sw_int64_type, 5), (sw_string_type, 6), (sw_string_type, 8), (sw_bytes_type, 9), (sw_ptr_type,
       10), (sw_double_type, 11)]),
     (46, [(sw_bool_type, 3), (sw_string_type, 4), (sw_int32_type, 12)]),
     (45, [(sw_bool_type, 1), (sw_ptr_type, 3)]),
     (44, [(sw_int32_type, 1), (sw_int32_type, 2), (sw_string_type, 3), (sw_ptr_type, 4)]),
     (43, [(sw_bytes_type, 1), (sw_double_type, 2), (sw_enum_type, 6), (sw_ptr_type, 7),
       (sw_fix64_type, 10)])]"

definition createMessage_bench4 :: "u32 \<Rightarrow> cells result" where
  "createMessage_bench4 = table_create bench4_members"

definition getMessageSize_bench4 :: "u32 \<Rightarrow> u64" where
  "getMessageSize_bench4 = table_size bench4_members"

definition RegisterTestClass_bench4 :: "(u32 \<Rightarrow> Metadata) \<Rightarrow> u32 \<Rightarrow> Metadata" where
  "RegisterTestClass_bench4 = register_rows bench4_rows"

lemma bench4_rows_ok: "distinct (map fst bench4_rows)" "list_all (class_ok bench4_members) bench4_rows"
  by code_simp+

interpretation bench4: class_registry "RegisterTestClass_bench4 (\<lambda>_. zero_metadata)"
    "init_sizes getMessageSize_bench4 (\<lambda>_. 0)" createMessage_bench4 "map fst bench4_rows"
  unfolding RegisterTestClass_bench4_def getMessageSize_bench4_def createMessage_bench4_def
  by (rule table_registry [OF bench4_rows_ok])

section \<open>The benchmarks\<close>

text \<open>The three functions of each header, and its class numbers.\<close>

definition hyperproto ::
  "(((u32 \<Rightarrow> Metadata) \<Rightarrow> u32 \<Rightarrow> Metadata) \<times> (u32 \<Rightarrow> u64) \<times> (u32 \<Rightarrow> cells result) \<times> u32 list) list" where
  "hyperproto =
     [(RegisterTestClass_bench0, getMessageSize_bench0, createMessage_bench0, map fst bench0_rows),
      (RegisterTestClass_bench1, getMessageSize_bench1, createMessage_bench1, map fst bench1_rows),
      (RegisterTestClass_bench3, getMessageSize_bench3, createMessage_bench3, map fst bench3_rows),
      (RegisterTestClass_bench4, getMessageSize_bench4, createMessage_bench4, map fst bench4_rows)]"

lemma hyperproto_registry:
  assumes "(register, message_size, create, classes) \<in> set hyperproto"
  shows "class_registry (register (\<lambda>_. zero_metadata)) (init_sizes message_size (\<lambda>_. 0)) create classes"
  using assms bench0.class_registry_axioms bench1.class_registry_axioms bench3.class_registry_axioms
    bench4.class_registry_axioms
  unfolding hyperproto_def by auto

section \<open>Properties\<close>

text \<open>C25. For each of the 159 classes of the four benchmarks the tables of the generated code agree: the
  members \<open>createMessage\<close> constructs lie where the walks look for the fields \<open>RegisterTestClass\<close> lists, in
  the same order and empty, and \<open>InitMessageSizeVec\<close> stores the size the walks start from.\<close>

theorem hyperproto_consistent:
  assumes "(register, message_size, create, classes) \<in> set hyperproto" and "c \<in> set classes"
  shows "\<exists>cs. create c = Inr cs \<and> blank_cells first_member (md_fields (register (\<lambda>_. zero_metadata) c)) cs
    \<and> int (unat (init_sizes message_size (\<lambda>_. 0) c))
        = first_member + sum_list (map (\<lambda>f. type_stride (fst f)) (md_fields (register (\<lambda>_. zero_metadata) c)))"
  using class_registry.reg_create [OF hyperproto_registry [OF assms(1)] assms(2)]
    class_registry.reg_size [OF hyperproto_registry [OF assms(1)] assms(2)]
  by (simp add: class_sizeof_def)

theorem hyperproto_consistent_witness:
  "\<exists>cs. createMessage_bench0 57 = Inr cs
    \<and> blank_cells first_member (md_fields (RegisterTestClass_bench0 (\<lambda>_. zero_metadata) 57)) cs
    \<and> int (unat (init_sizes getMessageSize_bench0 (\<lambda>_. 0) 57))
        = first_member + sum_list (map (\<lambda>f. type_stride (fst f)) (md_fields (RegisterTestClass_bench0 (\<lambda>_. zero_metadata) 57)))"
  by (rule hyperproto_consistent [where register = RegisterTestClass_bench0 and classes = "map fst bench0_rows"])
    (simp add: hyperproto_def, simp add: bench0_rows_def)

text \<open>C21. Metadata walk, serializer and parser composed on the classes of any of the four benchmarks: a
  message whose objects of one class agree on their long strings is rebuilt from the bytes, the table
  and the registered classes, with the long strings empty.\<close>

theorem hyperproto_roundtrip:
  assumes "(register, message_size, create, classes) \<in> set hyperproto"
    and "typed (register (\<lambda>_. zero_metadata)) classes m" and "consistent sig m" and "fits True m" and "rows_ok st"
  shows "\<exists>st' out. SendMetadataToFPGA (layout m) (init_sizes message_size (\<lambda>_. 0)) st = Inr st'
    \<and> SerializeToString (layout m) True total_size (init_sizes message_size (\<lambda>_. 0))
        = Inr (out, total_size + of_nat (length out), of_nat (length out))
    \<and> ParseFromString (depth m) out (blank_of create md0 (class_id (msg_metadata m)))
        (ucast (class_id (msg_metadata m)))
        \<lparr>metadataVec = register (\<lambda>_. zero_metadata), messageSizeVec = init_sizes message_size (\<lambda>_. 0),
          FPGA_metadataVec = table st', createMessage = create\<rparr>
      = Inr (layout (received True m))"
  by (rule class_registry.send_and_parse [OF hyperproto_registry [OF assms(1)] assms(2-5)])

text \<open>A message of class 7 of benchmark 1 with a sub-message and a long string.\<close>

definition bench1_metadata :: "u32 \<Rightarrow> Metadata" where
  "bench1_metadata = RegisterTestClass_bench1 (\<lambda>_. zero_metadata)"

definition bench1_message :: msg where
  "bench1_message = Msg (bench1_metadata 7)
     [MSub (Msg (bench1_metadata 8) [MVal (VBool True)]), MVal (VStr long_string)]"

definition bench1_signature :: signature where
  "bench1_signature c i = (c \<noteq> 7 \<or> i = 1, if c = 7 \<and> i = 1 then Some 8 else None)"

lemma bench1_row:
  assumes "(c, fs) \<in> set bench1_rows"
  shows "md_fields (bench1_metadata c) = fs" "class_id (bench1_metadata c) = c"
proof -
  have "length fs \<le> wire_type_capacity" using bench1_rows_ok(2) assms by (auto simp: list_all_iff class_ok_def)
  from set_class_ok(2,3) [where mdv = "\<lambda>_. zero_metadata", OF zero_metadata_ok this]
  show "md_fields (bench1_metadata c) = fs" "class_id (bench1_metadata c) = c"
    unfolding bench1_metadata_def RegisterTestClass_bench1_def register_rows_row [OF bench1_rows_ok(1) assms]
    by blast+
qed

lemma bench1_rows_7_8:
  "md_fields (bench1_metadata 7) = [(sw_ptr_type, 1), (sw_bytes_type, 2)]" "class_id (bench1_metadata 7) = 7"
  "md_fields (bench1_metadata 8) = [(sw_bool_type, 1)]" "class_id (bench1_metadata 8) = 8"
  by (rule bench1_row, simp add: bench1_rows_def)+

lemma bench1_message_ok:
  "typed bench1_metadata (map fst bench1_rows) bench1_message" "consistent bench1_signature bench1_message"
  "fits True bench1_message"
proof -
  have c: "7 \<in> set (map fst bench1_rows)" "8 \<in> set (map fst bench1_rows)" by (simp_all add: bench1_rows_def)
  show "typed bench1_metadata (map fst bench1_rows) bench1_message"
    using c by (simp add: bench1_message_def bench1_rows_7_8 same_kind_def del: set_map)
  have "long_limit < length long_string" "string_fits long_string"
    using long_string_fits by (simp_all add: long_string_def long_limit_def)
  then show "consistent bench1_signature bench1_message" "fits True bench1_message"
    by (simp_all add: bench1_message_def bench1_rows_7_8 bench1_signature_def slot_ok_def fpga_fields_def
        parsable_def packed_part_def)
qed

theorem hyperproto_roundtrip_witness:
  "\<exists>st' out. SendMetadataToFPGA (layout bench1_message) (init_sizes getMessageSize_bench1 (\<lambda>_. 0)) fresh_state = Inr st'
    \<and> SerializeToString (layout bench1_message) True 0 (init_sizes getMessageSize_bench1 (\<lambda>_. 0))
        = Inr (out, 0 + of_nat (length out), of_nat (length out))
    \<and> ParseFromString (depth bench1_message) out (blank_of createMessage_bench1 zero_metadata (class_id (msg_metadata bench1_message)))
        (ucast (class_id (msg_metadata bench1_message)))
        \<lparr>metadataVec = RegisterTestClass_bench1 (\<lambda>_. zero_metadata), messageSizeVec = init_sizes getMessageSize_bench1 (\<lambda>_. 0),
          FPGA_metadataVec = table st', createMessage = createMessage_bench1\<rparr>
      = Inr (layout (received True bench1_message))"
  by (rule hyperproto_roundtrip [where register = RegisterTestClass_bench1 and classes = "map fst bench1_rows",
        OF _ bench1_message_ok(1) [unfolded bench1_metadata_def] bench1_message_ok(2,3) fresh_rows_ok])
    (simp add: hyperproto_def)

end
