(* ===== verification/Setters.thy ===== *)
theory Setters
  imports Accessors "HOL-Library.Multiset"
begin

text \<open>
  The functions \<open>M<c>_Set_F1\<close> of \<open>include/bench_header/bench<n>_target.inc\<close>, which fill a sample message by
  a straight line of calls of the generated accessors: a function is the list of its calls, and
  \<open>run_setters\<close> makes them.  A list that sets every field of every object, each with a value of the type
  the field is registered with, and uses no class twice builds the layout of a message that the walks
  and the parser take.
\<close>

section \<open>Calls of the accessors\<close>

text \<open>\<open>set_f<i>(v)\<close>; \<open>add_f<i>(v)\<close>, with the element as a value; \<open>mutable_f<i>()\<close>, which returns a new object of
  class \<open>c\<close>, with the calls made through the pointer it returns.\<close>

datatype setter = Set_f nat cval | Add_f nat cval | Mutable_f nat nat "setter list"

fun run_setters ::
  "(nat \<times> member list) list \<Rightarrow> (u32 \<Rightarrow> Metadata) \<Rightarrow> member list \<Rightarrow> setter list \<Rightarrow> obj \<Rightarrow> obj" where
  "run_setters tbl mdv ms [] message = message"
| "run_setters tbl mdv ms (Set_f i v # calls) message =
     run_setters tbl mdv ms calls (set_f (generated_class ms) i v message)"
| "run_setters tbl mdv ms (Add_f i v # calls) message =
     run_setters tbl mdv ms calls (add_f (generated_class ms) i v message)"
| "run_setters tbl mdv ms (Mutable_f i c body # calls) message =
     run_setters tbl mdv ms calls
       (mutable_f (generated_class ms) i (run_setters tbl mdv (members_of tbl c) body (described_object tbl mdv c)) message)"

definition filled_message :: "(nat \<times> member list) list \<Rightarrow> (u32 \<Rightarrow> Metadata) \<Rightarrow> nat \<Rightarrow> setter list \<Rightarrow> obj" where
  "filled_message tbl mdv c calls = run_setters tbl mdv (members_of tbl c) calls (described_object tbl mdv c)"

section \<open>What the getters return\<close>

lemma run_setters_append:
  "run_setters tbl mdv ms (xs @ ys) ob = run_setters tbl mdv ms ys (run_setters tbl mdv ms xs ob)"
  by (induction tbl mdv ms xs ob rule: run_setters.induct) simp_all

fun setter_field :: "setter \<Rightarrow> nat" where
  "setter_field (Set_f i v) = i" | "setter_field (Add_f i v) = i" | "setter_field (Mutable_f i c body) = i"

text \<open>Adding an element stores the vector with the element.\<close>

lemma add_member_store:
  assumes "has_members ms ob" and "get_member ms i ob = Inr d"
  shows "add_member ms i v ob = set_member ms i (case d of OVal c \<Rightarrow> OVal (push_back v c) | OPtr p \<Rightarrow> OPtr p) ob"
proof -
  obtain md cells where ob: "ob = Obj md cells" by (cases ob)
  have "distinct (map fst cells)" using assms(1) distinct_place by (simp add: has_members_def member_offsets_def ob)
  moreover have "map_of cells (member_offset ms i) = Some d"
    using assms(2) by (simp add: ob load_def split: option.splits)
  ultimately have "e = d" if "(member_offset ms i, e) \<in> set cells" for e using that by simp
  then show ?thesis by (auto simp: ob store_def)
qed

lemma run_setters_member:
  assumes "has_members ms ob" and "list_all (\<lambda>s. 0 < setter_field s \<and> setter_field s \<le> length ms) calls"
  shows "has_members ms (run_setters tbl mdv ms calls ob)"
    and "j < length ms \<Longrightarrow> list_all (\<lambda>s. setter_field s \<noteq> Suc j) calls \<Longrightarrow>
      get_member ms j (run_setters tbl mdv ms calls ob) = get_member ms j ob"
proof -
  have step: "has_members ms (set_member ms i c ob)"
      "j < length ms \<Longrightarrow> i \<noteq> j \<Longrightarrow> get_member ms j (set_member ms i c ob) = get_member ms j ob"
    if "i < length ms" "has_members ms ob" for i j c ob
    using accessor.set_valid [OF member_accessor] apart.get_other [OF members_apart] that by blast+
  have add: "\<exists>c. add_member ms i v ob = set_member ms i c ob" if "i < length ms" "has_members ms ob" for i v ob
    using add_member_store [OF that(2)] accessor.get_returns [OF member_accessor [OF that(1)] that(2)] by blast
  have "has_members ms (run_setters tbl mdv ms calls ob) \<and>
      (j < length ms \<longrightarrow> list_all (\<lambda>s. setter_field s \<noteq> Suc j) calls \<longrightarrow>
        get_member ms j (run_setters tbl mdv ms calls ob) = get_member ms j ob)"
    using assms
  proof (induction calls arbitrary: ob)
    case (Cons s calls)
    let ?i = "setter_field s - 1"
    have i: "?i < length ms" "setter_field s = Suc ?i" using Cons.prems(2) by auto
    have "\<exists>c. run_setters tbl mdv ms (s # calls) ob = run_setters tbl mdv ms calls (set_member ms ?i c ob)"
    proof (cases s)
      case (Add_f k v)
      then show ?thesis using add [OF i(1) Cons.prems(1), of v] by auto
    qed (auto simp: set_sub_def)
    then obtain c where c: "run_setters tbl mdv ms (s # calls) ob = run_setters tbl mdv ms calls (set_member ms ?i c ob)" ..
    have "j \<noteq> ?i" if "setter_field s \<noteq> Suc j" using that i(2) by auto
    then show ?case
      using Cons.IH [of "set_member ms ?i c ob"] Cons.prems(2) step [OF i(1) Cons.prems(1)] c by auto
  qed simp
  then show "has_members ms (run_setters tbl mdv ms calls ob)"
    "j < length ms \<Longrightarrow> list_all (\<lambda>s. setter_field s \<noteq> Suc j) calls \<Longrightarrow>
      get_member ms j (run_setters tbl mdv ms calls ob) = get_member ms j ob" by blast+
qed

text \<open>After a list of calls a getter returns what the last call on its member set.\<close>

lemma get_last_set:
  assumes "has_members ms ob" and "0 < i"
    and "list_all (\<lambda>s. 0 < setter_field s \<and> setter_field s \<le> length ms) (xs @ Set_f i v # ys)"
    and "list_all (\<lambda>s. setter_field s \<noteq> i) ys"
  shows "get_member ms (i - 1) (run_setters tbl mdv ms (xs @ Set_f i v # ys) ob) = Inr (OVal v)"
proof -
  let ?ob = "run_setters tbl mdv ms xs ob"
  have i: "i - 1 < length ms" "Suc (i - 1) = i" using assms(2,3) by auto
  have ob: "has_members ms ?ob" using run_setters_member(1) assms(1,3) by simp
  note m = member_accessor [OF i(1)]
  have "get_member ms (i - 1) (set_member ms (i - 1) (OVal v) ?ob) = Inr (OVal v)"
    by (rule accessor.get_set [OF m ob])
  moreover have "has_members ms (set_member ms (i - 1) (OVal v) ?ob)" by (rule accessor.set_valid [OF m ob])
  ultimately show ?thesis
    using run_setters_member(2) [of ms _ ys "i - 1" tbl mdv] assms(3,4) i by (simp add: run_setters_append)
qed

text \<open>And on the other side the getter returns what the parser leaves of it.\<close>

lemma get_received:
  assumes "get_member ms i (layout m) = Inr (OVal v)"
  shows "get_member ms i (layout (received True m)) = Inr (layout_val (received_val True (MVal v)))"
proof -
  have "load (layout_fields off (map (received_val True) vs)) k = Inr (layout_val (received_val True (MVal v)))"
    if "load (layout_fields off vs) k = Inr (OVal v)" for off k vs
    using that
  proof (induction vs arbitrary: off)
    case (Cons x vs)
    then show ?case by (cases x) (auto simp: load_def split: if_splits)
  qed (simp add: load_def)
  then show ?thesis using assms by (cases m) simp
qed

section \<open>What the destructors free\<close>

text \<open>The classes of the objects that the calls allocate.\<close>

fun created :: "setter list \<Rightarrow> nat list" where
  "created [] = []"
| "created (Mutable_f i c body # calls) = c # created body @ created calls"
| "created (_ # calls) = created calls"

text \<open>Each pointer is assigned at most once, with an object of its class; other calls are on members that are
  not pointers.\<close>

fun assigns_once :: "(nat \<times> member list) list \<Rightarrow> member list \<Rightarrow> nat list \<Rightarrow> setter list \<Rightarrow> bool" where
  "assigns_once tbl ms used [] \<longleftrightarrow> True"
| "assigns_once tbl ms used (Mutable_f i c body # calls) \<longleftrightarrow>
     i \<notin> set used \<and> 0 < i \<and> i \<le> length ms \<and> ms ! (i - 1) = Ptr c
       \<and> assigns_once tbl (members_of tbl c) [] body \<and> assigns_once tbl ms (i # used) calls"
| "assigns_once tbl ms used (s # calls) \<longleftrightarrow>
     0 < setter_field s \<and> setter_field s \<le> length ms
       \<and> (case ms ! (setter_field s - 1) of Ptr c \<Rightarrow> False | _ \<Rightarrow> True) \<and> assigns_once tbl ms used calls"

definition freed :: "(nat \<times> member list) list \<Rightarrow> member list \<Rightarrow> (nat \<Rightarrow> ocell) \<Rightarrow> nat multiset" where
  "freed tbl ms g = (\<Sum>i<length ms. mset (destroy_cell tbl (ms ! i) (g i)))"

lemma mset_destroy_members:
  "length cells = length ms \<Longrightarrow>
     mset (destroy_members tbl ms cells) = (\<Sum>i<length ms. mset (destroy_cell tbl (ms ! i) (snd (cells ! i))))"
proof (induction cells ms rule: list_induct2)
  case (Cons x cells m ms)
  then show ?case by (cases x) (simp only: destroy_members.simps mset_append length_Cons sum.lessThan_Suc_shift
      nth_Cons_0 nth_Cons_Suc snd_conv)
qed simp

lemma destroy_obj_of:
  "mset (destroy_members tbl ms (obj_cells (obj_of ms md g))) = freed tbl ms g"
  by (simp add: obj_of_def mset_destroy_members freed_def)

lemma destroy_not_pointer: "(case m of Ptr c \<Rightarrow> False | _ \<Rightarrow> True) \<Longrightarrow> destroy_cell tbl m d = []"
  by (cases m) simp_all

lemma freed_update:
  assumes "j < length ms" and "destroy_cell tbl (ms ! j) (g j) = []"
  shows "freed tbl ms (g(j := c)) = mset (destroy_cell tbl (ms ! j) c) + freed tbl ms g"
proof -
  have "freed tbl ms h = mset (destroy_cell tbl (ms ! j) (h j))
      + (\<Sum>i\<in>{..<length ms} - {j}. mset (destroy_cell tbl (ms ! i) (h i)))" for h
    unfolding freed_def using assms(1) by (intro sum.remove) simp_all
  from this [of "g(j := c)"] this [of g] show ?thesis using assms(2) by simp
qed

lemma add_member_obj_of_any:
  assumes "j < length ms"
  shows "add_member ms j w (obj_of ms md g)
    = obj_of ms md (g(j := case g j of OVal v \<Rightarrow> OVal (push_back w v) | OPtr p \<Rightarrow> OPtr p))"
  using assms by (auto simp: obj_of_def member_offset_nth same_offset)

lemma run_setters_freed:
  assumes "assigns_once tbl ms used calls"
    and "\<And>i. i < length ms \<Longrightarrow> Suc i \<notin> set used \<Longrightarrow> destroy_cell tbl (ms ! i) (g i) = []"
  shows "\<exists>g'. run_setters tbl mdv ms calls (obj_of ms md g) = obj_of ms md g'
    \<and> freed tbl ms g' = freed tbl ms g + mset (created calls)"
  using assms
proof (induction tbl ms used calls arbitrary: md g rule: assigns_once.induct [case_names Nil Mut Set Add])
  case (Mut tbl ms used i c body calls)
  let ?j = "i - 1" and ?sub = "run_setters tbl mdv (members_of tbl c) body (described_object tbl mdv c)"
  have i: "?j < length ms" "Suc ?j = i" "ms ! ?j = Ptr c" "i \<notin> set used" using Mut.prems(1) by auto
  have "destroy_cell tbl m (member_init m) = []" for m by (cases m) simp_all
  then obtain h where h: "?sub = obj_of (members_of tbl c) (mdv (of_nat c)) h"
      "freed tbl (members_of tbl c) h = mset (created body)"
    using Mut.IH(1) [of "\<lambda>i. member_init (members_of tbl c ! i)" "mdv (of_nat c)"] Mut.prems(1)
    by (auto simp: described_obj_of freed_def)
  have "destroy tbl c ?sub = destroy_members tbl (members_of tbl c) (obj_cells ?sub)" by (cases ?sub) simp
  then have sub: "mset (destroy tbl c ?sub) = mset (created body)" using h by (simp add: destroy_obj_of)
  have free: "destroy_cell tbl (ms ! ?j) (g ?j) = []" using Mut.prems(2) [OF i(1)] i by simp
  have "destroy_cell tbl (ms ! k) ((g(?j := OPtr (Some ?sub))) k) = []"
    if "k < length ms" "Suc k \<notin> set (i # used)" for k
    using that Mut.prems(2) [of k] i(2) by auto
  note rest = this
  obtain g' where g': "run_setters tbl mdv ms calls (obj_of ms md (g(?j := OPtr (Some ?sub)))) = obj_of ms md g'"
      "freed tbl ms g' = freed tbl ms (g(?j := OPtr (Some ?sub))) + mset (created calls)"
  proof (atomize_elim, rule Mut.IH(2))
    show "assigns_once tbl ms (i # used) calls" using Mut.prems(1) by simp
  qed (rule rest)
  have "run_setters tbl mdv ms (Mutable_f i c body # calls) (obj_of ms md g) = obj_of ms md g'"
    using g'(1) i(1) by (simp add: set_sub_def set_member_obj_of)
  then show ?case using g'(2) freed_update [of ?j ms tbl g, OF i(1) free] sub i(3) by (intro exI [of _ g']) simp
next
  case (Set tbl ms used i v calls)
  let ?g = "g(i - 1 := OVal v)"
  have i: "i - 1 < length ms" "destroy_cell tbl (ms ! (i - 1)) d = []" for d
    using Set.prems(1) destroy_not_pointer by auto
  have "destroy_cell tbl (ms ! k) (?g k) = []" if "k < length ms" "Suc k \<notin> set used" for k
    using Set.prems(2) [OF that] i(2) by simp
  note rest = this
  have "freed tbl ms (?g) = freed tbl ms g"
    using freed_update [of "i - 1" ms tbl g "OVal v"] i by simp
  moreover have "\<exists>g'. run_setters tbl mdv ms calls (obj_of ms md (?g)) = obj_of ms md g'
      \<and> freed tbl ms g' = freed tbl ms (?g) + mset (created calls)"
    by (rule Set.IH [OF _ rest]) (use Set.prems(1) in simp_all)
  ultimately show ?case using i(1) by (simp add: set_member_obj_of)
next
  case (Add tbl ms used i v calls)
  let ?c = "case g (i - 1) of OVal w \<Rightarrow> OVal (push_back v w) | OPtr p \<Rightarrow> OPtr p"
  have i: "i - 1 < length ms" "destroy_cell tbl (ms ! (i - 1)) d = []" for d
    using Add.prems(1) destroy_not_pointer by auto
  have "destroy_cell tbl (ms ! k) ((g(i - 1 := ?c)) k) = []" if "k < length ms" "Suc k \<notin> set used" for k
    using Add.prems(2) [OF that] i(2) by simp
  note rest = this
  have "freed tbl ms (g(i - 1 := ?c)) = freed tbl ms g"
    using freed_update [of "i - 1" ms tbl g "?c"] i by simp
  moreover have "\<exists>g'. run_setters tbl mdv ms calls (obj_of ms md (g(i - 1 := ?c))) = obj_of ms md g'
      \<and> freed tbl ms g' = freed tbl ms (g(i - 1 := ?c)) + mset (created calls)"
    by (rule Add.IH [OF _ rest]) (use Add.prems(1) in simp_all)
  ultimately show ?case using i(1) by (simp add: add_member_obj_of_any)
qed auto

text \<open>The destructor of a message frees exactly the objects allocated for it, each once.\<close>

lemma filled_message_freed:
  assumes "assigns_once tbl (members_of tbl c) [] calls"
  shows "mset (destroy tbl c (filled_message tbl mdv c calls)) = mset (created calls)"
proof -
  have "destroy_cell tbl m (member_init m) = []" for m by (cases m) simp_all
  then obtain g where g: "filled_message tbl mdv c calls = obj_of (members_of tbl c) (mdv (of_nat c)) g"
      "freed tbl (members_of tbl c) g = mset (created calls)"
    using run_setters_freed [OF assms, of "\<lambda>i. member_init (members_of tbl c ! i)" mdv "mdv (of_nat c)"]
    by (auto simp: filled_message_def described_obj_of freed_def)
  have "destroy tbl c ob = destroy_members tbl (members_of tbl c) (obj_cells ob)" for ob by (cases ob) simp
  then show ?thesis using g by (simp add: destroy_obj_of)
qed

lemma destroy_new_object: "destroy tbl c (new_object ms) = []"
proof -
  have "destroy_members tbl ks (place off ms) = []" for ks off
  proof (induction off ms arbitrary: ks rule: place.induct)
    case (2 off m ms)
    then show ?case by (cases ks; cases m) (auto elim: destroy_cell.elims)
  qed (case_tac ks; simp)
  then show ?thesis by (simp add: new_object_def)
qed

section \<open>Messages without a repeated class\<close>

text \<open>What \<open>consistent\<close> asks of each object by itself.\<close>

fun slots_fit :: "msg \<Rightarrow> bool"
  and slots_fit_val :: "mval \<Rightarrow> bool" where
  "slots_fit (Msg md vs) \<longleftrightarrow> unat (class_id md) < 65536 \<and> length vs = length (md_fields md)
     \<and> distinct (map (unat \<circ> snd) (md_fields md)) \<and> list_all (\<lambda>f. unat (snd f) < fpga_fields) (md_fields md)
     \<and> list_all slots_fit_val vs"
| "slots_fit_val (MVal c) \<longleftrightarrow> strings_fit c"
| "slots_fit_val (MSub m) \<longleftrightarrow> slots_fit m"

fun objects :: "msg \<Rightarrow> (u32 \<times> msg) list"
  and objects_val :: "mval \<Rightarrow> (u32 \<times> msg) list" where
  "objects (Msg md vs) = (class_id md, Msg md vs) # concat (map objects_val vs)"
| "objects_val (MVal c) = []"
| "objects_val (MSub m) = objects m"

lemma classes_of_objects: "map fst (objects m) = msg_classes m" "map fst (objects_val v) = val_classes v"
  by (induction m and v rule: objects_objects_val.induct) (simp_all add: map_concat comp_def cong: map_cong)

text \<open>The signature of a message, read from its objects.\<close>

definition signature_of :: "msg \<Rightarrow> signature" where
  "signature_of m c i = (case map_of (objects m) c of
      None \<Rightarrow> (True, None)
    | Some ob \<Rightarrow> (case map_of (zip (map (unat \<circ> snd) (md_fields (msg_metadata ob))) (msg_vals ob)) i of
        None \<Rightarrow> (True, None) | Some v \<Rightarrow> slot_sig v))"

lemma signature_of_object:
  assumes "map_of (objects m) (class_id md) = Some (Msg md vs)" and "slots_fit (Msg md vs)"
  shows "list_all2 (slot_ok (signature_of m) (class_id md)) (md_fields md) vs"
proof (rule list_all2_all_nthI)
  show n: "length (md_fields md) = length vs" using assms(2) by simp
  fix i assume i: "i < length (md_fields md)"
  let ?ids = "map (unat \<circ> snd) (md_fields md)"
  have "map_of (zip ?ids vs) (?ids ! i) = Some (vs ! i)"
    using assms(2) i n by (intro map_of_zip_nth) simp_all
  then have "signature_of m (class_id md) (unat (snd (md_fields md ! i))) = slot_sig (vs ! i)"
    using assms(1) i by (simp add: signature_of_def comp_def)
  moreover have "slots_fit_val (vs ! i)" "unat (snd (md_fields md ! i)) < fpga_fields"
    using assms(2) i n by (simp_all add: list_all_length)
  moreover have "slots_fit_val v \<Longrightarrow> case v of MVal x \<Rightarrow> strings_fit x | MSub y \<Rightarrow> True" for v
    by (cases v) simp_all
  ultimately show "slot_ok (signature_of m) (class_id md) (md_fields md ! i) (vs ! i)"
    by (simp only: slot_ok_def simp_thms)
qed

lemma distinct_consistent:
  assumes "distinct (msg_classes m)" and "slots_fit m"
  shows "consistent (signature_of m) m"
proof -
  have "consistent (signature_of m) x"
    if "\<And>c ob. (c, ob) \<in> set (objects x) \<Longrightarrow> map_of (objects m) c = Some ob" and "slots_fit x" for x
    using that
  proof (induction x rule: msg_induct)
    case (Msg md vs)
    have "consistent_val (signature_of m) v" if v: "v \<in> set vs" for v
    proof (cases v)
      case (MSub y)
      have "map_of (objects m) c = Some ob" if "(c, ob) \<in> set (objects y)" for c ob
      proof (rule Msg.prems(1))
        show "(c, ob) \<in> set (objects (Msg md vs))" using v MSub that by force
      qed
      moreover have "slots_fit y" using Msg.prems(2) v MSub by (auto simp: list_all_iff)
      ultimately show ?thesis using Msg.IH v MSub by simp
    qed simp
    moreover have "map_of (objects m) (class_id md) = Some (Msg md vs)" by (rule Msg.prems(1)) simp
    then have "list_all2 (slot_ok (signature_of m) (class_id md)) (md_fields md) vs"
      using Msg.prems(2) by (rule signature_of_object)
    ultimately show ?case using Msg.prems(2) by (simp add: list_all_iff)
  qed
  moreover have "distinct (map fst (objects m))" using assms(1) classes_of_objects(1) by simp
  ultimately show ?thesis using assms(2) by (metis map_of_eq_Some_iff)
qed

section \<open>What a list of calls has to meet\<close>

text \<open>Sizes of the values: strings below 2 to the 20, vectors of at most \<open>n\<close> elements.\<close>

fun bounded_val :: "nat \<Rightarrow> cval \<Rightarrow> bool" where
  "bounded_val n (VStr s) \<longleftrightarrow> length s < 2 ^ 20"
| "bounded_val n (R32 vs) \<longleftrightarrow> length vs \<le> n" | "bounded_val n (R64 ws) \<longleftrightarrow> length ws \<le> n"
| "bounded_val n (R8 bs) \<longleftrightarrow> length bs \<le> n" | "bounded_val n (RFloat fs) \<longleftrightarrow> length fs \<le> n"
| "bounded_val n (RStr ss) \<longleftrightarrow> length ss \<le> n \<and> list_all (\<lambda>s. length s < 2 ^ 20) ss"
| "bounded_val n _ \<longleftrightarrow> True"

fun vector_kind :: "cval \<Rightarrow> kind option" where
  "vector_kind (V32 _) = Some KR32" | "vector_kind (V64 _) = Some KR64" | "vector_kind (VStr _) = Some KRStr"
| "vector_kind _ = None"

definition fills :: "nat \<Rightarrow> setter list \<Rightarrow> bool" where
  "fills n calls \<longleftrightarrow> length calls \<le> 1000 \<and> list_all (\<lambda>i. list_ex (\<lambda>s. setter_field s = Suc i) calls) [0..<n]"

fun calls_ok :: "(u32 \<times> (sw_type \<times> u8) list) list \<Rightarrow> (sw_type \<times> u8) list \<Rightarrow> setter list \<Rightarrow> bool" where
  "calls_ok rows fs [] \<longleftrightarrow> True"
| "calls_ok rows fs (Set_f i v # calls) \<longleftrightarrow>
     0 < i \<and> i \<le> length fs \<and> cval_kind v \<noteq> None \<and> kind_of (fst (fs ! (i - 1))) = cval_kind v \<and> bounded_val 0 v
       \<and> calls_ok rows fs calls"
| "calls_ok rows fs (Add_f i v # calls) \<longleftrightarrow>
     0 < i \<and> i \<le> length fs \<and> vector_kind v \<noteq> None \<and> kind_of (fst (fs ! (i - 1))) = vector_kind v \<and> bounded_val 0 v
       \<and> calls_ok rows fs calls"
| "calls_ok rows fs (Mutable_f i c body # calls) \<longleftrightarrow>
     0 < i \<and> i \<le> length fs \<and> kind_of (fst (fs ! (i - 1))) = Some KPtr \<and> c < 1000
       \<and> (case map_of rows (of_nat c) of None \<Rightarrow> False
          | Some gs \<Rightarrow> calls_ok rows gs body \<and> fills (length gs) body)
       \<and> calls_ok rows fs calls"

fun call_classes :: "setter list \<Rightarrow> u32 list" where
  "call_classes [] = []"
| "call_classes (Mutable_f i c body # calls) = of_nat c # call_classes body @ call_classes calls"
| "call_classes (_ # calls) = call_classes calls"

lemma calls_ok_fields:
  "calls_ok rows fs calls \<Longrightarrow> list_all (\<lambda>s. 0 < setter_field s \<and> setter_field s \<le> length fs) calls"
  by (induction rows fs calls rule: calls_ok.induct) auto

definition message_ok :: "(u32 \<times> (sw_type \<times> u8) list) list \<Rightarrow> nat \<Rightarrow> setter list \<Rightarrow> bool" where
  "message_ok rows c calls \<longleftrightarrow> c < 1000
     \<and> (case map_of rows (of_nat c) of None \<Rightarrow> False | Some fs \<Rightarrow> calls_ok rows fs calls \<and> fills (length fs) calls)
     \<and> distinct (of_nat c # call_classes calls)"

lemmas message_checks = message_ok_def fills_def upt_rec

lemma length_concat_le: "(\<And>x. x \<in> set xs \<Longrightarrow> length (f x) \<le> b) \<Longrightarrow> length (concat (map f xs)) \<le> length xs * b"
proof (induction xs)
  case (Cons x xs)
  then show ?case using Cons.prems [of x] by fastforce
qed simp

lemma packed_small:
  assumes "length xs \<le> n" and "n \<le> 1000" and "\<And>x. x \<in> set xs \<Longrightarrow> length (f x) \<le> 1048586"
  shows "length (concat (map f xs)) < 4294967296"
proof -
  have "length (concat (map f xs)) \<le> length xs * 1048586" using assms(3) by (rule length_concat_le)
  also have "\<dots> \<le> 1000 * 1048586" using assms(1,2) by (intro mult_right_mono) simp_all
  finally show ?thesis by simp
qed

lemma element_small:
  "length (enc_u32 v) \<le> 1048586" "length (enc_i32 v) \<le> 1048586" "length (enc_u64 w) \<le> 1048586"
  "length s < 1048576 \<Longrightarrow> length (enc_string s) \<le> 1048586"
  using length_enc_u32 [of v] length_enc_i32 [of v] length_enc_u64 [of w] length_enc_u32 [of "of_nat (length s)"]
  by (simp_all add: enc_string_def)

lemma bounded_packed:
  assumes "bounded_val n c" and "n \<le> 1000"
  shows "length (packed_part c t) < 2 ^ 32"
proof (cases c)
  case (RStr ss)
  then show ?thesis
    using assms by (auto simp: packed_part_def list_all_iff intro!: packed_small [where n = n] element_small(4))
next
  case (R8 bs)
  then have "length (concat (map (\<lambda>b. enc_bool (b \<noteq> 0)) bs)) < 4294967296"
    using assms by (intro packed_small [where n = n]) simp_all
  then show ?thesis using R8 by (simp only: packed_part_def cval.case) simp
qed (use assms in \<open>auto simp: packed_part_def element_small intro!: packed_small [where n = n]\<close>)

lemma bounded_parsable: "bounded_val n c \<Longrightarrow> n \<le> 1000 \<Longrightarrow> parsable t c \<and> strings_fit c"
  using bounded_packed [of n c t]
  by (cases c) (auto simp: parsable_def string_fits_def elim!: list.pred_mono_strong)

section \<open>Filled cells\<close>

definition built :: "(u32 \<Rightarrow> Metadata) \<Rightarrow> u32 list \<Rightarrow> msg \<Rightarrow> bool" where
  "built mdv classes m \<longleftrightarrow> typed mdv classes m \<and> fits True m \<and> slots_fit m \<and> distinct (msg_classes m)"

text \<open>A cell with a value or a sub-message for its field, whose classes are among \<open>D\<close>.\<close>

definition cell_filled ::
  "(u32 \<Rightarrow> Metadata) \<Rightarrow> u32 list \<Rightarrow> nat \<Rightarrow> u32 set \<Rightarrow> sw_type \<times> u8 \<Rightarrow> ocell \<Rightarrow> bool" where
  "cell_filled mdv classes n D f c \<longleftrightarrow>
     (\<exists>v k. c = OVal v \<and> cval_kind v = Some k \<and> kind_of (fst f) = Some k \<and> bounded_val n v)
     \<or> (\<exists>m. c = OPtr (Some (layout m)) \<and> kind_of (fst f) = Some KPtr \<and> built mdv classes m
           \<and> set (msg_classes m) \<subseteq> D)"

definition cell_ok ::
  "(u32 \<Rightarrow> Metadata) \<Rightarrow> u32 list \<Rightarrow> nat \<Rightarrow> u32 set \<Rightarrow> sw_type \<times> u8 \<Rightarrow> ocell \<Rightarrow> bool" where
  "cell_ok mdv classes n D f c \<longleftrightarrow> blank_for (fst f) c \<or> cell_filled mdv classes n D f c"

lemma bounded_mono: "bounded_val n v \<Longrightarrow> n \<le> n' \<Longrightarrow> bounded_val n' v"
  by (cases v) auto

lemma cell_filled_mono:
  "cell_filled mdv classes n D f c \<Longrightarrow> n \<le> n' \<Longrightarrow> D \<subseteq> D' \<Longrightarrow> cell_filled mdv classes n' D' f c"
  unfolding cell_filled_def using bounded_mono by blast

lemma cell_ok_mono: "cell_ok mdv classes n D f c \<Longrightarrow> n \<le> n' \<Longrightarrow> D \<subseteq> D' \<Longrightarrow> cell_ok mdv classes n' D' f c"
  unfolding cell_ok_def using cell_filled_mono by blast

text \<open>The cell of a vector holds a vector, and an element can be added.\<close>

lemma push_filled:
  assumes "cell_ok mdv classes n D f c" and "kind_of (fst f) = vector_kind v" "vector_kind v \<noteq> None" "bounded_val 0 v"
  obtains w where "c = OVal w" "cell_filled mdv classes (Suc n) D f (OVal (push_back v w))"
proof -
  consider (B) "blank_for (fst f) c" | (F) w where "c = OVal w" "kind_of (fst f) = cval_kind w" "bounded_val n w"
    | (P) "kind_of (fst f) = Some KPtr"
    using assms(1) by (auto simp: cell_ok_def cell_filled_def)
  then show thesis
  proof cases
    case B
    then show ?thesis
      using assms(2-4) that by (cases v; cases c) (auto simp: blank_for_def cell_filled_def)
  next
    case F
    then show ?thesis
      using assms(2-4) that by (cases v; cases w) (auto simp: cell_filled_def)
  next
    case P
    then show ?thesis using assms(2,3) by (cases v) auto
  qed
qed

text \<open>The value in a filled cell.\<close>

lemma filled_value:
  assumes "cell_filled mdv classes n D f c" and "n \<le> 1000"
  obtains v where "c = layout_val v" "same_kind f v" "fits_val True f v" "slots_fit_val v" "typed_val mdv classes v"
    "distinct (val_classes v)" "set (val_classes v) \<subseteq> D"
proof -
  consider (V) v k where "c = OVal v" "cval_kind v = Some k" "kind_of (fst f) = Some k" "bounded_val n v"
    | (M) m where "c = OPtr (Some (layout m))" "kind_of (fst f) = Some KPtr" "built mdv classes m"
        "set (msg_classes m) \<subseteq> D"
    using assms(1) unfolding cell_filled_def by blast
  then show thesis
  proof cases
    case V
    then show ?thesis
      using bounded_parsable [OF V(4) assms(2)] by (intro that [of "MVal v"]) (simp_all add: same_kind_def)
  next
    case M
    then show ?thesis by (intro that [of "MSub m"]) (simp_all add: same_kind_def built_def)
  qed
qed

lemma fits_fields_all: "length fs = length vs \<Longrightarrow> fits_fields True fs vs = list_all2 (fits_val True) fs vs"
  by (induction fs vs rule: list_induct2) simp_all

lemma distinct_concat_disjoint:
  "(\<And>i. i < length xss \<Longrightarrow> distinct (xss ! i) \<and> set (xss ! i) \<subseteq> D i) \<Longrightarrow> (\<And>i j. i \<noteq> j \<Longrightarrow> D i \<inter> D j = {}) \<Longrightarrow>
     distinct (concat xss)"
proof (induction xss arbitrary: D)
  case (Cons xs xss)
  have "distinct (concat xss)"
  proof (rule Cons.IH [of "\<lambda>i. D (Suc i)"])
    show "D (Suc i) \<inter> D (Suc j) = {}" if "i \<noteq> j" for i j using that Cons.prems(2) by blast
  next
    fix i assume "i < length xss"
    then show "distinct (xss ! i) \<and> set (xss ! i) \<subseteq> D (Suc i)" using Cons.prems(1) [of "Suc i"] by simp
  qed
  moreover have "set xs \<inter> set ys = {}" if "ys \<in> set xss" for ys
  proof -
    have "\<exists>i < length xss. xss ! i = ys" using that by (simp add: in_set_conv_nth)
    then obtain i where "i < length xss" "ys = xss ! i" by blast
    then have "set ys \<subseteq> D (Suc i)" "set xs \<subseteq> D 0" using Cons.prems(1) [of "Suc i"] Cons.prems(1) [of 0] by auto
    then show ?thesis using Cons.prems(2) [of 0 "Suc i"] by blast
  qed
  ultimately show ?case using Cons.prems(1) [of 0] by auto
qed simp

section \<open>Tables of a generated header\<close>

locale generated_tables =
  fixes tbl :: "(nat \<times> member list) list" and rows :: "(u32 \<times> (sw_type \<times> u8) list) list"
  assumes classes_distinct: "distinct (map fst rows)"
    and classes_ok: "list_all (class_ok tbl) rows"
    and slots_ok: "list_all (\<lambda>r. distinct (map (unat \<circ> snd) (snd r)) \<and> list_all (\<lambda>f. unat (snd f) < fpga_fields) (snd r)) rows"
begin

lemma row:
  assumes "map_of rows (of_nat c) = Some fs" and "c < 1000"
  shows "(of_nat c, fs) \<in> set rows" "list_all2 agrees (members_of tbl c) fs"
    "md_fields (register_rows rows (\<lambda>_. zero_metadata) (of_nat c)) = fs"
    "class_id (register_rows rows (\<lambda>_. zero_metadata) (of_nat c)) = of_nat c"
    "list_all (\<lambda>f. kind_of (fst f) \<noteq> None) fs"
    "distinct (map (unat \<circ> snd) fs)" "list_all (\<lambda>f. unat (snd f) < fpga_fields) fs"
proof -
  show r: "(of_nat c, fs) \<in> set rows" using assms(1) by (rule map_of_SomeD)
  then have ok: "class_ok tbl (of_nat c, fs)" using classes_ok by (auto simp: list_all_iff)
  have u: "unat (of_nat c :: u32) = c" using assms(2) by (intro unat_of_nat_small) simp
  show "list_all2 agrees (members_of tbl c) fs"
    using ok u by (auto simp: class_ok_def members_of_def split: option.splits)
  show "list_all (\<lambda>f. kind_of (fst f) \<noteq> None) fs"
    using ok by (auto simp: class_ok_def elim!: list.pred_mono_strong simp del: not_None_eq)
  show "distinct (map (unat \<circ> snd) fs)" "list_all (\<lambda>f. unat (snd f) < fpga_fields) fs"
    using slots_ok r by (auto simp: list_all_iff)
  have "length fs \<le> wire_type_capacity" using ok by (simp add: class_ok_def)
  note set_class_ok [where mdv = "\<lambda>_. zero_metadata", OF zero_metadata_ok this, of "of_nat c"]
  then show "md_fields (register_rows rows (\<lambda>_. zero_metadata) (of_nat c)) = fs"
      "class_id (register_rows rows (\<lambda>_. zero_metadata) (of_nat c)) = of_nat c"
    unfolding register_rows_row [OF classes_distinct r] by blast+
qed

lemma filled_layout:
  assumes "map_of rows (of_nat c) = Some fs" and "c < 1000" and "n \<le> 1000"
    and "\<And>i. i < length fs \<Longrightarrow>
      cell_filled (register_rows rows (\<lambda>_. zero_metadata)) (map fst rows) n (D i) (fs ! i) (g i)"
    and "\<And>i j. i \<noteq> j \<Longrightarrow> D i \<inter> D j = {}" and "\<And>i. D i \<subseteq> C" and "of_nat c \<notin> C"
  shows "\<exists>m. obj_of (members_of tbl c) (register_rows rows (\<lambda>_. zero_metadata) (of_nat c)) g = layout m
    \<and> built (register_rows rows (\<lambda>_. zero_metadata)) (map fst rows) m \<and> set (msg_classes m) \<subseteq> insert (of_nat c) C"
proof -
  let ?mdv = "register_rows rows (\<lambda>_. zero_metadata)"
  note r = row [OF assms(1,2)]
  have "\<exists>v. g i = layout_val v \<and> same_kind (fs ! i) v \<and> fits_val True (fs ! i) v \<and> slots_fit_val v
      \<and> typed_val ?mdv (map fst rows) v \<and> distinct (val_classes v) \<and> set (val_classes v) \<subseteq> D i" if "i < length fs" for i
    by (rule filled_value [OF assms(4) [OF that] assms(3)]) blast
  then obtain v where v: "\<And>i. i < length fs \<Longrightarrow> g i = layout_val (v i) \<and> same_kind (fs ! i) (v i)
      \<and> fits_val True (fs ! i) (v i) \<and> slots_fit_val (v i) \<and> typed_val ?mdv (map fst rows) (v i)
      \<and> distinct (val_classes (v i)) \<and> set (val_classes (v i)) \<subseteq> D i" by metis
  let ?vs = "map v [0..<length fs]" and ?md = "?mdv (of_nat c)"
  have n: "length (members_of tbl c) = length fs" using r(2) by (rule list_all2_lengthD)
  have kinds: "list_all2 same_kind fs ?vs" "list_all2 (fits_val True) fs ?vs"
    using v by (simp_all add: list_all2_conv_all_nth)
  have "obj_of (members_of tbl c) ?md g = layout (Msg ?md ?vs)"
    using r(2) kinds(1) r(5) by (rule layout_obj_of) (simp add: v n)
  moreover have "distinct (concat (map val_classes ?vs))"
    using v assms(5) by (intro distinct_concat_disjoint [where D = D]) simp_all
  moreover have sub: "set (concat (map val_classes ?vs)) \<subseteq> C" using v assms(6) by fastforce
  moreover have "unat (of_nat c :: u32) < 65536" using assms(2) by (simp add: unat_of_nat_small)
  moreover have "of_nat c \<in> set (map fst rows)" using r(1) by force
  ultimately show ?thesis
    using v r kinds assms(7)
    by (intro exI [of _ "Msg ?md ?vs"]) (simp add: built_def fits_fields_all list_all_length del: set_map, blast)
qed

text \<open>Filling the cells of an object, from a state where each is blank or filled.  \<open>cells_filled\<close> is what
  the calls leave: the fields they name are filled, and those that were filled still are.\<close>

definition cells_filled ::
  "(sw_type \<times> u8) list \<Rightarrow> setter list \<Rightarrow> nat \<Rightarrow> (nat \<Rightarrow> u32 set) \<Rightarrow> (nat \<Rightarrow> ocell) \<Rightarrow> (nat \<Rightarrow> ocell) \<Rightarrow> bool" where
  "cells_filled fs calls n D g g' \<longleftrightarrow> (\<exists>D'. (\<forall>i j. i \<noteq> j \<longrightarrow> D' i \<inter> D' j = {})
     \<and> (\<forall>i. D' i \<subseteq> D i \<union> set (call_classes calls))
     \<and> (\<forall>i < length fs.
        cell_filled (register_rows rows (\<lambda>_. zero_metadata)) (map fst rows) n (D i) (fs ! i) (g i)
          \<or> list_ex (\<lambda>s. setter_field s = Suc i) calls
        \<longrightarrow> cell_filled (register_rows rows (\<lambda>_. zero_metadata)) (map fst rows) (n + length calls) (D' i) (fs ! i) (g' i)))"

lemma cells_filled_step:
  assumes "cells_filled fs calls (Suc n) (D(j := X)) (g(j := c)) g'"
    and "cell_filled (register_rows rows (\<lambda>_. zero_metadata)) (map fst rows) (Suc n) X (fs ! j) c"
    and "setter_field s = Suc j" and "X \<union> set (call_classes calls) \<subseteq> D j \<union> set (call_classes (s # calls))"
    and "set (call_classes calls) \<subseteq> set (call_classes (s # calls))"
  shows "cells_filled fs (s # calls) n D g g'"
proof -
  let ?F = "cell_filled (register_rows rows (\<lambda>_. zero_metadata)) (map fst rows)"
  obtain D' where D': "\<forall>i j. i \<noteq> j \<longrightarrow> D' i \<inter> D' j = {}" "\<And>i. D' i \<subseteq> (D(j := X)) i \<union> set (call_classes calls)"
    "\<And>i. i < length fs \<Longrightarrow> ?F (Suc n) ((D(j := X)) i) (fs ! i) ((g(j := c)) i)
        \<or> list_ex (\<lambda>s. setter_field s = Suc i) calls \<Longrightarrow> ?F (Suc n + length calls) (D' i) (fs ! i) (g' i)"
    using assms(1) unfolding cells_filled_def by blast
  have "D' i \<subseteq> D i \<union> set (call_classes (s # calls))" for i
    using D'(2) [of i] assms(4,5) by (cases "i = j") (simp_all, blast+)
  moreover have "?F (n + length (s # calls)) (D' i) (fs ! i) (g' i)"
    if "i < length fs" "?F n (D i) (fs ! i) (g i) \<or> list_ex (\<lambda>s. setter_field s = Suc i) (s # calls)" for i
  proof -
    have "?F (Suc n) ((D(j := X)) i) (fs ! i) ((g(j := c)) i) \<or> list_ex (\<lambda>s. setter_field s = Suc i) calls"
      using that(2) assms(2,3) cell_filled_mono [of _ _ n "D i" "fs ! i" "g i" "Suc n" "D i"] by (cases "i = j") auto
    then show ?thesis using D'(3) [OF that(1)] by simp
  qed
  ultimately show ?thesis using D'(1) unfolding cells_filled_def by blast
qed

lemma cells_filled_same:
  assumes "cells_filled fs calls (Suc n) D (g(j := c)) g'"
    and "cell_filled (register_rows rows (\<lambda>_. zero_metadata)) (map fst rows) (Suc n) (D j) (fs ! j) c"
    and "setter_field s = Suc j" and "call_classes (s # calls) = call_classes calls"
  shows "cells_filled fs (s # calls) n D g g'"
  by (rule cells_filled_step [where j = j and X = "D j"]) (use assms in simp_all)

lemma all_filled:
  assumes "cells_filled fs calls 0 (\<lambda>_. {}) g g'" and "fills (length fs) calls"
  obtains D' where "\<And>i j. i \<noteq> j \<Longrightarrow> D' i \<inter> D' j = {}" "\<And>i. D' i \<subseteq> set (call_classes calls)"
    "\<And>i. i < length fs \<Longrightarrow>
      cell_filled (register_rows rows (\<lambda>_. zero_metadata)) (map fst rows) (length calls) (D' i) (fs ! i) (g' i)"
proof -
  have "list_ex (\<lambda>s. setter_field s = Suc i) calls" if "i < length fs" for i
    using assms(2) that by (simp add: fills_def list_all_iff)
  then show thesis using assms(1) that unfolding cells_filled_def by force
qed

text \<open>The object that results, once its calls are known to fill the cells.\<close>

lemma object_built:
  assumes "map_of rows (of_nat c) = Some fs" and "c < 1000" and "fills (length fs) calls"
    and "of_nat c \<notin> set (call_classes calls)"
    and "\<exists>g'. run_setters tbl (register_rows rows (\<lambda>_. zero_metadata)) (members_of tbl c) calls
          (obj_of (members_of tbl c) (register_rows rows (\<lambda>_. zero_metadata) (of_nat c)) g)
        = obj_of (members_of tbl c) (register_rows rows (\<lambda>_. zero_metadata) (of_nat c)) g'
      \<and> cells_filled fs calls 0 (\<lambda>_. {}) g g'"
  shows "\<exists>m. run_setters tbl (register_rows rows (\<lambda>_. zero_metadata)) (members_of tbl c) calls
        (obj_of (members_of tbl c) (register_rows rows (\<lambda>_. zero_metadata) (of_nat c)) g) = layout m
    \<and> built (register_rows rows (\<lambda>_. zero_metadata)) (map fst rows) m
    \<and> set (msg_classes m) \<subseteq> insert (of_nat c) (set (call_classes calls))"
proof -
  obtain g' where g': "run_setters tbl (register_rows rows (\<lambda>_. zero_metadata)) (members_of tbl c) calls
        (obj_of (members_of tbl c) (register_rows rows (\<lambda>_. zero_metadata) (of_nat c)) g)
      = obj_of (members_of tbl c) (register_rows rows (\<lambda>_. zero_metadata) (of_nat c)) g'"
    "cells_filled fs calls 0 (\<lambda>_. {}) g g'" using assms(5) by blast
  obtain D' where D': "\<And>i j. i \<noteq> j \<Longrightarrow> D' i \<inter> D' j = {}" "\<And>i. D' i \<subseteq> set (call_classes calls)"
    "\<And>i. i < length fs \<Longrightarrow>
      cell_filled (register_rows rows (\<lambda>_. zero_metadata)) (map fst rows) (length calls) (D' i) (fs ! i) (g' i)"
    using all_filled [OF g'(2) assms(3)] by blast
  have "length calls \<le> 1000" using assms(3) by (simp add: fills_def)
  then show ?thesis using filled_layout [OF assms(1,2) _ D'(3,1,2) assms(4)] g'(1) by simp
qed

lemma blank_cells_ok:
  assumes "map_of rows (of_nat c) = Some fs" and "c < 1000" and "i < length fs"
  shows "cell_ok (register_rows rows (\<lambda>_. zero_metadata)) (map fst rows) 0 {} (fs ! i)
    (member_init (members_of tbl c ! i))"
  using row(2) [OF assms(1,2)] assms(3) by (simp add: cell_ok_def list_all2_conv_all_nth agrees_def)

lemma run_setters_cells:
  assumes "calls_ok rows fs calls" and "length ms = length fs" and "distinct (call_classes calls)"
    and "\<And>i. i < length fs \<Longrightarrow>
      cell_ok (register_rows rows (\<lambda>_. zero_metadata)) (map fst rows) n (D i) (fs ! i) (g i)"
    and "\<And>i j. i \<noteq> j \<Longrightarrow> D i \<inter> D j = {}" and "\<And>i. D i \<inter> set (call_classes calls) = {}"
  shows "\<exists>g'. run_setters tbl (register_rows rows (\<lambda>_. zero_metadata)) ms calls (obj_of ms md g) = obj_of ms md g'
    \<and> cells_filled fs calls n D g g'"
  using assms
proof (induction calls arbitrary: fs ms md n D g rule: call_classes.induct [case_names Nil Mut Set Add])
  case Nil
  then show ?case
    by (intro exI [of _ g]) (auto simp: cells_filled_def intro!: exI [of _ D])
next
  case (Mut i c body calls)
  let ?mdv = "register_rows rows (\<lambda>_. zero_metadata)" and ?j = "i - 1"
  let ?F = "cell_filled ?mdv (map fst rows)" and ?K = "cell_ok ?mdv (map fst rows)"
  obtain gs where gs: "map_of rows (of_nat c) = Some gs" "calls_ok rows gs body" "fills (length gs) body"
    using Mut.prems(1) by (auto split: option.splits)
  have i: "0 < i" "?j < length fs" "c < 1000" "kind_of (fst (fs ! ?j)) = Some KPtr" "calls_ok rows fs calls"
    using Mut.prems(1) by auto
  note r = row [OF gs(1) i(3)]
  have len: "length (members_of tbl c) = length gs" using r(2) by (rule list_all2_lengthD)
  have d: "distinct (call_classes body)" "distinct (call_classes calls)" "of_nat c \<notin> set (call_classes body)"
      "(insert (of_nat c) (set (call_classes body))) \<inter> set (call_classes calls) = {}"
    using Mut.prems(3) by auto
  have "\<exists>g'. run_setters tbl ?mdv (members_of tbl c) body
        (obj_of (members_of tbl c) (?mdv (of_nat c)) (\<lambda>i. member_init (members_of tbl c ! i)))
      = obj_of (members_of tbl c) (?mdv (of_nat c)) g'
      \<and> cells_filled gs body 0 (\<lambda>_. {}) (\<lambda>i. member_init (members_of tbl c ! i)) g'"
    using blank_cells_ok [OF gs(1) i(3)] by (intro Mut.IH(1) gs(2) len d(1)) simp_all
  from object_built [OF gs(1) i(3) gs(3) d(3) this]
  obtain m where m: "run_setters tbl ?mdv (members_of tbl c) body (described_object tbl ?mdv c) = layout m"
      "built ?mdv (map fst rows) m" "set (msg_classes m) \<subseteq> insert (of_nat c) (set (call_classes body))"
    by (auto simp: described_obj_of)
  let ?X = "insert (of_nat c) (set (call_classes body))" and ?c = "OPtr (Some (layout m))"
  have new: "?F k ?X (fs ! ?j) ?c" for k
    using m(2,3) i(4) unfolding cell_filled_def by blast
  obtain g' where g': "run_setters tbl ?mdv ms calls (obj_of ms md (g(?j := ?c))) = obj_of ms md g'"
      "cells_filled fs calls (Suc n) (D(?j := ?X)) (g(?j := ?c)) g'"
  proof (atomize_elim, rule Mut.IH(2) [OF i(5) Mut.prems(2) d(2)])
    show "?K (Suc n) ((D(?j := ?X)) i) (fs ! i) ((g(?j := ?c)) i)" if "i < length fs" for i
      using Mut.prems(4) [OF that] new cell_ok_mono [of _ _ n "D i" "fs ! i" "g i" "Suc n" "D i"]
      by (simp add: cell_ok_def)
    show "(D(?j := ?X)) i \<inter> (D(?j := ?X)) i' = {}" if "i \<noteq> i'" for i i'
      using Mut.prems(5) [OF that] Mut.prems(6) [of i] Mut.prems(6) [of i'] that by auto
    show "(D(?j := ?X)) i \<inter> set (call_classes calls) = {}" for i
      using Mut.prems(6) [of i] d(4) by auto
  qed
  moreover have "set_sub ms ?j (layout m) (obj_of ms md g) = obj_of ms md (g(?j := ?c))"
    using i(2) Mut.prems(2) by (simp add: set_sub_def set_member_obj_of)
  moreover have "cells_filled fs (Mutable_f i c body # calls) n D g g'"
    by (rule cells_filled_step [OF g'(2) new]) (use i(1) in auto)
  ultimately show ?case using m(1) g'(1) by auto
next
  case (Set i v calls)
  let ?mdv = "register_rows rows (\<lambda>_. zero_metadata)" and ?j = "i - 1"
  let ?F = "cell_filled ?mdv (map fst rows)" and ?K = "cell_ok ?mdv (map fst rows)"
  have i: "0 < i" "?j < length fs" "calls_ok rows fs calls" using Set.prems(1) by auto
  have new: "?F k X (fs ! ?j) (OVal v)" for k X
    using Set.prems(1) bounded_mono [of 0 v k] by (auto simp: cell_filled_def)
  obtain g' where g': "run_setters tbl ?mdv ms calls (obj_of ms md (g(?j := OVal v))) = obj_of ms md g'"
      "cells_filled fs calls (Suc n) D (g(?j := OVal v)) g'"
  proof (atomize_elim, rule Set.IH [OF i(3) Set.prems(2)])
    show "?K (Suc n) (D i) (fs ! i) ((g(?j := OVal v)) i)" if "i < length fs" for i
      using Set.prems(4) [OF that] new cell_ok_mono [of _ _ n "D i" "fs ! i" "g i" "Suc n" "D i"]
      by (simp add: cell_ok_def)
  qed (use Set.prems(3,5,6) in simp_all)
  have "cells_filled fs (Set_f i v # calls) n D g g'"
    by (rule cells_filled_same [OF g'(2) new]) (use i(1) in simp_all)
  then show ?case using set_member_obj_of [of ?j ms "OVal v" md g] g'(1) i(2) Set.prems(2) by auto
next
  case (Add i v calls)
  let ?mdv = "register_rows rows (\<lambda>_. zero_metadata)" and ?j = "i - 1"
  let ?F = "cell_filled ?mdv (map fst rows)" and ?K = "cell_ok ?mdv (map fst rows)"
  have i: "0 < i" "?j < length fs" "calls_ok rows fs calls" using Add.prems(1) by auto
  have v: "kind_of (fst (fs ! ?j)) = vector_kind v" "vector_kind v \<noteq> None" "bounded_val 0 v"
    using Add.prems(1) by auto
  obtain w where w: "g ?j = OVal w" "?F (Suc n) (D ?j) (fs ! ?j) (OVal (push_back v w))"
    by (rule push_filled [OF Add.prems(4) [OF i(2)] v])
  obtain g' where g': "run_setters tbl ?mdv ms calls (obj_of ms md (g(?j := OVal (push_back v w)))) = obj_of ms md g'"
      "cells_filled fs calls (Suc n) D (g(?j := OVal (push_back v w))) g'"
  proof (atomize_elim, rule Add.IH [OF i(3) Add.prems(2)])
    show "?K (Suc n) (D i) (fs ! i) ((g(?j := OVal (push_back v w))) i)" if "i < length fs" for i
      using Add.prems(4) [OF that] w(2) cell_ok_mono [of _ _ n "D i" "fs ! i" "g i" "Suc n" "D i"]
      by (simp add: cell_ok_def)
  qed (use Add.prems(3,5,6) in simp_all)
  have "cells_filled fs (Add_f i v # calls) n D g g'"
    by (rule cells_filled_same [OF g'(2) w(2)]) (use i(1) in simp_all)
  then show ?case using add_member_obj_of [of ?j ms g w v md] w(1) g'(1) i(2) Add.prems(2) by auto
qed

text \<open>A sample message.\<close>

lemma filled_message_built:
  assumes "message_ok rows c calls"
  shows "\<exists>m. filled_message tbl (register_rows rows (\<lambda>_. zero_metadata)) c calls = layout m
    \<and> typed (register_rows rows (\<lambda>_. zero_metadata)) (map fst rows) m \<and> fits True m
    \<and> consistent (signature_of m) m"
proof -
  obtain fs where fs: "map_of rows (of_nat c) = Some fs" "calls_ok rows fs calls" "fills (length fs) calls"
      "c < 1000" "of_nat c \<notin> set (call_classes calls)" "distinct (call_classes calls)"
    using assms by (auto simp: message_ok_def split: option.splits)
  have "length (members_of tbl c) = length fs" using row(2) [OF fs(1,4)] by (rule list_all2_lengthD)
  then have "\<exists>g'. run_setters tbl (register_rows rows (\<lambda>_. zero_metadata)) (members_of tbl c) calls
        (obj_of (members_of tbl c) (register_rows rows (\<lambda>_. zero_metadata) (of_nat c)) (\<lambda>i. member_init (members_of tbl c ! i)))
      = obj_of (members_of tbl c) (register_rows rows (\<lambda>_. zero_metadata) (of_nat c)) g'
      \<and> cells_filled fs calls 0 (\<lambda>_. {}) (\<lambda>i. member_init (members_of tbl c ! i)) g'"
    using blank_cells_ok [OF fs(1,4)] fs(2,6) by (intro run_setters_cells) simp_all
  from object_built [OF fs(1,4,3,5) this] show ?thesis
    using distinct_consistent by (auto simp: filled_message_def described_obj_of built_def)
qed

end

section \<open>BenchmarkInit\<close>

text \<open>The messages are globals, set once; \<open>messages[idx]\<close> is not checked.\<close>

definition BenchmarkInit_sample ::
  "((u32 \<Rightarrow> Metadata) \<Rightarrow> u32 \<Rightarrow> Metadata) \<Rightarrow> (u32 \<Rightarrow> u64) \<Rightarrow> (nat \<times> member list) list
     \<Rightarrow> (nat \<times> setter list) list \<Rightarrow> nat \<Rightarrow> (u32 \<Rightarrow> Metadata) \<Rightarrow> (u32 \<Rightarrow> u64)
     \<Rightarrow> (obj \<times> (u32 \<Rightarrow> Metadata) \<times> (u32 \<Rightarrow> u64)) result" where
  "BenchmarkInit_sample register message_size tbl sets idx mdv msv =
     (let mdv = register mdv;
          msv = init_sizes message_size msv;
          messages = map (\<lambda>(c, calls). filled_message tbl mdv c calls) sets
      in if idx < length messages then Inr (messages ! idx, mdv, msv) else Inl Overrun)"

section \<open>From BenchmarkInit to the message rebuilt\<close>

sublocale generated_tables \<subseteq> registry: class_registry "register_rows rows (\<lambda>_. zero_metadata)"
    "init_sizes (table_size tbl) (\<lambda>_. 0)" "table_create tbl" "map fst rows"
  by (rule table_registry [OF classes_distinct classes_ok])

context generated_tables
begin

lemma filled_message_get:
  assumes "message_ok rows c (xs @ Set_f i v # ys)" and "list_all (\<lambda>s. setter_field s \<noteq> i) ys"
  shows "get_member (members_of tbl c) (i - 1) (filled_message tbl mdv c (xs @ Set_f i v # ys)) = Inr (OVal v)"
proof -
  obtain fs where fs: "map_of rows (of_nat c) = Some fs" "calls_ok rows fs (xs @ Set_f i v # ys)" "c < 1000"
    using assms(1) by (auto simp: message_ok_def split: option.splits)
  have "length (members_of tbl c) = length fs" using row(2) [OF fs(1,3)] by (rule list_all2_lengthD)
  then have "list_all (\<lambda>s. 0 < setter_field s \<and> setter_field s \<le> length (members_of tbl c)) (xs @ Set_f i v # ys)"
    using calls_ok_fields [OF fs(2)] by simp
  moreover from this have "0 < i" by simp
  ultimately show ?thesis
    using get_last_set assms(2) has_members_obj_of by (simp add: filled_message_def described_obj_of)
qed

lemma sample_roundtrip:
  assumes "list_all (\<lambda>(c, calls). message_ok rows c calls) sets" and "idx < length sets" and "rows_ok st"
  shows "\<exists>m mdv msv st' out.
      BenchmarkInit_sample (register_rows rows) (table_size tbl) tbl sets idx (\<lambda>_. zero_metadata) (\<lambda>_. 0)
        = Inr (layout m, mdv, msv)
    \<and> layout m = filled_message tbl mdv (fst (sets ! idx)) (snd (sets ! idx))
    \<and> SendMetadataToFPGA (layout m) msv st = Inr st'
    \<and> SerializeToString (layout m) True 0 msv = Inr (out, of_nat (length out), of_nat (length out))
    \<and> ParseFromString (depth m) out (blank_of (table_create tbl) zero_metadata (class_id (msg_metadata m)))
        (ucast (class_id (msg_metadata m)))
        \<lparr>metadataVec = mdv, messageSizeVec = msv, FPGA_metadataVec = table st', createMessage = table_create tbl\<rparr>
      = Inr (layout (received True m))"
proof -
  obtain c calls where set: "sets ! idx = (c, calls)" by (cases "sets ! idx")
  then have "message_ok rows c calls" using assms(1,2) by (auto simp: list_all_length)
  from filled_message_built [OF this] obtain m where m:
    "filled_message tbl (register_rows rows (\<lambda>_. zero_metadata)) c calls = layout m"
    "typed (register_rows rows (\<lambda>_. zero_metadata)) (map fst rows) m" "fits True m" "consistent (signature_of m) m"
    by blast
  have "BenchmarkInit_sample (register_rows rows) (table_size tbl) tbl sets idx (\<lambda>_. zero_metadata) (\<lambda>_. 0)
      = Inr (layout m, register_rows rows (\<lambda>_. zero_metadata), init_sizes (table_size tbl) (\<lambda>_. 0))"
    using assms(2) set m(1) by (simp add: BenchmarkInit_sample_def Let_def)
  with registry.send_and_parse [OF m(2,4,3) assms(3), of 0 zero_metadata] m(1) set show ?thesis by auto
qed

text \<open>The receiver's getter against the sender's setter.\<close>

lemma sample_received:
  assumes "list_all (\<lambda>(c, calls). message_ok rows c calls) sets" and "idx < length sets" and "rows_ok st"
    and set: "sets ! idx = (c, xs @ Set_f i v # ys)" and last: "list_all (\<lambda>s. setter_field s \<noteq> i) ys"
  shows "\<exists>m mdv msv st' out.
      BenchmarkInit_sample (register_rows rows) (table_size tbl) tbl sets idx (\<lambda>_. zero_metadata) (\<lambda>_. 0)
        = Inr (layout m, mdv, msv)
    \<and> SendMetadataToFPGA (layout m) msv st = Inr st'
    \<and> SerializeToString (layout m) True 0 msv = Inr (out, of_nat (length out), of_nat (length out))
    \<and> ParseFromString (depth m) out (blank_of (table_create tbl) zero_metadata (class_id (msg_metadata m)))
        (ucast (class_id (msg_metadata m)))
        \<lparr>metadataVec = mdv, messageSizeVec = msv, FPGA_metadataVec = table st', createMessage = table_create tbl\<rparr>
      = Inr (layout (received True m))
    \<and> get_member (members_of tbl c) (i - 1) (layout (received True m)) = Inr (layout_val (received_val True (MVal v)))"
proof -
  have "message_ok rows c (xs @ Set_f i v # ys)" using assms(1,2) set by (auto simp: list_all_length)
  note get = filled_message_get [OF this last]
  obtain m mdv msv st' out where sent:
    "BenchmarkInit_sample (register_rows rows) (table_size tbl) tbl sets idx (\<lambda>_. zero_metadata) (\<lambda>_. 0)
      = Inr (layout m, mdv, msv)"
    "layout m = filled_message tbl mdv (fst (sets ! idx)) (snd (sets ! idx))"
    "SendMetadataToFPGA (layout m) msv st = Inr st'"
    "SerializeToString (layout m) True 0 msv = Inr (out, of_nat (length out), of_nat (length out))"
    "ParseFromString (depth m) out (blank_of (table_create tbl) zero_metadata (class_id (msg_metadata m)))
        (ucast (class_id (msg_metadata m)))
        \<lparr>metadataVec = mdv, messageSizeVec = msv, FPGA_metadataVec = table st', createMessage = table_create tbl\<rparr>
      = Inr (layout (received True m))"
    using sample_roundtrip [OF assms(1-3)] by blast
  have "get_member (members_of tbl c) (i - 1) (layout m) = Inr (OVal v)"
    using get [of mdv] sent(2) by (simp only: set fst_conv snd_conv)
  from get_received [OF this] show ?thesis using sent(1,3,4,5) by blast
qed

end

end
