(* ===== verification/Hyperproto_Messages.thy ===== *)
theory Hyperproto_Messages
  imports Hyperproto Setters
begin

text \<open>
  The sample messages of the HyperProtoBench benchmarks 0, 1, 3 and 4, ten in each
  \<open>include/bench_header/bench<n>_target.inc\<close>, and \<open>BenchmarkInit\<close>.  Each \<open>M<c>_Set_F1\<close> is the list of its calls,
  in order.  The string literals, up to 300 thousand characters long, are an argument: \<open>lit l\<close> is the
  literal on line \<open>l\<close> of the file.  Numbers are converted to the type of the member: floating-point
  constants are given by their bits, enumeration constants by their values.
\<close>

section \<open>Benchmark 0\<close>

definition M1_Set_F1_bench0 :: "(nat \<Rightarrow> bytes) \<Rightarrow> setter list" where
  "M1_Set_F1_bench0 lit =
     [Set_f 7 (V64 0x68DA2AB20E661A), Mutable_f 6 3 [Set_f 1 (V64 0x2BD5)], Set_f 5 (V64 695),
      Set_f 8 (V64 971), Set_f 10 (VBool True), Set_f 15 (VDouble 0x3FE516872B020C4A),
      Set_f 12 (V32 110), Mutable_f 16 7 [Set_f 4 (VBool True), Set_f 1 (VStr (lit 998)),
      Set_f 2 (VStr (lit 999)), Set_f 3 (VBool True)], Set_f 11 (V64 83), Set_f 9 (V32 86),
      Set_f 3 (V64 0x3E9F), Set_f 4 (V32 0x12D8), Set_f 2 (V32 26), Mutable_f 13 4 [Mutable_f 1 5
      [Set_f 1 (V64 441)], Mutable_f 2 6 [Set_f 1 (V64 0x6744446046DE4082)],
      Set_f 3 (V64 0xDE4043FD662C)], Mutable_f 1 2 [Set_f 8 (V64 0x35CD7A93B6417719),
      Set_f 4 (V64 0x2934), Set_f 1 (V64 0x122D1ED6709FA), Set_f 6 (VStr (lit 1020)),
      Set_f 10 (V64 0xEEEB623B2E4004), Set_f 7 (VStr (lit 1022)), Set_f 3 (V64 0x6A1E366276FC2E),
      Set_f 2 (VStr (lit 1024)), Set_f 9 (VStr (lit 1025)), Set_f 5 (VStr (lit 1026))],
      Set_f 14 (V64 0xFFFFFFFFFFFFFFFF), Mutable_f 17 8 [Set_f 1 (VStr (lit 1030)), Mutable_f 2 9
      [Set_f 4 (VStr (lit 1033)), Set_f 2 (VBool False), Add_f 3 (VStr (lit 1035)),
      Set_f 1 (V64 0x234A8380F84A2BE8)], Set_f 3 (VBool False), Set_f 4 (V64 0x5A63FA6)]]"

definition M10_Set_F1_bench0 :: "(nat \<Rightarrow> bytes) \<Rightarrow> setter list" where
  "M10_Set_F1_bench0 lit =
     [Set_f 1 (V32 0xD3F), Set_f 8 (V64 382), Set_f 9 (V32 0x13DE), Mutable_f 3 13
      [Set_f 5 (VBool False), Set_f 4 (V32 840), Set_f 1 (VStr (lit 876)), Set_f 3 (V32 339),
      Set_f 2 (V64 314)], Set_f 10 (V64 577), Set_f 4 (V64 0x5B20D9D571C62550), Mutable_f 5 14
      [Set_f 3 (VBool True), Set_f 2 (VDouble 0x3FD1A9FBE76C8B44), Set_f 1 (V64 0x2EBB),
      Set_f 4 (V64 0xF7F0B9A28784BA)], Set_f 6 (VStr (lit 887)), Set_f 7 (V64 0xE73), Mutable_f 2 11
      [Mutable_f 1 12 [Set_f 1 (V32 0x1515), Set_f 2 (V32 0x3653)], Set_f 2 (VStr (lit 895))]]"

definition M15_Set_F1_bench0 :: "(nat \<Rightarrow> bytes) \<Rightarrow> setter list" where
  "M15_Set_F1_bench0 lit =
     [Set_f 5 (VStr (lit 925)), Set_f 6 (V64 0xE5917FB98EAEF6), Mutable_f 12 20
      [Set_f 1 (V64 0xE1575EE8C7DCFF), Set_f 2 (V64 0x2A0C)], Set_f 4 (VBool True),
      Set_f 7 (VBool True), Set_f 11 (VStr (lit 933)), Mutable_f 10 17 [Set_f 3 (V64 0x820),
      Mutable_f 2 19 [Set_f 1 (V64 0x58021E8784C539)], Mutable_f 1 18 [Set_f 1 (VStr (lit 942))]],
      Set_f 1 (VStr (lit 943)), Set_f 8 (VStr (lit 944)), Set_f 13 (VBool False),
      Set_f 3 (VStr (lit 946)), Set_f 2 (V32 342), Mutable_f 9 16 [Set_f 7 (V64 0xC9287B43921B4F),
      Set_f 5 (V64 0x17217447812306B2), Add_f 3 (VStr (lit 952)), Set_f 1 (V32 906),
      Set_f 2 (VStr (lit 954)), Set_f 4 (VStr (lit 955)), Set_f 6 (VStr (lit 956))]]"

definition M21_Set_F1_bench0 :: "(nat \<Rightarrow> bytes) \<Rightarrow> setter list" where
  "M21_Set_F1_bench0 lit =
     [Mutable_f 5 22 [Set_f 11 (V64 0xEFAD92BCDD370B), Set_f 3 (V32 0x38F3),
      Set_f 6 (V32 0xFFFFFFFF), Set_f 10 (VStr (lit 1073)), Set_f 1 (V64 0xB5DB73DFCA42F13),
      Set_f 12 (VStr (lit 1075)), Set_f 9 (VStr (lit 1076)), Set_f 5 (V64 0x99C41423FDD905),
      Set_f 4 (V64 799), Set_f 2 (V64 0x690E930CA00251EA), Add_f 8 (VStr (lit 1080)),
      Add_f 8 (VStr (lit 1081)), Add_f 8 (VStr (lit 1082)), Set_f 7 (V64 0x322C)], Mutable_f 7 23
      [Set_f 1 (V64 0x1DF8C30278D49F), Mutable_f 2 24 [Set_f 4 (VStr (lit 1089)),
      Set_f 10 (V64 997), Set_f 11 (V64 0x7A504884566DB9D2), Set_f 6 (V64 0x159A),
      Set_f 5 (VStr (lit 1093)), Set_f 1 (VStr (lit 1094)), Set_f 9 (VStr (lit 1095)),
      Set_f 2 (VStr (lit 1096)), Set_f 8 (V64 0x25A9BE70B91DF8), Set_f 12 (V64 0x1CD28D),
      Set_f 3 (VBool True), Set_f 7 (V64 611)]], Set_f 11 (V64 0xC840CE1C0DA3B),
      Set_f 14 (VStr (lit 1102)), Set_f 4 (VStr (lit 1103)), Set_f 1 (V64 705),
      Add_f 13 (VStr (lit 1105)), Set_f 9 (V32 68), Set_f 10 (V64 0x1AF8AB389920E),
      Set_f 8 (VStr (lit 1108)), Set_f 6 (V64 692), Set_f 2 (V64 0x191B6), Set_f 3 (V64 294),
      Set_f 12 (V32 0x40A)]"

definition M25_Set_F1_bench0 :: "(nat \<Rightarrow> bytes) \<Rightarrow> setter list" where
  "M25_Set_F1_bench0 lit =
     [Set_f 2 (V64 18), Set_f 13 (V32 79), Set_f 8 (VStr (lit 1144)), Set_f 3 (V64 465),
      Mutable_f 6 26 [Mutable_f 3 27 [Set_f 1 (VStr (lit 1150))], Set_f 2 (V32 110),
      Set_f 1 (V64 897)], Set_f 1 (V32 514), Set_f 7 (VBool False), Set_f 11 (VBool False),
      Set_f 9 (VStr (lit 1156)), Set_f 4 (VDouble 0x3FAB22D0E5604189), Set_f 5 (VStr (lit 1158)),
      Mutable_f 12 28 [Set_f 1 (VStr (lit 1161)), Set_f 4 (V64 0x5FF077B97B946D6B),
      Set_f 8 (V32 226), Set_f 10 (VBool True), Set_f 9 (VStr (lit 1165)), Set_f 7 (V32 26),
      Set_f 5 (V64 0x11BF13185CAB5F4B), Mutable_f 2 29 [Set_f 3 (V64 401),
      Set_f 7 (V64 0x334C9F47C0235AC), Set_f 5 (VBool False), Set_f 1 (V64 0x638E9BB00F95CA09),
      Set_f 8 (VBool True), Set_f 4 (VBool True), Set_f 6 (V64 0xDABF998BB0E077),
      Set_f 2 (V64 502)], Set_f 3 (V64 0x21867F11F), Set_f 6 (VStr (lit 1179))],
      Set_f 10 (VStr (lit 1180))]"

definition M30_Set_F1_bench0 :: "(nat \<Rightarrow> bytes) \<Rightarrow> setter list" where
  "M30_Set_F1_bench0 lit =
     [Mutable_f 3 34 [Set_f 1 (V64 326)], Set_f 5 (V64 0xF6391E8BD1D830), Set_f 4 (VBool True),
      Set_f 11 (V64 0x1FEE45290FE45), Mutable_f 2 32 [Mutable_f 1 33 [Set_f 2 (V64 130),
      Set_f 3 (V64 517), Set_f 5 (VStr (lit 1222)), Set_f 4 (V32 0x363B), Set_f 1 (V64 0x2508)],
      Set_f 2 (V64 0xFFFFFFFFFFFFFFFF)], Set_f 13 (VStr (lit 1226)), Mutable_f 14 35
      [Set_f 1 (VStr (lit 1229)), Set_f 3 (V32 0x284F), Set_f 8 (VStr (lit 1231)),
      Set_f 6 (VStr (lit 1232)), Add_f 4 (VStr (lit 1233)), Set_f 9 (VStr (lit 1234)),
      Set_f 7 (VStr (lit 1235)), Set_f 2 (VStr (lit 1236)), Set_f 5 (VStr (lit 1237))],
      Set_f 12 (VStr (lit 1238)), Set_f 10 (V64 306), Mutable_f 1 31 [Set_f 1 (V64 886)],
      Set_f 6 (VBool False), Set_f 8 (V64 0x17220581054C9), Set_f 9 (VStr (lit 1245)),
      Add_f 7 (VStr (lit 1246))]"

definition M36_Set_F1_bench0 :: "(nat \<Rightarrow> bytes) \<Rightarrow> setter list" where
  "M36_Set_F1_bench0 lit =
     [Set_f 1 (V64 0xD902E3A8EB6033), Set_f 14 (V64 0x43EEF05B2DD740FF), Set_f 15 (V64 0x3E76),
      Set_f 6 (VBool True), Set_f 4 (V32 0x1039), Set_f 12 (V64 0x474A4EC40BD8694), Mutable_f 13 41
      [Set_f 4 (VStr (lit 1284)), Set_f 5 (VBool False), Set_f 1 (V64 0xA01C4EC3C76ACA),
      Set_f 7 (VStr (lit 1287)), Set_f 2 (VStr (lit 1288)), Set_f 3 (V64 0x3F36),
      Set_f 6 (V32 0x1687)], Mutable_f 8 40 [Set_f 7 (V64 0x107418B4AD401), Set_f 6 (V32 78),
      Set_f 4 (V32 929), Set_f 2 (VStr (lit 1296)), Set_f 5 (V32 0x2407),
      Set_f 1 (V64 0x51C37AFAD686719E), Set_f 3 (VStr (lit 1299)), Set_f 8 (V64 0xA94F6C866F4DD23)],
      Set_f 10 (VBool True), Set_f 5 (V64 0x1CFE05E241449), Set_f 11 (VDouble 0x3FEED0E560418937),
      Set_f 3 (VStr (lit 1304)), Set_f 7 (V64 0x29B8), Set_f 9 (VDouble 0x3FE6D0E560418937),
      Mutable_f 2 37 [Mutable_f 3 39 [Set_f 3 (VStr (lit 1311)), Set_f 4 (V64 0x4C1F6565C9F79C1E),
      Set_f 2 (V64 0xDEFEB655FCA055), Set_f 1 (VDouble 0x3FE526E978D4FDF4)],
      Set_f 1 (V64 0x9179D667888DAF), Mutable_f 2 38 [Set_f 1 (VBool False),
      Set_f 2 (V64 0x50DD0AEAE8C562)]]]"

definition M42_Set_F1_bench0 :: "(nat \<Rightarrow> bytes) \<Rightarrow> setter list" where
  "M42_Set_F1_bench0 lit =
     [Set_f 13 (VStr (lit 1349)), Set_f 8 (V64 0x8C2ECEE89F83D0), Mutable_f 14 47
      [Set_f 1 (V64 0x21F5D603E899D9D9)], Set_f 5 (V64 0x7219BA39604F09), Mutable_f 9 44
      [Set_f 3 (V64 0x2575686272EC7A), Set_f 4 (V64 301), Set_f 2 (V32 49), Set_f 6 (V32 150),
      Set_f 5 (VStr (lit 1361)), Set_f 8 (V64 0x8E48C016AC), Set_f 9 (VStr (lit 1363)),
      Set_f 7 (V32 0x3777), Set_f 1 (V64 0x6714230AED63E529)], Set_f 12 (VBool False),
      Set_f 6 (V64 0xB9DC02CAEA1FB6), Set_f 3 (V64 0x141F9A), Set_f 11 (VDouble 0x3FBB22D0E5604189),
      Set_f 16 (VStr (lit 1370)), Set_f 15 (V64 0x7C2CDB4515D5D911), Mutable_f 7 43
      [Set_f 2 (VStr (lit 1374)), Set_f 10 (V64 0x5D285B3), Set_f 11 (VStr (lit 1376)),
      Add_f 4 (VStr (lit 1377)), Set_f 8 (VStr (lit 1378)), Set_f 3 (V64 0x13D1),
      Set_f 1 (VStr (lit 1380)), Set_f 5 (V64 0x2DEFBABB14899A35), Set_f 6 (V64 127),
      Set_f 7 (V64 963), Set_f 9 (V64 0x2E89)], Set_f 2 (VStr (lit 1385)),
      Set_f 4 (V64 0x19AD89A97359340B), Mutable_f 10 45 [Set_f 1 (V32 0xFFFFFFFF), Mutable_f 2 46
      [Set_f 1 (V32 0x23F6), Set_f 3 (V64 0x31E364685), Set_f 2 (V64 0x9413BC63BD3BE7)]],
      Set_f 1 (VStr (lit 1395))]"

definition M48_Set_F1_bench0 :: "(nat \<Rightarrow> bytes) \<Rightarrow> setter list" where
  "M48_Set_F1_bench0 lit =
     [Mutable_f 6 50 [Set_f 2 (V64 289), Add_f 5 (VStr (lit 1428)),
      Set_f 6 (V64 0x6C41C7DB21DC66FE), Set_f 1 (VStr (lit 1430)), Set_f 4 (V64 0x8D5104CE08546D),
      Mutable_f 3 51 [Set_f 1 (VStr (lit 1434))]], Set_f 3 (V64 0x35A88B4D5FD8A54),
      Set_f 7 (VStr (lit 1436)), Mutable_f 5 49 [Set_f 1 (V64 805)], Set_f 4 (VStr (lit 1440)),
      Set_f 8 (V64 319), Set_f 1 (VStr (lit 1442)), Set_f 2 (VDouble 0x3FE2666666666666)]"

definition M52_Set_F1_bench0 :: "(nat \<Rightarrow> bytes) \<Rightarrow> setter list" where
  "M52_Set_F1_bench0 lit =
     [Set_f 10 (VStr (lit 1473)), Set_f 4 (V32 347), Set_f 1 (V64 0x8BA689AD6251F9),
      Set_f 3 (V64 0x4712498FB03F99AD), Mutable_f 13 56 [Mutable_f 1 57 [Set_f 3 (VStr (lit 1481)),
      Set_f 4 (V64 0x4642E442CCDDB7C4), Set_f 5 (V64 0x2BFF), Set_f 1 (V64 0xED0),
      Set_f 2 (V32 92)], Set_f 2 (V32 692)], Mutable_f 8 53 [Set_f 1 (V64 0xFFFFFFFFFFFFFFFF)],
      Mutable_f 12 55 [Set_f 1 (V64 588)], Set_f 11 (V64 0x14C38A), Set_f 2 (VStr (lit 1494)),
      Set_f 7 (V64 0x179D), Mutable_f 9 54 [Set_f 1 (V64 0x24095DA98741A140),
      Set_f 4 (V64 0x699A9F1D20A5B41B), Set_f 2 (V64 0x2B57), Set_f 5 (V64 0x3C393DD508F5BA),
      Set_f 6 (VStr (lit 1502)), Set_f 3 (V64 845)], Set_f 5 (V64 0xD0C687E6D03B53),
      Set_f 6 (V64 0x5C5A6ED1C4F933BE)]"

definition messages_bench0 :: "(nat \<Rightarrow> bytes) \<Rightarrow> (nat \<times> setter list) list" where
  "messages_bench0 lit =
     [(1, M1_Set_F1_bench0 lit), (10, M10_Set_F1_bench0 lit), (15, M15_Set_F1_bench0 lit),
      (21, M21_Set_F1_bench0 lit), (25, M25_Set_F1_bench0 lit), (30, M30_Set_F1_bench0 lit),
      (36, M36_Set_F1_bench0 lit), (42, M42_Set_F1_bench0 lit), (48, M48_Set_F1_bench0 lit),
      (52, M52_Set_F1_bench0 lit)]"

definition BenchmarkInit_bench0 ::
  "(nat \<Rightarrow> bytes) \<Rightarrow> nat \<Rightarrow> (u32 \<Rightarrow> Metadata) \<Rightarrow> (u32 \<Rightarrow> u64) \<Rightarrow> (obj \<times> (u32 \<Rightarrow> Metadata) \<times> (u32 \<Rightarrow> u64)) result" where
  "BenchmarkInit_bench0 lit =
     BenchmarkInit_sample RegisterTestClass_bench0 getMessageSize_bench0 bench0_members (messages_bench0 lit)"

lemma slots_bench0:
  "list_all (\<lambda>r. distinct (map (unat \<circ> snd) (snd r)) \<and> list_all (\<lambda>f. unat (snd f) < fpga_fields) (snd r)) bench0_rows"
  by code_simp

interpretation tables0: generated_tables bench0_members bench0_rows
  by (rule generated_tables.intro [OF bench0_rows_ok slots_bench0])

lemma M1_ok_bench0:
  "(\<And>l. length (lit l) < 1048576) \<Longrightarrow> message_ok bench0_rows 1 (M1_Set_F1_bench0 lit)"
  by (simp add: M1_Set_F1_bench0_def bench0_rows_def message_checks)

lemma M10_ok_bench0:
  "(\<And>l. length (lit l) < 1048576) \<Longrightarrow> message_ok bench0_rows 10 (M10_Set_F1_bench0 lit)"
  by (simp add: M10_Set_F1_bench0_def bench0_rows_def message_checks)

lemma M15_ok_bench0:
  "(\<And>l. length (lit l) < 1048576) \<Longrightarrow> message_ok bench0_rows 15 (M15_Set_F1_bench0 lit)"
  by (simp add: M15_Set_F1_bench0_def bench0_rows_def message_checks)

lemma M21_ok_bench0:
  "(\<And>l. length (lit l) < 1048576) \<Longrightarrow> message_ok bench0_rows 21 (M21_Set_F1_bench0 lit)"
  by (simp add: M21_Set_F1_bench0_def bench0_rows_def message_checks)

lemma M25_ok_bench0:
  "(\<And>l. length (lit l) < 1048576) \<Longrightarrow> message_ok bench0_rows 25 (M25_Set_F1_bench0 lit)"
  by (simp add: M25_Set_F1_bench0_def bench0_rows_def message_checks)

lemma M30_ok_bench0:
  "(\<And>l. length (lit l) < 1048576) \<Longrightarrow> message_ok bench0_rows 30 (M30_Set_F1_bench0 lit)"
  by (simp add: M30_Set_F1_bench0_def bench0_rows_def message_checks)

lemma M36_ok_bench0:
  "(\<And>l. length (lit l) < 1048576) \<Longrightarrow> message_ok bench0_rows 36 (M36_Set_F1_bench0 lit)"
  by (simp add: M36_Set_F1_bench0_def bench0_rows_def message_checks)

lemma M42_ok_bench0:
  "(\<And>l. length (lit l) < 1048576) \<Longrightarrow> message_ok bench0_rows 42 (M42_Set_F1_bench0 lit)"
  by (simp add: M42_Set_F1_bench0_def bench0_rows_def message_checks)

lemma M48_ok_bench0:
  "(\<And>l. length (lit l) < 1048576) \<Longrightarrow> message_ok bench0_rows 48 (M48_Set_F1_bench0 lit)"
  by (simp add: M48_Set_F1_bench0_def bench0_rows_def message_checks)

lemma M52_ok_bench0:
  "(\<And>l. length (lit l) < 1048576) \<Longrightarrow> message_ok bench0_rows 52 (M52_Set_F1_bench0 lit)"
  by (simp add: M52_Set_F1_bench0_def bench0_rows_def message_checks)

lemmas bench0_ok =
  M1_ok_bench0 M10_ok_bench0 M15_ok_bench0 M21_ok_bench0 M25_ok_bench0 M30_ok_bench0
  M36_ok_bench0 M42_ok_bench0 M48_ok_bench0 M52_ok_bench0

lemma messages_ok_bench0:
  "(\<And>l. length (lit l) < 1048576) \<Longrightarrow> list_all (\<lambda>(c, calls). message_ok bench0_rows c calls) (messages_bench0 lit)"
  by (simp only: messages_bench0_def list.pred_inject prod.case bench0_ok simp_thms)

lemma length_messages_bench0: "length (messages_bench0 lit) = 10"
  by (simp add: messages_bench0_def)

section \<open>Benchmark 1\<close>

definition M1_Set_F1_bench1 :: "(nat \<Rightarrow> bytes) \<Rightarrow> setter list" where
  "M1_Set_F1_bench1 lit =
     [Set_f 1 (VStr (lit 594)), Set_f 8 (V32 0x1D60), Set_f 11 (V64 0x5ADC17F87),
      Set_f 7 (V64 0x13B4), Set_f 6 (V32 0x2C96), Mutable_f 2 2 [Set_f 1 (VStr (lit 601)),
      Set_f 2 (VStr (lit 602)), Set_f 3 (VStr (lit 603))], Set_f 10 (VBool False),
      Set_f 3 (VStr (lit 605)), Set_f 9 (V64 0xA918195), Set_f 5 (VFloat 0x3EAB851F),
      Set_f 4 (VFloat 0x3E6D9168)]"

definition M3_Set_F1_bench1 :: "(nat \<Rightarrow> bytes) \<Rightarrow> setter list" where
  "M3_Set_F1_bench1 lit =
     [Set_f 2 (V32 0x15EE81), Set_f 6 (VStr (lit 710)), Set_f 10 (VFloat 0x3EB6C8B4),
      Set_f 1 (V32 0x115AC9), Set_f 11 (VStr (lit 713)), Set_f 7 (VStr (lit 714)),
      Set_f 4 (VFloat 0x3F0353F8), Mutable_f 9 4 [Set_f 1 (VFloat 0x3DBA5E35),
      Set_f 2 (V32 0x1243)], Set_f 3 (VStr (lit 720)), Set_f 8 (V32 123),
      Set_f 5 (VFloat 0x3EAC8B44)]"

definition M5_Set_F1_bench1 :: "(nat \<Rightarrow> bytes) \<Rightarrow> setter list" where
  "M5_Set_F1_bench1 lit =
     [Set_f 11 (VBool False), Mutable_f 14 7 [Set_f 2 (VStr (lit 749)), Mutable_f 1 8
      [Set_f 1 (VBool False)]], Set_f 2 (V32 0x267A), Mutable_f 12 6 [Set_f 1 (V32 0xB52)],
      Set_f 10 (VFloat 0x3E9A9FBE), Set_f 13 (V32 0x3ED0), Set_f 5 (VBool False),
      Set_f 9 (V64 0x69971FB78), Set_f 8 (V64 0x55646104), Set_f 4 (V32 0x1E36), Set_f 6 (V64 407),
      Set_f 7 (V32 0x1485), Set_f 1 (V64 0xAD826E1), Set_f 3 (VFloat 0x3F5D70A4)]"

definition M9_Set_F1_bench1 :: "(nat \<Rightarrow> bytes) \<Rightarrow> setter list" where
  "M9_Set_F1_bench1 lit =
     [Set_f 12 (V64 0x38AB), Add_f 1 (V32 0x331B), Set_f 14 (V64 0x1506F8), Set_f 10 (VBool True),
      Set_f 6 (V32 0x370D), Set_f 11 (VFloat 0x3F343958), Set_f 4 (VFloat 0x3F52F1AA),
      Set_f 13 (VFloat 0x3F33F7CF), Set_f 7 (VStr (lit 798)), Set_f 3 (VStr (lit 799)),
      Mutable_f 5 12 [Add_f 1 (V32 0x223A), Add_f 1 (V32 0xBAE13), Add_f 1 (V32 0x1DD05C),
      Add_f 1 (V32 0x16BD), Add_f 1 (V32 0x23A0), Add_f 1 (V32 0x2DF9), Add_f 1 (V32 0x7C5),
      Add_f 1 (V32 0x450), Add_f 1 (V32 0xFFFFFFFF), Add_f 2 (V32 0x1F9DF6),
      Set_f 5 (VFloat 0x3EDFBE77), Set_f 7 (VBool True), Set_f 4 (V32 0xEEA),
      Set_f 3 (VStr (lit 815)), Set_f 6 (V32 0xA73)], Set_f 8 (V32 0x1D0F), Mutable_f 2 10
      [Set_f 2 (V64 0xFFFFFFFFFFFFFFFF), Mutable_f 1 11 [Set_f 3 (VFloat 0x3F428F5C),
      Set_f 2 (VFloat 0x3D591687), Set_f 4 (V32 0x1C43), Set_f 1 (V32 149),
      Set_f 6 (VFloat 0x3E981062), Set_f 5 (V32 0x10F5D6), Set_f 7 (VBool False)]],
      Set_f 9 (VFloat 0x3F00C49C)]"

definition M13_Set_F1_bench1 :: "(nat \<Rightarrow> bytes) \<Rightarrow> setter list" where
  "M13_Set_F1_bench1 lit =
     [Set_f 5 (VStr (lit 436)), Mutable_f 2 14 [Set_f 1 (V32 0x34B5)], Set_f 4 (VStr (lit 440)),
      Set_f 3 (V32 0x1D1BF6), Set_f 6 (VStr (lit 442)), Set_f 9 (V32 0xB7BA95BC),
      Set_f 7 (VBool True), Set_f 1 (VFloat 0x3EFA5E35), Set_f 8 (V64 696)]"

definition M15_Set_F1_bench1 :: "(nat \<Rightarrow> bytes) \<Rightarrow> setter list" where
  "M15_Set_F1_bench1 lit =
     [Mutable_f 2 16 [Set_f 1 (V32 0x3F0F)], Set_f 4 (V32 0x1865), Set_f 3 (V32 0x38DB),
      Set_f 1 (V32 0x1917), Set_f 5 (V32 0x2913)]"

definition M17_Set_F1_bench1 :: "(nat \<Rightarrow> bytes) \<Rightarrow> setter list" where
  "M17_Set_F1_bench1 lit =
     [Set_f 7 (VStr (lit 500)), Set_f 2 (VFloat 0x3EF126E9), Mutable_f 8 18 [Set_f 3 (V32 0x19BD),
      Set_f 4 (V32 0x3DD2), Set_f 5 (V32 76), Set_f 1 (V32 0x4B1), Set_f 2 (V32 596)],
      Add_f 4 (VStr (lit 509)), Add_f 4 (VStr (lit 510)), Add_f 4 (VStr (lit 511)),
      Add_f 4 (VStr (lit 512)), Add_f 4 (VStr (lit 513)), Set_f 5 (VStr (lit 514)),
      Set_f 3 (V32 85), Set_f 6 (VBool True), Set_f 1 (V64 0x6EE4F24E6)]"

definition M19_Set_F1_bench1 :: "(nat \<Rightarrow> bytes) \<Rightarrow> setter list" where
  "M19_Set_F1_bench1 lit =
     [Set_f 12 (VFloat 0x3DDD2F1B), Set_f 2 (VBool False), Set_f 3 (VStr (lit 543)),
      Set_f 11 (VFloat 0x3F49BA5E), Set_f 13 (VStr (lit 545)), Mutable_f 6 20
      [Set_f 1 (VStr (lit 548))], Set_f 1 (V32 0x3DD5), Set_f 7 (V32 0xEDA), Set_f 9 (V64 259),
      Set_f 4 (VBool False), Set_f 8 (V64 0xFFFFFFFFFFFFFFFF), Set_f 5 (V32 0x1F4A),
      Set_f 14 (V32 0x39E9), Mutable_f 10 21 [Set_f 2 (V64 777), Set_f 3 (VStr (lit 559)),
      Mutable_f 1 22 [Set_f 6 (VBool False), Set_f 4 (V32 0x2D0A), Set_f 3 (V64 688),
      Set_f 5 (V32 0x654131D), Set_f 7 (VStr (lit 566)), Set_f 1 (VStr (lit 567)),
      Set_f 2 (V32 0x3FFB), Set_f 8 (V64 180)]]]"

definition M23_Set_F1_bench1 :: "(nat \<Rightarrow> bytes) \<Rightarrow> setter list" where
  "M23_Set_F1_bench1 lit =
     [Set_f 9 (VFloat 0x3F4A7EFA), Set_f 7 (V32 0x50DAE), Set_f 6 (VStr (lit 634)), Mutable_f 1 24
      [Set_f 5 (VFloat 0x3EED9168), Set_f 1 (VFloat 0x3EA7EF9E), Set_f 2 (V64 0xFFFFFFFFFFFFFFFF),
      Set_f 3 (V64 0x1929F5), Set_f 4 (V32 0x14E8)], Set_f 10 (V32 0x3A49), Set_f 5 (V64 0xD8F5E),
      Set_f 4 (VBool False), Set_f 3 (VStr (lit 645)), Set_f 2 (VDouble 0x3FC49BA5E353F7CF),
      Set_f 8 (V32 0x2ABF)]"

definition M25_Set_F1_bench1 :: "(nat \<Rightarrow> bytes) \<Rightarrow> setter list" where
  "M25_Set_F1_bench1 lit =
     [Set_f 5 (V32 0x1F0E), Set_f 1 (V32 0x1368), Set_f 7 (VStr (lit 673)), Set_f 11 (VBool False),
      Set_f 10 (VDouble 0x3FC70A3D70A3D70A), Set_f 9 (V32 771), Set_f 6 (V32 0x2050),
      Set_f 3 (VStr (lit 678)), Set_f 2 (V32 0xB27), Set_f 4 (V32 0x3969), Mutable_f 12 26
      [Set_f 1 (V32 0x25FD), Set_f 2 (VFloat 0x3EBA5E35)], Set_f 8 (V32 0x12A0)]"

definition messages_bench1 :: "(nat \<Rightarrow> bytes) \<Rightarrow> (nat \<times> setter list) list" where
  "messages_bench1 lit =
     [(1, M1_Set_F1_bench1 lit), (3, M3_Set_F1_bench1 lit), (5, M5_Set_F1_bench1 lit),
      (9, M9_Set_F1_bench1 lit), (13, M13_Set_F1_bench1 lit), (15, M15_Set_F1_bench1 lit),
      (17, M17_Set_F1_bench1 lit), (19, M19_Set_F1_bench1 lit), (23, M23_Set_F1_bench1 lit),
      (25, M25_Set_F1_bench1 lit)]"

definition BenchmarkInit_bench1 ::
  "(nat \<Rightarrow> bytes) \<Rightarrow> nat \<Rightarrow> (u32 \<Rightarrow> Metadata) \<Rightarrow> (u32 \<Rightarrow> u64) \<Rightarrow> (obj \<times> (u32 \<Rightarrow> Metadata) \<times> (u32 \<Rightarrow> u64)) result" where
  "BenchmarkInit_bench1 lit =
     BenchmarkInit_sample RegisterTestClass_bench1 getMessageSize_bench1 bench1_members (messages_bench1 lit)"

lemma slots_bench1:
  "list_all (\<lambda>r. distinct (map (unat \<circ> snd) (snd r)) \<and> list_all (\<lambda>f. unat (snd f) < fpga_fields) (snd r)) bench1_rows"
  by code_simp

interpretation tables1: generated_tables bench1_members bench1_rows
  by (rule generated_tables.intro [OF bench1_rows_ok slots_bench1])

lemma M1_ok_bench1:
  "(\<And>l. length (lit l) < 1048576) \<Longrightarrow> message_ok bench1_rows 1 (M1_Set_F1_bench1 lit)"
  by (simp add: M1_Set_F1_bench1_def bench1_rows_def message_checks)

lemma M3_ok_bench1:
  "(\<And>l. length (lit l) < 1048576) \<Longrightarrow> message_ok bench1_rows 3 (M3_Set_F1_bench1 lit)"
  by (simp add: M3_Set_F1_bench1_def bench1_rows_def message_checks)

lemma M5_ok_bench1:
  "(\<And>l. length (lit l) < 1048576) \<Longrightarrow> message_ok bench1_rows 5 (M5_Set_F1_bench1 lit)"
  by (simp add: M5_Set_F1_bench1_def bench1_rows_def message_checks)

lemma M9_ok_bench1:
  "(\<And>l. length (lit l) < 1048576) \<Longrightarrow> message_ok bench1_rows 9 (M9_Set_F1_bench1 lit)"
  by (simp add: M9_Set_F1_bench1_def bench1_rows_def message_checks)

lemma M13_ok_bench1:
  "(\<And>l. length (lit l) < 1048576) \<Longrightarrow> message_ok bench1_rows 13 (M13_Set_F1_bench1 lit)"
  by (simp add: M13_Set_F1_bench1_def bench1_rows_def message_checks)

lemma M15_ok_bench1:
  "(\<And>l. length (lit l) < 1048576) \<Longrightarrow> message_ok bench1_rows 15 (M15_Set_F1_bench1 lit)"
  by (simp add: M15_Set_F1_bench1_def bench1_rows_def message_checks)

lemma M17_ok_bench1:
  "(\<And>l. length (lit l) < 1048576) \<Longrightarrow> message_ok bench1_rows 17 (M17_Set_F1_bench1 lit)"
  by (simp add: M17_Set_F1_bench1_def bench1_rows_def message_checks)

lemma M19_ok_bench1:
  "(\<And>l. length (lit l) < 1048576) \<Longrightarrow> message_ok bench1_rows 19 (M19_Set_F1_bench1 lit)"
  by (simp add: M19_Set_F1_bench1_def bench1_rows_def message_checks)

lemma M23_ok_bench1:
  "(\<And>l. length (lit l) < 1048576) \<Longrightarrow> message_ok bench1_rows 23 (M23_Set_F1_bench1 lit)"
  by (simp add: M23_Set_F1_bench1_def bench1_rows_def message_checks)

lemma M25_ok_bench1:
  "(\<And>l. length (lit l) < 1048576) \<Longrightarrow> message_ok bench1_rows 25 (M25_Set_F1_bench1 lit)"
  by (simp add: M25_Set_F1_bench1_def bench1_rows_def message_checks)

lemmas bench1_ok =
  M1_ok_bench1 M3_ok_bench1 M5_ok_bench1 M9_ok_bench1 M13_ok_bench1 M15_ok_bench1 M17_ok_bench1
  M19_ok_bench1 M23_ok_bench1 M25_ok_bench1

lemma messages_ok_bench1:
  "(\<And>l. length (lit l) < 1048576) \<Longrightarrow> list_all (\<lambda>(c, calls). message_ok bench1_rows c calls) (messages_bench1 lit)"
  by (simp only: messages_bench1_def list.pred_inject prod.case bench1_ok simp_thms)

lemma length_messages_bench1: "length (messages_bench1 lit) = 10"
  by (simp add: messages_bench1_def)

section \<open>Benchmark 3\<close>

definition M1_Set_F1_bench3 :: "(nat \<Rightarrow> bytes) \<Rightarrow> setter list" where
  "M1_Set_F1_bench3 lit =
     [Set_f 9 (V32 15), Set_f 12 (VStr (lit 594)), Set_f 2 (VBool True), Set_f 1 (VStr (lit 596)),
      Set_f 4 (VBool True), Set_f 8 (V32 0x11E49C), Mutable_f 7 2 [Set_f 5 (VStr (lit 601)),
      Set_f 7 (VStr (lit 602)), Set_f 6 (VStr (lit 603)), Set_f 1 (V32 0x12E6BB), Set_f 3 (V64 495),
      Set_f 2 (VStr (lit 606)), Set_f 4 (VStr (lit 607))], Set_f 3 (VStr (lit 608)),
      Set_f 11 (V64 0x2B15), Set_f 5 (VStr (lit 610)), Set_f 10 (VStr (lit 611)),
      Set_f 6 (V32 0x1DD1)]"

definition M3_Set_F1_bench3 :: "(nat \<Rightarrow> bytes) \<Rightarrow> setter list" where
  "M3_Set_F1_bench3 lit =
     [Set_f 2 (VBool True), Set_f 7 (VStr (lit 731)), Mutable_f 11 5 [Add_f 1 (V32 0x1E7),
      Add_f 1 (V32 0x1F26), Set_f 2 (V32 0x1B57)], Set_f 10 (V32 0x1285AA), Mutable_f 6 4
      [Set_f 1 (V32 0xFFFFFFFF), Set_f 2 (V64 0x7B7E6EF92)], Set_f 4 (VStr (lit 742)),
      Set_f 8 (V32 9), Mutable_f 14 6 [Set_f 4 (V32 0xF58), Set_f 5 (V64 0xFD1CDAB4C76D),
      Set_f 1 (VBool True), Set_f 3 (V64 0x97EA7D7ABB8F50), Set_f 2 (VBool True)],
      Set_f 12 (V64 0x2CC37D7BAAD22A), Set_f 3 (V32 27), Set_f 5 (VStr (lit 753)),
      Set_f 13 (V64 521), Set_f 1 (V64 679), Set_f 9 (V32 0x3120)]"

definition M7_Set_F1_bench3 :: "(nat \<Rightarrow> bytes) \<Rightarrow> setter list" where
  "M7_Set_F1_bench3 lit =
     [Mutable_f 3 8 [Set_f 2 (VBool True), Set_f 1 (V64 0x3D92A40487FBDD)], Set_f 2 (V32 476),
      Set_f 1 (VStr (lit 787))]"

definition M9_Set_F1_bench3 :: "(nat \<Rightarrow> bytes) \<Rightarrow> setter list" where
  "M9_Set_F1_bench3 lit =
     [Set_f 6 (V64 0xAE2478C), Mutable_f 4 10 [Set_f 1 (VBool True), Set_f 2 (V32 0xFFFFFFFF),
      Set_f 3 (V32 0xFFFFFFFF)], Set_f 2 (VStr (lit 819)), Set_f 1 (V32 0xD192C95),
      Add_f 3 (V32 0xFFFFFFFF), Set_f 5 (V32 0xA77)]"

definition M11_Set_F1_bench3 :: "(nat \<Rightarrow> bytes) \<Rightarrow> setter list" where
  "M11_Set_F1_bench3 lit =
     [Set_f 8 (V32 0x119D), Set_f 7 (V32 69), Set_f 6 (VStr (lit 428)), Mutable_f 10 12
      [Set_f 1 (V32 0x3427), Set_f 2 (VBool True), Set_f 3 (V32 121)], Set_f 5 (V32 88),
      Set_f 4 (VStr (lit 435)), Set_f 9 (V32 0x3FAA), Mutable_f 12 13
      [Set_f 1 (V64 0x1251210ADDB9D), Set_f 3 (VStr (lit 440)), Set_f 2 (V64 0x1698393393B1A)],
      Set_f 11 (V64 0x18A16DB27AF67), Set_f 1 (V32 0x1517), Set_f 3 (VStr (lit 444)),
      Set_f 2 (V64 951)]"

definition M14_Set_F1_bench3 :: "(nat \<Rightarrow> bytes) \<Rightarrow> setter list" where
  "M14_Set_F1_bench3 lit =
     [Add_f 2 (V32 0xB86), Set_f 4 (VStr (lit 472)), Mutable_f 3 16
      [Set_f 2 (VDouble 0x3FB3F7CED916872B), Set_f 1 (V32 0x3A15)], Set_f 5 (V64 0x31ADF16898),
      Mutable_f 1 15 [Add_f 1 (V64 0x43D4EDF3E5DC), Add_f 1 (V64 0x3EF8D542FC26),
      Add_f 1 (V64 0x23CB298BB)]]"

definition M17_Set_F1_bench3 :: "(nat \<Rightarrow> bytes) \<Rightarrow> setter list" where
  "M17_Set_F1_bench3 lit =
     [Set_f 7 (VStr (lit 507)), Set_f 9 (V64 0x325252DF95FF47A), Set_f 3 (V64 0x233691C40B31),
      Set_f 10 (VStr (lit 510)), Set_f 5 (VStr (lit 511)), Set_f 11 (V32 0x3CAE),
      Add_f 2 (V32 0x15B3), Mutable_f 1 18 [Set_f 1 (VStr (lit 516)),
      Set_f 5 (V64 0x540741935435743A), Set_f 3 (V32 0x1910B6), Set_f 6 (V32 0x273C),
      Set_f 7 (V32 0xFFFFFFFF), Set_f 4 (VStr (lit 521)), Set_f 2 (V64 0xDA169BC)],
      Set_f 4 (VDouble 0x3FEF0A3D70A3D70A), Set_f 12 (VStr (lit 524)), Add_f 8 (V32 0x3B2),
      Add_f 8 (V32 0x3E03), Add_f 8 (V32 0xFFFFFFFF), Set_f 6 (V64 0x2300263E455B)]"

definition M19_Set_F1_bench3 :: "(nat \<Rightarrow> bytes) \<Rightarrow> setter list" where
  "M19_Set_F1_bench3 lit =
     [Set_f 3 (V64 0x546C30176), Set_f 4 (V64 0x625), Set_f 7 (VStr (lit 556)),
      Set_f 5 (V64 0xBB6170517EB5), Mutable_f 2 20 [Set_f 1 (V64 0x38D05FCA3), Set_f 2 (V64 725)],
      Set_f 1 (V32 839), Mutable_f 8 21 [Set_f 2 (VBool False), Set_f 1 (V32 0x14CDE3)],
      Set_f 6 (V64 0x1B38E9A45E12F)]"

definition M22_Set_F1_bench3 :: "(nat \<Rightarrow> bytes) \<Rightarrow> setter list" where
  "M22_Set_F1_bench3 lit =
     [Mutable_f 7 24 [Set_f 1 (V64 947)], Set_f 2 (VStr (lit 640)), Set_f 10 (V32 0x36E0),
      Mutable_f 4 23 [Set_f 3 (V64 0x31E5E834042), Set_f 2 (VBool False), Set_f 1 (V32 0x35A14748)],
      Set_f 1 (V32 0xFFFFFFFF), Set_f 6 (V64 0x306FBF6), Set_f 3 (V64 0xB0C1DF7863C6C8),
      Set_f 9 (V32 0x1FAE), Mutable_f 8 25 [Set_f 1 (V32 0x26B1)], Set_f 5 (VStr (lit 654))]"

definition M26_Set_F1_bench3 :: "(nat \<Rightarrow> bytes) \<Rightarrow> setter list" where
  "M26_Set_F1_bench3 lit =
     [Set_f 10 (V32 0xFFFFFFFF), Set_f 6 (VStr (lit 681)), Set_f 1 (V32 0x26EF),
      Set_f 2 (VDouble 0x3FE4BC6A7EF9DB23), Add_f 14 (V32 0x39F6), Add_f 14 (V32 0x2E32),
      Mutable_f 13 30 [Set_f 1 (V64 0x3980)], Set_f 12 (VDouble 0x3FDC28F5C28F5C29), Mutable_f 5 27
      [Set_f 1 (V64 0x1FB8BA3828B8D4), Set_f 2 (V32 0x110E2)], Set_f 3 (V32 0x18AC),
      Set_f 8 (VBool False), Mutable_f 9 29 [Set_f 2 (V32 0x58A6), Set_f 1 (V64 0x958CE98647521C)],
      Set_f 4 (V64 0x26E794D00), Mutable_f 7 28 [Set_f 1 (V64 679)],
      Set_f 11 (V64 0x2B06DD2A2B054B)]"

definition messages_bench3 :: "(nat \<Rightarrow> bytes) \<Rightarrow> (nat \<times> setter list) list" where
  "messages_bench3 lit =
     [(1, M1_Set_F1_bench3 lit), (3, M3_Set_F1_bench3 lit), (7, M7_Set_F1_bench3 lit),
      (9, M9_Set_F1_bench3 lit), (11, M11_Set_F1_bench3 lit), (14, M14_Set_F1_bench3 lit),
      (17, M17_Set_F1_bench3 lit), (19, M19_Set_F1_bench3 lit), (22, M22_Set_F1_bench3 lit),
      (26, M26_Set_F1_bench3 lit)]"

definition BenchmarkInit_bench3 ::
  "(nat \<Rightarrow> bytes) \<Rightarrow> nat \<Rightarrow> (u32 \<Rightarrow> Metadata) \<Rightarrow> (u32 \<Rightarrow> u64) \<Rightarrow> (obj \<times> (u32 \<Rightarrow> Metadata) \<times> (u32 \<Rightarrow> u64)) result" where
  "BenchmarkInit_bench3 lit =
     BenchmarkInit_sample RegisterTestClass_bench3 getMessageSize_bench3 bench3_members (messages_bench3 lit)"

lemma slots_bench3:
  "list_all (\<lambda>r. distinct (map (unat \<circ> snd) (snd r)) \<and> list_all (\<lambda>f. unat (snd f) < fpga_fields) (snd r)) bench3_rows"
  by code_simp

interpretation tables3: generated_tables bench3_members bench3_rows
  by (rule generated_tables.intro [OF bench3_rows_ok slots_bench3])

lemma M1_ok_bench3:
  "(\<And>l. length (lit l) < 1048576) \<Longrightarrow> message_ok bench3_rows 1 (M1_Set_F1_bench3 lit)"
  by (simp add: M1_Set_F1_bench3_def bench3_rows_def message_checks)

lemma M3_ok_bench3:
  "(\<And>l. length (lit l) < 1048576) \<Longrightarrow> message_ok bench3_rows 3 (M3_Set_F1_bench3 lit)"
  by (simp add: M3_Set_F1_bench3_def bench3_rows_def message_checks)

lemma M7_ok_bench3:
  "(\<And>l. length (lit l) < 1048576) \<Longrightarrow> message_ok bench3_rows 7 (M7_Set_F1_bench3 lit)"
  by (simp add: M7_Set_F1_bench3_def bench3_rows_def message_checks)

lemma M9_ok_bench3:
  "(\<And>l. length (lit l) < 1048576) \<Longrightarrow> message_ok bench3_rows 9 (M9_Set_F1_bench3 lit)"
  by (simp add: M9_Set_F1_bench3_def bench3_rows_def message_checks)

lemma M11_ok_bench3:
  "(\<And>l. length (lit l) < 1048576) \<Longrightarrow> message_ok bench3_rows 11 (M11_Set_F1_bench3 lit)"
  by (simp add: M11_Set_F1_bench3_def bench3_rows_def message_checks)

lemma M14_ok_bench3:
  "(\<And>l. length (lit l) < 1048576) \<Longrightarrow> message_ok bench3_rows 14 (M14_Set_F1_bench3 lit)"
  by (simp add: M14_Set_F1_bench3_def bench3_rows_def message_checks)

lemma M17_ok_bench3:
  "(\<And>l. length (lit l) < 1048576) \<Longrightarrow> message_ok bench3_rows 17 (M17_Set_F1_bench3 lit)"
  by (simp add: M17_Set_F1_bench3_def bench3_rows_def message_checks)

lemma M19_ok_bench3:
  "(\<And>l. length (lit l) < 1048576) \<Longrightarrow> message_ok bench3_rows 19 (M19_Set_F1_bench3 lit)"
  by (simp add: M19_Set_F1_bench3_def bench3_rows_def message_checks)

lemma M22_ok_bench3:
  "(\<And>l. length (lit l) < 1048576) \<Longrightarrow> message_ok bench3_rows 22 (M22_Set_F1_bench3 lit)"
  by (simp add: M22_Set_F1_bench3_def bench3_rows_def message_checks)

lemma M26_ok_bench3:
  "(\<And>l. length (lit l) < 1048576) \<Longrightarrow> message_ok bench3_rows 26 (M26_Set_F1_bench3 lit)"
  by (simp add: M26_Set_F1_bench3_def bench3_rows_def message_checks)

lemmas bench3_ok =
  M1_ok_bench3 M3_ok_bench3 M7_ok_bench3 M9_ok_bench3 M11_ok_bench3 M14_ok_bench3 M17_ok_bench3
  M19_ok_bench3 M22_ok_bench3 M26_ok_bench3

lemma messages_ok_bench3:
  "(\<And>l. length (lit l) < 1048576) \<Longrightarrow> list_all (\<lambda>(c, calls). message_ok bench3_rows c calls) (messages_bench3 lit)"
  by (simp only: messages_bench3_def list.pred_inject prod.case bench3_ok simp_thms)

lemma length_messages_bench3: "length (messages_bench3 lit) = 10"
  by (simp add: messages_bench3_def)

section \<open>Benchmark 4\<close>

definition M1_Set_F1_bench4 :: "(nat \<Rightarrow> bytes) \<Rightarrow> setter list" where
  "M1_Set_F1_bench4 lit =
     [Set_f 1 (VStr (lit 735)), Set_f 4 (V32 0x2EA3), Set_f 11 (VStr (lit 737)), Mutable_f 10 5
      [Set_f 1 (VStr (lit 740))], Set_f 8 (VStr (lit 741)), Set_f 7 (V32 0x284F),
      Set_f 9 (V32 0x2BA4), Set_f 3 (V32 0x1CA1), Mutable_f 5 2 [Set_f 1 (V32 51),
      Set_f 3 (V32 0x1562B9), Set_f 4 (VDouble 0x3FE65604189374BC), Mutable_f 7 3
      [Set_f 9 (VBool False), Set_f 8 (VBool False), Set_f 2 (V64 0x67566), Mutable_f 1 4
      [Set_f 5 (VStr (lit 757)), Set_f 3 (V64 0x446F2F918), Set_f 4 (V64 550),
      Set_f 2 (VStr (lit 760)), Set_f 1 (VStr (lit 761))], Set_f 6 (VBool True),
      Set_f 7 (VBool False), Set_f 5 (V32 16), Set_f 4 (V32 0xFFFFFFFF), Set_f 3 (VBool False)],
      Set_f 8 (VStr (lit 767)), Set_f 5 (VStr (lit 768)), Set_f 6 (V64 0xB196939947FF1D),
      Set_f 2 (V32 0xFFFFFFFF)], Set_f 2 (VStr (lit 771)), Set_f 6 (V32 0x202F)]"

definition M6_Set_F1_bench4 :: "(nat \<Rightarrow> bytes) \<Rightarrow> setter list" where
  "M6_Set_F1_bench4 lit =
     [Set_f 3 (VBool False), Set_f 5 (VStr (lit 1095)), Set_f 4 (V64 386),
      Set_f 11 (V32 0xFFFFFFFF), Set_f 7 (V64 0x204D372BC61), Set_f 2 (V32 0x102B3F),
      Set_f 10 (V64 868), Set_f 1 (VBool True), Mutable_f 9 7 [Set_f 4 (V64 0x7EE29FF),
      Mutable_f 1 8 [Mutable_f 2 9 [Set_f 2 (VStr (lit 1109)), Set_f 1 (VStr (lit 1110))],
      Set_f 1 (VStr (lit 1111))], Set_f 6 (V32 60), Set_f 5 (V64 0x10DE3E), Mutable_f 8 10
      [Set_f 2 (VStr (lit 1116)), Set_f 1 (V64 0x6B9726169C4656), Set_f 3 (V64 309)],
      Set_f 3 (VDouble 0x3FE599999999999A), Set_f 7 (VBool False), Set_f 2 (V32 0x8F371)],
      Set_f 8 (VStr (lit 1122)), Set_f 6 (V64 0xF79CE3D)]"

definition M11_Set_F1_bench4 :: "(nat \<Rightarrow> bytes) \<Rightarrow> setter list" where
  "M11_Set_F1_bench4 lit =
     [Mutable_f 4 16 [Set_f 1 (VBool True)], Set_f 8 (V64 941), Set_f 7 (VStr (lit 639)),
      Set_f 3 (VStr (lit 640)), Set_f 12 (V64 0x9F25B), Set_f 6 (V32 0xFFFFFFFF),
      Set_f 2 (VStr (lit 643)), Set_f 10 (VBool False), Set_f 9 (VBool True), Set_f 5 (V32 0x74B),
      Set_f 11 (V32 0xFFFFFFFF), Mutable_f 1 12 [Set_f 3 (V32 0x58BEA), Mutable_f 5 15
      [Set_f 1 (VStr (lit 653)), Set_f 3 (V64 0x7CAC881071CD27), Set_f 2 (VStr (lit 655))],
      Set_f 2 (VStr (lit 656)), Set_f 1 (VStr (lit 657)), Mutable_f 4 13 [Set_f 1 (VBool False),
      Mutable_f 2 14 [Set_f 2 (VBool True), Set_f 1 (V64 0x18B0DCA6D4D02), Set_f 5 (V32 60),
      Set_f 3 (V64 513), Set_f 4 (V32 685)]]], Set_f 13 (V64 760)]"

definition M17_Set_F1_bench4 :: "(nat \<Rightarrow> bytes) \<Rightarrow> setter list" where
  "M17_Set_F1_bench4 lit =
     [Set_f 5 (V64 633), Set_f 4 (VStr (lit 695)), Set_f 2 (VStr (lit 696)),
      Set_f 3 (V64 0x3D3612E4A), Mutable_f 1 18 [Mutable_f 2 19 [Set_f 1 (V32 0x1FB6BF),
      Set_f 3 (VStr (lit 703)), Mutable_f 2 20 [Set_f 1 (V64 0x5E318D425)],
      Set_f 4 (V32 0xFFFFFFFF)], Set_f 1 (VDouble 0x3FE5E353F7CED917), Set_f 3 (VStr (lit 709))]]"

definition M21_Set_F1_bench4 :: "(nat \<Rightarrow> bytes) \<Rightarrow> setter list" where
  "M21_Set_F1_bench4 lit =
     [Set_f 6 (VStr (lit 797)), Set_f 3 (VStr (lit 798)), Mutable_f 4 22 [Mutable_f 2 23
      [Mutable_f 2 24 [Set_f 1 (V32 554), Set_f 4 (V32 0xFFFFFFFF), Set_f 3 (V64 0x682317730F111E),
      Set_f 2 (V32 0x921)], Set_f 4 (VBool True), Set_f 3 (V32 0xFFFFFFFF), Set_f 1 (V32 0x354),
      Set_f 6 (V32 636), Set_f 5 (VStr (lit 813))], Set_f 3 (V64 0x1A3D999D6E1D82),
      Set_f 4 (VDouble 0x3FEB020C49BA5E35), Set_f 1 (VBool True)], Set_f 7 (V64 0xAE86E2F),
      Set_f 5 (VBool False), Set_f 1 (V64 0x15B8B944F5D42), Set_f 2 (V64 0x11B530BC)]"

definition M25_Set_F1_bench4 :: "(nat \<Rightarrow> bytes) \<Rightarrow> setter list" where
  "M25_Set_F1_bench4 lit =
     [Set_f 3 (V64 702), Set_f 8 (V64 0xF6ADBF8), Set_f 6 (V32 0xAD2E1EC), Mutable_f 2 26
      [Mutable_f 2 27 [Set_f 3 (V32 0x2182F), Mutable_f 5 28 [Set_f 3 (VBool False),
      Set_f 1 (VStr (lit 857)), Set_f 2 (VStr (lit 858))], Set_f 4 (V32 83),
      Set_f 1 (V64 0x7A7E01EF8DF80D), Set_f 2 (VStr (lit 861))], Set_f 1 (VStr (lit 862))],
      Mutable_f 5 29 [Set_f 1 (VStr (lit 865))], Set_f 4 (V64 0x93414BE), Set_f 1 (VStr (lit 867)),
      Set_f 9 (VDouble 0x3FE52F1A9FBE76C9), Set_f 7 (V32 0xFFFFFFFF)]"

definition M30_Set_F1_bench4 :: "(nat \<Rightarrow> bytes) \<Rightarrow> setter list" where
  "M30_Set_F1_bench4 lit =
     [Set_f 12 (V64 712), Set_f 9 (VStr (lit 896)), Set_f 1 (V32 0xFFFFFFFF),
      Set_f 2 (VStr (lit 898)), Set_f 3 (VBool True), Set_f 6 (VStr (lit 900)),
      Set_f 4 (VStr (lit 901)), Set_f 5 (V64 71), Set_f 8 (V32 857), Set_f 10 (VStr (lit 904)),
      Mutable_f 11 31 [Set_f 2 (V32 0xFFFFFFFF), Set_f 7 (V64 873), Set_f 9 (V32 94),
      Set_f 4 (VStr (lit 910)), Mutable_f 5 32 [Mutable_f 2 33 [Set_f 1 (V32 0x1979),
      Set_f 3 (VStr (lit 916)), Set_f 4 (VStr (lit 917)), Set_f 2 (VStr (lit 918))],
      Set_f 6 (V64 0xE65711C5FB95F7), Set_f 3 (V32 21), Set_f 1 (V64 0xDED98B5), Mutable_f 7 34
      [Set_f 1 (V64 0x6462201B3C0737)], Set_f 5 (VBool False), Set_f 8 (V32 0x23BB),
      Set_f 4 (V64 773)], Set_f 3 (VDouble 0x3FE6F1A9FBE76C8B), Set_f 8 (V32 0xFFFFFFFF),
      Set_f 6 (VBool True), Set_f 1 (VStr (lit 931))], Set_f 7 (VStr (lit 932))]"

definition M35_Set_F1_bench4 :: "(nat \<Rightarrow> bytes) \<Rightarrow> setter list" where
  "M35_Set_F1_bench4 lit =
     [Mutable_f 4 36 [Set_f 1 (VStr (lit 960)), Set_f 2 (V32 0xFFFFFFFF), Mutable_f 3 37
      [Set_f 2 (V32 0xBFD), Set_f 1 (VBool False), Mutable_f 3 38 [Set_f 2 (V64 0x6659FA948),
      Set_f 1 (VStr (lit 969))]]], Set_f 1 (VStr (lit 970)), Set_f 5 (VDouble 0x3FC95810624DD2F2),
      Set_f 2 (V32 0xF8870), Set_f 3 (V32 0xFFFFFFFF)]"

definition M39_Set_F1_bench4 :: "(nat \<Rightarrow> bytes) \<Rightarrow> setter list" where
  "M39_Set_F1_bench4 lit =
     [Set_f 7 (VStr (lit 999)), Set_f 2 (VStr (lit 1000)), Mutable_f 9 40 [Set_f 2 (V32 0x940A),
      Set_f 3 (VBool True), Mutable_f 1 41 [Set_f 2 (V64 791), Set_f 8 (VBool False), Mutable_f 7 42
      [Set_f 1 (V32 0xFFFFFFFF), Set_f 3 (V32 0x29E6), Set_f 2 (VBool False)],
      Set_f 5 (VStr (lit 1014)), Set_f 3 (V32 347), Set_f 6 (VStr (lit 1016)),
      Set_f 4 (VBool False), Set_f 1 (V32 0x1B4801), Set_f 9 (V32 0xC5)]], Set_f 4 (V32 122),
      Set_f 5 (V64 0xF9B9CA4F808437), Set_f 1 (V64 0x1AF7E5699537F), Set_f 6 (VStr (lit 1023)),
      Set_f 3 (VBool False), Set_f 8 (VStr (lit 1025)), Set_f 10 (VDouble 0x3FD24DD2F1A9FBE7)]"

definition M43_Set_F1_bench4 :: "(nat \<Rightarrow> bytes) \<Rightarrow> setter list" where
  "M43_Set_F1_bench4 lit =
     [Set_f 1 (VStr (lit 1052)), Set_f 2 (VDouble 0x3FEAE978D4FDF3B6), Mutable_f 4 44
      [Mutable_f 4 45 [Mutable_f 2 46 [Set_f 2 (VStr (lit 1060)), Set_f 1 (VBool False),
      Set_f 3 (V32 0x16C1)], Set_f 1 (VBool True)], Set_f 1 (V32 0xEFFC8),
      Set_f 3 (VStr (lit 1065)), Set_f 2 (V32 0xB50)], Set_f 3 (V32 103), Set_f 5 (V64 206)]"

definition messages_bench4 :: "(nat \<Rightarrow> bytes) \<Rightarrow> (nat \<times> setter list) list" where
  "messages_bench4 lit =
     [(1, M1_Set_F1_bench4 lit), (6, M6_Set_F1_bench4 lit), (11, M11_Set_F1_bench4 lit),
      (17, M17_Set_F1_bench4 lit), (21, M21_Set_F1_bench4 lit), (25, M25_Set_F1_bench4 lit),
      (30, M30_Set_F1_bench4 lit), (35, M35_Set_F1_bench4 lit), (39, M39_Set_F1_bench4 lit),
      (43, M43_Set_F1_bench4 lit)]"

definition BenchmarkInit_bench4 ::
  "(nat \<Rightarrow> bytes) \<Rightarrow> nat \<Rightarrow> (u32 \<Rightarrow> Metadata) \<Rightarrow> (u32 \<Rightarrow> u64) \<Rightarrow> (obj \<times> (u32 \<Rightarrow> Metadata) \<times> (u32 \<Rightarrow> u64)) result" where
  "BenchmarkInit_bench4 lit =
     BenchmarkInit_sample RegisterTestClass_bench4 getMessageSize_bench4 bench4_members (messages_bench4 lit)"

lemma slots_bench4:
  "list_all (\<lambda>r. distinct (map (unat \<circ> snd) (snd r)) \<and> list_all (\<lambda>f. unat (snd f) < fpga_fields) (snd r)) bench4_rows"
  by code_simp

interpretation tables4: generated_tables bench4_members bench4_rows
  by (rule generated_tables.intro [OF bench4_rows_ok slots_bench4])

lemma M1_ok_bench4:
  "(\<And>l. length (lit l) < 1048576) \<Longrightarrow> message_ok bench4_rows 1 (M1_Set_F1_bench4 lit)"
  by (simp add: M1_Set_F1_bench4_def bench4_rows_def message_checks)

lemma M6_ok_bench4:
  "(\<And>l. length (lit l) < 1048576) \<Longrightarrow> message_ok bench4_rows 6 (M6_Set_F1_bench4 lit)"
  by (simp add: M6_Set_F1_bench4_def bench4_rows_def message_checks)

lemma M11_ok_bench4:
  "(\<And>l. length (lit l) < 1048576) \<Longrightarrow> message_ok bench4_rows 11 (M11_Set_F1_bench4 lit)"
  by (simp add: M11_Set_F1_bench4_def bench4_rows_def message_checks)

lemma M17_ok_bench4:
  "(\<And>l. length (lit l) < 1048576) \<Longrightarrow> message_ok bench4_rows 17 (M17_Set_F1_bench4 lit)"
  by (simp add: M17_Set_F1_bench4_def bench4_rows_def message_checks)

lemma M21_ok_bench4:
  "(\<And>l. length (lit l) < 1048576) \<Longrightarrow> message_ok bench4_rows 21 (M21_Set_F1_bench4 lit)"
  by (simp add: M21_Set_F1_bench4_def bench4_rows_def message_checks)

lemma M25_ok_bench4:
  "(\<And>l. length (lit l) < 1048576) \<Longrightarrow> message_ok bench4_rows 25 (M25_Set_F1_bench4 lit)"
  by (simp add: M25_Set_F1_bench4_def bench4_rows_def message_checks)

lemma M30_ok_bench4:
  "(\<And>l. length (lit l) < 1048576) \<Longrightarrow> message_ok bench4_rows 30 (M30_Set_F1_bench4 lit)"
  by (simp add: M30_Set_F1_bench4_def bench4_rows_def message_checks)

lemma M35_ok_bench4:
  "(\<And>l. length (lit l) < 1048576) \<Longrightarrow> message_ok bench4_rows 35 (M35_Set_F1_bench4 lit)"
  by (simp add: M35_Set_F1_bench4_def bench4_rows_def message_checks)

lemma M39_ok_bench4:
  "(\<And>l. length (lit l) < 1048576) \<Longrightarrow> message_ok bench4_rows 39 (M39_Set_F1_bench4 lit)"
  by (simp add: M39_Set_F1_bench4_def bench4_rows_def message_checks)

lemma M43_ok_bench4:
  "(\<And>l. length (lit l) < 1048576) \<Longrightarrow> message_ok bench4_rows 43 (M43_Set_F1_bench4 lit)"
  by (simp add: M43_Set_F1_bench4_def bench4_rows_def message_checks)

lemmas bench4_ok =
  M1_ok_bench4 M6_ok_bench4 M11_ok_bench4 M17_ok_bench4 M21_ok_bench4 M25_ok_bench4 M30_ok_bench4
  M35_ok_bench4 M39_ok_bench4 M43_ok_bench4

lemma messages_ok_bench4:
  "(\<And>l. length (lit l) < 1048576) \<Longrightarrow> list_all (\<lambda>(c, calls). message_ok bench4_rows c calls) (messages_bench4 lit)"
  by (simp only: messages_bench4_def list.pred_inject prod.case bench4_ok simp_thms)

lemma length_messages_bench4: "length (messages_bench4 lit) = 10"
  by (simp add: messages_bench4_def)

section \<open>The benchmarks\<close>

text \<open>For each header \<open>BenchmarkInit\<close>, \<open>createMessage\<close>, the classes and the messages.\<close>

definition hyperproto_programs ::
  "(((nat \<Rightarrow> bytes) \<Rightarrow> nat \<Rightarrow> (u32 \<Rightarrow> Metadata) \<Rightarrow> (u32 \<Rightarrow> u64)
     \<Rightarrow> (obj \<times> (u32 \<Rightarrow> Metadata) \<times> (u32 \<Rightarrow> u64)) result) \<times> (u32 \<Rightarrow> cells result)
     \<times> (nat \<times> member list) list \<times> ((nat \<Rightarrow> bytes) \<Rightarrow> (nat \<times> setter list) list)) list" where
  "hyperproto_programs =
     [(BenchmarkInit_bench0, createMessage_bench0, bench0_members, messages_bench0),
      (BenchmarkInit_bench1, createMessage_bench1, bench1_members, messages_bench1),
      (BenchmarkInit_bench3, createMessage_bench3, bench3_members, messages_bench3),
      (BenchmarkInit_bench4, createMessage_bench4, bench4_members, messages_bench4)]"

lemmas program_defs =
  BenchmarkInit_bench0_def BenchmarkInit_bench1_def BenchmarkInit_bench3_def BenchmarkInit_bench4_def
  RegisterTestClass_bench0_def RegisterTestClass_bench1_def RegisterTestClass_bench3_def RegisterTestClass_bench4_def
  getMessageSize_bench0_def getMessageSize_bench1_def getMessageSize_bench3_def getMessageSize_bench4_def
  createMessage_bench0_def createMessage_bench1_def createMessage_bench3_def createMessage_bench4_def

lemma program_tables:
  assumes "(start, create, tbl, messages) \<in> set hyperproto_programs" and "\<And>l. length (lit l) < 2 ^ 20"
  obtains rows where "generated_tables tbl rows" "create = table_create tbl"
    "start lit = BenchmarkInit_sample (register_rows rows) (table_size tbl) tbl (messages lit)"
    "list_all (\<lambda>(c, calls). message_ok rows c calls) (messages lit)" "length (messages lit) = 10"
proof -
  have lit: "\<And>l. length (lit l) < 1048576" using assms(2) by simp
  consider (b0) "(start, create, tbl, messages) = (BenchmarkInit_bench0, createMessage_bench0, bench0_members, messages_bench0)"
    | (b1) "(start, create, tbl, messages) = (BenchmarkInit_bench1, createMessage_bench1, bench1_members, messages_bench1)"
    | (b3) "(start, create, tbl, messages) = (BenchmarkInit_bench3, createMessage_bench3, bench3_members, messages_bench3)"
    | (b4) "(start, create, tbl, messages) = (BenchmarkInit_bench4, createMessage_bench4, bench4_members, messages_bench4)"
    using assms(1) unfolding hyperproto_programs_def by auto
  then show thesis
  proof cases
    case b0
    then show ?thesis using that [of bench0_rows] tables0.generated_tables_axioms messages_ok_bench0 [OF lit]
        length_messages_bench0 by (simp add: program_defs)
  next
    case b1
    then show ?thesis using that [of bench1_rows] tables1.generated_tables_axioms messages_ok_bench1 [OF lit]
        length_messages_bench1 by (simp add: program_defs)
  next
    case b3
    then show ?thesis using that [of bench3_rows] tables3.generated_tables_axioms messages_ok_bench3 [OF lit]
        length_messages_bench3 by (simp add: program_defs)
  next
    case b4
    then show ?thesis using that [of bench4_rows] tables4.generated_tables_axioms messages_ok_bench4 [OF lit]
        length_messages_bench4 by (simp add: program_defs)
  qed
qed

section \<open>Destruction\<close>

lemma members_of_bench0:
  "members_of bench0_members 1 = private_members M1_bench0"
  "members_of bench0_members 2 = private_members M2_bench0"
  "members_of bench0_members 3 = private_members M3_bench0"
  "members_of bench0_members 4 = private_members M4_bench0"
  "members_of bench0_members 5 = private_members M5_bench0"
  "members_of bench0_members 6 = private_members M6_bench0"
  "members_of bench0_members 7 = private_members M7_bench0"
  "members_of bench0_members 8 = private_members M8_bench0"
  "members_of bench0_members 9 = private_members M9_bench0"
  "members_of bench0_members 10 = private_members M10_bench0"
  "members_of bench0_members 11 = private_members M11_bench0"
  "members_of bench0_members 12 = private_members M12_bench0"
  "members_of bench0_members 13 = private_members M13_bench0"
  "members_of bench0_members 14 = private_members M14_bench0"
  "members_of bench0_members 15 = private_members M15_bench0"
  "members_of bench0_members 16 = private_members M16_bench0"
  "members_of bench0_members 17 = private_members M17_bench0"
  "members_of bench0_members 18 = private_members M18_bench0"
  "members_of bench0_members 19 = private_members M19_bench0"
  "members_of bench0_members 20 = private_members M20_bench0"
  "members_of bench0_members 21 = private_members M21_bench0"
  "members_of bench0_members 22 = private_members M22_bench0"
  "members_of bench0_members 23 = private_members M23_bench0"
  "members_of bench0_members 24 = private_members M24_bench0"
  "members_of bench0_members 25 = private_members M25_bench0"
  "members_of bench0_members 26 = private_members M26_bench0"
  "members_of bench0_members 27 = private_members M27_bench0"
  "members_of bench0_members 28 = private_members M28_bench0"
  "members_of bench0_members 29 = private_members M29_bench0"
  "members_of bench0_members 30 = private_members M30_bench0"
  "members_of bench0_members 31 = private_members M31_bench0"
  "members_of bench0_members 32 = private_members M32_bench0"
  "members_of bench0_members 33 = private_members M33_bench0"
  "members_of bench0_members 34 = private_members M34_bench0"
  "members_of bench0_members 35 = private_members M35_bench0"
  "members_of bench0_members 36 = private_members M36_bench0"
  "members_of bench0_members 37 = private_members M37_bench0"
  "members_of bench0_members 38 = private_members M38_bench0"
  "members_of bench0_members 39 = private_members M39_bench0"
  "members_of bench0_members 40 = private_members M40_bench0"
  "members_of bench0_members 41 = private_members M41_bench0"
  "members_of bench0_members 42 = private_members M42_bench0"
  "members_of bench0_members 43 = private_members M43_bench0"
  "members_of bench0_members 44 = private_members M44_bench0"
  "members_of bench0_members 45 = private_members M45_bench0"
  "members_of bench0_members 46 = private_members M46_bench0"
  "members_of bench0_members 47 = private_members M47_bench0"
  "members_of bench0_members 48 = private_members M48_bench0"
  "members_of bench0_members 49 = private_members M49_bench0"
  "members_of bench0_members 50 = private_members M50_bench0"
  "members_of bench0_members 51 = private_members M51_bench0"
  "members_of bench0_members 52 = private_members M52_bench0"
  "members_of bench0_members 53 = private_members M53_bench0"
  "members_of bench0_members 54 = private_members M54_bench0"
  "members_of bench0_members 55 = private_members M55_bench0"
  "members_of bench0_members 56 = private_members M56_bench0"
  "members_of bench0_members 57 = private_members M57_bench0"
  by (simp_all add: members_of_def bench0_members_def)

lemmas members_bench0 = members_of_bench0 members_of_bench0(1) [unfolded One_nat_def]
     M1_bench0_def M2_bench0_def M3_bench0_def M4_bench0_def M5_bench0_def M6_bench0_def
      M7_bench0_def M8_bench0_def M9_bench0_def M10_bench0_def M11_bench0_def M12_bench0_def
      M13_bench0_def M14_bench0_def M15_bench0_def M16_bench0_def M17_bench0_def M18_bench0_def
      M19_bench0_def M20_bench0_def M21_bench0_def M22_bench0_def M23_bench0_def M24_bench0_def
      M25_bench0_def M26_bench0_def M27_bench0_def M28_bench0_def M29_bench0_def M30_bench0_def
      M31_bench0_def M32_bench0_def M33_bench0_def M34_bench0_def M35_bench0_def M36_bench0_def
      M37_bench0_def M38_bench0_def M39_bench0_def M40_bench0_def M41_bench0_def M42_bench0_def
      M43_bench0_def M44_bench0_def M45_bench0_def M46_bench0_def M47_bench0_def M48_bench0_def
      M49_bench0_def M50_bench0_def M51_bench0_def M52_bench0_def M53_bench0_def M54_bench0_def
      M55_bench0_def M56_bench0_def M57_bench0_def

lemma M1_assigns_bench0:
  "assigns_once bench0_members (members_of bench0_members 1) [] (M1_Set_F1_bench0 lit)"
  by (simp add: M1_Set_F1_bench0_def members_bench0)

lemma M10_assigns_bench0:
  "assigns_once bench0_members (members_of bench0_members 10) [] (M10_Set_F1_bench0 lit)"
  by (simp add: M10_Set_F1_bench0_def members_bench0)

lemma M15_assigns_bench0:
  "assigns_once bench0_members (members_of bench0_members 15) [] (M15_Set_F1_bench0 lit)"
  by (simp add: M15_Set_F1_bench0_def members_bench0)

lemma M21_assigns_bench0:
  "assigns_once bench0_members (members_of bench0_members 21) [] (M21_Set_F1_bench0 lit)"
  by (simp add: M21_Set_F1_bench0_def members_bench0)

lemma M25_assigns_bench0:
  "assigns_once bench0_members (members_of bench0_members 25) [] (M25_Set_F1_bench0 lit)"
  by (simp add: M25_Set_F1_bench0_def members_bench0)

lemma M30_assigns_bench0:
  "assigns_once bench0_members (members_of bench0_members 30) [] (M30_Set_F1_bench0 lit)"
  by (simp add: M30_Set_F1_bench0_def members_bench0)

lemma M36_assigns_bench0:
  "assigns_once bench0_members (members_of bench0_members 36) [] (M36_Set_F1_bench0 lit)"
  by (simp add: M36_Set_F1_bench0_def members_bench0)

lemma M42_assigns_bench0:
  "assigns_once bench0_members (members_of bench0_members 42) [] (M42_Set_F1_bench0 lit)"
  by (simp add: M42_Set_F1_bench0_def members_bench0)

lemma M48_assigns_bench0:
  "assigns_once bench0_members (members_of bench0_members 48) [] (M48_Set_F1_bench0 lit)"
  by (simp add: M48_Set_F1_bench0_def members_bench0)

lemma M52_assigns_bench0:
  "assigns_once bench0_members (members_of bench0_members 52) [] (M52_Set_F1_bench0 lit)"
  by (simp add: M52_Set_F1_bench0_def members_bench0)

lemma messages_assign_bench0:
  "list_all (\<lambda>(c, calls). assigns_once bench0_members (members_of bench0_members c) [] calls) (messages_bench0 lit)"
  by (simp only: messages_bench0_def list.pred_inject prod.case
     M1_assigns_bench0 M10_assigns_bench0 M15_assigns_bench0 M21_assigns_bench0 M25_assigns_bench0
      M30_assigns_bench0 M36_assigns_bench0 M42_assigns_bench0 M48_assigns_bench0 M52_assigns_bench0
      simp_thms)

lemma members_of_bench1:
  "members_of bench1_members 1 = private_members M1_bench1"
  "members_of bench1_members 2 = private_members M2_bench1"
  "members_of bench1_members 3 = private_members M3_bench1"
  "members_of bench1_members 4 = private_members M4_bench1"
  "members_of bench1_members 5 = private_members M5_bench1"
  "members_of bench1_members 6 = private_members M6_bench1"
  "members_of bench1_members 7 = private_members M7_bench1"
  "members_of bench1_members 8 = private_members M8_bench1"
  "members_of bench1_members 9 = private_members M9_bench1"
  "members_of bench1_members 10 = private_members M10_bench1"
  "members_of bench1_members 11 = private_members M11_bench1"
  "members_of bench1_members 12 = private_members M12_bench1"
  "members_of bench1_members 13 = private_members M13_bench1"
  "members_of bench1_members 14 = private_members M14_bench1"
  "members_of bench1_members 15 = private_members M15_bench1"
  "members_of bench1_members 16 = private_members M16_bench1"
  "members_of bench1_members 17 = private_members M17_bench1"
  "members_of bench1_members 18 = private_members M18_bench1"
  "members_of bench1_members 19 = private_members M19_bench1"
  "members_of bench1_members 20 = private_members M20_bench1"
  "members_of bench1_members 21 = private_members M21_bench1"
  "members_of bench1_members 22 = private_members M22_bench1"
  "members_of bench1_members 23 = private_members M23_bench1"
  "members_of bench1_members 24 = private_members M24_bench1"
  "members_of bench1_members 25 = private_members M25_bench1"
  "members_of bench1_members 26 = private_members M26_bench1"
  by (simp_all add: members_of_def bench1_members_def)

lemmas members_bench1 = members_of_bench1 members_of_bench1(1) [unfolded One_nat_def]
     M1_bench1_def M2_bench1_def M3_bench1_def M4_bench1_def M5_bench1_def M6_bench1_def
      M7_bench1_def M8_bench1_def M9_bench1_def M10_bench1_def M11_bench1_def M12_bench1_def
      M13_bench1_def M14_bench1_def M15_bench1_def M16_bench1_def M17_bench1_def M18_bench1_def
      M19_bench1_def M20_bench1_def M21_bench1_def M22_bench1_def M23_bench1_def M24_bench1_def
      M25_bench1_def M26_bench1_def

lemma M1_assigns_bench1:
  "assigns_once bench1_members (members_of bench1_members 1) [] (M1_Set_F1_bench1 lit)"
  by (simp add: M1_Set_F1_bench1_def members_bench1)

lemma M3_assigns_bench1:
  "assigns_once bench1_members (members_of bench1_members 3) [] (M3_Set_F1_bench1 lit)"
  by (simp add: M3_Set_F1_bench1_def members_bench1)

lemma M5_assigns_bench1:
  "assigns_once bench1_members (members_of bench1_members 5) [] (M5_Set_F1_bench1 lit)"
  by (simp add: M5_Set_F1_bench1_def members_bench1)

lemma M9_assigns_bench1:
  "assigns_once bench1_members (members_of bench1_members 9) [] (M9_Set_F1_bench1 lit)"
  by (simp add: M9_Set_F1_bench1_def members_bench1)

lemma M13_assigns_bench1:
  "assigns_once bench1_members (members_of bench1_members 13) [] (M13_Set_F1_bench1 lit)"
  by (simp add: M13_Set_F1_bench1_def members_bench1)

lemma M15_assigns_bench1:
  "assigns_once bench1_members (members_of bench1_members 15) [] (M15_Set_F1_bench1 lit)"
  by (simp add: M15_Set_F1_bench1_def members_bench1)

lemma M17_assigns_bench1:
  "assigns_once bench1_members (members_of bench1_members 17) [] (M17_Set_F1_bench1 lit)"
  by (simp add: M17_Set_F1_bench1_def members_bench1)

lemma M19_assigns_bench1:
  "assigns_once bench1_members (members_of bench1_members 19) [] (M19_Set_F1_bench1 lit)"
  by (simp add: M19_Set_F1_bench1_def members_bench1)

lemma M23_assigns_bench1:
  "assigns_once bench1_members (members_of bench1_members 23) [] (M23_Set_F1_bench1 lit)"
  by (simp add: M23_Set_F1_bench1_def members_bench1)

lemma M25_assigns_bench1:
  "assigns_once bench1_members (members_of bench1_members 25) [] (M25_Set_F1_bench1 lit)"
  by (simp add: M25_Set_F1_bench1_def members_bench1)

lemma messages_assign_bench1:
  "list_all (\<lambda>(c, calls). assigns_once bench1_members (members_of bench1_members c) [] calls) (messages_bench1 lit)"
  by (simp only: messages_bench1_def list.pred_inject prod.case
     M1_assigns_bench1 M3_assigns_bench1 M5_assigns_bench1 M9_assigns_bench1 M13_assigns_bench1
      M15_assigns_bench1 M17_assigns_bench1 M19_assigns_bench1 M23_assigns_bench1 M25_assigns_bench1
      simp_thms)

lemma members_of_bench3:
  "members_of bench3_members 1 = private_members M1_bench3"
  "members_of bench3_members 2 = private_members M2_bench3"
  "members_of bench3_members 3 = private_members M3_bench3"
  "members_of bench3_members 4 = private_members M4_bench3"
  "members_of bench3_members 5 = private_members M5_bench3"
  "members_of bench3_members 6 = private_members M6_bench3"
  "members_of bench3_members 7 = private_members M7_bench3"
  "members_of bench3_members 8 = private_members M8_bench3"
  "members_of bench3_members 9 = private_members M9_bench3"
  "members_of bench3_members 10 = private_members M10_bench3"
  "members_of bench3_members 11 = private_members M11_bench3"
  "members_of bench3_members 12 = private_members M12_bench3"
  "members_of bench3_members 13 = private_members M13_bench3"
  "members_of bench3_members 14 = private_members M14_bench3"
  "members_of bench3_members 15 = private_members M15_bench3"
  "members_of bench3_members 16 = private_members M16_bench3"
  "members_of bench3_members 17 = private_members M17_bench3"
  "members_of bench3_members 18 = private_members M18_bench3"
  "members_of bench3_members 19 = private_members M19_bench3"
  "members_of bench3_members 20 = private_members M20_bench3"
  "members_of bench3_members 21 = private_members M21_bench3"
  "members_of bench3_members 22 = private_members M22_bench3"
  "members_of bench3_members 23 = private_members M23_bench3"
  "members_of bench3_members 24 = private_members M24_bench3"
  "members_of bench3_members 25 = private_members M25_bench3"
  "members_of bench3_members 26 = private_members M26_bench3"
  "members_of bench3_members 27 = private_members M27_bench3"
  "members_of bench3_members 28 = private_members M28_bench3"
  "members_of bench3_members 29 = private_members M29_bench3"
  "members_of bench3_members 30 = private_members M30_bench3"
  by (simp_all add: members_of_def bench3_members_def)

lemmas members_bench3 = members_of_bench3 members_of_bench3(1) [unfolded One_nat_def]
     M1_bench3_def M2_bench3_def M3_bench3_def M4_bench3_def M5_bench3_def M6_bench3_def
      M7_bench3_def M8_bench3_def M9_bench3_def M10_bench3_def M11_bench3_def M12_bench3_def
      M13_bench3_def M14_bench3_def M15_bench3_def M16_bench3_def M17_bench3_def M18_bench3_def
      M19_bench3_def M20_bench3_def M21_bench3_def M22_bench3_def M23_bench3_def M24_bench3_def
      M25_bench3_def M26_bench3_def M27_bench3_def M28_bench3_def M29_bench3_def M30_bench3_def

lemma M1_assigns_bench3:
  "assigns_once bench3_members (members_of bench3_members 1) [] (M1_Set_F1_bench3 lit)"
  by (simp add: M1_Set_F1_bench3_def members_bench3)

lemma M3_assigns_bench3:
  "assigns_once bench3_members (members_of bench3_members 3) [] (M3_Set_F1_bench3 lit)"
  by (simp add: M3_Set_F1_bench3_def members_bench3)

lemma M7_assigns_bench3:
  "assigns_once bench3_members (members_of bench3_members 7) [] (M7_Set_F1_bench3 lit)"
  by (simp add: M7_Set_F1_bench3_def members_bench3)

lemma M9_assigns_bench3:
  "assigns_once bench3_members (members_of bench3_members 9) [] (M9_Set_F1_bench3 lit)"
  by (simp add: M9_Set_F1_bench3_def members_bench3)

lemma M11_assigns_bench3:
  "assigns_once bench3_members (members_of bench3_members 11) [] (M11_Set_F1_bench3 lit)"
  by (simp add: M11_Set_F1_bench3_def members_bench3)

lemma M14_assigns_bench3:
  "assigns_once bench3_members (members_of bench3_members 14) [] (M14_Set_F1_bench3 lit)"
  by (simp add: M14_Set_F1_bench3_def members_bench3)

lemma M17_assigns_bench3:
  "assigns_once bench3_members (members_of bench3_members 17) [] (M17_Set_F1_bench3 lit)"
  by (simp add: M17_Set_F1_bench3_def members_bench3)

lemma M19_assigns_bench3:
  "assigns_once bench3_members (members_of bench3_members 19) [] (M19_Set_F1_bench3 lit)"
  by (simp add: M19_Set_F1_bench3_def members_bench3)

lemma M22_assigns_bench3:
  "assigns_once bench3_members (members_of bench3_members 22) [] (M22_Set_F1_bench3 lit)"
  by (simp add: M22_Set_F1_bench3_def members_bench3)

lemma M26_assigns_bench3:
  "assigns_once bench3_members (members_of bench3_members 26) [] (M26_Set_F1_bench3 lit)"
  by (simp add: M26_Set_F1_bench3_def members_bench3)

lemma messages_assign_bench3:
  "list_all (\<lambda>(c, calls). assigns_once bench3_members (members_of bench3_members c) [] calls) (messages_bench3 lit)"
  by (simp only: messages_bench3_def list.pred_inject prod.case
     M1_assigns_bench3 M3_assigns_bench3 M7_assigns_bench3 M9_assigns_bench3 M11_assigns_bench3
      M14_assigns_bench3 M17_assigns_bench3 M19_assigns_bench3 M22_assigns_bench3 M26_assigns_bench3
      simp_thms)

lemma members_of_bench4:
  "members_of bench4_members 1 = private_members M1_bench4"
  "members_of bench4_members 2 = private_members M2_bench4"
  "members_of bench4_members 3 = private_members M3_bench4"
  "members_of bench4_members 4 = private_members M4_bench4"
  "members_of bench4_members 5 = private_members M5_bench4"
  "members_of bench4_members 6 = private_members M6_bench4"
  "members_of bench4_members 7 = private_members M7_bench4"
  "members_of bench4_members 8 = private_members M8_bench4"
  "members_of bench4_members 9 = private_members M9_bench4"
  "members_of bench4_members 10 = private_members M10_bench4"
  "members_of bench4_members 11 = private_members M11_bench4"
  "members_of bench4_members 12 = private_members M12_bench4"
  "members_of bench4_members 13 = private_members M13_bench4"
  "members_of bench4_members 14 = private_members M14_bench4"
  "members_of bench4_members 15 = private_members M15_bench4"
  "members_of bench4_members 16 = private_members M16_bench4"
  "members_of bench4_members 17 = private_members M17_bench4"
  "members_of bench4_members 18 = private_members M18_bench4"
  "members_of bench4_members 19 = private_members M19_bench4"
  "members_of bench4_members 20 = private_members M20_bench4"
  "members_of bench4_members 21 = private_members M21_bench4"
  "members_of bench4_members 22 = private_members M22_bench4"
  "members_of bench4_members 23 = private_members M23_bench4"
  "members_of bench4_members 24 = private_members M24_bench4"
  "members_of bench4_members 25 = private_members M25_bench4"
  "members_of bench4_members 26 = private_members M26_bench4"
  "members_of bench4_members 27 = private_members M27_bench4"
  "members_of bench4_members 28 = private_members M28_bench4"
  "members_of bench4_members 29 = private_members M29_bench4"
  "members_of bench4_members 30 = private_members M30_bench4"
  "members_of bench4_members 31 = private_members M31_bench4"
  "members_of bench4_members 32 = private_members M32_bench4"
  "members_of bench4_members 33 = private_members M33_bench4"
  "members_of bench4_members 34 = private_members M34_bench4"
  "members_of bench4_members 35 = private_members M35_bench4"
  "members_of bench4_members 36 = private_members M36_bench4"
  "members_of bench4_members 37 = private_members M37_bench4"
  "members_of bench4_members 38 = private_members M38_bench4"
  "members_of bench4_members 39 = private_members M39_bench4"
  "members_of bench4_members 40 = private_members M40_bench4"
  "members_of bench4_members 41 = private_members M41_bench4"
  "members_of bench4_members 42 = private_members M42_bench4"
  "members_of bench4_members 43 = private_members M43_bench4"
  "members_of bench4_members 44 = private_members M44_bench4"
  "members_of bench4_members 45 = private_members M45_bench4"
  "members_of bench4_members 46 = private_members M46_bench4"
  by (simp_all add: members_of_def bench4_members_def)

lemmas members_bench4 = members_of_bench4 members_of_bench4(1) [unfolded One_nat_def]
     M1_bench4_def M2_bench4_def M3_bench4_def M4_bench4_def M5_bench4_def M6_bench4_def
      M7_bench4_def M8_bench4_def M9_bench4_def M10_bench4_def M11_bench4_def M12_bench4_def
      M13_bench4_def M14_bench4_def M15_bench4_def M16_bench4_def M17_bench4_def M18_bench4_def
      M19_bench4_def M20_bench4_def M21_bench4_def M22_bench4_def M23_bench4_def M24_bench4_def
      M25_bench4_def M26_bench4_def M27_bench4_def M28_bench4_def M29_bench4_def M30_bench4_def
      M31_bench4_def M32_bench4_def M33_bench4_def M34_bench4_def M35_bench4_def M36_bench4_def
      M37_bench4_def M38_bench4_def M39_bench4_def M40_bench4_def M41_bench4_def M42_bench4_def
      M43_bench4_def M44_bench4_def M45_bench4_def M46_bench4_def

lemma M1_assigns_bench4:
  "assigns_once bench4_members (members_of bench4_members 1) [] (M1_Set_F1_bench4 lit)"
  by (simp add: M1_Set_F1_bench4_def members_bench4)

lemma M6_assigns_bench4:
  "assigns_once bench4_members (members_of bench4_members 6) [] (M6_Set_F1_bench4 lit)"
  by (simp add: M6_Set_F1_bench4_def members_bench4)

lemma M11_assigns_bench4:
  "assigns_once bench4_members (members_of bench4_members 11) [] (M11_Set_F1_bench4 lit)"
  by (simp add: M11_Set_F1_bench4_def members_bench4)

lemma M17_assigns_bench4:
  "assigns_once bench4_members (members_of bench4_members 17) [] (M17_Set_F1_bench4 lit)"
  by (simp add: M17_Set_F1_bench4_def members_bench4)

lemma M21_assigns_bench4:
  "assigns_once bench4_members (members_of bench4_members 21) [] (M21_Set_F1_bench4 lit)"
  by (simp add: M21_Set_F1_bench4_def members_bench4)

lemma M25_assigns_bench4:
  "assigns_once bench4_members (members_of bench4_members 25) [] (M25_Set_F1_bench4 lit)"
  by (simp add: M25_Set_F1_bench4_def members_bench4)

lemma M30_assigns_bench4:
  "assigns_once bench4_members (members_of bench4_members 30) [] (M30_Set_F1_bench4 lit)"
  by (simp add: M30_Set_F1_bench4_def members_bench4)

lemma M35_assigns_bench4:
  "assigns_once bench4_members (members_of bench4_members 35) [] (M35_Set_F1_bench4 lit)"
  by (simp add: M35_Set_F1_bench4_def members_bench4)

lemma M39_assigns_bench4:
  "assigns_once bench4_members (members_of bench4_members 39) [] (M39_Set_F1_bench4 lit)"
  by (simp add: M39_Set_F1_bench4_def members_bench4)

lemma M43_assigns_bench4:
  "assigns_once bench4_members (members_of bench4_members 43) [] (M43_Set_F1_bench4 lit)"
  by (simp add: M43_Set_F1_bench4_def members_bench4)

lemma messages_assign_bench4:
  "list_all (\<lambda>(c, calls). assigns_once bench4_members (members_of bench4_members c) [] calls) (messages_bench4 lit)"
  by (simp only: messages_bench4_def list.pred_inject prod.case
     M1_assigns_bench4 M6_assigns_bench4 M11_assigns_bench4 M17_assigns_bench4 M21_assigns_bench4
      M25_assigns_bench4 M30_assigns_bench4 M35_assigns_bench4 M39_assigns_bench4 M43_assigns_bench4
      simp_thms)

lemma messages_assign:
  assumes "(start, create, tbl, messages) \<in> set hyperproto_programs"
  shows "list_all (\<lambda>(c, calls). assigns_once tbl (members_of tbl c) [] calls) (messages lit)"
  using assms messages_assign_bench0 messages_assign_bench1 messages_assign_bench3 messages_assign_bench4
  unfolding hyperproto_programs_def by auto

section \<open>Properties\<close>

text \<open>C19. For each of the forty sample messages of benchmarks 0, 1, 3 and 4, whatever its string literals
  below 2 to the 20 characters: \<open>BenchmarkInit\<close> registers the classes and hands out the layout of a
  message, the metadata walk and the serializer run on it, and the parser rebuilds it from the bytes,
  the table and the registered classes, with the long strings empty.\<close>

theorem hyperproto_benchmarks:
  assumes "(start, create, tbl, messages) \<in> set hyperproto_programs" and "idx < 10"
    and "\<And>l. length (lit l) < 2 ^ 20" and "rows_ok st"
  shows "\<exists>m mdv msv st' out. start lit idx (\<lambda>_. zero_metadata) (\<lambda>_. 0) = Inr (layout m, mdv, msv)
    \<and> SendMetadataToFPGA (layout m) msv st = Inr st'
    \<and> SerializeToString (layout m) True 0 msv = Inr (out, of_nat (length out), of_nat (length out))
    \<and> ParseFromString (depth m) out (blank_of create zero_metadata (class_id (msg_metadata m)))
        (ucast (class_id (msg_metadata m)))
        \<lparr>metadataVec = mdv, messageSizeVec = msv, FPGA_metadataVec = table st', createMessage = create\<rparr>
      = Inr (layout (received True m))"
proof (rule program_tables [OF assms(1,3)])
  fix rows
  assume rows: "generated_tables tbl rows" "create = table_create tbl"
    "start lit = BenchmarkInit_sample (register_rows rows) (table_size tbl) tbl (messages lit)"
    "list_all (\<lambda>(c, calls). message_ok rows c calls) (messages lit)" "length (messages lit) = 10"
  show ?thesis
    using generated_tables.sample_roundtrip [OF rows(1,4) _ assms(4), of idx] assms(2) rows(5)
    unfolding rows(2,3) by fastforce
qed

text \<open>Literals of up to 2047 characters, so that some are sent outside the stream.\<close>

theorem hyperproto_benchmarks_witness:
  "\<exists>m mdv msv st' out.
      BenchmarkInit_bench1 (\<lambda>l. replicate (l mod 2048) 97) 3 (\<lambda>_. zero_metadata) (\<lambda>_. 0) = Inr (layout m, mdv, msv)
    \<and> SendMetadataToFPGA (layout m) msv fresh_state = Inr st'
    \<and> SerializeToString (layout m) True 0 msv = Inr (out, of_nat (length out), of_nat (length out))
    \<and> ParseFromString (depth m) out (blank_of createMessage_bench1 zero_metadata (class_id (msg_metadata m)))
        (ucast (class_id (msg_metadata m)))
        \<lparr>metadataVec = mdv, messageSizeVec = msv, FPGA_metadataVec = table st', createMessage = createMessage_bench1\<rparr>
      = Inr (layout (received True m))"
proof (rule hyperproto_benchmarks [where start = BenchmarkInit_bench1 and tbl = bench1_members
      and messages = messages_bench1, OF _ _ _ fresh_rows_ok])
  show "length (replicate (l mod 2048) 97 :: bytes) < 2 ^ 20" for l :: nat
    using mod_less_divisor [of 2048 l] by simp
qed (simp_all add: hyperproto_programs_def)

text \<open>C20. The programmer's view of the same run: whatever a top-level \<open>set_f<i>\<close> of a sample message stored last,
  the receiver's \<open>get_f<i>\<close> returns it from the parsed object, or the empty string for one of over 1024
  bytes, which is sent outside the stream.\<close>

theorem fields_received:
  assumes "(start, create, tbl, messages) \<in> set hyperproto_programs" and "idx < 10"
    and "\<And>l. length (lit l) < 2 ^ 20" and "rows_ok st"
    and "messages lit ! idx = (c, xs @ Set_f i v # ys)" and "list_all (\<lambda>s. setter_field s \<noteq> i) ys"
  shows "\<exists>m mdv msv st' out ob. start lit idx (\<lambda>_. zero_metadata) (\<lambda>_. 0) = Inr (layout m, mdv, msv)
    \<and> SendMetadataToFPGA (layout m) msv st = Inr st'
    \<and> SerializeToString (layout m) True 0 msv = Inr (out, of_nat (length out), of_nat (length out))
    \<and> ParseFromString (depth m) out (blank_of create zero_metadata (class_id (msg_metadata m)))
        (ucast (class_id (msg_metadata m)))
        \<lparr>metadataVec = mdv, messageSizeVec = msv, FPGA_metadataVec = table st', createMessage = create\<rparr>
      = Inr ob
    \<and> get_member (members_of tbl c) (i - 1) ob = Inr (OVal (if long_value v then empty_val v else norm_val v))"
proof (rule program_tables [OF assms(1,3)])
  fix rows
  assume rows: "generated_tables tbl rows" "create = table_create tbl"
    "start lit = BenchmarkInit_sample (register_rows rows) (table_size tbl) tbl (messages lit)"
    "list_all (\<lambda>(c, calls). message_ok rows c calls) (messages lit)" "length (messages lit) = 10"
  have "idx < length (messages lit)" using assms(2) rows(5) by simp
  note sent = generated_tables.sample_received [OF rows(1,4) this assms(4-6)]
  have cell: "layout_val (received_val True (MVal v)) = OVal (if long_value v then empty_val v else norm_val v)" by simp
  show ?thesis using sent unfolding rows(2,3) cell by blast
qed

text \<open>Message 4 of benchmark 1 sets its field 4 to a string of 2000 bytes and its field 8 to a number.\<close>

theorem fields_received_witness:
  "\<exists>m mdv msv st' out ob.
      BenchmarkInit_bench1 (\<lambda>l. replicate 2000 97) 4 (\<lambda>_. zero_metadata) (\<lambda>_. 0) = Inr (layout m, mdv, msv)
    \<and> SendMetadataToFPGA (layout m) msv fresh_state = Inr st'
    \<and> SerializeToString (layout m) True 0 msv = Inr (out, of_nat (length out), of_nat (length out))
    \<and> ParseFromString (depth m) out (blank_of createMessage_bench1 zero_metadata (class_id (msg_metadata m)))
        (ucast (class_id (msg_metadata m)))
        \<lparr>metadataVec = mdv, messageSizeVec = msv, FPGA_metadataVec = table st', createMessage = createMessage_bench1\<rparr>
      = Inr ob
    \<and> get_member (members_of bench1_members 13) (4 - 1) ob = Inr (OVal (VStr []))"
proof -
  let ?xs = "[Set_f 5 (VStr (replicate 2000 97)), Mutable_f 2 14 [Set_f 1 (V32 0x34B5)]]"
  let ?ys = "drop 3 (M13_Set_F1_bench1 (\<lambda>l. replicate 2000 97))"
  have "messages_bench1 (\<lambda>l. replicate 2000 97) ! 4 = (13, ?xs @ Set_f 4 (VStr (replicate 2000 97)) # ?ys)"
    by (simp add: messages_bench1_def M13_Set_F1_bench1_def)
  moreover have "list_all (\<lambda>s. setter_field s \<noteq> 4) ?ys" by (simp add: M13_Set_F1_bench1_def)
  moreover have "(BenchmarkInit_bench1, createMessage_bench1, bench1_members, messages_bench1) \<in> set hyperproto_programs"
    by (simp add: hyperproto_programs_def)
  moreover have "long_value (VStr (replicate 2000 97))" by (simp add: long_limit_def)
  ultimately show ?thesis
    using fields_received [OF _ _ _ fresh_rows_ok, of BenchmarkInit_bench1 createMessage_bench1 bench1_members
        messages_bench1 4 "\<lambda>l. replicate 2000 97" 13 ?xs 4 "VStr (replicate 2000 97)" ?ys] by simp
qed

text \<open>C22. What \<open>M<c>_Set_F1\<close> allocates for any of the forty sample messages, its destructor frees, each
  object exactly once: this is what happens to the messages of the headers, which are variables at file scope, when the
  program ends.  \<open>M<c>_Destroy_F1\<close>, which nothing calls, frees these objects and the two messages once when it is given
  messages that \<open>new\<close> allocated.  On the variables of the headers it is undefined, since it deletes what \<open>new\<close> did
  not allocate.\<close>

theorem messages_freed:
  assumes "(start, create, tbl, messages) \<in> set hyperproto_programs" and "idx < 10"
    and "messages lit ! idx = (c, calls)"
  shows "mset (destroy tbl c (filled_message tbl mdv c calls)) = mset (created calls)
    \<and> (\<exists>frees. Destroy_F1 tbl c (On_heap, filled_message tbl mdv c calls)
          (On_heap, construct (generated_class (members_of tbl c))) = Inr frees
        \<and> mset frees = mset (created calls) + {#c, c#})
    \<and> Destroy_F1 tbl c (message_storage, filled_message tbl mdv c calls)
        (message_storage, construct (generated_class (members_of tbl c))) = Inl Bad_delete"
proof -
  have "length (messages lit) = 10"
    using assms(1) length_messages_bench0 length_messages_bench1 length_messages_bench3 length_messages_bench4
    unfolding hyperproto_programs_def by auto
  then have "assigns_once tbl (members_of tbl c) [] calls"
    using messages_assign [OF assms(1), of lit] assms(2,3) by (auto simp: list_all_length)
  from filled_message_freed [OF this, of mdv] show ?thesis
    by (simp add: Destroy_F1_def message_storage_def destroy_new_object)
qed

text \<open>Message 4 of benchmark 1 allocates an object of class 14.\<close>

theorem messages_freed_witness:
  "mset (destroy bench1_members 13 (filled_message bench1_members (\<lambda>_. zero_metadata) 13 (M13_Set_F1_bench1 (\<lambda>_. []))))
    = {#14#}"
  using messages_freed [of BenchmarkInit_bench1 createMessage_bench1 bench1_members messages_bench1 4
      "\<lambda>_. []" 13 "M13_Set_F1_bench1 (\<lambda>_. [])" "\<lambda>_. zero_metadata"]
  by (simp add: hyperproto_programs_def messages_bench1_def M13_Set_F1_bench1_def)

end
