(* ===== verification/Hyperproto_Unregistered.thy ===== *)
theory Hyperproto_Unregistered
  imports Setters
begin

text \<open>
  The classes of the HyperProtoBench benchmarks 2 and 5 (\<open>include/bench_header/bench<n>_testclass.h\<close>), with
  \<open>createMessage\<close> and \<open>getMessageSize\<close>.  The files that register these classes are not in the tree: the
  rows they would register are an argument.
\<close>

section \<open>Benchmark 2\<close>

definition M1_bench2 :: gen_class where
  "M1_bench2 = generated_class
     [Enum, Ptr 2, Bool, Int64, Ptr 3, Ptr 10, Float, Ptr 15, Bool, Float, Float, Int32, Enum, Int32]"

definition M2_bench2 :: gen_class where
  "M2_bench2 = generated_class [Int64, VecUInt32]"

definition M3_bench2 :: gen_class where
  "M3_bench2 = generated_class [UInt32, Ptr 4, Ptr 8]"

definition M4_bench2 :: gen_class where
  "M4_bench2 = generated_class [Ptr 5, Ptr 7, Enum]"

definition M5_bench2 :: gen_class where
  "M5_bench2 = generated_class [Ptr 6, Int32, Int32]"

definition M6_bench2 :: gen_class where
  "M6_bench2 = generated_class [Int32]"

definition M7_bench2 :: gen_class where
  "M7_bench2 = generated_class [Bool]"

definition M8_bench2 :: gen_class where
  "M8_bench2 = generated_class [Int32, Ptr 9]"

definition M9_bench2 :: gen_class where
  "M9_bench2 = generated_class [String, Bool, Int32]"

definition M10_bench2 :: gen_class where
  "M10_bench2 = generated_class
     [Ptr 11, Int32, Int32, Ptr 12, UInt32, UInt32, Int32, Ptr 14, Int64, Int32, Int64]"

definition M11_bench2 :: gen_class where
  "M11_bench2 = generated_class [Int64, UInt32, UInt32]"

definition M12_bench2 :: gen_class where
  "M12_bench2 = generated_class [Enum, Ptr 13]"

definition M13_bench2 :: gen_class where
  "M13_bench2 = generated_class [Int64, String, Enum]"

definition M14_bench2 :: gen_class where
  "M14_bench2 = generated_class [Enum]"

definition M15_bench2 :: gen_class where
  "M15_bench2 = generated_class [Ptr 16, Ptr 34, Int64, Int32, Bool]"

definition M16_bench2 :: gen_class where
  "M16_bench2 = generated_class [Ptr 17, Int32]"

definition M17_bench2 :: gen_class where
  "M17_bench2 = generated_class [Int32, Ptr 18, Ptr 22, Float]"

definition M18_bench2 :: gen_class where
  "M18_bench2 = generated_class
     [Bool, Int32, Int32, Int64, Int64, Enum, Enum, Ptr 19, UInt32, Int32, Int32]"

definition M19_bench2 :: gen_class where
  "M19_bench2 = generated_class
     [Enum, Float, Int32, Ptr 20, Ptr 21, Enum, UInt32, Int32, Int32, Enum, String, Int64]"

definition M20_bench2 :: gen_class where
  "M20_bench2 = generated_class [Int32, Int32, Int32, String, UInt32, Int64, Enum]"

definition M21_bench2 :: gen_class where
  "M21_bench2 = generated_class [Enum]"

definition M22_bench2 :: gen_class where
  "M22_bench2 = generated_class [Enum, Ptr 23, Bool, Int32, Enum, UInt32, Enum, Int32, Int64]"

definition M23_bench2 :: gen_class where
  "M23_bench2 = generated_class [UInt32, Int64, Ptr 24]"

definition M24_bench2 :: gen_class where
  "M24_bench2 = generated_class [Enum, Enum, Ptr 25, VecString]"

definition M25_bench2 :: gen_class where
  "M25_bench2 = generated_class [Ptr 26, Enum, Int32, Bool]"

definition M26_bench2 :: gen_class where
  "M26_bench2 = generated_class [Enum, Ptr 27, Float]"

definition M27_bench2 :: gen_class where
  "M27_bench2 = generated_class
     [Bool, Bool, Bool, Ptr 28, UInt32, UInt32, Int32, Bool, Enum, Enum, Enum]"

definition M28_bench2 :: gen_class where
  "M28_bench2 = generated_class
     [Float, Ptr 29, Enum, Float, String, Enum, Float, Enum, VecFloat, String, Float]"

definition M29_bench2 :: gen_class where
  "M29_bench2 = generated_class [Ptr 30, Ptr 33, Enum, Int64]"

definition M30_bench2 :: gen_class where
  "M30_bench2 = generated_class [Enum, Ptr 31, Ptr 32]"

definition M31_bench2 :: gen_class where
  "M31_bench2 = generated_class [Int32]"

definition M32_bench2 :: gen_class where
  "M32_bench2 = generated_class [Int32, Bool, Int64, Enum, Int32, Enum, Int32, Int32, Int64]"

definition M33_bench2 :: gen_class where
  "M33_bench2 = generated_class [Float]"

definition M34_bench2 :: gen_class where
  "M34_bench2 = generated_class [Int64, Int32, Int32, Enum, Enum]"

definition M35_bench2 :: gen_class where
  "M35_bench2 = generated_class
     [UInt32, Ptr 36, Ptr 63, Ptr 65, Int32, Float, UInt64, Enum, Enum, Int32, Int32, Int32, Ptr 66,
      UInt32]"

definition M36_bench2 :: gen_class where
  "M36_bench2 = generated_class [Enum, Ptr 37, Ptr 43, Ptr 45, Int64, Bool, Ptr 46]"

definition M37_bench2 :: gen_class where
  "M37_bench2 = generated_class [Ptr 38, Int32, Bool]"

definition M38_bench2 :: gen_class where
  "M38_bench2 = generated_class [Enum, UInt64, UInt32, Ptr 39, Ptr 40, UInt32, UInt32, Enum, Enum]"

definition M39_bench2 :: gen_class where
  "M39_bench2 = generated_class [Enum, Int32]"

definition M40_bench2 :: gen_class where
  "M40_bench2 = generated_class [Int32, String, String, Ptr 41, Enum, Enum, Enum]"

definition M41_bench2 :: gen_class where
  "M41_bench2 = generated_class [Enum, Int32, Enum, Ptr 42, Int64, Float, Enum, UInt32, Enum, String]"

definition M42_bench2 :: gen_class where
  "M42_bench2 = generated_class [Enum]"

definition M43_bench2 :: gen_class where
  "M43_bench2 = generated_class [Ptr 44, Int64]"

definition M44_bench2 :: gen_class where
  "M44_bench2 = generated_class [Int64, Int32, Bool, Float, Enum]"

definition M45_bench2 :: gen_class where
  "M45_bench2 = generated_class [Int32]"

definition M46_bench2 :: gen_class where
  "M46_bench2 = generated_class [Enum, Ptr 47, Bool, String]"

definition M47_bench2 :: gen_class where
  "M47_bench2 = generated_class [Ptr 48, Ptr 49, Ptr 62, UInt32]"

definition M48_bench2 :: gen_class where
  "M48_bench2 = generated_class [Int32, Float]"

definition M49_bench2 :: gen_class where
  "M49_bench2 = generated_class [Ptr 50, Float, Ptr 51]"

definition M50_bench2 :: gen_class where
  "M50_bench2 = generated_class [Int32, UInt64, Int64, Int64]"

definition M51_bench2 :: gen_class where
  "M51_bench2 = generated_class [Ptr 52, UInt32, Ptr 53]"

definition M52_bench2 :: gen_class where
  "M52_bench2 = generated_class [Enum, Enum, String, Float, Enum, Int32, VecString, Bool]"

definition M53_bench2 :: gen_class where
  "M53_bench2 = generated_class [Int32, Ptr 54, Int64]"

definition M54_bench2 :: gen_class where
  "M54_bench2 = generated_class
     [Enum, Int32, Int32, Int32, UInt32, Enum, VecFloat, Ptr 55, Enum, Ptr 56, Int64, Bool]"

definition M55_bench2 :: gen_class where
  "M55_bench2 = generated_class [Enum, Int32, UInt32]"

definition M56_bench2 :: gen_class where
  "M56_bench2 = generated_class [UInt32, Ptr 57]"

definition M57_bench2 :: gen_class where
  "M57_bench2 = generated_class [Float, Ptr 58]"

definition M58_bench2 :: gen_class where
  "M58_bench2 = generated_class [Int32, Ptr 59, UInt32]"

definition M59_bench2 :: gen_class where
  "M59_bench2 = generated_class [String, Int32, Ptr 60]"

definition M60_bench2 :: gen_class where
  "M60_bench2 = generated_class
     [Bool, Float, Enum, UInt32, UInt32, Int32, Float, Bool, Float, String, Ptr 61]"

definition M61_bench2 :: gen_class where
  "M61_bench2 = generated_class [UInt32, UInt32, Int64, Enum, VecString, VecString, Enum, Bool]"

definition M62_bench2 :: gen_class where
  "M62_bench2 = generated_class [Enum]"

definition M63_bench2 :: gen_class where
  "M63_bench2 = generated_class [Ptr 64, String, Int64]"

definition M64_bench2 :: gen_class where
  "M64_bench2 = generated_class [Int32]"

definition M65_bench2 :: gen_class where
  "M65_bench2 = generated_class [Int32, Float, Enum, Int32, Enum, Float]"

definition M66_bench2 :: gen_class where
  "M66_bench2 = generated_class [Ptr 67, Bool, Int32]"

definition M67_bench2 :: gen_class where
  "M67_bench2 = generated_class [VecString, Enum, Int64, Bool, UInt32, Enum]"

definition M68_bench2 :: gen_class where
  "M68_bench2 = generated_class
     [Float, Enum, Int64, Int32, Int32, Ptr 69, Bool, Enum, Ptr 70, String, Ptr 72, Ptr 100, Ptr 103,
      VecFloat, Enum]"

definition M69_bench2 :: gen_class where
  "M69_bench2 = generated_class [Float, UInt32, Int32, Float, VecString, Int64]"

definition M70_bench2 :: gen_class where
  "M70_bench2 = generated_class [Int32, UInt64, Enum, Ptr 71]"

definition M71_bench2 :: gen_class where
  "M71_bench2 = generated_class [Enum, Enum]"

definition M72_bench2 :: gen_class where
  "M72_bench2 = generated_class [Int32, Ptr 73, Ptr 76]"

definition M73_bench2 :: gen_class where
  "M73_bench2 = generated_class [Int64, Ptr 74]"

definition M74_bench2 :: gen_class where
  "M74_bench2 = generated_class [Ptr 75, Int32, Int32, VecInt64]"

definition M75_bench2 :: gen_class where
  "M75_bench2 = generated_class [Int64]"

definition M76_bench2 :: gen_class where
  "M76_bench2 = generated_class [Ptr 77, Float, Ptr 78, Ptr 99]"

definition M77_bench2 :: gen_class where
  "M77_bench2 = generated_class [Float]"

definition M78_bench2 :: gen_class where
  "M78_bench2 = generated_class [Ptr 79, Ptr 91, Ptr 92, Float, UInt32, Ptr 94, Ptr 97]"

definition M79_bench2 :: gen_class where
  "M79_bench2 = generated_class [Ptr 80, Enum, Int32]"

definition M80_bench2 :: gen_class where
  "M80_bench2 = generated_class [Int64, Ptr 81]"

definition M81_bench2 :: gen_class where
  "M81_bench2 = generated_class [String, Bool, Enum, Ptr 82, Ptr 83, UInt32, VecString]"

definition M82_bench2 :: gen_class where
  "M82_bench2 = generated_class [Enum, Enum, String]"

definition M83_bench2 :: gen_class where
  "M83_bench2 = generated_class [Ptr 84, Int64, Float]"

definition M84_bench2 :: gen_class where
  "M84_bench2 = generated_class [Bool, Int32, Enum, Int32, Float, Enum, Ptr 85]"

definition M85_bench2 :: gen_class where
  "M85_bench2 = generated_class [Ptr 86, Bool]"

definition M86_bench2 :: gen_class where
  "M86_bench2 = generated_class [Enum, Ptr 87, Enum]"

definition M87_bench2 :: gen_class where
  "M87_bench2 = generated_class [Float, Int64, Ptr 88, Float, String, Ptr 90, Enum]"

definition M88_bench2 :: gen_class where
  "M88_bench2 = generated_class [Ptr 89, Float]"

definition M89_bench2 :: gen_class where
  "M89_bench2 = generated_class [Enum, Int64, Bool]"

definition M90_bench2 :: gen_class where
  "M90_bench2 = generated_class [UInt32]"

definition M91_bench2 :: gen_class where
  "M91_bench2 = generated_class [Enum, Enum]"

definition M92_bench2 :: gen_class where
  "M92_bench2 = generated_class [Ptr 93, UInt32, Enum]"

definition M93_bench2 :: gen_class where
  "M93_bench2 = generated_class [Int32, Int32]"

definition M94_bench2 :: gen_class where
  "M94_bench2 = generated_class [Enum, Ptr 95]"

definition M95_bench2 :: gen_class where
  "M95_bench2 = generated_class
     [Enum, Ptr 96, Enum, VecString, Bool, Int32, Enum, Enum, Float, UInt32, Int32]"

definition M96_bench2 :: gen_class where
  "M96_bench2 = generated_class [Int32]"

definition M97_bench2 :: gen_class where
  "M97_bench2 = generated_class [Enum, Ptr 98, Int32, UInt64]"

definition M98_bench2 :: gen_class where
  "M98_bench2 = generated_class [Int64, Enum]"

definition M99_bench2 :: gen_class where
  "M99_bench2 = generated_class [Int32, Enum, Int32, Enum, Bool]"

definition M100_bench2 :: gen_class where
  "M100_bench2 = generated_class [Bool, Ptr 101, UInt32]"

definition M101_bench2 :: gen_class where
  "M101_bench2 = generated_class [Enum, Ptr 102, UInt32, Int32, Float, Float, UInt32]"

definition M102_bench2 :: gen_class where
  "M102_bench2 = generated_class [VecInt64, Enum]"

definition M103_bench2 :: gen_class where
  "M103_bench2 = generated_class [UInt64]"

definition M104_bench2 :: gen_class where
  "M104_bench2 = generated_class [Int32, Ptr 105, UInt32, Ptr 123, Int64, VecInt32, String, Enum, Enum]"

definition M105_bench2 :: gen_class where
  "M105_bench2 = generated_class [Enum, Int32, VecString, Enum, Ptr 106, Int64, Enum]"

definition M106_bench2 :: gen_class where
  "M106_bench2 = generated_class [UInt32, Ptr 107, Ptr 122, Float]"

definition M107_bench2 :: gen_class where
  "M107_bench2 = generated_class [Ptr 108, UInt32, Int32, Ptr 111, Int32, Float]"

definition M108_bench2 :: gen_class where
  "M108_bench2 = generated_class [Enum, Ptr 109]"

definition M109_bench2 :: gen_class where
  "M109_bench2 = generated_class [Float, Int32, Float, Ptr 110, Enum]"

definition M110_bench2 :: gen_class where
  "M110_bench2 = generated_class [Enum, Float, Int32, Bool]"

definition M111_bench2 :: gen_class where
  "M111_bench2 = generated_class [Int32, Ptr 112, Enum, Int32, Enum, String, Enum]"

definition M112_bench2 :: gen_class where
  "M112_bench2 = generated_class [Ptr 113, Float, Ptr 121]"

definition M113_bench2 :: gen_class where
  "M113_bench2 = generated_class [Ptr 114, Enum]"

definition M114_bench2 :: gen_class where
  "M114_bench2 = generated_class [Int32, Ptr 115, Int32]"

definition M115_bench2 :: gen_class where
  "M115_bench2 = generated_class [Ptr 116, UInt32]"

definition M116_bench2 :: gen_class where
  "M116_bench2 = generated_class [Ptr 117, Enum]"

definition M117_bench2 :: gen_class where
  "M117_bench2 = generated_class [Enum, Ptr 118]"

definition M118_bench2 :: gen_class where
  "M118_bench2 = generated_class [String, Ptr 119]"

definition M119_bench2 :: gen_class where
  "M119_bench2 = generated_class [Int64, Enum, Int64, Float, UInt32, Ptr 120, UInt32]"

definition M120_bench2 :: gen_class where
  "M120_bench2 = generated_class [VecString, VecString, Float]"

definition M121_bench2 :: gen_class where
  "M121_bench2 = generated_class [Float]"

definition M122_bench2 :: gen_class where
  "M122_bench2 = generated_class [Int32, UInt32, String]"

definition M123_bench2 :: gen_class where
  "M123_bench2 = generated_class [UInt32, Ptr 124]"

definition M124_bench2 :: gen_class where
  "M124_bench2 = generated_class [Float, Ptr 125, Ptr 127, Bool, Bool, Enum]"

definition M125_bench2 :: gen_class where
  "M125_bench2 = generated_class [Ptr 126, Int32]"

definition M126_bench2 :: gen_class where
  "M126_bench2 = generated_class [UInt32, Int32, Enum]"

definition M127_bench2 :: gen_class where
  "M127_bench2 = generated_class [Int32, Ptr 128]"

definition M128_bench2 :: gen_class where
  "M128_bench2 = generated_class [Enum]"

definition M129_bench2 :: gen_class where
  "M129_bench2 = generated_class
     [Ptr 130, Float, Float, String, Int32, Enum, Ptr 131, Ptr 157, UInt32, Float, Float, Ptr 160,
      UInt32, Int32]"

definition M130_bench2 :: gen_class where
  "M130_bench2 = generated_class [Enum, Int32, Enum, Bool]"

definition M131_bench2 :: gen_class where
  "M131_bench2 = generated_class [UInt64, UInt32, Float, Ptr 132]"

definition M132_bench2 :: gen_class where
  "M132_bench2 = generated_class [Ptr 133, Ptr 136, Enum]"

definition M133_bench2 :: gen_class where
  "M133_bench2 = generated_class [Enum, Float, Bool, Float, Ptr 134, String]"

definition M134_bench2 :: gen_class where
  "M134_bench2 = generated_class [Int32, Ptr 135, Float, Enum]"

definition M135_bench2 :: gen_class where
  "M135_bench2 = generated_class [Bool, Enum, Enum, String, Enum, Int32, UInt32, Enum]"

definition M136_bench2 :: gen_class where
  "M136_bench2 = generated_class
     [Ptr 137, UInt32, UInt32, Int32, UInt32, Ptr 154, Ptr 155, Float, Float, Ptr 156, Enum]"

definition M137_bench2 :: gen_class where
  "M137_bench2 = generated_class [Bool, Int64, Ptr 138, Ptr 139]"

definition M138_bench2 :: gen_class where
  "M138_bench2 = generated_class [Enum, UInt32]"

definition M139_bench2 :: gen_class where
  "M139_bench2 = generated_class [Enum, Ptr 140, Ptr 153, Int32, Enum, Enum]"

definition M140_bench2 :: gen_class where
  "M140_bench2 = generated_class [Enum, Ptr 141, VecFloat, Ptr 151, String, Enum, Ptr 152, Int64]"

definition M141_bench2 :: gen_class where
  "M141_bench2 = generated_class [UInt32, Ptr 142]"

definition M142_bench2 :: gen_class where
  "M142_bench2 = generated_class [Int32, Ptr 143, Int64]"

definition M143_bench2 :: gen_class where
  "M143_bench2 = generated_class
     [Int32, Ptr 144, Int32, Enum, VecEnum, Enum, Float, Float, String, Bool, UInt32, Ptr 147]"

definition M144_bench2 :: gen_class where
  "M144_bench2 = generated_class
     [Enum, Enum, Enum, Enum, Bool, Enum, Ptr 145, Float, Bool, Int32, Enum]"

definition M145_bench2 :: gen_class where
  "M145_bench2 = generated_class [Ptr 146, Enum]"

definition M146_bench2 :: gen_class where
  "M146_bench2 = generated_class [Enum]"

definition M147_bench2 :: gen_class where
  "M147_bench2 = generated_class [Enum, Ptr 148]"

definition M148_bench2 :: gen_class where
  "M148_bench2 = generated_class [Ptr 149, Bool, Enum]"

definition M149_bench2 :: gen_class where
  "M149_bench2 = generated_class [Ptr 150, Int64]"

definition M150_bench2 :: gen_class where
  "M150_bench2 = generated_class [Float, Enum, Enum]"

definition M151_bench2 :: gen_class where
  "M151_bench2 = generated_class [Bool]"

definition M152_bench2 :: gen_class where
  "M152_bench2 = generated_class [Enum]"

definition M153_bench2 :: gen_class where
  "M153_bench2 = generated_class [Enum]"

definition M154_bench2 :: gen_class where
  "M154_bench2 = generated_class [Enum, Float, Bool]"

definition M155_bench2 :: gen_class where
  "M155_bench2 = generated_class [Enum]"

definition M156_bench2 :: gen_class where
  "M156_bench2 = generated_class [Enum, Enum, Int64, UInt32, Float]"

definition M157_bench2 :: gen_class where
  "M157_bench2 = generated_class [Enum, Ptr 158, UInt32, Ptr 159]"

definition M158_bench2 :: gen_class where
  "M158_bench2 = generated_class [Int32, Float]"

definition M159_bench2 :: gen_class where
  "M159_bench2 = generated_class [Enum]"

definition M160_bench2 :: gen_class where
  "M160_bench2 = generated_class [Ptr 161, Int32, Ptr 162, Float]"

definition M161_bench2 :: gen_class where
  "M161_bench2 = generated_class [Int32, Enum, Int64, Int32, Int32, Bool]"

definition M162_bench2 :: gen_class where
  "M162_bench2 = generated_class [Int32]"

definition M163_bench2 :: gen_class where
  "M163_bench2 = generated_class
     [Enum, Int64, Float, Ptr 164, Ptr 187, Float, Bool, VecInt32, UInt32, Enum, Int32, Float]"

definition M164_bench2 :: gen_class where
  "M164_bench2 = generated_class [Ptr 165, Enum, Enum, UInt32, Int32, Ptr 183]"

definition M165_bench2 :: gen_class where
  "M165_bench2 = generated_class [Ptr 166, Enum]"

definition M166_bench2 :: gen_class where
  "M166_bench2 = generated_class [Enum, Ptr 167, VecFloat]"

definition M167_bench2 :: gen_class where
  "M167_bench2 = generated_class [Float, Ptr 168, Ptr 182]"

definition M168_bench2 :: gen_class where
  "M168_bench2 = generated_class [UInt32, Ptr 169, Bool]"

definition M169_bench2 :: gen_class where
  "M169_bench2 = generated_class
     [Int64, Float, Ptr 170, Int64, Ptr 171, Float, UInt32, Enum, Ptr 172, UInt32]"

definition M170_bench2 :: gen_class where
  "M170_bench2 = generated_class [UInt32]"

definition M171_bench2 :: gen_class where
  "M171_bench2 = generated_class [Int32]"

definition M172_bench2 :: gen_class where
  "M172_bench2 = generated_class [Enum, String, Int32, Ptr 173, Ptr 174, Int32, Int32, Enum]"

definition M173_bench2 :: gen_class where
  "M173_bench2 = generated_class [Enum]"

definition M174_bench2 :: gen_class where
  "M174_bench2 = generated_class [Enum, Ptr 175]"

definition M175_bench2 :: gen_class where
  "M175_bench2 = generated_class [Ptr 176, Int32]"

definition M176_bench2 :: gen_class where
  "M176_bench2 = generated_class [Enum, Float, String, Ptr 177, Ptr 178, Enum, Enum, Enum]"

definition M177_bench2 :: gen_class where
  "M177_bench2 = generated_class [Float, Float]"

definition M178_bench2 :: gen_class where
  "M178_bench2 = generated_class [Ptr 179, String]"

definition M179_bench2 :: gen_class where
  "M179_bench2 = generated_class
     [Int32, Ptr 180, String, Int32, Int32, String, Float, Int32, Float, Enum, Int32, Ptr 181]"

definition M180_bench2 :: gen_class where
  "M180_bench2 = generated_class [UInt32]"

definition M181_bench2 :: gen_class where
  "M181_bench2 = generated_class [VecString]"

definition M182_bench2 :: gen_class where
  "M182_bench2 = generated_class [UInt32, Float, Enum, Int64, Enum, Enum, Int32, Float, Enum, UInt32]"

definition M183_bench2 :: gen_class where
  "M183_bench2 = generated_class [Ptr 184, Ptr 185, Enum, Int32, Ptr 186, VecFloat]"

definition M184_bench2 :: gen_class where
  "M184_bench2 = generated_class [Enum, String, Int32]"

definition M185_bench2 :: gen_class where
  "M185_bench2 = generated_class [Float, Float]"

definition M186_bench2 :: gen_class where
  "M186_bench2 = generated_class [Enum]"

definition M187_bench2 :: gen_class where
  "M187_bench2 = generated_class [Enum, Ptr 188, Float, Ptr 189, Int64, UInt32, Int32, UInt32, Enum]"

definition M188_bench2 :: gen_class where
  "M188_bench2 = generated_class [Enum]"

definition M189_bench2 :: gen_class where
  "M189_bench2 = generated_class [Enum, Ptr 190, Int32, Int32, Int64, Int32]"

definition M190_bench2 :: gen_class where
  "M190_bench2 = generated_class [Enum, Ptr 191, Enum, Float, UInt32]"

definition M191_bench2 :: gen_class where
  "M191_bench2 = generated_class
     [Float, Float, Int64, Enum, Ptr 192, Enum, Int32, Enum, Enum, Float, Enum]"

definition M192_bench2 :: gen_class where
  "M192_bench2 = generated_class [Int32, Bool, Enum]"

definition M193_bench2 :: gen_class where
  "M193_bench2 = generated_class
     [Int64, UInt32, String, UInt32, Int32, Int32, Bool, Ptr 194, UInt32, Float, Ptr 196, Ptr 216, Enum,
      Ptr 222]"

definition M194_bench2 :: gen_class where
  "M194_bench2 = generated_class [Ptr 195, Bool, UInt32]"

definition M195_bench2 :: gen_class where
  "M195_bench2 = generated_class [Int32]"

definition M196_bench2 :: gen_class where
  "M196_bench2 = generated_class [Float, Ptr 197]"

definition M197_bench2 :: gen_class where
  "M197_bench2 = generated_class [UInt32, String, Ptr 198, Ptr 200, Ptr 202, Ptr 203]"

definition M198_bench2 :: gen_class where
  "M198_bench2 = generated_class [String, Ptr 199]"

definition M199_bench2 :: gen_class where
  "M199_bench2 = generated_class [Enum, UInt32, Int32]"

definition M200_bench2 :: gen_class where
  "M200_bench2 = generated_class [Int32, Int64, Ptr 201]"

definition M201_bench2 :: gen_class where
  "M201_bench2 = generated_class [UInt32, VecString]"

definition M202_bench2 :: gen_class where
  "M202_bench2 = generated_class [Int32, UInt32]"

definition M203_bench2 :: gen_class where
  "M203_bench2 = generated_class [Ptr 204, Bool]"

definition M204_bench2 :: gen_class where
  "M204_bench2 = generated_class [Ptr 205, UInt32, VecString, UInt32, Float, Ptr 206, Float, Int32]"

definition M205_bench2 :: gen_class where
  "M205_bench2 = generated_class [Int32, Int64, Int64, Int64, Enum]"

definition M206_bench2 :: gen_class where
  "M206_bench2 = generated_class [UInt32, Int32, Ptr 207, Ptr 215, Enum]"

definition M207_bench2 :: gen_class where
  "M207_bench2 = generated_class [Ptr 208, Enum, Enum]"

definition M208_bench2 :: gen_class where
  "M208_bench2 = generated_class [Enum, Int32, Int32, Ptr 209, Enum, Int32]"

definition M209_bench2 :: gen_class where
  "M209_bench2 = generated_class [Enum, Ptr 210, UInt32, Int32, Bool]"

definition M210_bench2 :: gen_class where
  "M210_bench2 = generated_class [Ptr 211, Bool, Enum]"

definition M211_bench2 :: gen_class where
  "M211_bench2 = generated_class [Enum, Enum, Ptr 212, Enum, Enum]"

definition M212_bench2 :: gen_class where
  "M212_bench2 = generated_class [UInt32, String, Ptr 213]"

definition M213_bench2 :: gen_class where
  "M213_bench2 = generated_class [Ptr 214, Bool, UInt32]"

definition M214_bench2 :: gen_class where
  "M214_bench2 = generated_class [Int64, String]"

definition M215_bench2 :: gen_class where
  "M215_bench2 = generated_class
     [Float, Bool, String, Float, Enum, UInt32, String, Int32, Int64, Int32]"

definition M216_bench2 :: gen_class where
  "M216_bench2 = generated_class [Ptr 217, Ptr 218, Ptr 219, Float, Ptr 220]"

definition M217_bench2 :: gen_class where
  "M217_bench2 = generated_class [Enum]"

definition M218_bench2 :: gen_class where
  "M218_bench2 = generated_class [UInt32, Float]"

definition M219_bench2 :: gen_class where
  "M219_bench2 = generated_class [Float]"

definition M220_bench2 :: gen_class where
  "M220_bench2 = generated_class [Ptr 221, Bool, Enum]"

definition M221_bench2 :: gen_class where
  "M221_bench2 = generated_class [String, Enum, UInt32, UInt32, Int32]"

definition M222_bench2 :: gen_class where
  "M222_bench2 = generated_class [UInt32, Enum, Int64, Enum, UInt32, String, Int64, Enum]"

definition M223_bench2 :: gen_class where
  "M223_bench2 = generated_class
     [Enum, Enum, Ptr 224, String, String, Enum, UInt32, Enum, UInt32, Ptr 230, Ptr 231, Ptr 232,
      Ptr 251, Bool, String]"

definition M224_bench2 :: gen_class where
  "M224_bench2 = generated_class [Ptr 225, Int32, Enum]"

definition M225_bench2 :: gen_class where
  "M225_bench2 = generated_class [Ptr 226, Float]"

definition M226_bench2 :: gen_class where
  "M226_bench2 = generated_class [VecString, Ptr 227, Float, Int32, UInt64]"

definition M227_bench2 :: gen_class where
  "M227_bench2 = generated_class [Float, Int32, Float, Int32, Ptr 228, Enum, Enum, Ptr 229]"

definition M228_bench2 :: gen_class where
  "M228_bench2 = generated_class [Float, Bool, Float, Bool, Float]"

definition M229_bench2 :: gen_class where
  "M229_bench2 = generated_class [Bool, Double]"

definition M230_bench2 :: gen_class where
  "M230_bench2 = generated_class [Bool]"

definition M231_bench2 :: gen_class where
  "M231_bench2 = generated_class [Double]"

definition M232_bench2 :: gen_class where
  "M232_bench2 = generated_class [Ptr 233, Ptr 234, Bool, Ptr 249, Int64]"

definition M233_bench2 :: gen_class where
  "M233_bench2 = generated_class [Float]"

definition M234_bench2 :: gen_class where
  "M234_bench2 = generated_class [Enum, Enum, VecString, Ptr 235, Bool, Ptr 248, Enum]"

definition M235_bench2 :: gen_class where
  "M235_bench2 = generated_class [VecFloat, Ptr 236, Enum]"

definition M236_bench2 :: gen_class where
  "M236_bench2 = generated_class [Enum, Enum, Float, Int32, Ptr 237, Int32, Enum, Enum, Bool, Float]"

definition M237_bench2 :: gen_class where
  "M237_bench2 = generated_class [Ptr 238, Enum]"

definition M238_bench2 :: gen_class where
  "M238_bench2 = generated_class
     [Float, Int32, Int32, Ptr 239, Ptr 240, Int32, String, UInt32, UInt32, Enum, Int32, String]"

definition M239_bench2 :: gen_class where
  "M239_bench2 = generated_class [String, Enum]"

definition M240_bench2 :: gen_class where
  "M240_bench2 = generated_class [Int64, Ptr 241, Ptr 247, UInt32]"

definition M241_bench2 :: gen_class where
  "M241_bench2 = generated_class [Float, Ptr 242]"

definition M242_bench2 :: gen_class where
  "M242_bench2 = generated_class [Ptr 243, UInt32]"

definition M243_bench2 :: gen_class where
  "M243_bench2 = generated_class [UInt32, Float, UInt32, Ptr 244, Int32]"

definition M244_bench2 :: gen_class where
  "M244_bench2 = generated_class [Int32, Enum, Enum, Ptr 245, String]"

definition M245_bench2 :: gen_class where
  "M245_bench2 = generated_class [Ptr 246, Int32, Float, String]"

definition M246_bench2 :: gen_class where
  "M246_bench2 = generated_class [Enum, Int64, Int32, Int32, Int32, Enum]"

definition M247_bench2 :: gen_class where
  "M247_bench2 = generated_class [Int64, UInt32, VecInt32]"

definition M248_bench2 :: gen_class where
  "M248_bench2 = generated_class [Int32, Float]"

definition M249_bench2 :: gen_class where
  "M249_bench2 = generated_class [Float, Ptr 250, Enum]"

definition M250_bench2 :: gen_class where
  "M250_bench2 = generated_class [Enum, UInt32, Int32, Int32]"

definition M251_bench2 :: gen_class where
  "M251_bench2 = generated_class [Int64, Enum, Enum, Float]"

definition M252_bench2 :: gen_class where
  "M252_bench2 = generated_class
     [Int32, Bool, Enum, String, Int32, Int32, Ptr 253, Ptr 256, Float, Ptr 258, Int32, Bool, Ptr 280,
      Enum]"

definition M253_bench2 :: gen_class where
  "M253_bench2 = generated_class [Ptr 254, Enum, Bool]"

definition M254_bench2 :: gen_class where
  "M254_bench2 = generated_class [Enum, Ptr 255, Int64]"

definition M255_bench2 :: gen_class where
  "M255_bench2 = generated_class [Float, Enum, Enum, Float, Float, UInt32, Int64, Bool, UInt32, Enum]"

definition M256_bench2 :: gen_class where
  "M256_bench2 = generated_class [Enum, Bool, Float, Int32, String, VecEnum, Ptr 257]"

definition M257_bench2 :: gen_class where
  "M257_bench2 = generated_class [Int32, VecInt32, UInt32]"

definition M258_bench2 :: gen_class where
  "M258_bench2 = generated_class [UInt32, Ptr 259, Enum, Ptr 279]"

definition M259_bench2 :: gen_class where
  "M259_bench2 = generated_class [Int64, Ptr 260, Enum, Bool, Float]"

definition M260_bench2 :: gen_class where
  "M260_bench2 = generated_class [Int64, Ptr 261, Int32, Enum, Int32, Int32, Float, Float, Ptr 263]"

definition M261_bench2 :: gen_class where
  "M261_bench2 = generated_class [Ptr 262, Int32, Int32, UInt32, Enum]"

definition M262_bench2 :: gen_class where
  "M262_bench2 = generated_class [Enum, Float, Enum]"

definition M263_bench2 :: gen_class where
  "M263_bench2 = generated_class
     [Float, Enum, UInt32, Bool, UInt32, Ptr 264, UInt32, Ptr 267, Int32, Ptr 278, Enum, UInt32, Enum]"

definition M264_bench2 :: gen_class where
  "M264_bench2 = generated_class [Ptr 265, UInt32, Float]"

definition M265_bench2 :: gen_class where
  "M265_bench2 = generated_class [Enum, Bool, Enum, Ptr 266]"

definition M266_bench2 :: gen_class where
  "M266_bench2 = generated_class [Int32]"

definition M267_bench2 :: gen_class where
  "M267_bench2 = generated_class [Ptr 268, Ptr 277, Float]"

definition M268_bench2 :: gen_class where
  "M268_bench2 = generated_class [Int64, Ptr 269, Int32]"

definition M269_bench2 :: gen_class where
  "M269_bench2 = generated_class [UInt32, Ptr 270, Enum, Int32, Ptr 271]"

definition M270_bench2 :: gen_class where
  "M270_bench2 = generated_class [UInt32, Enum]"

definition M271_bench2 :: gen_class where
  "M271_bench2 = generated_class [Int32, Ptr 272]"

definition M272_bench2 :: gen_class where
  "M272_bench2 = generated_class [Float, Enum, Ptr 273, Float]"

definition M273_bench2 :: gen_class where
  "M273_bench2 = generated_class [Float, Bool, Enum, Enum, Int32, Ptr 274, Float]"

definition M274_bench2 :: gen_class where
  "M274_bench2 = generated_class [VecString, Ptr 275, Int32]"

definition M275_bench2 :: gen_class where
  "M275_bench2 = generated_class
     [VecEnum, Enum, Ptr 276, Bool, Float, Enum, Enum, Bool, Float, Int32, Int32]"

definition M276_bench2 :: gen_class where
  "M276_bench2 = generated_class [UInt32, Enum, Enum, Float, Enum, Bool, Int32, String, Enum, Int64]"

definition M277_bench2 :: gen_class where
  "M277_bench2 = generated_class [UInt32, Bool, UInt32, Bool]"

definition M278_bench2 :: gen_class where
  "M278_bench2 = generated_class [Enum]"

definition M279_bench2 :: gen_class where
  "M279_bench2 = generated_class [Int32]"

definition M280_bench2 :: gen_class where
  "M280_bench2 = generated_class [String, Enum, Float]"

definition M281_bench2 :: gen_class where
  "M281_bench2 = generated_class
     [Ptr 282, Int32, Int32, Int32, Int32, Ptr 290, String, Int32, Bool, Ptr 292, Float, Float, Float]"

definition M282_bench2 :: gen_class where
  "M282_bench2 = generated_class [Ptr 283, UInt32, String, Enum, Enum, Ptr 285]"

definition M283_bench2 :: gen_class where
  "M283_bench2 = generated_class [Enum, Ptr 284]"

definition M284_bench2 :: gen_class where
  "M284_bench2 = generated_class [UInt32, Enum, Int32, Int64, Enum, Enum, Enum]"

definition M285_bench2 :: gen_class where
  "M285_bench2 = generated_class [UInt64, Enum, VecString, Ptr 286]"

definition M286_bench2 :: gen_class where
  "M286_bench2 = generated_class [Ptr 287, Ptr 289, Bool]"

definition M287_bench2 :: gen_class where
  "M287_bench2 = generated_class [Int32, Float, Ptr 288, UInt32, Int32]"

definition M288_bench2 :: gen_class where
  "M288_bench2 = generated_class [Bool, Enum, Float, Enum, Int64, Enum, Enum, Enum, Float, Bool]"

definition M289_bench2 :: gen_class where
  "M289_bench2 = generated_class [Enum]"

definition M290_bench2 :: gen_class where
  "M290_bench2 = generated_class [Bool, Int32, Int64, Bool, Int64, Bool, Float, Enum, Ptr 291]"

definition M291_bench2 :: gen_class where
  "M291_bench2 = generated_class [UInt32, Enum, UInt64, Int32, Float, VecString, Enum, Enum, Float]"

definition M292_bench2 :: gen_class where
  "M292_bench2 = generated_class [Ptr 293, Float]"

definition M293_bench2 :: gen_class where
  "M293_bench2 = generated_class [Int64, Ptr 294, Ptr 295]"

definition M294_bench2 :: gen_class where
  "M294_bench2 = generated_class [Int64, UInt32]"

definition M295_bench2 :: gen_class where
  "M295_bench2 = generated_class [Enum, VecFloat, Ptr 296, Ptr 297, Enum]"

definition M296_bench2 :: gen_class where
  "M296_bench2 = generated_class [UInt32, Enum]"

definition M297_bench2 :: gen_class where
  "M297_bench2 = generated_class
     [Float, Int64, Int64, Ptr 298, Bool, Ptr 300, Int32, Int64, Ptr 301, Int64]"

definition M298_bench2 :: gen_class where
  "M298_bench2 = generated_class [Ptr 299, VecInt64, Enum]"

definition M299_bench2 :: gen_class where
  "M299_bench2 = generated_class [UInt32, VecString]"

definition M300_bench2 :: gen_class where
  "M300_bench2 = generated_class [VecFloat]"

definition M301_bench2 :: gen_class where
  "M301_bench2 = generated_class [VecFloat, Bool, Ptr 302, Int32]"

definition M302_bench2 :: gen_class where
  "M302_bench2 = generated_class [Float, String, VecUInt32, Enum, String, Ptr 303, Enum]"

definition M303_bench2 :: gen_class where
  "M303_bench2 = generated_class [Ptr 304, Enum, Enum, Float, Int32]"

definition M304_bench2 :: gen_class where
  "M304_bench2 = generated_class [Ptr 305, Int32, Enum, Enum, Int32, Enum, Int32]"

definition M305_bench2 :: gen_class where
  "M305_bench2 = generated_class [Ptr 306, Int32]"

definition M306_bench2 :: gen_class where
  "M306_bench2 = generated_class [Enum, Float, Ptr 307]"

definition M307_bench2 :: gen_class where
  "M307_bench2 = generated_class [Ptr 308, Enum, Enum]"

definition M308_bench2 :: gen_class where
  "M308_bench2 = generated_class [Ptr 309, Ptr 310, Int64, Enum]"

definition M309_bench2 :: gen_class where
  "M309_bench2 = generated_class [Int32]"

definition M310_bench2 :: gen_class where
  "M310_bench2 = generated_class [Enum, Float, Float, Float, Int64, Int32, Enum, Float, Int32]"

definition bench2_members :: "(nat \<times> member list) list" where
  "bench2_members = map (\<lambda>(c, C). (c, private_members C))
     [(1, M1_bench2), (2, M2_bench2), (3, M3_bench2), (4, M4_bench2), (5, M5_bench2), (6, M6_bench2),
      (7, M7_bench2), (8, M8_bench2), (9, M9_bench2), (10, M10_bench2), (11, M11_bench2),
      (12, M12_bench2), (13, M13_bench2), (14, M14_bench2), (15, M15_bench2), (16, M16_bench2),
      (17, M17_bench2), (18, M18_bench2), (19, M19_bench2), (20, M20_bench2), (21, M21_bench2),
      (22, M22_bench2), (23, M23_bench2), (24, M24_bench2), (25, M25_bench2), (26, M26_bench2),
      (27, M27_bench2), (28, M28_bench2), (29, M29_bench2), (30, M30_bench2), (31, M31_bench2),
      (32, M32_bench2), (33, M33_bench2), (34, M34_bench2), (35, M35_bench2), (36, M36_bench2),
      (37, M37_bench2), (38, M38_bench2), (39, M39_bench2), (40, M40_bench2), (41, M41_bench2),
      (42, M42_bench2), (43, M43_bench2), (44, M44_bench2), (45, M45_bench2), (46, M46_bench2),
      (47, M47_bench2), (48, M48_bench2), (49, M49_bench2), (50, M50_bench2), (51, M51_bench2),
      (52, M52_bench2), (53, M53_bench2), (54, M54_bench2), (55, M55_bench2), (56, M56_bench2),
      (57, M57_bench2), (58, M58_bench2), (59, M59_bench2), (60, M60_bench2), (61, M61_bench2),
      (62, M62_bench2), (63, M63_bench2), (64, M64_bench2), (65, M65_bench2), (66, M66_bench2),
      (67, M67_bench2), (68, M68_bench2), (69, M69_bench2), (70, M70_bench2), (71, M71_bench2),
      (72, M72_bench2), (73, M73_bench2), (74, M74_bench2), (75, M75_bench2), (76, M76_bench2),
      (77, M77_bench2), (78, M78_bench2), (79, M79_bench2), (80, M80_bench2), (81, M81_bench2),
      (82, M82_bench2), (83, M83_bench2), (84, M84_bench2), (85, M85_bench2), (86, M86_bench2),
      (87, M87_bench2), (88, M88_bench2), (89, M89_bench2), (90, M90_bench2), (91, M91_bench2),
      (92, M92_bench2), (93, M93_bench2), (94, M94_bench2), (95, M95_bench2), (96, M96_bench2),
      (97, M97_bench2), (98, M98_bench2), (99, M99_bench2), (100, M100_bench2), (101, M101_bench2),
      (102, M102_bench2), (103, M103_bench2), (104, M104_bench2), (105, M105_bench2),
      (106, M106_bench2), (107, M107_bench2), (108, M108_bench2), (109, M109_bench2),
      (110, M110_bench2), (111, M111_bench2), (112, M112_bench2), (113, M113_bench2),
      (114, M114_bench2), (115, M115_bench2), (116, M116_bench2), (117, M117_bench2),
      (118, M118_bench2), (119, M119_bench2), (120, M120_bench2), (121, M121_bench2),
      (122, M122_bench2), (123, M123_bench2), (124, M124_bench2), (125, M125_bench2),
      (126, M126_bench2), (127, M127_bench2), (128, M128_bench2), (129, M129_bench2),
      (130, M130_bench2), (131, M131_bench2), (132, M132_bench2), (133, M133_bench2),
      (134, M134_bench2), (135, M135_bench2), (136, M136_bench2), (137, M137_bench2),
      (138, M138_bench2), (139, M139_bench2), (140, M140_bench2), (141, M141_bench2),
      (142, M142_bench2), (143, M143_bench2), (144, M144_bench2), (145, M145_bench2),
      (146, M146_bench2), (147, M147_bench2), (148, M148_bench2), (149, M149_bench2),
      (150, M150_bench2), (151, M151_bench2), (152, M152_bench2), (153, M153_bench2),
      (154, M154_bench2), (155, M155_bench2), (156, M156_bench2), (157, M157_bench2),
      (158, M158_bench2), (159, M159_bench2), (160, M160_bench2), (161, M161_bench2),
      (162, M162_bench2), (163, M163_bench2), (164, M164_bench2), (165, M165_bench2),
      (166, M166_bench2), (167, M167_bench2), (168, M168_bench2), (169, M169_bench2),
      (170, M170_bench2), (171, M171_bench2), (172, M172_bench2), (173, M173_bench2),
      (174, M174_bench2), (175, M175_bench2), (176, M176_bench2), (177, M177_bench2),
      (178, M178_bench2), (179, M179_bench2), (180, M180_bench2), (181, M181_bench2),
      (182, M182_bench2), (183, M183_bench2), (184, M184_bench2), (185, M185_bench2),
      (186, M186_bench2), (187, M187_bench2), (188, M188_bench2), (189, M189_bench2),
      (190, M190_bench2), (191, M191_bench2), (192, M192_bench2), (193, M193_bench2),
      (194, M194_bench2), (195, M195_bench2), (196, M196_bench2), (197, M197_bench2),
      (198, M198_bench2), (199, M199_bench2), (200, M200_bench2), (201, M201_bench2),
      (202, M202_bench2), (203, M203_bench2), (204, M204_bench2), (205, M205_bench2),
      (206, M206_bench2), (207, M207_bench2), (208, M208_bench2), (209, M209_bench2),
      (210, M210_bench2), (211, M211_bench2), (212, M212_bench2), (213, M213_bench2),
      (214, M214_bench2), (215, M215_bench2), (216, M216_bench2), (217, M217_bench2),
      (218, M218_bench2), (219, M219_bench2), (220, M220_bench2), (221, M221_bench2),
      (222, M222_bench2), (223, M223_bench2), (224, M224_bench2), (225, M225_bench2),
      (226, M226_bench2), (227, M227_bench2), (228, M228_bench2), (229, M229_bench2),
      (230, M230_bench2), (231, M231_bench2), (232, M232_bench2), (233, M233_bench2),
      (234, M234_bench2), (235, M235_bench2), (236, M236_bench2), (237, M237_bench2),
      (238, M238_bench2), (239, M239_bench2), (240, M240_bench2), (241, M241_bench2),
      (242, M242_bench2), (243, M243_bench2), (244, M244_bench2), (245, M245_bench2),
      (246, M246_bench2), (247, M247_bench2), (248, M248_bench2), (249, M249_bench2),
      (250, M250_bench2), (251, M251_bench2), (252, M252_bench2), (253, M253_bench2),
      (254, M254_bench2), (255, M255_bench2), (256, M256_bench2), (257, M257_bench2),
      (258, M258_bench2), (259, M259_bench2), (260, M260_bench2), (261, M261_bench2),
      (262, M262_bench2), (263, M263_bench2), (264, M264_bench2), (265, M265_bench2),
      (266, M266_bench2), (267, M267_bench2), (268, M268_bench2), (269, M269_bench2),
      (270, M270_bench2), (271, M271_bench2), (272, M272_bench2), (273, M273_bench2),
      (274, M274_bench2), (275, M275_bench2), (276, M276_bench2), (277, M277_bench2),
      (278, M278_bench2), (279, M279_bench2), (280, M280_bench2), (281, M281_bench2),
      (282, M282_bench2), (283, M283_bench2), (284, M284_bench2), (285, M285_bench2),
      (286, M286_bench2), (287, M287_bench2), (288, M288_bench2), (289, M289_bench2),
      (290, M290_bench2), (291, M291_bench2), (292, M292_bench2), (293, M293_bench2),
      (294, M294_bench2), (295, M295_bench2), (296, M296_bench2), (297, M297_bench2),
      (298, M298_bench2), (299, M299_bench2), (300, M300_bench2), (301, M301_bench2),
      (302, M302_bench2), (303, M303_bench2), (304, M304_bench2), (305, M305_bench2),
      (306, M306_bench2), (307, M307_bench2), (308, M308_bench2), (309, M309_bench2),
      (310, M310_bench2)]"

section \<open>Benchmark 5\<close>

definition M1_bench5 :: gen_class where
  "M1_bench5 = generated_class
     [Int64, UInt64, Ptr 2, Float, String, Bool, String, String, Enum, Int32, Ptr 6]"

definition M2_bench5 :: gen_class where
  "M2_bench5 = generated_class [Ptr 3, Int32, Float, Enum, Float, Float, Int32, Ptr 4, Int32, String]"

definition M3_bench5 :: gen_class where
  "M3_bench5 = generated_class [Int32]"

definition M4_bench5 :: gen_class where
  "M4_bench5 = generated_class [Ptr 5, Int64]"

definition M5_bench5 :: gen_class where
  "M5_bench5 = generated_class [Int32]"

definition M6_bench5 :: gen_class where
  "M6_bench5 = generated_class [Ptr 7, UInt64, Ptr 8, Ptr 9]"

definition M7_bench5 :: gen_class where
  "M7_bench5 = generated_class [Float]"

definition M8_bench5 :: gen_class where
  "M8_bench5 = generated_class [Bool, Int32]"

definition M9_bench5 :: gen_class where
  "M9_bench5 = generated_class [Bool, Ptr 10]"

definition M10_bench5 :: gen_class where
  "M10_bench5 = generated_class [Ptr 11, UInt64]"

definition M11_bench5 :: gen_class where
  "M11_bench5 = generated_class [String, String]"

definition M12_bench5 :: gen_class where
  "M12_bench5 = generated_class
     [Ptr 13, String, Ptr 16, Int64, Ptr 17, Bool, String, Int32, Int32, Int64, Int64, String, Int32]"

definition M13_bench5 :: gen_class where
  "M13_bench5 = generated_class [Ptr 14, Int32]"

definition M14_bench5 :: gen_class where
  "M14_bench5 = generated_class [Int32, Ptr 15, Bool, Int32, String, Float]"

definition M15_bench5 :: gen_class where
  "M15_bench5 = generated_class [Int32]"

definition M16_bench5 :: gen_class where
  "M16_bench5 = generated_class [Int32, Int32, Int32]"

definition M17_bench5 :: gen_class where
  "M17_bench5 = generated_class [Int64, Enum, Int32, Ptr 18, Ptr 22, Int32, Int32]"

definition M18_bench5 :: gen_class where
  "M18_bench5 = generated_class [UInt64, Ptr 19]"

definition M19_bench5 :: gen_class where
  "M19_bench5 = generated_class [Int32, Ptr 20]"

definition M20_bench5 :: gen_class where
  "M20_bench5 = generated_class [Ptr 21, Int32]"

definition M21_bench5 :: gen_class where
  "M21_bench5 = generated_class [String, Enum]"

definition M22_bench5 :: gen_class where
  "M22_bench5 = generated_class [Float, String, Int32]"

definition M23_bench5 :: gen_class where
  "M23_bench5 = generated_class
     [Int32, Ptr 24, Int32, Float, Int32, Ptr 28, Ptr 29, Int64, Float, Int32]"

definition M24_bench5 :: gen_class where
  "M24_bench5 = generated_class [Double, Ptr 25, Ptr 26, Ptr 27, Int32]"

definition M25_bench5 :: gen_class where
  "M25_bench5 = generated_class [Int32]"

definition M26_bench5 :: gen_class where
  "M26_bench5 = generated_class [String]"

definition M27_bench5 :: gen_class where
  "M27_bench5 = generated_class [VecUInt8]"

definition M28_bench5 :: gen_class where
  "M28_bench5 = generated_class [Int32]"

definition M29_bench5 :: gen_class where
  "M29_bench5 = generated_class [Int32, Ptr 30, Int32, Ptr 33, Float, String]"

definition M30_bench5 :: gen_class where
  "M30_bench5 = generated_class [Ptr 31, UInt64]"

definition M31_bench5 :: gen_class where
  "M31_bench5 = generated_class [Int32, Float, Int32, Int32, Bool, String, Ptr 32]"

definition M32_bench5 :: gen_class where
  "M32_bench5 = generated_class [Enum, Bool, Int32, String]"

definition M33_bench5 :: gen_class where
  "M33_bench5 = generated_class [String, Int32, String]"

definition M34_bench5 :: gen_class where
  "M34_bench5 = generated_class
     [Enum, Ptr 35, Int32, String, Int32, Int32, Int32, Int64, Enum, Ptr 36, Ptr 37, Int32, UInt64,
      Ptr 42]"

definition M35_bench5 :: gen_class where
  "M35_bench5 = generated_class [UInt64]"

definition M36_bench5 :: gen_class where
  "M36_bench5 = generated_class [UInt64, String, Int32, UInt32, Int32]"

definition M37_bench5 :: gen_class where
  "M37_bench5 = generated_class [Float, Float, Ptr 38]"

definition M38_bench5 :: gen_class where
  "M38_bench5 = generated_class [Ptr 39, Int32, Int64, Int32, Int32, Enum, Int32, Int64]"

definition M39_bench5 :: gen_class where
  "M39_bench5 = generated_class [String, Ptr 40, Int32]"

definition M40_bench5 :: gen_class where
  "M40_bench5 = generated_class [Int32, Ptr 41]"

definition M41_bench5 :: gen_class where
  "M41_bench5 = generated_class
     [Float, Int32, String, String, String, Float, Int32, VecString, String, UInt64]"

definition M42_bench5 :: gen_class where
  "M42_bench5 = generated_class [Int32]"

definition M43_bench5 :: gen_class where
  "M43_bench5 = generated_class
     [String, Float, Ptr 44, Int32, Int64, Int32, Int64, Int32, Int32, Int32, UInt64, Ptr 48]"

definition M44_bench5 :: gen_class where
  "M44_bench5 = generated_class [String, Ptr 45, Ptr 46, Ptr 47]"

definition M45_bench5 :: gen_class where
  "M45_bench5 = generated_class [Int32]"

definition M46_bench5 :: gen_class where
  "M46_bench5 = generated_class [Int32, VecEnum, Int64]"

definition M47_bench5 :: gen_class where
  "M47_bench5 = generated_class [Int32]"

definition M48_bench5 :: gen_class where
  "M48_bench5 = generated_class
     [Ptr 49, Enum, Int32, Float, Float, String, Int64, String, Double, Ptr 50]"

definition M49_bench5 :: gen_class where
  "M49_bench5 = generated_class [String, UInt64]"

definition M50_bench5 :: gen_class where
  "M50_bench5 = generated_class [Ptr 51, Int64]"

definition M51_bench5 :: gen_class where
  "M51_bench5 = generated_class
     [String, String, Double, Enum, Float, Ptr 52, UInt64, Float, Int32, String, VecString]"

definition M52_bench5 :: gen_class where
  "M52_bench5 = generated_class [String, Int32, Int32, Float, Ptr 53]"

definition M53_bench5 :: gen_class where
  "M53_bench5 = generated_class [Float, UInt64]"

definition M54_bench5 :: gen_class where
  "M54_bench5 = generated_class
     [VecString, Ptr 55, String, Ptr 59, String, VecString, Ptr 61, Int32, Ptr 62]"

definition M55_bench5 :: gen_class where
  "M55_bench5 = generated_class [Float, Enum, Ptr 56]"

definition M56_bench5 :: gen_class where
  "M56_bench5 = generated_class [Int32, Ptr 57]"

definition M57_bench5 :: gen_class where
  "M57_bench5 = generated_class [Ptr 58, String]"

definition M58_bench5 :: gen_class where
  "M58_bench5 = generated_class [Int32, Int32, Int32]"

definition M59_bench5 :: gen_class where
  "M59_bench5 = generated_class [Ptr 60, UInt64]"

definition M60_bench5 :: gen_class where
  "M60_bench5 = generated_class [String, Int32, String, Int32]"

definition M61_bench5 :: gen_class where
  "M61_bench5 = generated_class [Int32, VecEnum]"

definition M62_bench5 :: gen_class where
  "M62_bench5 = generated_class [UInt64, Ptr 63]"

definition M63_bench5 :: gen_class where
  "M63_bench5 = generated_class [UInt32]"

definition M64_bench5 :: gen_class where
  "M64_bench5 = generated_class [Int32, Ptr 65, Ptr 66, String, Enum, Ptr 67, Ptr 68, UInt64]"

definition M65_bench5 :: gen_class where
  "M65_bench5 = generated_class [Int32]"

definition M66_bench5 :: gen_class where
  "M66_bench5 = generated_class [Int32]"

definition M67_bench5 :: gen_class where
  "M67_bench5 = generated_class [Float]"

definition M68_bench5 :: gen_class where
  "M68_bench5 = generated_class [Ptr 69, String]"

definition M69_bench5 :: gen_class where
  "M69_bench5 = generated_class [Int64, String, Int32, Ptr 70, Int32]"

definition M70_bench5 :: gen_class where
  "M70_bench5 = generated_class [Int32, Ptr 71]"

definition M71_bench5 :: gen_class where
  "M71_bench5 = generated_class [String, VecInt32]"

definition M72_bench5 :: gen_class where
  "M72_bench5 = generated_class
     [VecInt64, Ptr 73, Ptr 76, Ptr 77, Float, Int64, Float, Int32, Ptr 78, Int32]"

definition M73_bench5 :: gen_class where
  "M73_bench5 = generated_class [Ptr 74, Ptr 75, String]"

definition M74_bench5 :: gen_class where
  "M74_bench5 = generated_class [Float]"

definition M75_bench5 :: gen_class where
  "M75_bench5 = generated_class [String, Double]"

definition M76_bench5 :: gen_class where
  "M76_bench5 = generated_class [Bool, UInt32, Int32, Enum]"

definition M77_bench5 :: gen_class where
  "M77_bench5 = generated_class [Enum, Float]"

definition M78_bench5 :: gen_class where
  "M78_bench5 = generated_class [Ptr 79, Int32]"

definition M79_bench5 :: gen_class where
  "M79_bench5 = generated_class [Int32, Ptr 80]"

definition M80_bench5 :: gen_class where
  "M80_bench5 = generated_class [Ptr 81, String]"

definition M81_bench5 :: gen_class where
  "M81_bench5 = generated_class [Int32]"

definition M82_bench5 :: gen_class where
  "M82_bench5 = generated_class
     [Int32, Double, Int64, Ptr 83, Enum, Ptr 84, Ptr 88, Ptr 90, Int32, Int32, Int32, Int32]"

definition M83_bench5 :: gen_class where
  "M83_bench5 = generated_class [Int64, Int32]"

definition M84_bench5 :: gen_class where
  "M84_bench5 = generated_class [Int32, Ptr 85, String]"

definition M85_bench5 :: gen_class where
  "M85_bench5 = generated_class [Ptr 86, Int32]"

definition M86_bench5 :: gen_class where
  "M86_bench5 = generated_class [Ptr 87, Enum, Bool, Int64, Int32]"

definition M87_bench5 :: gen_class where
  "M87_bench5 = generated_class [Enum, String]"

definition M88_bench5 :: gen_class where
  "M88_bench5 = generated_class [String, Ptr 89]"

definition M89_bench5 :: gen_class where
  "M89_bench5 = generated_class [Int32, Float, Int32]"

definition M90_bench5 :: gen_class where
  "M90_bench5 = generated_class [Ptr 91, Float, VecUInt8, Float]"

definition M91_bench5 :: gen_class where
  "M91_bench5 = generated_class [String]"

definition M92_bench5 :: gen_class where
  "M92_bench5 = generated_class [Ptr 93, Ptr 94, Int32, Int32]"

definition M93_bench5 :: gen_class where
  "M93_bench5 = generated_class [Int32]"

definition M94_bench5 :: gen_class where
  "M94_bench5 = generated_class [Int32, Ptr 95]"

definition M95_bench5 :: gen_class where
  "M95_bench5 = generated_class [Int32]"

definition bench5_members :: "(nat \<times> member list) list" where
  "bench5_members = map (\<lambda>(c, C). (c, private_members C))
     [(1, M1_bench5), (2, M2_bench5), (3, M3_bench5), (4, M4_bench5), (5, M5_bench5), (6, M6_bench5),
      (7, M7_bench5), (8, M8_bench5), (9, M9_bench5), (10, M10_bench5), (11, M11_bench5),
      (12, M12_bench5), (13, M13_bench5), (14, M14_bench5), (15, M15_bench5), (16, M16_bench5),
      (17, M17_bench5), (18, M18_bench5), (19, M19_bench5), (20, M20_bench5), (21, M21_bench5),
      (22, M22_bench5), (23, M23_bench5), (24, M24_bench5), (25, M25_bench5), (26, M26_bench5),
      (27, M27_bench5), (28, M28_bench5), (29, M29_bench5), (30, M30_bench5), (31, M31_bench5),
      (32, M32_bench5), (33, M33_bench5), (34, M34_bench5), (35, M35_bench5), (36, M36_bench5),
      (37, M37_bench5), (38, M38_bench5), (39, M39_bench5), (40, M40_bench5), (41, M41_bench5),
      (42, M42_bench5), (43, M43_bench5), (44, M44_bench5), (45, M45_bench5), (46, M46_bench5),
      (47, M47_bench5), (48, M48_bench5), (49, M49_bench5), (50, M50_bench5), (51, M51_bench5),
      (52, M52_bench5), (53, M53_bench5), (54, M54_bench5), (55, M55_bench5), (56, M56_bench5),
      (57, M57_bench5), (58, M58_bench5), (59, M59_bench5), (60, M60_bench5), (61, M61_bench5),
      (62, M62_bench5), (63, M63_bench5), (64, M64_bench5), (65, M65_bench5), (66, M66_bench5),
      (67, M67_bench5), (68, M68_bench5), (69, M69_bench5), (70, M70_bench5), (71, M71_bench5),
      (72, M72_bench5), (73, M73_bench5), (74, M74_bench5), (75, M75_bench5), (76, M76_bench5),
      (77, M77_bench5), (78, M78_bench5), (79, M79_bench5), (80, M80_bench5), (81, M81_bench5),
      (82, M82_bench5), (83, M83_bench5), (84, M84_bench5), (85, M85_bench5), (86, M86_bench5),
      (87, M87_bench5), (88, M88_bench5), (89, M89_bench5), (90, M90_bench5), (91, M91_bench5),
      (92, M92_bench5), (93, M93_bench5), (94, M94_bench5), (95, M95_bench5)]"

section \<open>Creation and sizes\<close>

definition createMessage_bench2 :: "u32 \<Rightarrow> cells result" where
  "createMessage_bench2 = table_create bench2_members"

definition getMessageSize_bench2 :: "u32 \<Rightarrow> u64" where
  "getMessageSize_bench2 = table_size bench2_members"

definition createMessage_bench5 :: "u32 \<Rightarrow> cells result" where
  "createMessage_bench5 = table_create bench5_members"

definition getMessageSize_bench5 :: "u32 \<Rightarrow> u64" where
  "getMessageSize_bench5 = table_size bench5_members"

definition unregistered :: "((nat \<times> member list) list \<times> (u32 \<Rightarrow> cells result) \<times> (u32 \<Rightarrow> u64)) list" where
  "unregistered =
     [(bench2_members, createMessage_bench2, getMessageSize_bench2),
      (bench5_members, createMessage_bench5, getMessageSize_bench5)]"

section \<open>A registration that fits\<close>

text \<open>The types of the members with the field numbers 1, 2, and so on: a registration exists for every
  class.\<close>

fun natural_type :: "member \<Rightarrow> sw_type" where
  "natural_type Int32 = sw_int32_type" | "natural_type UInt32 = sw_uint32_type"
| "natural_type Int64 = sw_int64_type" | "natural_type UInt64 = sw_uint64_type"
| "natural_type Bool = sw_bool_type" | "natural_type Float = sw_float_type"
| "natural_type Double = sw_double_type" | "natural_type Enum = sw_enum_type"
| "natural_type String = sw_string_type" | "natural_type VecInt32 = sw_repeated_int32_type"
| "natural_type VecUInt32 = sw_repeated_uint32_type" | "natural_type VecEnum = sw_repeated_enum_type"
| "natural_type VecInt64 = sw_repeated_int64_type" | "natural_type VecUInt64 = sw_repeated_uint64_type"
| "natural_type VecUInt8 = sw_repeated_bool_type" | "natural_type VecFloat = sw_repeated_float_type"
| "natural_type VecString = sw_repeated_string_type" | "natural_type (Ptr c) = sw_ptr_type"

definition natural_row :: "nat \<times> member list \<Rightarrow> u32 \<times> (sw_type \<times> u8) list" where
  "natural_row r = (of_nat (fst r), map (\<lambda>i. (natural_type (snd r ! i), of_nat (Suc i))) [0..<length (snd r)])"

lemma natural_agrees: "agrees m (natural_type m, k)" "kind_of (natural_type m) \<noteq> None"
  by (cases m; simp add: agrees_def blank_for_def type_stride_def align8_def)+

lemma natural_row_ok:
  assumes "distinct (map fst tbl)" and "(c, ms) \<in> set tbl" and "c < 1000" and "length ms < fpga_fields"
  shows "class_ok tbl (natural_row (c, ms))"
    "distinct (map (unat \<circ> snd) (snd (natural_row (c, ms))))"
    "list_all (\<lambda>f. unat (snd f) < fpga_fields) (snd (natural_row (c, ms)))"
proof -
  have small: "length ms \<le> 45" using assms(4) by (simp add: fpga_fields_def)
  have u: "unat (of_nat (Suc i) :: u8) = Suc i" if "i < length ms" for i
    using that small by (intro unat_of_nat_small) simp
  have "unat (of_nat c :: u32) = c" using assms(3) by (intro unat_of_nat_small) simp
  moreover have "map_of tbl c = Some ms" using assms(1,2) by simp
  moreover have "list_all2 agrees ms (snd (natural_row (c, ms)))"
    by (simp add: natural_row_def list_all2_conv_all_nth natural_agrees)
  ultimately show "class_ok tbl (natural_row (c, ms))"
    using assms(3) small u natural_agrees(2)
    by (simp add: class_ok_def natural_row_def list_all_length wire_type_capacity_def del: of_nat_Suc not_None_eq)
  have "map (unat \<circ> snd) (snd (natural_row (c, ms))) = map Suc [0..<length ms]"
    using u by (simp add: natural_row_def del: of_nat_Suc)
  then show "distinct (map (unat \<circ> snd) (snd (natural_row (c, ms))))" by (simp add: distinct_map)
  show "list_all (\<lambda>f. unat (snd f) < fpga_fields) (snd (natural_row (c, ms)))"
    using u small by (simp add: natural_row_def list_all_length fpga_fields_def del: of_nat_Suc)
qed

lemma natural_tables:
  assumes "distinct (map fst tbl)" and "list_all (\<lambda>(c, ms). c < 1000 \<and> length ms < fpga_fields) tbl"
  shows "generated_tables tbl (map natural_row tbl)"
proof
  have row: "c < 1000" "length ms < fpga_fields" if "(c, ms) \<in> set tbl" for c ms
    using assms(2) that by (auto simp: list_all_iff)
  have "inj_on (of_nat :: nat \<Rightarrow> u32) (set (map fst tbl))"
  proof (rule inj_onI)
    fix x y assume "x \<in> set (map fst tbl)" "y \<in> set (map fst tbl)" and e: "(of_nat x :: u32) = of_nat y"
    then have "x < 1000" "y < 1000" using row(1) by auto
    then have "unat (of_nat x :: u32) = x" "unat (of_nat y :: u32) = y" by (auto intro!: unat_of_nat_small)
    then show "x = y" using e by metis
  qed
  then have "distinct (map of_nat (map fst tbl) :: u32 list)" using assms(1) by (simp only: distinct_map simp_thms)
  then show "distinct (map fst (map natural_row tbl))" by (simp add: natural_row_def comp_def)
  show "list_all (class_ok tbl) (map natural_row tbl)"
    using natural_row_ok(1) [OF assms(1)] row by (auto simp: list_all_iff)
  have "distinct (map (unat \<circ> snd) (snd (natural_row r))) \<and> list_all (\<lambda>f. unat (snd f) < fpga_fields) (snd (natural_row r))"
    if "r \<in> set tbl" for r
    using natural_row_ok(2,3) [OF assms(1), of "fst r" "snd r"] row [of "fst r" "snd r"] that by simp
  then show "list_all (\<lambda>r. distinct (map (unat \<circ> snd) (snd r)) \<and> list_all (\<lambda>f. unat (snd f) < fpga_fields) (snd r)) (map natural_row tbl)"
    by (simp only: list_all_iff set_map ball_simps) blast
qed

lemma class_numbers: "map fst bench2_members = [1..<311]" "map fst bench5_members = [1..<96]"
  by (simp_all add: bench2_members_def bench5_members_def upt_rec)

lemma class_sizes_bench2: "list_all (\<lambda>(c, ms). c < 1000 \<and> length ms < fpga_fields) bench2_members"
  by (simp add: bench2_members_def fpga_fields_def
     M1_bench2_def M2_bench2_def M3_bench2_def M4_bench2_def M5_bench2_def M6_bench2_def M7_bench2_def
      M8_bench2_def M9_bench2_def M10_bench2_def M11_bench2_def M12_bench2_def M13_bench2_def
      M14_bench2_def M15_bench2_def M16_bench2_def M17_bench2_def M18_bench2_def M19_bench2_def
      M20_bench2_def M21_bench2_def M22_bench2_def M23_bench2_def M24_bench2_def M25_bench2_def
      M26_bench2_def M27_bench2_def M28_bench2_def M29_bench2_def M30_bench2_def M31_bench2_def
      M32_bench2_def M33_bench2_def M34_bench2_def M35_bench2_def M36_bench2_def M37_bench2_def
      M38_bench2_def M39_bench2_def M40_bench2_def M41_bench2_def M42_bench2_def M43_bench2_def
      M44_bench2_def M45_bench2_def M46_bench2_def M47_bench2_def M48_bench2_def M49_bench2_def
      M50_bench2_def M51_bench2_def M52_bench2_def M53_bench2_def M54_bench2_def M55_bench2_def
      M56_bench2_def M57_bench2_def M58_bench2_def M59_bench2_def M60_bench2_def M61_bench2_def
      M62_bench2_def M63_bench2_def M64_bench2_def M65_bench2_def M66_bench2_def M67_bench2_def
      M68_bench2_def M69_bench2_def M70_bench2_def M71_bench2_def M72_bench2_def M73_bench2_def
      M74_bench2_def M75_bench2_def M76_bench2_def M77_bench2_def M78_bench2_def M79_bench2_def
      M80_bench2_def M81_bench2_def M82_bench2_def M83_bench2_def M84_bench2_def M85_bench2_def
      M86_bench2_def M87_bench2_def M88_bench2_def M89_bench2_def M90_bench2_def M91_bench2_def
      M92_bench2_def M93_bench2_def M94_bench2_def M95_bench2_def M96_bench2_def M97_bench2_def
      M98_bench2_def M99_bench2_def M100_bench2_def M101_bench2_def M102_bench2_def M103_bench2_def
      M104_bench2_def M105_bench2_def M106_bench2_def M107_bench2_def M108_bench2_def M109_bench2_def
      M110_bench2_def M111_bench2_def M112_bench2_def M113_bench2_def M114_bench2_def M115_bench2_def
      M116_bench2_def M117_bench2_def M118_bench2_def M119_bench2_def M120_bench2_def M121_bench2_def
      M122_bench2_def M123_bench2_def M124_bench2_def M125_bench2_def M126_bench2_def M127_bench2_def
      M128_bench2_def M129_bench2_def M130_bench2_def M131_bench2_def M132_bench2_def M133_bench2_def
      M134_bench2_def M135_bench2_def M136_bench2_def M137_bench2_def M138_bench2_def M139_bench2_def
      M140_bench2_def M141_bench2_def M142_bench2_def M143_bench2_def M144_bench2_def M145_bench2_def
      M146_bench2_def M147_bench2_def M148_bench2_def M149_bench2_def M150_bench2_def M151_bench2_def
      M152_bench2_def M153_bench2_def M154_bench2_def M155_bench2_def M156_bench2_def M157_bench2_def
      M158_bench2_def M159_bench2_def M160_bench2_def M161_bench2_def M162_bench2_def M163_bench2_def
      M164_bench2_def M165_bench2_def M166_bench2_def M167_bench2_def M168_bench2_def M169_bench2_def
      M170_bench2_def M171_bench2_def M172_bench2_def M173_bench2_def M174_bench2_def M175_bench2_def
      M176_bench2_def M177_bench2_def M178_bench2_def M179_bench2_def M180_bench2_def M181_bench2_def
      M182_bench2_def M183_bench2_def M184_bench2_def M185_bench2_def M186_bench2_def M187_bench2_def
      M188_bench2_def M189_bench2_def M190_bench2_def M191_bench2_def M192_bench2_def M193_bench2_def
      M194_bench2_def M195_bench2_def M196_bench2_def M197_bench2_def M198_bench2_def M199_bench2_def
      M200_bench2_def M201_bench2_def M202_bench2_def M203_bench2_def M204_bench2_def M205_bench2_def
      M206_bench2_def M207_bench2_def M208_bench2_def M209_bench2_def M210_bench2_def M211_bench2_def
      M212_bench2_def M213_bench2_def M214_bench2_def M215_bench2_def M216_bench2_def M217_bench2_def
      M218_bench2_def M219_bench2_def M220_bench2_def M221_bench2_def M222_bench2_def M223_bench2_def
      M224_bench2_def M225_bench2_def M226_bench2_def M227_bench2_def M228_bench2_def M229_bench2_def
      M230_bench2_def M231_bench2_def M232_bench2_def M233_bench2_def M234_bench2_def M235_bench2_def
      M236_bench2_def M237_bench2_def M238_bench2_def M239_bench2_def M240_bench2_def M241_bench2_def
      M242_bench2_def M243_bench2_def M244_bench2_def M245_bench2_def M246_bench2_def M247_bench2_def
      M248_bench2_def M249_bench2_def M250_bench2_def M251_bench2_def M252_bench2_def M253_bench2_def
      M254_bench2_def M255_bench2_def M256_bench2_def M257_bench2_def M258_bench2_def M259_bench2_def
      M260_bench2_def M261_bench2_def M262_bench2_def M263_bench2_def M264_bench2_def M265_bench2_def
      M266_bench2_def M267_bench2_def M268_bench2_def M269_bench2_def M270_bench2_def M271_bench2_def
      M272_bench2_def M273_bench2_def M274_bench2_def M275_bench2_def M276_bench2_def M277_bench2_def
      M278_bench2_def M279_bench2_def M280_bench2_def M281_bench2_def M282_bench2_def M283_bench2_def
      M284_bench2_def M285_bench2_def M286_bench2_def M287_bench2_def M288_bench2_def M289_bench2_def
      M290_bench2_def M291_bench2_def M292_bench2_def M293_bench2_def M294_bench2_def M295_bench2_def
      M296_bench2_def M297_bench2_def M298_bench2_def M299_bench2_def M300_bench2_def M301_bench2_def
      M302_bench2_def M303_bench2_def M304_bench2_def M305_bench2_def M306_bench2_def M307_bench2_def
      M308_bench2_def M309_bench2_def M310_bench2_def)

lemma class_sizes_bench5: "list_all (\<lambda>(c, ms). c < 1000 \<and> length ms < fpga_fields) bench5_members"
  by (simp add: bench5_members_def fpga_fields_def
     M1_bench5_def M2_bench5_def M3_bench5_def M4_bench5_def M5_bench5_def M6_bench5_def M7_bench5_def
      M8_bench5_def M9_bench5_def M10_bench5_def M11_bench5_def M12_bench5_def M13_bench5_def
      M14_bench5_def M15_bench5_def M16_bench5_def M17_bench5_def M18_bench5_def M19_bench5_def
      M20_bench5_def M21_bench5_def M22_bench5_def M23_bench5_def M24_bench5_def M25_bench5_def
      M26_bench5_def M27_bench5_def M28_bench5_def M29_bench5_def M30_bench5_def M31_bench5_def
      M32_bench5_def M33_bench5_def M34_bench5_def M35_bench5_def M36_bench5_def M37_bench5_def
      M38_bench5_def M39_bench5_def M40_bench5_def M41_bench5_def M42_bench5_def M43_bench5_def
      M44_bench5_def M45_bench5_def M46_bench5_def M47_bench5_def M48_bench5_def M49_bench5_def
      M50_bench5_def M51_bench5_def M52_bench5_def M53_bench5_def M54_bench5_def M55_bench5_def
      M56_bench5_def M57_bench5_def M58_bench5_def M59_bench5_def M60_bench5_def M61_bench5_def
      M62_bench5_def M63_bench5_def M64_bench5_def M65_bench5_def M66_bench5_def M67_bench5_def
      M68_bench5_def M69_bench5_def M70_bench5_def M71_bench5_def M72_bench5_def M73_bench5_def
      M74_bench5_def M75_bench5_def M76_bench5_def M77_bench5_def M78_bench5_def M79_bench5_def
      M80_bench5_def M81_bench5_def M82_bench5_def M83_bench5_def M84_bench5_def M85_bench5_def
      M86_bench5_def M87_bench5_def M88_bench5_def M89_bench5_def M90_bench5_def M91_bench5_def
      M92_bench5_def M93_bench5_def M94_bench5_def M95_bench5_def)

interpretation natural2: generated_tables bench2_members "map natural_row bench2_members"
  by (rule natural_tables [OF _ class_sizes_bench2]) (simp only: class_numbers distinct_upt)

interpretation natural5: generated_tables bench5_members "map natural_row bench5_members"
  by (rule natural_tables [OF _ class_sizes_bench5]) (simp only: class_numbers distinct_upt)

section \<open>Properties\<close>

text \<open>C23. Benchmarks 2 and 5.  The files that register these classes are not in the tree, so the rows
  they would assign are an argument.  For any rows, at most one for a class and each fitting the members of its class,
  and any message of these classes whose objects of one class agree on which of their strings are long, and whose fields
  fit their length prefixes: metadata walk, serializer and parser, composed with the constructors and sizes of these headers,
  rebuild the message, except that strings over 1024 bytes arrive empty.\<close>

theorem unregistered_roundtrip:
  assumes "(tbl, create, message_size) \<in> set unregistered"
    and "distinct (map fst rows)" and "list_all (class_ok tbl) rows"
    and "typed (register_rows rows (\<lambda>_. zero_metadata)) (map fst rows) m" and "consistent sig m" and "fits True m"
    and "rows_ok st"
  shows "\<exists>st' out. SendMetadataToFPGA (layout m) (init_sizes message_size (\<lambda>_. 0)) st = Inr st'
    \<and> SerializeToString (layout m) True total_size (init_sizes message_size (\<lambda>_. 0))
        = Inr (out, total_size + of_nat (length out), of_nat (length out))
    \<and> ParseFromString (depth m) out (blank_of create md0 (class_id (msg_metadata m)))
        (ucast (class_id (msg_metadata m)))
        \<lparr>metadataVec = register_rows rows (\<lambda>_. zero_metadata), messageSizeVec = init_sizes message_size (\<lambda>_. 0),
          FPGA_metadataVec = table st', createMessage = create\<rparr>
      = Inr (layout (received True m))"
proof -
  have "create = table_create tbl" "message_size = table_size tbl"
    using assms(1) by (auto simp: unregistered_def createMessage_bench2_def createMessage_bench5_def
        getMessageSize_bench2_def getMessageSize_bench5_def)
  then show ?thesis
    using class_registry.send_and_parse [OF table_registry [OF assms(2,3)] assms(4-7)] by simp
qed

text \<open>All 310 classes of benchmark 2 registered, and a message of class 9.\<close>

definition bench2_metadata :: "u32 \<Rightarrow> Metadata" where
  "bench2_metadata = register_rows (map natural_row bench2_members) (\<lambda>_. zero_metadata)"

definition bench2_message :: msg where
  "bench2_message = Msg (bench2_metadata 9) [MVal (VStr long_string), MVal (VBool True), MVal (V32 7)]"

lemma bench2_row_9:
  "(9, [(sw_string_type, 1), (sw_bool_type, 2), (sw_int32_type, 3)]) \<in> set (map natural_row bench2_members)"
proof -
  have "(9, private_members M9_bench2) \<in> set bench2_members" by (simp add: bench2_members_def)
  then have "natural_row (9, private_members M9_bench2) \<in> set (map natural_row bench2_members)" by simp
  then show ?thesis by (simp add: natural_row_def M9_bench2_def upt_rec del: set_map)
qed

lemma bench2_message_ok:
  "typed bench2_metadata (map fst (map natural_row bench2_members)) bench2_message"
  "consistent (signature_of bench2_message) bench2_message" "fits True bench2_message"
proof -
  let ?fs = "[(sw_string_type, 1), (sw_bool_type, 2), (sw_int32_type, 3)]"
  have "map_of (map natural_row bench2_members) (of_nat 9) = Some ?fs"
    using natural2.classes_distinct bench2_row_9 by simp
  note row = natural2.row [OF this, simplified]
  have md: "md_fields (bench2_metadata 9) = ?fs" "class_id (bench2_metadata 9) = 9"
    using row(3,4) by (simp_all add: bench2_metadata_def)
  have "9 \<in> set (map fst (map natural_row bench2_members))"
    using imageI [OF bench2_row_9, of fst] by (simp only: fst_conv set_map)
  then show "typed bench2_metadata (map fst (map natural_row bench2_members)) bench2_message"
    using md by (simp add: bench2_message_def same_kind_def del: set_map map_map)
  have long: "long_limit < length long_string" "string_fits long_string"
    using long_string_fits by (simp_all add: long_string_def long_limit_def)
  show "consistent (signature_of bench2_message) bench2_message"
    using md long by (intro distinct_consistent) (simp_all add: bench2_message_def fpga_fields_def)
  show "fits True bench2_message"
    using md long by (simp add: bench2_message_def parsable_def packed_part_def)
qed

theorem unregistered_roundtrip_witness:
  "\<exists>st' out. SendMetadataToFPGA (layout bench2_message) (init_sizes getMessageSize_bench2 (\<lambda>_. 0)) fresh_state = Inr st'
    \<and> SerializeToString (layout bench2_message) True 0 (init_sizes getMessageSize_bench2 (\<lambda>_. 0))
        = Inr (out, 0 + of_nat (length out), of_nat (length out))
    \<and> ParseFromString (depth bench2_message) out (blank_of createMessage_bench2 zero_metadata (class_id (msg_metadata bench2_message)))
        (ucast (class_id (msg_metadata bench2_message)))
        \<lparr>metadataVec = register_rows (map natural_row bench2_members) (\<lambda>_. zero_metadata),
          messageSizeVec = init_sizes getMessageSize_bench2 (\<lambda>_. 0),
          FPGA_metadataVec = table st', createMessage = createMessage_bench2\<rparr>
      = Inr (layout (received True bench2_message))"
proof (rule unregistered_roundtrip [where tbl = bench2_members])
  show "(bench2_members, createMessage_bench2, getMessageSize_bench2) \<in> set unregistered"
    by (simp add: unregistered_def)
qed (use natural2.classes_distinct natural2.classes_ok bench2_message_ok fresh_rows_ok in
    \<open>simp_all only: bench2_metadata_def\<close>)

end
