(* ===== verification/Gpu_Mem.thy ===== *)
theory Gpu_Mem
  imports Tlb
begin

text \<open>
  The GPU memory pool of \<open>utils/QDMAController.cpp\<close> (lines 416 to 634): the allocator that aligns CUDA
  memory to GPU pages, the construction of the pool, and its page table of 64 KB pages, which
  \<open>writeTLB\<close> transfers page by page or, aggregated, as pages of 2 MB.  CUDA and gdrcopy are not part
  of the repository: the results of their calls are arguments (\<open>gpu_env\<close>), the calls that allocate
  and release are logged.
\<close>

section \<open>CUDA memory\<close>

datatype cu_result = CUDA_SUCCESS | CUDA_ERROR_INVALID_VALUE | CU_other u32

datatype cu_call = CuMemAlloc u64 | CuPointerSetAttribute u64 | CuMemFree u64

record gdrMemAllocator =
  allocations :: chunks
  cu_log :: "cu_call list"

text \<open>The page size and mask of \<open>gdrapi.h\<close>.\<close>

record gdr_api =
  GPU_PAGE_SIZE :: u64
  GPU_PAGE_MASK :: u64

definition cu_call :: "cu_call \<Rightarrow> gdrMemAllocator \<Rightarrow> gdrMemAllocator" where
  "cu_call c al = al\<lparr>cu_log := cu_log al @ [c]\<rparr>"

text \<open>\<open>got\<close> and \<open>ptr\<close> are what \<open>cuMemAlloc\<close> returns, \<open>attr\<close> what \<open>cuPointerSetAttribute\<close> does; the
  second result is the pointer stored through \<open>pptr\<close>, if any.\<close>

definition gpuMemAlloc ::
  "gdr_api \<Rightarrow> u64 \<Rightarrow> bool \<Rightarrow> bool \<Rightarrow> cu_result \<Rightarrow> u64 \<Rightarrow> cu_result \<Rightarrow> gdrMemAllocator
     \<Rightarrow> cu_result \<times> u64 option \<times> gdrMemAllocator" where
  "gpuMemAlloc api psize align_to_gpu_page set_sync_memops got ptr attr al =
     (let n = (if align_to_gpu_page then psize + GPU_PAGE_SIZE api - 1 else psize);
          al = cu_call (CuMemAlloc n) al
      in if got \<noteq> CUDA_SUCCESS then (got, None, al)
         else
           let al = (if set_sync_memops then cu_call (CuPointerSetAttribute ptr) al else al) in
           if set_sync_memops \<and> attr \<noteq> CUDA_SUCCESS then (attr, None, cu_call (CuMemFree ptr) al)
           else
             let pptr = (if align_to_gpu_page then (ptr + GPU_PAGE_SIZE api - 1) AND GPU_PAGE_MASK api
                         else ptr)
             in (CUDA_SUCCESS, Some pptr, al\<lparr>allocations := map_put pptr ptr (allocations al)\<rparr>))"

text \<open>\<open>freed\<close> is what \<open>cuMemFree\<close> returns.\<close>

definition gpuMemFree :: "u64 \<Rightarrow> cu_result \<Rightarrow> gdrMemAllocator \<Rightarrow> cu_result \<times> gdrMemAllocator" where
  "gpuMemFree pptr freed al =
     (case map_of (allocations al) pptr of
        Some ptr \<Rightarrow>
          let al = cu_call (CuMemFree ptr) al in
          (freed, if freed = CUDA_SUCCESS then al\<lparr>allocations := map_erase ptr (allocations al)\<rparr> else al)
      | None \<Rightarrow> (CUDA_ERROR_INVALID_VALUE, al))"

text \<open>The destructor releases what is recorded.\<close>

definition gdr_destructor :: "gdrMemAllocator \<Rightarrow> gdrMemAllocator" where
  "gdr_destructor al = fold (\<lambda>it. cu_call (CuMemFree (snd it))) (allocations al) al"

lemma map_put_self: "(k, v) \<in> set (map_put k v xs)"
  by (induction k v xs rule: map_put.induct) auto

section \<open>The pool\<close>

record gpu_env =
  cuInit :: "u32 \<Rightarrow> cu_result"
  cuDeviceGet :: "u32 \<Rightarrow> cu_result"
  cuDevicePrimaryCtxRetain :: cu_result
  cuCtxSetCurrent :: cu_result
  cuMemAlloc :: "cu_result \<times> u64"
  cuPointerSetAttribute :: cu_result
  gdr_open :: bool
  gdr_pin_buffer :: bool
  gdr_map :: bool
  gdr_get_info :: bool
  info_va :: u64
  page_entries :: u32
  pages :: "u64 list"

definition gpu_page_bytes :: u64 where
  "gpu_page_bytes = 64 * 1024"

text \<open>The constructor: every \<open>ASSERTDRV\<close>, \<open>ASSERT_EQ\<close> and \<open>ASSERT_NEQ\<close> is a check that ends the
  program.\<close>

definition GPUMemCtl ::
  "gdr_api \<Rightarrow> gpu_env \<Rightarrow> u32 \<Rightarrow> u64 \<Rightarrow> gdrMemAllocator \<Rightarrow> (page_table \<times> mem_ctl \<times> gdrMemAllocator) result"
  where
  "GPUMemCtl api env devID n al =
     andThen (require (cuInit env devID = CUDA_SUCCESS)) (\<lambda>_.
     andThen (require (cuDeviceGet env devID = CUDA_SUCCESS)) (\<lambda>_.
     andThen (require (cuDevicePrimaryCtxRetain env = CUDA_SUCCESS)) (\<lambda>_.
     andThen (require (cuCtxSetCurrent env = CUDA_SUCCESS)) (\<lambda>_.
       case gpuMemAlloc api n True True (fst (cuMemAlloc env)) (snd (cuMemAlloc env))
              (cuPointerSetAttribute env) al of
         (ret, None, al) \<Rightarrow> Inl Exit
       | (ret, Some devAddr, al) \<Rightarrow>
           andThen (require (ret = CUDA_SUCCESS)) (\<lambda>_.
           andThen (require (gdr_open env)) (\<lambda>_.
           andThen (require (gdr_pin_buffer env)) (\<lambda>_.
           andThen (require (gdr_map env)) (\<lambda>_.
           andThen (require (gdr_get_info env)) (\<lambda>_.
           andThen (require (info_va env - devAddr = 0)) (\<lambda>_.
           andThen (require (devAddr AND (gpu_page_bytes - 1) = 0)) (\<lambda>_.
             Inr (\<lparr>n_pages = page_entries env, vaddr = devAddr, parray = pages env\<rparr>,
                  \<lparr>pool_size = n, free_chunk = [(devAddr, n)], used_chunk = []\<rparr>, al)))))))) ))))"

record gpu_state =
  devID :: u32
  gpu_mem_ctl_list :: "(page_table \<times> mem_ctl) list"
  allocator :: gdrMemAllocator

definition gpu_start :: gpu_state where
  "gpu_start = \<lparr>devID = - 1, gpu_mem_ctl_list = [], allocator = \<lparr>allocations = [], cu_log = []\<rparr>\<rparr>"

definition gpu_getInstance ::
  "gdr_api \<Rightarrow> gpu_env \<Rightarrow> u32 \<Rightarrow> u64 \<Rightarrow> gpu_state \<Rightarrow> ((page_table \<times> mem_ctl) \<times> gpu_state) result" where
  "gpu_getInstance api env dev_id n st =
     (if 0 \<le> sint (devID st) \<and> devID st \<noteq> dev_id then Inl Exit
      else
        let n = (n + gpu_page_bytes - 1) AND NOT (gpu_page_bytes - 1) in
        if n mod page_bytes \<noteq> 0 then Inl Exit
        else case gpu_mem_ctl_list st of
            [] \<Rightarrow> andThen (GPUMemCtl api env (devID st) n (allocator st)) (\<lambda>(pt, mc, al).
                    Inr ((pt, mc), st\<lparr>gpu_mem_ctl_list := [(pt, mc)], allocator := al\<rparr>))
          | ctl # _ \<Rightarrow> Inr (ctl, st))"

section \<open>Translation and transfer\<close>

definition page_at :: "page_table \<Rightarrow> nat \<Rightarrow> u64 result" where
  "page_at pt i = (if i < length (parray pt) then Inr (parray pt ! i) else Inl Overrun)"

definition gpu_mapV2P :: "page_table \<Rightarrow> u64 \<Rightarrow> u64 result" where
  "gpu_mapV2P pt ptr =
     (let offset = ptr - vaddr pt in
      andThen (page_at pt (unat (offset div gpu_page_bytes))) (\<lambda>pa.
        Inr (pa + (offset AND (gpu_page_bytes - 1)))))"

text \<open>The assertions on one aggregated page: its 32 pages follow each other in physical memory.\<close>

definition check_run :: "page_table \<Rightarrow> nat \<Rightarrow> unit result" where
  "check_run pt i =
     each (\<lambda>j _. andThen (page_at pt (i * 32 + j)) (\<lambda>b.
                 andThen (page_at pt (i * 32 + j - 1)) (\<lambda>a. require (b - a = 65536))))
       [1..<32] ()"

definition gpu_writeTLB ::
  "page_table \<Rightarrow> (u32 \<Rightarrow> u32 \<Rightarrow> u64 \<Rightarrow> u64 \<Rightarrow> 's \<Rightarrow> 's) \<Rightarrow> bool \<Rightarrow> 's \<Rightarrow> 's result" where
  "gpu_writeTLB pt func aggr_flag =
     (if aggr_flag then
        each (\<lambda>i s. andThen (andThen (check_run pt i) (\<lambda>_. page_at pt (i * 32))) (\<lambda>pa.
            Inr (func (of_nat i) (ucast page_bytes) (vaddr pt + of_nat i * page_bytes) pa s)))
          [0..<unat (n_pages pt div 32)]
      else
        each (\<lambda>i s. andThen (page_at pt i) (\<lambda>pa.
            Inr (func (of_nat i) (ucast gpu_page_bytes) (vaddr pt + of_nat i * gpu_page_bytes) pa s)))
          [0..<unat (n_pages pt)])"

section \<open>What the device is told\<close>

text \<open>The arguments of a call of the callback, and the translation a list of them stands for: the first
  page that holds the address.\<close>

type_synonym tlb_call = "u32 \<times> u32 \<times> u64 \<times> u64"

definition record_call :: "u32 \<Rightarrow> u32 \<Rightarrow> u64 \<Rightarrow> u64 \<Rightarrow> tlb_call list \<Rightarrow> tlb_call list" where
  "record_call page_index page_size va pa log = log @ [(page_index, page_size, va, pa)]"

definition translate :: "tlb_call list \<Rightarrow> u64 \<Rightarrow> u64 option" where
  "translate calls ptr =
     (case find (\<lambda>(_, page_size, va, _). ptr - va < ucast page_size) calls of
        Some (_, _, va, pa) \<Rightarrow> Some (pa + (ptr - va))
      | None \<Rightarrow> None)"

lemma fold_record_call:
  "fold (\<lambda>i. record_call (f i) ps (g i) (h i)) xs log = log @ map (\<lambda>i. (f i, ps, g i, h i)) xs"
  by (induction xs arbitrary: log) (simp_all add: record_call_def)

text \<open>Pages of one size laid end to end.\<close>

lemma word_page_offset:
  assumes "j * P \<le> unat (off :: u64)"
  shows "unat (base + off - (base + of_nat j * of_nat P)) = unat off - j * P"
proof -
  have jP: "unat (of_nat (j * P) :: u64) = j * P"
    using assms unat_less [of off] by (intro unat_of_nat_small) simp
  have "base + off - (base + of_nat j * of_nat P) = off - of_nat (j * P)" by simp
  moreover have "unat (off - of_nat (j * P)) = unat off - j * P"
    using jP assms by (subst unat_sub) (simp_all only: word_le_nat_alt)
  ultimately show ?thesis by (simp only:)
qed

lemma translate_pages:
  assumes ps: "unat ps = P" "0 < P" and off: "unat off < n * P"
  shows "translate (map (\<lambda>i. (f i, ps, base + of_nat i * of_nat P, g i)) [0..<n]) (base + off)
     = Some (g (unat off div P) + of_nat (unat off mod P))"
proof -
  let ?i = "unat off div P"
    and ?calls = "map (\<lambda>i. (f i, ps, base + of_nat i * of_nat P, g i)) [0..<n]"
  have i: "?i < n" using off by (simp add: less_mult_imp_div_less)
  have ups: "unat (ucast ps :: u64) = P"
    using ps unat_less [of ps] by (simp add: unsigned_ucast_eq take_bit_nat_eq_self)
  have hit: "unat (base + off - (base + of_nat j * of_nat P)) = unat off - j * P" if "j \<le> ?i" for j
    using that by (intro word_page_offset) (metis mult_le_mono1 order_trans div_times_less_eq_dividend)
  have in_page: "base + off - (base + of_nat j * of_nat P) < ucast ps \<longleftrightarrow> j = ?i" if "j \<le> ?i" for j
  proof -
    have "unat off - j * P < P \<longleftrightarrow> unat off < (j + 1) * P"
      using ps(2) mult_le_mono1 [OF that, of P] div_times_less_eq_dividend [of "unat off" P] by auto
    also have "\<dots> \<longleftrightarrow> ?i < j + 1" using ps(2) by (simp only: div_less_iff_less_mult)
    also have "\<dots> \<longleftrightarrow> j = ?i" using that by linarith
    finally show ?thesis by (simp only: word_less_nat_alt hit [OF that] ups)
  qed
  have "find (\<lambda>(_, page_size, va, _). base + off - va < ucast page_size) ?calls
      = Some (f ?i, ps, base + of_nat ?i * of_nat P, g ?i)"
    unfolding find_Some_iff using i in_page by (intro exI [of _ ?i]) auto
  moreover have "base + off - (base + of_nat ?i * of_nat P) = of_nat (unat off mod P)"
  proof (rule word_unat_eq_iff [THEN iffD2])
    have "unat off mod P < 2 ^ 64"
      by (rule le_less_trans [OF mod_less_eq_dividend]) (use unat_less [of off] in simp)
    then have "unat (of_nat (unat off mod P) :: u64) = unat off mod P"
      by (intro unat_of_nat_small) simp
    then show "unat (base + off - (base + of_nat ?i * of_nat P)) = unat (of_nat (unat off mod P) :: u64)"
      using hit [of ?i] by (simp only: order_refl minus_div_mult_eq_mod simp_thms)
  qed
  ultimately show ?thesis by (simp add: translate_def)
qed

text \<open>What the assertions establish.\<close>

lemma each_check: "each (\<lambda>x _. q x) xs () = Inr () \<Longrightarrow> x \<in> set xs \<Longrightarrow> q x = Inr ()"
  by (induction xs) (auto simp: andThen_eq_Inr)

lemma check_run_step:
  assumes "check_run pt i = Inr ()" and "Suc j < 32"
  shows "i * 32 + Suc j < length (parray pt)" "i * 32 + j < length (parray pt)"
    "parray pt ! (i * 32 + Suc j) = parray pt ! (i * 32 + j) + 65536"
proof -
  let ?body = "\<lambda>j. andThen (page_at pt (i * 32 + j)) (\<lambda>b.
      andThen (page_at pt (i * 32 + j - 1)) (\<lambda>a. require (b - a = 65536)))"
  have "?body (Suc j) = Inr ()"
    using each_check [of ?body "[1..<32]" "Suc j"] assms by (simp add: check_run_def)
  then show "i * 32 + Suc j < length (parray pt)" "i * 32 + j < length (parray pt)"
    "parray pt ! (i * 32 + Suc j) = parray pt ! (i * 32 + j) + 65536"
    by (auto simp: andThen_eq_Inr page_at_def algebra_simps split: if_splits)
qed

lemma check_run_bound: "check_run pt i = Inr () \<Longrightarrow> j < 32 \<Longrightarrow> i * 32 + j < length (parray pt)"
  using check_run_step(1) [of pt i "j - 1"] check_run_step(2) [of pt i 0] by (cases j) simp_all

lemma check_run_pages:
  "check_run pt i = Inr () \<Longrightarrow> j < 32 \<Longrightarrow>
   parray pt ! (i * 32 + j) = parray pt ! (i * 32) + of_nat j * 65536"
proof (induction j)
  case (Suc j)
  then show ?case using check_run_step(3) [of pt i j] by (simp add: algebra_simps)
qed simp

lemma unat_gpu_page_bytes: "unat gpu_page_bytes = 2 ^ 16"
  by (simp add: gpu_page_bytes_def)

lemma gpu_mapV2P_eq:
  assumes "unat off div 2 ^ 16 < length (parray pt)"
  shows "gpu_mapV2P pt (vaddr pt + off)
     = Inr (parray pt ! (unat off div 2 ^ 16) + of_nat (unat off mod 2 ^ 16))"
proof -
  have i: "unat (off div gpu_page_bytes) = unat off div 2 ^ 16"
    by (simp only: unat_div unat_gpu_page_bytes)
  have m: "gpu_page_bytes - 1 = mask 16" and p: "gpu_page_bytes = 2 ^ 16"
    by (simp_all add: gpu_page_bytes_def mask_eq_exp_minus_1)
  have "off AND (gpu_page_bytes - 1) = off mod gpu_page_bytes"
    unfolding m by (simp only: take_bit_eq_mask [symmetric] take_bit_eq_mod p)
  also have "\<dots> = of_nat (unat off mod 2 ^ 16)"
    by (subst unat_gpu_page_bytes [symmetric], subst unat_mod [symmetric]) simp
  finally have a: "off AND (gpu_page_bytes - 1) = of_nat (unat off mod 2 ^ 16)" .
  have "vaddr pt + off - vaddr pt = off" by simp
  then show ?thesis
    unfolding gpu_mapV2P_def Let_def page_at_def
    by (simp only: i a assms if_True andThen_Inr)
qed

section \<open>Properties\<close>

text \<open>Once the assertions of \<open>GPUMemCtl::writeTLB\<close> have passed, the pages it hands to the
  callback translate every address of the pool as \<open>mapV2P\<close> does on the host, 64 KB page by page or
  aggregated to 2 MB; aggregation needs a whole number of 2 MB pages, which \<open>getInstance\<close> enforces.\<close>

theorem gpu_tlb_agrees_with_mapV2P:
  assumes "gpu_writeTLB pt record_call aggr_flag [] = Inr calls"
    and "aggr_flag \<Longrightarrow> 32 dvd unat (n_pages pt)"
    and "unat off < unat (n_pages pt) * 2 ^ 16"
  shows "\<exists>p. translate calls (vaddr pt + off) = Some p \<and> gpu_mapV2P pt (vaddr pt + off) = Inr p"
proof (cases aggr_flag)
  case True
  let ?q = "\<lambda>i. andThen (check_run pt i) (\<lambda>_. page_at pt (i * 32))" and ?n = "unat (n_pages pt div 32)"
  let ?i = "unat off div 2 ^ 21" and ?j = "unat off div 2 ^ 16 mod 32"
  have pages: "unat (n_pages pt) = ?n * 32" using assms(2) True by (simp add: unat_div)
  have run: "each (\<lambda>i s. andThen (?q i) (\<lambda>pa. Inr (record_call (of_nat i) (ucast page_bytes)
      (vaddr pt + of_nat i * page_bytes) pa s))) [0..<?n] [] = Inr calls"
    using assms(1) True by (simp add: gpu_writeTLB_def)
  have q: "check_run pt i = Inr () \<and> page_at pt (i * 32) = Inr (parray pt ! (i * 32))" if "i < ?n" for i
    using each_Inr(2) [OF run, of i] that by (auto simp: andThen_eq_Inr page_at_def split: if_splits)
  have "calls = map (\<lambda>i. (of_nat i, ucast page_bytes, vaddr pt + of_nat i * page_bytes, projr (?q i))) [0..<?n]"
    using each_Inr(1) [OF run] by (simp add: fold_record_call)
  also have "\<dots> = map (\<lambda>i. (of_nat i, ucast page_bytes, vaddr pt + of_nat i * of_nat (2 ^ 21),
      parray pt ! (i * 32))) [0..<?n]"
    by (simp add: q page_bytes_def)
  finally have "translate calls (vaddr pt + off)
      = Some (parray pt ! (?i * 32) + of_nat (unat off mod 2 ^ 21))"
    using assms(3) pages by (simp only:) (rule translate_pages, simp_all add: page_bytes_def)
  moreover have i: "?i < ?n" using assms(3) pages by (simp add: less_mult_imp_div_less)
  have split: "unat off div 2 ^ 16 = ?i * 32 + ?j"
  proof -
    have "?i = unat off div 2 ^ 16 div 32" by (simp add: div_mult2_eq [symmetric])
    then show ?thesis by (simp only: div_mult_mod_eq)
  qed
  have "unat off mod 2 ^ 21 = ?j * 2 ^ 16 + unat off mod 2 ^ 16"
    using mod_mult2_eq [of "unat off" "2 ^ 16" 32] by simp
  moreover have "parray pt ! (unat off div 2 ^ 16) = parray pt ! (?i * 32) + of_nat ?j * 65536"
    using check_run_pages [of pt ?i ?j] q [OF i] unfolding split [symmetric] by simp
  moreover have "unat off div 2 ^ 16 < length (parray pt)"
    using check_run_bound [of pt ?i ?j] q [OF i] unfolding split [symmetric] by simp
  ultimately show ?thesis by (simp add: gpu_mapV2P_eq)
next
  case False
  let ?n = "unat (n_pages pt)" and ?i = "unat off div 2 ^ 16"
  have run: "each (\<lambda>i s. andThen (page_at pt i) (\<lambda>pa. Inr (record_call (of_nat i) (ucast gpu_page_bytes)
      (vaddr pt + of_nat i * gpu_page_bytes) pa s))) [0..<?n] [] = Inr calls"
    using assms(1) False by (simp add: gpu_writeTLB_def)
  have q: "i < length (parray pt)" if "i < ?n" for i
    using each_Inr(2) [OF run, of i] that by (auto simp: page_at_def split: if_splits)
  have "calls = map (\<lambda>i. (of_nat i, ucast gpu_page_bytes, vaddr pt + of_nat i * gpu_page_bytes,
      projr (page_at pt i))) [0..<?n]"
    using each_Inr(1) [OF run] by (simp add: fold_record_call)
  also have "\<dots> = map (\<lambda>i. (of_nat i, ucast gpu_page_bytes, vaddr pt + of_nat i * of_nat (2 ^ 16),
      parray pt ! i)) [0..<?n]"
    using q by (simp add: page_at_def gpu_page_bytes_def)
  finally have "translate calls (vaddr pt + off) = Some (parray pt ! ?i + of_nat (unat off mod 2 ^ 16))"
    using assms(3) by (simp only:) (rule translate_pages, simp_all add: gpu_page_bytes_def)
  moreover have "?i < ?n" using assms(3) by (simp add: less_mult_imp_div_less)
  ultimately show ?thesis using q by (simp add: gpu_mapV2P_eq)
qed

text \<open>A pool of 64 pages, the second 2 MB below the first in physical memory.\<close>

definition gpu_pages :: page_table where
  "gpu_pages = \<lparr>n_pages = 64, vaddr = 0x7f0000000000,
     parray = map (\<lambda>j. 0x400000 + of_nat j * 65536) [0..<32] @ map (\<lambda>j. 0x200000 + of_nat j * 65536) [0..<32]\<rparr>"

lemma gpu_pages_aggregate:
  "gpu_writeTLB gpu_pages record_call True []
     = Inr [(0, 0x200000, 0x7f0000000000, 0x400000), (1, 0x200000, 0x7f0000200000, 0x200000)]"
  by code_simp

theorem gpu_tlb_agrees_with_mapV2P_witness:
  "\<exists>p. translate [(0, 0x200000, 0x7f0000000000, 0x400000), (1, 0x200000, 0x7f0000200000, 0x200000)]
      (vaddr gpu_pages + 0x2a0005) = Some p \<and> gpu_mapV2P gpu_pages (vaddr gpu_pages + 0x2a0005) = Inr p"
  by (rule gpu_tlb_agrees_with_mapV2P [OF gpu_pages_aggregate]) (simp_all add: gpu_pages_def)

text \<open>The memory handed out by \<open>gpuMemAlloc\<close> starts at a GPU page, lies within what \<open>cuMemAlloc\<close>
  returned, and is recorded under the aligned address with the address to release.\<close>

theorem gpu_alloc_aligned:
  assumes "GPU_PAGE_SIZE api = 65536" and "GPU_PAGE_MASK api = NOT 65535"
    and "unat ptr + unat psize + 65535 < 2 ^ 64"
    and "gpuMemAlloc api psize True sync CUDA_SUCCESS ptr CUDA_SUCCESS al = (ret, Some pptr, al')"
  shows "ret = CUDA_SUCCESS \<and> 65536 dvd unat pptr \<and> unat ptr \<le> unat pptr
    \<and> unat pptr + unat psize \<le> unat ptr + (unat psize + 65535)
    \<and> CuMemAlloc (psize + 65535) \<in> set (cu_log al') \<and> (pptr, ptr) \<in> set (allocations al')"
proof -
  have p: "pptr = (ptr + 65535) AND NOT (mask 16)" and r: "ret = CUDA_SUCCESS"
    and al': "(pptr, ptr) \<in> set (allocations al')" "CuMemAlloc (psize + 65535) \<in> set (cu_log al')"
    using assms(1,2,4) map_put_self [of pptr ptr]
    by (auto simp: gpuMemAlloc_def cu_call_def Let_def mask_eq_exp_minus_1 ac_simps split: if_splits)
  have "pptr = push_bit 16 (drop_bit 16 (ptr + 65535))"
    unfolding p by (rule bit_word_eqI) (auto simp: bit_simps)
  then have "pptr = drop_bit 16 (ptr + 65535) * 2 ^ 16" by (simp only: push_bit_eq_mult)
  moreover have "unat (ptr + 65535) = unat ptr + 65535"
    using assms(3) by (simp add: unat_word_ariths(1))
  then have "unat (drop_bit 16 (ptr + 65535)) = (unat ptr + 65535) div 2 ^ 16"
    by (simp only: unat_drop_bit_div)
  moreover have b: "(unat ptr + 65535) div 65536 * 65536 \<le> unat ptr + 65535"
      "unat ptr \<le> (unat ptr + 65535) div 65536 * 65536"
    by linarith+
  moreover have "(unat ptr + 65535) div 65536 * 65536 < 2 ^ 64" using b(1) assms(3) by linarith
  ultimately have "unat pptr = (unat ptr + 65535) div 65536 * 65536"
    by (simp add: unat_word_ariths(2))
  then show ?thesis using r al' b by simp
qed

definition gdr_pages :: gdr_api where
  "gdr_pages = \<lparr>GPU_PAGE_SIZE = 65536, GPU_PAGE_MASK = NOT 65535\<rparr>"

definition no_allocations :: gdrMemAllocator where
  "no_allocations = \<lparr>allocations = [], cu_log = []\<rparr>"

definition one_allocation :: gdrMemAllocator where
  "one_allocation = \<lparr>allocations = [(0x7f0000010000, 0x7f0000000200)],
     cu_log = [CuMemAlloc 0x20ffff, CuPointerSetAttribute 0x7f0000000200]\<rparr>"

lemma one_allocation_made:
  "gpuMemAlloc gdr_pages 0x200000 True True CUDA_SUCCESS 0x7f0000000200 CUDA_SUCCESS no_allocations
     = (CUDA_SUCCESS, Some 0x7f0000010000, one_allocation)"
  by code_simp

theorem gpu_alloc_aligned_witness:
  "CUDA_SUCCESS = CUDA_SUCCESS \<and> 65536 dvd unat (0x7f0000010000 :: u64)
    \<and> unat (0x7f0000000200 :: u64) \<le> unat (0x7f0000010000 :: u64)
    \<and> unat (0x7f0000010000 :: u64) + unat (0x200000 :: u64) \<le> unat (0x7f0000000200 :: u64) + (unat (0x200000 :: u64) + 65535)
    \<and> CuMemAlloc (0x200000 + 65535) \<in> set (cu_log one_allocation)
    \<and> (0x7f0000010000, 0x7f0000000200) \<in> set (allocations one_allocation)"
  by (rule gpu_alloc_aligned [OF _ _ _ one_allocation_made]) (simp_all add: gdr_pages_def)

text \<open>\<open>gpuMemFree\<close> erases the entry of the address it releases, but entries are kept under the
  aligned address: when the two differ the entry stays, a second release of the same memory calls
  \<open>cuMemFree\<close> again, and so does the destructor.\<close>

theorem gpu_free_twice:
  assumes "map_of (allocations al) pptr = Some ptr" and "pptr \<noteq> ptr"
    and "gpuMemFree pptr CUDA_SUCCESS al = (r1, al1)" and "gpuMemFree pptr CUDA_SUCCESS al1 = (r2, al2)"
  shows "r1 = CUDA_SUCCESS \<and> r2 = CUDA_SUCCESS \<and> cu_log al2 = cu_log al @ [CuMemFree ptr, CuMemFree ptr]
    \<and> CuMemFree ptr \<in> set (drop (length (cu_log al2)) (cu_log (gdr_destructor al2)))"
proof -
  have keep: "map_of (map_erase ptr xs) pptr = map_of xs pptr" for xs
    using assms(2) by (induction xs) (auto simp: map_erase_def)
  have al1: "r1 = CUDA_SUCCESS" "al1 = al\<lparr>cu_log := cu_log al @ [CuMemFree ptr],
      allocations := map_erase ptr (allocations al)\<rparr>"
    using assms(1,3) by (auto simp: gpuMemFree_def cu_call_def)
  then have "map_of (allocations al1) pptr = Some ptr" using assms(1) keep by simp
  with assms(4) have al2: "r2 = CUDA_SUCCESS" "al2 = al1\<lparr>cu_log := cu_log al1 @ [CuMemFree ptr],
      allocations := map_erase ptr (allocations al1)\<rparr>"
    by (auto simp: gpuMemFree_def cu_call_def)
  then have "map_of (allocations al2) pptr = Some ptr"
    using \<open>map_of (allocations al1) pptr = Some ptr\<close> keep by simp
  then have "(pptr, ptr) \<in> set (allocations al2)" by (rule map_of_SomeD)
  moreover have log: "cu_log (fold (\<lambda>it. cu_call (CuMemFree (snd it))) its a)
      = cu_log a @ map (\<lambda>it. CuMemFree (snd it)) its" for its a
    by (induction its arbitrary: a) (simp_all add: cu_call_def)
  ultimately have "CuMemFree ptr \<in> set (drop (length (cu_log al2)) (cu_log (gdr_destructor al2)))"
    by (force simp: gdr_destructor_def log)
  then show ?thesis using al1 al2 by simp
qed

theorem gpu_free_twice_witness:
  "CUDA_SUCCESS = CUDA_SUCCESS \<and> CUDA_SUCCESS = CUDA_SUCCESS
    \<and> cu_log (snd (gpuMemFree 0x7f0000010000 CUDA_SUCCESS (snd (gpuMemFree 0x7f0000010000 CUDA_SUCCESS one_allocation))))
        = cu_log one_allocation @ [CuMemFree 0x7f0000000200, CuMemFree 0x7f0000000200]
    \<and> CuMemFree 0x7f0000000200 \<in> set (drop (length (cu_log (snd (gpuMemFree 0x7f0000010000 CUDA_SUCCESS
          (snd (gpuMemFree 0x7f0000010000 CUDA_SUCCESS one_allocation))))))
        (cu_log (gdr_destructor (snd (gpuMemFree 0x7f0000010000 CUDA_SUCCESS
          (snd (gpuMemFree 0x7f0000010000 CUDA_SUCCESS one_allocation)))))))"
  by (rule gpu_free_twice [where pptr = "0x7f0000010000"
        and ?al1.0 = "snd (gpuMemFree 0x7f0000010000 CUDA_SUCCESS one_allocation)"])
    (simp_all add: one_allocation_def gpuMemFree_def cu_call_def map_erase_def)

text \<open>No pool of GPU memory is ever made: \<open>devID\<close> keeps its initial value, which is passed to
  \<open>cuInit\<close>, and \<open>cuInit\<close> accepts no flags but zero.  Whatever device and size are asked for, the program
  ends.\<close>

theorem gpu_pool_never_opens:
  assumes "\<And>flags. cuInit env flags = CUDA_SUCCESS \<Longrightarrow> flags = 0"
  shows "gpu_getInstance api env dev_id n gpu_start = Inl Exit"
proof -
  have "cuInit env (- 1) \<noteq> CUDA_SUCCESS" using assms [of "- 1"] by auto
  then have "GPUMemCtl api env (- 1) k al = Inl Exit" for k al by (simp add: GPUMemCtl_def)
  then show ?thesis by (simp add: gpu_getInstance_def gpu_start_def Let_def)
qed

definition good_gpu :: gpu_env where
  "good_gpu = \<lparr>cuInit = \<lambda>flags. if flags = 0 then CUDA_SUCCESS else CUDA_ERROR_INVALID_VALUE,
     cuDeviceGet = \<lambda>_. CUDA_SUCCESS, cuDevicePrimaryCtxRetain = CUDA_SUCCESS, cuCtxSetCurrent = CUDA_SUCCESS,
     cuMemAlloc = (CUDA_SUCCESS, 0x7f0000000000), cuPointerSetAttribute = CUDA_SUCCESS, gdr_open = True,
     gdr_pin_buffer = True, gdr_map = True, gdr_get_info = True, info_va = 0x7f0000000000,
     page_entries = 32, pages = replicate 32 0\<rparr>"

theorem gpu_pool_never_opens_witness:
  "gpu_getInstance gdr_pages good_gpu 0 0x200000 gpu_start = Inl Exit"
  by (rule gpu_pool_never_opens) (simp add: good_gpu_def split: if_splits)

end
