(* ===== verification/Offload.thy ===== *)
theory Offload
  imports No_Serialize
begin

text \<open>
  The serializer without encoding as two other programs repeat it: \<open>bluefield/bf_no_encode.h\<close> with
  \<open>bf_serdes_noencode_main.h\<close>, and \<open>test_suite/dsa_offload\<close>, which hands the copying of strings over 256
  bytes to a copy engine (Intel DSA through the DML library).  Both differ from
  \<open>include/no_encode_main.h\<close> in the branch of repeated bytes.  A string handed over is in the buffer only
  when its job has run; jobs run in any order.  The output is therefore the bytes as the buffer holds
  them so far, with stale bytes where a copy is still to come, and the jobs.
\<close>

section \<open>The serializer of the BlueField program\<close>

text \<open>All branches but one are those of \<open>no_encode_main.h\<close>.\<close>

definition Serialize_field_bf ::
  "bool \<Rightarrow> sw_type \<Rightarrow> u8 \<Rightarrow> cells \<Rightarrow> int \<Rightarrow> bytes \<Rightarrow> (int \<times> bytes) result" where
  "Serialize_field_bf skip_long_string_flag ty fid cells obj_addr buf =
     (let current_field_id = scast fid :: u32 in
      case ty of
       sw_repeated_bytes_type \<Rightarrow>
         (let obj_addr = obj_addr - 24 in
          andThen (load_as as_rstring cells obj_addr) (\<lambda>current_field.
            let (current_field_size, skip_flag) =
                  RepeatedStringSize_raw skip_long_string_flag current_field (0 :: u16);
                current_field_size = current_field_size
                  + ucast (TAG_SIZE_raw + VarintSize32_raw (ucast current_field_size))
            in if skip_flag then Inr (obj_addr, buf)
               else
                 let buf = WriteLengthToArray current_field_size buf
                 in Inr (obj_addr, WriteRepeatedBytesToArray_raw current_field_id current_field buf)))
     | _ \<Rightarrow> Serialize_field_raw skip_long_string_flag ty fid cells obj_addr buf)"

definition ByteSizeLong_bf :: "obj \<Rightarrow> bool \<Rightarrow> u64 result" where
  "ByteSizeLong_bf message skip_long_string_flag =
     ByteSize_walk ByteSize_field_raw message skip_long_string_flag"

definition SerializeToString_DFS_bf :: "obj \<Rightarrow> bytes \<Rightarrow> bool \<Rightarrow> (u32 \<Rightarrow> u64) \<Rightarrow> bytes result" where
  "SerializeToString_DFS_bf message current_buffer_addr skip_long_string_flag messageSizeVec =
     Serialize_walk Serialize_field_bf message current_buffer_addr skip_long_string_flag messageSizeVec"

definition SerializeToString_bf :: "obj \<Rightarrow> bool \<Rightarrow> (u32 \<Rightarrow> u64) \<Rightarrow> bytes result" where
  "SerializeToString_bf message skip_long_string_flag messageSizeVec =
     SerializeToString_DFS_bf message [] skip_long_string_flag messageSizeVec"

section \<open>The copy engine\<close>

record dsa_out =
  written :: bytes
  jobs :: "(nat \<times> bytes) list"   \<comment> \<open>destination and source, in the order submitted\<close>

text \<open>The entries of \<open>jobs_list\<close>, the answers of \<open>dml_submit_job\<close>, and what the output buffer holds
  before it is written.\<close>

record dml =
  jobs_list_size :: nat
  submit_ok :: "nat \<Rightarrow> nat \<times> bytes \<Rightarrow> bool"
  stale :: "nat \<Rightarrow> u8"

definition append_with :: "(bytes \<Rightarrow> bytes) \<Rightarrow> dsa_out \<Rightarrow> dsa_out" where
  "append_with f st = st\<lparr>written := f (written st)\<rparr>"

text \<open>The block under \<open>USE_DSA\<close>, the same in four writers.  \<open>jobs_list[now_job_idx]\<close> is not checked; a
  status other than success fails the assertion.\<close>

definition copy_dsa :: "dml \<Rightarrow> bytes \<Rightarrow> dsa_out \<Rightarrow> dsa_out result" where
  "copy_dsa dev s st =
     (let s_size = length s;
          dst = length (written st);
          now_job_idx = length (jobs st)
      in if 256 < s_size then
           if now_job_idx < jobs_list_size dev then
             andThen (require (submit_ok dev now_job_idx (dst, s))) (\<lambda>_.
               Inr (st\<lparr>written := written st @ map (stale dev) [dst..<dst + s_size],
                       jobs := jobs st @ [(dst, s)]\<rparr>))
           else Inl Overrun
         else Inr (st\<lparr>written := written st @ s\<rparr>))"

definition WriteStringToArray_dsa :: "dml \<Rightarrow> u32 \<Rightarrow> bytes \<Rightarrow> dsa_out \<Rightarrow> dsa_out result" where
  "WriteStringToArray_dsa dev field_number s st =
     (let st = append_with (WriteTagToArray_raw field_number PROTOBUF_LENGTH_DELIMITED_TYPE) st;
          st = append_with (WriteVarint32ToArray_raw (of_nat (length s))) st
      in copy_dsa dev s st)"

definition WriteStringNoTagToArray_dsa :: "dml \<Rightarrow> u32 \<Rightarrow> bytes \<Rightarrow> dsa_out \<Rightarrow> dsa_out result" where
  "WriteStringNoTagToArray_dsa dev field_number s st =
     (let st = append_with (WriteVarint32ToArray_raw (of_nat (length s))) st
      in copy_dsa dev s st)"

definition WriteRepeatedStringToArray_dsa :: "dml \<Rightarrow> u32 \<Rightarrow> bytes list \<Rightarrow> dsa_out \<Rightarrow> dsa_out result" where
  "WriteRepeatedStringToArray_dsa dev field_number value st =
     (let st = append_with (WriteTagToArray_raw field_number PROTOBUF_LENGTH_DELIMITED_TYPE) st;
          len = fold (\<lambda>v len. len + ucast (StringSize_raw v)) value (0 :: u32);
          st = append_with (WriteVarint32ToArray_raw len) st
      in each (WriteStringNoTagToArray_dsa dev 0) value st)"

definition WriteSkipRepeatedStringToArray_dsa ::
  "dml \<Rightarrow> u32 \<Rightarrow> bytes list \<Rightarrow> dsa_out \<Rightarrow> bytes \<Rightarrow> dsa_out result" where
  "WriteSkipRepeatedStringToArray_dsa dev field_number value st skip_field =
     (let st = append_with (WriteTagToArray_raw field_number PROTOBUF_LENGTH_DELIMITED_TYPE) st;
          len = fold (\<lambda>v len. if 1024 < length v then len + ucast (StringSize_raw skip_field)
                              else len + ucast (StringSize_raw v)) value (0 :: u32);
          st = append_with (WriteVarint32ToArray_raw len) st
      in each (\<lambda>v. if 1024 < length v then WriteStringNoTagToArray_dsa dev 0 skip_field
                   else WriteStringNoTagToArray_dsa dev 0 v) value st)"

definition WriteBytesToArray_dsa :: "dml \<Rightarrow> u32 \<Rightarrow> bytes \<Rightarrow> dsa_out \<Rightarrow> dsa_out result" where
  "WriteBytesToArray_dsa dev field_number s st =
     (let st = append_with (WriteTagToArray_raw field_number PROTOBUF_LENGTH_DELIMITED_TYPE) st;
          st = append_with (WriteVarint32ToArray_raw (of_nat (length s))) st
      in copy_dsa dev s st)"

definition WriteBytesNoTagToArray_dsa :: "dml \<Rightarrow> u32 \<Rightarrow> bytes \<Rightarrow> dsa_out \<Rightarrow> dsa_out result" where
  "WriteBytesNoTagToArray_dsa dev field_number s st =
     (let st = append_with (WriteVarint32ToArray_raw (of_nat (length s))) st
      in copy_dsa dev s st)"

definition WriteRepeatedBytesToArray_dsa :: "dml \<Rightarrow> u32 \<Rightarrow> bytes list \<Rightarrow> dsa_out \<Rightarrow> dsa_out result" where
  "WriteRepeatedBytesToArray_dsa dev field_number value st =
     (let st = append_with (WriteTagToArray_raw field_number (ucast (sw_code sw_repeated_bytes_type))) st;
          st = append_with (WriteVarint32ToArray_raw (of_nat (length value))) st
      in each (WriteBytesNoTagToArray_dsa dev 0) value st)"

section \<open>The serializer with the copy engine\<close>

text \<open>The branches of strings call the writers above; the others only write bytes.\<close>

definition Serialize_strings_dsa ::
  "dml \<Rightarrow> bool \<Rightarrow> sw_type \<Rightarrow> u8 \<Rightarrow> cells \<Rightarrow> int \<Rightarrow> dsa_out \<Rightarrow> (int \<times> dsa_out) result" where
  "Serialize_strings_dsa dev skip_long_string_flag ty fid cells obj_addr st =
     (let current_field_id = scast fid :: u32 in
      case ty of
       sw_string_type \<Rightarrow>
         (let obj_addr = obj_addr - 32 in
          andThen (load_as as_string cells obj_addr) (\<lambda>current_field.
            if skip_long_string_flag \<and> 1024 < length current_field then Inr (obj_addr, st)
            else
              let current_field_size = ucast (TAG_SIZE_raw + StringSize_raw current_field) :: u16;
                  st = append_with (WriteLengthToArray current_field_size) st
              in andThen (WriteStringToArray_dsa dev current_field_id current_field st) (\<lambda>st.
                 Inr (obj_addr, st))))
     | sw_repeated_string_type \<Rightarrow>
         (let obj_addr = obj_addr - 24 in
          andThen (load_as as_rstring cells obj_addr) (\<lambda>current_field.
            let (current_field_size, skip_flag) =
                  RepeatedStringSize_raw skip_long_string_flag current_field (0 :: u16);
                current_field_size = current_field_size
                  + ucast (TAG_SIZE_raw + VarintSize32_raw (ucast current_field_size))
            in if skip_flag then Inr (obj_addr, st)
               else
                 let st = append_with (WriteLengthToArray current_field_size) st
                 in andThen (WriteRepeatedStringToArray_dsa dev current_field_id current_field st) (\<lambda>st.
                    Inr (obj_addr, st))))
     | sw_bytes_type \<Rightarrow>
         (let obj_addr = obj_addr - 32 in
          andThen (load_as as_string cells obj_addr) (\<lambda>current_field.
            if skip_long_string_flag \<and> 1024 < length current_field then Inr (obj_addr, st)
            else
              let current_field_size = ucast (TAG_SIZE_raw + StringSize_raw current_field) :: u16;
                  st = append_with (WriteLengthToArray current_field_size) st
              in andThen (WriteBytesToArray_dsa dev current_field_id current_field st) (\<lambda>st.
                 Inr (obj_addr, st))))
     | sw_repeated_bytes_type \<Rightarrow>
         (let obj_addr = obj_addr - 24 in
          andThen (load_as as_rstring cells obj_addr) (\<lambda>current_field.
            let (current_field_size, skip_flag) =
                  RepeatedStringSize_raw skip_long_string_flag current_field (0 :: u16);
                current_field_size = current_field_size
                  + ucast (TAG_SIZE_raw + VarintSize32_raw (ucast current_field_size))
            in if skip_flag then Inr (obj_addr, st)
               else
                 let st = append_with (WriteLengthToArray current_field_size) st
                 in andThen (WriteRepeatedBytesToArray_dsa dev current_field_id current_field st) (\<lambda>st.
                    Inr (obj_addr, st))))
     | _ \<Rightarrow> Inr (obj_addr, st))"

definition Serialize_field_dsa ::
  "dml \<Rightarrow> bool \<Rightarrow> sw_type \<Rightarrow> u8 \<Rightarrow> cells \<Rightarrow> int \<Rightarrow> dsa_out \<Rightarrow> (int \<times> dsa_out) result" where
  "Serialize_field_dsa dev skip_long_string_flag ty fid cells obj_addr st =
     (if ty \<in> {sw_string_type, sw_repeated_string_type, sw_bytes_type, sw_repeated_bytes_type}
      then Serialize_strings_dsa dev skip_long_string_flag ty fid cells obj_addr st
      else andThen (Serialize_field_raw skip_long_string_flag ty fid cells obj_addr (written st))
             (\<lambda>(obj_addr, buf). Inr (obj_addr, st\<lparr>written := buf\<rparr>)))"

definition SerializeToString_DFS_dsa ::
  "dml \<Rightarrow> obj \<Rightarrow> dsa_out \<Rightarrow> bool \<Rightarrow> (u32 \<Rightarrow> u64) \<Rightarrow> dsa_out result" where
  "SerializeToString_DFS_dsa dev message current_buffer_addr skip_long_string_flag messageSizeVec =
     Serialize_walk (Serialize_field_dsa dev) message current_buffer_addr skip_long_string_flag messageSizeVec"

text \<open>The size is computed by the caller.\<close>

definition SerializeToString_dsa ::
  "dml \<Rightarrow> obj \<Rightarrow> bool \<Rightarrow> u64 \<Rightarrow> (u32 \<Rightarrow> u64) \<Rightarrow> u64 \<Rightarrow> (dsa_out \<times> u64) result" where
  "SerializeToString_dsa dev message skip_long_string_flag total_size messageSizeVec bytesizelong_size =
     andThen (SerializeToString_DFS_dsa dev message \<lparr>written = [], jobs = []\<rparr> skip_long_string_flag messageSizeVec)
       (\<lambda>output. Inr (output, total_size + bytesizelong_size))"

section \<open>The format\<close>

text \<open>Repeated bytes has the wire type 29 in its tag, which spills into the field number, and counts
  elements; every other field is as in the baseline.\<close>

definition off_body :: "sw_type \<Rightarrow> u8 \<Rightarrow> cval \<Rightarrow> bytes" where
  "off_body t fid c = (case c of
       RStr ss \<Rightarrow>
         if t = sw_repeated_bytes_type then
           raw_tag (scast fid) (ucast (sw_code sw_repeated_bytes_type)) @ enc_fixed32 (of_nat (length ss))
             @ concat (map raw_string ss)
         else raw_body t fid c
     | _ \<Rightarrow> raw_body t fid c)"

definition off_field_bytes :: field_format where
  "off_field_bytes skip t fid c =
     (if skip \<and> long_value c then []
      else le_bytes 2 (unat (raw_prefix t fid c)) @ off_body t fid c)"

lemma off_body_raw: "t \<noteq> sw_repeated_bytes_type \<Longrightarrow> off_body t fid c = raw_body t fid c"
  by (cases c) (simp_all add: off_body_def)

lemma off_field_bytes_raw: "t \<noteq> sw_repeated_bytes_type \<Longrightarrow> off_field_bytes skip t fid c = raw_field_bytes skip t fid c"
  by (simp add: off_field_bytes_def raw_field_bytes_def off_body_raw)

lemma length_off_field_bytes: "length (off_field_bytes skip t fid c) = length (raw_field_bytes skip t fid c)"
  by (cases c) (simp_all add: off_field_bytes_def raw_field_bytes_def off_body_def raw_body_def raw_packed_def)

lemma WriteBytesNoTag_raw_eq: "WriteBytesNoTagToArray_raw f s t = t @ raw_string s"
  by (simp add: WriteBytesNoTagToArray_raw_def raw_string_def raw_untagged Let_def)

lemma WriteRepeatedBytesToArray_raw_eq:
  "WriteRepeatedBytesToArray_raw f ss t = t @ raw_tag f (ucast (sw_code sw_repeated_bytes_type))
     @ enc_fixed32 (of_nat (length ss)) @ concat (map raw_string ss)"
proof -
  have "fold (WriteBytesNoTagToArray_raw 0) ss b = b @ concat (map raw_string ss)" for b
    by (rule fold_append_concat) (simp add: WriteBytesNoTag_raw_eq)
  then show ?thesis by (simp add: WriteRepeatedBytesToArray_raw_def raw_untagged Let_def)
qed

lemma Serialize_field_bf_eq:
  assumes "kind_of t = Some k" and "cval_kind c = Some k"
    and "load cells (off - kind_stride k) = Inr (OVal c)"
  shows "Serialize_field_bf skip t fid cells off buf
     = Inr (off - kind_stride k, buf @ off_field_bytes skip t fid c)"
proof (cases "t = sw_repeated_bytes_type")
  case True
  then show ?thesis using assms
    by (auto simp: raw_simps Serialize_field_bf_def off_field_bytes_def off_body_def TAG_SIZE_raw_def
        WriteRepeatedBytesToArray_raw_eq WriteLengthToArray_eq)
next
  case False
  then have "Serialize_field_bf skip t fid cells off buf = Serialize_field_raw skip t fid cells off buf"
    by (cases t) (simp_all add: Serialize_field_bf_def)
  then show ?thesis using Serialize_field_raw_eq [OF assms] False by (simp add: off_field_bytes_raw)
qed

interpretation bf_writes: field_writer Serialize_field_bf off_field_bytes
  by unfold_locales (rule Serialize_field_bf_eq)

lemma length_off_bytes: "length (msg_bytes off_field_bytes skip m) = length (msg_bytes raw_field_bytes skip m)"
  by (simp add: bytes_of_leaves(1) length_concat o_def case_prod_beta length_off_field_bytes)

text \<open>The size the callers compute is that of the output.\<close>

lemma ByteSizeLong_bf_eq:
  "wf_msg m \<Longrightarrow> ByteSizeLong_bf (layout m) skip = Inr (of_nat (length (msg_bytes off_field_bytes skip m)))"
  using raw_sizes.walk_size [of m skip] by (simp add: ByteSizeLong_bf_def length_off_bytes)

lemma SerializeToString_bf_eq:
  "wf_msg m \<Longrightarrow> sizes_agree msv m \<Longrightarrow>
     SerializeToString_bf (layout m) skip msv = Inr (msg_bytes off_field_bytes skip m)"
  using bf_writes.walk_bytes [of m msv "[]" skip] by (simp add: SerializeToString_bf_def SerializeToString_DFS_bf_def)

section \<open>The engine at work\<close>

text \<open>A job copies its source over the bytes at its destination; any job that is pending may run next.\<close>

fun run_job :: "nat \<times> bytes \<Rightarrow> bytes \<Rightarrow> bytes" where
  "run_job (dst, s) buf = take dst buf @ s @ drop (dst + length s) buf"

inductive dml_step :: "bytes \<times> (nat \<times> bytes) list \<Rightarrow> bytes \<times> (nat \<times> bytes) list \<Rightarrow> bool" where
  run: "j \<in> set pending \<Longrightarrow> dml_step (buf, pending) (run_job j buf, remove1 j pending)"

inductive_cases dml_stepE: "dml_step (buf, pending) st'"

text \<open>\<open>settles final (buf, pending)\<close>: the buffer is \<open>final\<close> except where a pending job will write, and each
  pending job writes what \<open>final\<close> holds there.\<close>

definition covers :: "nat \<times> bytes \<Rightarrow> nat \<Rightarrow> bool" where
  "covers j i \<longleftrightarrow> fst j \<le> i \<and> i < fst j + length (snd j)"

definition settles :: "bytes \<Rightarrow> bytes \<times> (nat \<times> bytes) list \<Rightarrow> bool" where
  "settles final st \<longleftrightarrow> length (fst st) = length final
     \<and> (\<forall>j \<in> set (snd st). fst j + length (snd j) \<le> length final
          \<and> (\<forall>k < length (snd j). snd j ! k = final ! (fst j + k)))
     \<and> (\<forall>i < length final. (\<forall>j \<in> set (snd st). \<not> covers j i) \<longrightarrow> fst st ! i = final ! i)"

lemma length_run_job: "fst j + length (snd j) \<le> length buf \<Longrightarrow> length (run_job j buf) = length buf"
  by (cases j) simp

lemma nth_run_job:
  assumes "fst j + length (snd j) \<le> length buf" and "i < length buf"
  shows "run_job j buf ! i = (if covers j i then snd j ! (i - fst j) else buf ! i)"
  using assms by (cases j) (auto simp: covers_def nth_append)

lemma dml_step_settles:
  assumes "dml_step st st'" and "settles final st"
  shows "settles final st'"
  using assms
proof (cases rule: dml_step.cases)
  case (run j pending buf)
  have S: "length buf = length final"
    "\<And>j. j \<in> set pending \<Longrightarrow> fst j + length (snd j) \<le> length final
       \<and> (\<forall>k < length (snd j). snd j ! k = final ! (fst j + k))"
    "\<And>i. i < length final \<Longrightarrow> \<forall>j \<in> set pending. \<not> covers j i \<Longrightarrow> buf ! i = final ! i"
    using assms(2) run unfolding settles_def by auto
  have j: "fst j + length (snd j) \<le> length buf" using S(1) S(2) [OF run(3)] by simp
  have sub: "set (remove1 j pending) \<subseteq> set pending" by (rule set_remove1_subset)
  have "run_job j buf ! i = final ! i"
    if i: "i < length final" and n: "\<forall>k \<in> set (remove1 j pending). \<not> covers k i" for i
  proof (cases "covers j i")
    case True
    then show ?thesis
      using nth_run_job [OF j] i S(1) S(2) [OF run(3)] by (auto simp: covers_def)
  next
    case False
    then have "\<forall>k \<in> set pending. \<not> covers k i" using n by (metis in_set_remove1)
    then show ?thesis using nth_run_job [OF j] i S(1,3) False by simp
  qed
  then show ?thesis
    using sub S(1,2) length_run_job [OF j] unfolding settles_def run(2) by auto
qed

lemma dml_steps_settle: "dml_step\<^sup>*\<^sup>* st st' \<Longrightarrow> settles final st \<Longrightarrow> settles final st'"
  by (induction rule: rtranclp_induct) (auto intro: dml_step_settles)

lemma settles_done: "settles final (buf, []) \<longleftrightarrow> buf = final"
  by (auto simp: settles_def list_eq_iff_nth_eq)

text \<open>The engine never gets stuck, and each step leaves one job less.\<close>

lemma dml_step_measure: "dml_step (buf, pending) (buf', pending') \<Longrightarrow> length pending = Suc (length pending')"
  by (erule dml_stepE) (auto simp: length_remove1 dest: length_pos_if_in_set)

lemma dml_progress: "\<exists>buf'. dml_step\<^sup>*\<^sup>* (buf, pending) (buf', [])"
proof (induction pending arbitrary: buf)
  case (Cons j pending)
  have "dml_step (buf, j # pending) (run_job j buf, pending)"
    using dml_step.run [of j "j # pending" buf] by simp
  then show ?case using Cons by (meson converse_rtranclp_into_rtranclp)
qed auto

section \<open>What the engine is given\<close>

text \<open>The output as a sequence of pieces: bytes written directly, and strings, which are copied or
  handed over depending on their length.\<close>

datatype piece = Plain bytes | Text bytes

fun piece_bytes :: "piece \<Rightarrow> bytes" where
  "piece_bytes (Plain b) = b"
| "piece_bytes (Text s) = s"

fun emit_piece :: "dml \<Rightarrow> piece \<Rightarrow> dsa_out \<Rightarrow> dsa_out result" where
  "emit_piece dev (Plain b) st = Inr (st\<lparr>written := written st @ b\<rparr>)"
| "emit_piece dev (Text s) st = copy_dsa dev s st"

definition string_pieces :: "bytes \<Rightarrow> piece list" where
  "string_pieces s = [Plain (enc_fixed32 (of_nat (length s))), Text s]"

definition body_pieces :: "sw_type \<Rightarrow> u8 \<Rightarrow> cval \<Rightarrow> piece list" where
  "body_pieces t fid c = (case c of
       VStr s \<Rightarrow> Plain (raw_tag (scast fid) PROTOBUF_LENGTH_DELIMITED_TYPE) # string_pieces s
     | RStr ss \<Rightarrow>
         Plain (if t = sw_repeated_bytes_type
                then raw_tag (scast fid) (ucast (sw_code sw_repeated_bytes_type)) @ enc_fixed32 (of_nat (length ss))
                else raw_tag (scast fid) PROTOBUF_LENGTH_DELIMITED_TYPE
                       @ enc_fixed32 (of_nat (length (concat (map raw_string ss)))))
           # concat (map string_pieces ss)
     | _ \<Rightarrow> [Plain (off_body t fid c)])"

definition off_pieces :: "bool \<Rightarrow> sw_type \<times> u8 \<times> cval \<Rightarrow> piece list" where
  "off_pieces skip = (\<lambda>(t, fid, c).
     if skip \<and> long_value c then []
     else Plain (le_bytes 2 (unat (raw_prefix t fid c))) # body_pieces t fid c)"

lemma string_piece_bytes [simp]: "concat (map piece_bytes (string_pieces s)) = raw_string s"
  by (simp add: string_pieces_def raw_string_def)

lemma string_pieces_bytes: "concat (map piece_bytes (concat (map string_pieces ss))) = concat (map raw_string ss)"
  by (induction ss) simp_all

lemma off_pieces_bytes: "concat (map piece_bytes (off_pieces skip (t, fid, c))) = off_field_bytes skip t fid c"
  using string_pieces_bytes
  by (cases c) (simp_all add: off_pieces_def off_field_bytes_def body_pieces_def off_body_def raw_body_def raw_packed_def)

lemma append_with_eqs:
  "append_with (WriteLengthToArray n) st = st\<lparr>written := written st @ le_bytes 2 (unat n)\<rparr>"
  "append_with (WriteTagToArray_raw f ty) st = st\<lparr>written := written st @ raw_tag f ty\<rparr>"
  "append_with (WriteVarint32ToArray_raw v) st = st\<lparr>written := written st @ enc_fixed32 v\<rparr>"
  by (simp_all add: append_with_def WriteLengthToArray_eq raw_untagged)

lemma Write_string_dsa_eq:
  "WriteStringNoTagToArray_dsa dev f s = each (emit_piece dev) (string_pieces s)"
  "WriteBytesNoTagToArray_dsa dev f s = each (emit_piece dev) (string_pieces s)"
  by (rule ext, simp add: WriteStringNoTagToArray_dsa_def WriteBytesNoTagToArray_dsa_def string_pieces_def
      append_with_eqs Let_def)+

lemma Write_string_dsa_fun:
  "WriteStringNoTagToArray_dsa dev f = (\<lambda>s. each (emit_piece dev) (string_pieces s))"
  "WriteBytesNoTagToArray_dsa dev f = (\<lambda>s. each (emit_piece dev) (string_pieces s))"
  by (rule ext, rule Write_string_dsa_eq)+

lemma Write_strings_dsa_eq:
  "WriteStringToArray_dsa dev f s st
     = each (emit_piece dev) (Plain (raw_tag f PROTOBUF_LENGTH_DELIMITED_TYPE) # string_pieces s) st"
  "WriteBytesToArray_dsa dev f s st
     = each (emit_piece dev) (Plain (raw_tag f PROTOBUF_LENGTH_DELIMITED_TYPE) # string_pieces s) st"
  "WriteRepeatedStringToArray_dsa dev f ss st
     = each (emit_piece dev) (Plain (raw_tag f PROTOBUF_LENGTH_DELIMITED_TYPE
         @ enc_fixed32 (of_nat (length (concat (map raw_string ss))))) # concat (map string_pieces ss)) st"
  "WriteRepeatedBytesToArray_dsa dev f ss st
     = each (emit_piece dev) (Plain (raw_tag f (ucast (sw_code sw_repeated_bytes_type))
         @ enc_fixed32 (of_nat (length ss))) # concat (map string_pieces ss)) st"
  using r_string.size_all [where 'l = 32 and vs = ss and n = 0]
  by (simp_all add: WriteStringToArray_dsa_def WriteBytesToArray_dsa_def WriteRepeatedStringToArray_dsa_def
      WriteRepeatedBytesToArray_dsa_def append_with_eqs Write_string_dsa_fun each_each Let_def)
    (simp_all add: string_pieces_def)

lemma Serialize_field_dsa_eq:
  assumes "kind_of t = Some k" and "cval_kind c = Some k"
    and "load cells (off - kind_stride k) = Inr (OVal c)"
  shows "Serialize_field_dsa dev skip t fid cells off st
     = andThen (each (emit_piece dev) (off_pieces skip (t, fid, c)) st) (\<lambda>st. Inr (off - kind_stride k, st))"
proof (cases "t \<in> {sw_string_type, sw_repeated_string_type, sw_bytes_type, sw_repeated_bytes_type}")
  case True
  then show ?thesis using assms
    by (auto simp: raw_simps Serialize_field_dsa_def Serialize_strings_dsa_def off_pieces_def body_pieces_def
        TAG_SIZE_raw_def Write_strings_dsa_eq append_with_eqs)
next
  case False
  then have "\<forall>s. c \<noteq> VStr s" "\<forall>ss. c \<noteq> RStr ss" "t \<noteq> sw_repeated_bytes_type" "\<not> long_value c"
    using assms(1,2) by (cases t; cases c; simp)+
  then have "each (emit_piece dev) (off_pieces skip (t, fid, c)) st
      = Inr (st\<lparr>written := written st @ raw_field_bytes skip t fid c\<rparr>)"
    by (cases c) (simp_all add: off_pieces_def body_pieces_def raw_field_bytes_def off_body_raw)
  then show ?thesis using False Serialize_field_raw_eq [OF assms, of skip fid "written st"]
    by (simp add: Serialize_field_dsa_def)
qed

interpretation dsa_writes: field_emitter "Serialize_field_dsa dev" "\<lambda>skip. each (emit_piece dev) \<circ> off_pieces skip" for dev
  by unfold_locales (simp add: Serialize_field_dsa_eq)

definition msg_pieces :: "bool \<Rightarrow> msg \<Rightarrow> piece list" where
  "msg_pieces skip m = concat (map (off_pieces skip) (leaves m))"

lemma pieces_bytes:
  "concat (map piece_bytes (concat (map (off_pieces skip) ls)))
     = concat (map (\<lambda>(t, fid, c). off_field_bytes skip t fid c) ls)"
  by (induction ls) (auto simp: off_pieces_bytes)

lemma msg_pieces_bytes: "concat (map piece_bytes (msg_pieces skip m)) = msg_bytes off_field_bytes skip m"
  by (simp only: msg_pieces_def bytes_of_leaves(1) pieces_bytes)

lemma DFS_dsa_pieces:
  "wf_msg m \<Longrightarrow> sizes_agree msv m \<Longrightarrow>
     SerializeToString_DFS_dsa dev (layout m) st skip msv = each (emit_piece dev) (msg_pieces skip m) st"
  using dsa_writes.walk_emits [of m msv dev st skip]
  by (simp add: SerializeToString_DFS_dsa_def each_each msg_pieces_def o_def)

section \<open>Emitting pieces\<close>

lemma covers_interval: "covers (d, s) i \<longleftrightarrow> i \<in> {d ..< d + length s}"
  by (simp add: covers_def)

text \<open>Emitting a piece extends a buffer that settles to \<open>final\<close> to one that settles with the bytes of
  the piece behind it.\<close>

lemma emit_piece_settles:
  assumes "emit_piece dev p st = Inr st'" and "settles final (written st, jobs st)"
  shows "settles (final @ piece_bytes p) (written st', jobs st')"
proof -
  have S: "length (written st) = length final"
    "\<And>j. j \<in> set (jobs st) \<Longrightarrow> fst j + length (snd j) \<le> length final
       \<and> (\<forall>k < length (snd j). snd j ! k = final ! (fst j + k))"
    "\<And>i. i < length final \<Longrightarrow> \<forall>j \<in> set (jobs st). \<not> covers j i \<Longrightarrow> written st ! i = final ! i"
    using assms(2) unfolding settles_def by auto
  have keep: "fst j + length (snd j) \<le> length (final @ b)
       \<and> (\<forall>k < length (snd j). snd j ! k = (final @ b) ! (fst j + k))" if "j \<in> set (jobs st)" for j b
    using S(2) [OF that] by (auto simp: nth_append)
  have direct: "settles (final @ b) (written st @ b, jobs st)" for b
    using S keep [of _ b] unfolding settles_def by (auto simp: nth_append)
  show ?thesis
  proof (cases p)
    case (Plain b)
    then show ?thesis using assms(1) direct by auto
  next
    case (Text s)
    show ?thesis
    proof (cases "256 < length s")
      case False
      then show ?thesis using assms(1) direct Text by (auto simp: copy_dsa_def)
    next
      case True
      let ?j = "(length (written st), s)"
      let ?b = "map (stale dev) [length (written st)..<length (written st) + length s]"
      have st': "written st' = written st @ ?b" "jobs st' = jobs st @ [?j]"
        using assms(1) True Text
        by (auto simp: copy_dsa_def Let_def andThen_eq_Inr split: if_splits)
      have "(written st @ ?b) ! i = (final @ s) ! i"
        if i: "i < length (final @ s)" and n: "\<forall>j \<in> set (jobs st @ [?j]). \<not> covers j i" for i
      proof -
        have "i < length final" using i n S(1) by (auto simp: covers_def)
        then show ?thesis using n S(1,3) by (simp add: nth_append)
      qed
      moreover have "fst j + length (snd j) \<le> length (final @ s)
          \<and> (\<forall>k < length (snd j). snd j ! k = (final @ s) ! (fst j + k))" if "j \<in> set (jobs st @ [?j])" for j
        using that keep [of j s] S(1) by auto
      ultimately show ?thesis
        using S(1) unfolding settles_def st' by (simp add: Text)
    qed
  qed
qed

lemma emit_pieces_settle:
  "each (emit_piece dev) ps st = Inr st' \<Longrightarrow> settles final (written st, jobs st) \<Longrightarrow>
     settles (final @ concat (map piece_bytes ps)) (written st', jobs st')"
proof (induction ps arbitrary: st final)
  case (Cons p ps)
  then obtain st1 where "emit_piece dev p st = Inr st1" "each (emit_piece dev) ps st1 = Inr st'"
    by (auto simp: andThen_eq_Inr)
  then show ?case using Cons.IH [of st1 "final @ piece_bytes p"] emit_piece_settles Cons.prems(2) by simp
qed auto

text \<open>One job per string over 256 bytes; they must fit in \<open>jobs_list\<close>.\<close>

fun handed_over :: "piece list \<Rightarrow> bytes list" where
  "handed_over [] = []"
| "handed_over (Plain b # ps) = handed_over ps"
| "handed_over (Text s # ps) = (if 256 < length s then s # handed_over ps else handed_over ps)"

definition accepts_all :: "dml \<Rightarrow> bool" where
  "accepts_all dev \<longleftrightarrow> (\<forall>n j. submit_ok dev n j)"

lemma emit_pieces_fit:
  assumes "accepts_all dev" and "length (jobs st) + length (handed_over ps) \<le> jobs_list_size dev"
  shows "\<exists>st'. each (emit_piece dev) ps st = Inr st' \<and> map snd (jobs st') = map snd (jobs st) @ handed_over ps"
  using assms(2)
proof (induction ps arbitrary: st rule: handed_over.induct)
  case (3 s ps)
  show ?case
  proof (cases "256 < length s")
    case True
    let ?st = "st\<lparr>written := written st @ map (stale dev) [length (written st)..<length (written st) + length s],
      jobs := jobs st @ [(length (written st), s)]\<rparr>"
    have "emit_piece dev (Text s) st = Inr ?st"
      using True 3(3) assms(1) by (simp add: copy_dsa_def accepts_all_def Let_def)
    then show ?thesis using 3(1) [OF True, of ?st] 3(3) True by simp
  next
    case False
    then show ?thesis using 3(2) [OF False, of "st\<lparr>written := written st @ s\<rparr>"] 3(3)
      by (simp add: copy_dsa_def)
  qed
next
  case (2 b ps)
  then show ?case using 2(1) [of "st\<lparr>written := written st @ b\<rparr>"] by simp
qed simp

lemma emit_pieces_overrun:
  assumes "accepts_all dev" and "length (jobs st) \<le> jobs_list_size dev"
    and "jobs_list_size dev < length (jobs st) + length (handed_over ps)"
  shows "each (emit_piece dev) ps st = Inl Overrun"
  using assms(2,3)
proof (induction ps arbitrary: st rule: handed_over.induct)
  case (3 s ps)
  then show ?case using assms(1) by (cases "256 < length s") (auto simp: copy_dsa_def accepts_all_def Let_def)
qed auto

section \<open>Properties\<close>

lemma dsa_settles:
  assumes "wf_msg m" and "sizes_agree msv m"
    and "SerializeToString_dsa dev (layout m) skip total_size msv n = Inr (out, size')"
  shows "settles (msg_bytes off_field_bytes skip m) (written out, jobs out)" "size' = total_size + n"
proof -
  have e: "each (emit_piece dev) (msg_pieces skip m) \<lparr>written = [], jobs = []\<rparr> = Inr out" "size' = total_size + n"
    using assms(3) DFS_dsa_pieces [OF assms(1,2)] by (auto simp: SerializeToString_dsa_def andThen_eq_Inr)
  have "settles [] (written \<lparr>written = [], jobs = []\<rparr>, jobs \<lparr>written = [], jobs = []\<rparr>)" by (simp add: settles_done)
  from emit_pieces_settle [OF e(1) this]
  show "settles (msg_bytes off_field_bytes skip m) (written out, jobs out)" by (simp add: msg_pieces_bytes)
qed (use assms(3) in \<open>auto simp: SerializeToString_dsa_def andThen_eq_Inr\<close>)

lemma dsa_returns:
  assumes "wf_msg m" and "sizes_agree msv m" and "accepts_all dev"
    and "length (handed_over (msg_pieces skip m)) \<le> jobs_list_size dev"
  shows "\<exists>out buf. SerializeToString_dsa dev (layout m) skip total_size msv n = Inr (out, total_size + n)
    \<and> map snd (jobs out) = handed_over (msg_pieces skip m)
    \<and> dml_step\<^sup>*\<^sup>* (written out, jobs out) (buf, [])"
  using emit_pieces_fit [OF assms(3), of "\<lparr>written = [], jobs = []\<rparr>" "msg_pieces skip m"] assms(4)
    DFS_dsa_pieces [OF assms(1,2), of dev "\<lparr>written = [], jobs = []\<rparr>" skip] dml_progress
  by (fastforce simp: SerializeToString_dsa_def)

text \<open>C17. The serializer that hands strings over 256 bytes to the copy engine is equivalent to the one
  that copies them itself: whatever the buffer held and in whatever order the engine runs the jobs,
  once none is pending the buffer holds the same bytes, as many as the caller computed.\<close>

theorem dsa_any_order:
  assumes "wf_msg m" and "sizes_agree msv m"
    and "SerializeToString_dsa dev (layout m) skip total_size msv n = Inr (out, size')"
    and "dml_step\<^sup>*\<^sup>* (written out, jobs out) (buf, [])"
  shows "SerializeToString_bf (layout m) skip msv = Inr buf
    \<and> ByteSizeLong_bf (layout m) skip = Inr (of_nat (length buf))"
proof -
  have "buf = msg_bytes off_field_bytes skip m"
    using dml_steps_settle [OF assms(4) dsa_settles(1) [OF assms(1-3)]] by (simp add: settles_done)
  then show ?thesis
    using SerializeToString_bf_eq [OF assms(1,2)] ByteSizeLong_bf_eq [OF assms(1)] by simp_all
qed

definition dsa_100 :: dml where
  "dsa_100 = \<lparr>jobs_list_size = 100, submit_ok = (\<lambda>_ _. True), stale = (\<lambda>_. 0)\<rparr>"

lemma tree_pieces: "length (handed_over (msg_pieces False (tree (replicate 300 97)))) = 1"
  by (simp add: msg_pieces_def tree_def leaf_def off_pieces_def body_pieces_def string_pieces_def)

theorem dsa_any_order_witness:
  "\<exists>out buf. SerializeToString_dsa dsa_100 (layout (tree (replicate 300 97))) False 0 tree_sizes 7 = Inr (out, 0 + 7)
    \<and> dml_step\<^sup>*\<^sup>* (written out, jobs out) (buf, []) \<and> length (jobs out) = 1
    \<and> SerializeToString_bf (layout (tree (replicate 300 97))) False tree_sizes = Inr buf"
proof -
  have acc: "accepts_all dsa_100" "length (handed_over (msg_pieces False (tree (replicate 300 97)))) \<le> jobs_list_size dsa_100"
    unfolding tree_pieces by (simp_all add: accepts_all_def dsa_100_def)
  obtain out buf where o: "SerializeToString_dsa dsa_100 (layout (tree (replicate 300 97))) False 0 tree_sizes 7 = Inr (out, 0 + 7)"
      "map snd (jobs out) = handed_over (msg_pieces False (tree (replicate 300 97)))"
      "dml_step\<^sup>*\<^sup>* (written out, jobs out) (buf, [])"
    using dsa_returns [OF tree_ok acc, of 0 7] by blast
  moreover have "length (jobs out) = 1" using arg_cong [OF o(2), of length] by (simp only: length_map tree_pieces)
  ultimately show ?thesis using dsa_any_order [OF tree_ok o(1) o(3)] by blast
qed

text \<open>The copy engine accepting every job, serialization ends and all jobs can run to completion exactly
  when the strings over 256 bytes are no more than the entries of \<open>jobs_list\<close> (100 in the test bench);
  one more and the serializer reads past the vector.\<close>

theorem dsa_capacity:
  assumes "wf_msg m" and "sizes_agree msv m" and "accepts_all dev"
  shows "if length (handed_over (msg_pieces skip m)) \<le> jobs_list_size dev
    then \<exists>out buf. SerializeToString_dsa dev (layout m) skip total_size msv n = Inr (out, total_size + n)
      \<and> map snd (jobs out) = handed_over (msg_pieces skip m)
      \<and> dml_step\<^sup>*\<^sup>* (written out, jobs out) (buf, [])
    else SerializeToString_dsa dev (layout m) skip total_size msv n = Inl Overrun"
proof (cases "length (handed_over (msg_pieces skip m)) \<le> jobs_list_size dev")
  case True
  then show ?thesis using dsa_returns [OF assms True] by simp
next
  case False
  then show ?thesis
    using emit_pieces_overrun [OF assms(3), of "\<lparr>written = [], jobs = []\<rparr>" "msg_pieces skip m"]
      DFS_dsa_pieces [OF assms(1,2), of dev "\<lparr>written = [], jobs = []\<rparr>" skip]
    by (simp add: SerializeToString_dsa_def)
qed

theorem dsa_capacity_witness:
  "SerializeToString_dsa (dsa_100\<lparr>jobs_list_size := 0\<rparr>) (layout (tree (replicate 300 97))) False 0 tree_sizes 7 = Inl Overrun"
proof -
  have "accepts_all (dsa_100\<lparr>jobs_list_size := 0\<rparr>)" by (simp add: accepts_all_def dsa_100_def)
  from dsa_capacity [OF tree_ok this, of False "replicate 300 97" 0 7] show ?thesis
    unfolding tree_pieces by (simp add: dsa_100_def)
qed

end
