(* ===== verification/Bluefield.thy ===== *)
theory Bluefield
  imports Offload
begin

text \<open>
  The programs of \<open>bluefield\<close>.  \<open>bf_encode.h\<close> has the writers of \<open>include/encode.h\<close> with, under
  \<open>ENCODE_EACH_TIME\<close>, a DMA copy to the host after each value; \<open>bf_serdes_main.h\<close> has the walks of
  \<open>include/encode_main.h\<close> over them, and \<open>bf_micro_bench.cpp\<close> sends the whole message instead when the
  macro is not set.  The macro is a flag of the model.  A copy is asynchronous: \<open>dma_func\<close> starts one and
  \<open>wait_cq_func\<close> waits for as many completions as it is given.  Both are recorded in a trace.  \<open>round_up\<close>
  comes from a header that is not in the tree, so it is an argument.
\<close>

section \<open>Copies\<close>

datatype dma_event = Dma_copy u64 u64 u64 | Dma_wait u64   \<comment> \<open>source, destination, length\<close>

record dma =
  dma_inner_now_offset :: u64
  dma_trace :: "dma_event list"

record bf_env =
  dma_inner_local_buffer :: u64
  dma_inner_remote_buffer :: u64
  round_up :: "u64 \<Rightarrow> u64 \<Rightarrow> u64"
  encode_each_time :: bool

definition dma_func :: "bf_env \<Rightarrow> u64 \<Rightarrow> dma \<Rightarrow> dma" where
  "dma_func env len d = d\<lparr>dma_trace := dma_trace d @
     [Dma_copy (dma_inner_local_buffer env + dma_inner_now_offset d)
        (dma_inner_remote_buffer env + dma_inner_now_offset d) len]\<rparr>"

definition advance_offset :: "u64 \<Rightarrow> dma \<Rightarrow> dma" where
  "advance_offset n d = d\<lparr>dma_inner_now_offset := dma_inner_now_offset d + n\<rparr>"

definition wait_cq_func :: "u64 \<Rightarrow> dma \<Rightarrow> dma" where
  "wait_cq_func n d = d\<lparr>dma_trace := dma_trace d @ [Dma_wait n]\<rparr>"

text \<open>The loop over pieces of 2 MiB, the same in all writers of strings.\<close>

function dma_chunks :: "bf_env \<Rightarrow> u64 \<Rightarrow> u64 \<Rightarrow> dma \<Rightarrow> u64 \<times> u64 \<times> dma" where
  "dma_chunks env now_size ops d =
     (if 2097152 < now_size then
        dma_chunks env (now_size - 2097152) (ops + 1) (advance_offset 2097152 (dma_func env 2097152 d))
      else (now_size, ops, d))"
  by pat_completeness auto
termination
  by (relation "measure (\<lambda>(_, n, _, _). unat n)") (auto simp: word_less_nat_alt unat_sub_if')

declare dma_chunks.simps [simp del]

definition dma_string :: "bf_env \<Rightarrow> u64 \<Rightarrow> dma \<Rightarrow> dma" where
  "dma_string env now_size d =
     (let (now_size, ops, d) = dma_chunks env now_size 0 d;
          d = dma_func env now_size d;
          d = advance_offset (round_up env now_size 64) d
      in wait_cq_func (ops + 1) d)"

text \<open>A value of \<open>len\<close> bytes; the offset is advanced by the rounded \<open>step\<close>, which the writer of an
  \<open>int64_t\<close> takes from another type.\<close>

definition dma_value :: "bf_env \<Rightarrow> u64 \<Rightarrow> u64 \<Rightarrow> dma \<Rightarrow> dma" where
  "dma_value env len step d = wait_cq_func 1 (advance_offset (round_up env step 64) (dma_func env len d))"

section \<open>The writers\<close>

record bf_out =
  bf_written :: bytes
  bf_dma :: dma

definition put :: "(bytes \<Rightarrow> bytes) \<Rightarrow> bf_out \<Rightarrow> bf_out" where
  "put f st = st\<lparr>bf_written := f (bf_written st)\<rparr>"

definition dma_each :: "bf_env \<Rightarrow> (dma \<Rightarrow> dma) \<Rightarrow> bf_out \<Rightarrow> bf_out" where
  "dma_each env f st = (if encode_each_time env then st\<lparr>bf_dma := f (bf_dma st)\<rparr> else st)"

definition WriteInt32ToArray_dma :: "bf_env \<Rightarrow> u32 \<Rightarrow> u32 \<Rightarrow> bf_out \<Rightarrow> bf_out" where
  "WriteInt32ToArray_dma env field_number value st =
     (let st = put (WriteTagToArray field_number PROTOBUF_VARINT_TYPE) st;
          st = dma_each env (dma_value env 4 4) st
      in put (WriteInt32NoTagToArray value) st)"

definition WriteRepeatedInt32ToArray_dma :: "bf_env \<Rightarrow> u32 \<Rightarrow> u32 list \<Rightarrow> bf_out \<Rightarrow> bf_out" where
  "WriteRepeatedInt32ToArray_dma env field_number value st =
     (let st = put (WriteTagToArray field_number PROTOBUF_LENGTH_DELIMITED_TYPE) st;
          len = fold (\<lambda>v len. len + ucast (Int32Size v)) value (0 :: u32);
          st = put (WriteVarint32ToArray len) st;
          st = put (fold WriteInt32NoTagToArray value) st;
          total_len = 4 * of_nat (length value)
      in dma_each env (dma_value env total_len total_len) st)"

definition WriteInt64ToArray_dma :: "bf_env \<Rightarrow> u32 \<Rightarrow> u64 \<Rightarrow> bf_out \<Rightarrow> bf_out" where
  "WriteInt64ToArray_dma env field_number value st =
     (let st = put (WriteTagToArray field_number PROTOBUF_VARINT_TYPE) st;
          st = dma_each env (dma_value env 8 4) st
      in put (WriteInt64NoTagToArray value) st)"

definition WriteRepeatedInt64ToArray_dma :: "bf_env \<Rightarrow> u32 \<Rightarrow> u64 list \<Rightarrow> bf_out \<Rightarrow> bf_out" where
  "WriteRepeatedInt64ToArray_dma env field_number value st =
     (let st = put (WriteTagToArray field_number PROTOBUF_LENGTH_DELIMITED_TYPE) st;
          len = fold (\<lambda>v len. len + ucast (Int64Size v)) value (0 :: u32);
          st = put (WriteVarint32ToArray len) st;
          st = put (fold WriteInt64NoTagToArray value) st;
          total_len = 8 * of_nat (length value)
      in dma_each env (dma_value env total_len total_len) st)"

definition WriteUInt64ToArray_dma :: "bf_env \<Rightarrow> u32 \<Rightarrow> u64 \<Rightarrow> bf_out \<Rightarrow> bf_out" where
  "WriteUInt64ToArray_dma env field_number value st =
     (let st = put (WriteTagToArray field_number PROTOBUF_VARINT_TYPE) st;
          st = dma_each env (dma_value env 8 8) st
      in put (WriteUInt64NoTagToArray value) st)"

definition WriteRepeatedUInt64ToArray_dma :: "bf_env \<Rightarrow> u32 \<Rightarrow> u64 list \<Rightarrow> bf_out \<Rightarrow> bf_out" where
  "WriteRepeatedUInt64ToArray_dma env field_number value st =
     (let st = put (WriteTagToArray field_number PROTOBUF_LENGTH_DELIMITED_TYPE) st;
          len = fold (\<lambda>v len. len + ucast (UInt64Size v)) value (0 :: u32);
          st = put (WriteVarint32ToArray len) st;
          st = put (fold WriteUInt64NoTagToArray value) st;
          total_len = 8 * of_nat (length value)
      in dma_each env (dma_value env total_len total_len) st)"

definition WriteUInt32ToArray_dma :: "bf_env \<Rightarrow> u32 \<Rightarrow> u32 \<Rightarrow> bf_out \<Rightarrow> bf_out" where
  "WriteUInt32ToArray_dma env field_number value st =
     (let st = put (WriteTagToArray field_number PROTOBUF_VARINT_TYPE) st;
          st = dma_each env (dma_value env 4 4) st
      in put (WriteVarint32ToArray value) st)"

definition WriteRepeatedUInt32ToArray_dma :: "bf_env \<Rightarrow> u32 \<Rightarrow> u32 list \<Rightarrow> bf_out \<Rightarrow> bf_out" where
  "WriteRepeatedUInt32ToArray_dma env field_number value st =
     (let st = put (WriteTagToArray field_number PROTOBUF_LENGTH_DELIMITED_TYPE) st;
          len = fold (\<lambda>v len. len + ucast (UInt32Size v)) value (0 :: u32);
          st = put (WriteVarint32ToArray len) st;
          st = put (fold WriteVarint32ToArray value) st;
          total_len = 4 * of_nat (length value)
      in dma_each env (dma_value env total_len total_len) st)"

definition WriteBoolToArray_dma :: "bf_env \<Rightarrow> u32 \<Rightarrow> bool \<Rightarrow> bf_out \<Rightarrow> bf_out" where
  "WriteBoolToArray_dma env field_number value st =
     (let st = put (WriteTagToArray field_number PROTOBUF_VARINT_TYPE) st;
          st = dma_each env (dma_value env 4 4) st
      in put (WriteBoolNoTagToArray value) st)"

definition WriteRepeatedBoolToArray_dma :: "bf_env \<Rightarrow> u32 \<Rightarrow> u8 list \<Rightarrow> bf_out \<Rightarrow> bf_out" where
  "WriteRepeatedBoolToArray_dma env field_number value st =
     (let st = put (WriteTagToArray field_number PROTOBUF_LENGTH_DELIMITED_TYPE) st;
          len = fold (\<lambda>v len. len + 1) value (0 :: u32);
          st = put (WriteVarint32ToArray len) st;
          st = put (fold (\<lambda>v. WriteBoolNoTagToArray (v \<noteq> 0)) value) st;
          total_len = 4 * of_nat (length value)
      in dma_each env (dma_value env total_len total_len) st)"

definition WriteSInt32ToArray_dma :: "bf_env \<Rightarrow> u32 \<Rightarrow> u32 \<Rightarrow> bf_out \<Rightarrow> bf_out" where
  "WriteSInt32ToArray_dma env field_number value st =
     (let st = put (WriteTagToArray field_number PROTOBUF_VARINT_TYPE) st;
          st = dma_each env (dma_value env 4 4) st
      in put (WriteSInt32NoTagToArray value) st)"

definition WriteDoubleToArray_dma :: "bf_env \<Rightarrow> u32 \<Rightarrow> cdouble \<Rightarrow> bf_out \<Rightarrow> bf_out" where
  "WriteDoubleToArray_dma env field_number value st =
     (let st = put (WriteTagToArray field_number PROTOBUF_64BIT_TYPE) st;
          st = dma_each env (dma_value env 8 8) st
      in put (WriteDoubleNoTagToArray value) st)"

definition WriteFloatToArray_dma :: "bf_env \<Rightarrow> u32 \<Rightarrow> cfloat \<Rightarrow> bf_out \<Rightarrow> bf_out" where
  "WriteFloatToArray_dma env field_number value st =
     (let st = put (WriteTagToArray field_number PROTOBUF_32BIT_TYPE) st;
          st = dma_each env (dma_value env 4 4) st
      in put (WriteFloatNoTagToArray value) st)"

definition WriteRepeatedFloatToArray_dma :: "bf_env \<Rightarrow> u32 \<Rightarrow> cfloat list \<Rightarrow> bf_out \<Rightarrow> bf_out" where
  "WriteRepeatedFloatToArray_dma env field_number value st =
     (let st = put (WriteTagToArray field_number PROTOBUF_LENGTH_DELIMITED_TYPE) st;
          len = fold (\<lambda>v len. len + 4) value (0 :: u32);
          st = put (WriteVarint32ToArray len) st;
          st = put (fold WriteFloatNoTagToArray value) st;
          total_len = 4 * of_nat (length value)
      in dma_each env (dma_value env total_len total_len) st)"

definition WriteEnumToArray_dma :: "bf_env \<Rightarrow> u32 \<Rightarrow> u32 \<Rightarrow> bf_out \<Rightarrow> bf_out" where
  "WriteEnumToArray_dma env field_number value st =
     (let st = put (WriteTagToArray field_number PROTOBUF_VARINT_TYPE) st;
          st = dma_each env (dma_value env 4 4) st
      in put (WriteInt32NoTagToArray value) st)"

definition WriteRepeatedEnumToArray_dma :: "bf_env \<Rightarrow> u32 \<Rightarrow> u32 list \<Rightarrow> bf_out \<Rightarrow> bf_out" where
  "WriteRepeatedEnumToArray_dma env field_number value st =
     (let st = put (WriteTagToArray field_number PROTOBUF_LENGTH_DELIMITED_TYPE) st;
          len = fold (\<lambda>v len. len + ucast (EnumSize v)) value (0 :: u32);
          st = put (WriteVarint32ToArray len) st;
          st = put (fold WriteInt32NoTagToArray value) st;
          total_len = 4 * of_nat (length value)
      in dma_each env (dma_value env total_len total_len) st)"

definition WriteFixed64ToArray_dma :: "bf_env \<Rightarrow> u32 \<Rightarrow> u64 \<Rightarrow> bf_out \<Rightarrow> bf_out" where
  "WriteFixed64ToArray_dma env field_number value st =
     (let st = put (WriteTagToArray field_number PROTOBUF_64BIT_TYPE) st;
          st = dma_each env (dma_value env 8 8) st
      in put (WriteFixed64NoTagToArray value) st)"

definition WriteRepeatedFixed64ToArray_dma :: "bf_env \<Rightarrow> u32 \<Rightarrow> u64 list \<Rightarrow> bf_out \<Rightarrow> bf_out" where
  "WriteRepeatedFixed64ToArray_dma env field_number value st =
     (let st = put (WriteTagToArray field_number PROTOBUF_LENGTH_DELIMITED_TYPE) st;
          len = fold (\<lambda>v len. len + 8) value (0 :: u32);
          st = put (WriteVarint32ToArray len) st;
          st = put (fold WriteFixed64NoTagToArray value) st;
          total_len = 8 * of_nat (length value)
      in dma_each env (dma_value env total_len total_len) st)"

definition WriteFixed32ToArray_dma :: "bf_env \<Rightarrow> u32 \<Rightarrow> u32 \<Rightarrow> bf_out \<Rightarrow> bf_out" where
  "WriteFixed32ToArray_dma env field_number value st =
     (let st = put (WriteTagToArray field_number PROTOBUF_32BIT_TYPE) st
      in put (WriteFixed32NoTagToArray value) st)"

definition WriteStringToArray_dma :: "bf_env \<Rightarrow> u32 \<Rightarrow> bytes \<Rightarrow> bf_out \<Rightarrow> bf_out" where
  "WriteStringToArray_dma env field_number s st =
     (let s_size = length s;
          st = put (WriteTagToArray field_number PROTOBUF_LENGTH_DELIMITED_TYPE) st;
          st = put (WriteVarint32ToArray (of_nat s_size)) st;
          st = put (\<lambda>target. target @ s) st
      in dma_each env (dma_string env (of_nat s_size)) st)"

definition WriteStringNoTagToArray_dma :: "bf_env \<Rightarrow> u32 \<Rightarrow> bytes \<Rightarrow> bf_out \<Rightarrow> bf_out" where
  "WriteStringNoTagToArray_dma env field_number s st =
     (let s_size = length s;
          st = put (WriteVarint32ToArray (of_nat s_size)) st;
          st = put (\<lambda>target. target @ s) st
      in dma_each env (dma_string env (of_nat s_size)) st)"

definition WriteBytesToArray_dma :: "bf_env \<Rightarrow> u32 \<Rightarrow> bytes \<Rightarrow> bf_out \<Rightarrow> bf_out" where
  "WriteBytesToArray_dma env field_number s st =
     (let s_size = length s;
          st = put (WriteTagToArray field_number PROTOBUF_LENGTH_DELIMITED_TYPE) st;
          st = put (WriteVarint32ToArray (of_nat s_size)) st;
          st = put (\<lambda>target. target @ s) st
      in dma_each env (dma_string env (of_nat s_size)) st)"

definition WriteBytesNoTagToArray_dma :: "bf_env \<Rightarrow> u32 \<Rightarrow> bytes \<Rightarrow> bf_out \<Rightarrow> bf_out" where
  "WriteBytesNoTagToArray_dma env field_number s st =
     (let s_size = length s;
          st = put (WriteVarint32ToArray (of_nat s_size)) st;
          st = put (\<lambda>target. target @ s) st
      in dma_each env (dma_string env (of_nat s_size)) st)"

text \<open>Each element is sent by its own writer, and then their total once more.\<close>

definition WriteRepeatedStringToArray_dma :: "bf_env \<Rightarrow> u32 \<Rightarrow> bytes list \<Rightarrow> bf_out \<Rightarrow> bf_out" where
  "WriteRepeatedStringToArray_dma env field_number value st =
     (let st = put (WriteTagToArray field_number PROTOBUF_LENGTH_DELIMITED_TYPE) st;
          len = fold (\<lambda>v len. len + ucast (StringSize v)) value (0 :: u32);
          st = put (WriteVarint32ToArray len) st;
          st = fold (WriteStringNoTagToArray_dma env 0) value st
      in dma_each env (dma_string env (ucast len)) st)"

definition WriteSkipRepeatedStringToArray_dma ::
  "bf_env \<Rightarrow> u32 \<Rightarrow> bytes list \<Rightarrow> bf_out \<Rightarrow> bytes \<Rightarrow> bf_out" where
  "WriteSkipRepeatedStringToArray_dma env field_number value st skip_field =
     (let st = put (WriteTagToArray field_number PROTOBUF_LENGTH_DELIMITED_TYPE) st;
          len = fold (\<lambda>v len. if 1024 < length v then len + ucast (StringSize skip_field)
                              else len + ucast (StringSize v)) value (0 :: u32);
          st = put (WriteVarint32ToArray len) st;
          st = fold (\<lambda>v. if 1024 < length v then WriteStringNoTagToArray_dma env 0 skip_field
                          else WriteStringNoTagToArray_dma env 0 v) value st
      in dma_each env (dma_string env (ucast len)) st)"

text \<open>Here the total is that of the strings without their lengths.\<close>

definition WriteRepeatedBytesToArray_dma :: "bf_env \<Rightarrow> u32 \<Rightarrow> bytes list \<Rightarrow> bf_out \<Rightarrow> bf_out" where
  "WriteRepeatedBytesToArray_dma env field_number value st =
     (let st = put (WriteTagToArray field_number (ucast (sw_code sw_repeated_bytes_type))) st;
          st = put (WriteVarint32ToArray (of_nat (length value))) st;
          st = fold (WriteBytesNoTagToArray_dma env 0) value st;
          now_size = fold (\<lambda>s n. n + of_nat (length s)) value (0 :: u64)
      in dma_each env (dma_string env now_size) st)"

section \<open>The serializer\<close>

definition Serialize_strings_dma ::
  "bf_env \<Rightarrow> bool \<Rightarrow> sw_type \<Rightarrow> u8 \<Rightarrow> cells \<Rightarrow> int \<Rightarrow> bf_out \<Rightarrow> (int \<times> bf_out) result" where
  "Serialize_strings_dma env skip_long_string_flag ty fid cells obj_addr st =
     (let current_field_id = scast fid :: u32 in
      case ty of
       sw_string_type \<Rightarrow>
         (let obj_addr = obj_addr - 32 in
          andThen (load_as as_string cells obj_addr) (\<lambda>current_field.
            if skip_long_string_flag \<and> 1024 < length current_field then Inr (obj_addr, st)
            else
              let current_field_size = ucast (TAG_SIZE fid + StringSize current_field) :: u16;
                  st = put (WriteLengthToArray current_field_size) st
              in Inr (obj_addr, WriteStringToArray_dma env current_field_id current_field st)))
     | sw_repeated_string_type \<Rightarrow>
         (let obj_addr = obj_addr - 24 in
          andThen (load_as as_rstring cells obj_addr) (\<lambda>current_field.
            let (current_field_size, skip_flag) =
                  RepeatedStringSize skip_long_string_flag current_field (0 :: u16);
                current_field_size = current_field_size
                  + ucast (TAG_SIZE fid + VarintSize32 (ucast current_field_size))
            in if skip_flag then Inr (obj_addr, st)
               else
                 let st = put (WriteLengthToArray current_field_size) st
                 in Inr (obj_addr, WriteRepeatedStringToArray_dma env current_field_id current_field st)))
     | sw_bytes_type \<Rightarrow>
         (let obj_addr = obj_addr - 32 in
          andThen (load_as as_string cells obj_addr) (\<lambda>current_field.
            if skip_long_string_flag \<and> 1024 < length current_field then Inr (obj_addr, st)
            else
              let current_field_size = ucast (TAG_SIZE fid + StringSize current_field) :: u16;
                  st = put (WriteLengthToArray current_field_size) st
              in Inr (obj_addr, WriteBytesToArray_dma env current_field_id current_field st)))
     | sw_repeated_bytes_type \<Rightarrow>
         (let obj_addr = obj_addr - 24 in
          andThen (load_as as_rstring cells obj_addr) (\<lambda>current_field.
            let (current_field_size, skip_flag) =
                  RepeatedStringSize skip_long_string_flag current_field (0 :: u16);
                current_field_size = current_field_size
                  + ucast (TAG_SIZE fid + VarintSize32 (ucast current_field_size))
            in if skip_flag then Inr (obj_addr, st)
               else
                 let st = put (WriteLengthToArray current_field_size) st
                 in Inr (obj_addr, WriteRepeatedStringToArray_dma env current_field_id current_field st)))
     | _ \<Rightarrow> Inr (obj_addr, st))"

definition Serialize_fixed_dma ::
  "bf_env \<Rightarrow> bool \<Rightarrow> sw_type \<Rightarrow> u8 \<Rightarrow> cells \<Rightarrow> int \<Rightarrow> bf_out \<Rightarrow> (int \<times> bf_out) result" where
  "Serialize_fixed_dma env skip_long_string_flag ty fid cells obj_addr st =
     (let current_field_id = scast fid :: u32 in
      case ty of
       sw_bool_type \<Rightarrow>
         (let obj_addr = obj_addr - 8 in
          andThen (load_as as_bool cells obj_addr) (\<lambda>current_field.
            let current_field_size = ucast (TAG_SIZE fid + 1) :: u16;
                st = put (WriteLengthToArray current_field_size) st
            in Inr (obj_addr, WriteBoolToArray_dma env current_field_id current_field st)))
     | sw_repeated_bool_type \<Rightarrow>
         (let obj_addr = obj_addr - 24 in
          andThen (load_as as_r8 cells obj_addr) (\<lambda>current_field.
            let current_field_size = fold (\<lambda>v n. n + 1) current_field (0 :: u16);
                current_field_size = current_field_size
                  + ucast (TAG_SIZE fid + VarintSize32 (ucast current_field_size));
                st = put (WriteLengthToArray current_field_size) st
            in Inr (obj_addr, WriteRepeatedBoolToArray_dma env current_field_id current_field st)))
     | sw_sint32_type \<Rightarrow>
         (let obj_addr = obj_addr - 8 in
          andThen (load_as as_w32 cells obj_addr) (\<lambda>current_field.
            let current_field_size = ucast (TAG_SIZE fid + Int32Size current_field) :: u16;
                st = put (WriteLengthToArray current_field_size) st
            in Inr (obj_addr, WriteInt32ToArray_dma env current_field_id current_field st)))
     | sw_double_type \<Rightarrow>
         (let obj_addr = obj_addr - 8 in
          andThen (load_as as_double cells obj_addr) (\<lambda>current_field.
            let current_field_size = ucast (TAG_SIZE fid + 8) :: u16;
                st = put (WriteLengthToArray current_field_size) st
            in Inr (obj_addr, WriteDoubleToArray_dma env current_field_id current_field st)))
     | sw_float_type \<Rightarrow>
         (let obj_addr = obj_addr - 8 in
          andThen (load_as as_float cells obj_addr) (\<lambda>current_field.
            let current_field_size = ucast (TAG_SIZE fid + 4) :: u16;
                st = put (WriteLengthToArray current_field_size) st
            in Inr (obj_addr, WriteFloatToArray_dma env current_field_id current_field st)))
     | sw_repeated_float_type \<Rightarrow>
         (let obj_addr = obj_addr - 24 in
          andThen (load_as as_rfloat cells obj_addr) (\<lambda>current_field.
            let current_field_size = fold (\<lambda>v n. n + 4) current_field (0 :: u16);
                current_field_size = current_field_size
                  + ucast (TAG_SIZE fid + VarintSize32 (ucast current_field_size));
                st = put (WriteLengthToArray current_field_size) st
            in Inr (obj_addr, WriteRepeatedFloatToArray_dma env current_field_id current_field st)))
     | sw_fix32_type \<Rightarrow>
         (let obj_addr = obj_addr - 8 in
          andThen (load_as as_w32 cells obj_addr) (\<lambda>current_field.
            let current_field_size = ucast (TAG_SIZE fid + 4) :: u16;
                st = put (WriteLengthToArray current_field_size) st
            in Inr (obj_addr, WriteFixed32ToArray_dma env current_field_id current_field st)))
     | sw_fix64_type \<Rightarrow>
         (let obj_addr = obj_addr - 8 in
          andThen (load_as as_w64 cells obj_addr) (\<lambda>current_field.
            let current_field_size = ucast (TAG_SIZE fid + 8) :: u16;
                st = put (WriteLengthToArray current_field_size) st
            in Inr (obj_addr, WriteFixed64ToArray_dma env current_field_id current_field st)))
     | sw_repeated_fix64_type \<Rightarrow>
         (let obj_addr = obj_addr - 24 in
          andThen (load_as as_r64 cells obj_addr) (\<lambda>current_field.
            let current_field_size = fold (\<lambda>v n. n + 8) current_field (0 :: u16);
                current_field_size = current_field_size
                  + ucast (TAG_SIZE fid + VarintSize32 (ucast current_field_size));
                st = put (WriteLengthToArray current_field_size) st
            in Inr (obj_addr, WriteRepeatedFixed64ToArray_dma env current_field_id current_field st)))
     | sw_enum_type \<Rightarrow>
         (let obj_addr = obj_addr - 8 in
          andThen (load_as as_w32 cells obj_addr) (\<lambda>current_field.
            let current_field_size = ucast (TAG_SIZE fid + EnumSize current_field) :: u16;
                st = put (WriteLengthToArray current_field_size) st
            in Inr (obj_addr, WriteEnumToArray_dma env current_field_id current_field st)))
     | sw_repeated_enum_type \<Rightarrow>
         (let obj_addr = obj_addr - 24 in
          andThen (load_as as_r32 cells obj_addr) (\<lambda>current_field.
            let current_field_size = fold (\<lambda>v n. n + ucast (EnumSize v)) current_field (0 :: u16);
                current_field_size = current_field_size
                  + ucast (TAG_SIZE fid + VarintSize32 (ucast current_field_size));
                st = put (WriteLengthToArray current_field_size) st
            in Inr (obj_addr, WriteRepeatedEnumToArray_dma env current_field_id current_field st)))
     | _ \<Rightarrow> Serialize_strings_dma env skip_long_string_flag ty fid cells obj_addr st)"

definition Serialize_field_dma ::
  "bf_env \<Rightarrow> bool \<Rightarrow> sw_type \<Rightarrow> u8 \<Rightarrow> cells \<Rightarrow> int \<Rightarrow> bf_out \<Rightarrow> (int \<times> bf_out) result" where
  "Serialize_field_dma env skip_long_string_flag ty fid cells obj_addr st =
     (let current_field_id = scast fid :: u32 in
      case ty of
       sw_int32_type \<Rightarrow>
         (let obj_addr = obj_addr - 8 in
          andThen (load_as as_w32 cells obj_addr) (\<lambda>current_field.
            let current_field_size = ucast (TAG_SIZE fid + Int32Size current_field) :: u16;
                st = put (WriteLengthToArray current_field_size) st
            in Inr (obj_addr, WriteInt32ToArray_dma env current_field_id current_field st)))
     | sw_repeated_int32_type \<Rightarrow>
         (let obj_addr = obj_addr - 24 in
          andThen (load_as as_r32 cells obj_addr) (\<lambda>current_field.
            let current_field_size = fold (\<lambda>v n. n + ucast (Int32Size v)) current_field (0 :: u16);
                current_field_size = current_field_size
                  + ucast (TAG_SIZE fid + VarintSize32 (ucast current_field_size));
                st = put (WriteLengthToArray current_field_size) st
            in Inr (obj_addr, WriteRepeatedInt32ToArray_dma env current_field_id current_field st)))
     | sw_int64_type \<Rightarrow>
         (let obj_addr = obj_addr - 8 in
          andThen (load_as as_w64 cells obj_addr) (\<lambda>current_field.
            let current_field_size = ucast (TAG_SIZE fid + Int64Size current_field) :: u16;
                st = put (WriteLengthToArray current_field_size) st
            in Inr (obj_addr, WriteInt64ToArray_dma env current_field_id current_field st)))
     | sw_repeated_int64_type \<Rightarrow>
         (let obj_addr = obj_addr - 24 in
          andThen (load_as as_r64 cells obj_addr) (\<lambda>current_field.
            let current_field_size = fold (\<lambda>v n. n + ucast (Int64Size v)) current_field (0 :: u16);
                current_field_size = current_field_size
                  + ucast (TAG_SIZE fid + VarintSize32 (ucast current_field_size));
                st = put (WriteLengthToArray current_field_size) st
            in Inr (obj_addr, WriteRepeatedInt64ToArray_dma env current_field_id current_field st)))
     | sw_uint64_type \<Rightarrow>
         (let obj_addr = obj_addr - 8 in
          andThen (load_as as_w64 cells obj_addr) (\<lambda>current_field.
            let current_field_size = ucast (TAG_SIZE fid + UInt64Size current_field) :: u16;
                st = put (WriteLengthToArray current_field_size) st
            in Inr (obj_addr, WriteUInt64ToArray_dma env current_field_id current_field st)))
     | sw_repeated_uint64_type \<Rightarrow>
         (let obj_addr = obj_addr - 24 in
          andThen (load_as as_r64 cells obj_addr) (\<lambda>current_field.
            let current_field_size = fold (\<lambda>v n. n + ucast (UInt64Size v)) current_field (0 :: u16);
                current_field_size = current_field_size
                  + ucast (TAG_SIZE fid + VarintSize32 (ucast current_field_size));
                st = put (WriteLengthToArray current_field_size) st
            in Inr (obj_addr, WriteRepeatedUInt64ToArray_dma env current_field_id current_field st)))
     | sw_uint32_type \<Rightarrow>
         (let obj_addr = obj_addr - 8 in
          andThen (load_as as_w32 cells obj_addr) (\<lambda>current_field.
            let current_field_size = ucast (TAG_SIZE fid + UInt32Size current_field) :: u16;
                st = put (WriteLengthToArray current_field_size) st
            in Inr (obj_addr, WriteUInt32ToArray_dma env current_field_id current_field st)))
     | sw_repeated_uint32_type \<Rightarrow>
         (let obj_addr = obj_addr - 24 in
          andThen (load_as as_r32 cells obj_addr) (\<lambda>current_field.
            let current_field_size = fold (\<lambda>v n. n + ucast (UInt32Size v)) current_field (0 :: u16);
                current_field_size = current_field_size
                  + ucast (TAG_SIZE fid + VarintSize32 (ucast current_field_size));
                st = put (WriteLengthToArray current_field_size) st
            in Inr (obj_addr, WriteRepeatedUInt32ToArray_dma env current_field_id current_field st)))
     | _ \<Rightarrow> Serialize_fixed_dma env skip_long_string_flag ty fid cells obj_addr st)"

definition SerializeToString_DFS_dma :: "bf_env \<Rightarrow> obj \<Rightarrow> bf_out \<Rightarrow> bool \<Rightarrow> (u32 \<Rightarrow> u64) \<Rightarrow> bf_out result" where
  "SerializeToString_DFS_dma env message current_buffer_addr skip_long_string_flag messageSizeVec =
     Serialize_walk (Serialize_field_dma env) message current_buffer_addr skip_long_string_flag messageSizeVec"

definition SerializeToString_dma :: "bf_env \<Rightarrow> obj \<Rightarrow> bool \<Rightarrow> (u32 \<Rightarrow> u64) \<Rightarrow> dma \<Rightarrow> bf_out result" where
  "SerializeToString_dma env message skip_long_string_flag messageSizeVec d =
     SerializeToString_DFS_dma env message \<lparr>bf_written = [], bf_dma = d\<rparr> skip_long_string_flag messageSizeVec"

section \<open>What a leaf writes and sends\<close>

text \<open>The two sides of a writer are independent: it appends bytes, and it starts transfers.\<close>

datatype send = Value u64 u64 | Chunks u64

fun send_one :: "bf_env \<Rightarrow> send \<Rightarrow> dma \<Rightarrow> dma" where
  "send_one env (Value len step) d = dma_value env len step d"
| "send_one env (Chunks n) d = dma_string env n d"

definition write_send :: "bf_env \<Rightarrow> (bytes \<Rightarrow> bytes) \<Rightarrow> send list \<Rightarrow> bf_out \<Rightarrow> bf_out" where
  "write_send env f ss st =
     \<lparr>bf_written = f (bf_written st),
      bf_dma = (if encode_each_time env then fold (send_one env) ss (bf_dma st) else bf_dma st)\<rparr>"

lemma write_send_steps:
  "put f st = write_send env f [] st"
  "dma_each env (dma_value env len step) st = write_send env (\<lambda>b. b) [Value len step] st"
  "dma_each env (dma_string env n) st = write_send env (\<lambda>b. b) [Chunks n] st"
  "write_send env f ss (write_send env g ss' st) = write_send env (\<lambda>b. f (g b)) (ss' @ ss) st"
  by (simp_all add: write_send_def put_def dma_each_def)

lemma write_send_nothing [simp]: "write_send env (\<lambda>b. b) [] st = st"
  by (simp add: write_send_def)

lemma write_send_fold:
  "fold (\<lambda>x. write_send env (g x) (ss x)) xs st = write_send env (fold g xs) (concat (map ss xs)) st"
  by (induction xs arbitrary: st) (simp_all add: write_send_steps o_def id_def)

lemma write_send_scalars:
  "WriteInt32ToArray_dma env f v st = write_send env (WriteInt32ToArray f v) [Value 4 4] st"
  "WriteInt64ToArray_dma env f w st = write_send env (WriteInt64ToArray f w) [Value 8 4] st"
  "WriteUInt64ToArray_dma env f w st = write_send env (WriteUInt64ToArray f w) [Value 8 8] st"
  "WriteUInt32ToArray_dma env f v st = write_send env (WriteUInt32ToArray f v) [Value 4 4] st"
  "WriteBoolToArray_dma env f b st = write_send env (WriteBoolToArray f b) [Value 4 4] st"
  "WriteDoubleToArray_dma env f w st = write_send env (WriteDoubleToArray f w) [Value 8 8] st"
  "WriteFloatToArray_dma env f v st = write_send env (WriteFloatToArray f v) [Value 4 4] st"
  "WriteEnumToArray_dma env f v st = write_send env (WriteEnumToArray f v) [Value 4 4] st"
  "WriteFixed64ToArray_dma env f w st = write_send env (WriteFixed64ToArray f w) [Value 8 8] st"
  "WriteFixed32ToArray_dma env f v st = write_send env (WriteFixed32ToArray f v) [] st"
  unfolding WriteInt32ToArray_dma_def WriteInt64ToArray_dma_def WriteUInt64ToArray_dma_def
    WriteUInt32ToArray_dma_def WriteBoolToArray_dma_def WriteDoubleToArray_dma_def WriteFloatToArray_dma_def
    WriteEnumToArray_dma_def WriteFixed64ToArray_dma_def WriteFixed32ToArray_dma_def Let_def
    write_send_steps(1) [where env = env] write_send_steps(2-)
  by (simp_all add: write_send_def WriteInt32ToArray_def WriteInt64ToArray_def WriteUInt64ToArray_def
    WriteUInt32ToArray_def WriteBoolToArray_def WriteDoubleToArray_def WriteFloatToArray_def
    WriteEnumToArray_def WriteFixed64ToArray_def WriteFixed32ToArray_def Let_def)

lemma write_send_repeated:
  "WriteRepeatedInt32ToArray_dma env f vs st
     = write_send env (WriteRepeatedInt32ToArray f vs) [Value (4 * of_nat (length vs)) (4 * of_nat (length vs))] st"
  "WriteRepeatedInt64ToArray_dma env f ws st
     = write_send env (WriteRepeatedInt64ToArray f ws) [Value (8 * of_nat (length ws)) (8 * of_nat (length ws))] st"
  "WriteRepeatedUInt64ToArray_dma env f ws st
     = write_send env (WriteRepeatedUInt64ToArray f ws) [Value (8 * of_nat (length ws)) (8 * of_nat (length ws))] st"
  "WriteRepeatedUInt32ToArray_dma env f vs st
     = write_send env (WriteRepeatedUInt32ToArray f vs) [Value (4 * of_nat (length vs)) (4 * of_nat (length vs))] st"
  "WriteRepeatedBoolToArray_dma env f bs st
     = write_send env (WriteRepeatedBoolToArray f bs) [Value (4 * of_nat (length bs)) (4 * of_nat (length bs))] st"
  "WriteRepeatedFloatToArray_dma env f vs st
     = write_send env (WriteRepeatedFloatToArray f vs) [Value (4 * of_nat (length vs)) (4 * of_nat (length vs))] st"
  "WriteRepeatedEnumToArray_dma env f vs st
     = write_send env (WriteRepeatedEnumToArray f vs) [Value (4 * of_nat (length vs)) (4 * of_nat (length vs))] st"
  "WriteRepeatedFixed64ToArray_dma env f ws st
     = write_send env (WriteRepeatedFixed64ToArray f ws) [Value (8 * of_nat (length ws)) (8 * of_nat (length ws))] st"
  unfolding WriteRepeatedInt32ToArray_dma_def WriteRepeatedInt64ToArray_dma_def WriteRepeatedUInt64ToArray_dma_def
    WriteRepeatedUInt32ToArray_dma_def WriteRepeatedBoolToArray_dma_def WriteRepeatedFloatToArray_dma_def
    WriteRepeatedEnumToArray_dma_def WriteRepeatedFixed64ToArray_dma_def Let_def
    write_send_steps(1) [where env = env] write_send_steps(2-)
  by (simp_all add: write_send_def WriteRepeatedInt32ToArray_def WriteRepeatedInt64ToArray_def
    WriteRepeatedUInt64ToArray_def WriteRepeatedUInt32ToArray_def WriteRepeatedBoolToArray_def
    WriteRepeatedFloatToArray_def WriteRepeatedEnumToArray_def WriteRepeatedFixed64ToArray_def Let_def)

definition string_send :: "bytes \<Rightarrow> send" where
  "string_send s = Chunks (of_nat (length s))"

lemma write_send_element:
  "WriteStringNoTagToArray_dma env f = (\<lambda>s. write_send env (WriteStringNoTagToArray f s) [string_send s])"
  by (intro ext) (simp add: WriteStringNoTagToArray_dma_def write_send_steps(1) [where env = env] write_send_steps(2-)
      write_send_def WriteStringNoTagToArray_def string_send_def Let_def)

definition packed_total :: "bytes list \<Rightarrow> send" where
  "packed_total ss = Chunks (ucast (of_nat (length (concat (map enc_string ss))) :: u32))"

lemma packed_total_size:
  "fold (\<lambda>v len. len + ucast (StringSize v)) ss (0 :: u32) = of_nat (length (concat (map enc_string ss)))"
  using packed_size [of "\<lambda>v. ucast (StringSize v) :: u32" enc_string ss 0]
  by (simp add: StringSize_eq ucast_of_nat_down)

lemma string_send_fun: "(\<lambda>s. Chunks (of_nat (length s))) = string_send"
  by (simp add: fun_eq_iff string_send_def)

lemma write_send_strings:
  "WriteStringToArray_dma env f s st = write_send env (WriteStringToArray f s) [string_send s] st"
  "WriteBytesToArray_dma env f s st = write_send env (WriteBytesToArray f s) [string_send s] st"
  "WriteRepeatedStringToArray_dma env f ss st
     = write_send env (WriteRepeatedStringToArray f ss) (map string_send ss @ [packed_total ss]) st"
  unfolding WriteStringToArray_dma_def WriteBytesToArray_dma_def WriteRepeatedStringToArray_dma_def Let_def
    write_send_element write_send_fold write_send_steps(1) [where env = env] write_send_steps(2-)
  by (simp_all add: write_send_def WriteStringToArray_def WriteBytesToArray_def WriteRepeatedStringToArray_def
      string_send_def packed_total_def string_send_fun packed_total_size Let_def)

definition leaf_sends :: "sw_type \<Rightarrow> cval \<Rightarrow> send list" where
  "leaf_sends t c = (case c of
       Raw \<Rightarrow> []
     | V32 v \<Rightarrow> if t = sw_fix32_type then [] else [Value 4 4]
     | V64 w \<Rightarrow> [Value 8 (if t = sw_int64_type then 4 else 8)]
     | VBool b \<Rightarrow> [Value 4 4]
     | VFloat v \<Rightarrow> [Value 4 4]
     | VDouble w \<Rightarrow> [Value 8 8]
     | VStr s \<Rightarrow> [string_send s]
     | R32 vs \<Rightarrow> [Value (4 * of_nat (length vs)) (4 * of_nat (length vs))]
     | R64 ws \<Rightarrow> [Value (8 * of_nat (length ws)) (8 * of_nat (length ws))]
     | R8 bs \<Rightarrow> [Value (4 * of_nat (length bs)) (4 * of_nat (length bs))]
     | RFloat vs \<Rightarrow> [Value (4 * of_nat (length vs)) (4 * of_nat (length vs))]
     | RStr ss \<Rightarrow> map string_send ss @ [packed_total ss])"

lemma Serialize_field_dma_eq:
  assumes "kind_of t = Some k" and "cval_kind c = Some k" and "unat fid < 128"
    and "load cells (off - kind_stride k) = Inr (OVal c)"
  shows "Serialize_field_dma env skip t fid cells off st
     = Inr (off - kind_stride k,
         write_send env (\<lambda>b. b @ field_bytes skip t fid c)
           (if skip \<and> long_value c then [] else leaf_sends t c) st)"
proof -
  note T = TAG_SIZE_eq [OF assms(3), of t c]
  show ?thesis
    using assms(1,2,4)
    by (cases t; simp only: kind_of.simps option.distinct option.inject)
      (auto simp: serialize_simps T Serialize_field_dma_def Serialize_fixed_dma_def Serialize_strings_dma_def
        leaf_sends_def write_send_scalars write_send_repeated write_send_strings
        write_send_steps(1) [where env = env] write_send_steps(2-))
qed

interpretation dma_writes: field_emitter "Serialize_field_dma env"
    "\<lambda>skip (t, fid, c) st. Inr (write_send env (\<lambda>b. b @ field_bytes skip t fid c)
       (if skip \<and> long_value c then [] else leaf_sends t c) st)" for env
  by unfold_locales (simp add: Serialize_field_dma_eq)

definition msg_sends :: "bool \<Rightarrow> msg \<Rightarrow> send list" where
  "msg_sends skip m = concat (map (\<lambda>(t, fid, c). if skip \<and> long_value c then [] else leaf_sends t c) (leaves m))"

lemma SerializeToString_DFS_dma_eq:
  assumes "wf_msg m" and "sizes_agree msv m"
  shows "SerializeToString_DFS_dma env (layout m) st skip msv
     = Inr (write_send env (\<lambda>b. b @ msg_bytes field_bytes skip m) (msg_sends skip m) st)"
proof -
  let ?w = "\<lambda>(t, fid, c). write_send env (\<lambda>b. b @ field_bytes skip t fid c)
       (if skip \<and> long_value c then [] else leaf_sends t c)"
  have each: "each (\<lambda>(t, fid, c) st. Inr (write_send env (\<lambda>b. b @ field_bytes skip t fid c)
       (if skip \<and> long_value c then [] else leaf_sends t c) st)) (leaves m) st = Inr (fold ?w (leaves m) st)"
    by (rule each_total) (simp add: case_prod_beta)
  have "fold ?w ls st = write_send env (\<lambda>b. b @ concat (map (\<lambda>(t, fid, c). field_bytes skip t fid c) ls))
      (concat (map (\<lambda>(t, fid, c). if skip \<and> long_value c then [] else leaf_sends t c) ls)) st" for ls
    by (induction ls arbitrary: st) (simp_all add: case_prod_beta write_send_steps)
  then show ?thesis
    using dma_writes.walk_emits [OF assms, of env st skip] each
    by (simp add: SerializeToString_DFS_dma_def bytes_of_leaves(1) msg_sends_def)
qed

section \<open>The transfers\<close>

text \<open>A trace is in order when every copy goes to the offset it comes from, starts at or after the end of
  the one before and does not wrap, and every wait is for exactly the copies outstanding, so that it ends
  and none is outstanding after it.\<close>

fun transfer_ok :: "bf_env \<Rightarrow> u64 \<Rightarrow> nat \<Rightarrow> dma_event list \<Rightarrow> bool" where
  "transfer_ok env low outstanding [] \<longleftrightarrow> outstanding = 0"
| "transfer_ok env low outstanding (Dma_copy s d len # es) \<longleftrightarrow>
     d - dma_inner_remote_buffer env = s - dma_inner_local_buffer env
     \<and> low \<le> s - dma_inner_local_buffer env
     \<and> unat (s - dma_inner_local_buffer env) + unat len < 2 ^ 64
     \<and> transfer_ok env (s - dma_inner_local_buffer env + len) (outstanding + 1) es"
| "transfer_ok env low outstanding (Dma_wait n # es) \<longleftrightarrow>
     unat n = outstanding \<and> transfer_ok env low 0 es"

lemma transfer_ok_low: "transfer_ok env low out es \<Longrightarrow> low' \<le> low \<Longrightarrow> transfer_ok env low' out es"
  by (induction env low out es rule: transfer_ok.induct) (auto intro: order_trans)

definition pad :: "u64 \<Rightarrow> nat" where
  "pad n = 64 * ((unat n + 63) div 64)"

definition rounds :: "bf_env \<Rightarrow> bool" where
  "rounds env \<longleftrightarrow> (\<forall>n. pad n < 2 ^ 64 \<longrightarrow> unat (round_up env n 64) = pad n)"

fun send_span :: "send \<Rightarrow> nat" where
  "send_span (Value len step) = pad step"
| "send_span (Chunks n) = pad n"

fun send_fits :: "send \<Rightarrow> bool" where
  "send_fits (Value len step) \<longleftrightarrow> unat len \<le> pad step"
| "send_fits (Chunks n) \<longleftrightarrow> True"

lemma pad_ge: "unat n \<le> pad n"
  unfolding pad_def by presburger

lemma leaf_sends_fit: "list_all send_fits (leaf_sends t c)"
  by (cases c) (auto simp: leaf_sends_def pad_ge list_all_iff string_send_def packed_total_def, simp_all add: pad_def)

lemma dma_chunks_small: "n \<le> 2097152 \<Longrightarrow> dma_chunks env n ops d = (n, ops, d)"
  by (subst dma_chunks.simps) (simp add: linorder_not_less [symmetric])

text \<open>What the loop leaves, and the copies it starts.\<close>

lemma dma_chunks_transfer:
  assumes "dma_chunks env n ops d = (r, ops', d')"
    and "unat (dma_inner_now_offset d) + unat n < 2 ^ 64"
  shows "\<exists>es. dma_trace d' = dma_trace d @ es \<and> ops' = ops + of_nat (length es) \<and> unat r \<le> 2097152
     \<and> unat n = unat r + 2097152 * length es
     \<and> unat (dma_inner_now_offset d') = unat (dma_inner_now_offset d) + 2097152 * length es
     \<and> (\<forall>out es'. transfer_ok env (dma_inner_now_offset d') (out + length es) es'
          \<longrightarrow> transfer_ok env (dma_inner_now_offset d) out (es @ es'))"
  using assms
proof (induction env n ops d rule: dma_chunks.induct)
  case (1 env n ops d)
  show ?case
  proof (cases "2097152 < n")
    case False
    then have "r = n" "ops' = ops" "d' = d" "n \<le> 2097152"
      using 1(2) dma_chunks_small [of n env ops d] by auto
    moreover from this have "unat n \<le> 2097152" by (simp add: word_le_nat_alt)
    ultimately show ?thesis by (intro exI [of _ "[]"]) simp
  next
    case True
    let ?d = "advance_offset 2097152 (dma_func env 2097152 d)"
    have n: "2097152 < unat n" using True by (simp add: word_less_nat_alt)
    then have sub: "unat (n - 2097152) = unat n - 2097152" by (simp add: unat_sub_if')
    have off: "unat (dma_inner_now_offset ?d) = unat (dma_inner_now_offset d) + 2097152"
      using n 1(3) by (simp add: advance_offset_def dma_func_def unat_add_lem [THEN iffD1])
    have "dma_chunks env (n - 2097152) (ops + 1) ?d = (r, ops', d')"
      using 1(2) True by (subst (asm) dma_chunks.simps) simp
    from 1(1) [OF True this] off sub n 1(3)
    obtain es where es: "dma_trace d' = dma_trace ?d @ es" "ops' = ops + 1 + of_nat (length es)" "unat r \<le> 2097152"
      "unat n - 2097152 = unat r + 2097152 * length es"
      "unat (dma_inner_now_offset d') = unat (dma_inner_now_offset d) + 2097152 + 2097152 * length es"
      "\<And>out es'. transfer_ok env (dma_inner_now_offset d') (out + length es) es'
          \<Longrightarrow> transfer_ok env (dma_inner_now_offset ?d) out (es @ es')"
      by auto
    let ?e = "Dma_copy (dma_inner_local_buffer env + dma_inner_now_offset d)
        (dma_inner_remote_buffer env + dma_inner_now_offset d) 2097152"
    have "transfer_ok env (dma_inner_now_offset d) out ((?e # es) @ es')"
      if "transfer_ok env (dma_inner_now_offset d') (out + length (?e # es)) es'" for out es'
      using es(6) [of "Suc out" es'] that n 1(3) by (simp add: advance_offset_def dma_func_def)
    then show ?thesis
      using es n by (intro exI [of _ "?e # es"]) (simp add: advance_offset_def dma_func_def add_ac)
  qed
qed

lemma pad_pieces: "unat n = unat r + 2097152 * k \<Longrightarrow> pad n = pad r + 2097152 * k"
proof -
  assume "unat n = unat r + 2097152 * k"
  then have "unat n + 63 = (unat r + 63) + 64 * (32768 * k)" by simp
  then have "(unat n + 63) div 64 = 32768 * k + (unat r + 63) div 64"
    by (simp only: div_mult_self2 [of 64])
  then show ?thesis by (simp add: pad_def)
qed

lemma dma_string_transfer:
  assumes "rounds env" and "unat (dma_inner_now_offset d) + pad n < 2 ^ 64"
  shows "\<exists>es. dma_trace (dma_string env n d) = dma_trace d @ es
     \<and> unat (dma_inner_now_offset (dma_string env n d)) = unat (dma_inner_now_offset d) + pad n
     \<and> (\<forall>es'. transfer_ok env (dma_inner_now_offset (dma_string env n d)) 0 es'
          \<longrightarrow> transfer_ok env (dma_inner_now_offset d) 0 (es @ es'))"
proof -
  obtain r ops d' where c: "dma_chunks env n 0 d = (r, ops, d')" by (metis prod_cases3)
  have "unat (dma_inner_now_offset d) + unat n < 2 ^ 64" using assms(2) pad_ge [of n] by simp
  from dma_chunks_transfer [OF c this] obtain es
    where es: "dma_trace d' = dma_trace d @ es" "ops = of_nat (length es)" "unat r \<le> 2097152"
      "unat n = unat r + 2097152 * length es"
      "unat (dma_inner_now_offset d') = unat (dma_inner_now_offset d) + 2097152 * length es"
      "\<And>out es'. transfer_ok env (dma_inner_now_offset d') (out + length es) es'
          \<Longrightarrow> transfer_ok env (dma_inner_now_offset d) out (es @ es')"
    by auto
  have pad: "pad n = pad r + 2097152 * length es" using es(4) by (rule pad_pieces)
  have round: "unat (round_up env r 64) = pad r"
    using assms pad unfolding rounds_def by (metis add_lessD1 add.commute)
  let ?off = "dma_inner_now_offset d' + round_up env r 64"
  have off: "unat ?off = unat (dma_inner_now_offset d) + pad n"
    using round es(5) pad assms(2) by (simp add: unat_add_lem [THEN iffD1])
  have len: "unat (1 + of_nat (length es) :: u64) = Suc (length es)"
  proof -
    have "length es + 1 < 2 ^ 64" using es(4) unsigned_less [of n, where 'a = nat] by simp
    then have "unat (of_nat (1 + length es) :: u64) = 1 + length es" by (intro unat_of_nat_small) simp
    then show ?thesis by simp
  qed
  let ?tail = "[Dma_copy (dma_inner_local_buffer env + dma_inner_now_offset d')
      (dma_inner_remote_buffer env + dma_inner_now_offset d') r, Dma_wait (1 + of_nat (length es))]"
  have low: "dma_inner_now_offset d' + r \<le> ?off" and fit: "unat (dma_inner_now_offset d') + unat r < 2 ^ 64"
  proof -
    show fit: "unat (dma_inner_now_offset d') + unat r < 2 ^ 64"
      using es(5) pad pad_ge [of r] assms(2) by simp
    show "dma_inner_now_offset d' + r \<le> ?off"
      using fit off es(5) pad pad_ge [of r] by (simp add: word_le_nat_alt unat_add_lem [THEN iffD1])
  qed
  have "transfer_ok env (dma_inner_now_offset d) 0 ((es @ ?tail) @ es')" if "transfer_ok env ?off 0 es'" for es'
    using es(6) [of 0 "?tail @ es'"] transfer_ok_low [OF that low] fit len by simp
  moreover have "dma_trace (dma_string env n d) = dma_trace d @ es @ ?tail" "dma_inner_now_offset (dma_string env n d) = ?off"
    using c es(1,2) by (simp_all add: dma_string_def dma_func_def advance_offset_def wait_cq_func_def add_ac)
  ultimately show ?thesis using off by (intro exI [of _ "es @ ?tail"]) simp
qed

lemma dma_value_transfer:
  assumes "rounds env" and "unat (dma_inner_now_offset d) + pad step < 2 ^ 64" and "unat len \<le> pad step"
  shows "\<exists>es. dma_trace (dma_value env len step d) = dma_trace d @ es
     \<and> unat (dma_inner_now_offset (dma_value env len step d)) = unat (dma_inner_now_offset d) + pad step
     \<and> (\<forall>es'. transfer_ok env (dma_inner_now_offset (dma_value env len step d)) 0 es'
          \<longrightarrow> transfer_ok env (dma_inner_now_offset d) 0 (es @ es'))"
proof -
  have round: "unat (round_up env step 64) = pad step"
    using assms(1,2) unfolding rounds_def by simp
  let ?off = "dma_inner_now_offset d + round_up env step 64"
  have off: "unat ?off = unat (dma_inner_now_offset d) + pad step"
    using round assms(2) by (simp add: unat_add_lem [THEN iffD1])
  have low: "dma_inner_now_offset d + len \<le> ?off"
    using off assms(2,3) by (simp add: word_le_nat_alt unat_add_lem [THEN iffD1])
  have "transfer_ok env (dma_inner_now_offset d) 0
      ([Dma_copy (dma_inner_local_buffer env + dma_inner_now_offset d)
         (dma_inner_remote_buffer env + dma_inner_now_offset d) len, Dma_wait 1] @ es')"
    if "transfer_ok env ?off 0 es'" for es'
    using transfer_ok_low [OF that low] assms(2,3) by simp
  then show ?thesis
    using off by (auto simp: dma_value_def dma_func_def advance_offset_def wait_cq_func_def)
qed

lemma send_one_transfer:
  assumes "rounds env" and "unat (dma_inner_now_offset d) + send_span s < 2 ^ 64" and "send_fits s"
  shows "\<exists>es. dma_trace (send_one env s d) = dma_trace d @ es
     \<and> unat (dma_inner_now_offset (send_one env s d)) = unat (dma_inner_now_offset d) + send_span s
     \<and> (\<forall>es'. transfer_ok env (dma_inner_now_offset (send_one env s d)) 0 es'
          \<longrightarrow> transfer_ok env (dma_inner_now_offset d) 0 (es @ es'))"
  using assms by (cases s) (simp_all add: dma_value_transfer dma_string_transfer)

lemma sends_transfer:
  assumes "rounds env" and "list_all send_fits ss"
    and "unat (dma_inner_now_offset d) + sum_list (map send_span ss) < 2 ^ 64"
  shows "\<exists>es. dma_trace (fold (send_one env) ss d) = dma_trace d @ es
     \<and> unat (dma_inner_now_offset (fold (send_one env) ss d))
         = unat (dma_inner_now_offset d) + sum_list (map send_span ss)
     \<and> (\<forall>es'. transfer_ok env (dma_inner_now_offset (fold (send_one env) ss d)) 0 es'
          \<longrightarrow> transfer_ok env (dma_inner_now_offset d) 0 (es @ es'))"
  using assms(2,3)
proof (induction ss arbitrary: d)
  case (Cons s ss)
  obtain es where es: "dma_trace (send_one env s d) = dma_trace d @ es"
      "unat (dma_inner_now_offset (send_one env s d)) = unat (dma_inner_now_offset d) + send_span s"
      "\<And>es'. transfer_ok env (dma_inner_now_offset (send_one env s d)) 0 es'
          \<Longrightarrow> transfer_ok env (dma_inner_now_offset d) 0 (es @ es')"
    using send_one_transfer [OF assms(1), of d s] Cons.prems by auto
  obtain fs where fs: "dma_trace (fold (send_one env) (s # ss) d) = dma_trace (send_one env s d) @ fs"
      "unat (dma_inner_now_offset (fold (send_one env) (s # ss) d))
         = unat (dma_inner_now_offset (send_one env s d)) + sum_list (map send_span ss)"
      "\<And>es'. transfer_ok env (dma_inner_now_offset (fold (send_one env) (s # ss) d)) 0 es'
          \<Longrightarrow> transfer_ok env (dma_inner_now_offset (send_one env s d)) 0 (fs @ es')"
    using Cons.IH [of "send_one env s d"] Cons.prems es(2) by auto
  show ?case
    using es fs by (intro exI [of _ "es @ fs"]) (simp del: fold_simps)
qed simp

lemma msg_sends_fit: "list_all send_fits (msg_sends skip m)"
  using leaf_sends_fit by (auto simp: msg_sends_def list_all_iff split: if_splits)

section \<open>How many bytes are sent\<close>

fun copied :: "dma_event list \<Rightarrow> nat" where
  "copied [] = 0"
| "copied (Dma_copy s d len # es) = unat len + copied es"
| "copied (Dma_wait n # es) = copied es"

lemma copied_append [simp]: "copied (es @ fs) = copied es + copied fs"
  by (induction es rule: copied.induct) simp_all

fun send_len :: "send \<Rightarrow> nat" where
  "send_len (Value len step) = unat len"
| "send_len (Chunks n) = unat n"

lemma dma_chunks_copied:
  "dma_chunks env n ops d = (r, ops', d') \<Longrightarrow> copied (dma_trace d') + unat r = copied (dma_trace d) + unat n"
proof (induction env n ops d rule: dma_chunks.induct)
  case (1 env n ops d)
  show ?case
  proof (cases "2097152 < n")
    case True
    then have "unat (n - 2097152) = unat n - 2097152" "2097152 < unat n"
      by (auto simp: unat_sub_if' word_less_nat_alt)
    with 1 True show ?thesis
      by (subst (asm) (2) dma_chunks.simps) (auto simp: advance_offset_def dma_func_def)
  next
    case False
    then show ?thesis using 1(2) by (auto simp: dma_chunks_small not_less)
  qed
qed

lemma send_copied: "copied (dma_trace (send_one env s d)) = copied (dma_trace d) + send_len s"
proof (cases s)
  case (Chunks n)
  obtain r ops d' where "dma_chunks env n 0 d = (r, ops, d')" by (metis prod_cases3)
  with dma_chunks_copied [OF this] Chunks show ?thesis
    by (simp add: dma_string_def dma_func_def advance_offset_def wait_cq_func_def)
qed (simp add: dma_value_def dma_func_def advance_offset_def wait_cq_func_def)

lemma sends_copied: "copied (dma_trace (fold (send_one env) ss d)) = copied (dma_trace d) + sum_list (map send_len ss)"
  by (induction ss arbitrary: d) (simp_all add: send_copied)

section \<open>Properties\<close>

lemma SerializeToString_dma_eq:
  assumes "wf_msg m" and "sizes_agree msv m"
  shows "SerializeToString_dma env (layout m) skip msv d
     = Inr \<lparr>bf_written = msg_bytes field_bytes skip m,
            bf_dma = (if encode_each_time env then fold (send_one env) (msg_sends skip m) d else d)\<rparr>"
  by (simp add: SerializeToString_dma_def SerializeToString_DFS_dma_eq [OF assms] write_send_def)

text \<open>C14. The serializer that sends each value as it goes writes the same bytes as the plain serializer, and
  its transfers are in order: each copy goes to the offset it comes from and starts at or after the end of the
  one before, each wait is for exactly the copies outstanding, none is outstanding at the end, and the
  offset has advanced by the sizes sent, each rounded up to 64.\<close>

theorem dma_transfers:
  assumes "wf_msg m" and "sizes_agree msv m" and "encode_each_time env" and "rounds env"
    and "unat (dma_inner_now_offset d) + sum_list (map send_span (msg_sends skip m)) < 2 ^ 64"
  shows "\<exists>out es. SerializeToString_dma env (layout m) skip msv d = Inr out
    \<and> SerializeToString_DFS (layout m) [] skip msv = Inr (bf_written out)
    \<and> dma_trace (bf_dma out) = dma_trace d @ es
    \<and> transfer_ok env (dma_inner_now_offset d) 0 es
    \<and> unat (dma_inner_now_offset (bf_dma out))
        = unat (dma_inner_now_offset d) + sum_list (map send_span (msg_sends skip m))"
proof -
  obtain es where es: "dma_trace (fold (send_one env) (msg_sends skip m) d) = dma_trace d @ es"
    "unat (dma_inner_now_offset (fold (send_one env) (msg_sends skip m) d))
       = unat (dma_inner_now_offset d) + sum_list (map send_span (msg_sends skip m))"
    "\<And>es'. transfer_ok env (dma_inner_now_offset (fold (send_one env) (msg_sends skip m) d)) 0 es'
       \<Longrightarrow> transfer_ok env (dma_inner_now_offset d) 0 (es @ es')"
    using sends_transfer [OF assms(4) msg_sends_fit assms(5)] by auto
  from es(3) [of "[]"] have "transfer_ok env (dma_inner_now_offset d) 0 es" by simp
  then show ?thesis
    using es(1,2) assms(3) SerializeToString_dma_eq [OF assms(1,2), of env skip d]
      SerializeToString_DFS_layout [OF assms(1,2), of "[]" skip] by simp
qed

definition bf_1 :: bf_env where
  "bf_1 = \<lparr>dma_inner_local_buffer = 0x10000, dma_inner_remote_buffer = 0x900000,
     round_up = (\<lambda>n k. of_nat (pad n)), encode_each_time = True\<rparr>"

definition dma_0 :: dma where
  "dma_0 = \<lparr>dma_inner_now_offset = 0, dma_trace = []\<rparr>"

lemma rounds_bf_1: "rounds bf_1"
  by (simp add: rounds_def bf_1_def unat_of_nat_small)

lemma sends_tree: "msg_sends False (tree (replicate 300 97)) = [Chunks 300, Value 4 4]"
  by (simp add: msg_sends_def tree_def leaf_def leaf_sends_def string_send_def)

theorem dma_transfers_witness:
  "\<exists>out. SerializeToString_dma bf_1 (layout (tree (replicate 300 97))) False tree_sizes dma_0 = Inr out
    \<and> transfer_ok bf_1 0 0 (dma_trace (bf_dma out)) \<and> unat (dma_inner_now_offset (bf_dma out)) = 384"
proof -
  have span: "sum_list (map send_span [Chunks 300, Value 4 4]) = 384" by (simp add: pad_def)
  obtain out es where o: "SerializeToString_dma bf_1 (layout (tree (replicate 300 97))) False tree_sizes dma_0 = Inr out"
    "dma_trace (bf_dma out) = dma_trace dma_0 @ es" "transfer_ok bf_1 (dma_inner_now_offset dma_0) 0 es"
    "unat (dma_inner_now_offset (bf_dma out)) = unat (dma_inner_now_offset dma_0) + 384"
    using dma_transfers [OF tree_ok, of bf_1 dma_0 False "replicate 300 97"] rounds_bf_1
    unfolding sends_tree span by (auto simp: dma_0_def bf_1_def)
  then show ?thesis by (auto simp: dma_0_def)
qed

lemma leaves_kinds:
  "wf_msg m \<Longrightarrow> list_all (\<lambda>(t, fid, c). kind_of t = cval_kind c) (leaves m)"
  "field_ok f v \<Longrightarrow> (\<And>m. v = MSub m \<Longrightarrow> wf_msg m) \<Longrightarrow>
     list_all (\<lambda>(t, fid, c). kind_of t = cval_kind c) (leaves_val f v)"
  "list_all2 field_ok fs vs \<Longrightarrow> (\<And>m. MSub m \<in> set vs \<Longrightarrow> wf_msg m) \<Longrightarrow>
     list_all (\<lambda>(t, fid, c). kind_of t = cval_kind c) (leaves_fields fs vs)"
proof (induction m and f v and fs vs rule: leaves_leaves_val_leaves_fields.induct)
  case (1 md vs)
  then show ?case using wf_msg_sub [OF 1(2)] by simp
next
  case (4 f fs v vs)
  then show ?case by simp
qed (auto simp: field_ok_def)

text \<open>The writer of a 32-bit fixed value is the one writer without a copy: a message of such values is
  serialized and nothing is sent.\<close>

theorem fixed32_not_sent:
  assumes "wf_msg m" and "sizes_agree msv m" and "list_all (\<lambda>(t, fid, c). t = sw_fix32_type) (leaves m)"
  shows "SerializeToString_dma env (layout m) skip msv d = Inr \<lparr>bf_written = msg_bytes field_bytes skip m, bf_dma = d\<rparr>"
proof -
  have kinds: "list_all (\<lambda>(t, fid, c). kind_of t = cval_kind c) (leaves m)"
    using assms(1) by (rule leaves_kinds(1))
  have "leaf_sends sw_fix32_type c = []" if "kind_of sw_fix32_type = cval_kind c" for c
    using that by (cases c) (auto simp: leaf_sends_def)
  then have "msg_sends skip m = []"
    using assms(3) kinds by (fastforce simp: msg_sends_def list_all_iff)
  then show ?thesis by (simp add: SerializeToString_dma_eq [OF assms(1,2)])
qed

definition fixed_msg :: msg where
  "fixed_msg = Msg (descriptor 1 [(sw_fix32_type, 1)]) [MVal (V32 7)]"

theorem fixed32_not_sent_witness:
  "SerializeToString_dma bf_1 (layout fixed_msg) False (\<lambda>_. 24) dma_0
     = Inr \<lparr>bf_written = [5, 0, 13, 7, 0, 0, 0], bf_dma = dma_0\<rparr>"
proof -
  have ok: "wf_msg fixed_msg" "sizes_agree (\<lambda>_. 24) fixed_msg"
    "list_all (\<lambda>(t, fid, c). t = sw_fix32_type) (leaves fixed_msg)"
    by (simp_all add: fixed_msg_def field_ok_def msg_sizeof_def first_member_def)
  have "msg_bytes field_bytes False fixed_msg = [5, 0, 13, 7, 0, 0, 0]"
    by (simp add: fixed_msg_def) code_simp
  with fixed32_not_sent [OF ok, of bf_1 False dma_0] show ?thesis by simp
qed

text \<open>The strings of a repeated field are sent one by one, and then as many bytes again as all of them
  take with their lengths.\<close>

theorem strings_sent_twice:
  assumes "wf_msg m" and "sizes_agree msv m" and "encode_each_time env"
    and "leaves m = [(sw_repeated_string_type, fid, RStr ss)]"
    and "length (concat (map enc_string ss)) < 2 ^ 32" and "\<not> (skip \<and> long_value (RStr ss))"
  shows "\<exists>out. SerializeToString_dma env (layout m) skip msv d = Inr out
    \<and> copied (dma_trace (bf_dma out)) = copied (dma_trace d)
        + sum_list (map length ss) + length (concat (map enc_string ss))"
proof -
  have le: "length s < 2 ^ 64" if "s \<in> set ss" for s
  proof -
    have "length s \<le> length (enc_string s)" by (simp add: enc_string_def)
    also have "\<dots> \<le> length (concat (map enc_string ss))"
      using that by (simp add: length_concat o_def member_le_sum_list)
    finally show ?thesis using assms(5) by simp
  qed
  have "map (send_len \<circ> string_send) ss = map length ss"
    using le by (auto simp: string_send_def unat_of_nat_small)
  moreover have "send_len (packed_total ss) = length (concat (map enc_string ss))"
    using assms(5) by (simp add: packed_total_def unsigned_ucast_eq unat_of_nat_small take_bit_nat_eq_self)
  moreover have "msg_sends skip m = map string_send ss @ [packed_total ss]"
    using assms(4,6) by (auto simp: msg_sends_def leaf_sends_def)
  ultimately have "sum_list (map send_len (msg_sends skip m))
      = sum_list (map length ss) + length (concat (map enc_string ss))"
    by (simp add: o_def cong: map_cong)
  then show ?thesis
    using assms(3) sends_copied [of env "msg_sends skip m" d]
    by (simp add: SerializeToString_dma_eq [OF assms(1,2)])
qed

definition words_msg :: msg where
  "words_msg = Msg (descriptor 1 [(sw_repeated_string_type, 1)]) [MVal (RStr [[97, 98], [99]])]"

theorem strings_sent_twice_witness:
  "\<exists>out. SerializeToString_dma bf_1 (layout words_msg) False (\<lambda>_. 40) dma_0 = Inr out
    \<and> copied (dma_trace (bf_dma out)) = 3 + 5"
proof -
  have ok: "wf_msg words_msg" "sizes_agree (\<lambda>_. 40) words_msg"
    "leaves words_msg = [(sw_repeated_string_type, 1, RStr [[97, 98], [99]])]"
    by (simp_all add: words_msg_def field_ok_def msg_sizeof_def first_member_def)
  have "length (concat (map enc_string [[97, 98], [99]])) = 5" by code_simp
  with strings_sent_twice [OF ok(1,2) _ ok(3), of bf_1 False dma_0] show ?thesis
    by (simp add: bf_1_def dma_0_def long_limit_def)
qed

end
