(* ===== verification/Bluefield_Bench.thy ===== *)
theory Bluefield_Bench
  imports Bluefield
begin

text \<open>
  The benchmark loop of \<open>bluefield/bf_micro_bench.cpp\<close>: a message is serialized without encoding, its
  bytes are copied to a temporary buffer, and as many bytes are sent from the registered local buffer to
  the host.  The completion queue is polled until every copy has finished.  Answers of \<open>ibv_poll_cq\<close> are
  a list.  The memory of the card is one function from addresses to bytes, in which the three buffers lie: the
  temporary one, the one serialized to and the local one.  Every store of the round goes to it, and the copies
  to the host read it.
\<close>

section \<open>Waiting for completions\<close>

text \<open>One poll: the value returned, which is negative after an error and becomes a huge \<open>uint32_t\<close>, and
  what the 16 entries of \<open>wc\<close> hold after it (whether the status is \<open>IBV_WC_SUCCESS\<close>).\<close>

record poll =
  num_wc :: u32
  wc_success :: "nat \<Rightarrow> bool"

function check_wc :: "poll \<Rightarrow> u32 \<Rightarrow> unit result" where
  "check_wc p wc_idx =
     (if wc_idx < num_wc p then
        if 16 \<le> wc_idx then Inl Overrun
        else if \<not> wc_success p (unat wc_idx) then Inl Exit
        else check_wc p (wc_idx + 1)
      else Inr ())"
  by pat_completeness auto
termination
proof (relation "measure (\<lambda>(p, i). unat (num_wc p) - unat i)")
  fix p :: poll and i :: u32
  assume i: "i < num_wc p"
  then have "unat i + unat (1 :: u32) < 2 ^ LENGTH(32)"
    using unsigned_less [of "num_wc p", where 'a = nat] by (simp add: word_less_nat_alt)
  then have "unat (i + 1) = unat i + 1" by (simp add: unat_add_lem [THEN iffD1])
  with i show "((p, i + 1), p, i) \<in> measure (\<lambda>(p, i). unat (num_wc p) - unat i)"
    by (simp add: word_less_nat_alt)
qed simp

declare check_wc.simps [simp del]

text \<open>\<open>None\<close>: the answers given have run out and the loop still polls.\<close>

fun wait_cq :: "u64 \<Rightarrow> u64 \<Rightarrow> poll list \<Rightarrow> poll list option result" where
  "wait_cq num_ops finish_ops polls =
     (if finish_ops < num_ops then
        (case polls of [] \<Rightarrow> Inr None
         | p # polls \<Rightarrow> andThen (check_wc p 0) (\<lambda>_. wait_cq num_ops (finish_ops + ucast (num_wc p)) polls))
      else Inr (Some polls))"

declare wait_cq.simps [simp del]

section \<open>Memory\<close>

type_synonym memory = "u64 \<Rightarrow> u8"

text \<open>A loop of stores of one value, a store of given bytes, and \<open>memcpy\<close>.\<close>

definition fill_bytes :: "u64 \<Rightarrow> u64 \<Rightarrow> u8 \<Rightarrow> memory \<Rightarrow> memory" where
  "fill_bytes dst n v ram = (\<lambda>a. if a - dst < n then v else ram a)"

definition store_bytes :: "u64 \<Rightarrow> bytes \<Rightarrow> memory \<Rightarrow> memory" where
  "store_bytes dst bs ram = (\<lambda>a. if unat (a - dst) < length bs then bs ! unat (a - dst) else ram a)"

definition memcpy :: "u64 \<Rightarrow> u64 \<Rightarrow> u64 \<Rightarrow> memory \<Rightarrow> memory" where
  "memcpy dst src n ram = (\<lambda>a. if a - dst < n then ram (src + (a - dst)) else ram a)"

definition bytes_at :: "memory \<Rightarrow> u64 \<Rightarrow> nat \<Rightarrow> bytes" where
  "bytes_at ram a n = map (\<lambda>i. ram (a + of_nat i)) [0..<n]"

text \<open>Two allocations: neither wraps and they have no byte in common.\<close>

definition separate :: "u64 \<Rightarrow> nat \<Rightarrow> u64 \<Rightarrow> nat \<Rightarrow> bool" where
  "separate a n b k \<longleftrightarrow> unat a + n \<le> 2 ^ 64 \<and> unat b + k \<le> 2 ^ 64 \<and> (unat a + n \<le> unat b \<or> unat b + k \<le> unat a)"

lemma unat_offset: "unat a + n \<le> 2 ^ 64 \<Longrightarrow> unat i < n \<Longrightarrow> unat (a + i) = unat a + unat (i :: u64)"
  by (simp add: unat_add_lem [THEN iffD1])

text \<open>An address of one allocation is none of the other.\<close>

lemma separate_outside:
  assumes "separate a n b k" and "unat i < n" and "unat j < k"
  shows "a + i \<noteq> b + j"
proof
  assume "a + i = b + j"
  then have "unat a + unat i = unat b + unat j"
    using assms unat_offset [of a n i] unat_offset [of b k j] by (simp add: separate_def)
  then show False using assms by (auto simp: separate_def)
qed

lemma separate_not_in:
  assumes "separate a n b k" and "unat i < n"
  shows "k \<le> unat (a + i - b)"
proof (rule ccontr)
  assume "\<not> k \<le> unat (a + i - b)"
  then have "unat (a + i - b) < k" by simp
  from separate_outside [OF assms this] show False by simp
qed

lemma separate_sym: "separate a n b k \<Longrightarrow> separate b k a n"
  by (auto simp: separate_def)

section \<open>One round\<close>

record bench_out =
  bench_memory :: memory
  bench_dma :: dma

definition TMP_SIZE :: u64 where
  "TMP_SIZE = 200 * 1024 * 1024"

definition RESULT_SIZE :: u64 where
  "RESULT_SIZE = 64 * 1024 * 1024"

text \<open>\<open>tmp_buffer\<close> and \<open>result\<close> are what \<open>malloc\<close> returned, of 200 and 64 MiB; a store or a load past them is a
  fault.  The program includes \<open>bf_serdes_noencode_main.h\<close>, where \<open>ENCODE_EACH_TIME\<close> is not defined.  The
  copies are those of the writers of strings.\<close>

definition bench_round ::
  "bf_env \<Rightarrow> u64 \<Rightarrow> u64 \<Rightarrow> obj \<Rightarrow> (u32 \<Rightarrow> u64) \<Rightarrow> u64 \<Rightarrow> memory \<Rightarrow> bench_out result" where
  "bench_round env tmp_buffer result_buffer message messageSizeVec total_size ram =
     (let d = \<lparr>dma_inner_now_offset = 0, dma_trace = []\<rparr>;
          ram = fill_bytes tmp_buffer TMP_SIZE 97 ram
      in andThen (SerializeToString_bf message False messageSizeVec) (\<lambda>output.
         andThen (if length output \<le> unat RESULT_SIZE then Inr () else Inl Overrun) (\<lambda>_.
         let ram = store_bytes result_buffer output ram in
         andThen (if total_size \<le> TMP_SIZE \<and> total_size \<le> RESULT_SIZE then Inr () else Inl Overrun) (\<lambda>_.
         let ram = memcpy tmp_buffer result_buffer total_size ram;
             (total_bytes, dma_ops, d) = dma_chunks env total_size 0 d;
             d = dma_func env total_bytes d;
             d = advance_offset (round_up env total_bytes 64) d;
             d = wait_cq_func (dma_ops + 1) d
         in Inr \<lparr>bench_memory = ram, bench_dma = d\<rparr>))))"

definition bench_message ::
  "bf_env \<Rightarrow> u64 \<Rightarrow> u64 \<Rightarrow> obj \<Rightarrow> (u32 \<Rightarrow> u64) \<Rightarrow> memory \<Rightarrow> bench_out result" where
  "bench_message env tmp_buffer result_buffer message messageSizeVec ram =
     andThen (ByteSizeLong_bf message False) (\<lambda>total_size.
       bench_round env tmp_buffer result_buffer message messageSizeVec total_size ram)"

section \<open>The memory of the host\<close>

text \<open>A copy on the two memories, indexed by address.\<close>

fun run_copy :: "(u64 \<Rightarrow> u8) \<Rightarrow> dma_event \<Rightarrow> (u64 \<Rightarrow> u8) \<Rightarrow> u64 \<Rightarrow> u8" where
  "run_copy dpu (Dma_copy s d len) far = (\<lambda>a. if a - d < len then dpu (s + (a - d)) else far a)"
| "run_copy dpu (Dma_wait n) far = far"

definition run_trace :: "(u64 \<Rightarrow> u8) \<Rightarrow> dma_event list \<Rightarrow> (u64 \<Rightarrow> u8) \<Rightarrow> u64 \<Rightarrow> u8" where
  "run_trace dpu es far = fold (run_copy dpu) es far"

lemma run_trace_simps [simp]:
  "run_trace dpu [] far = far"
  "run_trace dpu (es @ fs) far = run_trace dpu fs (run_trace dpu es far)"
  "run_trace dpu (e # es) far = run_trace dpu es (run_copy dpu e far)"
  by (simp_all add: run_trace_def)

lemma run_copy_join:
  assumes "unat n + unat k < 2 ^ 64"
  shows "run_copy dpu (Dma_copy (s + n) (d + n) k) (run_copy dpu (Dma_copy s d n) far)
     = run_copy dpu (Dma_copy s d (n + k)) far"
proof -
  have "x - n < k \<or> x < n \<longleftrightarrow> x < n + k" for x :: u64
    using assms by (simp add: word_less_nat_alt unat_sub_if' unat_add_lem [THEN iffD1])
      (use unsigned_less [of x, where 'a = nat] in auto)
  then show ?thesis
    by (auto simp: fun_eq_iff diff_diff_eq [symmetric] add.assoc)
qed

lemma dma_chunks_run:
  assumes "dma_chunks env n ops d = (r, ops', d')"
    and "unat (dma_inner_now_offset d) + unat n < 2 ^ 64"
  shows "\<exists>es. dma_trace d' = dma_trace d @ es \<and> r \<le> n
     \<and> dma_inner_now_offset d' = dma_inner_now_offset d + (n - r)
     \<and> (\<forall>far. run_trace dpu es far
          = run_copy dpu (Dma_copy (dma_inner_local_buffer env + dma_inner_now_offset d)
              (dma_inner_remote_buffer env + dma_inner_now_offset d) (n - r)) far)"
  using assms
proof (induction env n ops d rule: dma_chunks.induct)
  case (1 env n ops d)
  show ?case
  proof (cases "2097152 < n")
    case False
    then have "r = n" "d' = d"
      using 1(2) by (auto simp: dma_chunks_small not_less)
    then show ?thesis by (intro exI [of _ "[]"]) (simp add: fun_eq_iff)
  next
    case True
    let ?d = "advance_offset 2097152 (dma_func env 2097152 d)"
    have n: "2097152 < unat n" using True by (simp add: word_less_nat_alt)
    then have sub: "unat (n - 2097152) = unat n - 2097152" by (simp add: unat_sub_if')
    have off: "unat (dma_inner_now_offset ?d) = unat (dma_inner_now_offset d) + 2097152"
      using n 1(3) by (simp add: advance_offset_def dma_func_def unat_add_lem [THEN iffD1])
    have "dma_chunks env (n - 2097152) (ops + 1) ?d = (r, ops', d')"
      using 1(2) True by (subst (asm) dma_chunks.simps) simp
    from 1(1) [OF True this] off sub n 1(3)
    obtain es where es: "dma_trace d' = dma_trace ?d @ es" "r \<le> n - 2097152"
      "dma_inner_now_offset d' = dma_inner_now_offset ?d + (n - 2097152 - r)"
      "\<And>far. run_trace dpu es far
          = run_copy dpu (Dma_copy (dma_inner_local_buffer env + dma_inner_now_offset ?d)
              (dma_inner_remote_buffer env + dma_inner_now_offset ?d) (n - 2097152 - r)) far"
      by auto
    let ?e = "Dma_copy (dma_inner_local_buffer env + dma_inner_now_offset d)
        (dma_inner_remote_buffer env + dma_inner_now_offset d) 2097152"
    have rest: "unat (n - 2097152 - r) = unat n - 2097152 - unat r"
      using es(2) sub by (simp add: unat_sub_if' word_le_nat_alt)
    have "unat (2097152 :: u64) + unat (n - 2097152 - r) < 2 ^ 64"
      using rest n unsigned_less [of n, where 'a = nat] by simp
    note join = run_copy_join [OF this, of dpu]
    have off': "dma_inner_now_offset ?d = dma_inner_now_offset d + 2097152"
      by (simp add: advance_offset_def dma_func_def)
    have whole: "2097152 + (n - 2097152 - r) = n - r" by simp
    have "run_trace dpu (?e # es) far
        = run_copy dpu (Dma_copy (dma_inner_local_buffer env + dma_inner_now_offset d)
            (dma_inner_remote_buffer env + dma_inner_now_offset d) (n - r)) far" for far
      by (simp only: run_trace_simps es(4) off' add.assoc [symmetric] join whole)
    moreover have "r \<le> n"
      using es(2) sub n by (simp add: word_le_nat_alt)
    ultimately show ?thesis
      using es(1,3) by (intro exI [of _ "?e # es"]) (simp add: advance_offset_def dma_func_def)
  qed
qed

text \<open>The copies of a block, whatever its length, are together one copy.\<close>

lemma dma_string_run:
  assumes "unat (dma_inner_now_offset d) + unat n < 2 ^ 64" and "dma_trace d = []"
  shows "run_trace dpu (dma_trace (dma_string env n d)) far
     = run_copy dpu (Dma_copy (dma_inner_local_buffer env + dma_inner_now_offset d)
         (dma_inner_remote_buffer env + dma_inner_now_offset d) n) far"
proof -
  obtain r ops d' where c: "dma_chunks env n 0 d = (r, ops, d')" by (metis prod_cases3)
  from dma_chunks_run [OF c assms(1), of dpu] obtain es
    where es: "dma_trace d' = es" "r \<le> n" "dma_inner_now_offset d' = dma_inner_now_offset d + (n - r)"
      "\<And>far. run_trace dpu es far
          = run_copy dpu (Dma_copy (dma_inner_local_buffer env + dma_inner_now_offset d)
              (dma_inner_remote_buffer env + dma_inner_now_offset d) (n - r)) far"
    using assms(2) by auto
  have "unat (n - r) + unat r < 2 ^ 64"
    using es(2) unsigned_less [of n, where 'a = nat] by (simp add: unat_sub_if' word_le_nat_alt)
  from run_copy_join [OF this, of dpu "dma_inner_local_buffer env + dma_inner_now_offset d"
      "dma_inner_remote_buffer env + dma_inner_now_offset d" far]
  show ?thesis
    using c es by (simp add: dma_string_def dma_func_def advance_offset_def wait_cq_func_def add.assoc del: run_copy.simps)
      (simp only: run_copy.simps(2))
qed

section \<open>The round\<close>

text \<open>The memory after the stores of a round.\<close>

definition round_memory :: "u64 \<Rightarrow> u64 \<Rightarrow> bytes \<Rightarrow> memory \<Rightarrow> memory" where
  "round_memory tmp_buffer result_buffer output ram =
     memcpy tmp_buffer result_buffer (of_nat (length output))
       (store_bytes result_buffer output (fill_bytes tmp_buffer TMP_SIZE 97 ram))"

lemma bench_round_eq:
  assumes "wf_msg m" and "sizes_agree msv m" and "length (msg_bytes off_field_bytes False m) \<le> 67108864"
  shows "bench_message env tmp_buffer result_buffer (layout m) msv ram
     = Inr \<lparr>bench_memory = round_memory tmp_buffer result_buffer (msg_bytes off_field_bytes False m) ram,
            bench_dma = dma_string env (of_nat (length (msg_bytes off_field_bytes False m)))
              \<lparr>dma_inner_now_offset = 0, dma_trace = []\<rparr>\<rparr>"
proof -
  let ?n = "length (msg_bytes off_field_bytes False m)"
  have "unat (of_nat ?n :: u64) = ?n"
    using assms(3) by (intro unat_of_nat_small) simp
  then have "(of_nat ?n :: u64) \<le> TMP_SIZE" "(of_nat ?n :: u64) \<le> RESULT_SIZE"
    using assms(3) by (simp_all add: word_le_nat_alt TMP_SIZE_def RESULT_SIZE_def)
  then show ?thesis
    using assms by (simp add: bench_message_def bench_round_def ByteSizeLong_bf_eq SerializeToString_bf_eq
        dma_string_def Let_def case_prod_beta round_memory_def) (simp add: RESULT_SIZE_def)
qed

lemma round_memory_tmp:
  assumes "separate tmp (unat TMP_SIZE) res (unat RESULT_SIZE)" and "length output \<le> unat RESULT_SIZE" and "i < length output"
  shows "round_memory tmp res output ram (tmp + of_nat i) = output ! i"
proof -
  have i: "unat (of_nat i :: u64) = i" "unat (of_nat (length output) :: u64) = length output"
    using assms(2,3) by (intro unat_of_nat_small; simp add: RESULT_SIZE_def)+
  then have "(of_nat i :: u64) < of_nat (length output)" using assms(3) by (simp add: word_less_nat_alt)
  then show ?thesis using assms(3) i by (simp add: round_memory_def memcpy_def store_bytes_def)
qed

lemma round_memory_outside:
  assumes "unat TMP_SIZE \<le> unat (a - tmp)" and "unat RESULT_SIZE \<le> unat (a - res)" and "length output \<le> unat RESULT_SIZE"
  shows "round_memory tmp res output ram a = ram a"
proof -
  have "unat (of_nat (length output) :: u64) = length output"
    using assms(3) by (intro unat_of_nat_small) (simp add: RESULT_SIZE_def)
  then have "\<not> a - tmp < of_nat (length output)"
    using assms(1,3) by (simp add: word_less_nat_alt TMP_SIZE_def RESULT_SIZE_def)
  moreover have "\<not> a - tmp < TMP_SIZE" using assms(1) by (simp add: word_less_nat_alt)
  ultimately show ?thesis
    using assms(2,3) by (simp add: round_memory_def memcpy_def store_bytes_def fill_bytes_def)
qed

section \<open>The loop that waits\<close>

text \<open>An answer in range whose entries report success.\<close>

definition good_poll :: "poll \<Rightarrow> bool" where
  "good_poll p \<longleftrightarrow> num_wc p \<le> 16 \<and> list_all (wc_success p) [0..<16]"

lemma good_poll_success: "good_poll p \<Longrightarrow> i < 16 \<Longrightarrow> wc_success p i"
  by (simp add: good_poll_def list_all_iff)

lemma check_good: "good_poll p \<Longrightarrow> check_wc p i = Inr ()"
proof (induction p i rule: check_wc.induct)
  case (1 p i)
  show ?case
  proof (cases "i < num_wc p")
    case True
    then have "unat i < 16"
      using 1(2) by (auto simp: good_poll_def word_less_nat_alt word_le_nat_alt)
    then have "wc_success p (unat i)" "\<not> 16 \<le> i"
      using 1(2) by (auto simp: good_poll_success word_le_nat_alt)
    then show ?thesis using 1 True by (subst check_wc.simps) simp
  next
    case False
    then show ?thesis by (subst check_wc.simps) simp
  qed
qed

text \<open>After an error the count is huge and the entries are those of earlier polls: the loop reads on past
  the array.\<close>

lemma check_error:
  "16 < num_wc p \<Longrightarrow> list_all (wc_success p) [0..<16] \<Longrightarrow> i \<le> 16 \<Longrightarrow> check_wc p i = Inl Overrun"
proof (induction p i rule: check_wc.induct)
  case (1 p i)
  show ?case
  proof (cases "i = 16")
    case True
    then show ?thesis using 1(2) by (subst check_wc.simps) simp
  next
    case False
    then have i: "unat i < 16" using 1(4) by (simp add: order.not_eq_order_implies_strict flip: word_less_nat_alt [of i 16, simplified])
    then have "wc_success p (unat i)" using 1(3) by (auto simp: list_all_iff)
    moreover have "i < num_wc p" "\<not> 16 \<le> i" "i + 1 \<le> 16"
      using i 1(2) by (simp_all add: word_less_nat_alt word_le_nat_alt unat_add_lem [THEN iffD1])
    ultimately show ?thesis using 1 by (subst check_wc.simps) simp
  qed
qed

lemma wait_cq_good:
  assumes "list_all good_poll polls" and "unat num_ops + 16 < 2 ^ 64"
  shows "\<exists>left. wait_cq num_ops finish_ops polls = Inr left
    \<and> (left = None \<longleftrightarrow> unat finish_ops + (\<Sum>p\<leftarrow>polls. unat (num_wc p)) < unat num_ops)"
  using assms(1)
proof (induction polls arbitrary: finish_ops)
  case Nil
  then show ?case by (subst wait_cq.simps) (simp add: word_less_nat_alt)
next
  case (Cons p polls)
  show ?case
  proof (cases "finish_ops < num_ops")
    case True
    have p: "unat (num_wc p) \<le> 16" using Cons.prems by (simp add: good_poll_def word_le_nat_alt)
    then have "unat (ucast (num_wc p) :: u64) = unat (num_wc p)" by (simp add: unsigned_ucast_eq take_bit_nat_eq_self)
    then have "unat (finish_ops + ucast (num_wc p)) = unat finish_ops + unat (num_wc p)"
      using p True assms(2) by (simp add: word_less_nat_alt unat_add_lem [THEN iffD1])
    then show ?thesis
      using Cons.IH [of "finish_ops + ucast (num_wc p)"] Cons.prems True
      by (subst wait_cq.simps) (simp add: check_good add.assoc)
  next
    case False
    then show ?thesis by (subst wait_cq.simps) (simp add: word_less_nat_alt)
  qed
qed

section \<open>Properties\<close>

text \<open>C40. A round of the benchmark, with the three buffers anywhere in the memory of the card as long as
  they do not overlap.  Afterwards the temporary buffer holds the serialized message.  The local buffer holds what
  it held before the round, since no store goes there, and these old bytes, as many as the message has, are what
  the host receives; nothing else of its memory changes.  The message is not sent.\<close>

theorem bench_sends_local_buffer:
  assumes "wf_msg m" and "sizes_agree msv m"
    and "SerializeToString_bf (layout m) False msv = Inr output" and "length output \<le> 64 * 1024 * 1024"
    and "separate tmp (200 * 1024 * 1024) res (64 * 1024 * 1024)"
    and "separate (dma_inner_local_buffer env) (length output) tmp (200 * 1024 * 1024)"
    and "separate (dma_inner_local_buffer env) (length output) res (64 * 1024 * 1024)"
  shows "\<exists>st. bench_message env tmp res (layout m) msv ram = Inr st
    \<and> bytes_at (bench_memory st) tmp (length output) = output
    \<and> bytes_at (bench_memory st) (dma_inner_local_buffer env) (length output)
        = bytes_at ram (dma_inner_local_buffer env) (length output)
    \<and> run_trace (bench_memory st) (dma_trace (bench_dma st)) far
        = (\<lambda>a. if a - dma_inner_remote_buffer env < of_nat (length output)
               then ram (dma_inner_local_buffer env + (a - dma_inner_remote_buffer env)) else far a)"
proof -
  have S: "unat TMP_SIZE = 200 * 1024 * 1024" "unat RESULT_SIZE = 64 * 1024 * 1024"
    by (simp_all add: TMP_SIZE_def RESULT_SIZE_def)
  let ?ram = "round_memory tmp res output ram" and ?local = "dma_inner_local_buffer env"
  have out: "output = msg_bytes off_field_bytes False m"
    using assms(3) SerializeToString_bf_eq [OF assms(1,2)] by simp
  have n: "unat (of_nat (length output) :: u64) = length output"
    using assms(4) by (intro unat_of_nat_small) simp
  have local: "?ram (?local + i) = ram (?local + i)" if "unat i < length output" for i
    using separate_not_in [OF assms(6) that] separate_not_in [OF assms(7) that] assms(4)
    by (intro round_memory_outside) (simp_all only: S)
  have "unat (dma_inner_now_offset \<lparr>dma_inner_now_offset = 0, dma_trace = []\<rparr>)
      + unat (of_nat (length output) :: u64) < 2 ^ 64"
    using n assms(4) by simp
  from dma_string_run [OF this, of ?ram env far]
  have run: "run_trace ?ram (dma_trace (dma_string env (of_nat (length output)) \<lparr>dma_inner_now_offset = 0, dma_trace = []\<rparr>)) far
      = (\<lambda>a. if a - dma_inner_remote_buffer env < of_nat (length output)
             then ram (?local + (a - dma_inner_remote_buffer env)) else far a)"
    using local n by (auto simp: fun_eq_iff word_less_nat_alt)
  have tmp: "bytes_at ?ram tmp (length output) = output"
    using round_memory_tmp [of tmp res "output"] assms(4,5) S by (intro nth_equalityI) (simp_all add: bytes_at_def)
  have "unat (of_nat i :: u64) < length output" if "i < length output" for i
    using that assms(4) by (subst unat_of_nat_small) simp_all
  then have "bytes_at ?ram ?local (length output) = bytes_at ram ?local (length output)"
    using local by (simp add: bytes_at_def)
  then show ?thesis
    using run tmp bench_round_eq [OF assms(1,2), folded out, of env tmp res ram] assms(4) by auto
qed

definition bf_2 :: bf_env where
  "bf_2 = \<lparr>dma_inner_local_buffer = 0x40000000, dma_inner_remote_buffer = 0x900000,
     round_up = (\<lambda>n k. n), encode_each_time = False\<rparr>"

text \<open>A memory of zeros: the host receives zeros.\<close>

theorem bench_sends_local_buffer_witness:
  "\<exists>st output. SerializeToString_bf (layout (tree [97, 98])) False tree_sizes = Inr output \<and> length output = 22
    \<and> bench_message bf_2 0x10000000 0x20000000 (layout (tree [97, 98])) tree_sizes (\<lambda>_. 0) = Inr st
    \<and> bytes_at (bench_memory st) 0x10000000 22 = output
    \<and> run_trace (bench_memory st) (dma_trace (bench_dma st)) (\<lambda>_. 255) 0x900000 = 0"
proof -
  let ?out = "msg_bytes off_field_bytes False (tree [97, 98])"
  have len: "length ?out = 22"
    by (simp add: tree_def leaf_def off_field_bytes_def off_body_def raw_body_def)
  have sep: "length ?out \<le> 64 * 1024 * 1024" "separate 0x10000000 (200 * 1024 * 1024) 0x20000000 (64 * 1024 * 1024)"
    "separate (dma_inner_local_buffer bf_2) (length ?out) 0x10000000 (200 * 1024 * 1024)"
    "separate (dma_inner_local_buffer bf_2) (length ?out) 0x20000000 (64 * 1024 * 1024)"
    unfolding len by (simp_all add: bf_2_def separate_def)
  obtain st where st: "bench_message bf_2 0x10000000 0x20000000 (layout (tree [97, 98])) tree_sizes (\<lambda>_. 0) = Inr st"
    "bytes_at (bench_memory st) 0x10000000 (length ?out) = ?out"
    "run_trace (bench_memory st) (dma_trace (bench_dma st)) (\<lambda>_. 255)
       = (\<lambda>a. if a - dma_inner_remote_buffer bf_2 < of_nat (length ?out) then 0 else 255)"
    using bench_sends_local_buffer [OF tree_ok SerializeToString_bf_eq [OF tree_ok] sep, of "\<lambda>_. 0" "\<lambda>_. 255"] by blast
  have "run_trace (bench_memory st) (dma_trace (bench_dma st)) (\<lambda>_. 255) 0x900000 = 0"
    unfolding st(3) len by (simp add: bf_2_def)
  with st(1,2) len show ?thesis using SerializeToString_bf_eq [OF tree_ok, of "[97, 98]" False] by auto
qed

text \<open>The loop that waits for \<open>n\<close> completions never fails on answers in range, and it returns exactly when they
  report \<open>n\<close> or more.\<close>

theorem wait_cq_counts:
  assumes "list_all good_poll polls" and "unat num_ops + 16 < 2 ^ 64"
  shows "\<exists>left. wait_cq num_ops 0 polls = Inr left
    \<and> (left \<noteq> None \<longleftrightarrow> unat num_ops \<le> (\<Sum>p\<leftarrow>polls. unat (num_wc p)))"
  using wait_cq_good [OF assms, of 0] by auto

definition poll_of :: "u32 \<Rightarrow> poll" where
  "poll_of n = \<lparr>num_wc = n, wc_success = (\<lambda>_. True)\<rparr>"

theorem wait_cq_counts_witness:
  "\<exists>left. wait_cq 3 0 [poll_of 0, poll_of 2, poll_of 1] = Inr left \<and> left \<noteq> None"
  using wait_cq_counts [of "[poll_of 0, poll_of 2, poll_of 1]" 3] by (simp add: good_poll_def poll_of_def upt_rec)

text \<open>An error of \<open>ibv_poll_cq\<close>, a negative result, which is \<open>2 ^ 31\<close> or more in a \<open>uint32_t\<close>, is not noticed: with no
  failed entry left in \<open>wc\<close> the loop reads past its 16 entries.\<close>

theorem poll_error_overruns:
  assumes "0 < num_ops" and "2 ^ 31 \<le> unat (num_wc p)" and "list_all (wc_success p) [0..<16]"
  shows "wait_cq num_ops 0 (p # polls) = Inl Overrun"
proof -
  have "16 < num_wc p" using assms(2) by (simp add: word_less_nat_alt)
  then show ?thesis
    using assms(1,3) by (subst wait_cq.simps) (simp add: check_error)
qed

theorem poll_error_overruns_witness: "wait_cq 1 0 [poll_of 4294967295] = Inl Overrun"
proof -
  have "unat (4294967295 :: u32) = 4294967295" by simp
  then show ?thesis by (intro poll_error_overruns) (simp_all add: poll_of_def list_all_iff)
qed

end
