(* ===== verification/Bluefield_Decode.thy ===== *)
theory Bluefield_Decode
  imports Bluefield Decode
begin

text \<open>
  The readers of \<open>bluefield/bf_decode.h\<close>: those of \<open>include/decode.h\<close> with, under \<open>DECODE_EACH_TIME\<close>, a
  DMA copy from the host after each value.  The macro is the flag \<open>decode_each_time\<close>.  Nothing waits for
  these copies; they are counted in \<open>dma_ops\<close>.  The time spent (\<open>decoding_tsc\<close>) is left out.
\<close>

section \<open>Copies\<close>

record bf_reads = dma +
  dma_ops :: u64

definition fetch :: "bf_env \<Rightarrow> u64 \<Rightarrow> u64 \<Rightarrow> bf_reads \<Rightarrow> bf_reads" where
  "fetch env len step d = d\<lparr>dma_trace := dma_trace d @
      [Dma_copy (dma_inner_remote_buffer env + dma_inner_now_offset d)
         (dma_inner_local_buffer env + dma_inner_now_offset d) len],
     dma_inner_now_offset := dma_inner_now_offset d + step, dma_ops := dma_ops d + 1\<rparr>"

section \<open>Values\<close>

text \<open>All readers but that of strings: the value is read as in \<open>decode.h\<close>, then as many bytes as its type
  has are copied.\<close>

definition read_and_fetch ::
  "(rptr \<Rightarrow> (rptr \<times> 'a) result) \<Rightarrow> u64 \<Rightarrow> bf_env \<Rightarrow> bool \<Rightarrow> rptr \<Rightarrow> bf_reads \<Rightarrow> (rptr \<times> 'a \<times> bf_reads) result" where
  "read_and_fetch reader len env decode_each_time p d =
     andThen (reader p) (\<lambda>(p, v).
       Inr (p, v, if decode_each_time then fetch env len (round_up env len 64) d else d))"

definition ReadVarint64_dma :: "bf_env \<Rightarrow> bool \<Rightarrow> rptr \<Rightarrow> bf_reads \<Rightarrow> (rptr \<times> u64 \<times> bf_reads) result" where
  "ReadVarint64_dma = read_and_fetch (VarintParse VarintParseSlow64) 8"

definition ReadFieldLength_dma :: "bf_env \<Rightarrow> bool \<Rightarrow> rptr \<Rightarrow> bf_reads \<Rightarrow> (rptr \<times> u16 \<times> bf_reads) result" where
  "ReadFieldLength_dma = read_and_fetch (\<lambda>p. andThen (read_le 2 p) (\<lambda>(p, n). Inr (p, of_nat n))) 2"

definition ReadFixed32_dma :: "bf_env \<Rightarrow> bool \<Rightarrow> rptr \<Rightarrow> bf_reads \<Rightarrow> (rptr \<times> u32 \<times> bf_reads) result" where
  "ReadFixed32_dma = read_and_fetch (\<lambda>p. andThen (read_le 4 p) (\<lambda>(p, n). Inr (p, of_nat n))) 4"

definition ReadFixed64_dma :: "bf_env \<Rightarrow> bool \<Rightarrow> rptr \<Rightarrow> bf_reads \<Rightarrow> (rptr \<times> u64 \<times> bf_reads) result" where
  "ReadFixed64_dma = read_and_fetch (\<lambda>p. andThen (read_le 8 p) (\<lambda>(p, n). Inr (p, of_nat n))) 8"

definition ReadDouble_dma :: "bf_env \<Rightarrow> bool \<Rightarrow> rptr \<Rightarrow> bf_reads \<Rightarrow> (rptr \<times> cdouble \<times> bf_reads) result" where
  "ReadDouble_dma = read_and_fetch (\<lambda>p. andThen (read_le 8 p) (\<lambda>(p, n). Inr (p, DecodeDouble (of_nat n)))) 8"

definition ReadFloat_dma :: "bf_env \<Rightarrow> bool \<Rightarrow> rptr \<Rightarrow> bf_reads \<Rightarrow> (rptr \<times> cfloat \<times> bf_reads) result" where
  "ReadFloat_dma = read_and_fetch (\<lambda>p. andThen (read_le 4 p) (\<lambda>(p, n). Inr (p, DecodeFloat (of_nat n)))) 4"

definition ReadVarint32_dma :: "bf_env \<Rightarrow> bool \<Rightarrow> rptr \<Rightarrow> bf_reads \<Rightarrow> (rptr \<times> u32 \<times> bf_reads) result" where
  "ReadVarint32_dma = read_and_fetch (VarintParse VarintParseSlow32) 4"

definition ReadVarintZigZag32_dma :: "bf_env \<Rightarrow> bool \<Rightarrow> rptr \<Rightarrow> bf_reads \<Rightarrow> (rptr \<times> u32 \<times> bf_reads) result" where
  "ReadVarintZigZag32_dma = read_and_fetch
     (\<lambda>p. andThen (VarintParse VarintParseSlow64 p) (\<lambda>(p, tmp). Inr (p, ZigZagDecode32 (ucast tmp)))) 4"

section \<open>Strings\<close>

text \<open>\<open>size\<close> is an \<open>int\<close>, which the loop over pieces of 2 MiB decreases.\<close>

function fetch_chunks :: "bf_env \<Rightarrow> u32 \<Rightarrow> bf_reads \<Rightarrow> u32 \<times> bf_reads" where
  "fetch_chunks env len d =
     (if 2097152 < sint len then fetch_chunks env (len - 2097152) (fetch env 2097152 2097152 d) else (len, d))"
  by pat_completeness auto
termination
proof (relation "measure (\<lambda>(_, n, _). unat n)")
  fix env :: bf_env and len :: u32 and d :: bf_reads assume "2097152 < sint len"
  moreover have "sint len \<le> uint len"
    unfolding sint_uint by (simp add: signed_take_bit_int_less_eq_self_iff order.trans [OF _ uint_ge_0])
  ultimately have "2097152 < len" by (simp add: word_less_alt)
  then show "((env, len - 2097152, fetch env 2097152 2097152 d), env, len, d) \<in> measure (\<lambda>(_, n, _). unat n)"
    by (simp add: word_less_nat_alt unat_sub_if')
qed simp

declare fetch_chunks.simps [simp del]

text \<open>The pointer is advanced by what is left of \<open>size\<close> after the loop.\<close>

definition ReadString_dma :: "bf_env \<Rightarrow> bool \<Rightarrow> rptr \<Rightarrow> u32 \<Rightarrow> bf_reads \<Rightarrow> (rptr \<times> bytes \<times> bf_reads) result" where
  "ReadString_dma env decode_each_time ptr len d =
     (case ptr of None \<Rightarrow> Inl Null_deref
      | Some q \<Rightarrow>
          if sint len < 0 then Inl Length_error
          else if length q < unat len then Inl Overrun
          else
            let s = take (unat len) q;
                (len, d) =
                  (if decode_each_time
                   then let (len, d) = fetch_chunks env len d in (len, fetch env (scast len) (round_up env (scast len) 64) d)
                   else (len, d))
            in Inr (Some (drop (unat len) q), s, d))"

section \<open>The values read\<close>

text \<open>Without the macro these are the readers of \<open>decode.h\<close>, and with it they return the same values.\<close>

lemma dma_readers_fetch:
  "ReadVarint64_dma = read_and_fetch ReadVarint64 8" "ReadVarint32_dma = read_and_fetch ReadVarint32 4"
  "ReadVarintZigZag32_dma = read_and_fetch ReadVarintZigZag32 4" "ReadFieldLength_dma = read_and_fetch ReadFieldLength 2"
  "ReadFixed32_dma = read_and_fetch ReadFixed32 4" "ReadFixed64_dma = read_and_fetch ReadFixed64 8"
  "ReadDouble_dma = read_and_fetch ReadDouble 8" "ReadFloat_dma = read_and_fetch ReadFloat 4"
  unfolding ReadVarint64_dma_def ReadVarint32_dma_def ReadVarintZigZag32_dma_def ReadFieldLength_dma_def
    ReadFixed32_dma_def ReadFixed64_dma_def ReadDouble_dma_def ReadFloat_dma_def ReadVarint64_def [abs_def]
    ReadVarint32_def [abs_def] ReadVarintZigZag32_def [abs_def] ReadFieldLength_def [abs_def]
    ReadFixed32_def [abs_def] ReadFixed64_def [abs_def] ReadDouble_def [abs_def] ReadFloat_def [abs_def]
  by (rule refl)+

lemma ReadString_dma_plain:
  "ReadString_dma env False ptr len d = andThen (ReadString ptr len) (\<lambda>(p, s). Inr (p, s, d))"
  by (simp add: ReadString_dma_def ReadString_def split: option.split)

text \<open>What the loop leaves of the size and of the offset.\<close>

lemma sint_nat: "n < 2 ^ 31 \<Longrightarrow> sint (of_nat n :: u32) = int n"
  by (simp add: signed_of_nat signed_take_bit_int_eq_self)

lemma fetch_chunks_eq:
  assumes "0 < n" and "n < 2 ^ 31"
  shows "fetch_chunks env (of_nat n) d =
    (of_nat ((n - 1) mod 2097152 + 1),
     ((fetch env 2097152 2097152) ^^ ((n - 1) div 2097152)) d)"
  using assms
proof (induction n arbitrary: d rule: less_induct)
  case (less n)
  show ?case
  proof (cases "2097152 < n")
    case True
    define k where "k = n - 2097153"
    have n: "n = k + 2097153" using True by (simp add: k_def)
    have "(of_nat n :: u32) - 2097152 = of_nat (k + 1)" by (simp add: n)
    moreover have "sint (of_nat n :: u32) = int n" by (rule sint_nat) (use less.prems in simp)
    ultimately have "fetch_chunks env (of_nat n) d = fetch_chunks env (of_nat (k + 1)) (fetch env 2097152 2097152 d)"
      using True by (subst fetch_chunks.simps) (simp del: of_nat_add)
    moreover have "(n - 1) mod 2097152 = k mod 2097152" "(n - 1) div 2097152 = Suc (k div 2097152)"
      by (simp_all add: n)
    moreover have "k + 1 < n" "k + 1 < 2 ^ 31" using n less.prems by simp_all
    ultimately show ?thesis
      using less.IH [of "k + 1" "fetch env 2097152 2097152 d"]
      by (simp add: funpow_swap1 del: of_nat_add of_nat_Suc)
  next
    case False
    then show ?thesis using less.prems sint_nat [of n] by (subst fetch_chunks.simps) simp
  qed
qed

lemma fetch_chunks_0: "fetch_chunks env 0 d = (0, d)"
  by (subst fetch_chunks.simps) simp

lemma fetch_times:
  "dma_ops ((fetch env len step ^^ k) d) = dma_ops d + of_nat k"
  "dma_inner_now_offset ((fetch env len step ^^ k) d) = dma_inner_now_offset d + of_nat k * step"
  by (induction k) (simp_all add: fetch_def algebra_simps)

section \<open>Properties\<close>

text \<open>Copying each value from the host does not change what is read: the readers of integers,
  lengths and fixed-width values return the value and the pointer of the readers of \<open>decode.h\<close>, fail where
  they fail, and start one copy per value.\<close>

theorem values_read_with_dma:
  "ReadVarint64_dma env on p d = andThen (ReadVarint64 p) (\<lambda>(p, v). Inr (p, v, if on then fetch env 8 (round_up env 8 64) d else d))
    \<and> ReadVarint32_dma env on p d = andThen (ReadVarint32 p) (\<lambda>(p, v). Inr (p, v, if on then fetch env 4 (round_up env 4 64) d else d))
    \<and> ReadFieldLength_dma env on p d = andThen (ReadFieldLength p) (\<lambda>(p, v). Inr (p, v, if on then fetch env 2 (round_up env 2 64) d else d))
    \<and> ReadFixed64_dma env on p d = andThen (ReadFixed64 p) (\<lambda>(p, v). Inr (p, v, if on then fetch env 8 (round_up env 8 64) d else d))"
  by (simp add: dma_readers_fetch read_and_fetch_def)

text \<open>A string of more than 2 MiB is read whole and copied in pieces, but the pointer returned
  stops short: the loop over the pieces has decreased the size by which it is advanced.\<close>

theorem string_pointer_stops_short:
  assumes "2097152 < n" and "n < 2 ^ 31" and "n \<le> length q"
  shows "\<exists>d'. ReadString_dma env True (Some q) (of_nat n) d = Inr (Some (drop ((n - 1) mod 2097152 + 1) q), take n q, d')
    \<and> dma_ops d' = dma_ops d + of_nat ((n - 1) div 2097152 + 1) \<and> (n - 1) mod 2097152 + 1 < n"
proof -
  let ?m = "(n - 1) mod 2097152 + 1"
  have m: "?m \<le> 2097152" using mod_less_divisor [of 2097152 "n - 1"] by linarith
  have u: "unat (of_nat k :: u32) = k" if "k < 2 ^ 31" for k using that by (intro unat_of_nat_small) simp
  have "?m < 2 ^ 31" using m by simp
  then have "unat (of_nat n :: u32) = n" "unat (of_nat ?m :: u32) = ?m" using assms(2) u by blast+
  moreover have "\<not> sint (of_nat n :: u32) < 0" using sint_nat [OF assms(2)] by simp
  ultimately show ?thesis
    using assms m fetch_chunks_eq [of n env d]
    by (simp add: ReadString_dma_def fetch_def fetch_times del: of_nat_add)
qed

text \<open>One byte more than 2 MiB: the pointer is advanced by one.\<close>

theorem string_pointer_stops_short_witness:
  "\<exists>d'. ReadString_dma \<lparr>dma_inner_local_buffer = 0, dma_inner_remote_buffer = 2 ^ 40, round_up = (\<lambda>n k. (n + k - 1) div k * k),
        encode_each_time = False\<rparr> True (Some (replicate 2097160 7)) 2097153
        \<lparr>dma_inner_now_offset = 0, dma_trace = [], dma_ops = 0\<rparr>
      = Inr (Some (replicate 2097159 7), replicate 2097153 7, d')
    \<and> dma_ops d' = 2"
  using string_pointer_stops_short [of 2097153 "replicate 2097160 7"
      "\<lparr>dma_inner_local_buffer = 0, dma_inner_remote_buffer = 2 ^ 40, round_up = (\<lambda>n k. (n + k - 1) div k * k),
        encode_each_time = False\<rparr>" "\<lparr>dma_inner_now_offset = 0, dma_trace = [], dma_ops = 0\<rparr>"]
  by (simp add: drop_replicate take_replicate)

end
