(* ===== verification/Locks.thy ===== *)
theory Locks
  imports MemCtl
begin

text \<open>
  Threads.  \<open>spinlock_mutex\<close> (\<open>utils/spinlock_mutex.h\<close>) as a step relation over any number of threads, one
  atomic access to the flag per step, and \<open>MemCtl::alloc\<close> and \<open>MemCtl::free\<close>
  (\<open>utils/QDMAController.cpp\<close>, lines 264 to 314) with their \<open>std::lock_guard\<close>: one step per access to the
  maps, interleaved with the steps of other threads.  A ghost history records the calls in the order
  they give the lock back.  A fault of a call ends the process, so no step follows it.
\<close>

section \<open>The spin lock\<close>

datatype spin_pc = Outside | Spinning | Inside

record spin =
  flag :: bool
  spin_pcs :: "nat \<Rightarrow> spin_pc"

text \<open>\<open>flag.test_and_set()\<close> returns the old value.\<close>

definition test_and_set :: "spin \<Rightarrow> bool \<times> spin" where
  "test_and_set s = (flag s, s\<lparr>flag := True\<rparr>)"

definition clear_flag :: "spin \<Rightarrow> spin" where
  "clear_flag s = s\<lparr>flag := False\<rparr>"

definition goto :: "nat \<Rightarrow> spin_pc \<Rightarrow> spin \<Rightarrow> spin" where
  "goto i pc s = s\<lparr>spin_pcs := (spin_pcs s)(i := pc)\<rparr>"

inductive spin_step :: "spin \<Rightarrow> spin \<Rightarrow> bool" where
  call_lock: "spin_pcs s i = Outside \<Longrightarrow> spin_step s (goto i Spinning s)"
| try_flag: "spin_pcs s i = Spinning \<Longrightarrow> test_and_set s = (was_set, s') \<Longrightarrow>
     spin_step s (if was_set then s' else goto i Inside s')"
| call_unlock: "spin_pcs s i = Inside \<Longrightarrow> spin_step s (goto i Outside (clear_flag s))"

definition new_spinlock :: spin where
  "new_spinlock = \<lparr>flag = False, spin_pcs = (\<lambda>_. Outside)\<rparr>"

text \<open>The flag is set exactly while a thread is inside, and no two are.\<close>

definition inside :: "spin \<Rightarrow> nat set" where
  "inside s = {i. spin_pcs s i = Inside}"

definition spin_inv :: "spin \<Rightarrow> bool" where
  "spin_inv s \<longleftrightarrow> (if flag s then \<exists>i. inside s = {i} else inside s = {})"

lemma inside_goto:
  "inside (goto i pc s) = (if pc = Inside then insert i (inside s) else inside s - {i})"
  by (auto simp: inside_def goto_def)

lemma inside_flag [simp]:
  "inside (s\<lparr>flag := b\<rparr>) = inside s" "flag (goto i pc s) = flag s" "inside (clear_flag s) = inside s"
  by (simp_all add: inside_def goto_def clear_flag_def)

lemma spin_step_inv: "spin_step s s' \<Longrightarrow> spin_inv s \<Longrightarrow> spin_inv s'"
proof (induction rule: spin_step.induct)
  case (call_lock s i)
  then have "i \<notin> inside s" by (simp add: inside_def)
  then show ?case using call_lock by (simp add: spin_inv_def inside_goto)
next
  case (try_flag s i was_set s')
  then show ?case by (auto simp: spin_inv_def inside_goto test_and_set_def split: if_splits)
next
  case (call_unlock s i)
  then have "i \<in> inside s" by (simp add: inside_def)
  then have "inside s = {i}" using call_unlock(2) by (auto simp: spin_inv_def split: if_splits)
  then show ?case by (simp add: spin_inv_def inside_goto) (simp add: clear_flag_def)
qed

lemma spin_reachable_inv: "spin_step\<^sup>*\<^sup>* new_spinlock s \<Longrightarrow> spin_inv s"
proof (induction rule: rtranclp_induct)
  case base
  show ?case by (simp add: spin_inv_def inside_def new_spinlock_def)
next
  case (step y z)
  then show ?case by (blast intro: spin_step_inv)
qed

section \<open>The allocator under its mutex\<close>

text \<open>Where a thread stands in \<open>alloc\<close> or \<open>free\<close>, with the local variables that are live there.  The size
  of an allocation is rounded before the lock is taken.\<close>

datatype call = Alloc u64 | Free u64

datatype pc =
    Idle
  | Blocked call                       \<comment> \<open>at the lock guard\<close>
  | Alloc_enter u64                    \<comment> \<open>lock taken\<close>
  | Alloc_found u64 u64 u64            \<comment> \<open>\<open>size\<close>, \<open>free_addr\<close>, \<open>free_size\<close>\<close>
  | Alloc_carved u64 u64               \<comment> \<open>\<open>free_chunk\<close> changed; the block\<close>
  | Alloc_done u64                     \<comment> \<open>about to return the pointer\<close>
  | Free_enter u64                     \<comment> \<open>lock taken\<close>
  | Free_unlogged u64 u64              \<comment> \<open>erased from \<open>used_chunk\<close>; \<open>ptr\<close>, \<open>free_size\<close>\<close>
  | Free_merged u64 u64 u64 u64        \<comment> \<open>merged with the previous chunk; original and merged block\<close>
  | Free_absorbed u64 u64 u64          \<comment> \<open>next chunk erased; original \<open>ptr\<close>, the block to store\<close>
  | Free_done u64                      \<comment> \<open>about to return\<close>

datatype ended = Allocated u64 u64     \<comment> \<open>size asked for and pointer returned\<close>
  | Released u64

record mem_sys =
  ctl :: mem_ctl
  owner :: "nat option"                \<comment> \<open>the thread that holds \<open>allocMutex\<close>\<close>
  pcs :: "nat \<Rightarrow> pc"
  asked :: "nat \<Rightarrow> u64"                \<comment> \<open>the argument of the call the thread is in\<close>
  crashed :: "mem_fault option"
  ended_calls :: "ended list"

definition move :: "nat \<Rightarrow> pc \<Rightarrow> mem_sys \<Rightarrow> mem_sys" where
  "move i pc s = s\<lparr>pcs := (pcs s)(i := pc)\<rparr>"

definition give_back :: "nat \<Rightarrow> ended \<Rightarrow> mem_sys \<Rightarrow> mem_sys" where
  "give_back i e s = (move i Idle s)\<lparr>owner := None, ended_calls := ended_calls s @ [e]\<rparr>"

text \<open>What the thread does next, by where it stands; \<open>None\<close> when it has to wait or has no call to make.\<close>

definition set_ctl :: "mem_ctl \<Rightarrow> mem_sys \<Rightarrow> mem_sys" where
  "set_ctl c s = s\<lparr>ctl := c\<rparr>"

definition crash :: "mem_fault \<Rightarrow> mem_sys \<Rightarrow> mem_sys" where
  "crash e s = s\<lparr>crashed := Some e\<rparr>"

fun advance :: "nat \<Rightarrow> pc \<Rightarrow> mem_sys \<Rightarrow> mem_sys option" where
  "advance i Idle s = None"
| "advance i (Blocked c) s =
     (if owner s = None then
        Some (move i (case c of Alloc n \<Rightarrow> Alloc_enter n | Free p \<Rightarrow> Free_enter p) (s\<lparr>owner := Some i\<rparr>))
      else None)"
| "advance i (Alloc_enter n) s =
     (let (free_addr, free_size) = findFreeChunk (free_chunk (ctl s)) n
      in Some (move i (Alloc_found n free_addr free_size) s))"
| "advance i (Alloc_found n free_addr free_size) s =
     Some (if free_addr = 0 then move i (Alloc_done 0) s
      else if n < free_size then
        move i (Alloc_carved (free_addr + free_size - n) n)
          (set_ctl (ctl s\<lparr>free_chunk := map_put free_addr (free_size - n) (free_chunk (ctl s))\<rparr>) s)
      else
        move i (Alloc_carved free_addr n)
          (set_ctl (ctl s\<lparr>free_chunk := map_erase free_addr (free_chunk (ctl s))\<rparr>) s))"
| "advance i (Alloc_carved p n) s =
     Some (move i (Alloc_done p) (set_ctl (ctl s\<lparr>used_chunk := map_put p n (used_chunk (ctl s))\<rparr>) s))"
| "advance i (Alloc_done p) s = Some (give_back i (Allocated (asked s i) p) s)"
| "advance i (Free_enter ptr) s =
     Some (case map_of (used_chunk (ctl s)) ptr of
        None \<Rightarrow> crash Not_in_alloc_log s
      | Some free_size \<Rightarrow>
          move i (Free_unlogged ptr free_size)
            (set_ctl (ctl s\<lparr>used_chunk := map_erase ptr (used_chunk (ctl s))\<rparr>) s))"
| "advance i (Free_unlogged ptr free_size) s =
     Some (case merge_prev ptr free_size (free_chunk (ctl s)) of
        Inl e \<Rightarrow> crash e s
      | Inr (a, n) \<Rightarrow> move i (Free_merged ptr free_size a n) s)"
| "advance i (Free_merged ptr free_size a n) s =
     Some (case from_upper ptr (free_chunk (ctl s)) of
        [] \<Rightarrow> move i (Free_absorbed ptr a n) s
      | (next_addr, next_size) # _ \<Rightarrow>
          if a + n = next_addr then
            move i (Free_absorbed ptr a (n + next_size))
              (set_ctl (ctl s\<lparr>free_chunk := map_erase next_addr (free_chunk (ctl s))\<rparr>) s)
          else move i (Free_absorbed ptr a n) s)"
| "advance i (Free_absorbed ptr a n) s =
     Some (move i (Free_done ptr) (set_ctl (ctl s\<lparr>free_chunk := map_put a n (free_chunk (ctl s))\<rparr>) s))"
| "advance i (Free_done ptr) s = Some (give_back i (Released ptr) s)"

inductive thread_step :: "mem_sys \<Rightarrow> mem_sys \<Rightarrow> bool" where
  call_alloc: "crashed s = None \<Longrightarrow> pcs s i = Idle \<Longrightarrow>
     thread_step s (move i (Blocked (Alloc (round64 n))) (s\<lparr>asked := (asked s)(i := n)\<rparr>))"
| call_free: "crashed s = None \<Longrightarrow> pcs s i = Idle \<Longrightarrow>
     thread_step s (move i (Blocked (Free p)) (s\<lparr>asked := (asked s)(i := p)\<rparr>))"
| go_on: "crashed s = None \<Longrightarrow> advance i (pcs s i) s = Some s' \<Longrightarrow> thread_step s s'"

definition start_sys :: "mem_ctl \<Rightarrow> mem_sys" where
  "start_sys c = \<lparr>ctl = c, owner = None, pcs = (\<lambda>_. Idle), asked = (\<lambda>_. 0), crashed = None, ended_calls = []\<rparr>"

section \<open>Calls take effect one at a time\<close>

text \<open>\<open>replay_calls\<close> runs whole calls one after the other with the functions of \<open>MemCtl\<close>, checking that each
  returns what the history says.\<close>

fun replay_calls :: "ended list \<Rightarrow> mem_ctl \<Rightarrow> mem_ctl option" where
  "replay_calls [] c = Some c"
| "replay_calls (Allocated n p # es) c = (if fst (alloc n c) = p then replay_calls es (snd (alloc n c)) else None)"
| "replay_calls (Released p # es) c = (case mem_free p c of Inr c' \<Rightarrow> replay_calls es c' | Inl e \<Rightarrow> None)"

lemma replay_calls_append: "replay_calls (es @ fs) c = (case replay_calls es c of None \<Rightarrow> None | Some c' \<Rightarrow> replay_calls fs c')"
  by (induction es c rule: replay_calls.induct) (auto split: sum.split)

text \<open>\<open>alloc\<close> after the rounding, which the thread has done before.\<close>

definition carve :: "u64 \<Rightarrow> u64 \<Rightarrow> u64 \<Rightarrow> mem_ctl \<Rightarrow> u64 \<times> mem_ctl" where
  "carve n free_addr free_size c =
     (if free_addr = 0 then (0, c)
      else if n < free_size then
        (free_addr + free_size - n,
         c\<lparr>free_chunk := map_put free_addr (free_size - n) (free_chunk c),
            used_chunk := map_put (free_addr + free_size - n) n (used_chunk c)\<rparr>)
      else (free_addr, c\<lparr>free_chunk := map_erase free_addr (free_chunk c),
                         used_chunk := map_put free_addr n (used_chunk c)\<rparr>))"

lemma alloc_carve: "alloc n c = (let (a, s) = findFreeChunk (free_chunk c) (round64 n) in carve (round64 n) a s c)"
  by (simp add: alloc_def carve_def Let_def split: prod.split)

text \<open>\<open>midway pc n base c\<close>: a thread called with argument \<open>n\<close> that took the lock when the maps were \<open>base\<close>
  and stands at \<open>pc\<close> has made them \<open>c\<close>.\<close>

fun midway :: "pc \<Rightarrow> u64 \<Rightarrow> mem_ctl \<Rightarrow> mem_ctl \<Rightarrow> bool" where
  "midway Idle n base c = False"
| "midway (Blocked cl) n base c = False"
| "midway (Alloc_enter r) n base c = (r = round64 n \<and> c = base)"
| "midway (Alloc_found r a s) n base c =
     (r = round64 n \<and> c = base \<and> (a, s) = findFreeChunk (free_chunk base) r)"
| "midway (Alloc_carved p r) n base c =
     (alloc n base = (p, c\<lparr>used_chunk := map_put p r (used_chunk c)\<rparr>))"
| "midway (Alloc_done p) n base c = (alloc n base = (p, c))"
| "midway (Free_enter p) n base c = (p = n \<and> c = base)"
| "midway (Free_unlogged p s) n base c =
     (p = n \<and> map_of (used_chunk base) p = Some s \<and> c = base\<lparr>used_chunk := map_erase p (used_chunk base)\<rparr>)"
| "midway (Free_merged p s a m) n base c =
     (p = n \<and> map_of (used_chunk base) p = Some s \<and> merge_prev p s (free_chunk base) = Inr (a, m)
       \<and> c = base\<lparr>used_chunk := map_erase p (used_chunk base)\<rparr>)"
| "midway (Free_absorbed p a m) n base c =
     (p = n \<and> mem_free p base = Inr (c\<lparr>free_chunk := map_put a m (free_chunk c)\<rparr>))"
| "midway (Free_done p) n base c = (p = n \<and> mem_free p base = Inr c)"

text \<open>The call a thread waits to start carries its argument.\<close>

fun waiting_ok :: "pc \<Rightarrow> u64 \<Rightarrow> bool" where
  "waiting_ok (Blocked (Alloc r)) n = (r = round64 n)"
| "waiting_ok (Blocked (Free p)) n = (p = n)"
| "waiting_ok Idle n = True"
| "waiting_ok _ n = False"

definition sys_inv :: "mem_ctl \<Rightarrow> mem_sys \<Rightarrow> bool" where
  "sys_inv c0 s \<longleftrightarrow> (\<exists>base. replay_calls (ended_calls s) c0 = Some base
     \<and> (case owner s of
          None \<Rightarrow> ctl s = base
        | Some i \<Rightarrow> midway (pcs s i) (asked s i) base (ctl s))
     \<and> (\<forall>j. owner s \<noteq> Some j \<longrightarrow> waiting_ok (pcs s j) (asked s j)))"

lemma start_inv: "sys_inv c0 (start_sys c0)"
  by (simp add: sys_inv_def start_sys_def)

text \<open>A call that reaches a fault is one whose whole call faults.\<close>

lemma midway_step:
  assumes "midway pc (asked s i) base (ctl s)" and "advance i pc s = Some s'" and "owner s = Some i"
    and "crashed s = None"
  shows "crashed s' = None \<and> owner s' = Some i \<and> ended_calls s' = ended_calls s \<and> asked s' = asked s
      \<and> midway (pcs s' i) (asked s i) base (ctl s') \<and> (\<forall>j. j \<noteq> i \<longrightarrow> pcs s' j = pcs s j)
    \<or> crashed s' = None \<and> owner s' = None \<and> asked s' = asked s \<and> pcs s' = (pcs s)(i := Idle)
      \<and> ctl s' = ctl s \<and> (\<exists>e. ended_calls s' = ended_calls s @ [e] \<and> replay_calls [e] base = Some (ctl s))
    \<or> (\<exists>e. s' = crash e s \<and> mem_free (asked s i) base = Inl e)"
  using assms
proof (cases pc)
  case (Alloc_found r a n)
  then show ?thesis using assms
    by (auto simp: move_def set_ctl_def alloc_carve carve_def Let_def split: prod.splits if_splits)
next
  case (Free_enter p)
  then show ?thesis using assms
    by (auto simp: move_def set_ctl_def crash_def mem_free_def split: option.splits)
next
  case (Free_unlogged p n)
  then show ?thesis using assms
    by (auto simp: move_def crash_def mem_free_def Let_def split: sum.splits prod.splits)
next
  case (Free_merged p n a m)
  then show ?thesis using assms
    by (auto simp: move_def set_ctl_def mem_free_def merge_next_def Let_def split: list.splits if_splits)
qed (auto simp: move_def set_ctl_def give_back_def Let_def split: prod.splits)

text \<open>Threads that neither hold the lock nor take a step are where they were.\<close>

lemma waiting_step:
  assumes "owner s = None" and "advance i pc s = Some s'" and "waiting_ok pc (asked s i)" and "pcs s i = pc"
  shows "owner s' = Some i" "ended_calls s' = ended_calls s" "asked s' = asked s" "ctl s' = ctl s"
    "crashed s' = crashed s" "midway (pcs s' i) (asked s i) (ctl s) (ctl s)" "j \<noteq> i \<Longrightarrow> pcs s' j = pcs s j"
  using assms by (cases pc; auto simp: move_def split: call.splits)+

lemma advance_owner:
  "advance i pc s = Some s' \<Longrightarrow> owner s = Some j \<Longrightarrow> waiting_ok pc n \<Longrightarrow> False"
  by (cases pc) auto

lemma sys_invE:
  assumes "sys_inv c0 s"
  obtains base where "replay_calls (ended_calls s) c0 = Some base"
    "case owner s of None \<Rightarrow> ctl s = base | Some i \<Rightarrow> midway (pcs s i) (asked s i) base (ctl s)"
    "\<forall>j. owner s \<noteq> Some j \<longrightarrow> waiting_ok (pcs s j) (asked s j)"
  using assms by (auto simp: sys_inv_def)

lemma new_call_inv:
  assumes "sys_inv c0 s" and "pcs s i = Idle" and "waiting_ok pc n"
  shows "sys_inv c0 (move i pc (s\<lparr>asked := (asked s)(i := n)\<rparr>))"
proof -
  obtain base where base: "replay_calls (ended_calls s) c0 = Some base"
      "case owner s of None \<Rightarrow> ctl s = base | Some i \<Rightarrow> midway (pcs s i) (asked s i) base (ctl s)"
      "\<forall>j. owner s \<noteq> Some j \<longrightarrow> waiting_ok (pcs s j) (asked s j)"
    using assms(1) by (rule sys_invE)
  have "owner s \<noteq> Some i" using base(2) assms(2) by auto
  then show ?thesis
    unfolding sys_inv_def using base assms(3)
    by (intro exI [of _ base]) (auto simp: move_def split: option.splits)
qed

lemma thread_step_inv:
  assumes "thread_step s s'" and "sys_inv c0 s"
  shows "sys_inv c0 s' \<and> crashed s' = None
    \<or> (\<exists>i e base. s' = crash e s \<and> owner s = Some i \<and> replay_calls (ended_calls s) c0 = Some base
        \<and> mem_free (asked s i) base = Inl e)"
  using assms(1)
proof (cases rule: thread_step.cases)
  case (call_alloc i n)
  then show ?thesis using new_call_inv [OF assms(2)] by (simp add: move_def)
next
  case (call_free i p)
  then show ?thesis using new_call_inv [OF assms(2)] by (simp add: move_def)
next
  case (go_on i)
  obtain base where base: "replay_calls (ended_calls s) c0 = Some base"
      "case owner s of None \<Rightarrow> ctl s = base | Some i \<Rightarrow> midway (pcs s i) (asked s i) base (ctl s)"
      "\<forall>j. owner s \<noteq> Some j \<longrightarrow> waiting_ok (pcs s j) (asked s j)"
    using assms(2) by (rule sys_invE)
  show ?thesis
  proof (cases "owner s")
    case None
    have "waiting_ok (pcs s i) (asked s i)" using base(3) None by simp
    note w = waiting_step [OF None go_on(2) this refl]
    have "sys_inv c0 s'"
      unfolding sys_inv_def using w base None by (intro exI [of _ base]) auto
    then show ?thesis using w(5) go_on(1) None by simp
  next
    case (Some j)
    then have "i = j" using advance_owner [OF go_on(2)] base(3) by (metis option.inject)
    then have m: "midway (pcs s i) (asked s i) base (ctl s)" "owner s = Some i" using base(2) Some by simp_all
    consider (inside) "crashed s' = None" "owner s' = Some i" "ended_calls s' = ended_calls s" "asked s' = asked s"
        "midway (pcs s' i) (asked s i) base (ctl s')" "\<forall>j. j \<noteq> i \<longrightarrow> pcs s' j = pcs s j"
      | (out) e where "crashed s' = None" "owner s' = None" "asked s' = asked s" "pcs s' = (pcs s)(i := Idle)"
        "ctl s' = ctl s" "ended_calls s' = ended_calls s @ [e]" "replay_calls [e] base = Some (ctl s)"
      | (fault) e where "s' = crash e s" "mem_free (asked s i) base = Inl e"
      using midway_step [OF m(1) go_on(2) m(2) go_on(1)] by (elim disjE conjE exE) metis+
    then show ?thesis
    proof cases
      case inside
      then have "sys_inv c0 s'"
        unfolding sys_inv_def using base m by (intro exI [of _ base]) auto
      then show ?thesis using inside by simp
    next
      case out
      then have "sys_inv c0 s'"
        unfolding sys_inv_def using base m by (intro exI [of _ "ctl s"]) (auto simp: replay_calls_append)
      then show ?thesis using out by simp
    next
      case fault
      then show ?thesis using base(1) m(2) by blast
    qed
  qed
qed

lemma reachable_sys:
  assumes "thread_step\<^sup>*\<^sup>* (start_sys c0) s"
  shows "sys_inv c0 s \<and> crashed s = None
    \<or> (\<exists>s0 i e base. s = crash e s0 \<and> sys_inv c0 s0 \<and> owner s0 = Some i
        \<and> replay_calls (ended_calls s0) c0 = Some base \<and> mem_free (asked s0 i) base = Inl e)"
  using assms
proof (induction rule: rtranclp_induct)
  case base
  then show ?case using start_inv by (simp add: start_sys_def)
next
  case (step y z)
  have "crashed y = None" using step(2) by (cases rule: thread_step.cases) auto
  then have "sys_inv c0 y" using step(3) by (auto simp: crash_def)
  then show ?case using thread_step_inv [OF step(2)] by blast
qed

text \<open>The history satisfies the invariant of the pool, and so does the pool whenever the lock is free.\<close>

lemma replay_inv:
  "replay_calls es c = Some c' \<Longrightarrow> mem_inv lo hi c \<Longrightarrow> list_all (\<lambda>e. case e of Allocated n p \<Rightarrow> sane_size n | Released p \<Rightarrow> True) es
     \<Longrightarrow> mem_inv lo hi c'"
proof (induction es c rule: replay_calls.induct)
  case (2 n p es c)
  then show ?case using mem.get_inv [of lo hi c n] by (auto split: if_splits)
next
  case (3 p es c)
  then show ?case using mem.put_inv by (auto split: sum.splits)
qed simp

section \<open>Schedules\<close>

text \<open>A schedule names the thread that moves at each step.\<close>

fun run_schedule :: "nat list \<Rightarrow> mem_sys \<Rightarrow> mem_sys option" where
  "run_schedule [] s = Some s"
| "run_schedule (i # is) s =
     (if crashed s \<noteq> None then None
      else case advance i (pcs s i) s of None \<Rightarrow> None | Some s' \<Rightarrow> run_schedule is s')"

lemma run_schedule_steps: "run_schedule is s = Some s' \<Longrightarrow> thread_step\<^sup>*\<^sup>* s s'"
proof (induction "is" arbitrary: s)
  case (Cons i "is")
  then show ?case
    by (auto split: if_splits option.splits intro: converse_rtranclp_into_rtranclp thread_step.go_on)
qed simp

section \<open>The holder finishes\<close>

text \<open>A thread inside always has a next step, so the lock is given back unless the process ends.\<close>

lemma midway_advances: "midway pc n base c \<Longrightarrow> advance i pc s \<noteq> None"
  by (cases pc) (auto split: prod.splits)

fun steps_left :: "pc \<Rightarrow> nat" where
  "steps_left (Alloc_enter _) = 4" | "steps_left (Alloc_found _ _ _) = 3" | "steps_left (Alloc_carved _ _) = 2"
| "steps_left (Alloc_done _) = 1" | "steps_left (Free_enter _) = 5" | "steps_left (Free_unlogged _ _) = 4"
| "steps_left (Free_merged _ _ _ _) = 3" | "steps_left (Free_absorbed _ _ _) = 2" | "steps_left (Free_done _) = 1"
| "steps_left _ = 0"

lemma steps_left_decreases:
  "midway pc n base c \<Longrightarrow> advance i pc s = Some s' \<Longrightarrow> pcs s i = pc \<Longrightarrow>
     steps_left (pcs s' i) < steps_left pc \<or> crashed s' \<noteq> None"
  by (cases pc) (auto simp: move_def give_back_def set_ctl_def crash_def split: prod.splits option.splits sum.splits list.splits)

text \<open>Each step of the holder brings it closer to giving the mutex back.\<close>

lemma steps_left_le: "steps_left pc \<le> 5"
  by (cases pc) simp_all

lemma holder_finishes:
  assumes "sys_inv c0 s" and "crashed s = None" and "owner s = Some i"
  shows "\<exists>k s'. k \<le> steps_left (pcs s i) \<and> run_schedule (replicate k i) s = Some s'
    \<and> (owner s' = None \<or> crashed s' \<noteq> None)"
  using assms
proof (induction "steps_left (pcs s i)" arbitrary: s rule: less_induct)
  case less
  obtain base where m: "midway (pcs s i) (asked s i) base (ctl s)"
    using less.prems by (auto elim!: sys_invE)
  then obtain s1 where s1: "advance i (pcs s i) s = Some s1" using midway_advances by fastforce
  then have st: "thread_step s s1" using less.prems(2) by (rule thread_step.go_on [rotated])
  have run: "run_schedule (i # is) s = run_schedule is s1" for "is" using s1 less.prems(2) by simp
  have pos: "0 < steps_left (pcs s i)" using m by (cases "pcs s i") auto
  show ?case
  proof (cases "owner s1 = None \<or> crashed s1 \<noteq> None")
    case True
    then show ?thesis using run [of "[]"] pos by (intro exI [of _ 1] exI [of _ s1]) simp
  next
    case False
    then have "owner s1 = Some i" using midway_step [OF m s1 less.prems(3,2)] by (auto simp: crash_def)
    moreover have "sys_inv c0 s1" using thread_step_inv [OF st less.prems(1)] False by (auto simp: crash_def)
    moreover have closer: "steps_left (pcs s1 i) < steps_left (pcs s i)"
      using steps_left_decreases [OF m s1 refl] False by simp
    ultimately obtain k s' where k: "k \<le> steps_left (pcs s1 i)" "run_schedule (replicate k i) s1 = Some s'"
        "owner s' = None \<or> crashed s' \<noteq> None"
      using less.hyps False by blast
    then show ?thesis using run [of "replicate k i"] closer by (intro exI [of _ "Suc k"] exI [of _ s']) simp
  qed
qed

section \<open>Properties\<close>

text \<open>Any number of threads calling \<open>lock\<close> and \<open>unlock\<close> in any order: no two are ever past
  \<open>lock\<close> at once, the flag is set exactly while one is, and a thread that spins on a clear flag enters
  with its next try.\<close>

theorem spin_mutual_exclusion:
  assumes "spin_step\<^sup>*\<^sup>* new_spinlock s"
  shows "(spin_pcs s i = Inside \<and> spin_pcs s j = Inside \<longrightarrow> i = j)
    \<and> (flag s \<longleftrightarrow> (\<exists>k. spin_pcs s k = Inside))
    \<and> (spin_pcs s i = Spinning \<and> \<not> flag s \<longrightarrow> (\<exists>s'. spin_step s s' \<and> spin_pcs s' i = Inside))"
proof (intro conjI impI)
  note inv = spin_reachable_inv [OF assms]
  show "i = j" if "spin_pcs s i = Inside \<and> spin_pcs s j = Inside"
  proof -
    have "i \<in> inside s" "j \<in> inside s" using that by (simp_all add: inside_def)
    then show ?thesis using inv by (auto simp: spin_inv_def split: if_splits)
  qed
  show "flag s \<longleftrightarrow> (\<exists>k. spin_pcs s k = Inside)"
    using inv by (auto simp: spin_inv_def inside_def split: if_splits)
  show "\<exists>s'. spin_step s s' \<and> spin_pcs s' i = Inside" if "spin_pcs s i = Spinning \<and> \<not> flag s"
    using spin_step.try_flag [of s i False "s\<lparr>flag := True\<rparr>"] that
    by (intro exI [of _ "goto i Inside (s\<lparr>flag := True\<rparr>)"]) (simp add: test_and_set_def goto_def)
qed

theorem spin_mutual_exclusion_witness:
  "spin_step (goto 3 Spinning new_spinlock) (goto 3 Inside (snd (test_and_set (goto 3 Spinning new_spinlock))))
    \<and> (flag (goto 3 Spinning new_spinlock) \<longleftrightarrow> (\<exists>k. spin_pcs (goto 3 Spinning new_spinlock) k = Inside))"
proof -
  let ?s = "goto 3 Spinning new_spinlock"
  have "spin_step new_spinlock ?s" by (rule spin_step.call_lock) (simp add: new_spinlock_def)
  then have "flag ?s \<longleftrightarrow> (\<exists>k. spin_pcs ?s k = Inside)" using spin_mutual_exclusion [of ?s 3 3] by blast
  moreover have "spin_step ?s (goto 3 Inside (snd (test_and_set ?s)))"
    using spin_step.try_flag [of ?s 3 False "snd (test_and_set ?s)"]
    by (simp add: goto_def new_spinlock_def test_and_set_def)
  ultimately show ?thesis by blast
qed

text \<open>C12. \<open>MemCtl::alloc\<close> and \<open>MemCtl::free\<close> called by any number of threads, their accesses
  to the two maps interleaved in any way the mutex allows: whenever no thread holds the mutex the maps
  are what the completed calls give when they run one after the other, each returning what it did
  return; with them the pool satisfies its invariant, if no call asked for 0 bytes or for 2^64 - 63 and more,
  which round to 0.\<close>

theorem allocator_linearizable:
  assumes "thread_step\<^sup>*\<^sup>* (start_sys c0) s" and "crashed s = None" and "owner s = None"
    and "mem_inv lo hi c0"
    and "list_all (\<lambda>e. case e of Allocated n p \<Rightarrow> sane_size n | Released p \<Rightarrow> True) (ended_calls s)"
  shows "replay_calls (ended_calls s) c0 = Some (ctl s) \<and> mem_inv lo hi (ctl s)"
proof -
  have "sys_inv c0 s" using reachable_sys [OF assms(1)] assms(2) by (auto simp: crash_def)
  then have "replay_calls (ended_calls s) c0 = Some (ctl s)" using assms(3) by (auto elim!: sys_invE)
  then show ?thesis using replay_inv assms(4,5) by blast
qed

text \<open>Thread 0 allocates while thread 1 waits for the mutex, then thread 1 allocates.\<close>

definition ask :: "nat \<Rightarrow> u64 \<Rightarrow> mem_sys \<Rightarrow> mem_sys" where
  "ask i n s = move i (Blocked (Alloc (round64 n))) (s\<lparr>asked := (asked s)(i := n)\<rparr>)"

definition two_threads :: mem_sys where
  "two_threads = ask 1 128 (ask 0 50 (start_sys (new_pool 0x1000 0x1000)))"

lemma two_threads_reached: "thread_step\<^sup>*\<^sup>* (start_sys (new_pool 0x1000 0x1000)) two_threads"
proof -
  have step: "crashed s = None \<Longrightarrow> pcs s i = Idle \<Longrightarrow> thread_step s (ask i n s)" for s i n
    unfolding ask_def by (rule thread_step.call_alloc)
  show ?thesis
    unfolding two_threads_def
    by (rule rtranclp.rtrancl_into_rtrancl [OF r_into_rtranclp]; rule step)
      (simp_all add: ask_def move_def start_sys_def)
qed

lemma two_threads_run:
  "map_option (\<lambda>s. (crashed s, owner s, ended_calls s)) (run_schedule [0, 0, 0, 0, 0, 1, 1, 1, 1, 1] two_threads)
     = Some (None, None, [Allocated 50 0x1FC0, Allocated 128 0x1F40])"
  by code_simp

theorem allocator_linearizable_witness:
  "\<exists>s :: mem_sys. ended_calls s = [Allocated 50 0x1FC0, Allocated 128 0x1F40]
    \<and> replay_calls (ended_calls s) (new_pool 0x1000 0x1000) = Some (ctl s) \<and> mem_inv 0x1000 0x2000 (ctl s)"
proof -
  obtain s where s: "run_schedule [0, 0, 0, 0, 0, 1, 1, 1, 1, 1] two_threads = Some s" "crashed s = None" "owner s = None"
      "ended_calls s = [Allocated 50 0x1FC0, Allocated 128 0x1F40]"
    using two_threads_run by auto
  have r: "thread_step\<^sup>*\<^sup>* (start_sys (new_pool 0x1000 0x1000)) s"
    using two_threads_reached run_schedule_steps [OF s(1)] by (rule rtranclp_trans)
  have "mem_inv (unat (0x1000 :: u64)) (unat (0x1000 :: u64) + unat (0x1000 :: u64)) (new_pool 0x1000 0x1000)"
    by (rule new_pool_inv) (simp_all add: chunk_aligned_def)
  then have inv: "mem_inv 0x1000 0x2000 (new_pool 0x1000 0x1000)" by simp
  have "replay_calls (ended_calls s) (new_pool 0x1000 0x1000) = Some (ctl s) \<and> mem_inv 0x1000 0x2000 (ctl s)"
    by (rule allocator_linearizable [OF r s(2,3) inv]) (simp add: s(4) sane_size_def)
  then show ?thesis using s(4) by (intro exI [of _ s]) simp
qed

text \<open>C29. A thread that holds the mutex of the allocator gives it back after at most five of its own
  steps, wherever the other threads stand, or its call ends the process.\<close>

theorem mutex_released:
  assumes "thread_step\<^sup>*\<^sup>* (start_sys c0) s" and "crashed s = None" and "owner s = Some i"
  shows "\<exists>k s'. k \<le> 5 \<and> run_schedule (replicate k i) s = Some s' \<and> (owner s' = None \<or> crashed s' \<noteq> None)"
proof -
  have "sys_inv c0 s" using reachable_sys [OF assms(1)] assms(2) by (auto simp: crash_def)
  then show ?thesis using holder_finishes [OF _ assms(2,3)] steps_left_le order_trans by metis
qed

lemma two_threads_inside:
  "map_option (\<lambda>s. (crashed s, owner s)) (run_schedule [0, 0] two_threads) = Some (None, Some 0)"
  by code_simp

theorem mutex_released_witness:
  "\<exists>s s' :: mem_sys. \<exists>k. owner s = Some 0 \<and> thread_step\<^sup>*\<^sup>* (start_sys (new_pool 0x1000 0x1000)) s
    \<and> k \<le> 5 \<and> run_schedule (replicate k 0) s = Some s' \<and> (owner s' = None \<or> crashed s' \<noteq> None)"
proof -
  obtain s where s: "run_schedule [0, 0] two_threads = Some s" "crashed s = None" "owner s = Some 0"
    using two_threads_inside by auto
  have r: "thread_step\<^sup>*\<^sup>* (start_sys (new_pool 0x1000 0x1000)) s"
    using two_threads_reached run_schedule_steps [OF s(1)] by (rule rtranclp_trans)
  then show ?thesis using mutex_released [OF r s(2,3)] s(3) by blast
qed

end
