(* ===== verification/Host_Utils.thy ===== *)
theory Host_Utils
  imports MemCtl
begin

text \<open>
  \<open>utils/numautil.h\<close>, \<open>utils/numautil.cpp\<close>, \<open>utils/hs_clock.h\<close> and the binding of threads in
  \<open>test_suite/dsa_offload/dsa_sw_micro.cpp\<close>: the cores of a NUMA node, shared memory on huge pages, a
  timer.  What libnuma, the kernel and the clock answer are arguments.  A failed assertion ends the
  program (\<open>Exit\<close>), as \<open>exit\<close> does.
\<close>

section \<open>Cores\<close>

text \<open>What libnuma answers; the node of a core is an \<open>int\<close>, -1 for an error.\<close>

record numa =
  configured_cpus :: nat
  configured_nodes :: nat
  max_node :: nat
  node_of_cpu :: "nat \<Rightarrow> u32"

definition num_lcores_per_numa_node :: "numa \<Rightarrow> nat" where
  "num_lcores_per_numa_node env = configured_cpus env div configured_nodes env"

text \<open>The comparison converts the node of the core to \<open>size_t\<close>, with its sign.\<close>

definition get_lcores_for_numa_node :: "numa \<Rightarrow> u64 \<Rightarrow> nat list result" where
  "get_lcores_for_numa_node env numa_node =
     andThen (require (unat numa_node \<le> max_node env)) (\<lambda>_.
       Inr (filter (\<lambda>i. numa_node = scast (node_of_cpu env i)) [0..<configured_cpus env]))"

text \<open>\<open>bind_to_core\<close>: the core the thread is bound to, \<open>None\<close> when the index is ignored with a warning.
  \<open>setaffinity\<close> is the result of \<open>pthread_setaffinity_np\<close>.\<close>

definition bind_to_core :: "numa \<Rightarrow> (nat \<Rightarrow> bool) \<Rightarrow> u64 \<Rightarrow> u64 \<Rightarrow> nat option result" where
  "bind_to_core env setaffinity numa_node numa_local_index =
     andThen (get_lcores_for_numa_node env numa_node) (\<lambda>lcore_vec.
       if length lcore_vec \<le> unat numa_local_index then Inr None
       else
         let global_index = lcore_vec ! unat numa_local_index in
         andThen (require (setaffinity global_index)) (\<lambda>_. Inr (Some global_index)))"

text \<open>\<open>set_cpu_with_numa\<close> of the test bench makes the same check but goes on after the message, and a
  failure to bind is only printed.  The arguments are \<open>int\<close>.\<close>

definition set_cpu_with_numa :: "numa \<Rightarrow> (nat \<Rightarrow> bool) \<Rightarrow> u32 \<Rightarrow> u32 \<Rightarrow> nat option result" where
  "set_cpu_with_numa env setaffinity cpu_index numa_node =
     (let cpu_cores_list = filter (\<lambda>i. numa_node = node_of_cpu env i) [0..<configured_cpus env];
          i = unat (scast cpu_index :: u64)
      in if i < length cpu_cores_list then
           Inr (if setaffinity (cpu_cores_list ! i) then Some (cpu_cores_list ! i) else None)
         else Inl Overrun)"

text \<open>\<open>wait_scheduling(thread_index)\<close> waits until the thread runs on the core of that number; \<open>running_on\<close>
  is what \<open>sched_getcpu\<close> answers at each call.  It need never end, so it takes fuel.\<close>

fun wait_scheduling :: "nat \<Rightarrow> nat \<Rightarrow> (nat \<Rightarrow> nat) \<Rightarrow> nat \<Rightarrow> nat result" where
  "wait_scheduling 0 thread_index running_on n = Inl Out_of_fuel"
| "wait_scheduling (Suc fuel) thread_index running_on n =
     (if thread_index \<noteq> running_on n then wait_scheduling fuel thread_index running_on (Suc n) else Inr n)"

lemma lcores_nth:
  assumes "get_lcores_for_numa_node env node = Inr cores"
  shows "sorted_wrt (<) cores" and "set cores = {i. i < configured_cpus env \<and> scast (node_of_cpu env i) = node}"
    and "unat node \<le> max_node env"
proof -
  have c: "cores = filter (\<lambda>i. node = scast (node_of_cpu env i)) [0..<configured_cpus env]"
    using assms by (auto simp: get_lcores_for_numa_node_def andThen_eq_Inr)
  show "sorted_wrt (<) cores" unfolding c by (rule sorted_wrt_filter) simp
  show "set cores = {i. i < configured_cpus env \<and> scast (node_of_cpu env i) = node}" unfolding c by auto
  show "unat node \<le> max_node env" using assms by (auto simp: get_lcores_for_numa_node_def andThen_eq_Inr)
qed

lemma wait_scheduling_Inr:
  "wait_scheduling fuel t running_on n = Inr k \<Longrightarrow> running_on k = t \<and> n \<le> k"
  by (induction fuel arbitrary: n) (fastforce split: if_splits)+

lemma wait_scheduling_never:
  "(\<And>k. running_on k \<noteq> t) \<Longrightarrow> wait_scheduling fuel t running_on n = Inl Out_of_fuel"
  by (induction fuel arbitrary: n) (simp_all add: eq_commute [of t])

section \<open>Shared memory on huge pages\<close>

text \<open>\<open>round_up<n>\<close> for a power of two: \<open>(x + (n - 1)) & ~(n - 1)\<close>.\<close>

definition round_up_to :: "u64 \<Rightarrow> u64 \<Rightarrow> u64" where
  "round_up_to n x = (x + (n - 1)) AND NOT (n - 1)"

text \<open>The result of \<open>shmget\<close>: an identifier, or a failure with \<open>EEXIST\<close> or another \<open>errno\<close>.\<close>

datatype shm_answer = Shm_id nat | Shm_exists | Shm_error

text \<open>The kernel as \<open>get_huge_mem\<close> sees it: the random numbers, the answer to each \<open>shmget\<close> for its key and
  size, the address \<open>shmat\<close> returns (-1 for a failure), and whether \<open>mbind\<close> succeeds.\<close>

record shm_env =
  draw :: "nat \<Rightarrow> u32"
  shmget :: "nat \<Rightarrow> u32 \<Rightarrow> u64 \<Rightarrow> shm_answer"
  shmat :: "nat \<Rightarrow> u64"
  mbind :: "u64 \<Rightarrow> u64 \<Rightarrow> u64 \<Rightarrow> bool"

text \<open>\<open>std::abs\<close> of an \<open>int\<close>; the distribution never draws a negative number.\<close>

definition abs_int :: "u32 \<Rightarrow> u32" where
  "abs_int w = (if bit w 31 then - w else w)"

fun get_shm_id :: "nat \<Rightarrow> shm_env \<Rightarrow> u64 \<Rightarrow> nat \<Rightarrow> nat result" where
  "get_shm_id 0 env sz n = Inl Out_of_fuel"
| "get_shm_id (Suc fuel) env sz n =
     (case shmget env n (abs_int (draw env n)) sz of
        Shm_id shm_id \<Rightarrow> Inr shm_id
      | Shm_exists \<Rightarrow> get_shm_id fuel env sz (Suc n)
      | Shm_error \<Rightarrow> Inl Exit)"

text \<open>The pointer is compared with null, although \<open>shmat\<close> reports a failure as -1.  The mask of the node
  is \<open>1ul << numa_node\<close>.\<close>

definition get_huge_mem :: "nat \<Rightarrow> shm_env \<Rightarrow> u32 \<Rightarrow> u64 \<Rightarrow> u64 result" where
  "get_huge_mem fuel env numa_node sz =
     (let sz = round_up_to (2 * 1024 * 1024) sz in
      andThen (get_shm_id fuel env sz 0) (\<lambda>shm_id.
      let shm_buf = shmat env shm_id in
      andThen (require (shm_buf \<noteq> 0)) (\<lambda>_.
      let nodemask = push_bit (unat numa_node) 1 :: u64 in
      andThen (require (mbind env shm_buf sz nodemask)) (\<lambda>_. Inr shm_buf))))"

lemma unat_round_up_2M:
  assumes "unat x + (2 ^ 21 - 1) < 2 ^ 64"
  shows "unat (round_up_to (2 * 1024 * 1024) x) = (unat x + (2 ^ 21 - 1)) div 2 ^ 21 * 2 ^ 21"
proof -
  let ?y = "x + (2 ^ 21 - 1)"
  have m: "(2 * 1024 * 1024 - 1 :: u64) = mask 21" by (simp add: mask_eq_exp_minus_1)
  have a: "x + (2 * 1024 * 1024 - 1) = ?y" by simp
  have "round_up_to (2 * 1024 * 1024) x = ?y AND NOT (mask 21)"
    unfolding round_up_to_def m [symmetric] a ..
  then have e: "round_up_to (2 * 1024 * 1024) x = ?y div 2 ^ 21 * 2 ^ 21"
    by (simp only: and_not_mask)
  have u: "unat (x + 2097151) = unat x + 2097151" using assms by (simp add: unat_word_ariths(1))
  have "(unat x + (2 ^ 21 - 1)) div 2 ^ 21 * 2 ^ 21 < 2 ^ 64"
    using assms by (metis div_times_less_eq_dividend le_less_trans)
  then show ?thesis unfolding e by (simp add: unat_word_ariths(2) unat_div u)
qed

text \<open>The loop ends at the first answer other than \<open>EEXIST\<close>.\<close>

lemma get_shm_id_first:
  assumes "\<And>i. i < k \<Longrightarrow> shmget env (n + i) (abs_int (draw env (n + i))) sz = Shm_exists"
    and "shmget env (n + k) (abs_int (draw env (n + k))) sz \<noteq> Shm_exists"
  shows "k < fuel \<Longrightarrow> get_shm_id fuel env sz n
     = (case shmget env (n + k) (abs_int (draw env (n + k))) sz of Shm_id i \<Rightarrow> Inr i | _ \<Rightarrow> Inl Exit)"
  using assms
proof (induction k arbitrary: fuel n)
  case 0
  then show ?case by (cases fuel) (auto split: shm_answer.split)
next
  case (Suc k)
  obtain f where f: "fuel = Suc f" "k < f" using Suc.prems(1) by (cases fuel) auto
  have "shmget env n (abs_int (draw env n)) sz = Shm_exists" using Suc.prems(2) [of 0] by simp
  moreover have "get_shm_id f env sz (Suc n)
      = (case shmget env (Suc n + k) (abs_int (draw env (Suc n + k))) sz of Shm_id i \<Rightarrow> Inr i | _ \<Rightarrow> Inl Exit)"
    using Suc.prems(2) [of "Suc i" for i] Suc.prems(3) by (intro Suc.IH f) auto
  ultimately show ?case by (simp add: f)
qed

section \<open>The timer\<close>

text \<open>Times are nanoseconds since the epoch of the clock.  \<open>tic\<close> and \<open>toc\<close> are given the time it answers.\<close>

record timer =
  t1 :: u64
  t2 :: u64
  time_point :: u64

definition timer_new :: "u64 \<Rightarrow> timer" where
  "timer_new tp = \<lparr>t1 = 0, t2 = 0, time_point = tp\<rparr>"

definition timer_plus :: "timer \<Rightarrow> timer \<Rightarrow> timer" where
  "timer_plus s r = timer_new (time_point s + time_point r)"

definition timer_minus :: "timer \<Rightarrow> timer \<Rightarrow> timer" where
  "timer_minus s r = timer_new (time_point s - time_point r)"

definition tic :: "u64 \<Rightarrow> timer \<Rightarrow> timer" where
  "tic now t = t\<lparr>t1 := now\<rparr>"

text \<open>\<open>duration_cast\<close> to microseconds truncates towards zero.\<close>

definition toc :: "u64 \<Rightarrow> timer \<Rightarrow> u64 \<times> timer" where
  "toc now t =
     (let t = t\<lparr>t2 := now\<rparr>; d = sint (t2 t - t1 t)
      in (of_int (if d < 0 then - (- d div 1000) else d div 1000), t))"

definition toc_ns :: "u64 \<Rightarrow> timer \<Rightarrow> u64 \<times> timer" where
  "toc_ns now t = (let t = t\<lparr>t2 := now\<rparr> in (t2 t - t1 t, t))"

definition minus_now_time :: "u64 \<Rightarrow> u64 \<Rightarrow> timer \<Rightarrow> timer" where
  "minus_now_time now num_ops t = t\<lparr>time_point := time_point t - now * num_ops\<rparr>"

definition add_now_time :: "u64 \<Rightarrow> u64 \<Rightarrow> timer \<Rightarrow> timer" where
  "add_now_time now num_ops t = t\<lparr>time_point := time_point t + now * num_ops\<rparr>"

definition timer_reset :: "u64 \<Rightarrow> u64 \<Rightarrow> timer \<Rightarrow> timer" where
  "timer_reset now now' t = \<lparr>t1 = now, t2 = now', time_point = 0\<rparr>"

text \<open>Subtracting the start of each of \<open>n\<close> operations and adding its end sums their durations, wrap-around
  included.\<close>

lemma timer_durations:
  "time_point (fold (\<lambda>(start, stop) t. add_now_time stop 1 (minus_now_time start 1 t)) spans t)
     = time_point t + sum_list (map (\<lambda>(start, stop). stop - start) spans)"
  by (induction spans arbitrary: t) (auto simp: add_now_time_def minus_now_time_def algebra_simps)

section \<open>Properties\<close>

text \<open>\<open>get_huge_mem\<close> skips keys in use and ends at the first other answer of the kernel: with a segment
  that can be attached and bound it returns its address, and the size asked for has been rounded up to
  the next multiple of 2 MiB.\<close>

theorem huge_memory:
  assumes "\<And>i. i < k \<Longrightarrow> shmget env i (abs_int (draw env i)) (round_up_to (2 * 1024 * 1024) sz) = Shm_exists"
    and "shmget env k (abs_int (draw env k)) (round_up_to (2 * 1024 * 1024) sz) = Shm_id shm_id"
    and "shmat env shm_id \<noteq> 0" and "k < fuel" and "unat sz + (2 ^ 21 - 1) < 2 ^ 64"
    and "mbind env (shmat env shm_id) (round_up_to (2 * 1024 * 1024) sz) (push_bit (unat numa_node) 1)"
  shows "get_huge_mem fuel env numa_node sz = Inr (shmat env shm_id)
    \<and> 2 ^ 21 dvd unat (round_up_to (2 * 1024 * 1024) sz)
    \<and> unat sz \<le> unat (round_up_to (2 * 1024 * 1024) sz)
    \<and> unat (round_up_to (2 * 1024 * 1024) sz) < unat sz + 2 ^ 21"
proof -
  have "get_shm_id fuel env (round_up_to (2 * 1024 * 1024) sz) 0 = Inr shm_id"
    using get_shm_id_first [of k env 0 "round_up_to (2 * 1024 * 1024) sz" fuel] assms(1,2,4) by simp
  then have "get_huge_mem fuel env numa_node sz = Inr (shmat env shm_id)"
    using assms(3,6) by (simp add: get_huge_mem_def)
  moreover have "n \<le> (n + (2 ^ 21 - 1)) div 2 ^ 21 * 2 ^ 21 \<and> (n + (2 ^ 21 - 1)) div 2 ^ 21 * 2 ^ 21 < n + 2 ^ 21" for n :: nat
    using div_mult_mod_eq [of "n + 2097151" 2097152] mod_less_divisor [of 2097152 "n + 2097151"] by simp linarith
  ultimately show ?thesis unfolding unat_round_up_2M [OF assms(5)] by simp
qed

definition busy_kernel :: shm_env where
  "busy_kernel = \<lparr>draw = (\<lambda>n. of_nat n + 7),
     shmget = (\<lambda>n key sz. if key = 9 then Shm_id 42 else Shm_exists), shmat = (\<lambda>i. 0x7F0000000000), mbind = (\<lambda>_ _ _. True)\<rparr>"

theorem huge_memory_witness:
  "get_huge_mem 3 busy_kernel 0 5000000 = Inr 0x7F0000000000
    \<and> unat (round_up_to (2 * 1024 * 1024) 5000000) < unat (5000000 :: u64) + 2 ^ 21"
proof -
  have "i < 2 \<Longrightarrow> shmget busy_kernel i (abs_int (draw busy_kernel i)) (round_up_to (2 * 1024 * 1024) 5000000) = Shm_exists" for i
    by (auto simp: busy_kernel_def abs_int_def less_2_cases_iff)
  moreover have "shmget busy_kernel 2 (abs_int (draw busy_kernel 2)) (round_up_to (2 * 1024 * 1024) 5000000) = Shm_id 42"
    "shmat busy_kernel 42 = 0x7F0000000000"
    by (simp_all add: busy_kernel_def abs_int_def)
  ultimately show ?thesis
    using huge_memory [of 2 busy_kernel 5000000 42 3 0] by (simp add: busy_kernel_def)
qed

text \<open>The test bench binds its thread to core \<open>i\<close> of node 0 in the order of the cores and then
  waits to run on core number 1.  On a node with no second core the list is read past its end after the
  message, where \<open>bind_to_core\<close> returns; and when the second core is not core number 1 the thread, bound
  to it, waits for ever.\<close>

theorem unchecked_binding:
  assumes "length (filter (\<lambda>i. 0 = node_of_cpu env i) [0..<configured_cpus env]) = n"
  shows "(n \<le> 1 \<longrightarrow> set_cpu_with_numa env setaffinity 1 0 = Inl Overrun)
    \<and> (set_cpu_with_numa env setaffinity 1 0 = Inr (Some core) \<and> core \<noteq> 1
        \<longrightarrow> wait_scheduling fuel 1 (\<lambda>_. core) 0 = Inl Out_of_fuel)"
proof (intro conjI impI)
  show "set_cpu_with_numa env setaffinity 1 0 = Inl Overrun" if "n \<le> 1"
    using assms that by (simp add: set_cpu_with_numa_def Let_def)
  show "wait_scheduling fuel 1 (\<lambda>_. core) 0 = Inl Out_of_fuel"
    if "set_cpu_with_numa env setaffinity 1 0 = Inr (Some core) \<and> core \<noteq> 1"
    using that by (intro wait_scheduling_never) simp
qed

text \<open>Two sockets whose cores are numbered in turn.\<close>

definition two_sockets :: numa where
  "two_sockets = \<lparr>configured_cpus = 4, configured_nodes = 2, max_node = 1, node_of_cpu = (\<lambda>i. of_nat (i mod 2))\<rparr>"

theorem unchecked_binding_witness:
  "set_cpu_with_numa two_sockets (\<lambda>_. True) 1 0 = Inr (Some 2)
    \<and> wait_scheduling 1000 1 (\<lambda>_. 2) 0 = Inl Out_of_fuel"
proof -
  have u: "[0..<4] = [0, 1, 2, 3 :: nat]" by (simp add: upt_rec)
  have "set_cpu_with_numa two_sockets (\<lambda>_. True) 1 0 = Inr (Some 2)"
    by (simp add: set_cpu_with_numa_def two_sockets_def u)
  moreover have "length (filter (\<lambda>i. 0 = node_of_cpu two_sockets i) [0..<configured_cpus two_sockets]) = 2"
    by (simp add: two_sockets_def u)
  ultimately show ?thesis using unchecked_binding [of two_sockets 2 "\<lambda>_. True" 2 1000] by simp
qed

text \<open>\<open>bind_to_core\<close> binds only to a core of the node it is given, and ignores the request exactly
  when the node has no core of that index.\<close>

theorem bound_core_on_node:
  assumes "bind_to_core env setaffinity node i = Inr r"
  shows "case r of
      Some core \<Rightarrow> core < configured_cpus env \<and> scast (node_of_cpu env core) = node \<and> setaffinity core
    | None \<Rightarrow> card {k. k < configured_cpus env \<and> scast (node_of_cpu env k) = node} \<le> unat i"
proof -
  obtain cores where c: "get_lcores_for_numa_node env node = Inr cores"
    using assms by (auto simp: bind_to_core_def andThen_eq_Inr)
  note L = lcores_nth [OF c]
  have card: "card (set cores) = length cores" using L(1) strict_sorted_iff distinct_card by blast
  show ?thesis
  proof (cases "length cores \<le> unat i")
    case True
    then show ?thesis using assms c card L(2) by (simp add: bind_to_core_def)
  next
    case False
    then have "cores ! unat i \<in> set cores" by simp
    then have core: "cores ! unat i < configured_cpus env" "scast (node_of_cpu env (cores ! unat i)) = node"
      unfolding L(2) by simp_all
    have "setaffinity (cores ! unat i)" "r = Some (cores ! unat i)"
      using assms False unfolding bind_to_core_def c by (simp_all add: andThen_eq_Inr Let_def)
    with core show ?thesis by simp
  qed
qed

theorem bound_core_on_node_witness:
  "bind_to_core two_sockets (\<lambda>_. True) 1 1 = Inr (Some 3) \<and> (scast (node_of_cpu two_sockets 3) :: u64) = 1"
proof -
  have u: "[0..<4] = [0, 1, 2, 3 :: nat]" by (simp add: upt_rec)
  have "bind_to_core two_sockets (\<lambda>_. True) 1 1 = Inr (Some 3)"
    by (simp add: bind_to_core_def get_lcores_for_numa_node_def two_sockets_def u)
  from bound_core_on_node [OF this] this show ?thesis by simp
qed

text \<open>A failure of \<open>shmat\<close>, reported as -1, passes the assertion, which compares with null.\<close>

theorem huge_memory_attach_failure:
  assumes "get_shm_id fuel env (round_up_to (2 * 1024 * 1024) sz) 0 = Inr shm_id" and "shmat env shm_id = - 1"
  shows "get_huge_mem fuel env numa_node sz
    = (if mbind env (- 1) (round_up_to (2 * 1024 * 1024) sz) (push_bit (unat numa_node) 1) then Inr (- 1) else Inl Exit)"
  using assms by (simp add: get_huge_mem_def require_def)

theorem huge_memory_attach_failure_witness:
  "get_huge_mem 3 (busy_kernel\<lparr>shmat := (\<lambda>_. - 1)\<rparr>) 0 4096 = Inr (- 1)"
proof -
  let ?env = "busy_kernel\<lparr>shmat := (\<lambda>_. - 1)\<rparr>"
  have "get_shm_id 3 ?env (round_up_to (2 * 1024 * 1024) 4096) 0 = Inr 42"
    by (simp add: busy_kernel_def abs_int_def numeral_3_eq_3)
  from huge_memory_attach_failure [OF this] show ?thesis by (simp add: busy_kernel_def)
qed

end
