(* ===== verification/Aes.thy ===== *)
theory Aes
  imports Rpc_Prelude
begin

text \<open>
  The cipher of \<open>test_suite/e2e_compression/sw_baseline/AES.h\<close> and \<open>AES.cpp\<close>: the tables, the rounds, the key
  schedule, and the three modes on byte arrays.  The state is the array \<open>state[4][4]\<close> as a list of rows.
\<close>

section \<open>Tables\<close>

definition sbox :: "u8 list list" where
  "sbox = [
     [0x63, 0x7c, 0x77, 0x7b, 0xf2, 0x6b, 0x6f, 0xc5, 0x30, 0x01, 0x67, 0x2b, 0xfe, 0xd7, 0xab, 0x76],
     [0xca, 0x82, 0xc9, 0x7d, 0xfa, 0x59, 0x47, 0xf0, 0xad, 0xd4, 0xa2, 0xaf, 0x9c, 0xa4, 0x72, 0xc0],
     [0xb7, 0xfd, 0x93, 0x26, 0x36, 0x3f, 0xf7, 0xcc, 0x34, 0xa5, 0xe5, 0xf1, 0x71, 0xd8, 0x31, 0x15],
     [0x04, 0xc7, 0x23, 0xc3, 0x18, 0x96, 0x05, 0x9a, 0x07, 0x12, 0x80, 0xe2, 0xeb, 0x27, 0xb2, 0x75],
     [0x09, 0x83, 0x2c, 0x1a, 0x1b, 0x6e, 0x5a, 0xa0, 0x52, 0x3b, 0xd6, 0xb3, 0x29, 0xe3, 0x2f, 0x84],
     [0x53, 0xd1, 0x00, 0xed, 0x20, 0xfc, 0xb1, 0x5b, 0x6a, 0xcb, 0xbe, 0x39, 0x4a, 0x4c, 0x58, 0xcf],
     [0xd0, 0xef, 0xaa, 0xfb, 0x43, 0x4d, 0x33, 0x85, 0x45, 0xf9, 0x02, 0x7f, 0x50, 0x3c, 0x9f, 0xa8],
     [0x51, 0xa3, 0x40, 0x8f, 0x92, 0x9d, 0x38, 0xf5, 0xbc, 0xb6, 0xda, 0x21, 0x10, 0xff, 0xf3, 0xd2],
     [0xcd, 0x0c, 0x13, 0xec, 0x5f, 0x97, 0x44, 0x17, 0xc4, 0xa7, 0x7e, 0x3d, 0x64, 0x5d, 0x19, 0x73],
     [0x60, 0x81, 0x4f, 0xdc, 0x22, 0x2a, 0x90, 0x88, 0x46, 0xee, 0xb8, 0x14, 0xde, 0x5e, 0x0b, 0xdb],
     [0xe0, 0x32, 0x3a, 0x0a, 0x49, 0x06, 0x24, 0x5c, 0xc2, 0xd3, 0xac, 0x62, 0x91, 0x95, 0xe4, 0x79],
     [0xe7, 0xc8, 0x37, 0x6d, 0x8d, 0xd5, 0x4e, 0xa9, 0x6c, 0x56, 0xf4, 0xea, 0x65, 0x7a, 0xae, 0x08],
     [0xba, 0x78, 0x25, 0x2e, 0x1c, 0xa6, 0xb4, 0xc6, 0xe8, 0xdd, 0x74, 0x1f, 0x4b, 0xbd, 0x8b, 0x8a],
     [0x70, 0x3e, 0xb5, 0x66, 0x48, 0x03, 0xf6, 0x0e, 0x61, 0x35, 0x57, 0xb9, 0x86, 0xc1, 0x1d, 0x9e],
     [0xe1, 0xf8, 0x98, 0x11, 0x69, 0xd9, 0x8e, 0x94, 0x9b, 0x1e, 0x87, 0xe9, 0xce, 0x55, 0x28, 0xdf],
     [0x8c, 0xa1, 0x89, 0x0d, 0xbf, 0xe6, 0x42, 0x68, 0x41, 0x99, 0x2d, 0x0f, 0xb0, 0x54, 0xbb, 0x16]]"

definition inv_sbox :: "u8 list list" where
  "inv_sbox = [
     [0x52, 0x09, 0x6a, 0xd5, 0x30, 0x36, 0xa5, 0x38, 0xbf, 0x40, 0xa3, 0x9e, 0x81, 0xf3, 0xd7, 0xfb],
     [0x7c, 0xe3, 0x39, 0x82, 0x9b, 0x2f, 0xff, 0x87, 0x34, 0x8e, 0x43, 0x44, 0xc4, 0xde, 0xe9, 0xcb],
     [0x54, 0x7b, 0x94, 0x32, 0xa6, 0xc2, 0x23, 0x3d, 0xee, 0x4c, 0x95, 0x0b, 0x42, 0xfa, 0xc3, 0x4e],
     [0x08, 0x2e, 0xa1, 0x66, 0x28, 0xd9, 0x24, 0xb2, 0x76, 0x5b, 0xa2, 0x49, 0x6d, 0x8b, 0xd1, 0x25],
     [0x72, 0xf8, 0xf6, 0x64, 0x86, 0x68, 0x98, 0x16, 0xd4, 0xa4, 0x5c, 0xcc, 0x5d, 0x65, 0xb6, 0x92],
     [0x6c, 0x70, 0x48, 0x50, 0xfd, 0xed, 0xb9, 0xda, 0x5e, 0x15, 0x46, 0x57, 0xa7, 0x8d, 0x9d, 0x84],
     [0x90, 0xd8, 0xab, 0x00, 0x8c, 0xbc, 0xd3, 0x0a, 0xf7, 0xe4, 0x58, 0x05, 0xb8, 0xb3, 0x45, 0x06],
     [0xd0, 0x2c, 0x1e, 0x8f, 0xca, 0x3f, 0x0f, 0x02, 0xc1, 0xaf, 0xbd, 0x03, 0x01, 0x13, 0x8a, 0x6b],
     [0x3a, 0x91, 0x11, 0x41, 0x4f, 0x67, 0xdc, 0xea, 0x97, 0xf2, 0xcf, 0xce, 0xf0, 0xb4, 0xe6, 0x73],
     [0x96, 0xac, 0x74, 0x22, 0xe7, 0xad, 0x35, 0x85, 0xe2, 0xf9, 0x37, 0xe8, 0x1c, 0x75, 0xdf, 0x6e],
     [0x47, 0xf1, 0x1a, 0x71, 0x1d, 0x29, 0xc5, 0x89, 0x6f, 0xb7, 0x62, 0x0e, 0xaa, 0x18, 0xbe, 0x1b],
     [0xfc, 0x56, 0x3e, 0x4b, 0xc6, 0xd2, 0x79, 0x20, 0x9a, 0xdb, 0xc0, 0xfe, 0x78, 0xcd, 0x5a, 0xf4],
     [0x1f, 0xdd, 0xa8, 0x33, 0x88, 0x07, 0xc7, 0x31, 0xb1, 0x12, 0x10, 0x59, 0x27, 0x80, 0xec, 0x5f],
     [0x60, 0x51, 0x7f, 0xa9, 0x19, 0xb5, 0x4a, 0x0d, 0x2d, 0xe5, 0x7a, 0x9f, 0x93, 0xc9, 0x9c, 0xef],
     [0xa0, 0xe0, 0x3b, 0x4d, 0xae, 0x2a, 0xf5, 0xb0, 0xc8, 0xeb, 0xbb, 0x3c, 0x83, 0x53, 0x99, 0x61],
     [0x17, 0x2b, 0x04, 0x7e, 0xba, 0x77, 0xd6, 0x26, 0xe1, 0x69, 0x14, 0x63, 0x55, 0x21, 0x0c, 0x7d]]"

text \<open>The rows that are not initialised are zero.\<close>

definition GF_MUL_2 :: "u8 list" where
  "GF_MUL_2 = [
     0x00, 0x02, 0x04, 0x06, 0x08, 0x0a, 0x0c, 0x0e, 0x10, 0x12, 0x14, 0x16, 0x18, 0x1a, 0x1c, 0x1e,
     0x20, 0x22, 0x24, 0x26, 0x28, 0x2a, 0x2c, 0x2e, 0x30, 0x32, 0x34, 0x36, 0x38, 0x3a, 0x3c, 0x3e,
     0x40, 0x42, 0x44, 0x46, 0x48, 0x4a, 0x4c, 0x4e, 0x50, 0x52, 0x54, 0x56, 0x58, 0x5a, 0x5c, 0x5e,
     0x60, 0x62, 0x64, 0x66, 0x68, 0x6a, 0x6c, 0x6e, 0x70, 0x72, 0x74, 0x76, 0x78, 0x7a, 0x7c, 0x7e,
     0x80, 0x82, 0x84, 0x86, 0x88, 0x8a, 0x8c, 0x8e, 0x90, 0x92, 0x94, 0x96, 0x98, 0x9a, 0x9c, 0x9e,
     0xa0, 0xa2, 0xa4, 0xa6, 0xa8, 0xaa, 0xac, 0xae, 0xb0, 0xb2, 0xb4, 0xb6, 0xb8, 0xba, 0xbc, 0xbe,
     0xc0, 0xc2, 0xc4, 0xc6, 0xc8, 0xca, 0xcc, 0xce, 0xd0, 0xd2, 0xd4, 0xd6, 0xd8, 0xda, 0xdc, 0xde,
     0xe0, 0xe2, 0xe4, 0xe6, 0xe8, 0xea, 0xec, 0xee, 0xf0, 0xf2, 0xf4, 0xf6, 0xf8, 0xfa, 0xfc, 0xfe,
     0x1b, 0x19, 0x1f, 0x1d, 0x13, 0x11, 0x17, 0x15, 0x0b, 0x09, 0x0f, 0x0d, 0x03, 0x01, 0x07, 0x05,
     0x3b, 0x39, 0x3f, 0x3d, 0x33, 0x31, 0x37, 0x35, 0x2b, 0x29, 0x2f, 0x2d, 0x23, 0x21, 0x27, 0x25,
     0x5b, 0x59, 0x5f, 0x5d, 0x53, 0x51, 0x57, 0x55, 0x4b, 0x49, 0x4f, 0x4d, 0x43, 0x41, 0x47, 0x45,
     0x7b, 0x79, 0x7f, 0x7d, 0x73, 0x71, 0x77, 0x75, 0x6b, 0x69, 0x6f, 0x6d, 0x63, 0x61, 0x67, 0x65,
     0x9b, 0x99, 0x9f, 0x9d, 0x93, 0x91, 0x97, 0x95, 0x8b, 0x89, 0x8f, 0x8d, 0x83, 0x81, 0x87, 0x85,
     0xbb, 0xb9, 0xbf, 0xbd, 0xb3, 0xb1, 0xb7, 0xb5, 0xab, 0xa9, 0xaf, 0xad, 0xa3, 0xa1, 0xa7, 0xa5,
     0xdb, 0xd9, 0xdf, 0xdd, 0xd3, 0xd1, 0xd7, 0xd5, 0xcb, 0xc9, 0xcf, 0xcd, 0xc3, 0xc1, 0xc7, 0xc5,
     0xfb, 0xf9, 0xff, 0xfd, 0xf3, 0xf1, 0xf7, 0xf5, 0xeb, 0xe9, 0xef, 0xed, 0xe3, 0xe1, 0xe7, 0xe5]"

definition GF_MUL_3 :: "u8 list" where
  "GF_MUL_3 = [
     0x00, 0x03, 0x06, 0x05, 0x0c, 0x0f, 0x0a, 0x09, 0x18, 0x1b, 0x1e, 0x1d, 0x14, 0x17, 0x12, 0x11,
     0x30, 0x33, 0x36, 0x35, 0x3c, 0x3f, 0x3a, 0x39, 0x28, 0x2b, 0x2e, 0x2d, 0x24, 0x27, 0x22, 0x21,
     0x60, 0x63, 0x66, 0x65, 0x6c, 0x6f, 0x6a, 0x69, 0x78, 0x7b, 0x7e, 0x7d, 0x74, 0x77, 0x72, 0x71,
     0x50, 0x53, 0x56, 0x55, 0x5c, 0x5f, 0x5a, 0x59, 0x48, 0x4b, 0x4e, 0x4d, 0x44, 0x47, 0x42, 0x41,
     0xc0, 0xc3, 0xc6, 0xc5, 0xcc, 0xcf, 0xca, 0xc9, 0xd8, 0xdb, 0xde, 0xdd, 0xd4, 0xd7, 0xd2, 0xd1,
     0xf0, 0xf3, 0xf6, 0xf5, 0xfc, 0xff, 0xfa, 0xf9, 0xe8, 0xeb, 0xee, 0xed, 0xe4, 0xe7, 0xe2, 0xe1,
     0xa0, 0xa3, 0xa6, 0xa5, 0xac, 0xaf, 0xaa, 0xa9, 0xb8, 0xbb, 0xbe, 0xbd, 0xb4, 0xb7, 0xb2, 0xb1,
     0x90, 0x93, 0x96, 0x95, 0x9c, 0x9f, 0x9a, 0x99, 0x88, 0x8b, 0x8e, 0x8d, 0x84, 0x87, 0x82, 0x81,
     0x9b, 0x98, 0x9d, 0x9e, 0x97, 0x94, 0x91, 0x92, 0x83, 0x80, 0x85, 0x86, 0x8f, 0x8c, 0x89, 0x8a,
     0xab, 0xa8, 0xad, 0xae, 0xa7, 0xa4, 0xa1, 0xa2, 0xb3, 0xb0, 0xb5, 0xb6, 0xbf, 0xbc, 0xb9, 0xba,
     0xfb, 0xf8, 0xfd, 0xfe, 0xf7, 0xf4, 0xf1, 0xf2, 0xe3, 0xe0, 0xe5, 0xe6, 0xef, 0xec, 0xe9, 0xea,
     0xcb, 0xc8, 0xcd, 0xce, 0xc7, 0xc4, 0xc1, 0xc2, 0xd3, 0xd0, 0xd5, 0xd6, 0xdf, 0xdc, 0xd9, 0xda,
     0x5b, 0x58, 0x5d, 0x5e, 0x57, 0x54, 0x51, 0x52, 0x43, 0x40, 0x45, 0x46, 0x4f, 0x4c, 0x49, 0x4a,
     0x6b, 0x68, 0x6d, 0x6e, 0x67, 0x64, 0x61, 0x62, 0x73, 0x70, 0x75, 0x76, 0x7f, 0x7c, 0x79, 0x7a,
     0x3b, 0x38, 0x3d, 0x3e, 0x37, 0x34, 0x31, 0x32, 0x23, 0x20, 0x25, 0x26, 0x2f, 0x2c, 0x29, 0x2a,
     0x0b, 0x08, 0x0d, 0x0e, 0x07, 0x04, 0x01, 0x02, 0x13, 0x10, 0x15, 0x16, 0x1f, 0x1c, 0x19, 0x1a]"

definition GF_MUL_9 :: "u8 list" where
  "GF_MUL_9 = [
     0x00, 0x09, 0x12, 0x1b, 0x24, 0x2d, 0x36, 0x3f, 0x48, 0x41, 0x5a, 0x53, 0x6c, 0x65, 0x7e, 0x77,
     0x90, 0x99, 0x82, 0x8b, 0xb4, 0xbd, 0xa6, 0xaf, 0xd8, 0xd1, 0xca, 0xc3, 0xfc, 0xf5, 0xee, 0xe7,
     0x3b, 0x32, 0x29, 0x20, 0x1f, 0x16, 0x0d, 0x04, 0x73, 0x7a, 0x61, 0x68, 0x57, 0x5e, 0x45, 0x4c,
     0xab, 0xa2, 0xb9, 0xb0, 0x8f, 0x86, 0x9d, 0x94, 0xe3, 0xea, 0xf1, 0xf8, 0xc7, 0xce, 0xd5, 0xdc,
     0x76, 0x7f, 0x64, 0x6d, 0x52, 0x5b, 0x40, 0x49, 0x3e, 0x37, 0x2c, 0x25, 0x1a, 0x13, 0x08, 0x01,
     0xe6, 0xef, 0xf4, 0xfd, 0xc2, 0xcb, 0xd0, 0xd9, 0xae, 0xa7, 0xbc, 0xb5, 0x8a, 0x83, 0x98, 0x91,
     0x4d, 0x44, 0x5f, 0x56, 0x69, 0x60, 0x7b, 0x72, 0x05, 0x0c, 0x17, 0x1e, 0x21, 0x28, 0x33, 0x3a,
     0xdd, 0xd4, 0xcf, 0xc6, 0xf9, 0xf0, 0xeb, 0xe2, 0x95, 0x9c, 0x87, 0x8e, 0xb1, 0xb8, 0xa3, 0xaa,
     0xec, 0xe5, 0xfe, 0xf7, 0xc8, 0xc1, 0xda, 0xd3, 0xa4, 0xad, 0xb6, 0xbf, 0x80, 0x89, 0x92, 0x9b,
     0x7c, 0x75, 0x6e, 0x67, 0x58, 0x51, 0x4a, 0x43, 0x34, 0x3d, 0x26, 0x2f, 0x10, 0x19, 0x02, 0x0b,
     0xd7, 0xde, 0xc5, 0xcc, 0xf3, 0xfa, 0xe1, 0xe8, 0x9f, 0x96, 0x8d, 0x84, 0xbb, 0xb2, 0xa9, 0xa0,
     0x47, 0x4e, 0x55, 0x5c, 0x63, 0x6a, 0x71, 0x78, 0x0f, 0x06, 0x1d, 0x14, 0x2b, 0x22, 0x39, 0x30,
     0x9a, 0x93, 0x88, 0x81, 0xbe, 0xb7, 0xac, 0xa5, 0xd2, 0xdb, 0xc0, 0xc9, 0xf6, 0xff, 0xe4, 0xed,
     0x0a, 0x03, 0x18, 0x11, 0x2e, 0x27, 0x3c, 0x35, 0x42, 0x4b, 0x50, 0x59, 0x66, 0x6f, 0x74, 0x7d,
     0xa1, 0xa8, 0xb3, 0xba, 0x85, 0x8c, 0x97, 0x9e, 0xe9, 0xe0, 0xfb, 0xf2, 0xcd, 0xc4, 0xdf, 0xd6,
     0x31, 0x38, 0x23, 0x2a, 0x15, 0x1c, 0x07, 0x0e, 0x79, 0x70, 0x6b, 0x62, 0x5d, 0x54, 0x4f, 0x46]"

definition GF_MUL_11 :: "u8 list" where
  "GF_MUL_11 = [
     0x00, 0x0b, 0x16, 0x1d, 0x2c, 0x27, 0x3a, 0x31, 0x58, 0x53, 0x4e, 0x45, 0x74, 0x7f, 0x62, 0x69,
     0xb0, 0xbb, 0xa6, 0xad, 0x9c, 0x97, 0x8a, 0x81, 0xe8, 0xe3, 0xfe, 0xf5, 0xc4, 0xcf, 0xd2, 0xd9,
     0x7b, 0x70, 0x6d, 0x66, 0x57, 0x5c, 0x41, 0x4a, 0x23, 0x28, 0x35, 0x3e, 0x0f, 0x04, 0x19, 0x12,
     0xcb, 0xc0, 0xdd, 0xd6, 0xe7, 0xec, 0xf1, 0xfa, 0x93, 0x98, 0x85, 0x8e, 0xbf, 0xb4, 0xa9, 0xa2,
     0xf6, 0xfd, 0xe0, 0xeb, 0xda, 0xd1, 0xcc, 0xc7, 0xae, 0xa5, 0xb8, 0xb3, 0x82, 0x89, 0x94, 0x9f,
     0x46, 0x4d, 0x50, 0x5b, 0x6a, 0x61, 0x7c, 0x77, 0x1e, 0x15, 0x08, 0x03, 0x32, 0x39, 0x24, 0x2f,
     0x8d, 0x86, 0x9b, 0x90, 0xa1, 0xaa, 0xb7, 0xbc, 0xd5, 0xde, 0xc3, 0xc8, 0xf9, 0xf2, 0xef, 0xe4,
     0x3d, 0x36, 0x2b, 0x20, 0x11, 0x1a, 0x07, 0x0c, 0x65, 0x6e, 0x73, 0x78, 0x49, 0x42, 0x5f, 0x54,
     0xf7, 0xfc, 0xe1, 0xea, 0xdb, 0xd0, 0xcd, 0xc6, 0xaf, 0xa4, 0xb9, 0xb2, 0x83, 0x88, 0x95, 0x9e,
     0x47, 0x4c, 0x51, 0x5a, 0x6b, 0x60, 0x7d, 0x76, 0x1f, 0x14, 0x09, 0x02, 0x33, 0x38, 0x25, 0x2e,
     0x8c, 0x87, 0x9a, 0x91, 0xa0, 0xab, 0xb6, 0xbd, 0xd4, 0xdf, 0xc2, 0xc9, 0xf8, 0xf3, 0xee, 0xe5,
     0x3c, 0x37, 0x2a, 0x21, 0x10, 0x1b, 0x06, 0x0d, 0x64, 0x6f, 0x72, 0x79, 0x48, 0x43, 0x5e, 0x55,
     0x01, 0x0a, 0x17, 0x1c, 0x2d, 0x26, 0x3b, 0x30, 0x59, 0x52, 0x4f, 0x44, 0x75, 0x7e, 0x63, 0x68,
     0xb1, 0xba, 0xa7, 0xac, 0x9d, 0x96, 0x8b, 0x80, 0xe9, 0xe2, 0xff, 0xf4, 0xc5, 0xce, 0xd3, 0xd8,
     0x7a, 0x71, 0x6c, 0x67, 0x56, 0x5d, 0x40, 0x4b, 0x22, 0x29, 0x34, 0x3f, 0x0e, 0x05, 0x18, 0x13,
     0xca, 0xc1, 0xdc, 0xd7, 0xe6, 0xed, 0xf0, 0xfb, 0x92, 0x99, 0x84, 0x8f, 0xbe, 0xb5, 0xa8, 0xa3]"

definition GF_MUL_13 :: "u8 list" where
  "GF_MUL_13 = [
     0x00, 0x0d, 0x1a, 0x17, 0x34, 0x39, 0x2e, 0x23, 0x68, 0x65, 0x72, 0x7f, 0x5c, 0x51, 0x46, 0x4b,
     0xd0, 0xdd, 0xca, 0xc7, 0xe4, 0xe9, 0xfe, 0xf3, 0xb8, 0xb5, 0xa2, 0xaf, 0x8c, 0x81, 0x96, 0x9b,
     0xbb, 0xb6, 0xa1, 0xac, 0x8f, 0x82, 0x95, 0x98, 0xd3, 0xde, 0xc9, 0xc4, 0xe7, 0xea, 0xfd, 0xf0,
     0x6b, 0x66, 0x71, 0x7c, 0x5f, 0x52, 0x45, 0x48, 0x03, 0x0e, 0x19, 0x14, 0x37, 0x3a, 0x2d, 0x20,
     0x6d, 0x60, 0x77, 0x7a, 0x59, 0x54, 0x43, 0x4e, 0x05, 0x08, 0x1f, 0x12, 0x31, 0x3c, 0x2b, 0x26,
     0xbd, 0xb0, 0xa7, 0xaa, 0x89, 0x84, 0x93, 0x9e, 0xd5, 0xd8, 0xcf, 0xc2, 0xe1, 0xec, 0xfb, 0xf6,
     0xd6, 0xdb, 0xcc, 0xc1, 0xe2, 0xef, 0xf8, 0xf5, 0xbe, 0xb3, 0xa4, 0xa9, 0x8a, 0x87, 0x90, 0x9d,
     0x06, 0x0b, 0x1c, 0x11, 0x32, 0x3f, 0x28, 0x25, 0x6e, 0x63, 0x74, 0x79, 0x5a, 0x57, 0x40, 0x4d,
     0xda, 0xd7, 0xc0, 0xcd, 0xee, 0xe3, 0xf4, 0xf9, 0xb2, 0xbf, 0xa8, 0xa5, 0x86, 0x8b, 0x9c, 0x91,
     0x0a, 0x07, 0x10, 0x1d, 0x3e, 0x33, 0x24, 0x29, 0x62, 0x6f, 0x78, 0x75, 0x56, 0x5b, 0x4c, 0x41,
     0x61, 0x6c, 0x7b, 0x76, 0x55, 0x58, 0x4f, 0x42, 0x09, 0x04, 0x13, 0x1e, 0x3d, 0x30, 0x27, 0x2a,
     0xb1, 0xbc, 0xab, 0xa6, 0x85, 0x88, 0x9f, 0x92, 0xd9, 0xd4, 0xc3, 0xce, 0xed, 0xe0, 0xf7, 0xfa,
     0xb7, 0xba, 0xad, 0xa0, 0x83, 0x8e, 0x99, 0x94, 0xdf, 0xd2, 0xc5, 0xc8, 0xeb, 0xe6, 0xf1, 0xfc,
     0x67, 0x6a, 0x7d, 0x70, 0x53, 0x5e, 0x49, 0x44, 0x0f, 0x02, 0x15, 0x18, 0x3b, 0x36, 0x21, 0x2c,
     0x0c, 0x01, 0x16, 0x1b, 0x38, 0x35, 0x22, 0x2f, 0x64, 0x69, 0x7e, 0x73, 0x50, 0x5d, 0x4a, 0x47,
     0xdc, 0xd1, 0xc6, 0xcb, 0xe8, 0xe5, 0xf2, 0xff, 0xb4, 0xb9, 0xae, 0xa3, 0x80, 0x8d, 0x9a, 0x97]"

definition GF_MUL_14 :: "u8 list" where
  "GF_MUL_14 = [
     0x00, 0x0e, 0x1c, 0x12, 0x38, 0x36, 0x24, 0x2a, 0x70, 0x7e, 0x6c, 0x62, 0x48, 0x46, 0x54, 0x5a,
     0xe0, 0xee, 0xfc, 0xf2, 0xd8, 0xd6, 0xc4, 0xca, 0x90, 0x9e, 0x8c, 0x82, 0xa8, 0xa6, 0xb4, 0xba,
     0xdb, 0xd5, 0xc7, 0xc9, 0xe3, 0xed, 0xff, 0xf1, 0xab, 0xa5, 0xb7, 0xb9, 0x93, 0x9d, 0x8f, 0x81,
     0x3b, 0x35, 0x27, 0x29, 0x03, 0x0d, 0x1f, 0x11, 0x4b, 0x45, 0x57, 0x59, 0x73, 0x7d, 0x6f, 0x61,
     0xad, 0xa3, 0xb1, 0xbf, 0x95, 0x9b, 0x89, 0x87, 0xdd, 0xd3, 0xc1, 0xcf, 0xe5, 0xeb, 0xf9, 0xf7,
     0x4d, 0x43, 0x51, 0x5f, 0x75, 0x7b, 0x69, 0x67, 0x3d, 0x33, 0x21, 0x2f, 0x05, 0x0b, 0x19, 0x17,
     0x76, 0x78, 0x6a, 0x64, 0x4e, 0x40, 0x52, 0x5c, 0x06, 0x08, 0x1a, 0x14, 0x3e, 0x30, 0x22, 0x2c,
     0x96, 0x98, 0x8a, 0x84, 0xae, 0xa0, 0xb2, 0xbc, 0xe6, 0xe8, 0xfa, 0xf4, 0xde, 0xd0, 0xc2, 0xcc,
     0x41, 0x4f, 0x5d, 0x53, 0x79, 0x77, 0x65, 0x6b, 0x31, 0x3f, 0x2d, 0x23, 0x09, 0x07, 0x15, 0x1b,
     0xa1, 0xaf, 0xbd, 0xb3, 0x99, 0x97, 0x85, 0x8b, 0xd1, 0xdf, 0xcd, 0xc3, 0xe9, 0xe7, 0xf5, 0xfb,
     0x9a, 0x94, 0x86, 0x88, 0xa2, 0xac, 0xbe, 0xb0, 0xea, 0xe4, 0xf6, 0xf8, 0xd2, 0xdc, 0xce, 0xc0,
     0x7a, 0x74, 0x66, 0x68, 0x42, 0x4c, 0x5e, 0x50, 0x0a, 0x04, 0x16, 0x18, 0x32, 0x3c, 0x2e, 0x20,
     0xec, 0xe2, 0xf0, 0xfe, 0xd4, 0xda, 0xc8, 0xc6, 0x9c, 0x92, 0x80, 0x8e, 0xa4, 0xaa, 0xb8, 0xb6,
     0x0c, 0x02, 0x10, 0x1e, 0x34, 0x3a, 0x28, 0x26, 0x7c, 0x72, 0x60, 0x6e, 0x44, 0x4a, 0x58, 0x56,
     0x37, 0x39, 0x2b, 0x25, 0x0f, 0x01, 0x13, 0x1d, 0x47, 0x49, 0x5b, 0x55, 0x7f, 0x71, 0x63, 0x6d,
     0xd7, 0xd9, 0xcb, 0xc5, 0xef, 0xe1, 0xf3, 0xfd, 0xa7, 0xa9, 0xbb, 0xb5, 0x9f, 0x91, 0x83, 0x8d]"

definition GF_MUL_TABLE :: "u8 list list" where
  "GF_MUL_TABLE = [replicate 256 0, replicate 256 0, GF_MUL_2, GF_MUL_3, replicate 256 0, replicate 256 0, replicate 256 0, replicate 256 0, replicate 256 0, GF_MUL_9, replicate 256 0, GF_MUL_11, replicate 256 0, GF_MUL_13, GF_MUL_14]"

definition CMDS :: "nat list list" where
  "CMDS = [[2, 3, 1, 1], [1, 2, 3, 1], [1, 1, 2, 3], [3, 1, 1, 2]]"

definition INV_CMDS :: "nat list list" where
  "INV_CMDS = [[14, 11, 13, 9], [9, 14, 11, 13], [13, 9, 14, 11], [11, 13, 9, 14]]"

section \<open>The rounds\<close>

datatype AESKeyLength = AES_128 | AES_192 | AES_256

record AES =
  Nk :: nat
  Nr :: nat

definition new_AES :: "AESKeyLength \<Rightarrow> AES" where
  "new_AES keyLength = (case keyLength of
       AES_128 \<Rightarrow> \<lparr>Nk = 4, Nr = 10\<rparr>
     | AES_192 \<Rightarrow> \<lparr>Nk = 6, Nr = 12\<rparr>
     | AES_256 \<Rightarrow> \<lparr>Nk = 8, Nr = 14\<rparr>)"

type_synonym aes_state = "u8 list list"

definition by_sbox :: "u8 list list \<Rightarrow> u8 \<Rightarrow> u8" where
  "by_sbox box t = box ! unat (t div 16) ! unat (t mod 16)"

definition SubBytes :: "aes_state \<Rightarrow> aes_state" where
  "SubBytes st = map (map (by_sbox sbox)) st"

definition InvSubBytes :: "aes_state \<Rightarrow> aes_state" where
  "InvSubBytes st = map (map (by_sbox inv_sbox)) st"

definition ShiftRow :: "aes_state \<Rightarrow> nat \<Rightarrow> nat \<Rightarrow> aes_state" where
  "ShiftRow st i n = st[i := map (\<lambda>j. st ! i ! ((j + n) mod 4)) [0..<4]]"

definition ShiftRows :: "aes_state \<Rightarrow> aes_state" where
  "ShiftRows st = ShiftRow (ShiftRow (ShiftRow st 1 1) 2 2) 3 3"

definition InvShiftRows :: "aes_state \<Rightarrow> aes_state" where
  "InvShiftRows st = ShiftRow (ShiftRow (ShiftRow st 1 (4 - 1)) 2 (4 - 2)) 3 (4 - 3)"

definition xtime :: "u8 \<Rightarrow> u8" where
  "xtime b = push_bit 1 b XOR ((drop_bit 7 b AND 1) * 0x1b)"

definition MixColumns :: "aes_state \<Rightarrow> aes_state" where
  "MixColumns st = map (\<lambda>i. map (\<lambda>j.
       fold (\<lambda>k temp. if CMDS ! i ! k = 1 then temp XOR st ! k ! j
                      else temp XOR GF_MUL_TABLE ! (CMDS ! i ! k) ! unat (st ! k ! j)) [0..<4] 0) [0..<4]) [0..<4]"

definition InvMixColumns :: "aes_state \<Rightarrow> aes_state" where
  "InvMixColumns st = map (\<lambda>i. map (\<lambda>j.
       fold (\<lambda>k temp. temp XOR GF_MUL_TABLE ! (INV_CMDS ! i ! k) ! unat (st ! k ! j)) [0..<4] 0) [0..<4]) [0..<4]"

definition AddRoundKey :: "aes_state \<Rightarrow> bytes \<Rightarrow> aes_state" where
  "AddRoundKey st key = map (\<lambda>i. map (\<lambda>j. st ! i ! j XOR key ! (i + 4 * j)) [0..<4]) [0..<4]"

section \<open>One block\<close>

definition load_block :: "bytes \<Rightarrow> aes_state" where
  "load_block inp = map (\<lambda>i. map (\<lambda>j. inp ! (i + 4 * j)) [0..<4]) [0..<4]"

definition store_block :: "aes_state \<Rightarrow> bytes" where
  "store_block st = map (\<lambda>n. st ! (n mod 4) ! (n div 4)) [0..<16]"

definition EncryptBlock :: "AES \<Rightarrow> bytes \<Rightarrow> bytes \<Rightarrow> bytes" where
  "EncryptBlock ctx inp roundKeys =
     (let st = AddRoundKey (load_block inp) roundKeys;
          st = fold (\<lambda>round st. AddRoundKey (MixColumns (ShiftRows (SubBytes st))) (drop (round * 4 * 4) roundKeys))
                 [1..<Nr ctx] st
      in store_block (AddRoundKey (ShiftRows (SubBytes st)) (drop (Nr ctx * 4 * 4) roundKeys)))"

definition DecryptBlock :: "AES \<Rightarrow> bytes \<Rightarrow> bytes \<Rightarrow> bytes" where
  "DecryptBlock ctx inp roundKeys =
     (let st = AddRoundKey (load_block inp) (drop (Nr ctx * 4 * 4) roundKeys);
          st = fold (\<lambda>round st. InvMixColumns (AddRoundKey (InvShiftRows (InvSubBytes st)) (drop (round * 4 * 4) roundKeys)))
                 (rev [1..<Nr ctx]) st
      in store_block (AddRoundKey (InvShiftRows (InvSubBytes st)) roundKeys))"

section \<open>The key schedule\<close>

definition SubWord :: "bytes \<Rightarrow> bytes" where
  "SubWord a = map (\<lambda>i. by_sbox sbox (a ! i)) [0..<4]"

definition RotWord :: "bytes \<Rightarrow> bytes" where
  "RotWord a = [a ! 1, a ! 2, a ! 3, a ! 0]"

definition XorWords :: "bytes \<Rightarrow> bytes \<Rightarrow> bytes" where
  "XorWords a b = map (\<lambda>i. a ! i XOR b ! i) [0..<4]"

definition Rcon :: "nat \<Rightarrow> bytes" where
  "Rcon n = [(xtime ^^ (n - 1)) 1, 0, 0, 0]"

text \<open>One pass of the second loop, at \<open>i\<close>, the number of bytes of \<open>w\<close> already set.\<close>

definition next_word :: "AES \<Rightarrow> bytes \<Rightarrow> bytes" where
  "next_word ctx w =
     (let i = length w;
          temp = [w ! (i - 4), w ! (i - 4 + 1), w ! (i - 4 + 2), w ! (i - 4 + 3)];
          temp = (if i div 4 mod Nk ctx = 0 then XorWords (SubWord (RotWord temp)) (Rcon (i div (Nk ctx * 4)))
                  else if 6 < Nk ctx \<and> i div 4 mod Nk ctx = 4 then SubWord temp
                  else temp)
      in map (\<lambda>k. w ! (i + k - 4 * Nk ctx) XOR temp ! k) [0..<4])"

function expand_words :: "AES \<Rightarrow> bytes \<Rightarrow> bytes" where
  "expand_words ctx w =
     (if length w < 4 * 4 * (Nr ctx + 1) then expand_words ctx (w @ next_word ctx w) else w)"
  by pat_completeness auto
termination
  by (relation "measure (\<lambda>(ctx, w). 4 * 4 * (Nr ctx + 1) - length w)") (auto simp: next_word_def Let_def)

declare expand_words.simps [simp del]

definition KeyExpansion :: "AES \<Rightarrow> bytes \<Rightarrow> bytes result" where
  "KeyExpansion ctx key =
     (if length key < 4 * Nk ctx then Inl Overrun else Inr (expand_words ctx (take (4 * Nk ctx) key)))"

section \<open>The modes\<close>

definition CheckLength :: "u32 \<Rightarrow> unit result" where
  "CheckLength len = (if len mod 16 \<noteq> 0 then Inl Length_error else Inr ())"

definition XorBlocks :: "bytes \<Rightarrow> bytes \<Rightarrow> bytes" where
  "XorBlocks a b = map (\<lambda>i. a ! i XOR b ! i) [0..<16]"

text \<open>The loop over the blocks of the input.  Each mode keeps a \<open>block\<close> between passes and gives it with
  the output of a pass; the caller says how many bytes there are.\<close>

fun each_block :: "(bytes \<Rightarrow> bytes \<Rightarrow> bytes \<times> bytes) \<Rightarrow> nat \<Rightarrow> bytes \<Rightarrow> bytes \<Rightarrow> bytes result" where
  "each_block pass 0 inp block = Inr []"
| "each_block pass (Suc n) inp block =
     (if length inp < 16 then Inl Overrun
      else let (out, block) = pass (take 16 inp) block
           in andThen (each_block pass n (drop 16 inp) block) (\<lambda>rest. Inr (out @ rest)))"

definition run_mode :: "(bytes \<Rightarrow> bytes \<Rightarrow> bytes \<Rightarrow> bytes \<times> bytes) \<Rightarrow> AES \<Rightarrow> bytes \<Rightarrow> u32 \<Rightarrow> bytes \<Rightarrow> bytes \<Rightarrow> bytes result" where
  "run_mode pass ctx inp inLen key block =
     andThen (CheckLength inLen) (\<lambda>_.
     andThen (KeyExpansion ctx key) (\<lambda>roundKeys.
       each_block (pass roundKeys) (unat inLen div 16) inp block))"

definition ecb_encrypt_pass :: "AES \<Rightarrow> bytes \<Rightarrow> bytes \<Rightarrow> bytes \<Rightarrow> bytes \<times> bytes" where
  "ecb_encrypt_pass ctx roundKeys inp block = (EncryptBlock ctx inp roundKeys, block)"

definition ecb_decrypt_pass :: "AES \<Rightarrow> bytes \<Rightarrow> bytes \<Rightarrow> bytes \<Rightarrow> bytes \<times> bytes" where
  "ecb_decrypt_pass ctx roundKeys inp block = (DecryptBlock ctx inp roundKeys, block)"

definition cbc_encrypt_pass :: "AES \<Rightarrow> bytes \<Rightarrow> bytes \<Rightarrow> bytes \<Rightarrow> bytes \<times> bytes" where
  "cbc_encrypt_pass ctx roundKeys inp block =
     (let block = XorBlocks block inp;
          out = EncryptBlock ctx block roundKeys
      in (out, out))"

definition cbc_decrypt_pass :: "AES \<Rightarrow> bytes \<Rightarrow> bytes \<Rightarrow> bytes \<Rightarrow> bytes \<times> bytes" where
  "cbc_decrypt_pass ctx roundKeys inp block =
     (let out = DecryptBlock ctx inp roundKeys;
          out = XorBlocks block out
      in (out, inp))"

definition cfb_encrypt_pass :: "AES \<Rightarrow> bytes \<Rightarrow> bytes \<Rightarrow> bytes \<Rightarrow> bytes \<times> bytes" where
  "cfb_encrypt_pass ctx roundKeys inp block =
     (let encryptedBlock = EncryptBlock ctx block roundKeys;
          out = XorBlocks inp encryptedBlock
      in (out, out))"

definition cfb_decrypt_pass :: "AES \<Rightarrow> bytes \<Rightarrow> bytes \<Rightarrow> bytes \<Rightarrow> bytes \<times> bytes" where
  "cfb_decrypt_pass ctx roundKeys inp block =
     (let encryptedBlock = EncryptBlock ctx block roundKeys;
          out = XorBlocks inp encryptedBlock
      in (out, inp))"

definition EncryptECB :: "AES \<Rightarrow> bytes \<Rightarrow> u32 \<Rightarrow> bytes \<Rightarrow> bytes result" where
  "EncryptECB ctx inp inLen key = run_mode (ecb_encrypt_pass ctx) ctx inp inLen key []"

definition DecryptECB :: "AES \<Rightarrow> bytes \<Rightarrow> u32 \<Rightarrow> bytes \<Rightarrow> bytes result" where
  "DecryptECB ctx inp inLen key = run_mode (ecb_decrypt_pass ctx) ctx inp inLen key []"

text \<open>The other modes start from the 16 bytes of \<open>iv\<close>.\<close>

definition with_iv :: "bytes \<Rightarrow> (bytes \<Rightarrow> 'a result) \<Rightarrow> 'a result" where
  "with_iv iv f = (if length iv < 16 then Inl Overrun else f (take 16 iv))"

definition EncryptCBC :: "AES \<Rightarrow> bytes \<Rightarrow> u32 \<Rightarrow> bytes \<Rightarrow> bytes \<Rightarrow> bytes result" where
  "EncryptCBC ctx inp inLen key iv =
     andThen (CheckLength inLen) (\<lambda>_. with_iv iv (run_mode (cbc_encrypt_pass ctx) ctx inp inLen key))"

definition DecryptCBC :: "AES \<Rightarrow> bytes \<Rightarrow> u32 \<Rightarrow> bytes \<Rightarrow> bytes \<Rightarrow> bytes result" where
  "DecryptCBC ctx inp inLen key iv =
     andThen (CheckLength inLen) (\<lambda>_. with_iv iv (run_mode (cbc_decrypt_pass ctx) ctx inp inLen key))"

definition EncryptCFB :: "AES \<Rightarrow> bytes \<Rightarrow> u32 \<Rightarrow> bytes \<Rightarrow> bytes \<Rightarrow> bytes result" where
  "EncryptCFB ctx inp inLen key iv =
     andThen (CheckLength inLen) (\<lambda>_. with_iv iv (run_mode (cfb_encrypt_pass ctx) ctx inp inLen key))"

definition DecryptCFB :: "AES \<Rightarrow> bytes \<Rightarrow> u32 \<Rightarrow> bytes \<Rightarrow> bytes \<Rightarrow> bytes result" where
  "DecryptCFB ctx inp inLen key iv =
     andThen (CheckLength inLen) (\<lambda>_. with_iv iv (run_mode (cfb_decrypt_pass ctx) ctx inp inLen key))"

text \<open>The overloads on vectors pass the size as an \<open>unsigned int\<close>.\<close>

definition EncryptECB_vector :: "AES \<Rightarrow> bytes \<Rightarrow> bytes \<Rightarrow> bytes result" where
  "EncryptECB_vector ctx inp key = EncryptECB ctx inp (of_nat (length inp)) key"

definition DecryptECB_vector :: "AES \<Rightarrow> bytes \<Rightarrow> bytes \<Rightarrow> bytes result" where
  "DecryptECB_vector ctx inp key = DecryptECB ctx inp (of_nat (length inp)) key"

definition EncryptCBC_vector :: "AES \<Rightarrow> bytes \<Rightarrow> bytes \<Rightarrow> bytes \<Rightarrow> bytes result" where
  "EncryptCBC_vector ctx inp key iv = EncryptCBC ctx inp (of_nat (length inp)) key iv"

definition DecryptCBC_vector :: "AES \<Rightarrow> bytes \<Rightarrow> bytes \<Rightarrow> bytes \<Rightarrow> bytes result" where
  "DecryptCBC_vector ctx inp key iv = DecryptCBC ctx inp (of_nat (length inp)) key iv"

definition EncryptCFB_vector :: "AES \<Rightarrow> bytes \<Rightarrow> bytes \<Rightarrow> bytes \<Rightarrow> bytes result" where
  "EncryptCFB_vector ctx inp key iv = EncryptCFB ctx inp (of_nat (length inp)) key iv"

definition DecryptCFB_vector :: "AES \<Rightarrow> bytes \<Rightarrow> bytes \<Rightarrow> bytes \<Rightarrow> bytes result" where
  "DecryptCFB_vector ctx inp key iv = DecryptCFB ctx inp (of_nat (length inp)) key iv"


section \<open>The tables\<close>

definition every_byte :: "u8 list" where
  "every_byte = [0x00, 0x01, 0x02, 0x03, 0x04, 0x05, 0x06, 0x07, 0x08, 0x09, 0x0a, 0x0b, 0x0c, 0x0d, 0x0e, 0x0f, 0x10, 0x11, 0x12, 0x13, 0x14, 0x15, 0x16, 0x17, 0x18, 0x19, 0x1a, 0x1b, 0x1c, 0x1d, 0x1e, 0x1f, 0x20, 0x21, 0x22, 0x23, 0x24, 0x25, 0x26, 0x27, 0x28, 0x29, 0x2a, 0x2b, 0x2c, 0x2d, 0x2e, 0x2f, 0x30, 0x31, 0x32, 0x33, 0x34, 0x35, 0x36, 0x37, 0x38, 0x39, 0x3a, 0x3b, 0x3c, 0x3d, 0x3e, 0x3f, 0x40, 0x41, 0x42, 0x43, 0x44, 0x45, 0x46, 0x47, 0x48, 0x49, 0x4a, 0x4b, 0x4c, 0x4d, 0x4e, 0x4f, 0x50, 0x51, 0x52, 0x53, 0x54, 0x55, 0x56, 0x57, 0x58, 0x59, 0x5a, 0x5b, 0x5c, 0x5d, 0x5e, 0x5f, 0x60, 0x61, 0x62, 0x63, 0x64, 0x65, 0x66, 0x67, 0x68, 0x69, 0x6a, 0x6b, 0x6c, 0x6d, 0x6e, 0x6f, 0x70, 0x71, 0x72, 0x73, 0x74, 0x75, 0x76, 0x77, 0x78, 0x79, 0x7a, 0x7b, 0x7c, 0x7d, 0x7e, 0x7f, 0x80, 0x81, 0x82, 0x83, 0x84, 0x85, 0x86, 0x87, 0x88, 0x89, 0x8a, 0x8b, 0x8c, 0x8d, 0x8e, 0x8f, 0x90, 0x91, 0x92, 0x93, 0x94, 0x95, 0x96, 0x97, 0x98, 0x99, 0x9a, 0x9b, 0x9c, 0x9d, 0x9e, 0x9f, 0xa0, 0xa1, 0xa2, 0xa3, 0xa4, 0xa5, 0xa6, 0xa7, 0xa8, 0xa9, 0xaa, 0xab, 0xac, 0xad, 0xae, 0xaf, 0xb0, 0xb1, 0xb2, 0xb3, 0xb4, 0xb5, 0xb6, 0xb7, 0xb8, 0xb9, 0xba, 0xbb, 0xbc, 0xbd, 0xbe, 0xbf, 0xc0, 0xc1, 0xc2, 0xc3, 0xc4, 0xc5, 0xc6, 0xc7, 0xc8, 0xc9, 0xca, 0xcb, 0xcc, 0xcd, 0xce, 0xcf, 0xd0, 0xd1, 0xd2, 0xd3, 0xd4, 0xd5, 0xd6, 0xd7, 0xd8, 0xd9, 0xda, 0xdb, 0xdc, 0xdd, 0xde, 0xdf, 0xe0, 0xe1, 0xe2, 0xe3, 0xe4, 0xe5, 0xe6, 0xe7, 0xe8, 0xe9, 0xea, 0xeb, 0xec, 0xed, 0xee, 0xef, 0xf0, 0xf1, 0xf2, 0xf3, 0xf4, 0xf5, 0xf6, 0xf7, 0xf8, 0xf9, 0xfa, 0xfb, 0xfc, 0xfd, 0xfe, 0xff]"

lemma every_byte_eq: "every_byte = map of_nat [0..<256]"
  by (simp add: every_byte_def upt_rec)

lemma every_byte_nth: "map f every_byte ! unat a = f a"
  using unsigned_less [of a, where 'a = nat] by (simp add: every_byte_eq)

lemma every_byte_nth2: "map2 f (map g every_byte) every_byte ! unat a = f (g a) a"
  using unsigned_less [of a, where 'a = nat] by (simp add: every_byte_eq)

lemma map_every_byte: "map2 f (map g every_byte) (map h every_byte) = map (\<lambda>a. f (g a) (h a)) every_byte"
  by (simp add: map2_map_map)

text \<open>The powers of \<open>x\<close>, and the rows of the table by them.\<close>

lemma table_2: "GF_MUL_2 = map xtime every_byte"
  by (simp add: GF_MUL_2_def every_byte_def xtime_def)

lemma table_3: "GF_MUL_3 = map2 (XOR) GF_MUL_2 every_byte"
  by (simp add: GF_MUL_2_def GF_MUL_3_def every_byte_def)

lemma table_9: "GF_MUL_9 = map2 (XOR) (map xtime (map xtime GF_MUL_2)) every_byte"
  by (simp add: GF_MUL_2_def GF_MUL_9_def every_byte_def xtime_def)

lemma table_11: "GF_MUL_11 = map2 (XOR) GF_MUL_9 GF_MUL_2"
  by (simp add: GF_MUL_2_def GF_MUL_9_def GF_MUL_11_def)

lemma table_13: "GF_MUL_13 = map2 (XOR) GF_MUL_9 (map xtime GF_MUL_2)"
  by (simp add: GF_MUL_2_def GF_MUL_9_def GF_MUL_13_def xtime_def)

lemma table_14: "GF_MUL_14 = map2 (XOR) GF_MUL_13 GF_MUL_3"
  by (simp add: GF_MUL_3_def GF_MUL_13_def GF_MUL_14_def)

lemma sbox_all: "map (by_sbox sbox) every_byte = concat sbox"
  by (simp add: by_sbox_def sbox_def every_byte_def)

lemma inv_sbox_all: "map (by_sbox inv_sbox) (concat sbox) = every_byte"
  by (simp add: by_sbox_def sbox_def inv_sbox_def every_byte_def)

lemma sbox_inverse: "by_sbox inv_sbox (by_sbox sbox t) = t"
  using every_byte_nth [of "\<lambda>t. by_sbox inv_sbox (by_sbox sbox t)" t] every_byte_nth [of "\<lambda>t. t" t]
    inv_sbox_all by (simp add: sbox_all [symmetric] o_def)

lemma xtime_alt: "xtime b = push_bit 1 b XOR (if bit b 7 then 27 else 0)"
proof -
  have "drop_bit 7 b AND 1 = (if bit b 7 then 1 else 0)"
    by (rule bit_word_eqI) (auto simp: bit_simps intro!: gr0I)
  then show ?thesis by (simp only: xtime_def) simp
qed

lemma xtime_xor: "xtime (a XOR b) = xtime a XOR xtime b"
  by (auto simp: xtime_alt push_bit_xor bit_xor_iff xor.assoc xor.left_commute xor.commute)

text \<open>An entry of the table, by powers of \<open>x\<close>.\<close>

lemma tables_at:
  "GF_MUL_TABLE ! 2 ! unat a = xtime a"
  "GF_MUL_TABLE ! 3 ! unat a = xtime a XOR a"
  "GF_MUL_TABLE ! 9 ! unat a = xtime (xtime (xtime a)) XOR a"
  "GF_MUL_TABLE ! 11 ! unat a = xtime (xtime (xtime a)) XOR a XOR xtime a"
  "GF_MUL_TABLE ! 13 ! unat a = xtime (xtime (xtime a)) XOR a XOR xtime (xtime a)"
  "GF_MUL_TABLE ! 14 ! unat a = xtime (xtime (xtime a)) XOR a XOR xtime (xtime a) XOR (xtime a XOR a)"
proof -
  have e: "every_byte = map (\<lambda>a. a) every_byte" by simp
  have t: "GF_MUL_2 = map xtime every_byte" "GF_MUL_3 = map (\<lambda>a. xtime a XOR a) every_byte"
    "GF_MUL_9 = map (\<lambda>a. xtime (xtime (xtime a)) XOR a) every_byte"
    by (simp_all only: table_2 table_3 table_9 map_map o_def) (subst (2) e, simp only: map_every_byte)+
  have u: "GF_MUL_11 = map (\<lambda>a. xtime (xtime (xtime a)) XOR a XOR xtime a) every_byte"
    "GF_MUL_13 = map (\<lambda>a. xtime (xtime (xtime a)) XOR a XOR xtime (xtime a)) every_byte"
    by (simp_all only: table_11 table_13 t map_map o_def map_every_byte xor.assoc)
  have v: "GF_MUL_14 = map (\<lambda>a. xtime (xtime (xtime a)) XOR a XOR xtime (xtime a) XOR (xtime a XOR a)) every_byte"
    by (simp only: table_14 t u map_every_byte xor.assoc)
  show "GF_MUL_TABLE ! 2 ! unat a = xtime a" "GF_MUL_TABLE ! 3 ! unat a = xtime a XOR a"
    "GF_MUL_TABLE ! 9 ! unat a = xtime (xtime (xtime a)) XOR a"
    "GF_MUL_TABLE ! 11 ! unat a = xtime (xtime (xtime a)) XOR a XOR xtime a"
    "GF_MUL_TABLE ! 13 ! unat a = xtime (xtime (xtime a)) XOR a XOR xtime (xtime a)"
    "GF_MUL_TABLE ! 14 ! unat a = xtime (xtime (xtime a)) XOR a XOR xtime (xtime a) XOR (xtime a XOR a)"
    by (simp_all add: GF_MUL_TABLE_def t u v every_byte_nth)
qed

section \<open>The rounds undone\<close>

definition state_ok :: "aes_state \<Rightarrow> bool" where
  "state_ok st \<longleftrightarrow> length st = 4 \<and> list_all (\<lambda>r. length r = 4) st"

lemma four: "length xs = 4 \<longleftrightarrow> (\<exists>a b c d. xs = [a, b, c, d])"
  by (simp add: numeral_eq_Suc length_Suc_conv) blast

lemma state_okE:
  assumes "state_ok st"
  obtains a0 a1 a2 a3 b0 b1 b2 b3 c0 c1 c2 c3 d0 d1 d2 d3
    where "st = [[a0, a1, a2, a3], [b0, b1, b2, b3], [c0, c1, c2, c3], [d0, d1, d2, d3]]"
  using assms by (auto simp: state_ok_def four)

lemma upt_4: "[0..<4] = [0, 1, 2, 3 :: nat]"
  by (simp add: upt_rec)

lemma steps_ok [simp]:
  "state_ok st \<Longrightarrow> state_ok (SubBytes st)" "state_ok st \<Longrightarrow> state_ok (InvSubBytes st)"
  "state_ok st \<Longrightarrow> state_ok (ShiftRows st)" "state_ok st \<Longrightarrow> state_ok (InvShiftRows st)"
  "state_ok (MixColumns st)" "state_ok (InvMixColumns st)"
  "state_ok (AddRoundKey st key)" "state_ok (load_block inp)"
  by (auto simp: state_ok_def SubBytes_def InvSubBytes_def ShiftRows_def InvShiftRows_def ShiftRow_def MixColumns_def
      InvMixColumns_def AddRoundKey_def load_block_def upt_4 list_all_iff dest!: set_update_subset_insert [THEN subsetD])

lemma InvSubBytes_SubBytes: "InvSubBytes (SubBytes st) = st"
  by (simp add: InvSubBytes_def SubBytes_def sbox_inverse o_def)

lemma InvShiftRows_ShiftRows: "state_ok st \<Longrightarrow> InvShiftRows (ShiftRows st) = st"
  by (erule state_okE) (simp add: InvShiftRows_def ShiftRows_def ShiftRow_def upt_4)

lemma InvSubBytes_shift: "state_ok st \<Longrightarrow> InvShiftRows (InvSubBytes st) = InvSubBytes (InvShiftRows st)"
  by (erule state_okE) (simp add: InvShiftRows_def InvSubBytes_def ShiftRow_def upt_4)

lemma AddRoundKey_twice: "state_ok st \<Longrightarrow> AddRoundKey (AddRoundKey st key) key = st"
  by (erule state_okE) (simp add: AddRoundKey_def upt_4 xor.assoc)

lemma InvMixColumns_MixColumns:
  assumes "state_ok st"
  shows "InvMixColumns (MixColumns st) = st"
  using assms
  by (elim state_okE) (simp add: InvMixColumns_def MixColumns_def upt_4 CMDS_def INV_CMDS_def tables_at xtime_xor xor.assoc xor.left_commute xor.commute)

section \<open>Blocks\<close>

lemma length_store [simp]: "length (store_block st) = 16"
  by (simp add: store_block_def)

lemma upt_16: "[0..<16] = [0, 1, 2, 3, 4, 5, 6, 7, 8, 9, 10, 11, 12, 13, 14, 15 :: nat]"
  by (simp add: upt_rec)

lemma load_store: "state_ok st \<Longrightarrow> load_block (store_block st) = st"
  by (erule state_okE) (simp add: load_block_def store_block_def upt_4 upt_16)

lemma store_load: "length inp = 16 \<Longrightarrow> store_block (load_block inp) = inp"
  by (rule nth_equalityI) (simp_all add: load_block_def store_block_def less_mult_imp_div_less)

lemma unshift: "state_ok st \<Longrightarrow> InvShiftRows (InvSubBytes (ShiftRows (SubBytes st))) = st"
  by (simp add: InvSubBytes_shift InvShiftRows_ShiftRows InvSubBytes_SubBytes)

lemma rounds_undone:
  assumes "state_ok st"
  shows "fold (\<lambda>round st. InvMixColumns (AddRoundKey (InvShiftRows (InvSubBytes st)) (rk round))) (rev rs)
      (ShiftRows (SubBytes (fold (\<lambda>round st. AddRoundKey (MixColumns (ShiftRows (SubBytes st))) (rk round)) rs st)))
    = ShiftRows (SubBytes st)
    \<and> state_ok (fold (\<lambda>round st. AddRoundKey (MixColumns (ShiftRows (SubBytes st))) (rk round)) rs st)"
  using assms
proof (induction rs arbitrary: st)
  case (Cons r rs)
  let ?st = "AddRoundKey (MixColumns (ShiftRows (SubBytes st))) (rk r)"
  have "InvMixColumns (AddRoundKey (InvShiftRows (InvSubBytes (ShiftRows (SubBytes ?st)))) (rk r))
      = ShiftRows (SubBytes st)"
    using Cons.prems by (simp add: unshift AddRoundKey_twice InvMixColumns_MixColumns)
  then show ?case using Cons.IH [of ?st] by simp
qed simp

lemma DecryptBlock_EncryptBlock:
  assumes "length inp = 16"
  shows "DecryptBlock ctx (EncryptBlock ctx inp rk) rk = inp"
proof -
  let ?s = "AddRoundKey (load_block inp) rk"
  note r = rounds_undone [of ?s "\<lambda>round. drop (round * 4 * 4) rk" "[1..<Nr ctx]"]
  show ?thesis
    using r assms
    by (simp add: EncryptBlock_def DecryptBlock_def Let_def load_store AddRoundKey_twice unshift store_load)
qed

lemma length_blocks [simp]: "length (EncryptBlock ctx inp rk) = 16" "length (DecryptBlock ctx inp rk) = 16"
  "length (XorBlocks a b) = 16"
  by (simp_all add: EncryptBlock_def DecryptBlock_def XorBlocks_def Let_def)

lemma XorBlocks_twice:
  assumes "length b = 16"
  shows "XorBlocks a (XorBlocks a b) = b" "XorBlocks (XorBlocks b a) a = b"
  using assms by (auto simp: XorBlocks_def xor.assoc [symmetric] intro: nth_equalityI) (auto simp: xor.assoc intro: nth_equalityI)

section \<open>Modes\<close>

text \<open>Two passes of which the second undoes the first, with the same block to go on with.\<close>

locale block_mode =
  fixes enc dec :: "bytes \<Rightarrow> bytes \<Rightarrow> bytes \<times> bytes" and block_ok :: "bytes \<Rightarrow> bool"
  assumes undo: "length x = 16 \<Longrightarrow> block_ok b \<Longrightarrow> enc x b = (y, b') \<Longrightarrow>
      length y = 16 \<and> block_ok b' \<and> dec y b = (x, b')"
begin

lemma blocks_undone:
  "16 * n \<le> length inp \<Longrightarrow> block_ok b \<Longrightarrow>
   \<exists>out. each_block enc n inp b = Inr out \<and> length out = 16 * n \<and> each_block dec n out b = Inr (take (16 * n) inp)"
proof (induction n arbitrary: inp b)
  case (Suc n)
  obtain y b' where e: "enc (take 16 inp) b = (y, b')" by fastforce
  have u: "length y = 16" "block_ok b'" "dec y b = (take 16 inp, b')"
    using undo [OF _ Suc.prems(2) e] Suc.prems(1) by simp_all
  have "16 * n \<le> length (drop 16 inp)" using Suc.prems(1) by simp
  from Suc.IH [OF this u(2)] obtain out where "each_block enc n (drop 16 inp) b' = Inr out" "length out = 16 * n"
    "each_block dec n out b' = Inr (take (16 * n) (drop 16 inp))"
    by blast
  then show ?case
    using e u Suc.prems(1) by (intro exI [of _ "y @ out"]) (simp add: take_add add.commute)
qed simp

end

interpretation ecb: block_mode "ecb_encrypt_pass ctx rk" "ecb_decrypt_pass ctx rk" "\<lambda>_. True" for ctx rk
  by unfold_locales (auto simp: ecb_encrypt_pass_def ecb_decrypt_pass_def DecryptBlock_EncryptBlock)

interpretation cbc: block_mode "cbc_encrypt_pass ctx rk" "cbc_decrypt_pass ctx rk" "\<lambda>b. length b = 16" for ctx rk
  by unfold_locales
    (auto simp: cbc_encrypt_pass_def cbc_decrypt_pass_def DecryptBlock_EncryptBlock XorBlocks_twice Let_def)

interpretation cfb: block_mode "cfb_encrypt_pass ctx rk" "cfb_decrypt_pass ctx rk" "\<lambda>b. length b = 16" for ctx rk
  by unfold_locales (auto simp: cfb_encrypt_pass_def cfb_decrypt_pass_def XorBlocks_twice Let_def)

lemma KeyExpansion_ok: "4 * Nk ctx \<le> length key \<Longrightarrow> \<exists>rk. KeyExpansion ctx key = Inr rk"
  by (simp add: KeyExpansion_def)

section \<open>Evaluation\<close>

text \<open>The values of the substitution and of \<open>xtime\<close> one by one, and a round on sixteen bytes.\<close>

definition sub_byte :: "u8 \<Rightarrow> u8" where
  "sub_byte t = by_sbox sbox t"

lemma sub_bytes_all: "map sub_byte every_byte = concat sbox"
  by (simp add: sub_byte_def [abs_def] sbox_all)

lemmas sub_byte_values = sub_bytes_all [unfolded every_byte_def sbox_def, simplified]
lemmas xtime_values = table_2 [symmetric, unfolded every_byte_def GF_MUL_2_def, simplified]

definition enc_round :: "bytes \<Rightarrow> nat \<Rightarrow> aes_state \<Rightarrow> aes_state" where
  "enc_round rk round st = AddRoundKey (MixColumns (ShiftRows (SubBytes st))) (drop (round * 4 * 4) rk)"

lemma nth_upt_add: "drop n xs ! i = xs ! (n + i)" if "n \<le> length xs"
  using that by simp

lemma enc_round_eq:
  "round * 16 \<le> length rk \<Longrightarrow>
   enc_round rk round [[a0, a1, a2, a3], [b0, b1, b2, b3], [c0, c1, c2, c3], [d0, d1, d2, d3]] =
     (let mix = (\<lambda>p q r s k. xtime p XOR (xtime q XOR q) XOR r XOR s XOR rk ! (round * 16 + k))
      in [[mix (sub_byte a0) (sub_byte b1) (sub_byte c2) (sub_byte d3) 0,
           mix (sub_byte a1) (sub_byte b2) (sub_byte c3) (sub_byte d0) 4,
           mix (sub_byte a2) (sub_byte b3) (sub_byte c0) (sub_byte d1) 8,
           mix (sub_byte a3) (sub_byte b0) (sub_byte c1) (sub_byte d2) 12],
          [mix (sub_byte b1) (sub_byte c2) (sub_byte d3) (sub_byte a0) 1,
           mix (sub_byte b2) (sub_byte c3) (sub_byte d0) (sub_byte a1) 5,
           mix (sub_byte b3) (sub_byte c0) (sub_byte d1) (sub_byte a2) 9,
           mix (sub_byte b0) (sub_byte c1) (sub_byte d2) (sub_byte a3) 13],
          [mix (sub_byte c2) (sub_byte d3) (sub_byte a0) (sub_byte b1) 2,
           mix (sub_byte c3) (sub_byte d0) (sub_byte a1) (sub_byte b2) 6,
           mix (sub_byte c0) (sub_byte d1) (sub_byte a2) (sub_byte b3) 10,
           mix (sub_byte c1) (sub_byte d2) (sub_byte a3) (sub_byte b0) 14],
          [mix (sub_byte d3) (sub_byte a0) (sub_byte b1) (sub_byte c2) 3,
           mix (sub_byte d0) (sub_byte a1) (sub_byte b2) (sub_byte c3) 7,
           mix (sub_byte d1) (sub_byte a2) (sub_byte b3) (sub_byte c0) 11,
           mix (sub_byte d2) (sub_byte a3) (sub_byte b0) (sub_byte c1) 15]])"
  by (simp add: enc_round_def AddRoundKey_def MixColumns_def ShiftRows_def ShiftRow_def SubBytes_def upt_4 CMDS_def
      tables_at sub_byte_def Let_def mult.commute xor.assoc xor.left_commute xor.commute)

lemma EncryptBlock_rounds:
  "Nr ctx = 10 \<Longrightarrow> EncryptBlock ctx inp rk =
     store_block (AddRoundKey (ShiftRows (map (map sub_byte) (enc_round rk 9 (enc_round rk 8 (enc_round rk 7
       (enc_round rk 6 (enc_round rk 5 (enc_round rk 4 (enc_round rk 3 (enc_round rk 2 (enc_round rk 1
         (AddRoundKey (load_block inp) rk)))))))))))) (drop 160 rk))"
  by (simp add: EncryptBlock_def enc_round_def SubBytes_def sub_byte_def [abs_def] Let_def upt_rec)

lemma next_word_128:
  "next_word \<lparr>Nk = 4, Nr = n\<rparr> w =
     (let i = length w; a = w ! (i - 4); b = w ! (i - 3); c = w ! (i - 2); d = w ! (i - 1);
          (a, b, c, d) = (if i div 4 mod 4 = 0
              then (sub_byte b XOR (xtime ^^ (i div 16 - 1)) 1, sub_byte c, sub_byte d, sub_byte a) else (a, b, c, d))
      in [w ! (i - 16) XOR a, w ! (i - 15) XOR b, w ! (i - 14) XOR c, w ! (i - 13) XOR d])"
  if "16 \<le> length w"
proof -
  have idx: "length w - 4 + 1 = length w - 3" "length w - 4 + 2 = length w - 2" "length w - 4 + 3 = length w - 1"
    "length w + 0 - 16 = length w - 16" "length w + 1 - 16 = length w - 15" "length w + 2 - 16 = length w - 14"
    "length w + 3 - 16 = length w - 13"
    using that by simp_all
  show ?thesis
    unfolding next_word_def Let_def AES.simps idx upt_4 list.map mult_numeral_1_right num.distinct
    using that by (simp add: SubWord_def RotWord_def XorWords_def Rcon_def sub_byte_def upt_4 idx [simplified] mult.commute)
qed

text \<open>The round keys of the key 0, 1, ..., 15.\<close>

definition round_keys_128 :: bytes where
  "round_keys_128 = [
     0x00, 0x01, 0x02, 0x03, 0x04, 0x05, 0x06, 0x07, 0x08, 0x09, 0x0a, 0x0b, 0x0c, 0x0d, 0x0e, 0x0f,
     0xd6, 0xaa, 0x74, 0xfd, 0xd2, 0xaf, 0x72, 0xfa, 0xda, 0xa6, 0x78, 0xf1, 0xd6, 0xab, 0x76, 0xfe,
     0xb6, 0x92, 0xcf, 0x0b, 0x64, 0x3d, 0xbd, 0xf1, 0xbe, 0x9b, 0xc5, 0x00, 0x68, 0x30, 0xb3, 0xfe,
     0xb6, 0xff, 0x74, 0x4e, 0xd2, 0xc2, 0xc9, 0xbf, 0x6c, 0x59, 0x0c, 0xbf, 0x04, 0x69, 0xbf, 0x41,
     0x47, 0xf7, 0xf7, 0xbc, 0x95, 0x35, 0x3e, 0x03, 0xf9, 0x6c, 0x32, 0xbc, 0xfd, 0x05, 0x8d, 0xfd,
     0x3c, 0xaa, 0xa3, 0xe8, 0xa9, 0x9f, 0x9d, 0xeb, 0x50, 0xf3, 0xaf, 0x57, 0xad, 0xf6, 0x22, 0xaa,
     0x5e, 0x39, 0x0f, 0x7d, 0xf7, 0xa6, 0x92, 0x96, 0xa7, 0x55, 0x3d, 0xc1, 0x0a, 0xa3, 0x1f, 0x6b,
     0x14, 0xf9, 0x70, 0x1a, 0xe3, 0x5f, 0xe2, 0x8c, 0x44, 0x0a, 0xdf, 0x4d, 0x4e, 0xa9, 0xc0, 0x26,
     0x47, 0x43, 0x87, 0x35, 0xa4, 0x1c, 0x65, 0xb9, 0xe0, 0x16, 0xba, 0xf4, 0xae, 0xbf, 0x7a, 0xd2,
     0x54, 0x99, 0x32, 0xd1, 0xf0, 0x85, 0x57, 0x68, 0x10, 0x93, 0xed, 0x9c, 0xbe, 0x2c, 0x97, 0x4e,
     0x13, 0x11, 0x1d, 0x7f, 0xe3, 0x94, 0x4a, 0x17, 0xf3, 0x07, 0xa7, 0x8b, 0x4d, 0x2b, 0x30, 0xc5]"

definition rk_at :: "nat \<Rightarrow> u8" where
  "rk_at n = round_keys_128 ! n"

lemma length_rk: "length round_keys_128 = 176"
  by (simp add: round_keys_128_def)

lemma rk_all: "map rk_at [0..<176] = round_keys_128"
  by (simp add: rk_at_def [abs_def] length_rk [symmetric] map_nth)

lemma upt_176: "[0..<176] = [
     0, 1, 2, 3, 4, 5, 6, 7, 8, 9, 10, 11, 12, 13, 14, 15,
     16, 17, 18, 19, 20, 21, 22, 23, 24, 25, 26, 27, 28, 29, 30, 31,
     32, 33, 34, 35, 36, 37, 38, 39, 40, 41, 42, 43, 44, 45, 46, 47,
     48, 49, 50, 51, 52, 53, 54, 55, 56, 57, 58, 59, 60, 61, 62, 63,
     64, 65, 66, 67, 68, 69, 70, 71, 72, 73, 74, 75, 76, 77, 78, 79,
     80, 81, 82, 83, 84, 85, 86, 87, 88, 89, 90, 91, 92, 93, 94, 95,
     96, 97, 98, 99, 100, 101, 102, 103, 104, 105, 106, 107, 108, 109, 110, 111,
     112, 113, 114, 115, 116, 117, 118, 119, 120, 121, 122, 123, 124, 125, 126, 127,
     128, 129, 130, 131, 132, 133, 134, 135, 136, 137, 138, 139, 140, 141, 142, 143,
     144, 145, 146, 147, 148, 149, 150, 151, 152, 153, 154, 155, 156, 157, 158, 159,
     160, 161, 162, 163, 164, 165, 166, 167, 168, 169, 170, 171, 172, 173, 174, 175 :: nat]"
  by (simp add: upt_rec)

lemmas rk_values = rk_all [unfolded round_keys_128_def upt_176, simplified]

lemma nth_rk: "round_keys_128 ! n = rk_at n"
  by (simp add: rk_at_def)

lemma expand_prefix:
  assumes "Nr ctx = 10" and "length L = 176"
    and "\<And>i. i \<in> {4..<44} \<Longrightarrow> next_word ctx (take (4 * i) L) = take 4 (drop (4 * i) L)"
  shows "4 \<le> i \<Longrightarrow> i \<le> 44 \<Longrightarrow> expand_words ctx (take (4 * i) L) = L"
proof (induction "44 - i" arbitrary: i)
  case 0
  then show ?case using assms(1,2) by (subst expand_words.simps) simp
next
  case (Suc n)
  then have "take (4 * i) L @ next_word ctx (take (4 * i) L) = take (4 * Suc i) L"
    using assms(3) [of i] by (simp add: take_add [symmetric] add.commute)
  moreover have "expand_words ctx (take (4 * Suc i) L) = L"
    using Suc(1) [of "Suc i"] Suc(2-) by simp
  moreover have "length (take (4 * i) L) < 4 * 4 * (Nr ctx + 1)" using assms(1,2) Suc by simp
  ultimately show ?case by (subst expand_words.simps) simp
qed

text \<open>The words one by one: \<open>i\<close> is the number of the word.\<close>

definition word_ok :: "nat \<Rightarrow> bool" where
  "word_ok i \<longleftrightarrow>
     (if i mod 4 = 0
      then rk_at (4 * i) = rk_at (4 * i - 16) XOR (sub_byte (rk_at (4 * i - 3)) XOR (xtime ^^ (i div 4 - 1)) 1)
         \<and> rk_at (4 * i + 1) = rk_at (4 * i - 15) XOR sub_byte (rk_at (4 * i - 2))
         \<and> rk_at (4 * i + 2) = rk_at (4 * i - 14) XOR sub_byte (rk_at (4 * i - 1))
         \<and> rk_at (4 * i + 3) = rk_at (4 * i - 13) XOR sub_byte (rk_at (4 * i - 4))
      else rk_at (4 * i) = rk_at (4 * i - 16) XOR rk_at (4 * i - 4)
         \<and> rk_at (4 * i + 1) = rk_at (4 * i - 15) XOR rk_at (4 * i - 3)
         \<and> rk_at (4 * i + 2) = rk_at (4 * i - 14) XOR rk_at (4 * i - 2)
         \<and> rk_at (4 * i + 3) = rk_at (4 * i - 13) XOR rk_at (4 * i - 1))"

lemma rcon_values:
  "(xtime ^^ Suc 0) 1 = 2" "(xtime ^^ 2) 1 = 4" "(xtime ^^ 3) 1 = 8" "(xtime ^^ 4) 1 = 16" "(xtime ^^ 5) 1 = 32"
  "(xtime ^^ 6) 1 = 64" "(xtime ^^ 7) 1 = 128" "(xtime ^^ 8) 1 = 27" "(xtime ^^ 9) 1 = 54"
  by (simp_all add: numeral_eq_Suc) (simp_all add: xtime_values)

lemma words_ok: "list_all word_ok [4..<44]"
  by (simp add: word_ok_def rk_values sub_byte_values rcon_values xtime_values upt_rec)

lemma schedule: "expand_words (new_AES AES_128) [0, 1, 2, 3, 4, 5, 6, 7, 8, 9, 10, 11, 12, 13, 14, 15] = round_keys_128"
proof -
  have "next_word (new_AES AES_128) (take (4 * i) round_keys_128) = take 4 (drop (4 * i) round_keys_128)"
    if i: "i \<in> {4..<44}" for i
  proof -
    have len: "length (take (4 * i) round_keys_128) = 4 * i" using i by (simp add: length_rk)
    have "word_ok i" using words_ok i by (simp only: list_all_iff set_upt)
    moreover have "take 4 (drop (4 * i) round_keys_128) = map (\<lambda>k. rk_at (4 * i + k)) [0..<4]"
      using i by (intro nth_equalityI) (auto simp: length_rk rk_at_def)
    ultimately show ?thesis
      using i by (cases "i mod 4 = 0")
        (simp_all add: new_AES_def next_word_128 len length_rk Let_def word_ok_def upt_4 rk_at_def)
  qed
  from expand_prefix [OF _ length_rk this, of 4] show ?thesis
    by (simp add: new_AES_def round_keys_128_def)
qed

text \<open>The example of FIPS 197.\<close>

lemmas block_values = enc_round_eq length_rk nth_rk rk_values sub_byte_values xtime_values Let_def

lemma known_answer: "EncryptBlock (new_AES AES_128)
    [0x00, 0x11, 0x22, 0x33, 0x44, 0x55, 0x66, 0x77, 0x88, 0x99, 0xaa, 0xbb, 0xcc, 0xdd, 0xee, 0xff] round_keys_128
  = [0x69, 0xc4, 0xe0, 0xd8, 0x6a, 0x7b, 0x04, 0x30, 0xd8, 0xcd, 0xb7, 0x80, 0x70, 0xb4, 0xc5, 0x5a]"
proof -
  have "Nr (new_AES AES_128) = 10" by (simp add: new_AES_def)
  note e = EncryptBlock_rounds [OF this]
  show ?thesis
    unfolding e
    by (simp add: load_block_def AddRoundKey_def ShiftRows_def ShiftRow_def store_block_def upt_4 upt_16 block_values)
qed

section \<open>Properties\<close>

text \<open>C26. In each of the three modes, and for keys of each length, decryption with the same key and initial
  vector gives back the input, whose length is a multiple of 16, and the two are as long.\<close>

theorem aes_modes_roundtrip:
  assumes "ctx = new_AES keyLength" and "4 * Nk ctx \<le> length key" and "16 \<le> length iv"
    and "unat inLen = length inp" and "length inp mod 16 = 0"
  shows "\<exists>ecb cbc cfb.
      EncryptECB ctx inp inLen key = Inr ecb \<and> DecryptECB ctx ecb inLen key = Inr inp
    \<and> EncryptCBC ctx inp inLen key iv = Inr cbc \<and> DecryptCBC ctx cbc inLen key iv = Inr inp
    \<and> EncryptCFB ctx inp inLen key iv = Inr cfb \<and> DecryptCFB ctx cfb inLen key iv = Inr inp
    \<and> length ecb = length inp \<and> length cbc = length inp \<and> length cfb = length inp"
proof -
  obtain rk where rk: "KeyExpansion ctx key = Inr rk" using KeyExpansion_ok [OF assms(2)] by blast
  define n where "n = length inp div 16"
  have n: "unat inLen div 16 = n" "16 * n = length inp" using assms(4,5) by (auto simp: n_def)
  have "unat (inLen mod 16) = 0" using assms(4,5) by (simp add: unat_mod)
  then have check: "CheckLength inLen = Inr ()" by (simp add: CheckLength_def unat_eq_zero)
  have iv: "length (take 16 iv) = 16" using assms(3) by simp
  note run = EncryptECB_def DecryptECB_def EncryptCBC_def DecryptCBC_def EncryptCFB_def DecryptCFB_def
    run_mode_def with_iv_def check rk n
  have le: "16 * n \<le> length inp" using n(2) by simp
  from ecb.blocks_undone [OF le, where b = "[]" and ctx = ctx and rk = rk]
    cbc.blocks_undone [OF le iv, where ctx = ctx and rk = rk]
    cfb.blocks_undone [OF le iv, where ctx = ctx and rk = rk]
  show ?thesis using assms(3) by (fastforce simp: run)
qed

theorem aes_modes_roundtrip_witness:
  "\<exists>cbc. EncryptCBC (new_AES AES_256) (replicate 32 7) 32 (replicate 32 1) (replicate 16 2) = Inr cbc
    \<and> DecryptCBC (new_AES AES_256) cbc 32 (replicate 32 1) (replicate 16 2) = Inr (replicate 32 7)"
  using aes_modes_roundtrip [OF refl, of AES_256 "replicate 32 1" "replicate 16 2" 32 "replicate 32 7"]
  by (auto simp: new_AES_def)

text \<open>The example of FIPS 197: the key schedule and the rounds with a key of 128 bits give the block of
  the standard.\<close>

theorem aes_known_answer:
  "EncryptECB (new_AES AES_128)
     [0x00, 0x11, 0x22, 0x33, 0x44, 0x55, 0x66, 0x77, 0x88, 0x99, 0xaa, 0xbb, 0xcc, 0xdd, 0xee, 0xff] 16
     [0, 1, 2, 3, 4, 5, 6, 7, 8, 9, 10, 11, 12, 13, 14, 15]
   = Inr [0x69, 0xc4, 0xe0, 0xd8, 0x6a, 0x7b, 0x04, 0x30, 0xd8, 0xcd, 0xb7, 0x80, 0x70, 0xb4, 0xc5, 0x5a]"
proof -
  have "KeyExpansion (new_AES AES_128) [0, 1, 2, 3, 4, 5, 6, 7, 8, 9, 10, 11, 12, 13, 14, 15] = Inr round_keys_128"
    using schedule by (simp add: KeyExpansion_def new_AES_def)
  then show ?thesis
    by (simp add: EncryptECB_def run_mode_def CheckLength_def ecb_encrypt_pass_def known_answer)
qed

end
