(* ===== verification/Compress.thy ===== *)
theory Compress
  imports Aes Encode
begin

text \<open>
  The compression service of \<open>test_suite/e2e_compression/sw_baseline\<close>: the headers of \<open>cloudnic_rpc_type.h\<close>,
  the handlers of \<open>compress_server\<close>, and the requests, the identifiers and the message buffers of
  \<open>compress_client\<close>, and of the generated \<open>cloudnic.pb.cc\<close> the sizes and the serializer of the two messages, which are
  declared alike.  LZ4, eRPC and the protobuf parser are libraries outside the tree: the first and the last are
  arguments, and of eRPC only which requests are in flight is kept.  A failed \<open>rt_assert\<close> is \<open>Exit\<close>.
\<close>

section \<open>Headers\<close>

datatype RPC_TYPE = RPC_PING | RPC_APP1 | RPC_APP2

primrec rpc_code :: "RPC_TYPE \<Rightarrow> u8" where
  "rpc_code RPC_PING = 0"
| "rpc_code RPC_APP1 = 1"
| "rpc_code RPC_APP2 = 2"

text \<open>The packed \<open>RPCMsgReq\<close> and \<open>RPCMsgResp\<close>, whose control part is one \<open>size_t\<close>: 13 and 17 bytes.\<close>

definition RPCMsgReq :: "u8 \<Rightarrow> u32 \<Rightarrow> u64 \<Rightarrow> bytes" where
  "RPCMsgReq t num req = t # le_bytes 4 (unat num) @ le_bytes 8 (unat req)"

definition RPCMsgResp :: "u8 \<Rightarrow> u32 \<Rightarrow> u32 \<Rightarrow> u64 \<Rightarrow> bytes" where
  "RPCMsgResp t num status resp = t # le_bytes 4 (unat num) @ le_bytes 4 (unat status) @ le_bytes 8 (unat resp)"

lemma length_headers [simp]: "length (RPCMsgReq t num req) = 13" "length (RPCMsgResp t num status resp) = 17"
  by (simp_all add: RPCMsgReq_def RPCMsgResp_def)

text \<open>The fields read back through a cast of the buffer.\<close>

definition req_type :: "bytes \<Rightarrow> u8" where
  "req_type buf = buf ! 0"

definition req_number :: "bytes \<Rightarrow> u32" where
  "req_number buf = of_nat (le_nat (take 4 (drop 1 buf)))"

definition req_control :: "bytes \<Rightarrow> u64" where
  "req_control buf = of_nat (le_nat (take 8 (drop 5 buf)))"

lemma read_header:
  "req_type (RPCMsgReq t num req @ rest) = t" "req_number (RPCMsgReq t num req @ rest) = num"
  "req_control (RPCMsgReq t num req @ rest) = req"
  using unsigned_less [of num, where 'a = nat] unsigned_less [of req, where 'a = nat]
  by (simp_all add: req_type_def req_number_def req_control_def RPCMsgReq_def le_nat_le_bytes)

section \<open>The server\<close>

text \<open>\<open>CompressImgReq\<close> and \<open>CompressImgResp\<close>: two optional fields, \<open>None\<close> while the has bit is clear.  A getter of
  a field that is not set returns its default.\<close>

record CompressImg =
  img_id_field :: "u64 option"
  img_field :: "bytes option"

definition img :: "CompressImg \<Rightarrow> bytes" where
  "img m = (case img_field m of Some s \<Rightarrow> s | None \<Rightarrow> [])"

definition img_id :: "CompressImg \<Rightarrow> u64" where
  "img_id m = (case img_id_field m of Some w \<Rightarrow> w | None \<Rightarrow> 0)"

definition compress_img :: "u64 \<Rightarrow> bytes \<Rightarrow> CompressImg" where
  "compress_img i s = \<lparr>img_id_field = Some i, img_field = Some s\<rparr>"

text \<open>The writers and sizes of \<open>WireFormatLite\<close> are those \<open>include/encode.h\<close> has copied.  A message the server
  builds has no unknown fields, which a generated serializer would append.\<close>

definition InternalSerialize_img :: "CompressImg \<Rightarrow> bytes \<Rightarrow> bytes" where
  "InternalSerialize_img m target =
     (let target = (case img_id_field m of Some w \<Rightarrow> WriteInt64ToArray 1 w target | None \<Rightarrow> target)
      in case img_field m of Some s \<Rightarrow> WriteBytesToArray 2 s target | None \<Rightarrow> target)"

definition ByteSizeLong_img :: "CompressImg \<Rightarrow> u64" where
  "ByteSizeLong_img m =
     (case img_field m of Some s \<Rightarrow> 1 + StringSize s | None \<Rightarrow> 0)
     + (case img_id_field m of Some w \<Rightarrow> 1 + Int64Size w | None \<Rightarrow> 0)"

definition IsInitialized_img :: "CompressImg \<Rightarrow> bool" where
  "IsInitialized_img m = True"

record service =
  parse_req :: "bytes \<Rightarrow> CompressImg"   \<comment> \<open>\<open>ParseFromArray\<close>, whose result nothing checks\<close>
  lz4_compress :: "bytes \<Rightarrow> nat \<Rightarrow> bytes"   \<comment> \<open>nothing when it fails\<close>
  heap_bytes :: "nat \<Rightarrow> u8"   \<comment> \<open>what fresh memory holds\<close>

text \<open>The build option of \<open>cloudnic.h\<close>.\<close>

definition USE_SERIALIZATION :: bool where
  "USE_SERIALIZATION = True"

record ServerContext =
  stat_req_ping_tot :: u64
  stat_compress_tot :: u64

definition aes_key :: bytes where
  "aes_key = [0, 1, 2, 3, 4, 5, 6, 7, 8, 9, 10, 11, 12, 13, 14, 15]"

text \<open>The common part of \<open>generate_compress_img\<close> and \<open>generate_compress_img_without_ser\<close>.  The encrypted
  length is rounded up to 16, so up to 15 bytes of fresh memory follow the compressed image.\<close>

definition compress_image :: "service \<Rightarrow> bytes \<Rightarrow> bytes result" where
  "compress_image env origin_img =
     andThen (DecryptECB (new_AES AES_128) origin_img (of_nat (length origin_img)) aes_key) (\<lambda>decrypted_img.
     let c = lz4_compress env decrypted_img (length origin_img) in
     andThen (require (0 < length c)) (\<lambda>_.
       let compressed_img = c @ map (heap_bytes env) [length c..<length origin_img];
           compressed_len = (of_nat (length c) + 15) AND NOT 15
       in EncryptECB (new_AES AES_128) compressed_img compressed_len aes_key))"

definition generate_compress_img :: "service \<Rightarrow> CompressImg \<Rightarrow> CompressImg result" where
  "generate_compress_img env req =
     andThen (compress_image env (img req)) (\<lambda>encrypted_img. Inr (compress_img (img_id req) encrypted_img))"

definition generate_compress_img_without_ser :: "service \<Rightarrow> bytes \<Rightarrow> (bytes \<times> nat) result" where
  "generate_compress_img_without_ser env img_ptr =
     andThen (compress_image env img_ptr) (\<lambda>encrypted_img. Inr (encrypted_img, length encrypted_img))"

definition ping_handler :: "bytes \<Rightarrow> ServerContext \<Rightarrow> (bytes \<times> ServerContext) result" where
  "ping_handler req_msgbuf ctx =
     (let ctx = ctx\<lparr>stat_req_ping_tot := stat_req_ping_tot ctx + 1\<rparr> in
      andThen (require (length req_msgbuf = 13)) (\<lambda>_.
        Inr (RPCMsgResp (req_type req_msgbuf) (req_number req_msgbuf) 0 (req_control req_msgbuf), ctx)))"

definition compress_handler :: "service \<Rightarrow> bytes \<Rightarrow> ServerContext \<Rightarrow> (bytes \<times> ServerContext) result" where
  "compress_handler env req_msgbuf ctx =
     (let ctx = ctx\<lparr>stat_compress_tot := stat_compress_tot ctx + 1\<rparr> in
      if length req_msgbuf < 13 then Inl Overrun
      else andThen (require (of_nat (length req_msgbuf) = 13 + req_control req_msgbuf)) (\<lambda>_.
        let req_data = drop 13 req_msgbuf in
        if USE_SERIALIZATION then
          let compress_img_req = parse_req env req_data in
          andThen (require (IsInitialized_img compress_img_req)) (\<lambda>_.
          andThen (generate_compress_img env compress_img_req) (\<lambda>compress_img_resp.
            let resp_data_length = ByteSizeLong_img compress_img_resp in
            Inr (InternalSerialize_img compress_img_resp
                   (RPCMsgResp (req_type req_msgbuf) (req_number req_msgbuf) 0 resp_data_length), ctx)))
        else
          andThen (generate_compress_img_without_ser env req_data) (\<lambda>(compressed_img_ptr, img_size).
            Inr (RPCMsgResp (req_type req_msgbuf) (req_number req_msgbuf) 0 (of_nat img_size) @ compressed_img_ptr, ctx))))"




lemma img_getters [simp]: "img (compress_img i s) = s" "img_id (compress_img i s) = i"
  by (simp_all add: img_def img_id_def compress_img_def)

section \<open>What the client sends\<close>

definition src_img :: bytes where
  "src_img = (replicate 4096 0)[1 := 1, 2 := 2, 1001 := 3, 1002 := 4]"

definition encrypted_img :: "bytes result" where
  "encrypted_img = EncryptECB (new_AES AES_128) src_img 4096 aes_key"

text \<open>\<open>std::string(const char *)\<close> reads up to the first zero byte.\<close>

definition std_string :: "bytes \<Rightarrow> bytes result" where
  "std_string buf = (if 0 \<in> set buf then Inr (takeWhile (\<lambda>b. b \<noteq> 0) buf) else Inl Overrun)"

text \<open>The image of the request: under \<open>USE_SERIALIZATION\<close> the string above, otherwise the whole array.\<close>

definition request_image :: "bytes result" where
  "request_image = andThen encrypted_img (\<lambda>arr. if USE_SERIALIZATION then std_string arr else Inr arr)"

text \<open>\<open>handler_compress\<close> writes the header before the data the buffer already holds.\<close>

definition compress_request :: "u32 \<Rightarrow> bytes \<Rightarrow> bytes" where
  "compress_request req_id data =
     RPCMsgReq (rpc_code RPC_APP1) req_id (of_nat (13 + length data) - 13) @ data"

definition ping_request :: "u32 \<Rightarrow> bytes" where
  "ping_request req_id = RPCMsgReq (rpc_code RPC_PING) req_id (- 1)"

section \<open>The client\<close>

text \<open>The queue between the threads, the requests in flight, and the timers by their slot, each with the
  request it was last started for.\<close>

record client =
  next_id :: u32   \<comment> \<open>\<open>req_id_\<close>\<close>
  spsc_queue :: "(u32 \<times> RPC_TYPE) list"
  in_flight :: "u32 list"
  pings :: nat
  timers :: "nat \<Rightarrow> u32 option"

definition new_client :: client where
  "new_client = \<lparr>next_id = 0, spsc_queue = [], in_flight = [], pings = 0, timers = (\<lambda>_. None)\<rparr>"

definition kAppMaxConcurrency :: nat where
  "kAppMaxConcurrency = 128"

text \<open>\<open>PushNextTCReq\<close>, which the leader thread calls.\<close>

definition PushNextTCReq :: "client \<Rightarrow> client" where
  "PushNextTCReq ctx = ctx\<lparr>spsc_queue := spsc_queue ctx @ [(next_id ctx, RPC_APP1)], next_id := next_id ctx + 1\<rparr>"

definition handler_ping :: "client \<Rightarrow> u32 \<Rightarrow> client" where
  "handler_ping ctx req_id = ctx\<lparr>pings := pings ctx + 1\<rparr>"

definition handler_compress :: "nat \<Rightarrow> client \<Rightarrow> u32 \<Rightarrow> client" where
  "handler_compress concurrency ctx req_id =
     ctx\<lparr>timers := (timers ctx)(unat req_id mod concurrency \<mapsto> req_id), in_flight := in_flight ctx @ [req_id]\<rparr>"

text \<open>One pass of the loop over the queue; the third handler is null.\<close>

definition dispatch :: "nat \<Rightarrow> client \<Rightarrow> client result" where
  "dispatch concurrency ctx =
     (case spsc_queue ctx of
        [] \<Rightarrow> Inr ctx
      | (req_id, ty) # q \<Rightarrow>
          let ctx = ctx\<lparr>spsc_queue := q\<rparr> in
          (case ty of
             RPC_PING \<Rightarrow> Inr (handler_ping ctx req_id)
           | RPC_APP1 \<Rightarrow> Inr (handler_compress concurrency ctx req_id)
           | RPC_APP2 \<Rightarrow> Inl Exit))"

text \<open>\<open>callback_compress\<close>, for the request at position \<open>i\<close> of those in flight.\<close>

definition callback_compress :: "nat \<Rightarrow> client \<Rightarrow> client" where
  "callback_compress i ctx =
     (let ctx = ctx\<lparr>in_flight := take i (in_flight ctx) @ drop (Suc i) (in_flight ctx)\<rparr>;
          ctx = ctx\<lparr>next_id := next_id ctx + 1\<rparr>
      in ctx\<lparr>spsc_queue := spsc_queue ctx @ [(next_id ctx, RPC_APP1)]\<rparr>)"

text \<open>The message buffers of a request.\<close>

definition buffer_of :: "u32 \<Rightarrow> nat" where
  "buffer_of req_id = unat req_id mod kAppMaxConcurrency"

text \<open>A step of the leader, of the loop, or of a completion.  A push waits while the queue is full.\<close>

inductive client_step :: "nat \<Rightarrow> client \<Rightarrow> client \<Rightarrow> bool" for concurrency where
  push: "length (spsc_queue ctx) < kAppMaxConcurrency \<Longrightarrow> client_step concurrency ctx (PushNextTCReq ctx)"
| send: "spsc_queue ctx \<noteq> [] \<Longrightarrow> dispatch concurrency ctx = Inr ctx' \<Longrightarrow> client_step concurrency ctx ctx'"
| complete: "i < length (in_flight ctx) \<Longrightarrow> length (spsc_queue ctx) < kAppMaxConcurrency \<Longrightarrow>
    client_step concurrency ctx (callback_compress i ctx)"

text \<open>The leader first sends a ping to every client and waits for the answers.\<close>

definition push_ping :: "client \<Rightarrow> client" where
  "push_ping ctx = ctx\<lparr>spsc_queue := spsc_queue ctx @ [(0, RPC_PING)]\<rparr>"

lemma ping_answered: "dispatch n (push_ping new_client) = Inr (new_client\<lparr>pings := 1\<rparr>)"
  by (simp add: dispatch_def push_ping_def new_client_def handler_ping_def)

text \<open>Then it pushes \<open>c\<close> requests, which the loop of the client takes meanwhile.  These steps are those of a
  start in which no request completes before the last is pushed.\<close>

inductive startup_step :: "nat \<Rightarrow> nat \<Rightarrow> client \<Rightarrow> client \<Rightarrow> bool" for concurrency c where
  push: "unat (next_id ctx) < c \<Longrightarrow> length (spsc_queue ctx) < kAppMaxConcurrency \<Longrightarrow>
    startup_step concurrency c ctx (PushNextTCReq ctx)"
| send: "spsc_queue ctx \<noteq> [] \<Longrightarrow> dispatch concurrency ctx = Inr ctx' \<Longrightarrow> startup_step concurrency c ctx ctx'"

text \<open>The steps after the leader has pushed, with completions in the order of the requests.\<close>

inductive fifo_step :: "nat \<Rightarrow> client \<Rightarrow> client \<Rightarrow> bool" for concurrency where
  send: "spsc_queue ctx \<noteq> [] \<Longrightarrow> dispatch concurrency ctx = Inr ctx' \<Longrightarrow> fifo_step concurrency ctx ctx'"
| complete: "in_flight ctx \<noteq> [] \<Longrightarrow> length (spsc_queue ctx) < kAppMaxConcurrency \<Longrightarrow>
    fifo_step concurrency ctx (callback_compress 0 ctx)"

lemma fifo_client_step: "fifo_step n ctx ctx' \<Longrightarrow> client_step n ctx ctx'"
  by (induction rule: fifo_step.induct) (auto intro: client_step.intros)

section \<open>Encryption and decryption\<close>





lemma compress_image_bad_length:
  assumes "length e mod 16 \<noteq> 0" and "length e < 2 ^ 32"
  shows "compress_image env e = Inl Length_error"
proof -
  have "unat (of_nat (length e) mod 16 :: u32) = length e mod 16"
    using assms(2) by (simp add: unat_mod unat_of_nat_small)
  then have "(of_nat (length e) mod 16 :: u32) \<noteq> 0" using assms(1) by (metis unat_0)
  then show ?thesis by (simp add: compress_image_def DecryptECB_def run_mode_def CheckLength_def)
qed

section \<open>The image of the client\<close>

lemma ecb_blocks:
  "16 * n \<le> length inp \<Longrightarrow> each_block (ecb_encrypt_pass ctx rk) n inp b
     = Inr (concat (map (\<lambda>i. EncryptBlock ctx (take 16 (drop (16 * i) inp)) rk) [0..<n]))"
proof (induction n arbitrary: inp)
  case (Suc n)
  have shift: "drop (16 * Suc i) inp = drop (16 * i) (drop 16 inp)" for i by (simp add: add.commute)
  have "[0..<Suc n] = 0 # map Suc [0..<n]" by (simp add: map_Suc_upt upt_conv_Cons del: upt_Suc)
  moreover have "16 * n \<le> length (drop 16 inp)" using Suc.prems by simp
  ultimately show ?case
    using Suc.IH [of "drop 16 inp"] Suc.prems shift by (simp add: ecb_encrypt_pass_def o_def del: upt_Suc)
qed simp

text \<open>Its blocks: the first, number 62, and zeros.\<close>

definition image_block :: "nat \<Rightarrow> bytes" where
  "image_block i =
     (if i = 0 then [0, 1, 2, 0, 0, 0, 0, 0, 0, 0, 0, 0, 0, 0, 0, 0]
      else if i = 62 then [0, 0, 0, 0, 0, 0, 0, 0, 0, 3, 4, 0, 0, 0, 0, 0]
      else [0, 0, 0, 0, 0, 0, 0, 0, 0, 0, 0, 0, 0, 0, 0, 0])"

lemma length_src_img: "length src_img = 4096"
  by (simp add: src_img_def)

lemma src_img_nth:
  "n < 4096 \<Longrightarrow> src_img ! n = (if n = 1 then 1 else if n = 2 then 2 else if n = 1001 then 3 else if n = 1002 then 4 else 0)"
  by (simp add: src_img_def nth_list_update)

lemma src_img_block:
  assumes "i < 256"
  shows "take 16 (drop (16 * i) src_img) = image_block i"
proof (rule nth_equalityI)
  show "length (take 16 (drop (16 * i) src_img)) = length (image_block i)"
    using assms by (simp add: length_src_img image_block_def)
  fix k
  assume "k < length (take 16 (drop (16 * i) src_img))"
  then have k: "k < 16" by simp
  have n: "16 * i + k < 4096" using assms k by simp
  have at: "take 16 (drop (16 * i) src_img) ! k = src_img ! (16 * i + k)"
    using n k by (simp add: length_src_img)
  have idx: "16 * i + k = 1 \<longleftrightarrow> i = 0 \<and> k = 1" "16 * i + k = 2 \<longleftrightarrow> i = 0 \<and> k = 2"
    "16 * i + k = 1001 \<longleftrightarrow> i = 62 \<and> k = 9" "16 * i + k = 1002 \<longleftrightarrow> i = 62 \<and> k = 10"
    using k by presburger+
  have "k \<in> set [0..<16]" using k by simp
  then have "k \<in> {0, 1, 2, 3, 4, 5, 6, 7, 8, 9, 10, 11, 12, 13, 14, 15}" by (simp only: upt_16 list.set)
  then show "take 16 (drop (16 * i) src_img) ! k = image_block i ! k"
    unfolding at src_img_nth [OF n] idx by (elim insertE) (simp_all add: image_block_def)
qed

lemma image_blocks_encrypted:
  "0 \<notin> set (EncryptBlock (new_AES AES_128) (image_block i) round_keys_128)"
proof -
  have "Nr (new_AES AES_128) = 10" by (simp add: new_AES_def)
  note e = EncryptBlock_rounds [OF this]
  note eval = load_block_def AddRoundKey_def ShiftRows_def ShiftRow_def store_block_def upt_4 upt_16 block_values
  have "0 \<notin> set (EncryptBlock (new_AES AES_128) [0, 1, 2, 0, 0, 0, 0, 0, 0, 0, 0, 0, 0, 0, 0, 0] round_keys_128)"
    "0 \<notin> set (EncryptBlock (new_AES AES_128) [0, 0, 0, 0, 0, 0, 0, 0, 0, 3, 4, 0, 0, 0, 0, 0] round_keys_128)"
    "0 \<notin> set (EncryptBlock (new_AES AES_128) [0, 0, 0, 0, 0, 0, 0, 0, 0, 0, 0, 0, 0, 0, 0, 0] round_keys_128)"
    unfolding e by (simp_all add: eval)
  then show ?thesis unfolding image_block_def by (auto split: if_splits)
qed

lemma encrypted_img_eq:
  "encrypted_img = Inr (concat (map (\<lambda>i. EncryptBlock (new_AES AES_128) (image_block i) round_keys_128) [0..<256]))"
proof -
  have key: "KeyExpansion (new_AES AES_128) aes_key = Inr round_keys_128"
    using schedule by (simp add: KeyExpansion_def new_AES_def aes_key_def)
  have blocks: "map (\<lambda>i. EncryptBlock (new_AES AES_128) (take 16 (drop (16 * i) src_img)) round_keys_128) [0..<256]
      = map (\<lambda>i. EncryptBlock (new_AES AES_128) (image_block i) round_keys_128) [0..<256]"
    by (rule map_cong) (simp_all add: src_img_block)
  have "16 * 256 \<le> length src_img" by (simp add: length_src_img)
  note ecb_blocks [OF this, of "new_AES AES_128" round_keys_128 "[]", unfolded blocks]
  with key show ?thesis
    by (simp add: encrypted_img_def EncryptECB_def run_mode_def CheckLength_def)
qed

lemma encrypted_img_no_zero:
  "\<exists>arr. encrypted_img = Inr arr \<and> 0 \<notin> set arr \<and> length arr = 4096"
  using image_blocks_encrypted by (auto simp: encrypted_img_eq length_concat o_def sum_list_triv)

section \<open>The client with all requests pushed\<close>

text \<open>The number of the \<open>m\<close>-th request: a completion counts before it takes a number, so number
  \<open>concurrency\<close> is left out.\<close>

definition issue :: "nat \<Rightarrow> nat \<Rightarrow> nat" where
  "issue c m = (if m < c then m else m + 1)"

definition outstanding :: "client \<Rightarrow> u32 list" where
  "outstanding ctx = in_flight ctx @ map fst (spsc_queue ctx)"

definition fifo_inv :: "nat \<Rightarrow> client \<Rightarrow> bool" where
  "fifo_inv c ctx \<longleftrightarrow> list_all (\<lambda>(i, t). t = RPC_APP1) (spsc_queue ctx)
     \<and> (\<exists>k. next_id ctx = of_nat (c + k) \<and> outstanding ctx = map (\<lambda>m. of_nat (issue c m)) [k..<k + c])"

definition filled :: "nat \<Rightarrow> client" where
  "filled c = (PushNextTCReq ^^ c) new_client"

lemma filled_eq:
  "filled c = new_client\<lparr>next_id := of_nat c, spsc_queue := map (\<lambda>i. (of_nat i, RPC_APP1)) [0..<c]\<rparr>"
  by (induction c) (simp_all add: filled_def new_client_def PushNextTCReq_def add.commute)

lemma filled_reachable: "c \<le> 128 \<Longrightarrow> (client_step n)\<^sup>*\<^sup>* new_client (filled c)"
proof (induction c)
  case (Suc c)
  have "client_step n (filled c) (PushNextTCReq (filled c))"
    using Suc.prems by (intro client_step.push) (simp add: filled_eq kAppMaxConcurrency_def)
  moreover have "filled (Suc c) = PushNextTCReq (filled c)" by (simp add: filled_def)
  ultimately show ?case using Suc by (simp add: rtranclp.rtrancl_into_rtrancl)
qed (simp add: filled_def)

lemma filled_inv: "fifo_inv c (filled c)"
proof -
  have "map (\<lambda>m. of_nat (issue c m)) [0..<c] = map (of_nat :: nat \<Rightarrow> u32) [0..<c]"
    by (rule map_cong) (simp_all add: issue_def)
  then have "outstanding (filled c) = map (\<lambda>m. of_nat (issue c m)) [0..<0 + c]"
    by (simp add: outstanding_def filled_eq new_client_def o_def)
  moreover have "next_id (filled c) = of_nat (c + 0)" by (simp add: filled_eq)
  moreover have "list_all (\<lambda>(i, t). t = RPC_APP1) (spsc_queue (filled c))"
    by (simp add: filled_eq list_all_iff)
  ultimately show ?thesis unfolding fifo_inv_def by blast
qed

lemma dispatch_app:
  assumes "spsc_queue ctx = (i, RPC_APP1) # q"
  shows "dispatch c ctx = Inr (ctx\<lparr>spsc_queue := q, timers := (timers ctx)(unat i mod c \<mapsto> i), in_flight := in_flight ctx @ [i]\<rparr>)"
  using assms by (simp add: dispatch_def handler_compress_def)

text \<open>While the leader pushes, the numbers are those pushed so far.\<close>

definition startup_inv :: "nat \<Rightarrow> client \<Rightarrow> bool" where
  "startup_inv c ctx \<longleftrightarrow> list_all (\<lambda>(i, t). t = RPC_APP1) (spsc_queue ctx)
     \<and> (\<exists>k \<le> c. next_id ctx = of_nat k \<and> outstanding ctx = map of_nat [0..<k])"

lemma startup_step_inv:
  assumes "startup_step n c ctx ctx'" and "startup_inv c ctx" and "c < 2 ^ 32"
  shows "startup_inv c ctx'"
  using assms
proof (induction rule: startup_step.induct)
  case (push ctx)
  then obtain k where k: "k \<le> c" "next_id ctx = of_nat k" "outstanding ctx = map of_nat [0..<k]"
    by (auto simp: startup_inv_def)
  moreover have "unat (of_nat k :: u32) = k" using k(1) push(4) by (intro unat_of_nat_small) simp
  ultimately have "Suc k \<le> c" using push(1) by simp
  moreover have "next_id (PushNextTCReq ctx) = of_nat (Suc k)"
    "outstanding (PushNextTCReq ctx) = map of_nat [0..<Suc k]"
    using k by (simp_all add: PushNextTCReq_def outstanding_def)
  moreover have "list_all (\<lambda>(i, t). t = RPC_APP1) (spsc_queue (PushNextTCReq ctx))"
    using push(3) by (simp add: PushNextTCReq_def startup_inv_def)
  ultimately show ?case unfolding startup_inv_def by blast
next
  case (send ctx ctx')
  then obtain i q where q: "spsc_queue ctx = (i, RPC_APP1) # q"
    by (cases "spsc_queue ctx") (auto simp: startup_inv_def)
  have "outstanding ctx' = outstanding ctx" "next_id ctx' = next_id ctx" "spsc_queue ctx' = q"
    using send(2) dispatch_app [OF q, of n] q by (auto simp: outstanding_def)
  then show ?case using send(3) q by (simp add: startup_inv_def)
qed

lemma startup_steps_inv:
  "(startup_step n c)\<^sup>*\<^sup>* ctx ctx' \<Longrightarrow> startup_inv c ctx \<Longrightarrow> c < 2 ^ 32 \<Longrightarrow> startup_inv c ctx'"
  by (induction rule: rtranclp_induct) (auto intro: startup_step_inv)

lemma started_inv:
  assumes "(startup_step n c)\<^sup>*\<^sup>* (new_client\<lparr>pings := p\<rparr>) ctx" and "next_id ctx = of_nat c" and "c < 2 ^ 32"
  shows "fifo_inv c ctx"
proof -
  have "startup_inv c (new_client\<lparr>pings := p\<rparr>)"
    by (simp add: startup_inv_def new_client_def outstanding_def)
  then have inv: "startup_inv c ctx" using startup_steps_inv [OF assms(1)] assms(3) by blast
  then obtain k where k: "k \<le> c" "next_id ctx = of_nat k" "outstanding ctx = map of_nat [0..<k]"
    by (auto simp: startup_inv_def)
  have "unat (of_nat k :: u32) = k" "unat (of_nat c :: u32) = c"
    using k(1) assms(3) by (intro unat_of_nat_small; simp)+
  then have "k = c" using k(2) assms(2) by metis
  moreover have "map (\<lambda>m. of_nat (issue c m)) [0..<c] = map (of_nat :: nat \<Rightarrow> u32) [0..<c]"
    by (rule map_cong) (simp_all add: issue_def)
  ultimately have "outstanding ctx = map (\<lambda>m. of_nat (issue c m)) [0..<0 + c]" "next_id ctx = of_nat (c + 0)"
    using k by simp_all
  then show ?thesis using inv unfolding startup_inv_def fifo_inv_def by blast
qed

lemma fifo_step_inv:
  assumes "fifo_step n ctx ctx'" and "fifo_inv c ctx" and "0 < c"
  shows "fifo_inv c ctx'"
  using assms
proof (induction rule: fifo_step.induct)
  case (send ctx ctx')
  then obtain i q where q: "spsc_queue ctx = (i, RPC_APP1) # q"
    by (cases "spsc_queue ctx") (auto simp: fifo_inv_def)
  have "outstanding ctx' = outstanding ctx" "next_id ctx' = next_id ctx" "spsc_queue ctx' = q"
    using send(2) dispatch_app [OF q, of n] q by (auto simp: outstanding_def)
  then show ?case using send(3) q by (simp add: fifo_inv_def)
next
  case (complete ctx)
  obtain k where k: "next_id ctx = of_nat (c + k)" "outstanding ctx = map (\<lambda>m. of_nat (issue c m)) [k..<k + c]"
    using complete(3) by (auto simp: fifo_inv_def)
  have "outstanding (callback_compress 0 ctx) = tl (outstanding ctx) @ [next_id ctx + 1]"
    using complete(1) by (cases "in_flight ctx") (simp_all add: outstanding_def callback_compress_def Let_def)
  also have "\<dots> = map (\<lambda>m. of_nat (issue c m)) [Suc k..<Suc k + c]"
    using k complete(4) by (simp add: upt_conv_Cons issue_def add_ac)
  finally have o: "outstanding (callback_compress 0 ctx) = map (\<lambda>m. of_nat (issue c m)) [Suc k..<Suc k + c]" .
  have "next_id (callback_compress 0 ctx) = of_nat (c + Suc k)"
    using k by (simp add: callback_compress_def Let_def add_ac)
  moreover have "list_all (\<lambda>(i, t). t = RPC_APP1) (spsc_queue (callback_compress 0 ctx))"
    using complete(3) by (simp add: fifo_inv_def callback_compress_def Let_def)
  ultimately show ?case using o unfolding fifo_inv_def by blast
qed

lemma fifo_steps_inv: "(fifo_step n)\<^sup>*\<^sup>* ctx ctx' \<Longrightarrow> fifo_inv c ctx \<Longrightarrow> 0 < c \<Longrightarrow> fifo_inv c ctx'"
  by (induction rule: rtranclp_induct) (auto intro: fifo_step_inv)

lemma buffer_of_nat: "buffer_of (of_nat n) = n mod 128"
  by (simp add: buffer_of_def kAppMaxConcurrency_def unat_of_nat mod_mod_cancel)

lemma mod_128_near:
  assumes "x mod 128 = y mod 128" and "x < y + 128" and "y < x + 128"
  shows "x = (y :: nat)"
proof -
  have xy: "x = x div 128 * 128 + x mod 128" "y = y div 128 * 128 + x mod 128"
    using div_mult_mod_eq [of x 128] div_mult_mod_eq [of y 128] assms(1) by simp_all
  have "x div 128 = y div 128"
    by (rule antisym) (use xy assms(2,3) in linarith)+
  then show ?thesis using xy by simp
qed

text \<open>The numbers outstanding lie within \<open>c + 1\<close>, so their buffers differ as long as that is at most 128.\<close>

lemma buffers_distinct:
  assumes "fifo_inv c ctx" and "c < 128"
  shows "distinct (map buffer_of (outstanding ctx))"
proof -
  obtain k where o: "outstanding ctx = map (\<lambda>m. of_nat (issue c m)) [k..<k + c]"
    using assms(1) by (auto simp: fifo_inv_def)
  have "inj_on (\<lambda>m. issue c m mod 128) {k..<k + c}"
  proof (rule inj_onI)
    fix a b
    assume a: "a \<in> {k..<k + c}" and b: "b \<in> {k..<k + c}" and e: "issue c a mod 128 = issue c b mod 128"
    have "issue c a < issue c b + 128" "issue c b < issue c a + 128"
      using a b assms(2) by (auto simp: issue_def)
    with e have "issue c a = issue c b" by (rule mod_128_near)
    then show "a = b" by (auto simp: issue_def split: if_splits)
  qed
  then show ?thesis by (simp add: o distinct_map buffer_of_nat o_def)
qed

text \<open>Sending everything queued.\<close>

lemma send_all:
  assumes "list_all (\<lambda>(i, t). t = RPC_APP1) (spsc_queue ctx)"
  shows "\<exists>tm. (fifo_step n)\<^sup>*\<^sup>* ctx (ctx\<lparr>spsc_queue := [], timers := tm, in_flight := outstanding ctx\<rparr>)"
  using assms
proof (induction "spsc_queue ctx" arbitrary: ctx)
  case Nil
  then have "ctx\<lparr>spsc_queue := [], timers := timers ctx, in_flight := outstanding ctx\<rparr> = ctx"
    by (simp add: outstanding_def)
  then show ?case by (metis rtranclp.rtrancl_refl)
next
  case (Cons a q)
  then obtain i where a: "a = (i, RPC_APP1)" by (cases a) (auto dest: sym)
  let ?ctx = "ctx\<lparr>spsc_queue := q, timers := (timers ctx)(unat i mod n \<mapsto> i), in_flight := in_flight ctx @ [i]\<rparr>"
  have q: "spsc_queue ctx = (i, RPC_APP1) # q" using Cons(2) a by simp
  have "fifo_step n ctx ?ctx"
    using q by (intro fifo_step.send) (simp_all add: dispatch_app)
  moreover have "outstanding ?ctx = outstanding ctx" using q by (simp add: outstanding_def)
  moreover obtain tm where "(fifo_step n)\<^sup>*\<^sup>* ?ctx (?ctx\<lparr>spsc_queue := [], timers := tm, in_flight := outstanding ?ctx\<rparr>)"
    using Cons(1) [of ?ctx] Cons(3) q by auto
  ultimately show ?case by (auto intro: converse_rtranclp_into_rtranclp)
qed

section \<open>Properties\<close>


text \<open>A service whose compressor keeps the first byte and whose parser reads small messages.\<close>

definition first_byte :: service where
  "first_byte = \<lparr>parse_req = (\<lambda>b. compress_img (ucast (b ! 1)) (drop 4 b)),
     lz4_compress = (\<lambda>s cap. take 1 s), heap_bytes = (\<lambda>_. 255)\<rparr>"


text \<open>An image whose length is not a multiple of 16 makes the cipher throw, which no handler catches.\<close>

theorem image_length_error:
  assumes "length (img (parse_req env data)) mod 16 \<noteq> 0" and "length (img (parse_req env data)) < 2 ^ 32"
  shows "compress_handler env (compress_request req_id data) ctx = Inl Length_error"
  using compress_image_bad_length [OF assms, of env]
  by (simp add: compress_handler_def compress_request_def read_header generate_compress_img_def Let_def
      USE_SERIALIZATION_def IsInitialized_img_def)

theorem image_length_error_witness:
  "compress_handler first_byte (compress_request 1 [8, 1, 18, 3, 7, 8, 9])
     \<lparr>stat_req_ping_tot = 0, stat_compress_tot = 0\<rparr> = Inl Length_error"
  by (rule image_length_error) (simp_all add: first_byte_def)

text \<open>The client makes a C string of its encrypted image, which has no zero byte: the
  constructor reads past the 4096 bytes.\<close>

theorem request_image_overrun:
  "request_image = Inl Overrun \<and> (\<exists>arr. encrypted_img = Inr arr \<and> length arr = 4096)"
proof -
  obtain arr where arr: "encrypted_img = Inr arr" "0 \<notin> set arr" "length arr = 4096"
    using encrypted_img_no_zero by blast
  show ?thesis unfolding request_image_def arr(1) using arr(2,3) by (simp add: std_string_def USE_SERIALIZATION_def)
qed

text \<open>C30. The leader pushes \<open>c\<close> requests, fewer than 128, while the client already sends.  If no request
  completes before the last is pushed, and they complete in the order they were sent, then from then on no two
  requests in flight share a message buffer, and \<open>c\<close> are queued or in flight.  Both conditions are needed:
  \<open>request_numbers_repeat\<close> has an early completion, \<open>first_completion_collides\<close> 128 requests.\<close>

theorem client_buffers:
  assumes "0 < c" and "c < 128"
    and "(startup_step n c)\<^sup>*\<^sup>* (new_client\<lparr>pings := 1\<rparr>) started" and "next_id started = of_nat c"
    and "(fifo_step n)\<^sup>*\<^sup>* started ctx"
  shows "distinct (map buffer_of (in_flight ctx)) \<and> length (in_flight ctx) + length (spsc_queue ctx) = c"
proof -
  have "fifo_inv c started" using started_inv [OF assms(3,4)] assms(2) by simp
  then have inv: "fifo_inv c ctx" using fifo_steps_inv [OF assms(5)] assms(1) by blast
  then have "length (outstanding ctx) = c" by (auto simp: fifo_inv_def)
  then show ?thesis
    using buffers_distinct [OF inv assms(2)] by (simp add: outstanding_def)
qed

text \<open>Two requests: one pushed and sent, the other pushed and sent, the first completes and its successor is sent.\<close>

theorem client_buffers_witness:
  "\<exists>ctx :: client. in_flight ctx = [1, 3] \<and> distinct (map buffer_of (in_flight ctx))
    \<and> length (in_flight ctx) + length (spsc_queue ctx) = 2"
proof -
  let ?z = "new_client\<lparr>pings := 1\<rparr>"
  let ?a = "PushNextTCReq ?z"
  let ?b = "projr (dispatch 2 ?a)"
  let ?c = "PushNextTCReq ?b"
  let ?d = "projr (dispatch 2 ?c)"
  let ?e = "callback_compress 0 ?d"
  let ?f = "projr (dispatch 2 ?e)"
  note defs = PushNextTCReq_def new_client_def dispatch_def handler_compress_def callback_compress_def
    kAppMaxConcurrency_def Let_def
  have "startup_step 2 2 ?z ?a" by (rule startup_step.push) (simp_all add: defs)
  moreover have "startup_step 2 2 ?a ?b" by (rule startup_step.send) (simp_all add: defs)
  moreover have "startup_step 2 2 ?b ?c" by (rule startup_step.push) (simp_all add: defs)
  ultimately have start: "(startup_step 2 2)\<^sup>*\<^sup>* ?z ?c"
    by (meson converse_rtranclp_into_rtranclp rtranclp.rtrancl_refl)
  have "fifo_step 2 ?c ?d" by (rule fifo_step.send) (simp_all add: defs)
  moreover have "fifo_step 2 ?d ?e" by (rule fifo_step.complete) (simp_all add: defs)
  moreover have "fifo_step 2 ?e ?f" by (rule fifo_step.send) (simp_all add: defs)
  ultimately have run: "(fifo_step 2)\<^sup>*\<^sup>* ?c ?f"
    by (meson converse_rtranclp_into_rtranclp rtranclp.rtrancl_refl)
  have "next_id ?c = of_nat 2" "in_flight ?f = [1, 3]" by (simp_all add: defs)
  with client_buffers [OF _ _ start _ run] show ?thesis by (intro exI [of _ ?f]) simp
qed

text \<open>With as many requests as there are timers, the first completion takes the number after next: its
  request restarts the timer of request 1, which is still in flight, and with 128 of them it also
  takes its message buffers.\<close>

theorem first_completion_collides:
  assumes "1 < c" and "c \<le> 128"
  shows "\<exists>ctx. (client_step c)\<^sup>*\<^sup>* new_client ctx
    \<and> in_flight ctx = map of_nat ([1..<c] @ [c + 1]) \<and> timers ctx 1 = Some (of_nat (c + 1))
    \<and> (c = 128 \<longrightarrow> buffer_of (of_nat (c + 1)) = buffer_of 1)"
proof -
  let ?out = "map (of_nat :: nat \<Rightarrow> u32) [0..<c]"
  have out: "outstanding (filled c) = ?out"
    by (simp add: outstanding_def filled_eq new_client_def o_def)
  obtain tm where 1: "(fifo_step c)\<^sup>*\<^sup>* (filled c) ((filled c)\<lparr>spsc_queue := [], timers := tm, in_flight := ?out\<rparr>)"
    using send_all [of "filled c" c] filled_inv [of c] out by (auto simp: fifo_inv_def)
  let ?s1 = "(filled c)\<lparr>spsc_queue := [], timers := tm, in_flight := ?out\<rparr>"
  let ?s2 = "callback_compress 0 ?s1"
  have hd: "?out = 0 # map of_nat [1..<c]" using assms(1) by (simp add: upt_conv_Cons)
  have 2: "client_step c ?s1 ?s2"
    using assms(1) by (intro client_step.complete) (simp_all add: kAppMaxConcurrency_def)
  have q2: "spsc_queue ?s2 = [(of_nat (c + 1), RPC_APP1)]" "in_flight ?s2 = map of_nat [1..<c]"
    using hd by (simp_all add: callback_compress_def Let_def filled_eq add.commute)
  let ?s3 = "?s2\<lparr>spsc_queue := [], timers := (timers ?s2)(unat (of_nat (c + 1) :: u32) mod c \<mapsto> of_nat (c + 1)),
      in_flight := in_flight ?s2 @ [of_nat (c + 1)]\<rparr>"
  have 3: "client_step c ?s2 ?s3"
    using dispatch_app [OF q2(1), of c] by (intro client_step.send) (simp_all add: q2(1))
  have "unat (of_nat (c + 1) :: u32) mod c = 1"
  proof -
    have "unat (of_nat (c + 1) :: u32) = c + 1" using assms(2) by (intro unat_of_nat_small) simp
    then show ?thesis using assms(1) by (simp add: mod_Suc)
  qed
  then have "timers ?s3 1 = Some (of_nat (c + 1))" by simp
  moreover have "in_flight ?s3 = map of_nat ([1..<c] @ [c + 1])" using q2(2) by simp
  moreover have "(client_step c)\<^sup>*\<^sup>* (filled c) ?s1"
    using 1 by (rule rtranclp_mono [THEN predicate2D, rotated]) (auto intro: fifo_client_step)
  moreover have "c = 128 \<longrightarrow> buffer_of (of_nat (c + 1)) = buffer_of 1"
    using buffer_of_nat [of 129] buffer_of_nat [of 1] by simp
  ultimately show ?thesis
    using filled_reachable [OF assms(2), of c] 2 3 by (meson rtranclp.rtrancl_into_rtrancl rtranclp_trans)
qed

theorem first_completion_collides_witness:
  "\<exists>ctx. (client_step 2)\<^sup>*\<^sup>* new_client ctx \<and> in_flight ctx = [1, 3] \<and> timers ctx 1 = Some 3"
  using first_completion_collides [of 2] by (auto simp: upt_rec)

text \<open>A completion before the leader has pushed all its requests gives two requests in flight the same
  number.\<close>

theorem request_numbers_repeat:
  "\<exists>ctx. (client_step 2)\<^sup>*\<^sup>* new_client ctx \<and> in_flight ctx = [2, 2]"
proof -
  let ?a = "PushNextTCReq new_client"
  let ?b = "projr (dispatch 2 ?a)"
  let ?c = "callback_compress 0 ?b"
  let ?d = "PushNextTCReq ?c"
  let ?e = "projr (dispatch 2 ?d)"
  let ?f = "projr (dispatch 2 ?e)"
  note defs = PushNextTCReq_def new_client_def dispatch_def handler_compress_def callback_compress_def
    kAppMaxConcurrency_def Let_def
  have "client_step 2 new_client ?a" by (rule client_step.push) (simp add: defs)
  moreover have "client_step 2 ?a ?b" by (rule client_step.send) (simp_all add: defs)
  moreover have "client_step 2 ?b ?c" by (rule client_step.complete) (simp_all add: defs)
  moreover have "client_step 2 ?c ?d" by (rule client_step.push) (simp add: defs)
  moreover have "client_step 2 ?d ?e" by (rule client_step.send) (simp_all add: defs)
  moreover have "client_step 2 ?e ?f" by (rule client_step.send) (simp_all add: defs)
  moreover have "in_flight ?f = [2, 2]" by (simp add: defs)
  ultimately show ?thesis by (meson converse_rtranclp_into_rtranclp rtranclp.rtrancl_refl)
qed

end
