(* ===== verification/Spec2Isabelle.thy ===== *)
theory Spec2Isabelle
  imports Driver_Spec DeathStar_Messages Microbench Hyperproto_Messages Hyperproto_Unregistered Gpu_Mem Bluefield_Bench Bluefield_Decode Locks Host_Utils Compress
begin

text \<open>
  Verification of RPCNIC's message serialization, DMA memory management, drivers and
  test programs.

  The program.  RPCNIC moves RPC messages between C++ objects and a byte format, on the CPU or on an
  FPGA.  Generated classes (\<open>include/bench_header\<close>) register a \<open>Metadata\<close> descriptor each: the type and
  the number of every field.  \<open>include/encode_main.h\<close> walks an object by its descriptor with pointer
  arithmetic: \<open>ByteSizeLong\<close> computes the size of the output, \<open>SerializeToString\<close> writes it, last field
  first, each field behind a two-byte length; \<open>SendMetadataToFPGA\<close> fills a table of classes and copies
  strings over 1024 bytes to a side buffer; \<open>ParseFromString\<close> rebuilds an object from the bytes and
  that table.  \<open>include/paralizer.h\<close> writes the protobuf encoding instead, in a dialect of its own for some types, first field
  first, and   \<open>include/no_encode_main.h\<close> is a baseline with integers of fixed width.  \<open>utils/QDMAController.cpp\<close>
  accesses the registers of the card, allocates the memory it reads and tells it the page table.  The
  programs under \<open>src/src\<close> put these together: they open the board, send the class table, serialize a
  message into the shared memory and issue a command.  \<open>bluefield\<close> runs the serializer on a BlueField card
  and sends each value to the host by DMA, and \<open>test_suite\<close> compares with other offloads: a copy engine of
  the processor (\<open>dsa_offload\<close>) and a service that compresses and encrypts images (\<open>e2e_compression\<close>).

  The theories, in import order.
  \<^item> \<open>Rpc_Prelude\<close>: machine types, faults, the result type and its sequencing, little-endian bytes.
  \<^item> \<open>Config\<close>: \<open>include/config.h\<close>, with the dispatch of a \<open>switch\<close> on a type code (\<open>decode_sw\<close>).
  \<^item> \<open>Varint\<close>, \<open>Encode\<close>, \<open>Decode\<close>: \<open>include/encode.h\<close> and \<open>include/decode.h\<close>.  A write pointer is the list
    of bytes written so far; a read pointer is \<open>Some\<close> the bytes from it on, or \<open>None\<close> for null.  Locales
    \<open>elem_writer\<close> and \<open>elem_codec\<close> state what packed sequences need of their elements, and are
    interpreted for every element type.
  \<^item> \<open>Objects\<close>: objects in memory (descriptor and cells by offset), messages as trees of values, and
    \<open>layout\<close> from the second to the first.
  \<^item> \<open>Wire_Format\<close>: the byte format as a function of the message, the specification of both serializers.
  \<^item> \<open>Size_Walk\<close>, \<open>ByteSize\<close>: \<open>ByteSizeLong\<close>.  \<open>Write_Walk\<close>, \<open>Serialize\<close>: \<open>SerializeToString\<close>.  The walks take
    the description of one field as an argument; the locales \<open>field_sizer\<close> and \<open>field_writer\<close> prove them
    for any description that meets its law, and are interpreted on the branches of the sources.
  \<^item> \<open>No_Encode\<close>, \<open>No_Serialize\<close>: the baseline \<open>include/no_encode.h\<close>, \<open>no_encode_main.h\<close> over the same walks.
  \<^item> \<open>Forward_Walk\<close>, \<open>Paralizer\<close>: the forward-order serializer (\<open>include/paralizer.h\<close>, \<open>old_encode.h\<close>),
    with the locale \<open>forward_fields\<close>, and its format compared with the other.  \<open>Protobuf_Format\<close>: the protobuf
    encoding of a message by itself, as a list of records, standard or with the two deviations of the code.
  \<^item> \<open>Fpga_Table\<close>, \<open>Parse\<close>: the class table and \<open>ParseFromString\<close>.
  \<^item> \<open>Registry\<close>, \<open>DeathStar\<close>: the contract between generated classes and the walks (locale
    \<open>class_registry\<close>) and the ten classes of the DeathStarBench header as an interpretation of it.
    \<open>Registry_Roundtrip\<close>: metadata walk, serializer and parser composed, once for every such registry.
  \<^item> \<open>Generated\<close>: what all generated headers share, the layout of declared members, the setters and the
    assignments of \<open>RegisterTestClass\<close>; \<open>table_registry\<close> reduces the contract to a check of two tables.
    \<open>Accessors\<close>: the functions of a generated class (\<open>generated_class\<close>), with the laws of getters and
    setters as the locales \<open>accessor\<close> and \<open>apart\<close>.  \<open>Setters\<close>: the functions \<open>M<c>_Set_F1\<close> as lists of calls,
    what objects they build (locale \<open>generated_tables\<close>), what getters then return and what destructors free.
  \<^item> \<open>Fpga_Metadata_Walk\<close>, \<open>Fpga_Metadata_Spec\<close>: \<open>SendMetadataToFPGA\<close> and \<open>SendMetadataToFPGA_hw\<close>, two
    interpretations of the locale \<open>describer\<close>.  \<open>Class_Range\<close>: the range of classes they leave is tight
    (locale \<open>range_keeper\<close>).
  \<^item> \<open>Repeated_Walks\<close>: the metadata walks and the parser as the other two headers repeat them.
  \<^item> \<open>DeathStar_Messages\<close>: the sample messages and \<open>BenchmarkInit\<close>.  \<open>Microbench\<close>: the seven headers
    \<open><n>int_microbench\<close>, with \<open>n\<close> as a parameter and an instance per header, messages included.
    \<open>Hyperproto_Classes\<close>, \<open>Hyperproto\<close>, \<open>Hyperproto_Messages\<close>: the 159 classes of HyperProtoBench 0, 1, 3
    and 4, their registration, and the ten sample messages of each.  \<open>Hyperproto_Unregistered\<close>: the 405
    classes of HyperProtoBench 2 and 5, whose registration is an argument.
  \<^item> \<open>MemCtl\<close>, \<open>Tlb\<close>: the allocator, with sequences of its calls and the locale \<open>block_pool\<close> as its clients see
    it, and the page table.  \<open>Gpu_Mem\<close>: the pool of GPU memory.
  \<^item> \<open>Fpga_Ctl\<close>: the controllers of the cards (\<open>FPGACtl\<close>); what is done to a card is a trace, what it
    answers a function of the trace.  As in the code no index is checked; \<open>access_inside\<close> says which accesses
    are inside a mapping.
  \<^item> \<open>Locks\<close>: the spin lock, and the allocator again with any number of threads inside it, a statement at
    a time, under its mutex.  \<open>Host_Utils\<close>: NUMA binding, huge pages, the clock.
  \<^item> \<open>Offload\<close>: the serializer without encoding as the other programs repeat it, and with a copy engine that
    runs its jobs in any order.  \<open>Bluefield\<close>: the writers and walks that send each value by DMA;
    \<open>Bluefield_Bench\<close>: the benchmark loop, with the memory of the card, and its completions.  \<open>Bluefield_Decode\<close>: the readers that copy
    each value from the host.
  \<^item> \<open>Aes\<close>: the cipher and its three modes, as interpretations of the locale \<open>block_mode\<close>.  \<open>Compress\<close>: the
    handlers of the compression service as it is built, with its protobuf messages, the requests of its client
    and the requests in flight.
  \<^item> \<open>Drivers\<close>, \<open>Driver_Spec\<close>: the four programs, and what each does to the card.
  \<^item> This theory: \<open>main\<close> with the sample messages, and properties that span the components.

  What is shown.  The serializer writes the specified bytes and announces their number; the metadata
  walks leave a table that agrees with what it writes; the parser inverts it; for the DeathStarBench
  classes these compose end to end, from opening the board to the message rebuilt, and for the
  microbenchmarks and HyperProtoBench from the registration to the message rebuilt, every sample message
  included; a getter of the rebuilt object returns what the setter stored, and the destructor of a message frees
  each of its objects once.  In all of these, strings over 1024 bytes travel outside the stream and arrive empty, and
  objects of one class must agree on which of their strings are that long.  The forward-order
  serializer writes the protobuf encoding, standard where a message has no sint32, repeated string or repeated bytes
  field.  The allocator, asked for sizes other than 0 and below 2 to the 64 less 63, keeps its pool tiled, hands out
  disjoint aligned blocks, and merges on release; the device is told the translation the host uses.  Each program, on a
  message it can send and a card that answers, ends after exactly the accesses stated, all of them inside the mappings.  Calls of the
  allocator that interleave give what they give one after the other.  The offloads leave the buffer the
  plain serializer leaves, whatever the order of the copies; the cipher is inverted in each mode, and
  the compression service answers with the compressed image of the image it was sent.  Other properties show where the code
  departs from its intent: objects of one class that disagree on their long strings, the undefined step
  in \<open>MemCtl::free\<close>, the class and the buffer named in commands, parsers that do not fit their
  serializers, the buffer the BlueField benchmark sends, message buffers two requests share, global messages that a
  destructor function would delete.

  Conventions.  Integers are words of their width.  A read or write outside a buffer, an array or an
  object, a load of the wrong type, and the use of a null pointer are faults (\<open>Inl\<close>); so is \<open>exit\<close>.  The
  recursion of the walks over an object is over the object, so it needs no fuel; the parser recurses on
  what the table says, so it takes fuel for its depth, and \<open>depth m\<close> is shown to be enough.  Loops over
  varints end by a measure.  The loops that poll a register may never end: they take fuel, and return
  for some fuel exactly when the card answers (\<open>wait_reg_returns\<close>, \<open>serialize_hw_ends\<close>).

  Not modelled.  Unmapping, timing loops, and how a stream formats what is printed; the registration of
  HyperProtoBench 2 and 5, whose files are not in the tree; the set-up of queue pairs, sockets and RPC
  sessions; the hardware sources and third-party code.  eRPC, the protobuf parser, LZ4, the results of \<open>open\<close>,
  \<open>mmap\<close>, \<open>ioctl\<close>, \<open>ibv_poll_cq\<close>, libnuma, CUDA and gdrcopy, and the answers of the card, are arguments
  of the model.
\<close>

section \<open>Sender and receiver\<close>

definition ds_tables :: "fpga_table \<Rightarrow> tables" where
  "ds_tables tab = \<lparr>metadataVec = ds_metadata, messageSizeVec = ds_sizes, FPGA_metadataVec = tab,
     createMessage = createMessage_ds\<rparr>"

definition blank_object :: "u32 \<Rightarrow> obj" where
  "blank_object c = blank_of createMessage_ds zero_metadata c"

lemmas ds_parse = ds.parse_typed [where ?md0.0 = zero_metadata, OF _ _ _ _ ds_tables_def, folded blank_object_def]
lemmas ds_send_and_parse = ds.send_and_parse [where ?md0.0 = zero_metadata, folded ds_tables_def blank_object_def]

section \<open>The programs with the sample messages\<close>

text \<open>\<open>main\<close> of the programs under \<open>src/src\<close>: the check of the index, the board, the message, and what the
  program does with it (\<open>run\<close>).  \<open>None\<close> is the return with status 1.\<close>

definition program_main ::
  "(obj \<Rightarrow> (u32 \<Rightarrow> u64) \<Rightarrow> board \<Rightarrow> outcome result) \<Rightarrow> fpga_env \<Rightarrow> u64 \<Rightarrow> u64 list
     \<Rightarrow> (u32 \<Rightarrow> Metadata) \<Rightarrow> (u32 \<Rightarrow> u64) \<Rightarrow> int \<Rightarrow> fpga_host \<Rightarrow> outcome option result" where
  "program_main run env huge_base phy_addr mdv msv top_msg_idx st =
     (if top_msg_idx < 0 \<or> 9 < top_msg_idx then Inr None
      else
        andThen (open_board env huge_base phy_addr st) (\<lambda>b.
        andThen (BenchmarkInit (nat top_msg_idx) mdv msv) (\<lambda>(top_msg, mdv, msv).
        andThen (run top_msg msv b) (\<lambda>res. Inr (Some res)))))"


lemma scalar_body_short [simp]:
  assumes "unat fid < 128"
  shows "length (field_body t fid (V64 w)) \<le> 60" "length (field_body t fid (V32 v)) \<le> 60"
    "length s \<le> 50 \<Longrightarrow> length (field_body t fid (VStr s)) \<le> 60"
proof -
  have "length (enc_u64 w) \<le> 10"
    by (rule length_enc_u64)
  then show "length (field_body t fid (V64 w)) \<le> 60"
    using length_tag_le [OF assms, of t "V64 w"] by (cases "t = sw_fix64_type") (simp_all add: field_body_def)
  show "length (field_body t fid (V32 v)) \<le> 60"
    using length_tag_le [OF assms, of t "V32 v"] length_enc_u32 [of v] length_enc_i32 [of v]
    by (cases "t = sw_fix32_type"; cases "t = sw_uint32_type") (simp_all add: field_body_def)
  show "length s \<le> 50 \<Longrightarrow> length (field_body t fid (VStr s)) \<le> 60"
    using length_tag_le [OF assms, of t "VStr s"] length_enc_u32 [of "of_nat (length s)"]
    by (simp add: field_body_def enc_string_def)
qed

lemma msg_bytes_short:
  "list_all (\<lambda>b. length b \<le> 60) (leaf_bodies m) \<Longrightarrow>
     length (msg_bytes field_bytes skip m) \<le> 62 * length (leaf_bodies m)"
  "list_all (\<lambda>b. length b \<le> 60) (leaf_bodies_val f v) \<Longrightarrow>
     length (val_bytes field_bytes skip f v) \<le> 62 * length (leaf_bodies_val f v)"
  "list_all (\<lambda>b. length b \<le> 60) (leaf_bodies_fields fs vs) \<Longrightarrow>
     length (fields_bytes field_bytes skip fs vs) \<le> 62 * length (leaf_bodies_fields fs vs)"
  by (induction m and f v and fs vs rule: leaf_bodies_leaf_bodies_val_leaf_bodies_fields.induct)
    (simp_all add: field_bytes_def)

lemma ds_messages_short:
  "list_all (\<lambda>m. list_all (\<lambda>b. length b \<le> 60) (leaf_bodies m) \<and> length (leaf_bodies m) \<le> 20) ds_messages"
  "list_all (\<lambda>m. list_all (\<lambda>c. unat c < 1000) (msg_classes m) \<and> c2h_msg m = []) ds_messages"
  by (simp_all add: ds_message_defs ds_row_fields ds_fields_def long_limit_def)

lemma ds_messages_received: "list_all (\<lambda>m. received True m = m) ds_messages"
  by (simp add: ds_message_defs ds_row_fields ds_fields_def long_limit_def)

lemma ds_sendable:
  assumes "idx < 5"
  shows "sendable ds_signature ds_sizes (ds_messages ! idx)"
    and "fits_half (stream False True (ds_messages ! idx))"
proof -
  let ?m = "ds_messages ! idx"
  have short: "list_all (\<lambda>b. length b \<le> 60) (leaf_bodies ?m)" "length (leaf_bodies ?m) \<le> 20"
    and classes: "list_all (\<lambda>c. unat c < 1000) (msg_classes ?m)" "c2h_msg ?m = []"
    using ds_messages_short assms by (simp_all add: list_all_length length_ds_messages)
  show "sendable ds_signature ds_sizes ?m"
    using ds_message_ok [OF assms] ds.typed_wf ds.typed_sizes classes
    by (simp add: sendable_def fits_half_def)
  show "fits_half (stream False True ?m)"
    using msg_bytes_short(1) [OF short(1), of True] short(2) by (simp add: fits_half_def stream_def)
qed

section \<open>An example\<close>

text \<open>A message of class 4 whose sub-message holds a long string.\<close>

definition sample_message :: msg where
  "sample_message = Msg (ds_metadata 4) [MVal (V64 7), MSub (Msg (ds_metadata 3)
     [MVal (V64 (- 1)), MVal (VStr (replicate 2000 97))])]"

definition sample_signature :: signature where
  "sample_signature c i =
     (if c = 4 \<and> i = 2 then (True, Some 3) else if c = 3 \<and> i = 2 then (False, None) else (True, None))"

lemma ds_34:
  "md_fields (ds_metadata 3) = [(sw_int64_type, 1), (sw_string_type, 2)]" "class_id (ds_metadata 3) = 3"
  "md_fields (ds_metadata 4) = [(sw_int64_type, 1), (sw_ptr_type, 2)]" "class_id (ds_metadata 4) = 4"
  using ds_fields_metadata(2,3) [of 3] ds_fields_metadata(2,3) [of 4]
  by (simp_all add: ds_classes_def ds_fields_def)

lemma sample_ok:
  "typed ds_metadata ds_classes sample_message" "consistent sample_signature sample_message"
  "fits True sample_message" "rows_ok fresh_state"
  by (simp_all add: sample_message_def sample_signature_def fresh_state_def ds_34 ds_classes_def
      same_kind_def slot_ok_def fpga_fields_def string_fits_def long_limit_def parsable_def
      packed_part_def rows_ok_def row_ok_def)

section \<open>Two objects of one class that disagree\<close>

text \<open>A message with two sub-messages of class 2, each with one string.\<close>

definition pair_message :: "bytes \<Rightarrow> bytes \<Rightarrow> msg" where
  "pair_message s1 s2 = Msg (descriptor 1 [(sw_ptr_type, 1), (sw_ptr_type, 2)]) [MSub (leaf s1), MSub (leaf s2)]"

definition pair_tables :: "fpga_table \<Rightarrow> tables" where
  "pair_tables tab = \<lparr>metadataVec = \<lambda>c. if c = 1 then descriptor 1 [(sw_ptr_type, 1), (sw_ptr_type, 2)]
       else descriptor 2 [(sw_string_type, 1)],
     messageSizeVec = tree_sizes, FPGA_metadataVec = tab,
     createMessage = \<lambda>c. Inr (if c = 1 then [(16, OPtr None), (24, OPtr None)] else [(16, OVal (VStr []))])\<rparr>"

definition pair_signature :: "bool \<Rightarrow> signature" where
  "pair_signature inline c i = (if c = 1 then (True, Some 2) else (inline, None))"

lemma pair_ok: "wf_msg (pair_message s1 s2)" "sizes_agree tree_sizes (pair_message s1 s2)"
  by (simp_all add: pair_message_def leaf_def tree_sizes_def field_ok_def msg_sizeof_def first_member_def)

text \<open>The walk visits the second leaf first, so the row of class 2 ends as the first leaf has it.\<close>

lemma leaf_walk:
  assumes "rows_ok st" and "string_fits s" and "b = (\<not> long_limit < length s)"
  shows "\<exists>st'. Meta_walk Describe_field tree_sizes (layout (leaf s)) st = Inr st'
    \<and> walk_ok (pair_signature b) (leaf s) st st'"
proof -
  have "wf_msg (leaf s)" "sizes_agree tree_sizes (leaf s)" "consistent (pair_signature b) (leaf s)"
    using assms(2,3) by (simp_all add: leaf_def tree_sizes_def field_ok_def msg_sizeof_def first_member_def
        pair_signature_def slot_ok_def fpga_fields_def)
  then show ?thesis using sw_walk.walk assms(1) by blast
qed

lemma pair_turn:
  assumes "rows_ok st" and "string_fits s" and "b = (\<not> long_limit < length s)" and "fid = 1 \<or> fid = 2"
  shows "\<exists>st'. turn_ok (pair_signature b) 1 (sw_ptr_type, fid) (MSub (leaf s)) st st'
    \<and> Meta_loop (Meta_walk Describe_field tree_sizes) Describe_field 1 (layout_fields off (us @ MSub (leaf s) # ws))
        ((sw_code sw_ptr_type, fid) # fs) (off + strides us + mval_stride (MSub (leaf s))) mfn clen st
      = Meta_loop (Meta_walk Describe_field tree_sizes) Describe_field 1 (layout_fields off (us @ MSub (leaf s) # ws))
          fs (off + strides us) (step_max (sw_ptr_type, fid) mfn) (clen + fpga_length sw_ptr_type) st'"
proof -
  have dec: "dec_field (sw_code sw_ptr_type, fid) = (sw_ptr_type, fid)" by (simp add: dec_field_def del: sw_code.simps)
  have "unat fid = 1 \<or> unat fid = 2" using assms(4) by auto
  then have "field_ok (sw_ptr_type, fid) (MSub (leaf s))"
    and "slot_ok (pair_signature b) (ucast (1 :: u16)) (sw_ptr_type, fid) (MSub (leaf s))"
    by (auto simp: field_ok_def slot_ok_def fpga_fields_def pair_signature_def leaf_def)
  moreover have "unat (class_id (msg_metadata m)) < 65536
      \<and> (\<exists>st'. Meta_walk Describe_field tree_sizes (layout m) st = Inr st' \<and> walk_ok (pair_signature b) m st st')"
    if "MSub (leaf s) = MSub m" "rows_ok st" for m st
    using that leaf_walk [OF that(2) assms(2,3)] by (auto simp: leaf_def)
  ultimately show ?thesis
    using sw_walk.turn [where f = "(sw_code sw_ptr_type, fid)" and cid = 1 and v = "MSub (leaf s)", unfolded dec] assms(1)
    by simp
qed

lemma pair_walk:
  assumes "long_limit < length s1" and "string_fits s1" and "length s2 \<le> long_limit"
  shows "\<exists>st'. SendMetadataToFPGA (layout (pair_message s1 s2)) tree_sizes fresh_state = Inr st'
    \<and> table_agrees True (table st') (pair_message s1 s1)"
proof -
  let ?walk = "Meta_walk Describe_field tree_sizes"
  let ?loop = "Meta_loop ?walk Describe_field 1 (layout_fields first_member [MSub (leaf s1), MSub (leaf s2)])"
  let ?t = "sw_code sw_ptr_type" and ?st0 = "enter_class 1 fresh_state"
  have s2: "string_fits s2" using assms(3) by (simp add: string_fits_def long_limit_def)
  have rows0: "rows_ok ?st0" using keeps_rows [OF enter_class_ok(1) fresh_rows_ok] .
  obtain st1 where t1: "turn_ok (pair_signature True) 1 (sw_ptr_type, 2) (MSub (leaf s2)) ?st0 st1"
    and l1: "?loop [(?t, 2), (?t, 1)] 32 0 0 ?st0
      = ?loop [(?t, 1)] 24 (step_max (sw_ptr_type, 2) 0) (fpga_length sw_ptr_type) st1"
    using pair_turn [OF rows0 s2, of True 2 first_member "[MSub (leaf s1)]" "[]" "[(?t, 1)]" 0 0] assms(3)
    by (auto simp: first_member_def)
  have rows1: "rows_ok st1" using t1 keeps_rows rows0 unfolding turn_ok_def by blast
  obtain st2 where t2: "turn_ok (pair_signature False) 1 (sw_ptr_type, 1) (MSub (leaf s1)) st1 st2"
    and l2: "?loop [(?t, 1)] 24 (step_max (sw_ptr_type, 2) 0) (fpga_length sw_ptr_type) st1
      = Inr (step_max (sw_ptr_type, 1) (step_max (sw_ptr_type, 2) 0), fpga_length sw_ptr_type + fpga_length sw_ptr_type, st2)"
    using pair_turn [OF rows1 assms(2), of False 1 first_member "[]" "[MSub (leaf s2)]" "[]"
        "step_max (sw_ptr_type, 2) 0" "fpga_length sw_ptr_type"] assms(1)
    by (auto simp: first_member_def)
  let ?mfn = "step_max (sw_ptr_type, 1) (step_max (sw_ptr_type, 2) 0)"
    and ?clen = "fpga_length sw_ptr_type + fpga_length sw_ptr_type"
  have send: "?walk (layout (pair_message s1 s2)) fresh_state = Inr (leave_class 1 ?mfn ?clen st2)"
    using l1 l2 by - (subst Meta_walk.simps, simp add: pair_message_def tree_sizes_def)
  have one: "holds (pair_signature b) st 1 i = holds (pair_signature True) st 1 i" for b st i
    by (simp add: holds_def pair_signature_def)
  have "keeps (pair_signature False) st1 st2" and "holds (pair_signature True) st1 1 2"
    using t1 t2 by (simp_all add: turn_ok_def)
  then have "holds (pair_signature False) st2 1 2"
    using keeps_holds one [of False] by blast
  moreover have "holds (pair_signature False) st2 1 1" "holds (pair_signature False) st2 2 1"
    using t2 by (auto simp: turn_ok_def leaf_def)
  ultimately have h: "holds (pair_signature False) (leave_class 1 ?mfn ?clen st2) 1 2"
      "holds (pair_signature False) (leave_class 1 ?mfn ?clen st2) 1 1"
      "holds (pair_signature False) (leave_class 1 ?mfn ?clen st2) 2 1"
    using keeps_holds [OF leave_class_ok(1)] by blast+
  then have "table_agrees True (table (leave_class 1 ?mfn ?clen st2)) (pair_message s1 s1)"
    using assms(1)
    by (simp add: pair_message_def leaf_def entry_agrees_def holds_def pair_signature_def entry_holds_def)
  then show ?thesis using send by (auto simp: SendMetadataToFPGA_def)
qed

section \<open>Properties\<close>

text \<open>C1. End to end, for the classes of the DeathStarBench header: for a message of registered
  classes whose objects of one class agree on their long strings, \<open>SendMetadataToFPGA\<close> succeeds,
  \<open>SerializeToString\<close> with long strings skipped succeeds with the size it announced, and
  \<open>ParseFromString\<close>, given only those bytes, the table the walk left and a new object of the class,
  rebuilds the message, with the long strings empty.\<close>

theorem deathstar_roundtrip:
  assumes "typed ds_metadata ds_classes m" and "consistent sig m" and "fits True m" and "rows_ok st"
  shows "\<exists>st' out. SendMetadataToFPGA (layout m) ds_sizes st = Inr st'
    \<and> SerializeToString (layout m) True total_size ds_sizes
        = Inr (out, total_size + of_nat (length out), of_nat (length out))
    \<and> ParseFromString (depth m) out (blank_object (class_id (msg_metadata m)))
        (ucast (class_id (msg_metadata m))) (ds_tables (table st'))
        = Inr (layout (received True m))"
  using ds_send_and_parse [OF assms] .

theorem deathstar_roundtrip_witness:
  "\<exists>st' out. SendMetadataToFPGA (layout sample_message) ds_sizes fresh_state = Inr st'
    \<and> SerializeToString (layout sample_message) True 0 ds_sizes
        = Inr (out, 0 + of_nat (length out), of_nat (length out))
    \<and> ParseFromString (depth sample_message) out (blank_object (class_id (msg_metadata sample_message)))
        (ucast (class_id (msg_metadata sample_message))) (ds_tables (table st'))
        = Inr (layout (received True sample_message))"
  by (rule deathstar_roundtrip [OF sample_ok])

text \<open>C36. The table has one inline bit per field of a class, the serializer decides for each
  object.  When two objects of a class differ, the first with a long string and the second with a
  short one, the short string is written to the message but the table, as the walk leaves it, says
  the field travels outside: the parser returns without error and without the string.\<close>

theorem same_class_disagreement:
  assumes "1024 < length s1" and "length s1 < 2 ^ 63" and "length s2 \<le> 1024"
  shows "\<exists>st' out. SendMetadataToFPGA (layout (pair_message s1 s2)) tree_sizes fresh_state = Inr st'
    \<and> SerializeToString (layout (pair_message s1 s2)) True 0 tree_sizes
        = Inr (out, of_nat (length out), of_nat (length out))
    \<and> out = field_bytes True sw_string_type 1 (VStr s2) \<and> out \<noteq> []
    \<and> ParseFromString 2 out (Obj (descriptor 1 []) [(16, OPtr None), (24, OPtr None)]) 1 (pair_tables (table st'))
        = Inr (layout (pair_message [] []))"
proof -
  obtain st' where send: "SendMetadataToFPGA (layout (pair_message s1 s2)) tree_sizes fresh_state = Inr st'"
    and agree: "table_agrees True (table st') (pair_message s1 s1)"
    using pair_walk [of s1 s2] assms by (auto simp: long_limit_def string_fits_def)
  let ?out = "field_bytes True sw_string_type 1 (VStr s2)" and ?T = "pair_tables (table st')"
  have bytes: "msg_bytes field_bytes True (pair_message s1 s2) = ?out"
      "msg_bytes field_bytes True (pair_message s1 s1) = []"
    using assms by (simp_all add: pair_message_def leaf_def field_bytes_def long_limit_def)
  have "SerializeToString (layout (pair_message s1 s2)) True 0 tree_sizes
      = Inr (?out, of_nat (length ?out), of_nat (length ?out))"
    using ByteSizeLong_layout [OF pair_ok(1)] SerializeToString_DFS_layout [OF pair_ok]
    by (simp add: SerializeToString_def bytes)
  moreover have "?out \<noteq> []"
    using assms(3) by (simp add: field_bytes_def field_body_def long_limit_def tag_def)
  moreover have "ParseFromString_DFS 2 ?T (class_id (msg_metadata (pair_message s1 s1)))
      [(16, OPtr None), (24, OPtr None)] (Some (msg_bytes field_bytes True (pair_message s1 s1) @ ?out @ [0]))
    = Inr (Some (?out @ [0]), obj_cells (layout (received True (pair_message s1 s1))))"
  proof (rule ParseFromString_DFS_layout)
    note S = pair_message_def leaf_def pair_tables_def first_member_def blank_cells_def blank_for_def type_stride_def
    show "wf_msg (pair_message s1 s1)" by (rule pair_ok)
    show "sizes_agree (messageSizeVec ?T) (pair_message s1 s1)" using pair_ok(2) by (simp add: pair_tables_def)
    show "registered ?T (pair_message s1 s1)" by (simp add: S knows_class_def)
    show "table_agrees True (FPGA_metadataVec ?T) (pair_message s1 s1)" using agree by (simp add: pair_tables_def)
    show "fits True (pair_message s1 s1)" using assms(1) by (simp add: S long_limit_def)
    show "depth (pair_message s1 s1) \<le> 2" by (simp add: S)
    show "blank_cells first_member (md_fields (msg_metadata (pair_message s1 s1))) [(16, OPtr None), (24, OPtr None)]"
      by (simp add: S)
  qed
  then have "ParseFromString 2 ?out (Obj (descriptor 1 []) [(16, OPtr None), (24, OPtr None)]) 1 ?T
      = Inr (layout (pair_message [] []))"
    using assms(1) by (simp add: ParseFromString_def bytes)
      (simp add: pair_message_def leaf_def pair_tables_def long_limit_def)
  ultimately show ?thesis using send by blast
qed

theorem same_class_disagreement_witness:
  "\<exists>st' out. SendMetadataToFPGA (layout (pair_message (replicate 1100 97) [104, 105])) tree_sizes fresh_state = Inr st'
    \<and> SerializeToString (layout (pair_message (replicate 1100 97) [104, 105])) True 0 tree_sizes
        = Inr (out, of_nat (length out), of_nat (length out))
    \<and> out = field_bytes True sw_string_type 1 (VStr [104, 105]) \<and> out \<noteq> []
    \<and> ParseFromString 2 out (Obj (descriptor 1 []) [(16, OPtr None), (24, OPtr None)]) 1 (pair_tables (table st'))
        = Inr (layout (pair_message [] []))"
  by (rule same_class_disagreement) simp_all

text \<open>C5. From start to end, \<open>serialize_hw\<close> built with the DeathStarBench classes: given an index below 5
  it opens the board, takes that message from \<open>BenchmarkInit\<close>, and runs to its end when the card
  answers; what it leaves in memory is enough to rebuild the message: \<open>ParseFromString\<close> gives the
  message itself from the stream and the class table, since none of its strings is long.\<close>

theorem benchmark_on_card:
  assumes "0 \<le> idx" and "idx < 5" and "device_list st 0x1a = None"
    and "new_FPGACtl env 0x1a (4 * 1024 * 1024) = Inr c"
    and "huge_base \<noteq> 0" and "rows_ok (main_state tab)" and "k < fuel"
    and "\<And>tr. reg_value dev (tr @ replicate k (0x1a, Read_reg 812)) 812 \<noteq> 0"
  shows "\<exists>res obj. program_main (serialize_hw False fuel dev tab) env huge_base phy_addr (\<lambda>_. zero_metadata) (\<lambda>_. 0) idx st
        = Inr (Some res)
    \<and> BenchmarkInit (nat idx) (\<lambda>_. zero_metadata) (\<lambda>_. 0) = Inr (obj, ds_metadata, ds_sizes)
    \<and> ParseFromString (depth (ds_messages ! nat idx)) (out_stream res) (blank_object (class_id (obj_metadata obj)))
        (ucast (class_id (obj_metadata obj))) (ds_tables (table (out_meta res))) = Inr obj"
proof -
  let ?m = "ds_messages ! nat idx" and ?b = "the_board huge_base phy_addr st"
  have i: "nat idx < 5" using assms(2) by simp
  have "board_ctl ?b = card" by (simp add: the_board_def)
  then have answers: "reg_value dev (tr @ replicate k (pci_bus (board_ctl ?b), Read_reg 812)) 812 \<noteq> 0" for tr
    using assms(8) by simp
  have "\<exists>res. sent ?m (out_meta res) \<and> out_stream res = stream False True ?m
      \<and> serialize_hw False fuel dev tab (layout ?m) ds_sizes ?b = Inr res"
    using serialize_hw_result [OF ds_sendable(1) [OF i] assms(6) ds_sendable(2) [OF i] opened_the_board
        assms(7) answers] by (metis outcome.select_convs(2,3))
  then obtain res where ms: "sent ?m (out_meta res)" "out_stream res = stream False True ?m"
    and run: "serialize_hw False fuel dev tab (layout ?m) ds_sizes ?b = Inr res" by blast
  have "received True ?m = ?m" using ds_messages_received i by (simp add: list_all_length length_ds_messages)
  then have "ParseFromString (depth ?m) (stream False True ?m) (blank_object (class_id (msg_metadata ?m)))
      (ucast (class_id (msg_metadata ?m))) (ds_tables (table (out_meta res))) = Inr (layout ?m)"
    using ds_parse [OF ds_message_ok [OF i], of "table (out_meta res)"] ms by (simp add: sent_def stream_def)
  moreover have "obj_metadata (layout ?m) = msg_metadata ?m" by (cases ?m) simp
  ultimately show ?thesis
    using open_board_eq [OF assms(3-5)] run ms(2) assms(1,2) i
    by (simp add: program_main_def BenchmarkInit_layout)
qed

theorem benchmark_on_card_witness:
  "\<exists>res obj. program_main (serialize_hw False 5 (card_reading 1) (table fresh_state)) any_env 0x40000000
        (replicate 512 0x80000000) (\<lambda>_. zero_metadata) (\<lambda>_. 0) 4 no_host = Inr (Some res)
    \<and> BenchmarkInit (nat 4) (\<lambda>_. zero_metadata) (\<lambda>_. 0) = Inr (obj, ds_metadata, ds_sizes)
    \<and> ParseFromString (depth (ds_messages ! nat 4)) (out_stream res) (blank_object (class_id (obj_metadata obj)))
        (ucast (class_id (obj_metadata obj))) (ds_tables (table (out_meta res))) = Inr obj"
  by (rule benchmark_on_card [where k = 0 and c = card])
    (simp_all add: no_host_def any_env_def new_FPGACtl_def map_bar_def card_def main_rows_ok card_reading_def)

text \<open>C37. The programs accept an index from 0 to 9 and refuse every other one without touching the
  board, but DeathStarBench has five messages: from 5 to 9 \<open>BenchmarkInit\<close> reads past its vector, in
  whatever program.\<close>

theorem accepted_index_overruns:
  assumes "open_board env huge_base phy_addr st = Inr b"
  shows "program_main run env huge_base phy_addr (\<lambda>_. zero_metadata) (\<lambda>_. 0) idx st
    = (if idx < 0 \<or> 9 < idx then Inr None
       else if idx < 5 then andThen (run (layout (ds_messages ! nat idx)) ds_sizes b) (\<lambda>res. Inr (Some res))
       else Inl Overrun)"
proof -
  have "nat idx < 5 \<longleftrightarrow> idx < 5" by arith
  then show ?thesis using assms by (simp add: program_main_def BenchmarkInit_layout)
qed

theorem accepted_index_overruns_witness:
  "program_main (serialize_sw True 5 (card_reading 1) (table fresh_state)) any_env 0x40000000
      (replicate 512 0x80000000) (\<lambda>_. zero_metadata) (\<lambda>_. 0) 7 no_host
    = (if (7 :: int) < 0 \<or> 9 < (7 :: int) then Inr None
       else if (7 :: int) < 5 then
         andThen (serialize_sw True 5 (card_reading 1) (table fresh_state) (layout (ds_messages ! nat 7)) ds_sizes
           (the_board 0x40000000 (replicate 512 0x80000000) no_host)) (\<lambda>res. Inr (Some res))
       else Inl Overrun)"
  by (rule accepted_index_overruns [OF open_board_eq [where c = card]])
    (simp_all add: no_host_def any_env_def new_FPGACtl_def map_bar_def card_def)

text \<open>C38. \<open>serialize_hw\<close> issues one command, and its first word, the class of the object the card is to
  serialize, is the smallest class of the message and its sub-messages.  When a sub-message has a smaller class
  than the message, that is not the class of the message: the program runs to its end all the same, having told
  the card to serialize an object of the wrong class.  The third, fourth and fifth DeathStarBench messages
  are such.\<close>

theorem hw_command_class:
  assumes "sendable sig msv m" and "rows_ok (main_state tab)" and "fits_half (stream no_encode True m)"
    and "opened b" and "k < fuel"
    and "\<And>tr. reg_value dev (tr @ replicate k (pci_bus (board_ctl b), Read_reg 812)) 812 \<noteq> 0"
    and "c \<in> set (msg_classes m)" and "unat c < unat (class_id (msg_metadata m))"
  shows "\<exists>res w j. serialize_hw no_encode fuel dev tab (layout m) msv b = Inr res
    \<and> trace (out_host res) = trace (board_host b) @ map (Pair (pci_bus (board_ctl b)))
        (opening_lines (out_meta res) @ [Write_bridge 12 w] @ replicate (Suc j) (Read_reg 812))
    \<and> w ! 0 = ucast (Min (set (msg_classes m))) \<and> w ! 0 \<noteq> ucast (class_id (msg_metadata m))"
proof -
  obtain ms j where ms: "sent m ms"
    and run: "serialize_hw no_encode fuel dev tab (layout m) msv b = Inr \<lparr>out_host =
      did (board_ctl b) (opening_lines ms
        @ [Write_bridge 12 (sercmd (host_cmd b ms (of_nat (length (stream no_encode True m)))))]
        @ replicate (Suc j) (Read_reg 812)) (board_host b),
      out_meta = ms, out_stream = stream no_encode True m, out_mem = released b\<rparr>"
    using serialize_hw_result [OF assms(1-6)] by blast
  let ?w = "sercmd (host_cmd b ms (of_nat (length (stream no_encode True m))))"
  have w: "?w ! 0 = ucast (Min (set (msg_classes m)))"
    using sent_min_class(2) [OF assms(1) ms] by (simp add: sercmd_def host_cmd_def)
  have "Min (set (msg_classes m)) \<le> c" using assms(7) by simp
  then have "unat (?w ! 0) < unat (class_id (msg_metadata m))"
    using assms(8) unfolding w by (simp add: unat_ucast_32_64 word_le_nat_alt)
  then have "?w ! 0 \<noteq> ucast (class_id (msg_metadata m))" using unat_ucast_32_64 by (metis less_irrefl)
  then show ?thesis
    using w unfolding run by (intro exI [where x = ?w] exI [where x = j] exI conjI) (rule refl | simp)+
qed

text \<open>The third message is of class 4 and has a sub-message of class 3: the command says 3.\<close>

theorem hw_command_class_witness:
  "\<exists>res w j. serialize_hw False 5 (card_reading 1) (table fresh_state) (layout (ds_messages ! 2)) ds_sizes sample_board = Inr res
    \<and> trace (out_host res) = trace (board_host sample_board) @ map (Pair (pci_bus (board_ctl sample_board)))
        (opening_lines (out_meta res) @ [Write_bridge 12 w] @ replicate (Suc j) (Read_reg 812))
    \<and> w ! 0 = 3 \<and> w ! 0 \<noteq> ucast (class_id (msg_metadata (ds_messages ! 2)))"
proof -
  have c: "msg_classes (ds_messages ! 2) = [4, 3]" "class_id (msg_metadata (ds_messages ! 2)) = 4"
    by (simp_all add: ds_message_defs ds_row_fields)
  have "\<exists>res w j. serialize_hw False 5 (card_reading 1) (table fresh_state) (layout (ds_messages ! 2)) ds_sizes sample_board = Inr res
    \<and> trace (out_host res) = trace (board_host sample_board) @ map (Pair (pci_bus (board_ctl sample_board)))
        (opening_lines (out_meta res) @ [Write_bridge 12 w] @ replicate (Suc j) (Read_reg 812))
    \<and> w ! 0 = ucast (Min (set (msg_classes (ds_messages ! 2)))) \<and> w ! 0 \<noteq> ucast (class_id (msg_metadata (ds_messages ! 2)))"
    by (rule hw_command_class [OF ds_sendable(1) main_rows_ok ds_sendable(2), where k = 0 and c = 3])
      (simp_all add: card_reading_def c)
  then show ?thesis by (simp add: c)
qed

end
